(* ===== verification/Prelude.thy ===== *)
theory Prelude
  imports Main "HOL-Library.AList" "HOL-Library.Word"
begin

text \<open>
  What every component of the model shares: the Python exceptions as a datatype, results
  that are either an exception or a value, the loops that stop at the first exception,
  insertion-ordered dictionaries, and the decimal reading and printing of integers
  (\<open>int(s)\<close>, \<open>str(n)\<close>).

  A Python function that may raise is a HOL function into \<open>exn + 'a\<close>: \<open>Inl e\<close> is a
  raised exception, \<open>Inr x\<close> a returned value. A method that also changes an object takes
  the object's state as its last argument and returns \<open>(exn + 'a) \<times> 's\<close>, so the state
  an exception leaves behind is part of the result.
\<close>

named_theorems res_simps
named_theorems dict_simps

section \<open>Exceptions and results\<close>

text \<open>
  \<open>EpochCommitState\<close> (\<open>contract.py\<close>) is here because one exception carries it.
\<close>

datatype commit_state = PREPARED | EXECUTING | COMMITTED

text \<open>
  One constructor per exception class the package raises or lets through, with its
  message. \<open>ExecutionError\<close> is \<open>ResidentEpochExecutionError\<close>, with its message, its
  commit state and its status. \<open>StructError\<close> is \<open>struct.error\<close>, \<open>JSONDecodeError\<close> is
  \<open>json.JSONDecodeError\<close>, \<open>TimeoutExpired\<close> is \<open>subprocess.TimeoutExpired\<close>. \<open>RuntimeConfigError\<close> may carry a code, what was expected and
  observed, and a remediation.
\<close>

datatype exn =
    ValueError string
  | TypeError string
  | RuntimeError string
  | KeyError string
  | IndexError string
  | AttributeError string
  | AssertionError string
  | TimeoutError string
  | OSError string
  | FileNotFoundError string
  | StructError string
  | UnicodeError string
  | CompatibilityError string
  | JSONDecodeError string
  | TimeoutExpired string
  | RuntimeConfigError string "(string \<times> string \<times> string \<times> string) option"
  | ExecutionError string commit_state "int option"

text \<open>The text of an exception, \<open>str(exc)\<close>.\<close>

fun exn_str :: "exn \<Rightarrow> string" where
  "exn_str (ValueError m) = m"
| "exn_str (TypeError m) = m"
| "exn_str (RuntimeError m) = m"
| "exn_str (KeyError m) = m"
| "exn_str (IndexError m) = m"
| "exn_str (AttributeError m) = m"
| "exn_str (AssertionError m) = m"
| "exn_str (TimeoutError m) = m"
| "exn_str (OSError m) = m"
| "exn_str (FileNotFoundError m) = m"
| "exn_str (StructError m) = m"
| "exn_str (UnicodeError m) = m"
| "exn_str (CompatibilityError m) = m"
| "exn_str (JSONDecodeError m) = m"
| "exn_str (TimeoutExpired m) = m"
| "exn_str (RuntimeConfigError m details) = m"
| "exn_str (ExecutionError m c st) = m"

text \<open>\<open>rbind r f\<close> continues with the value of \<open>r\<close>, or passes its exception on.\<close>

definition rbind :: "'e + 'a \<Rightarrow> ('a \<Rightarrow> 'e + 'b) \<Rightarrow> 'e + 'b" where
  "rbind r f = (case r of Inl e \<Rightarrow> Inl e | Inr x \<Rightarrow> f x)"

lemma rbind_simps [simp]: "rbind (Inl e) f = Inl e" "rbind (Inr x) f = f x"
  by (simp_all add: rbind_def)

lemma rbind_Inr_iff [res_simps]: "rbind r f = Inr y \<longleftrightarrow> (\<exists>x. r = Inr x \<and> f x = Inr y)"
  by (cases r) auto

lemma rbind_Inl_iff: "rbind r f = Inl e \<longleftrightarrow> r = Inl e \<or> (\<exists>x. r = Inr x \<and> f x = Inl e)"
  by (cases r) auto

text \<open>
  A chain of \<open>if c: raise E\<close> statements is a chain of conditionals. The first of these
  rules lets the simplifier read off, one guard at a time, what holds when the chain
  returns normally.
\<close>

lemma raise_if_Inr [res_simps]: "(if c then Inl e else k) = Inr x \<longleftrightarrow> \<not> c \<and> k = Inr x"
  by simp

lemma return_if_Inr [res_simps]: "(if c then Inr y else Inl e) = Inr x \<longleftrightarrow> c \<and> y = x"
  by auto

lemma isl_neg_Inr: "\<not> isl r \<longleftrightarrow> (\<exists>x. r = Inr x)"
  by (cases r) auto

lemma unit_res_cases: "(r :: exn + unit) = Inr () \<or> (\<exists>e. r = Inl e)"
  by (cases r) auto

section \<open>Loops that stop at the first exception\<close>

text \<open>\<open>for x in xs: body(x)\<close>, where the body only checks.\<close>

fun for_each :: "('a \<Rightarrow> 'e + unit) \<Rightarrow> 'a list \<Rightarrow> 'e + unit" where
  "for_each f [] = Inr ()"
| "for_each f (x # xs) = rbind (f x) (\<lambda>_. for_each f xs)"

lemma for_each_ok [res_simps]: "for_each f xs = Inr () \<longleftrightarrow> (\<forall>x \<in> set xs. f x = Inr ())"
  by (induction xs) (auto simp: rbind_Inr_iff)

lemma for_each_then [res_simps]:
  "rbind (for_each f xs) (\<lambda>_. k) = Inr y \<longleftrightarrow> (\<forall>x \<in> set xs. f x = Inr ()) \<and> k = Inr y"
  by (auto simp: rbind_Inr_iff for_each_ok)

text \<open>\<open>for x in xs: s = body(x, s)\<close>.\<close>

fun fold_res :: "('a \<Rightarrow> 's \<Rightarrow> 'e + 's) \<Rightarrow> 'a list \<Rightarrow> 's \<Rightarrow> 'e + 's" where
  "fold_res f [] s = Inr s"
| "fold_res f (x # xs) s = rbind (f x s) (fold_res f xs)"

text \<open>\<open>[body(x) for x in xs]\<close>.\<close>

fun map_res :: "('a \<Rightarrow> 'e + 'b) \<Rightarrow> 'a list \<Rightarrow> 'e + 'b list" where
  "map_res f [] = Inr []"
| "map_res f (x # xs) = rbind (f x) (\<lambda>y. rbind (map_res f xs) (\<lambda>ys. Inr (y # ys)))"

lemma map_res_list_all2:
  "map_res f xs = Inr ys \<longleftrightarrow> list_all2 (\<lambda>x y. f x = Inr y) xs ys"
  by (induction xs arbitrary: ys) (auto simp: rbind_Inr_iff list_all2_Cons1)

lemma map_res_length: "map_res f xs = Inr ys \<Longrightarrow> length ys = length xs"
  by (auto simp: map_res_list_all2 dest: list_all2_lengthD)

lemma map_res_nth: "map_res f xs = Inr ys \<Longrightarrow> i < length xs \<Longrightarrow> f (xs ! i) = Inr (ys ! i)"
  by (auto simp: map_res_list_all2 dest: list_all2_nthD)

lemma map_res_set: "map_res f xs = Inr ys \<Longrightarrow> y \<in> set ys \<Longrightarrow> \<exists>x \<in> set xs. f x = Inr y"
  by (induction xs arbitrary: ys) (auto simp: rbind_Inr_iff)

lemma list_all2_right: "list_all2 P xs ys \<Longrightarrow> y \<in> set ys \<Longrightarrow> \<exists>x \<in> set xs. P x y"
  by (induction rule: list_all2_induct) auto

lemma map_res_image: "map_res f xs = Inr ys \<Longrightarrow> x \<in> set xs \<Longrightarrow> \<exists>y \<in> set ys. f x = Inr y"
  by (induction xs arbitrary: ys) (auto simp: rbind_Inr_iff)

lemma map_res_total: "(\<And>x. x \<in> set xs \<Longrightarrow> f x = Inr (g x)) \<Longrightarrow> map_res f xs = Inr (map g xs)"
  by (induction xs) auto

lemma map_res_Inl: "map_res f xs = Inl e \<Longrightarrow> \<exists>x \<in> set xs. f x = Inl e"
  by (induction xs) (auto simp: rbind_Inl_iff)

text \<open>
  The contract of a check: a function that raises unless its argument is well-formed. The
  components that check plans, results, configurations and KV transfers interpret it, each
  with the declarative predicate its checks amount to.
\<close>

locale checked =
  fixes validate :: "'a \<Rightarrow> 'e + unit" and wf :: "'a \<Rightarrow> bool"
  assumes validate_iff: "validate x = Inr () \<longleftrightarrow> wf x"
begin

lemma validate_then_iff: "rbind (validate x) (\<lambda>_. k) = Inr y \<longleftrightarrow> wf x \<and> k = Inr y"
  by (auto simp: rbind_Inr_iff validate_iff)

lemma validate_rejects: "\<not> wf x \<longleftrightarrow> (\<exists>e. validate x = Inl e)"
  using validate_iff [of x] by (cases "validate x") auto

lemma validate_total: "wf x \<Longrightarrow> rbind (validate x) k = k ()"
  by (simp add: validate_iff [symmetric])

end

section \<open>Functions that raise no execution error\<close>

text \<open>
  \<open>ResidentEpochExecutionError\<close> carries a commit state, so it matters which code can raise
  it: a result \<open>r\<close> with \<open>no_execution r\<close> is a value or another exception.
\<close>

named_theorems no_execution_intros

fun plain_exn :: "exn \<Rightarrow> bool" where
  "plain_exn (ExecutionError m c st) = False"
| "plain_exn _ = True"

definition no_execution :: "exn + 'a \<Rightarrow> bool" where
  "no_execution r \<longleftrightarrow> (\<forall>e. r = Inl e \<longrightarrow> plain_exn e)"

lemma no_execution_simps [simp]: "no_execution (Inr x)" "no_execution (Inl e) \<longleftrightarrow> plain_exn e"
  by (simp_all add: no_execution_def)

lemma no_executionD: "no_execution r \<Longrightarrow> r = Inl e \<Longrightarrow> plain_exn e"
  by (simp add: no_execution_def)

lemma no_execution_rbind [no_execution_intros]:
  "no_execution r \<Longrightarrow> (\<And>x. r = Inr x \<Longrightarrow> no_execution (f x)) \<Longrightarrow> no_execution (rbind r f)"
  by (cases r) (auto simp: no_execution_def)

lemma no_execution_if [no_execution_intros]:
  "(c \<Longrightarrow> no_execution r) \<Longrightarrow> (\<not> c \<Longrightarrow> no_execution r') \<Longrightarrow> no_execution (if c then r else r')"
  by simp

lemma no_execution_for_each [no_execution_intros]:
  "(\<And>x. x \<in> set xs \<Longrightarrow> no_execution (f x)) \<Longrightarrow> no_execution (for_each f xs)"
  by (induction xs) (auto intro: no_execution_rbind)

lemma no_execution_map_res [no_execution_intros]:
  "(\<And>x. x \<in> set xs \<Longrightarrow> no_execution (f x)) \<Longrightarrow> no_execution (map_res f xs)"
  by (induction xs) (auto intro!: no_execution_rbind)

lemma no_execution_fold_res [no_execution_intros]:
  "(\<And>x s. x \<in> set xs \<Longrightarrow> no_execution (f x s)) \<Longrightarrow> no_execution (fold_res f xs s)"
  by (induction xs arbitrary: s) (auto intro!: no_execution_rbind)

section \<open>Dictionaries\<close>

text \<open>
  A Python \<open>dict\<close> is an association list with distinct keys, in insertion order:
  \<open>map_of d k\<close> is \<open>d.get(k)\<close>, \<open>AList.update k v d\<close> is \<open>d[k] = v\<close> (an existing key keeps
  its place, a new one goes last), \<open>AList.delete k d\<close> is \<open>del d[k]\<close> or \<open>d.pop(k, None)\<close>,
  and \<open>map fst d\<close> are the keys in iteration order.
\<close>

type_synonym ('k, 'v) dict = "('k \<times> 'v) list"

abbreviation keys :: "('k, 'v) dict \<Rightarrow> 'k list" where
  "keys d \<equiv> map fst d"

definition dict_wf :: "('k, 'v) dict \<Rightarrow> bool" where
  "dict_wf d \<longleftrightarrow> distinct (keys d)"

text \<open>\<open>d[k]\<close>, which raises for a missing key.\<close>

definition dict_item :: "(string, 'v) dict \<Rightarrow> string \<Rightarrow> exn + 'v" where
  "dict_item d k = (case map_of d k of None \<Rightarrow> Inl (KeyError k) | Some v \<Rightarrow> Inr v)"

lemma no_execution_dict_item [simp]: "no_execution (dict_item d k)"
  by (simp add: dict_item_def split: option.split)

lemma dict_item_Inr [res_simps]: "dict_item d k = Inr v \<longleftrightarrow> map_of d k = Some v"
  by (auto simp: dict_item_def split: option.splits)

lemma dict_wf_update [simp, intro]: "dict_wf d \<Longrightarrow> dict_wf (AList.update k v d)"
  by (simp add: dict_wf_def distinct_update)

lemma dict_wf_delete [simp, intro]: "dict_wf d \<Longrightarrow> dict_wf (AList.delete k d)"
  by (simp add: dict_wf_def distinct_delete)

lemma dict_wf_Nil [simp]: "dict_wf []"
  by (simp add: dict_wf_def)

lemma dict_get_update [dict_simps]:
  "map_of (AList.update k v d) j = (if j = k then Some v else map_of d j)"
  by (simp add: update_conv)

lemma dict_get_delete [dict_simps]:
  "map_of (AList.delete k d) j = (if j = k then None else map_of d j)"
  by (simp add: delete_conv)

lemma dict_keys_update [dict_simps]: "set (keys (AList.update k v d)) = insert k (set (keys d))"
  using dom_update [of k v d] by (simp add: dom_map_of_conv_image_fst)

lemma dict_keys_delete [dict_simps]: "set (keys (AList.delete k d)) = set (keys d) - {k}"
  by (induction d) (auto simp: AList.delete_eq)

lemma dict_dom_update [simp]: "fst ` set (AList.update k v d) = insert k (fst ` set d)"
  using dict_keys_update [of k v d] by simp

lemma dict_dom_delete [simp]: "fst ` set (AList.delete k d) = fst ` set d - {k}"
  using dict_keys_delete [of k d] by simp

lemma dict_get_None_iff: "map_of d k = None \<longleftrightarrow> k \<notin> set (keys d)"
  by (simp add: map_of_eq_None_iff)

lemma dict_get_Some_keys: "map_of d k = Some v \<Longrightarrow> k \<in> set (keys d)"
  using dict_get_None_iff [of d k] by auto

lemma dict_keysE: "k \<in> set (keys d) \<Longrightarrow> \<exists>v. map_of d k = Some v"
  using dict_get_None_iff [of d k] by auto

lemma dict_values_update:
  "dict_wf d \<Longrightarrow> k \<notin> set (keys d) \<Longrightarrow> map snd (AList.update k v d) = map snd d @ [v]"
  by (induction d) (auto simp: dict_wf_def)

lemma dict_value_iff: "dict_wf d \<Longrightarrow> v \<in> set (map snd d) \<longleftrightarrow> (\<exists>k. map_of d k = Some v)"
  by (force simp: dict_wf_def)

section \<open>Strings of decimal digits\<close>

definition digit_char :: "nat \<Rightarrow> char" where
  "digit_char d =
     (if d = 0 then CHR ''0'' else if d = 1 then CHR ''1'' else if d = 2 then CHR ''2''
      else if d = 3 then CHR ''3'' else if d = 4 then CHR ''4'' else if d = 5 then CHR ''5''
      else if d = 6 then CHR ''6'' else if d = 7 then CHR ''7'' else if d = 8 then CHR ''8''
      else CHR ''9'')"

definition digit_value :: "char \<Rightarrow> nat option" where
  "digit_value c = map_of
     [(CHR ''0'', 0), (CHR ''1'', 1), (CHR ''2'', 2), (CHR ''3'', 3), (CHR ''4'', 4),
      (CHR ''5'', 5), (CHR ''6'', 6), (CHR ''7'', 7), (CHR ''8'', 8), (CHR ''9'', 9)] c"

fun nat_str :: "nat \<Rightarrow> string" where
  "nat_str n = (if n < 10 then [digit_char n] else nat_str (n div 10) @ [digit_char (n mod 10)])"

declare nat_str.simps [simp del]

text \<open>\<open>str(n)\<close> of an integer.\<close>

definition int_str :: "int \<Rightarrow> string" where
  "int_str i = (if i < 0 then CHR ''-'' # nat_str (nat (- i)) else nat_str (nat i))"

text \<open>
  \<open>int(s)\<close> of an ASCII string: surrounding whitespace is stripped, an optional sign, and
  decimal digits with single underscores between digits. \<open>None\<close> is a \<open>ValueError\<close>.
\<close>

definition py_space :: "char \<Rightarrow> bool" where
  "py_space c \<longleftrightarrow> c \<in> {CHR '' '', CHR 0x09, CHR 0x0A, CHR 0x0B, CHR 0x0C, CHR 0x0D,
     CHR 0x1C, CHR 0x1D, CHR 0x1E, CHR 0x1F}"

definition strip_str :: "string \<Rightarrow> string" where
  "strip_str s = rev (dropWhile py_space (rev (dropWhile py_space s)))"

fun digits_value :: "nat \<Rightarrow> string \<Rightarrow> nat option" where
  "digits_value acc [] = Some acc"
| "digits_value acc (c # cs) =
     (case digit_value c of
        Some d \<Rightarrow> digits_value (acc * 10 + d) cs
      | None \<Rightarrow>
          (if c = CHR ''_'' then
             (case cs of
                c' # cs' \<Rightarrow>
                  (case digit_value c' of
                     Some d \<Rightarrow> digits_value (acc * 10 + d) cs'
                   | None \<Rightarrow> None)
              | [] \<Rightarrow> None)
           else None))"

definition unsigned_value :: "string \<Rightarrow> nat option" where
  "unsigned_value s =
     (case s of
        [] \<Rightarrow> None
      | c # cs \<Rightarrow> (case digit_value c of None \<Rightarrow> None | Some d \<Rightarrow> digits_value d cs))"

definition int_parse :: "string \<Rightarrow> int option" where
  "int_parse s =
     (case strip_str s of
        [] \<Rightarrow> None
      | c # cs \<Rightarrow>
          (if c = CHR ''-'' then map_option (\<lambda>n. - int n) (unsigned_value cs)
           else if c = CHR ''+'' then map_option int (unsigned_value cs)
           else map_option int (unsigned_value (c # cs))))"

lemma digit_less_10E:
  assumes "(d::nat) < 10"
  obtains "d = 0" | "d = 1" | "d = 2" | "d = 3" | "d = 4" | "d = 5" | "d = 6" | "d = 7" | "d = 8" | "d = 9"
  using assms by (metis (no_types) One_nat_def less_Suc_eq less_zeroE numeral_2_eq_2 eval_nat_numeral semiring_norm(26,27,28) numeral_1_eq_Suc_0)

lemma digit_value_char [simp]: "d < 10 \<Longrightarrow> digit_value (digit_char d) = Some d"
  by (erule digit_less_10E) (simp_all add: digit_char_def digit_value_def)

lemma digit_char_plain: "\<not> py_space (digit_char d) \<and> digit_char d \<noteq> CHR ''-'' \<and> digit_char d \<noteq> CHR ''+''"
  by (simp add: digit_char_def py_space_def)

lemma digits_value_append_digit:
  "digits_value acc s = Some n \<Longrightarrow> d < 10 \<Longrightarrow> digits_value acc (s @ [digit_char d]) = Some (n * 10 + d)"
  by (induction acc s rule: digits_value.induct) (auto split: option.splits list.splits if_splits)

lemma nat_str_nonempty [simp]: "nat_str n \<noteq> []"
  by (subst nat_str.simps) simp

lemma nat_str_chars: "c \<in> set (nat_str n) \<Longrightarrow> \<exists>d. c = digit_char d"
  by (induction n rule: nat_str.induct) (subst (asm) (2) nat_str.simps, auto split: if_splits)

lemma unsigned_value_nat_str: "unsigned_value (nat_str n) = Some n"
proof (induction n rule: nat_str.induct)
  case (1 n)
  show ?case
  proof (cases "n < 10")
    case True
    then show ?thesis by (subst nat_str.simps) (simp add: unsigned_value_def)
  next
    case False
    with "1.IH" have IH: "unsigned_value (nat_str (n div 10)) = Some (n div 10)" by simp
    obtain c cs where s: "nat_str (n div 10) = c # cs" by (cases "nat_str (n div 10)") auto
    with IH obtain d where "digit_value c = Some d" and "digits_value d cs = Some (n div 10)"
      by (auto simp: unsigned_value_def split: option.splits)
    then have "unsigned_value ((c # cs) @ [digit_char (n mod 10)]) = Some (n div 10 * 10 + n mod 10)"
      by (simp add: unsigned_value_def digits_value_append_digit)
    with False s show ?thesis by (subst nat_str.simps) simp
  qed
qed

lemma strip_str_id: "s \<noteq> [] \<Longrightarrow> \<not> py_space (hd s) \<Longrightarrow> \<not> py_space (last s) \<Longrightarrow> strip_str s = s"
  by (simp add: strip_str_def dropWhile_eq_self_iff [THEN iffD2] hd_rev)

lemma nat_str_ends: "\<not> py_space (hd (nat_str n)) \<and> \<not> py_space (last (nat_str n))"
  using nat_str_chars [of "hd (nat_str n)" n] nat_str_chars [of "last (nat_str n)" n] digit_char_plain
  by (metis hd_in_set last_in_set nat_str_nonempty)

text \<open>Printing an integer and reading it back gives the integer.\<close>

lemma int_parse_int_str: "int_parse (int_str i) = Some i"
proof (cases "i < 0")
  case True
  then have "strip_str (int_str i) = int_str i"
    using nat_str_ends [of "nat (- i)"] by (intro strip_str_id) (auto simp: int_str_def py_space_def)
  with True show ?thesis
    by (simp add: int_parse_def int_str_def unsigned_value_nat_str)
next
  case False
  then have strip: "strip_str (int_str i) = int_str i"
    using nat_str_ends [of "nat i"] by (intro strip_str_id) (auto simp: int_str_def)
  obtain c cs where s: "nat_str (nat i) = c # cs" by (cases "nat_str (nat i)") auto
  then obtain d where "c = digit_char d" using nat_str_chars [of c "nat i"] by auto
  then have "c \<noteq> CHR ''-''" "c \<noteq> CHR ''+''" using digit_char_plain by auto
  with False strip s show ?thesis
    using unsigned_value_nat_str [of "nat i"] by (simp add: int_parse_def int_str_def)
qed

text \<open>
  \<open>repr(s)\<close> of an ASCII string: single quotes, or double quotes for a string that holds a
  single quote and no double quote, with backslashes, quotes and control characters escaped.
\<close>

definition hex_char :: "nat \<Rightarrow> char" where
  "hex_char d = (if d < 10 then digit_char d else nth ''abcdef'' (d - 10))"

definition repr_char :: "char \<Rightarrow> char \<Rightarrow> string" where
  "repr_char q c =
     (if c = q \<or> c = CHR 0x5C then [CHR 0x5C, c]
      else if c = CHR 0x0A then [CHR 0x5C, CHR ''n'']
      else if c = CHR 0x0D then [CHR 0x5C, CHR ''r'']
      else if c = CHR 0x09 then [CHR 0x5C, CHR ''t'']
      else if of_char c < (32::nat) \<or> of_char c = (127::nat) then
        [CHR 0x5C, CHR ''x'', hex_char (of_char c div 16), hex_char (of_char c mod 16)]
      else [c])"

definition str_repr :: "string \<Rightarrow> string" where
  "str_repr s =
     (let q = (if CHR 0x27 \<in> set s \<and> CHR 0x22 \<notin> set s then CHR 0x22 else CHR 0x27)
      in [q] @ concat (map (repr_char q) s) @ [q])"

section \<open>Lists\<close>

text \<open>\<open>xs[i]\<close> of a Python sequence: a negative index counts from the end.\<close>

definition seq_item :: "'a list \<Rightarrow> int \<Rightarrow> exn + 'a" where
  "seq_item xs i =
     (let j = (if i < 0 then i + int (length xs) else i)
      in if 0 \<le> j \<and> j < int (length xs) then Inr (xs ! nat j) else Inl (IndexError ''list index out of range''))"

text \<open>\<open>xs[i] = v\<close>, likewise.\<close>

definition seq_set :: "'a list \<Rightarrow> int \<Rightarrow> 'a \<Rightarrow> exn + 'a list" where
  "seq_set xs i v =
     (let j = (if i < 0 then i + int (length xs) else i)
      in if 0 \<le> j \<and> j < int (length xs) then Inr (xs[nat j := v])
         else Inl (IndexError ''list assignment index out of range''))"

lemma seq_item_nth [simp]: "0 \<le> i \<Longrightarrow> i < int (length xs) \<Longrightarrow> seq_item xs i = Inr (xs ! nat i)"
  by (simp add: seq_item_def)

lemma seq_set_nth [simp]: "0 \<le> i \<Longrightarrow> i < int (length xs) \<Longrightarrow> seq_set xs i v = Inr (xs[nat i := v])"
  by (simp add: seq_set_def)

lemma no_execution_seq [simp]: "no_execution (seq_item xs i)" "no_execution (seq_set xs i v)"
  by (simp_all add: seq_item_def seq_set_def Let_def)

lemma seq_set_length: "seq_set xs i v = Inr ys \<Longrightarrow> length ys = length xs"
  by (auto simp: seq_set_def Let_def split: if_splits)

end
