(* ===== verification/Abi.thy ===== *)
theory Abi
  imports Prelude
begin

text \<open>
  \<open>abi.py\<close>: the tensors that cross the Host/UDF boundary in the old and in the minimal
  ABI, and their sizes. The module's import-time assertions are properties here.
\<close>

record tensor_spec =
  ts_name :: string
  ts_shape :: "nat list"
  ts_element_bytes :: nat

definition tensor :: "string \<Rightarrow> nat list \<Rightarrow> nat \<Rightarrow> tensor_spec" where
  "tensor name shape bytes = \<lparr>ts_name = name, ts_shape = shape, ts_element_bytes = bytes\<rparr>"

definition nbytes :: "tensor_spec \<Rightarrow> nat" where
  "nbytes t = prod_list (ts_shape t) * ts_element_bytes t"

definition COMMON_INPUTS :: "tensor_spec list" where
  "COMMON_INPUTS =
     [tensor ''token'' [4, 1] 8, tensor ''position'' [4] 8, tensor ''sequence_length'' [4, 1] 4,
      tensor ''slot_mapping'' [4] 4, tensor ''active_mask'' [4] 4, tensor ''block_table'' [4, 2] 4,
      tensor ''tiling'' [72] 1, tensor ''control'' [11] 4]"

definition KEY_CACHE :: tensor_spec where
  "KEY_CACHE = tensor ''key_cache'' [28, 8, 128, 4, 128] 2"

definition VALUE_CACHE :: tensor_spec where
  "VALUE_CACHE = tensor ''value_cache'' [28, 8, 128, 4, 128] 2"

definition TOKEN_HISTORY :: tensor_spec where
  "TOKEN_HISTORY = tensor ''token_history'' [8, 4] 8"

definition CONTROL_OUTPUT :: tensor_spec where
  "CONTROL_OUTPUT = tensor ''control_output'' [28] 4"

definition OLD_INPUTS :: "tensor_spec list" where
  "OLD_INPUTS = take 3 COMMON_INPUTS @ [KEY_CACHE] @ take 3 (drop 3 COMMON_INPUTS)
     @ [VALUE_CACHE] @ drop 6 COMMON_INPUTS"

definition OLD_OUTPUTS :: "tensor_spec list" where
  "OLD_OUTPUTS =
     [tensor ''logits_history'' [8, 4, 1, 152064] 4, TOKEN_HISTORY, KEY_CACHE, VALUE_CACHE,
      tensor ''final_token'' [4, 1] 8, tensor ''final_position'' [4] 8,
      tensor ''final_length'' [4, 1] 4, tensor ''final_slot'' [4] 4,
      tensor ''final_active'' [4] 4, CONTROL_OUTPUT]"

definition NEW_INPUTS :: "tensor_spec list" where
  "NEW_INPUTS = COMMON_INPUTS"

definition NEW_OUTPUTS :: "tensor_spec list" where
  "NEW_OUTPUTS = [TOKEN_HISTORY, CONTROL_OUTPUT]"

definition total_bytes :: "tensor_spec list \<Rightarrow> nat" where
  "total_bytes specs = sum_list (map nbytes specs)"

definition OLD_TOTAL_BYTES :: nat where
  "OLD_TOTAL_BYTES = total_bytes OLD_INPUTS + total_bytes OLD_OUTPUTS"

definition NEW_TOTAL_BYTES :: nat where
  "NEW_TOTAL_BYTES = total_bytes NEW_INPUTS + total_bytes NEW_OUTPUTS"

definition TOTAL_REDUCTION_BYTES :: int where
  "TOTAL_REDUCTION_BYTES = int OLD_TOTAL_BYTES - int NEW_TOTAL_BYTES"

definition KV_ROUND_TRIP_BYTES :: nat where
  "KV_ROUND_TRIP_BYTES = 2 * (nbytes KEY_CACHE + nbytes VALUE_CACHE)"

lemmas abi_defs = COMMON_INPUTS_def KEY_CACHE_def VALUE_CACHE_def TOKEN_HISTORY_def
  CONTROL_OUTPUT_def OLD_INPUTS_def OLD_OUTPUTS_def NEW_INPUTS_def NEW_OUTPUTS_def
  total_bytes_def nbytes_def tensor_def

section \<open>The sizes\<close>

lemma total_bytes_append: "total_bytes (xs @ ys) = total_bytes xs + total_bytes ys"
  by (simp add: total_bytes_def)

lemma total_bytes_Cons: "total_bytes (t # ts) = nbytes t + total_bytes ts"
  by (simp add: total_bytes_def)

lemma total_bytes_take_drop: "total_bytes xs = total_bytes (take n xs) + total_bytes (drop n xs)"
  by (metis append_take_drop_id total_bytes_append)

text \<open>The old inputs are the new ones and the two caches, wherever the caches were spliced in.\<close>

lemma old_inputs_bytes:
  "total_bytes OLD_INPUTS = total_bytes NEW_INPUTS + nbytes KEY_CACHE + nbytes VALUE_CACHE"
  using total_bytes_take_drop [of COMMON_INPUTS 3] total_bytes_take_drop [of "drop 3 COMMON_INPUTS" 3]
  by (simp add: OLD_INPUTS_def NEW_INPUTS_def total_bytes_append total_bytes_Cons)

end
