(* ===== verification/Config.thy ===== *)
theory Config
  imports Prelude
begin

text \<open>
  \<open>config.py\<close>: the scheduler's and worker's static limits, read from the environment.
  The environment is the dictionary \<open>os.environ\<close>.
\<close>

record epoch_config =
  cfg_max_steps :: int
  cfg_logical_capacity :: int
  cfg_physical_blocks :: int
  cfg_blocks_per_request :: int
  cfg_block_size :: int
  cfg_max_batch_size :: int

text \<open>The dataclass defaults.\<close>

definition default_config :: epoch_config where
  "default_config =
     \<lparr>cfg_max_steps = 8, cfg_logical_capacity = 8, cfg_physical_blocks = 8,
      cfg_blocks_per_request = 2, cfg_block_size = 128, cfg_max_batch_size = 4\<rparr>"

definition read_int :: "(string, string) dict \<Rightarrow> string \<Rightarrow> int \<Rightarrow> exn + int" where
  "read_int env name dflt =
     (case map_of env name of
        None \<Rightarrow> Inr dflt
      | Some raw \<Rightarrow>
          (case int_parse raw of
             None \<Rightarrow> Inl (ValueError (name @ '' must be an integer, got '' @ str_repr raw))
           | Some value \<Rightarrow> Inr value))"

definition config_validate :: "epoch_config \<Rightarrow> exn + unit" where
  "config_validate c =
     (if cfg_max_steps c \<notin> {1, 2, 4, 8} then
        Inl (ValueError ''resident epoch steps must be one of 1, 2, 4, 8'')
      else if cfg_logical_capacity c < cfg_max_steps c then
        Inl (ValueError ''logical capacity must be at least max_steps'')
      else if cfg_max_batch_size c \<noteq> 4 then
        Inl (ValueError ''the current native graph has a fixed maximum B=4'')
      else Inr ())"

definition config_from_env :: "(string, string) dict \<Rightarrow> exn + epoch_config" where
  "config_from_env env =
     rbind (read_int env ''VLLM_ASCEND_RESIDENT_EPOCH_STEPS'' 8) (\<lambda>steps.
     rbind (read_int env ''VLLM_ASCEND_RESIDENT_EPOCH_CAPACITY'' 8) (\<lambda>capacity.
       let config = default_config\<lparr>cfg_max_steps := steps, cfg_logical_capacity := capacity\<rparr>
       in rbind (config_validate config) (\<lambda>_. Inr config)))"

section \<open>What a validated configuration guarantees\<close>

definition config_ok :: "epoch_config \<Rightarrow> bool" where
  "config_ok c \<longleftrightarrow> cfg_max_steps c \<in> {1, 2, 4, 8} \<and> cfg_max_steps c \<le> cfg_logical_capacity c
     \<and> cfg_max_batch_size c = 4"

lemma config_validate_iff: "config_validate c = Inr () \<longleftrightarrow> config_ok c"
  by (auto simp: config_validate_def config_ok_def)

interpretation config_check: checked config_validate config_ok
  by unfold_locales (rule config_validate_iff)

lemma config_from_env_ok: "config_from_env env = Inr c \<Longrightarrow> config_ok c"
  by (auto simp: config_from_env_def Let_def rbind_Inr_iff config_check.validate_iff)

lemma config_from_env_fixed:
  "config_from_env env = Inr c \<Longrightarrow>
     cfg_blocks_per_request c = 2 \<and> cfg_block_size c = 128 \<and> cfg_physical_blocks c = 8"
  by (auto simp: config_from_env_def Let_def default_config_def res_simps)

lemma read_int_printed: "map_of env name = Some (int_str i) \<Longrightarrow> read_int env name d = Inr i"
  by (simp add: read_int_def int_parse_int_str)

lemma config_from_env_printed:
  assumes "map_of env ''VLLM_ASCEND_RESIDENT_EPOCH_STEPS'' = Some (int_str steps)"
    and "map_of env ''VLLM_ASCEND_RESIDENT_EPOCH_CAPACITY'' = Some (int_str capacity)"
    and "steps \<in> {1, 2, 4, 8}" and "steps \<le> capacity"
  shows "config_from_env env =
    Inr (default_config\<lparr>cfg_max_steps := steps, cfg_logical_capacity := capacity\<rparr>)"
proof -
  have "config_validate (default_config\<lparr>cfg_max_steps := steps, cfg_logical_capacity := capacity\<rparr>) = Inr ()"
    using assms(3,4) by (simp add: config_validate_iff config_ok_def default_config_def)
  then show ?thesis
    by (simp add: config_from_env_def read_int_printed [OF assms(1)] read_int_printed [OF assms(2)])
qed

end
