(* ===== verification/PyVal.thy ===== *)
theory PyVal
  imports Complex_Main Prelude
begin

text \<open>
  Dynamically typed Python values: what \<open>json.loads\<close> returns, and the attributes the
  package reads from vLLM objects typed \<open>Any\<close>. \<open>PObj\<close> stands for any other object, which
  the package only tests against \<open>None\<close> or for truth.
\<close>

section \<open>Values\<close>

text \<open>Floats, as exact rationals with the three non-finite values.\<close>

datatype pyfloat = Fin rat | PosInf | NegInf | NaN

datatype pyval =
    PNone
  | PBool bool
  | PInt int
  | PFloat pyfloat
  | PStr string
  | PList "pyval list"
  | PDict "(string \<times> pyval) list"
  | PObj

text \<open>\<open>bool(v)\<close>, the truth value an \<open>if\<close> tests.\<close>

fun truthy :: "pyval \<Rightarrow> bool" where
  "truthy PNone = False"
| "truthy (PBool b) = b"
| "truthy (PInt i) = (i \<noteq> 0)"
| "truthy (PFloat f) = (f \<noteq> Fin 0)"
| "truthy (PStr s) = (s \<noteq> [])"
| "truthy (PList xs) = (xs \<noteq> [])"
| "truthy (PDict d) = (d \<noteq> [])"
| "truthy PObj = True"

text \<open>
  Numbers compare across \<open>bool\<close>, \<open>int\<close> and \<open>float\<close>: \<open>True == 1 == 1.0\<close>.
\<close>

fun number :: "pyval \<Rightarrow> pyfloat option" where
  "number (PBool b) = Some (Fin (if b then 1 else 0))"
| "number (PInt i) = Some (Fin (of_int i))"
| "number (PFloat f) = Some f"
| "number _ = None"

definition float_eq :: "pyfloat \<Rightarrow> pyfloat \<Rightarrow> bool" where
  "float_eq x y \<longleftrightarrow> x = y \<and> x \<noteq> NaN"

text \<open>
  \<open>v == w\<close>. Lists compare element by element, dictionaries by their entries whatever
  their order.
\<close>

fun py_eq :: "pyval \<Rightarrow> pyval \<Rightarrow> bool"
  and py_eq_list :: "pyval list \<Rightarrow> pyval list \<Rightarrow> bool"
  and py_eq_items :: "(string \<times> pyval) list \<Rightarrow> (string \<times> pyval) list \<Rightarrow> bool" where
  "py_eq PNone w = (w = PNone)"
| "py_eq (PBool b) w = (case number w of None \<Rightarrow> False | Some y \<Rightarrow> float_eq (Fin (if b then 1 else 0)) y)"
| "py_eq (PInt i) w = (case number w of None \<Rightarrow> False | Some y \<Rightarrow> float_eq (Fin (of_int i)) y)"
| "py_eq (PFloat f) w = (case number w of None \<Rightarrow> False | Some y \<Rightarrow> float_eq f y)"
| "py_eq (PStr s) w = (w = PStr s)"
| "py_eq (PList xs) w = (case w of PList ys \<Rightarrow> py_eq_list xs ys | _ \<Rightarrow> False)"
| "py_eq (PDict d) w = (case w of PDict e \<Rightarrow> length d = length e \<and> py_eq_items d e | _ \<Rightarrow> False)"
| "py_eq PObj w = False"
| "py_eq_list [] ys = (ys = [])"
| "py_eq_list (x # xs) ys = (case ys of [] \<Rightarrow> False | y # ys' \<Rightarrow> py_eq x y \<and> py_eq_list xs ys')"
| "py_eq_items [] e = True"
| "py_eq_items ((k, v) # d) e = ((case map_of e k of None \<Rightarrow> False | Some w \<Rightarrow> py_eq v w) \<and> py_eq_items d e)"

lemma py_eq_int [simp]: "py_eq (PInt i) (PInt j) \<longleftrightarrow> i = j"
  by (simp add: float_eq_def)

lemma py_eq_str_right [simp]: "py_eq v (PStr s) \<longleftrightarrow> v = PStr s"
  by (cases v) auto

text \<open>\<open>isinstance\<close> tests; \<open>bool\<close> is a subclass of \<open>int\<close>.\<close>

definition is_str :: "pyval \<Rightarrow> bool" where
  "is_str v \<longleftrightarrow> (case v of PStr _ \<Rightarrow> True | _ \<Rightarrow> False)"

definition is_bool :: "pyval \<Rightarrow> bool" where
  "is_bool v \<longleftrightarrow> (case v of PBool _ \<Rightarrow> True | _ \<Rightarrow> False)"

definition is_int :: "pyval \<Rightarrow> bool" where
  "is_int v \<longleftrightarrow> (case v of PInt _ \<Rightarrow> True | PBool _ \<Rightarrow> True | _ \<Rightarrow> False)"

definition is_list :: "pyval \<Rightarrow> bool" where
  "is_list v \<longleftrightarrow> (case v of PList _ \<Rightarrow> True | _ \<Rightarrow> False)"

definition is_dict :: "pyval \<Rightarrow> bool" where
  "is_dict v \<longleftrightarrow> (case v of PDict _ \<Rightarrow> True | _ \<Rightarrow> False)"

lemmas instance_defs = is_str_def is_bool_def is_int_def is_list_def is_dict_def

text \<open>
  \<open>int(v)\<close>: floats truncate towards zero and non-finite ones raise, strings parse,
  anything else is a \<open>TypeError\<close>.
\<close>

definition rat_trunc :: "rat \<Rightarrow> int" where
  "rat_trunc q = (if q < 0 then - \<lfloor>- q\<rfloor> else \<lfloor>q\<rfloor>)"

fun py_int :: "pyval \<Rightarrow> exn + int" where
  "py_int (PBool b) = Inr (if b then 1 else 0)"
| "py_int (PInt i) = Inr i"
| "py_int (PFloat (Fin q)) = Inr (rat_trunc q)"
| "py_int (PFloat _) = Inl (ValueError ''cannot convert float to integer'')"
| "py_int (PStr s) =
     (case int_parse s of
        None \<Rightarrow> Inl (ValueError (''invalid literal for int() with base 10: '' @ str_repr s))
      | Some i \<Rightarrow> Inr i)"
| "py_int _ = Inl (TypeError ''int() argument must be a string, a bytes-like object or a real number'')"

text \<open>\<open>d.get(k)\<close> of a dictionary, \<open>None\<close> for a missing key.\<close>

definition py_get :: "(string \<times> pyval) list \<Rightarrow> string \<Rightarrow> pyval" where
  "py_get d k = (case map_of d k of None \<Rightarrow> PNone | Some v \<Rightarrow> v)"

lemma py_get_update: "py_get (AList.update k v d) j = (if j = k then v else py_get d j)"
  by (simp add: py_get_def dict_simps)

end
