(* ===== verification/Eligibility.thy ===== *)
theory Eligibility
  imports PyVal
begin

text \<open>
  \<open>eligibility.py\<close>: which requests the resident graph can serve. The request and its
  sampling parameters are vLLM objects, so their attributes are dynamic values.
\<close>

record sampling_params =
  sp_temperature :: pyval
  sp_top_p :: pyval
  sp_top_k :: pyval
  sp_min_p :: pyval
  sp_presence_penalty :: pyval
  sp_frequency_penalty :: pyval
  sp_repetition_penalty :: pyval
  sp_min_tokens :: pyval
  sp_ignore_eos :: pyval
  sp_eos_token_id :: pyval
  sp_stop :: pyval
  sp_stop_token_ids :: pyval
  sp_logprobs :: pyval
  sp_prompt_logprobs :: pyval
  sp_logit_bias :: pyval
  sp_allowed_token_ids :: pyval
  sp_bad_words :: pyval
  sp_repetition_detection :: pyval
  sp_extra_args :: pyval

text \<open>The part of a vLLM request the package reads.\<close>

record vllm_request =
  vr_request_id :: string
  vr_pooling_params :: pyval
  vr_mm_features :: pyval
  vr_lora_request :: pyval
  vr_prompt_embeds :: pyval
  vr_use_structured_output :: pyval
  vr_sampling_params :: "sampling_params option"
  vr_num_prompt_tokens :: int
  vr_num_output_tokens :: int
  vr_num_computed_tokens :: int
  vr_num_tokens :: int
  vr_max_tokens :: int
  vr_all_token_ids :: "int list"

abbreviation py_zero :: pyval where "py_zero \<equiv> PFloat (Fin 0)"
abbreviation py_one :: pyval where "py_one \<equiv> PFloat (Fin 1)"

definition request_rejection_reason :: "vllm_request \<Rightarrow> string option" where
  "request_rejection_reason r =
     (if vr_pooling_params r \<noteq> PNone then Some ''pooling-request''
      else if truthy (vr_mm_features r) then Some ''multimodal-input''
      else if vr_lora_request r \<noteq> PNone then Some ''lora''
      else if vr_prompt_embeds r \<noteq> PNone then Some ''prompt-embeds''
      else if truthy (vr_use_structured_output r) then Some ''structured-output''
      else (case vr_sampling_params r of
        None \<Rightarrow> Some ''missing-sampling-params''
      | Some p \<Rightarrow>
          (if \<not> py_eq (sp_temperature p) py_zero then Some ''non-greedy-temperature''
           else if \<not> py_eq (sp_top_p p) py_one \<or> \<not> py_eq (sp_top_k p) (PInt 0)
                   \<or> \<not> py_eq (sp_min_p p) py_zero then Some ''unsupported-sampling-filter''
           else if \<not> py_eq (sp_presence_penalty p) py_zero
                   \<or> \<not> py_eq (sp_frequency_penalty p) py_zero
                   \<or> \<not> py_eq (sp_repetition_penalty p) py_one then Some ''sampling-penalty''
           else if \<not> py_eq (sp_min_tokens p) (PInt 0) then Some ''min-tokens''
           else if truthy (sp_ignore_eos p) then Some ''ignore-eos''
           else if sp_eos_token_id p = PNone then Some ''missing-eos''
           else if truthy (sp_stop p) \<or> truthy (sp_stop_token_ids p) then Some ''extra-stop-condition''
           else if sp_logprobs p \<noteq> PNone \<or> sp_prompt_logprobs p \<noteq> PNone then Some ''logprobs''
           else if truthy (sp_logit_bias p) \<or> truthy (sp_allowed_token_ids p) then Some ''logit-processor''
           else if truthy (sp_bad_words p) then Some ''bad-words''
           else if sp_repetition_detection p \<noteq> PNone then Some ''repetition-detection''
           else if truthy (sp_extra_args p) then Some ''extra-sampling-args''
           else None)))"

section \<open>Eligible requests\<close>

text \<open>
  What the resident graph needs of a request, in one predicate: plain text decoding with
  greedy sampling, no penalty, and the end-of-sequence token as the only stop condition.
\<close>

definition greedy_params :: "sampling_params \<Rightarrow> bool" where
  "greedy_params p \<longleftrightarrow>
     py_eq (sp_temperature p) py_zero \<and> py_eq (sp_top_p p) py_one \<and> py_eq (sp_top_k p) (PInt 0)
     \<and> py_eq (sp_min_p p) py_zero \<and> py_eq (sp_presence_penalty p) py_zero
     \<and> py_eq (sp_frequency_penalty p) py_zero \<and> py_eq (sp_repetition_penalty p) py_one
     \<and> py_eq (sp_min_tokens p) (PInt 0) \<and> \<not> truthy (sp_logit_bias p)
     \<and> \<not> truthy (sp_allowed_token_ids p) \<and> \<not> truthy (sp_bad_words p)
     \<and> sp_repetition_detection p = PNone \<and> \<not> truthy (sp_extra_args p)
     \<and> sp_logprobs p = PNone \<and> sp_prompt_logprobs p = PNone"

definition eos_only_stop :: "sampling_params \<Rightarrow> bool" where
  "eos_only_stop p \<longleftrightarrow> \<not> truthy (sp_ignore_eos p) \<and> sp_eos_token_id p \<noteq> PNone
     \<and> \<not> truthy (sp_stop p) \<and> \<not> truthy (sp_stop_token_ids p)"

definition plain_text_request :: "vllm_request \<Rightarrow> bool" where
  "plain_text_request r \<longleftrightarrow> vr_pooling_params r = PNone \<and> \<not> truthy (vr_mm_features r)
     \<and> vr_lora_request r = PNone \<and> vr_prompt_embeds r = PNone \<and> \<not> truthy (vr_use_structured_output r)"

lemma rejection_chain_None: "(if c then Some x else k) = None \<longleftrightarrow> \<not> c \<and> k = None"
  by simp

lemma rejection_None_iff:
  "request_rejection_reason r = None \<longleftrightarrow>
     plain_text_request r \<and> (\<exists>p. vr_sampling_params r = Some p \<and> greedy_params p \<and> eos_only_stop p)"
  by (cases "vr_sampling_params r")
    (auto simp: request_rejection_reason_def plain_text_request_def greedy_params_def
      eos_only_stop_def rejection_chain_None simp del: py_eq.simps)

lemma eligible_has_eos:
  "request_rejection_reason r = None \<Longrightarrow>
     \<exists>p. vr_sampling_params r = Some p \<and> sp_eos_token_id p \<noteq> PNone"
  by (auto simp: rejection_None_iff eos_only_stop_def)

end
