(* ===== verification/Contract.thy ===== *)
theory Contract
  imports Prelude
begin

text \<open>
  \<open>contract.py\<close> and the constants of \<open>version.py\<close>: the plan the scheduler attaches to a
  scheduler output, the result a backend attaches to a model runner output, and the checks
  on both. \<open>plan_validate\<close> and \<open>validate_against\<close> follow the source check by check;
  \<open>plan_wf\<close> and \<open>result_wf\<close> say what the checks amount to.
\<close>

section \<open>Versions\<close>

definition PYTHON_CONTRACT_VERSION :: int where "PYTHON_CONTRACT_VERSION = 3"
definition SIDECAR_PROTOCOL_VERSION :: int where "SIDECAR_PROTOCOL_VERSION = 7"
definition SIDECAR_REQUEST_BYTES :: nat where "SIDECAR_REQUEST_BYTES = 136"
definition SIDECAR_RESPONSE_BYTES :: nat where "SIDECAR_RESPONSE_BYTES = 352"
definition HOST_UDF_INPUTS :: int where "HOST_UDF_INPUTS = 8"
definition HOST_UDF_OUTPUTS :: int where "HOST_UDF_OUTPUTS = 2"
definition CONTRACT_VERSION :: int where "CONTRACT_VERSION = PYTHON_CONTRACT_VERSION"

section \<open>Execution errors\<close>

definition input_preserving :: "commit_state \<Rightarrow> bool" where
  "input_preserving c \<longleftrightarrow> c = PREPARED"

section \<open>Plans\<close>

text \<open>The annotated \<open>Literal\<close> types are not enforced by Python, so the fields stay open.\<close>

record epoch_request =
  rq_id :: string
  rq_row :: int
  rq_generation :: int
  rq_token_id :: int
  rq_position :: int
  rq_sequence_length :: int
  rq_eos_token_id :: int
  rq_scheduler_block_ids :: "int list"
  rq_device_block_ids :: "int \<times> int"
  rq_state_owner :: string
  rq_kv_import_required :: bool

record epoch_plan =
  pl_version :: int
  pl_graph_batch_size :: int
  pl_max_steps :: int
  pl_logical_capacity :: int
  pl_requests :: "epoch_request list"
  pl_active_mask :: "int list"
  pl_sampling_mode :: int
  pl_graph_variant :: int

definition plan_req_ids :: "epoch_plan \<Rightarrow> string list" where
  "plan_req_ids p = map rq_id (pl_requests p)"

definition plan_row_generations :: "epoch_plan \<Rightarrow> exn + int list" where
  "plan_row_generations p =
     fold_res (\<lambda>r g. seq_set g (rq_row r) (rq_generation r)) (pl_requests p)
       (replicate (nat (pl_graph_batch_size p)) 0)"

definition host_replay_safe :: "epoch_plan \<Rightarrow> bool" where
  "host_replay_safe p \<longleftrightarrow> (\<forall>r \<in> set (pl_requests p). rq_state_owner r = ''host'')"

text \<open>The body of the per-request loop of \<open>validate\<close>, with \<open>expected_active\<close> as its state.\<close>

definition validate_request :: "epoch_plan \<Rightarrow> epoch_request \<Rightarrow> int list \<Rightarrow> exn + int list" where
  "validate_request p r expected =
     (if rq_row r < 0 \<or> pl_graph_batch_size p \<le> rq_row r then
        Inl (ValueError ''resident row is outside the static graph'')
      else rbind (seq_set expected (rq_row r) 1) (\<lambda>expected'.
        if rq_sequence_length r \<noteq> rq_position r + 1 then
          Inl (ValueError ''sequence length and position disagree'')
        else if rq_state_owner r \<notin> {''host'', ''device''} then
          Inl (ValueError ''resident request has an invalid state owner'')
        else if rq_kv_import_required r \<and> rq_state_owner r \<noteq> ''host'' then
          Inl (ValueError ''KV import requires Host-owned request state'')
        else if pl_logical_capacity p < rq_position r + pl_max_steps p then
          Inl (ValueError ''epoch exceeds logical capacity'')
        else Inr expected'))"

definition plan_validate :: "epoch_plan \<Rightarrow> exn + unit" where
  "plan_validate p =
     (if pl_version p \<noteq> CONTRACT_VERSION then
        Inl (ValueError (''unsupported resident epoch contract '' @ int_str (pl_version p)))
      else if pl_graph_batch_size p \<notin> {1, 2, 4} then
        Inl (ValueError ''graph batch size must be 1, 2, or 4'')
      else if \<not> (1 \<le> length (pl_requests p) \<and> int (length (pl_requests p)) \<le> pl_graph_batch_size p) then
        Inl (ValueError ''request count does not fit the static graph'')
      else if int (length (pl_active_mask p)) \<noteq> pl_graph_batch_size p then
        Inl (ValueError ''active mask does not match graph batch size'')
      else if (\<exists>v \<in> set (pl_active_mask p). v \<notin> {0, 1}) then
        Inl (ValueError ''active mask must contain only zero or one'')
      else if card (set (plan_req_ids p)) \<noteq> length (pl_requests p) then
        Inl (ValueError ''request IDs must be unique'')
      else let rows = map rq_row (pl_requests p) in
      if card (set rows) \<noteq> length rows then
        Inl (ValueError ''resident rows must be unique'')
      else let generations = map rq_generation (pl_requests p) in
      if (\<exists>g \<in> set generations. g \<le> 0) then
        Inl (ValueError ''resident generations must be positive'')
      else if card (set generations) \<noteq> length generations then
        Inl (ValueError ''resident generations must be unique'')
      else rbind (fold_res (validate_request p) (pl_requests p)
                   (replicate (nat (pl_graph_batch_size p)) 0)) (\<lambda>expected_active.
        if expected_active \<noteq> pl_active_mask p then
          Inl (ValueError ''active mask does not match resident rows'')
        else Inr ()))"

lemma no_execution_generations [simp]: "no_execution (plan_row_generations p)"
  unfolding plan_row_generations_def by (intro no_execution_intros) simp

section \<open>What validation of a plan amounts to\<close>

definition request_wf :: "epoch_plan \<Rightarrow> epoch_request \<Rightarrow> bool" where
  "request_wf p r \<longleftrightarrow>
     0 \<le> rq_row r \<and> rq_row r < pl_graph_batch_size p \<and> rq_sequence_length r = rq_position r + 1
     \<and> rq_state_owner r \<in> {''host'', ''device''}
     \<and> (rq_kv_import_required r \<longrightarrow> rq_state_owner r = ''host'')
     \<and> rq_position r + pl_max_steps p \<le> pl_logical_capacity p"

text \<open>The mask that has a one exactly at the rows in use.\<close>

definition mask_of_rows :: "int \<Rightarrow> int set \<Rightarrow> int list" where
  "mask_of_rows n rows = map (\<lambda>i. if int i \<in> rows then 1 else 0) [0..<nat n]"

definition plan_wf :: "epoch_plan \<Rightarrow> bool" where
  "plan_wf p \<longleftrightarrow>
     pl_version p = CONTRACT_VERSION \<and> pl_graph_batch_size p \<in> {1, 2, 4} \<and> pl_requests p \<noteq> []
     \<and> distinct (plan_req_ids p) \<and> distinct (map rq_row (pl_requests p))
     \<and> distinct (map rq_generation (pl_requests p))
     \<and> (\<forall>r \<in> set (pl_requests p). 0 < rq_generation r \<and> request_wf p r)
     \<and> pl_active_mask p = mask_of_rows (pl_graph_batch_size p) (rq_row ` set (pl_requests p))"

lemma length_mask_of_rows [simp]: "length (mask_of_rows n rows) = nat n"
  by (simp add: mask_of_rows_def)

lemma mask_of_rows_binary: "v \<in> set (mask_of_rows n rows) \<Longrightarrow> v \<in> {0, 1}"
  by (auto simp: mask_of_rows_def split: if_splits)

lemma mask_of_rows_empty: "mask_of_rows n {} = replicate (nat n) 0"
  by (simp add: mask_of_rows_def map_replicate_const)

lemma mask_of_rows_set:
  "0 \<le> i \<Longrightarrow> i < n \<Longrightarrow> (mask_of_rows n rows)[nat i := 1] = mask_of_rows n (insert i rows)"
  by (rule nth_equalityI) (auto simp: mask_of_rows_def nth_list_update)

lemma validate_request_mask:
  "validate_request p r (mask_of_rows (pl_graph_batch_size p) rows) = Inr m \<longleftrightarrow>
     request_wf p r \<and> m = mask_of_rows (pl_graph_batch_size p) (insert (rq_row r) rows)"
  by (auto simp: validate_request_def request_wf_def res_simps mask_of_rows_set)

lemma fold_validate_request:
  "fold_res (validate_request p) rs (mask_of_rows (pl_graph_batch_size p) rows) = Inr m \<longleftrightarrow>
     (\<forall>r \<in> set rs. request_wf p r)
     \<and> m = mask_of_rows (pl_graph_batch_size p) (rows \<union> rq_row ` set rs)"
proof (induction rs arbitrary: rows)
  case Nil
  show ?case by auto
next
  case (Cons r rs)
  show ?case
    by (auto simp: rbind_Inr_iff validate_request_mask Cons.IH insert_commute Un_commute)
qed

lemma card_set_distinct: "card (set xs) \<noteq> length xs \<longleftrightarrow> \<not> distinct xs"
  by (simp add: distinct_card card_distinct) (metis card_distinct distinct_card)

text \<open>Distinct rows inside the graph cannot be more than the graph has.\<close>

lemma rows_fit:
  assumes "distinct (map rq_row rs)" and "\<forall>r \<in> set rs. 0 \<le> rq_row r \<and> rq_row r < n" and "0 \<le> n"
  shows "int (length rs) \<le> n"
proof -
  have "card (rq_row ` set rs) \<le> card {0..<n}"
    using assms(2) by (intro card_mono) auto
  moreover have "card (rq_row ` set rs) = length rs"
    using distinct_card [OF assms(1)] by simp
  ultimately show ?thesis using assms(3) by simp
qed

lemma plan_wf_fit: "plan_wf p \<Longrightarrow> int (length (pl_requests p)) \<le> pl_graph_batch_size p"
  by (rule rows_fit) (auto simp: plan_wf_def request_wf_def)

lemma validate_mask_check:
  "rbind (fold_res (validate_request p) (pl_requests p) (replicate (nat (pl_graph_batch_size p)) 0))
     (\<lambda>m. if m \<noteq> pl_active_mask p then Inl e else Inr ()) = Inr () \<longleftrightarrow>
   (\<forall>r \<in> set (pl_requests p). request_wf p r)
     \<and> pl_active_mask p = mask_of_rows (pl_graph_batch_size p) (rq_row ` set (pl_requests p))"
  using fold_validate_request [of p "pl_requests p" "{}"]
  by (auto simp: rbind_Inr_iff raise_if_Inr mask_of_rows_empty)

lemma plan_validate_checks:
  "plan_validate p = Inr () \<longleftrightarrow>
     pl_version p = CONTRACT_VERSION \<and> pl_graph_batch_size p \<in> {1, 2, 4}
     \<and> (1 \<le> length (pl_requests p) \<and> int (length (pl_requests p)) \<le> pl_graph_batch_size p)
     \<and> int (length (pl_active_mask p)) = pl_graph_batch_size p
     \<and> (\<forall>v \<in> set (pl_active_mask p). v \<in> {0, 1})
     \<and> distinct (plan_req_ids p) \<and> distinct (map rq_row (pl_requests p))
     \<and> (\<forall>g \<in> set (map rq_generation (pl_requests p)). 0 < g)
     \<and> distinct (map rq_generation (pl_requests p))
     \<and> (\<forall>r \<in> set (pl_requests p). request_wf p r)
     \<and> pl_active_mask p = mask_of_rows (pl_graph_batch_size p) (rq_row ` set (pl_requests p))"
  unfolding plan_validate_def Let_def raise_if_Inr validate_mask_check card_set_distinct
    card_set_distinct [of "plan_req_ids p", unfolded length_map plan_req_ids_def, folded plan_req_ids_def]
  by (simp only: not_not bex_simps not_less not_le simp_thms)

lemma plan_validate_iff_wf: "plan_validate p = Inr () \<longleftrightarrow> plan_wf p"
proof
  assume "plan_validate p = Inr ()"
  then show "plan_wf p" by (auto simp: plan_validate_checks plan_wf_def)
next
  assume wf: "plan_wf p"
  then have "1 \<le> length (pl_requests p)" "int (length (pl_active_mask p)) = pl_graph_batch_size p"
    "\<forall>v \<in> set (pl_active_mask p). v \<in> {0, 1}"
    by (auto simp: plan_wf_def Suc_le_eq mask_of_rows_def)
  with wf plan_wf_fit [OF wf] show "plan_validate p = Inr ()"
    by (auto simp: plan_validate_checks plan_wf_def)
qed

interpretation plan_check: checked plan_validate plan_wf
  by unfold_locales (rule plan_validate_iff_wf)

section \<open>Results\<close>

record epoch_result =
  er_version :: int
  er_route :: string
  er_status :: int
  er_model_calls :: int
  er_computed_steps :: "(string, int) dict"
  er_row_generations :: "int list"
  er_commit_state :: commit_state
  er_fallback_safe :: bool
  er_feed_calls :: int
  er_fetch_calls :: int
  er_wall_us :: int
  er_native_cpu_us :: int
  er_declared_input_bytes :: int
  er_declared_output_bytes :: int
  er_socket_send_calls :: int
  er_socket_receive_calls :: int
  er_kv_imported :: bool
  er_kv_import_checksum :: int
  er_kv_snapshot_checksum :: int
  er_kv_transfer_mode :: string

text \<open>
  The constructor with the dataclass defaults; the other fields are set by record update.
\<close>

definition make_result :: "int \<Rightarrow> string \<Rightarrow> int \<Rightarrow> int \<Rightarrow> (string, int) dict \<Rightarrow> epoch_result" where
  "make_result version route status model_calls computed_steps =
     \<lparr>er_version = version, er_route = route, er_status = status, er_model_calls = model_calls,
      er_computed_steps = computed_steps, er_row_generations = [], er_commit_state = COMMITTED,
      er_fallback_safe = False, er_feed_calls = 1, er_fetch_calls = 1, er_wall_us = 0,
      er_native_cpu_us = 0, er_declared_input_bytes = 0, er_declared_output_bytes = 0,
      er_socket_send_calls = 1, er_socket_receive_calls = 1, er_kv_imported = False,
      er_kv_import_checksum = 0, er_kv_snapshot_checksum = 0, er_kv_transfer_mode = ''none''\<rparr>"

definition on_device :: "epoch_result \<Rightarrow> bool" where
  "on_device r \<longleftrightarrow> er_route r = ''device''"

definition on_host :: "epoch_result \<Rightarrow> bool" where
  "on_host r \<longleftrightarrow> er_route r = ''host_fallback''"

text \<open>The local \<open>transfer_mode\<close> of \<open>validate_against\<close>.\<close>

definition transfer_mode :: "epoch_result \<Rightarrow> string" where
  "transfer_mode r =
     (if er_kv_imported r \<and> er_kv_transfer_mode r = ''none'' then ''host_snapshot''
      else er_kv_transfer_mode r)"

text \<open>The body of the per-request loop.\<close>

definition validate_steps ::
  "epoch_plan \<Rightarrow> epoch_result \<Rightarrow> (string, int list) dict \<Rightarrow> epoch_request \<Rightarrow> exn + unit" where
  "validate_steps p r sampled q =
     rbind (dict_item (er_computed_steps r) (rq_id q)) (\<lambda>steps.
     rbind (dict_item sampled (rq_id q)) (\<lambda>tokens.
       if steps < 1 \<or> pl_max_steps p < steps then
         Inl (ValueError ''computed step count is outside the epoch'')
       else if int (length tokens) \<noteq> steps then
         Inl (ValueError ''sampled token count and computed steps disagree'')
       else if on_host r \<and> steps \<noteq> 1 then
         Inl (ValueError ''host fallback must retain one-step vLLM semantics'')
       else if on_device r \<and> steps < pl_max_steps p \<and> (tokens = [] \<or> last tokens \<noteq> rq_eos_token_id q) then
         Inl (ValueError ''a short device epoch must terminate at EOS'')
       else Inr ()))"

text \<open>\<open>max(d.values())\<close>, which raises for an empty dictionary.\<close>

definition max_value :: "(string, int) dict \<Rightarrow> exn + int" where
  "max_value d = (if d = [] then Inl (ValueError ''max() arg is an empty sequence'')
     else Inr (Max (set (map snd d))))"

definition validate_against ::
  "epoch_result \<Rightarrow> epoch_plan \<Rightarrow> (string, int list) dict \<Rightarrow> exn + unit" where
  "validate_against r p sampled =
     (if er_version r \<noteq> pl_version p then
        Inl (ValueError ''resident epoch result version mismatch'')
      else if set (keys (er_computed_steps r)) \<noteq> set (plan_req_ids p) then
        Inl (ValueError ''resident epoch result request set mismatch'')
      else if set (keys sampled) \<noteq> set (plan_req_ids p) then
        Inl (ValueError ''resident epoch output request set mismatch'')
      else if on_device r \<and> er_status r \<noteq> 0 then
        Inl (ValueError ''failed device execution cannot be committed'')
      else if on_device r \<and> er_commit_state r \<noteq> COMMITTED then
        Inl (ValueError ''device execution result is not committed'')
      else if on_device r \<and> (er_feed_calls r \<noteq> 1 \<or> er_fetch_calls r \<noteq> 1) then
        Inl (ValueError ''device epoch must use exactly one Feed and one Fetch'')
      else rbind (if on_device r then rbind (plan_row_generations p) (\<lambda>g. Inr (er_row_generations r = g))
                  else Inr True) (\<lambda>same.
      if \<not> same then
        Inl (ValueError ''device resident generations disagree with the plan'')
      else if on_device r \<and> (\<exists>q \<in> set (pl_requests p). rq_kv_import_required q) \<and> \<not> er_kv_imported r then
        Inl (ValueError ''device result did not commit the requested KV import'')
      else if er_kv_imported r \<and> (er_kv_import_checksum r = 0
              \<or> transfer_mode r \<notin> {''host_snapshot'', ''device_ipc''}) then
        Inl (ValueError ''device result did not prove an imported KV transfer'')
      else if er_kv_imported r \<and> transfer_mode r = ''host_snapshot''
              \<and> (er_kv_snapshot_checksum r = 0 \<or> er_kv_import_checksum r \<noteq> er_kv_snapshot_checksum r) then
        Inl (ValueError ''device result did not prove equivalent imported KV from the Host snapshot'')
      else if \<not> er_kv_imported r \<and> transfer_mode r \<noteq> ''none'' then
        Inl (ValueError ''KV transfer mode is set without an import'')
      else if on_host r \<and> \<not> er_fallback_safe r then
        Inl (ValueError ''host fallback must be declared input-preserving'')
      else if on_host r \<and> er_commit_state r \<noteq> PREPARED then
        Inl (ValueError ''host fallback requires a prepared device state'')
      else if on_host r \<and> \<not> host_replay_safe p then
        Inl (ValueError ''Host no longer owns every request state'')
      else if on_host r \<and> (er_feed_calls r \<noteq> 0 \<or> er_fetch_calls r \<noteq> 0) then
        Inl (ValueError ''Host fallback result cannot claim DataFlow calls'')
      else rbind (for_each (validate_steps p r sampled) (pl_requests p)) (\<lambda>_.
      if on_device r then
        rbind (max_value (er_computed_steps r)) (\<lambda>m.
          if er_model_calls r \<noteq> m then
            Inl (ValueError ''device model-call count disagrees with executed steps'')
          else Inr ())
      else Inr ())))"

section \<open>What validation of a result amounts to\<close>

definition device_committed :: "epoch_plan \<Rightarrow> epoch_result \<Rightarrow> bool" where
  "device_committed p r \<longleftrightarrow>
     er_status r = 0 \<and> er_commit_state r = COMMITTED \<and> er_feed_calls r = 1 \<and> er_fetch_calls r = 1
     \<and> plan_row_generations p = Inr (er_row_generations r)
     \<and> max_value (er_computed_steps r) = Inr (er_model_calls r)
     \<and> ((\<exists>q \<in> set (pl_requests p). rq_kv_import_required q) \<longrightarrow> er_kv_imported r)"

definition host_replayed :: "epoch_plan \<Rightarrow> epoch_result \<Rightarrow> bool" where
  "host_replayed p r \<longleftrightarrow>
     er_fallback_safe r \<and> er_commit_state r = PREPARED \<and> host_replay_safe p
     \<and> er_feed_calls r = 0 \<and> er_fetch_calls r = 0"

definition import_proved :: "epoch_result \<Rightarrow> bool" where
  "import_proved r \<longleftrightarrow>
     (if er_kv_imported r then
        er_kv_import_checksum r \<noteq> 0
        \<and> (transfer_mode r = ''device_ipc''
           \<or> transfer_mode r = ''host_snapshot'' \<and> er_kv_import_checksum r = er_kv_snapshot_checksum r)
      else er_kv_transfer_mode r = ''none'')"

definition steps_wf ::
  "epoch_plan \<Rightarrow> epoch_result \<Rightarrow> (string, int list) dict \<Rightarrow> epoch_request \<Rightarrow> bool" where
  "steps_wf p r sampled q \<longleftrightarrow>
     (\<exists>steps tokens. map_of (er_computed_steps r) (rq_id q) = Some steps
        \<and> map_of sampled (rq_id q) = Some tokens
        \<and> 1 \<le> steps \<and> steps \<le> pl_max_steps p \<and> int (length tokens) = steps
        \<and> (on_host r \<longrightarrow> steps = 1)
        \<and> (on_device r \<longrightarrow> steps = pl_max_steps p \<or> last tokens = rq_eos_token_id q))"

definition result_wf :: "epoch_plan \<Rightarrow> epoch_result \<Rightarrow> (string, int list) dict \<Rightarrow> bool" where
  "result_wf p r sampled \<longleftrightarrow>
     er_version r = pl_version p
     \<and> set (keys (er_computed_steps r)) = set (plan_req_ids p)
     \<and> set (keys sampled) = set (plan_req_ids p)
     \<and> (on_device r \<longrightarrow> device_committed p r) \<and> (on_host r \<longrightarrow> host_replayed p r)
     \<and> import_proved r \<and> (\<forall>q \<in> set (pl_requests p). steps_wf p r sampled q)"

lemma validate_steps_iff: "validate_steps p r sampled q = Inr () \<longleftrightarrow> steps_wf p r sampled q"
  unfolding validate_steps_def steps_wf_def rbind_Inr_iff raise_if_Inr dict_item_Inr
  by (auto simp: on_device_def on_host_def Suc_le_eq)

lemma import_checks:
  "(\<not> (er_kv_imported r \<and> (er_kv_import_checksum r = 0
        \<or> transfer_mode r \<notin> {''host_snapshot'', ''device_ipc''}))
    \<and> \<not> (er_kv_imported r \<and> transfer_mode r = ''host_snapshot''
        \<and> (er_kv_snapshot_checksum r = 0 \<or> er_kv_import_checksum r \<noteq> er_kv_snapshot_checksum r))
    \<and> \<not> (\<not> er_kv_imported r \<and> transfer_mode r \<noteq> ''none''))
   \<longleftrightarrow> import_proved r"
  by (cases "er_kv_imported r") (auto simp: import_proved_def transfer_mode_def)

lemma generations_check:
  "rbind (if on_device r then rbind (plan_row_generations p) (\<lambda>g. Inr (er_row_generations r = g)) else Inr True)
     (\<lambda>same. if \<not> same then Inl e else k) = Inr y
   \<longleftrightarrow> (on_device r \<longrightarrow> plan_row_generations p = Inr (er_row_generations r)) \<and> k = Inr y"
  by (cases "plan_row_generations p") auto

lemma model_calls_check:
  "(if on_device r then
        rbind (max_value d) (\<lambda>m. if calls \<noteq> m then Inl e else Inr ())
      else Inr ()) = Inr () \<longleftrightarrow> (on_device r \<longrightarrow> max_value d = Inr calls)"
  by (cases "max_value d") auto

lemma validate_against_iff_wf: "validate_against r p sampled = Inr () \<longleftrightarrow> result_wf p r sampled"
  unfolding validate_against_def raise_if_Inr generations_check for_each_then validate_steps_iff
    model_calls_check result_wf_def device_committed_def host_replayed_def import_checks [symmetric]
  by (cases "on_device r"; cases "on_host r") (simp_all only: simp_thms not_not de_Morgan_disj de_Morgan_conj conj_ac disj_ac imp_conv_disj)

interpretation result_check: checked "\<lambda>(r, p, sampled). validate_against r p sampled" "\<lambda>(r, p, sampled). result_wf p r sampled"
  by unfold_locales (auto simp: validate_against_iff_wf)

section \<open>Plans and results as attributes of vLLM objects\<close>

text \<open>
  \<open>getattr(obj, ATTR, None)\<close>: no value, a value of the expected class, or some other object.
\<close>

datatype 'a attr = Absent | Attached 'a | Foreign

text \<open>The attribute's value after \<open>attach_plan\<close> and \<open>attach_result\<close>.\<close>

definition attach_plan :: "epoch_plan \<Rightarrow> exn + epoch_plan attr" where
  "attach_plan p = rbind (plan_validate p) (\<lambda>_. Inr (Attached p))"

definition get_plan :: "epoch_plan attr \<Rightarrow> exn + epoch_plan option" where
  "get_plan a = (case a of Absent \<Rightarrow> Inr None | Attached p \<Rightarrow> Inr (Some p)
     | Foreign \<Rightarrow> Inl (TypeError ''invalid resident epoch plan attached to SchedulerOutput''))"

definition attach_result :: "epoch_result \<Rightarrow> epoch_result attr" where
  "attach_result r = Attached r"

definition get_result :: "epoch_result attr \<Rightarrow> exn + epoch_result option" where
  "get_result a = (case a of Absent \<Rightarrow> Inr None | Attached r \<Rightarrow> Inr (Some r)
     | Foreign \<Rightarrow> Inl (TypeError ''invalid resident epoch result attached to ModelRunnerOutput''))"

text \<open>vLLM's \<open>ModelRunnerOutput\<close>, with the attached result.\<close>

record runner_output =
  ro_req_ids :: "string list"
  ro_req_id_to_index :: "(string, nat) dict"
  ro_sampled_token_ids :: "int list list"
  ro_result :: "epoch_result attr"

end
