(* ===== verification/Metrics.thy ===== *)
theory Metrics
  imports PyVal Contract "HOL-Library.List_Lexorder" "HOL-Library.Char_ord"
begin

text \<open>
  \<open>benchmark_metrics.py\<close>: the counters the scheduler keeps during a benchmark, the event
  it appends to a journal for each update, and the replay that rebuilds the counters from
  the journal when the process died before writing them. The journal is the list of events
  \<open>json.loads\<close> gives back; the file descriptors and the atomic rename of \<open>flush\<close> are not
  modelled.
\<close>

record metrics =
  mt_enabled :: bool
  mt_counters :: "(string, int) dict"
  mt_rejections :: "(string, int) dict"
  mt_epoch_steps :: "(int, int) dict"
  mt_journal :: "pyval list"

definition new_metrics :: "bool \<Rightarrow> metrics" where
  "new_metrics enabled =
     \<lparr>mt_enabled = enabled, mt_counters = [], mt_rejections = [], mt_epoch_steps = [], mt_journal = []\<rparr>"

text \<open>\<open>counter[k] += n\<close> on a \<open>Counter\<close>, whose missing keys read as zero.\<close>

definition bump :: "'k \<Rightarrow> int \<Rightarrow> ('k, int) dict \<Rightarrow> ('k, int) dict" where
  "bump k n d = AList.update k ((case map_of d k of None \<Rightarrow> 0 | Some v \<Rightarrow> v) + n) d"

definition bump_all :: "('k \<times> int) list \<Rightarrow> ('k, int) dict \<Rightarrow> ('k, int) dict" where
  "bump_all kns d = fold (\<lambda>(k, n). bump k n) kns d"

text \<open>\<open>rejection or "unspecified"\<close>.\<close>

definition rejection_key :: "string option \<Rightarrow> string" where
  "rejection_key rejection =
     (case rejection of None \<Rightarrow> ''unspecified'' | Some s \<Rightarrow> if s = [] then ''unspecified'' else s)"

definition append_event :: "pyval \<Rightarrow> metrics \<Rightarrow> metrics" where
  "append_event event m = (if mt_enabled m then m\<lparr>mt_journal := mt_journal m @ [event]\<rparr> else m)"

definition schedule_event :: "epoch_plan option \<Rightarrow> string option \<Rightarrow> pyval" where
  "schedule_event plan rejection =
     (case plan of
        None \<Rightarrow> PDict [(''kind'', PStr ''schedule''), (''device'', PBool False),
          (''rejection'', case rejection of None \<Rightarrow> PNone | Some s \<Rightarrow> PStr s)]
      | Some p \<Rightarrow> PDict [(''kind'', PStr ''schedule''), (''device'', PBool True),
          (''request_count'', PInt (int (length (pl_requests p)))),
          (''max_steps'', PInt (pl_max_steps p))])"

definition record_schedule :: "epoch_plan option \<Rightarrow> string option \<Rightarrow> metrics \<Rightarrow> metrics" where
  "record_schedule plan rejection m =
     (if \<not> mt_enabled m then m
      else append_event (schedule_event plan rejection)
        (case plan of
           None \<Rightarrow>
             m\<lparr>mt_counters := bump_all [(''schedule_calls'', 1), (''host_schedule_calls'', 1)] (mt_counters m),
               mt_rejections := bump (rejection_key rejection) 1 (mt_rejections m)\<rparr>
         | Some p \<Rightarrow>
             m\<lparr>mt_counters := bump_all
                 [(''schedule_calls'', 1), (''device_plan_calls'', 1),
                  (''device_planned_requests'', int (length (pl_requests p))),
                  (''device_planned_model_calls'', pl_max_steps p)] (mt_counters m),
               mt_epoch_steps := bump (pl_max_steps p) 1 (mt_epoch_steps m)\<rparr>))"

definition result_event :: "epoch_result \<Rightarrow> pyval" where
  "result_event r =
     (if \<not> on_device r then PDict [(''kind'', PStr ''result''), (''route'', PStr (er_route r))]
      else PDict
        [(''kind'', PStr ''result''), (''route'', PStr ''device''),
         (''model_calls'', PInt (er_model_calls r)),
         (''computed_steps'', PDict (map (\<lambda>(k, v). (k, PInt v)) (er_computed_steps r))),
         (''feed_calls'', PInt (er_feed_calls r)), (''fetch_calls'', PInt (er_fetch_calls r)),
         (''wall_us'', PInt (er_wall_us r)), (''native_cpu_us'', PInt (er_native_cpu_us r)),
         (''socket_send_calls'', PInt (er_socket_send_calls r)),
         (''socket_receive_calls'', PInt (er_socket_receive_calls r)),
         (''kv_imported'', PBool (er_kv_imported r))])"

definition device_counts :: "epoch_result \<Rightarrow> (string \<times> int) list" where
  "device_counts r =
     [(''device_epochs'', 1), (''device_model_calls'', er_model_calls r),
      (''device_request_tokens'', sum_list (map snd (er_computed_steps r))),
      (''feed_calls'', er_feed_calls r), (''fetch_calls'', er_fetch_calls r),
      (''native_wall_us'', er_wall_us r), (''native_cpu_us'', er_native_cpu_us r),
      (''socket_send_calls'', er_socket_send_calls r),
      (''socket_receive_calls'', er_socket_receive_calls r)]"

definition record_result :: "epoch_result \<Rightarrow> metrics \<Rightarrow> metrics" where
  "record_result r m =
     (if \<not> mt_enabled m then m
      else append_event (result_event r)
        (if \<not> on_device r then
           m\<lparr>mt_counters := bump ''non_device_results'' 1 (mt_counters m)\<rparr>
         else
           (let c = bump_all (device_counts r) (mt_counters m)
            in m\<lparr>mt_counters := (if er_kv_imported r then bump ''kv_imports'' 1 c else c)\<rparr>)))"

text \<open>\<open>sorted(d.items())\<close>: the keys are distinct, so they alone decide the order.\<close>

definition sorted_items :: "('k::linorder, 'v) dict \<Rightarrow> ('k \<times> 'v) list" where
  "sorted_items d = sort_key fst d"

definition as_record :: "metrics \<Rightarrow> pyval" where
  "as_record m = PDict
     [(''schema_version'', PInt 1),
      (''kind'', PStr ''Cruise M4a benchmark-only resident epoch counters''),
      (''counters'', PDict (map (\<lambda>(k, n). (k, PInt n)) (sorted_items (mt_counters m)))),
      (''epoch_steps'', PDict (map (\<lambda>(k, n). (int_str k, PInt n)) (sorted_items (mt_epoch_steps m)))),
      (''rejections'', PDict (map (\<lambda>(k, n). (k, PInt n)) (sorted_items (mt_rejections m))))]"

section \<open>Replay\<close>

text \<open>\<open>int(event[name])\<close>.\<close>

definition int_field :: "(string \<times> pyval) list \<Rightarrow> string \<Rightarrow> exn + int" where
  "int_field e name = rbind (dict_item e name) py_int"

text \<open>\<open>sum(int(value) for value in event["computed_steps"].values())\<close>.\<close>

definition steps_sum :: "(string \<times> pyval) list \<Rightarrow> exn + int" where
  "steps_sum e =
     rbind (dict_item e ''computed_steps'') (\<lambda>v.
       case v of
         PDict d \<Rightarrow> rbind (map_res py_int (map snd d)) (\<lambda>ns. Inr (sum_list ns))
       | _ \<Rightarrow> Inl (AttributeError ''object has no attribute 'values' ''))"

definition replay_counter :: "(string \<times> pyval) list \<Rightarrow> string \<Rightarrow> (string, int) dict \<Rightarrow> exn + (string, int) dict" where
  "replay_counter e name c =
     rbind (int_field e name) (\<lambda>n.
       Inr (bump (if name = ''wall_us'' then ''native_wall_us'' else name) n c))"

definition replay_schedule :: "(string \<times> pyval) list \<Rightarrow> metrics \<Rightarrow> exn + metrics" where
  "replay_schedule e m =
     rbind
       (if truthy (py_get e ''device'') then
          rbind (int_field e ''request_count'') (\<lambda>requests.
          rbind (int_field e ''max_steps'') (\<lambda>steps.
            Inr (m\<lparr>mt_counters := bump_all
                    [(''device_plan_calls'', 1), (''device_planned_requests'', requests),
                     (''device_planned_model_calls'', steps)] (mt_counters m),
                  mt_epoch_steps := bump steps 1 (mt_epoch_steps m)\<rparr>)))
        else
          (case (if truthy (py_get e ''rejection'') then py_get e ''rejection'' else PStr ''unspecified'') of
             PStr s \<Rightarrow>
               Inr (m\<lparr>mt_counters := bump_all [(''host_schedule_calls'', 1)] (mt_counters m),
                      mt_rejections := bump s 1 (mt_rejections m)\<rparr>)
           | _ \<Rightarrow> Inl (TypeError ''rejection is not a string'')))
       (\<lambda>m'. Inr (m'\<lparr>mt_counters := bump ''schedule_calls'' 1 (mt_counters m')\<rparr>))"

definition replay_result :: "(string \<times> pyval) list \<Rightarrow> metrics \<Rightarrow> exn + metrics" where
  "replay_result e m =
     (if \<not> py_eq (py_get e ''route'') (PStr ''device'') then
        Inr (m\<lparr>mt_counters := bump ''non_device_results'' 1 (mt_counters m)\<rparr>)
      else
        rbind (int_field e ''model_calls'') (\<lambda>calls.
        rbind (steps_sum e) (\<lambda>tokens.
        rbind (fold_res (replay_counter e)
                 [''feed_calls'', ''fetch_calls'', ''wall_us'', ''native_cpu_us'',
                  ''socket_send_calls'', ''socket_receive_calls'']
                 (bump_all [(''device_epochs'', 1), (''device_model_calls'', calls),
                    (''device_request_tokens'', tokens)] (mt_counters m))) (\<lambda>c.
          Inr (m\<lparr>mt_counters := (if truthy (py_get e ''kv_imported'') then bump ''kv_imports'' 1 c else c)\<rparr>)))))"

definition replay_event :: "pyval \<Rightarrow> metrics \<Rightarrow> exn + metrics" where
  "replay_event event m =
     (case event of
        PDict e \<Rightarrow>
          (if py_eq (py_get e ''kind'') (PStr ''schedule'') then replay_schedule e m
           else if py_eq (py_get e ''kind'') (PStr ''result'') then replay_result e m
           else Inr m)
      | _ \<Rightarrow> Inl (AttributeError ''object has no attribute 'get' ''))"

definition replay_event_journal :: "pyval list \<Rightarrow> exn + pyval" where
  "replay_event_journal events =
     rbind (fold_res replay_event events (new_metrics False)) (\<lambda>m. Inr (as_record m))"

section \<open>The journal determines the counters\<close>

text \<open>
  Replay applies some updates in another order than recording did, so the dictionaries it
  builds agree as maps and not as lists; sorting them makes the records equal.
\<close>

definition count_eq :: "('k, int) dict \<Rightarrow> ('k, int) dict \<Rightarrow> bool" where
  "count_eq d d' \<longleftrightarrow> dict_wf d \<and> dict_wf d' \<and> map_of d = map_of d'"

definition same_counts :: "metrics \<Rightarrow> metrics \<Rightarrow> bool" where
  "same_counts m m' \<longleftrightarrow> count_eq (mt_counters m) (mt_counters m')
     \<and> count_eq (mt_rejections m) (mt_rejections m') \<and> count_eq (mt_epoch_steps m) (mt_epoch_steps m')"

lemma bump_all_Nil: "bump_all [] d = d"
  by (simp add: bump_all_def)

lemma bump_all_Cons: "bump_all ((k, n) # kns) d = bump_all kns (bump k n d)"
  by (simp add: bump_all_def)

lemmas bump_all_simps = bump_all_Nil bump_all_Cons

lemma bump_get: "map_of (bump k n d) =
    (map_of d)(k \<mapsto> (case map_of d k of None \<Rightarrow> 0 | Some v \<Rightarrow> v) + n)"
  by (simp add: bump_def update_conv')

lemma count_eq_bump [intro]: "count_eq d d' \<Longrightarrow> count_eq (bump k n d) (bump k n d')"
  by (simp add: count_eq_def bump_get) (simp add: bump_def)

lemma count_eq_bump_swap: "count_eq d d' \<Longrightarrow> count_eq (bump k n (bump j i d)) (bump j i (bump k n d'))"
  unfolding count_eq_def by (auto simp: bump_get fun_eq_iff) (auto simp: bump_def)

lemma count_eq_bump_all [intro]: "count_eq d d' \<Longrightarrow> count_eq (bump_all kns d) (bump_all kns d')"
proof (induction kns arbitrary: d d')
  case Nil
  then show ?case by (simp add: bump_all_Nil)
next
  case (Cons x kns)
  obtain k n where "x = (k, n)" by (cases x)
  with Cons.IH [OF count_eq_bump [OF Cons.prems]] show ?case by (simp add: bump_all_Cons)
qed

lemma count_eq_trans [trans]: "count_eq a b \<Longrightarrow> count_eq b c \<Longrightarrow> count_eq a c"
  by (simp add: count_eq_def)

lemma count_eq_refl: "count_eq d d' \<Longrightarrow> count_eq d' d'"
  by (simp add: count_eq_def)

text \<open>The first of several updates may as well be made last.\<close>

lemma count_eq_rotate:
  "count_eq d d' \<Longrightarrow> count_eq (bump_all ((k, n) # kns) d) (bump k n (bump_all kns d'))"
proof (induction kns arbitrary: d d')
  case Nil
  then show ?case by (auto simp: bump_all_simps)
next
  case (Cons x kns)
  obtain j i where x: "x = (j, i)" by (cases x)
  have "count_eq (bump_all kns (bump j i (bump k n d))) (bump_all kns (bump k n (bump j i d')))"
    by (intro count_eq_bump_all count_eq_bump_swap Cons.prems)
  moreover have "count_eq (bump_all kns (bump k n (bump j i d'))) (bump k n (bump_all kns (bump j i d')))"
    using Cons.IH [OF count_eq_bump [OF count_eq_refl [OF Cons.prems], of j i]] by (simp add: bump_all_Cons)
  ultimately show ?case unfolding x bump_all_Cons by (rule count_eq_trans)
qed

lemma sorted_items_unique: "count_eq d d' \<Longrightarrow> sorted_items d = sorted_items d'"
  unfolding sorted_items_def count_eq_def dict_wf_def
  by (intro map_sorted_distinct_set_unique [where f = fst])
    (auto simp: distinct_map map_of_inject_set [symmetric] simp del: set_map dest: map_of_inject_set [THEN iffD1, rotated -1])

lemma same_counts_record: "same_counts m m' \<Longrightarrow> as_record m = as_record m'"
  unfolding same_counts_def as_record_def
  by (elim conjE) (drule sorted_items_unique, drule sorted_items_unique, drule sorted_items_unique, simp only:)

lemma sum_steps_event:
  "map_res py_int (map snd (map (\<lambda>(k, v). (k, PInt v)) d)) = Inr (map snd d)"
  by (induction d) auto

lemma replay_schedule_event:
  assumes "same_counts m m'" and "mt_enabled m"
  shows "\<exists>m''. replay_event (schedule_event plan rejection) m' = Inr m'' \<and>
    same_counts (record_schedule plan rejection m) m''"
proof (cases plan)
  case None
  with assms show ?thesis
    by (cases rejection)
      (auto simp: replay_event_def schedule_event_def replay_schedule_def record_schedule_def py_get_def
        append_event_def rejection_key_def same_counts_def intro!: count_eq_rotate)
next
  case (Some p)
  with assms show ?thesis
    by (auto simp: replay_event_def schedule_event_def replay_schedule_def record_schedule_def py_get_def
        append_event_def same_counts_def int_field_def dict_item_def intro!: count_eq_rotate)
qed

lemma replay_result_event:
  assumes "same_counts m m'" and "mt_enabled m"
  shows "\<exists>m''. replay_event (result_event r) m' = Inr m'' \<and> same_counts (record_result r m) m''"
proof (cases "on_device r")
  case False
  with assms show ?thesis
    by (auto simp: replay_event_def result_event_def replay_result_def record_result_def py_get_def
        append_event_def same_counts_def on_device_def)
next
  case True
  with assms show ?thesis
    by (auto simp: replay_event_def result_event_def replay_result_def record_result_def py_get_def
        append_event_def same_counts_def int_field_def steps_sum_def dict_item_def replay_counter_def
        sum_steps_event device_counts_def bump_all_simps simp del: map_map intro!: count_eq_bump)
qed

text \<open>A run of the scheduler's calls on enabled metrics.\<close>

datatype metric_call = ScheduleCall "epoch_plan option" "string option" | ResultCall epoch_result

fun metric_step :: "metric_call \<Rightarrow> metrics \<Rightarrow> metrics" where
  "metric_step (ScheduleCall plan rejection) m = record_schedule plan rejection m"
| "metric_step (ResultCall r) m = record_result r m"

fun call_event :: "metric_call \<Rightarrow> pyval" where
  "call_event (ScheduleCall plan rejection) = schedule_event plan rejection"
| "call_event (ResultCall r) = result_event r"

lemma metric_step_enabled [simp]: "mt_enabled (metric_step c m) = mt_enabled m"
  by (cases c) (auto simp: record_schedule_def record_result_def append_event_def Let_def split: option.splits)

lemma metric_step_journal: "mt_enabled m \<Longrightarrow> mt_journal (metric_step c m) = mt_journal m @ [call_event c]"
  by (cases c) (auto simp: record_schedule_def record_result_def append_event_def Let_def split: option.splits)

lemma metric_run_journal:
  "mt_enabled m \<Longrightarrow> mt_journal (fold metric_step cs m) = mt_journal m @ map call_event cs"
  by (induction cs arbitrary: m) (simp_all add: metric_step_journal)

lemma metric_step_replay:
  "same_counts m m' \<Longrightarrow> mt_enabled m \<Longrightarrow>
     \<exists>m''. replay_event (call_event c) m' = Inr m'' \<and> same_counts (metric_step c m) m''"
  by (cases c) (simp_all add: replay_schedule_event replay_result_event)

lemma metric_run_replay:
  "same_counts m m' \<Longrightarrow> mt_enabled m \<Longrightarrow>
     \<exists>m''. fold_res replay_event (map call_event cs) m' = Inr m'' \<and> same_counts (fold metric_step cs m) m''"
proof (induction cs arbitrary: m m')
  case Nil
  then show ?case by simp
next
  case (Cons c cs)
  then obtain m1 where "replay_event (call_event c) m' = Inr m1" and "same_counts (metric_step c m) m1"
    using metric_step_replay by blast
  with Cons.IH [of "metric_step c m" m1] Cons.prems(2) show ?case by auto
qed

end
