(* ===== verification/Wire.thy ===== *)
theory Wire
  imports Prelude
begin

text \<open>
  Bytes on the wire: \<open>struct.Struct\<close> with little-endian formats, \<open>zlib.adler32\<close>, and
  ASCII encoding. A format is a list of fields; \<open>pack\<close> raises \<open>struct.error\<close> for a
  value outside its field's range, as Python does, and \<open>unpack\<close> for a wrong length.
\<close>

type_synonym byte = "8 word"

section \<open>Little-endian integers\<close>

fun le_bytes :: "nat \<Rightarrow> nat \<Rightarrow> byte list" where
  "le_bytes 0 v = []"
| "le_bytes (Suc n) v = word_of_nat (v mod 256) # le_bytes n (v div 256)"

fun le_value :: "byte list \<Rightarrow> nat" where
  "le_value [] = 0"
| "le_value (b # bs) = unat b + 256 * le_value bs"

lemma length_le_bytes [simp]: "length (le_bytes n v) = n"
  by (induction n arbitrary: v) auto

lemma unat_byte_mod: "unat (word_of_nat (v mod 256) :: byte) = v mod 256"
  by (simp add: unat_of_nat)

lemma unat_byte_less: "unat (b :: byte) < 256"
  using unsigned_less [of b] by simp

lemma le_value_bytes: "v < 256 ^ n \<Longrightarrow> le_value (le_bytes n v) = v"
proof (induction n arbitrary: v)
  case 0
  then show ?case by simp
next
  case (Suc n)
  then have "v div 256 < 256 ^ n" by (simp add: less_mult_imp_div_less mult.commute)
  then have "le_value (le_bytes n (v div 256)) = v div 256" by (rule Suc.IH)
  then show ?case by (simp only: le_bytes.simps le_value.simps unat_byte_mod) simp
qed

lemma le_value_less: "le_value bs < 256 ^ length bs"
proof (induction bs)
  case Nil
  show ?case by simp
next
  case (Cons b bs)
  then have "le_value bs + 1 \<le> 256 ^ length bs" by simp
  then have "256 * (le_value bs + 1) \<le> 256 * 256 ^ length bs" by (rule mult_le_mono2)
  with unat_byte_less [of b] show ?case by simp
qed

lemma le_bytes_value: "le_bytes (length bs) (le_value bs) = bs"
proof (induction bs)
  case Nil
  show ?case by simp
next
  case (Cons b bs)
  have "(unat b + 256 * le_value bs) div 256 = le_value bs" "(unat b + 256 * le_value bs) mod 256 = unat b"
    using unat_byte_less [of b] by simp_all
  with Cons show ?case by simp
qed

section \<open>Fields\<close>

text \<open>The format characters \<open>H\<close>, \<open>I\<close>, \<open>Q\<close>, \<open>i\<close> and \<open>q\<close>.\<close>

datatype fld = U16 | U32 | U64 | I32 | I64

fun fld_size :: "fld \<Rightarrow> nat" where
  "fld_size U16 = 2" | "fld_size U32 = 4" | "fld_size U64 = 8" | "fld_size I32 = 4" | "fld_size I64 = 8"

fun fld_signed :: "fld \<Rightarrow> bool" where
  "fld_signed I32 = True" | "fld_signed I64 = True" | "fld_signed _ = False"

fun fld_lo :: "fld \<Rightarrow> int" where
  "fld_lo I32 = - (2 ^ 31)" | "fld_lo I64 = - (2 ^ 63)" | "fld_lo _ = 0"

fun fld_hi :: "fld \<Rightarrow> int" where
  "fld_hi U16 = 2 ^ 16" | "fld_hi U32 = 2 ^ 32" | "fld_hi U64 = 2 ^ 64"
| "fld_hi I32 = 2 ^ 31" | "fld_hi I64 = 2 ^ 63"

definition fld_fits :: "fld \<Rightarrow> int \<Rightarrow> bool" where
  "fld_fits f v \<longleftrightarrow> fld_lo f \<le> v \<and> v < fld_hi f"

definition pack_field :: "fld \<Rightarrow> int \<Rightarrow> exn + byte list" where
  "pack_field f v =
     (if fld_fits f v then Inr (le_bytes (fld_size f) (nat (v mod 256 ^ fld_size f)))
      else Inl (StructError ''argument out of range''))"

definition unpack_field :: "fld \<Rightarrow> byte list \<Rightarrow> int" where
  "unpack_field f bs =
     (let v = int (le_value bs)
      in if fld_signed f \<and> fld_hi f \<le> v then v - 256 ^ fld_size f else v)"

lemma unpack_pack_field: "pack_field f v = Inr bs \<Longrightarrow> unpack_field f bs = v \<and> length bs = fld_size f"
proof -
  assume "pack_field f v = Inr bs"
  then have fits: "fld_fits f v" and bs: "bs = le_bytes (fld_size f) (nat (v mod 256 ^ fld_size f))"
    by (auto simp: pack_field_def split: if_splits)
  have "nat (v mod 256 ^ fld_size f) < 256 ^ fld_size f"
    by (simp add: nat_less_iff)
  then have "int (le_value bs) = v mod 256 ^ fld_size f"
    unfolding bs by (simp add: le_value_bytes)
  moreover have "v mod 256 ^ fld_size f = (if v < 0 then v + 256 ^ fld_size f else v)"
  proof (cases "v < 0")
    case True
    then have "(v + 256 ^ fld_size f) mod 256 ^ fld_size f = v + 256 ^ fld_size f"
      using fits by (intro mod_pos_pos_trivial) (cases f; simp add: fld_fits_def)+
    with True show ?thesis by simp
  next
    case False
    then have "v mod 256 ^ fld_size f = v"
      using fits by (intro mod_pos_pos_trivial) (cases f; simp add: fld_fits_def)+
    with False show ?thesis by simp
  qed
  ultimately show ?thesis
    using fits bs by (cases f) (auto simp: unpack_field_def fld_fits_def Let_def)
qed

lemma pack_unpack_field:
  assumes "length bs = fld_size f"
  shows "pack_field f (unpack_field f bs) = Inr bs"
proof -
  have less: "le_value bs < 256 ^ fld_size f" using le_value_less [of bs] assms by simp
  then have "fld_fits f (unpack_field f bs)"
    by (cases f) (auto simp: unpack_field_def fld_fits_def Let_def)
  moreover have "unpack_field f bs mod 256 ^ fld_size f = int (le_value bs)"
  proof -
    have "int (le_value bs) < 256 ^ fld_size f"
      using less by (metis of_nat_less_iff of_nat_numeral of_nat_power)
    then have *: "int (le_value bs) mod 256 ^ fld_size f = int (le_value bs)"
      by (intro mod_pos_pos_trivial) simp_all
    have "(int (le_value bs) - 256 ^ fld_size f) mod 256 ^ fld_size f = int (le_value bs)"
      unfolding minus_mod_self2 by (rule *)
    with * show ?thesis by (simp only: unpack_field_def Let_def split: if_split) simp
  qed
  ultimately show ?thesis
    using le_bytes_value [of bs] assms by (simp add: pack_field_def)
qed

section \<open>Formats\<close>

definition calcsize :: "fld list \<Rightarrow> nat" where
  "calcsize fs = sum_list (map fld_size fs)"

fun pack :: "fld list \<Rightarrow> int list \<Rightarrow> exn + byte list" where
  "pack [] [] = Inr []"
| "pack (f # fs) (v # vs) = rbind (pack_field f v) (\<lambda>b. rbind (pack fs vs) (\<lambda>bs. Inr (b @ bs)))"
| "pack _ _ = Inl (StructError ''pack expected another number of items for packing'')"

fun unpack_fields :: "fld list \<Rightarrow> byte list \<Rightarrow> int list" where
  "unpack_fields [] bs = []"
| "unpack_fields (f # fs) bs = unpack_field f (take (fld_size f) bs) # unpack_fields fs (drop (fld_size f) bs)"

definition unpack :: "fld list \<Rightarrow> byte list \<Rightarrow> exn + int list" where
  "unpack fs bs =
     (if length bs \<noteq> calcsize fs then Inl (StructError ''unpack requires a buffer of another size'')
      else Inr (unpack_fields fs bs))"

lemma length_unpack_fields [simp]: "length (unpack_fields fs bs) = length fs"
  by (induction fs arbitrary: bs) auto

lemma pack_fits: "(\<exists>bs. pack fs vs = Inr bs) \<longleftrightarrow> list_all2 fld_fits fs vs"
  by (induction fs vs rule: pack.induct) (auto simp: rbind_Inr_iff pack_field_def)

lemma no_execution_pack [simp]: "no_execution (pack fs vs)"
  by (induction fs vs rule: pack.induct) (auto simp: pack_field_def intro!: no_execution_intros)

lemma pack_facts: "pack fs vs = Inr bs \<Longrightarrow> length bs = calcsize fs \<and> unpack_fields fs bs = vs"
proof (induction fs vs arbitrary: bs rule: pack.induct)
  case (2 f fs v vs)
  then obtain b c where b: "pack_field f v = Inr b" and c: "pack fs vs = Inr c" and bs: "bs = b @ c"
    by (auto simp: rbind_Inr_iff)
  from unpack_pack_field [OF b] "2.IH" [OF c] bs show ?case
    by (auto simp: calcsize_def)
qed (auto simp: calcsize_def)

lemma unpack_pack: "pack fs vs = Inr bs \<Longrightarrow> unpack fs bs = Inr vs"
  using pack_facts by (simp add: unpack_def)

lemma pack_unpack: "unpack fs bs = Inr vs \<Longrightarrow> pack fs vs = Inr bs"
proof -
  have "length bs = calcsize fs \<Longrightarrow> pack fs (unpack_fields fs bs) = Inr bs"
    by (induction fs arbitrary: bs) (auto simp: calcsize_def pack_unpack_field)
  then show "unpack fs bs = Inr vs \<Longrightarrow> pack fs vs = Inr bs"
    by (auto simp: unpack_def split: if_splits)
qed

text \<open>
  The contract of a message format of a fixed size: what is packed has that size and
  unpacks to the same values, and every buffer of that size is the packing of its values.
\<close>

locale wire_format =
  fixes fmt :: "fld list" and bytes :: nat
  assumes size: "calcsize fmt = bytes"
begin

lemma packed_size: "pack fmt vs = Inr bs \<Longrightarrow> length bs = bytes"
  using pack_facts size by simp

lemma roundtrip: "pack fmt vs = Inr bs \<Longrightarrow> unpack fmt bs = Inr vs"
  by (rule unpack_pack)

lemma unpack_iff: "unpack fmt bs = Inr vs \<longleftrightarrow> pack fmt vs = Inr bs"
  using unpack_pack pack_unpack by blast

lemma unpack_total: "length bs = bytes \<Longrightarrow> \<exists>vs. unpack fmt bs = Inr vs \<and> length vs = length fmt"
  by (simp add: unpack_def size)

lemma unpack_short: "length bs \<noteq> bytes \<Longrightarrow> \<exists>e. unpack fmt bs = Inl (StructError e)"
  by (simp add: unpack_def size)

lemma pack_inj: "pack fmt vs = Inr bs \<Longrightarrow> pack fmt ws = Inr bs \<Longrightarrow> vs = ws"
  using roundtrip by (metis Inr_inject)

end

section \<open>Adler-32\<close>

text \<open>\<open>zlib.adler32(data, value)\<close>: two sums modulo 65521 in the halves of the value.\<close>

definition adler_step :: "byte \<Rightarrow> nat \<times> nat \<Rightarrow> nat \<times> nat" where
  "adler_step x ab = (let a = (fst ab + unat x) mod 65521 in (a, (snd ab + a) mod 65521))"

definition adler32 :: "byte list \<Rightarrow> nat \<Rightarrow> nat" where
  "adler32 bs start =
     (let ab = fold adler_step bs (start mod 65536, start div 65536 mod 65536)
      in snd ab * 65536 + fst ab)"

lemma adler_fold_small:
  "fst ab < 65521 \<Longrightarrow> snd ab < 65521 \<Longrightarrow>
     fst (fold adler_step bs ab) < 65521 \<and> snd (fold adler_step bs ab) < 65521"
  by (induction bs arbitrary: ab) (auto simp: adler_step_def Let_def)

text \<open>A running checksum: both halves stay below the modulus.\<close>

definition adler_state :: "nat \<Rightarrow> bool" where
  "adler_state v \<longleftrightarrow> v mod 65536 < 65521 \<and> v div 65536 < 65521"

lemma adler_state_one: "adler_state 1"
  by (simp add: adler_state_def)

lemma adler32_state: "adler_state v \<Longrightarrow> adler_state (adler32 bs v)"
  using adler_fold_small [of "(v mod 65536, v div 65536 mod 65536)" bs]
  by (auto simp: adler_state_def adler32_def Let_def div_mult2_eq mod_less)

lemma adler_state_bound: "adler_state v \<Longrightarrow> v < 2 ^ 32"
  by (simp add: adler_state_def) linarith

text \<open>Checksumming in pieces is checksumming the whole.\<close>

lemma adler32_append:
  assumes "adler_state v"
  shows "adler32 (xs @ ys) v = adler32 ys (adler32 xs v)"
proof -
  let ?ab = "fold adler_step xs (v mod 65536, v div 65536 mod 65536)"
  have "fst ?ab < 65521" "snd ?ab < 65521"
    using adler_fold_small [of "(v mod 65536, v div 65536 mod 65536)" xs] assms
    by (auto simp: adler_state_def)
  then have "(snd ?ab * 65536 + fst ?ab) mod 65536 = fst ?ab"
    "(snd ?ab * 65536 + fst ?ab) div 65536 mod 65536 = snd ?ab" by auto
  then show ?thesis by (simp add: adler32_def Let_def)
qed

section \<open>ASCII\<close>

text \<open>\<open>s.encode("ascii")\<close>.\<close>

definition encode_ascii :: "string \<Rightarrow> exn + byte list" where
  "encode_ascii s =
     (if (\<exists>c \<in> set s. 128 \<le> (of_char c :: nat)) then
        Inl (UnicodeError '''ascii' codec can't encode character'')
      else Inr (map (\<lambda>c. word_of_nat (of_char c)) s))"

lemma no_execution_encode [simp]: "no_execution (encode_ascii s)"
  by (simp add: encode_ascii_def)

lemma encode_ascii_length: "encode_ascii s = Inr bs \<Longrightarrow> length bs = length s"
  by (auto simp: encode_ascii_def split: if_splits)

text \<open>\<open>b.ljust(n, b"\\0")\<close>.\<close>

definition ljust_zero :: "nat \<Rightarrow> byte list \<Rightarrow> byte list" where
  "ljust_zero n bs = bs @ replicate (n - length bs) 0"

lemma ljust_zero_length: "length bs \<le> n \<Longrightarrow> length (ljust_zero n bs) = n"
  by (simp add: ljust_zero_def)

end
