(* ===== verification/KvTransfer.thy ===== *)
theory KvTransfer
  imports Wire Contract
begin

text \<open>
  \<open>kv_transfer.py\<close>: the KV blocks a plan hands from the stock vLLM cache to the resident
  graph, either as a snapshot file the Host writes or as IPC metadata that leaves the bytes
  on the device. Tensors, their storage and the ACL runtime are not under \<open>src/\<close>: what
  the code reads of a tensor is a record, \<open>torch.stack\<close>, the address lookup and the key
  export are parameters.
\<close>

section \<open>Constants\<close>

definition TRANSFER_MAGIC :: int where "TRANSFER_MAGIC = 0x4352554953454B56"
definition TRANSFER_VERSION :: int where "TRANSFER_VERSION = 1"
definition TRANSFER_HEADER_BYTES :: nat where "TRANSFER_HEADER_BYTES = 80"
definition IPC_METADATA_MAGIC :: int where "IPC_METADATA_MAGIC = 0x4352554953454950"
definition IPC_METADATA_VERSION :: int where "IPC_METADATA_VERSION = 2"
definition IPC_KEY_BYTES :: nat where "IPC_KEY_BYTES = 64"
definition IPC_EXPORT_BUFFER_BYTES :: nat where "IPC_EXPORT_BUFFER_BYTES = 128"
definition LAYERS :: nat where "LAYERS = 28"
definition GRAPH_BATCH_SIZE :: nat where "GRAPH_BATCH_SIZE = 4"
definition BLOCK_SIZE :: nat where "BLOCK_SIZE = 128"
definition NUM_KV_HEADS :: nat where "NUM_KV_HEADS = 4"
definition HEAD_SIZE :: nat where "HEAD_SIZE = 128"
definition ELEMENT_BYTES :: nat where "ELEMENT_BYTES = 2"
definition BLOCK_ELEMENTS :: nat where "BLOCK_ELEMENTS = BLOCK_SIZE * NUM_KV_HEADS * HEAD_SIZE"
definition ROW_BYTES :: nat where "ROW_BYTES = 2 * BLOCK_SIZE * NUM_KV_HEADS * HEAD_SIZE * ELEMENT_BYTES"
definition PAYLOAD_BYTES :: nat where "PAYLOAD_BYTES = LAYERS * GRAPH_BATCH_SIZE * ROW_BYTES"
definition IPC_KEY_COUNT :: nat where "IPC_KEY_COUNT = LAYERS * 2"

definition HEADER :: "fld list" where
  "HEADER = [U64, U32, U32, U64, U64, U32] @ replicate 4 I32 @ replicate 7 U32"

definition IPC_METADATA_HEADER :: "fld list" where
  "IPC_METADATA_HEADER =
     [U64, U32, U32, U64] @ replicate 4 I32 @ replicate 4 I32 @ replicate IPC_KEY_COUNT U64"

definition IPC_METADATA_BYTES :: nat where
  "IPC_METADATA_BYTES = calcsize IPC_METADATA_HEADER + IPC_KEY_COUNT * IPC_KEY_BYTES"

lemmas kv_sizes = LAYERS_def GRAPH_BATCH_SIZE_def BLOCK_SIZE_def NUM_KV_HEADS_def HEAD_SIZE_def
  ELEMENT_BYTES_def BLOCK_ELEMENTS_def ROW_BYTES_def PAYLOAD_BYTES_def IPC_KEY_COUNT_def

interpretation snapshot_header: wire_format HEADER TRANSFER_HEADER_BYTES
  by unfold_locales (simp add: HEADER_def TRANSFER_HEADER_BYTES_def calcsize_def sum_list_replicate)

interpretation ipc_header: wire_format IPC_METADATA_HEADER 504
  by unfold_locales (simp add: IPC_METADATA_HEADER_def kv_sizes calcsize_def sum_list_replicate)

section \<open>The checksum\<close>

text \<open>\<open>bool(import_mask & (1 << row))\<close>.\<close>

definition row_selected :: "int \<Rightarrow> nat \<Rightarrow> bool" where
  "row_selected msk row \<longleftrightarrow> Bit_Operations.and msk (push_bit row 1) \<noteq> 0"

lemma row_selected_bit: "row_selected msk row \<longleftrightarrow> bit msk row"
  by (simp add: row_selected_def bit_iff_and_push_bit_not_eq_0)

definition BLOCK_BYTES :: nat where "BLOCK_BYTES = BLOCK_ELEMENTS * ELEMENT_BYTES"

definition CACHE_BYTES :: nat where "CACHE_BYTES = LAYERS * GRAPH_BATCH_SIZE * BLOCK_BYTES"

definition slice :: "nat \<Rightarrow> nat \<Rightarrow> 'a list \<Rightarrow> 'a list" where
  "slice first count xs = take count (drop first xs)"

definition kv_payload_checksum :: "byte list \<Rightarrow> int \<Rightarrow> exn + int" where
  "kv_payload_checksum payload import_mask =
     (if length payload \<noteq> PAYLOAD_BYTES then
        Inl (ValueError ''cannot checksum an incomplete KV transfer payload'')
      else Inr (take_bit 32 (int
        (fold (\<lambda>cache_base. fold (\<lambda>layer. fold (\<lambda>row checksum.
            if \<not> row_selected import_mask row then checksum
            else adler32 (slice (cache_base + (layer * GRAPH_BATCH_SIZE + row) * BLOCK_BYTES) BLOCK_BYTES payload) checksum)
          [0..<GRAPH_BATCH_SIZE]) [0..<LAYERS]) [0, CACHE_BYTES] 1))))"

text \<open>The offsets of the selected blocks, in the order the loops visit them.\<close>

definition block_offset :: "nat \<Rightarrow> nat \<Rightarrow> nat \<Rightarrow> nat" where
  "block_offset cache layer row = cache * CACHE_BYTES + (layer * GRAPH_BATCH_SIZE + row) * BLOCK_BYTES"

definition selected_rows :: "int \<Rightarrow> nat list" where
  "selected_rows msk = filter (row_selected msk) [0..<GRAPH_BATCH_SIZE]"

definition selected_offsets :: "int \<Rightarrow> nat list" where
  "selected_offsets msk =
     concat (map (\<lambda>cache. concat (map (\<lambda>layer. map (block_offset cache layer) (selected_rows msk))
       [0..<LAYERS])) [0, 1])"

definition selected_bytes :: "byte list \<Rightarrow> int \<Rightarrow> byte list" where
  "selected_bytes payload msk = concat (map (\<lambda>off. slice off BLOCK_BYTES payload) (selected_offsets msk))"

lemma fold_concat_map: "fold f (concat (map g xs)) s = fold (\<lambda>x. fold f (g x)) xs s"
  by (induction xs arbitrary: s) auto

lemma fold_adler_concat:
  "adler_state v \<Longrightarrow> fold (\<lambda>x. adler32 (g x)) xs v = adler32 (concat (map g xs)) v"
proof (induction xs arbitrary: v)
  case Nil
  have "v div 65536 mod 65536 = v div 65536" using Nil by (simp add: adler_state_def)
  then show ?case by (simp add: adler32_def)
next
  case (Cons x xs)
  then show ?case by (simp add: adler32_append adler32_state)
qed

lemma fold_skip: "fold (\<lambda>x s. if \<not> P x then s else f x s) xs = fold f (filter P xs)"
  by (induction xs) auto

text \<open>The running checksum is the Adler-32 of the selected blocks, laid end to end.\<close>

lemma checksum_selected:
  assumes "length payload = PAYLOAD_BYTES"
  shows "kv_payload_checksum payload msk = Inr (int (adler32 (selected_bytes payload msk) 1))"
proof -
  let ?f = "\<lambda>off. adler32 (slice off BLOCK_BYTES payload)"
  have "fold (\<lambda>cache_base. fold (\<lambda>layer. fold (\<lambda>row checksum.
            if \<not> row_selected msk row then checksum
            else ?f (cache_base + (layer * GRAPH_BATCH_SIZE + row) * BLOCK_BYTES) checksum)
          [0..<GRAPH_BATCH_SIZE]) [0..<LAYERS]) [0, CACHE_BYTES] 1
      = fold ?f (selected_offsets msk) 1"
    unfolding fold_skip by (simp add: selected_offsets_def fold_concat_map selected_rows_def block_offset_def fold_map comp_def)
  also have "\<dots> = adler32 (selected_bytes payload msk) 1"
    unfolding selected_bytes_def by (rule fold_adler_concat [OF adler_state_one])
  finally have "kv_payload_checksum payload msk =
      Inr (take_bit 32 (int (adler32 (selected_bytes payload msk) 1)))"
    using assms by (simp add: kv_payload_checksum_def)
  moreover have "adler32 (selected_bytes payload msk) 1 < 2 ^ 32"
    by (rule adler_state_bound) (rule adler32_state [OF adler_state_one])
  ultimately show ?thesis
    by (simp add: take_bit_int_eq_self)
qed

section \<open>Snapshots\<close>

record kv_snapshot =
  sn_transfer_id :: int
  sn_import_mask :: int
  sn_row_generations :: "int list"
  sn_payload :: "byte list"
  sn_checksum :: int

definition check_generation :: "int \<Rightarrow> nat \<times> int \<Rightarrow> exn + unit" where
  "check_generation msk entry =
     (case entry of (row, generation) \<Rightarrow>
       if row_selected msk row \<noteq> (0 < generation) then
         Inl (ValueError ''KV transfer mask and generations disagree'')
       else Inr ())"

definition snapshot_validate :: "kv_snapshot \<Rightarrow> exn + unit" where
  "snapshot_validate s =
     (if sn_transfer_id s \<le> 0 then Inl (ValueError ''KV transfer id must be positive'')
      else if length (sn_row_generations s) \<noteq> GRAPH_BATCH_SIZE then
        Inl (ValueError ''KV transfer generation vector must have four rows'')
      else if (\<exists>g \<in> set (sn_row_generations s). g < 0) then
        Inl (ValueError ''KV transfer generations must be non-negative'')
      else if sn_import_mask s \<le> 0 \<or> push_bit GRAPH_BATCH_SIZE 1 \<le> sn_import_mask s then
        Inl (ValueError ''KV transfer mask must select at least one row'')
      else rbind (for_each (check_generation (sn_import_mask s)) (enumerate 0 (sn_row_generations s))) (\<lambda>_.
      if length (sn_payload s) \<noteq> PAYLOAD_BYTES then
        Inl (ValueError (''KV transfer payload must be '' @ nat_str PAYLOAD_BYTES @ '' bytes, got ''
          @ nat_str (length (sn_payload s))))
      else rbind (kv_payload_checksum (sn_payload s) (sn_import_mask s)) (\<lambda>checksum.
      if sn_checksum s \<noteq> checksum then
        Inl (ValueError ''KV transfer checksum does not match its payload'')
      else Inr ())))"

text \<open>The mask selects exactly the rows with a generation, at least one of them.\<close>

definition mask_matches :: "int \<Rightarrow> int list \<Rightarrow> bool" where
  "mask_matches msk gens \<longleftrightarrow> 0 < msk \<and> msk < 16 \<and> length gens = 4
     \<and> (\<forall>row < 4. if row_selected msk row then 0 < gens ! row else gens ! row = 0)"

definition snapshot_wf :: "kv_snapshot \<Rightarrow> bool" where
  "snapshot_wf s \<longleftrightarrow> 0 < sn_transfer_id s \<and> mask_matches (sn_import_mask s) (sn_row_generations s)
     \<and> length (sn_payload s) = PAYLOAD_BYTES
     \<and> sn_checksum s = int (adler32 (selected_bytes (sn_payload s) (sn_import_mask s)) 1)"

lemma for_enumerate:
  "(\<forall>e \<in> set (enumerate 0 xs). P e) \<longleftrightarrow> (\<forall>i < length xs. P (i, xs ! i))"
  by (simp add: all_set_conv_all_nth nth_enumerate_eq)

lemma mask_matches_checks:
  "mask_matches msk gens \<longleftrightarrow> 0 < msk \<and> msk < 16 \<and> length gens = 4 \<and> (\<forall>g \<in> set gens. 0 \<le> g)
     \<and> (\<forall>row < 4. row_selected msk row = (0 < gens ! row))"
proof -
  have "(\<forall>g \<in> set gens. 0 \<le> g) \<longleftrightarrow> (\<forall>row < 4. 0 \<le> gens ! row)" if "length gens = 4"
    using that by (simp add: all_set_conv_all_nth)
  then show ?thesis
    unfolding mask_matches_def by (auto split: if_splits) (metis nth_mem order.order_iff_strict)+
qed

lemma snapshot_validate_iff: "snapshot_validate s = Inr () \<longleftrightarrow> snapshot_wf s"
proof -
  have "for_each (check_generation m) (enumerate 0 gens) = Inr () \<longleftrightarrow>
      (\<forall>row < length gens. row_selected m row = (0 < gens ! row))" for m gens
    by (auto simp: for_each_ok for_enumerate check_generation_def)
  then show ?thesis
    unfolding snapshot_validate_def snapshot_wf_def raise_if_Inr mask_matches_checks
    by (cases "length (sn_payload s) = PAYLOAD_BYTES")
      (auto simp: rbind_Inr_iff checksum_selected GRAPH_BATCH_SIZE_def push_bit_eq_mult not_le not_less)
qed

lemma no_execution_checksum [simp]: "no_execution (kv_payload_checksum payload m)"
  by (simp add: kv_payload_checksum_def)

lemma no_execution_snapshot [simp]: "no_execution (snapshot_validate s)"
  by (auto simp: snapshot_validate_def check_generation_def intro!: no_execution_intros)

interpretation snapshot_check: checked snapshot_validate snapshot_wf
  by unfold_locales (rule snapshot_validate_iff)

section \<open>Device transfers\<close>

record device_transfer =
  dt_transfer_id :: int
  dt_import_mask :: int
  dt_row_generations :: "int list"
  dt_block_ids :: "int list"
  dt_source_bytes :: int
  dt_source_offsets :: "int list"
  dt_keys :: "string list"

text \<open>The bodies of the two loops of \<open>validate\<close>.\<close>

definition check_offset :: "int \<Rightarrow> int \<Rightarrow> int \<Rightarrow> exn + unit" where
  "check_offset source_bytes block_id source_offset =
     (if source_offset < 0 \<or> source_bytes < source_offset + (block_id + 1) * int BLOCK_BYTES then
        Inl (ValueError ''device KV block is outside its exported allocation'')
      else Inr ())"

definition check_device_row :: "device_transfer \<Rightarrow> nat \<Rightarrow> exn + unit" where
  "check_device_row t row =
     (let generation = dt_row_generations t ! row; block_id = dt_block_ids t ! row in
      if row_selected (dt_import_mask t) row then
        (if generation \<le> 0 \<or> block_id < 0 then
           Inl (ValueError ''selected device KV rows need generation and block'')
         else for_each (check_offset (dt_source_bytes t) block_id) (dt_source_offsets t))
      else if generation \<noteq> 0 \<or> block_id \<noteq> 0 then
        Inl (ValueError ''unselected device KV rows must be zeroed'')
      else Inr ())"

definition check_key :: "string \<Rightarrow> exn + unit" where
  "check_key key =
     rbind (encode_ascii key) (\<lambda>encoded.
       if encoded = [] \<or> IPC_KEY_BYTES < length encoded then
         Inl (ValueError ''device KV IPC key does not fit the wire contract'')
       else Inr ())"

definition transfer_validate :: "device_transfer \<Rightarrow> exn + unit" where
  "transfer_validate t =
     (if dt_transfer_id t \<le> 0 then Inl (ValueError ''device KV transfer id must be positive'')
      else if length (dt_row_generations t) \<noteq> GRAPH_BATCH_SIZE then
        Inl (ValueError ''device KV transfer generation vector must have four rows'')
      else if length (dt_block_ids t) \<noteq> GRAPH_BATCH_SIZE then
        Inl (ValueError ''device KV transfer block vector must have four rows'')
      else if dt_import_mask t \<le> 0 \<or> push_bit GRAPH_BATCH_SIZE 1 \<le> dt_import_mask t then
        Inl (ValueError ''device KV transfer mask must select at least one row'')
      else if dt_source_bytes t \<le> 0 then
        Inl (ValueError ''device KV transfer source size must be positive'')
      else if length (dt_source_offsets t) \<noteq> IPC_KEY_COUNT then
        Inl (ValueError (''device KV transfer must carry '' @ nat_str IPC_KEY_COUNT @ '' source offsets''))
      else if length (dt_keys t) \<noteq> IPC_KEY_COUNT then
        Inl (ValueError (''device KV transfer must carry '' @ nat_str IPC_KEY_COUNT @ '' keys''))
      else rbind (for_each (check_device_row t) [0..<GRAPH_BATCH_SIZE]) (\<lambda>_.
        for_each check_key (dt_keys t)))"

text \<open>A key the wire can carry: ASCII, not empty, at most 64 bytes.\<close>

definition key_fits :: "string \<Rightarrow> bool" where
  "key_fits key \<longleftrightarrow> (\<forall>c \<in> set key. (of_char c :: nat) < 128) \<and> key \<noteq> [] \<and> length key \<le> 64"

text \<open>
  Every selected row names a block that lies inside the exported allocation of every layer's
  key and value cache; the other rows are zero.
\<close>

definition device_row_wf :: "device_transfer \<Rightarrow> nat \<Rightarrow> bool" where
  "device_row_wf t row \<longleftrightarrow>
     (if row_selected (dt_import_mask t) row then
        0 < dt_row_generations t ! row \<and> 0 \<le> dt_block_ids t ! row
        \<and> (\<forall>off \<in> set (dt_source_offsets t).
             0 \<le> off \<and> off + (dt_block_ids t ! row + 1) * int BLOCK_BYTES \<le> dt_source_bytes t)
      else dt_row_generations t ! row = 0 \<and> dt_block_ids t ! row = 0)"

definition transfer_wf :: "device_transfer \<Rightarrow> bool" where
  "transfer_wf t \<longleftrightarrow> 0 < dt_transfer_id t \<and> 0 < dt_source_bytes t
     \<and> length (dt_row_generations t) = 4 \<and> length (dt_block_ids t) = 4
     \<and> 0 < dt_import_mask t \<and> dt_import_mask t < 16
     \<and> length (dt_source_offsets t) = 56 \<and> length (dt_keys t) = 56
     \<and> (\<forall>row < 4. device_row_wf t row) \<and> (\<forall>key \<in> set (dt_keys t). key_fits key)"

lemma encode_ascii_Inr:
  "encode_ascii s = Inr bs \<longleftrightarrow>
     (\<forall>c \<in> set s. (of_char c :: nat) < 128) \<and> bs = map (\<lambda>c. word_of_nat (of_char c)) s"
  unfolding encode_ascii_def bex_simps(8) [symmetric] by (simp, metis linorder_not_le)

lemma check_key_iff: "check_key key = Inr () \<longleftrightarrow> key_fits key"
  by (auto simp: check_key_def rbind_Inr_iff encode_ascii_Inr key_fits_def IPC_KEY_BYTES_def)

lemma check_device_row_iff: "check_device_row t row = Inr () \<longleftrightarrow> device_row_wf t row"
  by (auto simp: check_device_row_def device_row_wf_def Let_def for_each_ok check_offset_def not_le not_less)

lemma transfer_validate_iff: "transfer_validate t = Inr () \<longleftrightarrow> transfer_wf t"
proof -
  have "(\<forall>row \<in> set [0..<GRAPH_BATCH_SIZE]. check_device_row t row = Inr ()) \<longleftrightarrow> (\<forall>row < 4. device_row_wf t row)"
    by (auto simp: check_device_row_iff GRAPH_BATCH_SIZE_def)
  then show ?thesis
    unfolding transfer_validate_def transfer_wf_def raise_if_Inr for_each_then for_each_ok check_key_iff
    by (simp add: IPC_KEY_COUNT_def LAYERS_def GRAPH_BATCH_SIZE_def push_bit_eq_mult not_le) blast
qed

lemma no_execution_transfer [simp]: "no_execution (transfer_validate t)"
  by (auto simp: transfer_validate_def check_device_row_def check_offset_def check_key_def Let_def
      intro!: no_execution_intros)

interpretation transfer_check: checked transfer_validate transfer_wf
  by unfold_locales (rule transfer_validate_iff)

section \<open>The IPC metadata\<close>

definition transfer_header :: "device_transfer \<Rightarrow> int list" where
  "transfer_header t =
     [IPC_METADATA_MAGIC, IPC_METADATA_VERSION, dt_import_mask t, dt_source_bytes t]
     @ dt_row_generations t @ dt_block_ids t @ dt_source_offsets t"

definition wire_key :: "string \<Rightarrow> exn + byte list" where
  "wire_key key = rbind (encode_ascii key) (\<lambda>encoded. Inr (ljust_zero IPC_KEY_BYTES encoded))"

definition wire_bytes :: "device_transfer \<Rightarrow> exn + byte list" where
  "wire_bytes t =
     rbind (transfer_validate t) (\<lambda>_.
     rbind (pack IPC_METADATA_HEADER (transfer_header t)) (\<lambda>header.
     rbind (map_res wire_key (dt_keys t)) (\<lambda>keys.
       let payload = header @ concat keys in
       if length payload \<noteq> IPC_METADATA_BYTES then
         Inl (AssertionError ''device KV IPC metadata ABI size changed'')
       else Inr payload)))"

text \<open>How a reader takes the keys apart: fixed slots, cut at the first zero byte.\<close>

definition slot_key :: "byte list \<Rightarrow> string" where
  "slot_key bs = map (\<lambda>b. char_of (unat b)) (takeWhile (\<lambda>b. b \<noteq> 0) bs)"

definition key_slots :: "byte list \<Rightarrow> byte list list" where
  "key_slots bs = map (\<lambda>i. slice (504 + i * IPC_KEY_BYTES) IPC_KEY_BYTES bs) [0..<IPC_KEY_COUNT]"

lemma IPC_METADATA_BYTES_eq: "IPC_METADATA_BYTES = 4088"
  by (simp add: IPC_METADATA_BYTES_def ipc_header.size IPC_KEY_BYTES_def IPC_KEY_COUNT_def LAYERS_def)

lemma wire_key_length: "wire_key key = Inr bs \<Longrightarrow> key_fits key \<Longrightarrow> length bs = 64"
  by (auto simp: wire_key_def rbind_Inr_iff encode_ascii_Inr key_fits_def IPC_KEY_BYTES_def
      intro!: ljust_zero_length)

lemma concat_same_length: "\<forall>x \<in> set xss. length x = n \<Longrightarrow> length (concat xss) = length xss * n"
  by (induction xss) auto

lemma concat_slice:
  "\<forall>x \<in> set xss. length x = n \<Longrightarrow> i < length xss \<Longrightarrow> take n (drop (i * n) (concat xss)) = xss ! i"
proof (induction xss arbitrary: i)
  case Nil
  then show ?case by simp
next
  case (Cons x xss)
  then show ?case by (cases i) auto
qed

lemma wire_keys:
  assumes "transfer_wf t" and "map_res wire_key (dt_keys t) = Inr ks"
  shows "length ks = 56" and "\<forall>k \<in> set ks. length k = 64"
proof -
  show "length ks = 56"
    using assms map_res_length [of wire_key "dt_keys t" ks] by (simp add: transfer_wf_def)
  show "\<forall>k \<in> set ks. length k = 64"
    using assms map_res_set [of wire_key "dt_keys t" ks] wire_key_length unfolding transfer_wf_def by blast
qed

text \<open>
  A valid transfer whose numbers fit their fields is always written, and an out-of-range
  number is the only way a valid one fails.
\<close>

lemma wire_bytes_parts:
  "wire_bytes t = Inr bs \<longleftrightarrow> transfer_wf t \<and>
     (\<exists>header ks. pack IPC_METADATA_HEADER (transfer_header t) = Inr header
        \<and> map_res wire_key (dt_keys t) = Inr ks \<and> bs = header @ concat ks)"
proof -
  have "length (header @ concat ks) = IPC_METADATA_BYTES"
    if "transfer_wf t" "pack IPC_METADATA_HEADER (transfer_header t) = Inr header"
      "map_res wire_key (dt_keys t) = Inr ks" for header ks
    using ipc_header.packed_size [OF that(2)] wire_keys [OF that(1,3)] concat_same_length [of ks 64]
    by (simp add: IPC_METADATA_BYTES_eq)
  then show ?thesis
    unfolding wire_bytes_def transfer_check.validate_then_iff Let_def
    by (auto simp: rbind_Inr_iff)
qed

lemma wire_bytes_length: "wire_bytes t = Inr bs \<Longrightarrow> length bs = 4088"
  by (auto simp: wire_bytes_def rbind_Inr_iff Let_def IPC_METADATA_BYTES_eq split: if_splits)

lemma wire_key_total: "key_fits key \<Longrightarrow> \<exists>bs. wire_key key = Inr bs"
  by (auto simp: wire_key_def encode_ascii_def key_fits_def not_le [symmetric])

lemma wire_bytes_exists:
  assumes "transfer_wf t" and "list_all2 fld_fits IPC_METADATA_HEADER (transfer_header t)"
  shows "\<exists>bs. wire_bytes t = Inr bs"
proof -
  obtain header where "pack IPC_METADATA_HEADER (transfer_header t) = Inr header"
    using assms(2) pack_fits by blast
  moreover have "map_res wire_key (dt_keys t) = Inr (map (\<lambda>k. projr (wire_key k)) (dt_keys t))"
    by (rule map_res_total) (use assms(1) wire_key_total in \<open>fastforce simp: transfer_wf_def\<close>)
  ultimately show ?thesis using assms(1) wire_bytes_parts by blast
qed

lemma wire_bytes_header:
  assumes "wire_bytes t = Inr bs"
  shows "unpack IPC_METADATA_HEADER (take 504 bs) = Inr (transfer_header t)"
proof -
  obtain header ks where "pack IPC_METADATA_HEADER (transfer_header t) = Inr header" "bs = header @ concat ks"
    using assms by (auto simp: wire_bytes_parts)
  then show ?thesis using ipc_header.packed_size ipc_header.roundtrip by simp
qed

lemma slot_key_wire:
  assumes "key_fits key" and "\<forall>c \<in> set key. c \<noteq> CHR 0x00" and "wire_key key = Inr bs"
  shows "slot_key bs = key"
proof -
  have bs: "bs = map (\<lambda>c. word_of_nat (of_char c)) key @ replicate (64 - length key) 0"
    using assms(3) by (auto simp: wire_key_def rbind_Inr_iff encode_ascii_Inr ljust_zero_def IPC_KEY_BYTES_def)
  have unat: "unat (word_of_nat (of_char c) :: byte) = of_char c" for c :: char
    by (simp add: unat_of_nat)
  have "(word_of_nat (of_char c) :: byte) \<noteq> 0" if "c \<in> set key" for c
  proof
    assume "(word_of_nat (of_char c) :: byte) = 0"
    then have "of_char c = (0 :: nat)" using unat [of c] by simp
    then have "c = CHR 0x00" by (intro of_char_eqI [where 'a = nat]) simp
    with assms(2) that show False by blast
  qed
  then have "takeWhile (\<lambda>b. b \<noteq> 0) bs = map (\<lambda>c. word_of_nat (of_char c)) key"
    unfolding bs by (subst takeWhile_append2) (auto simp: takeWhile_replicate)
  then show ?thesis by (simp add: slot_key_def comp_def unat)
qed

lemma wire_bytes_slots:
  assumes "wire_bytes t = Inr bs"
  shows "map_res wire_key (dt_keys t) = Inr (key_slots bs)"
proof -
  obtain header ks where wf: "transfer_wf t" and header: "pack IPC_METADATA_HEADER (transfer_header t) = Inr header"
    and ks: "map_res wire_key (dt_keys t) = Inr ks" and bs: "bs = header @ concat ks"
    using assms by (auto simp: wire_bytes_parts)
  have size: "length header = 504" using ipc_header.packed_size [OF header] .
  note keys = wire_keys [OF wf ks]
  have "key_slots bs = ks"
  proof (rule nth_equalityI)
    show "length (key_slots bs) = length ks"
      using keys(1) by (simp add: key_slots_def IPC_KEY_COUNT_def LAYERS_def)
    fix i assume "i < length (key_slots bs)"
    then have "i < 56" by (simp add: key_slots_def IPC_KEY_COUNT_def LAYERS_def)
    then show "key_slots bs ! i = ks ! i"
      using concat_slice [OF keys(2), of i] keys(1) size
      by (simp add: key_slots_def IPC_KEY_COUNT_def LAYERS_def IPC_KEY_BYTES_def slice_def bs)
  qed
  with ks show ?thesis by simp
qed

text \<open>A reader that unpacks the header and cuts the key slots gets the transfer back.\<close>

lemma wire_bytes_keys:
  assumes "wire_bytes t = Inr bs" and "\<forall>key \<in> set (dt_keys t). \<forall>c \<in> set key. c \<noteq> CHR 0x00"
  shows "map slot_key (key_slots bs) = dt_keys t"
proof -
  have fits: "\<forall>key \<in> set (dt_keys t). key_fits key"
    using assms(1) by (auto simp: wire_bytes_parts transfer_wf_def)
  have "list_all2 (\<lambda>k b. wire_key k = Inr b) (dt_keys t) (key_slots bs)"
    using wire_bytes_slots [OF assms(1)] by (simp add: map_res_list_all2)
  then have "list_all2 (\<lambda>b k. slot_key b = k) (key_slots bs) (dt_keys t)"
    unfolding list_all2_conv_all_nth using fits assms(2) slot_key_wire by (metis nth_mem)
  then show ?thesis by (simp add: list_all2_conv_all_nth list_eq_iff_nth_eq)
qed

lemma no_execution_wire_bytes [simp]: "no_execution (wire_bytes t)"
  by (auto simp: wire_bytes_def wire_key_def Let_def intro!: no_execution_intros)

end
