(* ===== verification/KvCapture.thy ===== *)
theory KvCapture
  imports KvTransfer PyVal
begin

text \<open>
  The operations of \<open>kv_transfer.py\<close>: exporting the stock KV allocations through ACL,
  describing a plan's imported rows for the device, copying them into a snapshot, and
  writing the snapshot file.
\<close>

section \<open>The worker's KV caches\<close>

text \<open>One scheduler block of a cache, with its elements as 16-bit patterns.\<close>

record block_tensor =
  bt_dtype :: string
  bt_shape :: "nat list"
  bt_words :: "16 word list"

text \<open>What the code reads of a cache tensor; \<open>kt_blocks\<close> are the slices \<open>tensor[i]\<close>.\<close>

record kv_tensor =
  kt_dtype :: string
  kt_contiguous :: bool
  kt_data_ptr :: int
  kt_numel :: int
  kt_element_size :: int
  kt_storage_ptr :: int
  kt_storage_bytes :: int
  kt_storage_offset :: int
  kt_blocks :: "block_tensor list"

datatype kv_layer = KVPair kv_tensor kv_tensor | NoPair

text \<open>\<open>(data_ptr, view_bytes, allocation_ptr, allocation_bytes, source_offset)\<close>.\<close>

type_synonym signature = "int \<times> int \<times> int \<times> int \<times> int"

record export_table =
  et_signature :: "signature list"
  et_source_bytes :: int
  et_source_offsets :: "int list"
  et_keys :: "string list"

text \<open>The calls to the ACL runtime, in order, with what they returned.\<close>

datatype acl_call = ExportCall int int pyval int | CloseCall string

text \<open>
  The worker: \<open>model_runner.kv_caches\<close> (\<open>None\<close> when it is not a list), the cached export
  table, and the ACL calls made so far.
\<close>

record kv_worker =
  kw_caches :: "kv_layer list option"
  kw_exports :: "export_table option"
  kw_calls :: "acl_call list"

text \<open>
  The ACL runtime: \<open>aclrtMemGetAddressRange\<close>, when the library has it, gives the base, the
  size and a status for a pointer; \<open>ipc_mem_get_export_key\<close> may answer each call as it
  likes, given all calls before it.
\<close>

type_synonym address_range = "(int \<Rightarrow> int \<times> int \<times> int) option"
type_synonym export_api = "acl_call list \<Rightarrow> int \<Rightarrow> int \<Rightarrow> pyval \<times> int"

section \<open>Exporting the caches\<close>

definition device_allocation_range :: "address_range \<Rightarrow> int \<Rightarrow> exn + int \<times> int" where
  "device_allocation_range api data_ptr =
     (case api of
        None \<Rightarrow> Inl (RuntimeError ''CANN does not provide the required aclrtMemGetAddressRange API'')
      | Some f \<Rightarrow>
          (case f data_ptr of (allocation_ptr, allocation_bytes, status) \<Rightarrow>
             if status \<noteq> 0 \<or> allocation_ptr \<le> 0 \<or> allocation_bytes \<le> 0 then
               Inl (RuntimeError (''failed to resolve the CANN allocation containing stock KV, status=''
                 @ int_str status))
             else Inr (allocation_ptr, allocation_bytes)))"

definition device_tensor_signature :: "address_range \<Rightarrow> kv_tensor \<Rightarrow> exn + signature" where
  "device_tensor_signature api t =
     (if \<not> kt_contiguous t then
        Inl (RuntimeError ''stock KV cache entries must be contiguous for IPC export'')
      else let data_ptr = kt_data_ptr t; view_bytes = kt_numel t * kt_element_size t in
      rbind (device_allocation_range api data_ptr) (\<lambda>(allocation_ptr, allocation_bytes).
      let source_offset = data_ptr - allocation_ptr in
      if data_ptr \<le> 0 \<or> view_bytes \<le> 0 \<or> kt_storage_ptr t \<le> 0 \<or> kt_storage_bytes t \<le> 0
         \<or> allocation_ptr \<le> 0 \<or> allocation_bytes \<le> 0 \<or> source_offset < 0
         \<or> allocation_bytes < source_offset + view_bytes then
        Inl (RuntimeError ''stock KV cache entry has no exportable device allocation'')
      else if data_ptr - kt_storage_ptr t \<noteq> kt_storage_offset t * kt_element_size t then
        Inl (RuntimeError ''stock KV cache storage offset does not match its device pointer'')
      else Inr (data_ptr, view_bytes, allocation_ptr, allocation_bytes, source_offset)))"

definition bf16_signature :: "address_range \<Rightarrow> kv_tensor \<Rightarrow> exn + signature" where
  "bf16_signature api t =
     (if kt_dtype t \<noteq> ''torch.bfloat16'' then
        Inl (ValueError ''device KV IPC currently requires bfloat16 caches'')
      else device_tensor_signature api t)"

definition layer_signatures :: "address_range \<Rightarrow> kv_layer \<Rightarrow> exn + signature list" where
  "layer_signatures api layer =
     (case layer of
        NoPair \<Rightarrow> Inl (RuntimeError ''stock vLLM KV cache layer is not a K/V pair'')
      | KVPair k v \<Rightarrow> map_res (bf16_signature api) [k, v])"

text \<open>\<open>_DeviceKVExportTable.close\<close>: one close per distinct key; failures are ignored.\<close>

definition table_close :: "export_table \<Rightarrow> acl_call list \<Rightarrow> acl_call list" where
  "table_close t calls = calls @ map CloseCall (remdups (et_keys t))"

text \<open>The loop that exports every allocation once.\<close>

fun export_keys ::
  "export_api \<Rightarrow> (int \<times> int) list \<Rightarrow> (int, string) dict \<Rightarrow> string list \<Rightarrow> acl_call list \<Rightarrow>
   (exn + string list) \<times> acl_call list" where
  "export_keys acl [] exported ks calls = (Inr ks, calls)"
| "export_keys acl ((ptr, bytes) # rest) exported ks calls =
     (case map_of exported ptr of
        Some key \<Rightarrow> export_keys acl rest exported (ks @ [key]) calls
      | None \<Rightarrow>
          (case acl calls ptr bytes of (key, status) \<Rightarrow>
             (let calls' = calls @ [ExportCall ptr bytes key status] in
              case key of
                PStr k \<Rightarrow>
                  (if status \<noteq> 0 \<or> k = [] then
                     (Inl (RuntimeError (''failed to export stock KV allocation, status='' @ int_str status
                        @ '', storage_bytes='' @ int_str bytes)), calls' @ map CloseCall (map snd exported))
                   else export_keys acl rest (AList.update ptr k exported) (ks @ [k]) calls')
              | _ \<Rightarrow>
                  (Inl (RuntimeError (''failed to export stock KV allocation, status='' @ int_str status
                     @ '', storage_bytes='' @ int_str bytes)), calls' @ map CloseCall (map snd exported)))))"

definition get_device_kv_exports ::
  "address_range \<Rightarrow> export_api \<Rightarrow> kv_layer list \<Rightarrow> kv_worker \<Rightarrow> (exn + export_table) \<times> kv_worker" where
  "get_device_kv_exports api acl kv_caches w =
     (case map_res (layer_signatures api) kv_caches of
        Inl e \<Rightarrow> (Inl e, w)
      | Inr parts \<Rightarrow>
          (case concat parts of
             [] \<Rightarrow> (Inl (IndexError ''list index out of range''), w)
           | (first # others) \<Rightarrow>
               (let sigs = first # others; view_bytes = fst (snd first); source_bytes = fst (snd (snd (snd first))) in
                if (\<exists>entry \<in> set sigs. fst (snd entry) \<noteq> view_bytes) then
                  (Inl (RuntimeError ''key/value KV allocations do not have a common size''), w)
                else if (\<exists>entry \<in> set sigs. fst (snd (snd (snd entry))) \<noteq> source_bytes) then
                  (Inl (RuntimeError ''key/value KV storages do not have a common size''), w)
                else
                  (let fresh = (\<lambda>calls.
                     (case export_keys acl (map (\<lambda>(_, _, ptr, bytes, _). (ptr, bytes)) sigs) [] [] calls of
                        (Inl e, calls') \<Rightarrow> (Inl e, w\<lparr>kw_calls := calls'\<rparr>)
                      | (Inr ks, calls') \<Rightarrow>
                          (let table = \<lparr>et_signature = sigs, et_source_bytes = source_bytes,
                                 et_source_offsets = map (\<lambda>(_, _, _, _, off). off) sigs, et_keys = ks\<rparr>
                           in (Inr table, w\<lparr>kw_exports := Some table, kw_calls := calls'\<rparr>))))
                   in case kw_exports w of
                        Some current \<Rightarrow>
                          (if et_signature current = sigs then (Inr current, w)
                           else fresh (table_close current (kw_calls w)))
                      | None \<Rightarrow> fresh (kw_calls w)))))"

definition release_kv_device_exports :: "kv_worker \<Rightarrow> kv_worker" where
  "release_kv_device_exports w =
     w\<lparr>kw_exports := None,
       kw_calls := (case kw_exports w of None \<Rightarrow> kw_calls w | Some t \<Rightarrow> table_close t (kw_calls w))\<rparr>"

section \<open>Which keys are open\<close>

text \<open>The keys an ACL call leaves open, and those open after a series of calls.\<close>

fun after_call :: "acl_call \<Rightarrow> string set \<Rightarrow> string set" where
  "after_call (ExportCall ptr bytes (PStr k) status) ks = (if status = 0 \<and> k \<noteq> [] then insert k ks else ks)"
| "after_call (ExportCall ptr bytes _ status) ks = ks"
| "after_call (CloseCall k) ks = ks - {k}"

definition open_keys :: "acl_call list \<Rightarrow> string set" where
  "open_keys calls = fold after_call calls {}"

lemma open_keys_snoc [simp]: "open_keys (calls @ [c]) = after_call c (open_keys calls)"
  by (simp add: open_keys_def)

lemma fold_close: "fold after_call (map CloseCall ks) s = s - set ks"
  by (induction ks arbitrary: s) auto

lemma open_keys_closed [simp]: "open_keys (calls @ map CloseCall ks) = open_keys calls - set ks"
  by (simp add: open_keys_def fold_close)

lemma open_keys_table_close [simp]: "open_keys (table_close t calls) = open_keys calls - set (et_keys t)"
  by (simp add: table_close_def)

text \<open>
  What a run of the export loop does: the keys it returns are open, and nothing else was
  opened; when it fails, nothing it opened stays open.
\<close>

definition exported_facts ::
  "string set \<Rightarrow> (int \<times> int) list \<Rightarrow> (int, string) dict \<Rightarrow> exn + string list \<Rightarrow> acl_call list \<Rightarrow> string list \<Rightarrow> bool" where
  "exported_facts before entries exported res calls ks \<longleftrightarrow>
     (case res of
        Inl e \<Rightarrow> open_keys calls \<subseteq> before
      | Inr ks' \<Rightarrow>
          set (map snd exported) \<subseteq> open_keys calls
          \<and> open_keys calls \<subseteq> before \<union> set (map snd exported) \<union> set ks'
          \<and> (\<exists>m. ks' = ks @ map (\<lambda>e. m (fst e)) entries \<and> (\<forall>e \<in> set exported. m (fst e) = snd e)
                \<and> (\<forall>e \<in> set entries. m (fst e) \<in> open_keys calls)))"

lemma union_insert_mono: "A \<subseteq> B \<union> C \<union> D \<Longrightarrow> C \<subseteq> insert k E \<Longrightarrow> k \<in> D \<Longrightarrow> A \<subseteq> B \<union> E \<union> D"
  by blast

lemma exported_facts_Cons:
  assumes facts: "exported_facts before rest exported' res calls (ks @ [k])"
    and here: "(ptr, k) \<in> set exported'" and sub: "set exported \<subseteq> set exported'"
    and vals: "set (map snd exported') \<subseteq> insert k (set (map snd exported))"
  shows "exported_facts before ((ptr, bytes) # rest) exported res calls ks"
proof (cases res)
  case (Inl e)
  with facts show ?thesis by (simp add: exported_facts_def)
next
  case (Inr ks')
  with facts obtain m where known: "set (map snd exported') \<subseteq> open_keys calls"
    and upper: "open_keys calls \<subseteq> before \<union> set (map snd exported') \<union> set ks'"
    and ks': "ks' = (ks @ [k]) @ map (\<lambda>e. m (fst e)) rest"
    and m: "\<forall>e \<in> set exported'. m (fst e) = snd e" and later: "\<forall>e \<in> set rest. m (fst e) \<in> open_keys calls"
    by (auto simp: exported_facts_def)
  have mk: "m ptr = k" using m here by force
  have "k \<in> set (map snd exported')" using here by force
  with known have "k \<in> open_keys calls" by blast
  moreover have "set (map snd exported) \<subseteq> open_keys calls"
    using known sub by auto
  moreover have "open_keys calls \<subseteq> before \<union> set (map snd exported) \<union> set ks'"
  proof -
    have "k \<in> set ks'" using ks' by simp
    with upper vals show ?thesis by (rule union_insert_mono)
  qed
  moreover have "\<forall>e \<in> set exported. m (fst e) = snd e" using m sub by (meson subsetD)
  moreover have "ks' = ks @ map (\<lambda>e. m (fst e)) ((ptr, bytes) # rest)"
    using ks' mk by simp
  moreover have "\<forall>e \<in> set ((ptr, bytes) # rest). m (fst e) \<in> open_keys calls"
    using later mk calculation(1) by simp
  ultimately show ?thesis
    unfolding exported_facts_def Inr sum.case by blast
qed

lemma export_keys_facts:
  assumes "export_keys acl entries exported ks calls = (res, calls')" and "dict_wf exported"
    and "set (map snd exported) \<subseteq> open_keys calls"
    and "open_keys calls \<subseteq> before \<union> set (map snd exported)"
  shows "exported_facts before entries exported res calls' ks"
  using assms
proof (induction acl entries exported ks calls arbitrary: res calls' rule: export_keys.induct)
  case (1 acl exported ks calls)
  then have "\<forall>e \<in> set exported. the (map_of exported (fst e)) = snd e"
    by (auto simp: dict_wf_def)
  with 1 show ?case
    unfolding exported_facts_def by (auto intro!: exI [of _ "\<lambda>p. the (map_of exported p)"])
next
  case (2 acl ptr bytes rest exported ks calls)
  show ?case
  proof (cases "map_of exported ptr")
    case (Some key)
    with "2.prems" "2.IH"(2) [OF Some] have "exported_facts before rest exported res calls' (ks @ [key])" by simp
    moreover have "(ptr, key) \<in> set exported" using Some by (rule map_of_SomeD)
    ultimately show ?thesis by (rule exported_facts_Cons) auto
  next
    case None
    obtain key status where reply: "acl calls ptr bytes = (key, status)" by fastforce
    let ?calls = "calls @ [ExportCall ptr bytes key status]"
    show ?thesis
    proof (cases "\<exists>k. key = PStr k \<and> status = 0 \<and> k \<noteq> []")
      case False
      then have same: "open_keys ?calls = open_keys calls" by (cases key) auto
      from False None reply "2.prems"(1) have "isl res" "calls' = ?calls @ map CloseCall (map snd exported)"
        by (auto simp: Let_def split: pyval.splits if_splits)
      moreover have "open_keys (?calls @ map CloseCall (map snd exported)) = open_keys calls - set (map snd exported)"
        unfolding open_keys_closed same ..
      ultimately show ?thesis
        using "2.prems"(4) by (cases res) (auto simp: exported_facts_def)
    next
      case True
      then obtain k where k: "key = PStr k" "status = 0" "k \<noteq> []" by blast
      let ?exported = "AList.update ptr k exported"
      have run: "export_keys acl rest ?exported (ks @ [k]) ?calls = (res, calls')"
        using "2.prems"(1) None reply k by (simp add: Let_def)
      have vals: "map snd ?exported = map snd exported @ [k]"
        using "2.prems"(2) None by (intro dict_values_update) (auto simp: dict_get_None_iff)
      have "exported_facts before rest ?exported res calls' (ks @ [k])"
      proof (rule "2.IH"(1) [OF None reply [symmetric] refl k(1) _ run])
        show "\<not> (status \<noteq> 0 \<or> k = [])" using k by simp
        show "dict_wf ?exported" using "2.prems"(2) by simp
        show "set (map snd ?exported) \<subseteq> open_keys ?calls"
          unfolding vals using "2.prems"(3) k by auto
        show "open_keys ?calls \<subseteq> before \<union> set (map snd ?exported)"
          unfolding vals using "2.prems"(4) k by auto
      qed
      moreover have "(ptr, k) \<in> set ?exported"
        by (rule map_of_SomeD) (simp add: dict_get_update)
      moreover have "set exported \<subseteq> set ?exported"
      proof clarify
        fix p k' assume "(p, k') \<in> set exported"
        then have "map_of exported p = Some k'" using "2.prems"(2) by (simp add: dict_wf_def)
        then have "map_of ?exported p = Some k'" using None by (auto simp: dict_get_update)
        then show "(p, k') \<in> set ?exported" by (rule map_of_SomeD)
      qed
      ultimately show ?thesis
        by (rule exported_facts_Cons) (simp only: vals, auto)
    qed
  qed
qed

text \<open>The worker's cached table names only keys that are open.\<close>

definition exports_open :: "kv_worker \<Rightarrow> bool" where
  "exports_open w \<longleftrightarrow> (\<forall>t. kw_exports w = Some t \<longrightarrow> set (et_keys t) \<subseteq> open_keys (kw_calls w))"

text \<open>One key per allocation: two caches in the same allocation share it.\<close>

definition table_covers :: "export_table \<Rightarrow> bool" where
  "table_covers t \<longleftrightarrow> (\<exists>m. et_keys t = map (\<lambda>(_, _, ptr, _, _). m ptr) (et_signature t))
     \<and> et_source_offsets t = map (\<lambda>(_, _, _, _, off). off) (et_signature t)"

text \<open>The three ways the export ends: an error before any call, the cached table, a fresh export.\<close>

lemma get_exports_cases:
  assumes "get_device_kv_exports api acl kv_caches w = (res, w')"
  obtains (unchanged) e where "res = Inl e" "w' = w"
  | (cached) t where "kw_exports w = Some t" "res = Inr t" "w' = w"
  | (failed) e calls calls' entries where "res = Inl e" "w' = w\<lparr>kw_calls := calls'\<rparr>"
      "export_keys acl entries [] [] calls = (Inl e, calls')"
      "calls = (case kw_exports w of None \<Rightarrow> kw_calls w | Some t \<Rightarrow> table_close t (kw_calls w))"
  | (exported) t ks calls calls' where "res = Inr t" "w' = w\<lparr>kw_exports := Some t, kw_calls := calls'\<rparr>"
      "export_keys acl (map (\<lambda>(_, _, ptr, bytes, _). (ptr, bytes)) (et_signature t)) [] [] calls = (Inr ks, calls')"
      "et_keys t = ks" "et_source_offsets t = map (\<lambda>(_, _, _, _, off). off) (et_signature t)"
      "calls = (case kw_exports w of None \<Rightarrow> kw_calls w | Some t \<Rightarrow> table_close t (kw_calls w))"
proof -
  show thesis
  proof (cases "map_res (layer_signatures api) kv_caches")
    case (Inl e)
    with assms unchanged show thesis by (auto simp: get_device_kv_exports_def)
  next
    case (Inr parts)
    show thesis
    proof (cases "concat parts")
      case Nil
      with Inr assms unchanged show thesis by (auto simp: get_device_kv_exports_def)
    next
      case (Cons first others)
      let ?sigs = "first # others" and ?calls = "case kw_exports w of None \<Rightarrow> kw_calls w | Some t \<Rightarrow> table_close t (kw_calls w)"
      let ?view = "\<exists>entry \<in> set ?sigs. fst (snd entry) \<noteq> fst (snd first)"
      let ?source = "\<exists>entry \<in> set ?sigs. fst (snd (snd (snd entry))) \<noteq> fst (snd (snd (snd first)))"
      show thesis
      proof (cases "?view \<or> ?source")
        case True
        with Inr Cons assms unchanged show thesis
          by (auto simp: get_device_kv_exports_def Let_def split: if_splits)
      next
        case sizes: False
        obtain r calls' where run: "export_keys acl (map (\<lambda>(_, _, ptr, bytes, _). (ptr, bytes)) ?sigs) [] [] ?calls = (r, calls')"
          by fastforce
        show thesis
        proof (cases "\<exists>t. kw_exports w = Some t \<and> et_signature t = ?sigs")
          case True
          then obtain t where "kw_exports w = Some t" "et_signature t = ?sigs" by blast
          with Inr Cons sizes assms show thesis
            by (intro cached [of t]) (simp_all only: get_device_kv_exports_def Let_def sum.case list.case option.case if_False if_True de_Morgan_disj prod.inject simp_thms)
        next
          case False
          with Inr Cons sizes assms run show thesis
            by (cases r; cases "kw_exports w")
              (auto simp: get_device_kv_exports_def Let_def simp del: export_keys.simps intro: failed exported)
        qed
      qed
    qed
  qed
qed


lemma get_exports_open:
  assumes "get_device_kv_exports api acl kv_caches w = (Inr t, w')" and "exports_open w"
  shows "set (et_keys t) \<subseteq> open_keys (kw_calls w') \<and> kw_exports w' = Some t
    \<and> open_keys (kw_calls w') \<subseteq> open_keys (kw_calls w) \<union> set (et_keys t)"
  using assms(1)
proof (cases rule: get_exports_cases)
  case (cached t')
  with assms(2) show ?thesis by (auto simp: exports_open_def)
next
  case (exported t' ks calls calls')
  then have t: "t' = t" by simp
  let ?entries = "map (\<lambda>(_, _, ptr, bytes, _). (ptr, bytes)) (et_signature t)"
  have facts: "exported_facts (open_keys calls) ?entries [] (Inr ks) calls' []"
    using export_keys_facts [OF exported(3), of "open_keys calls"] t by simp
  have before: "open_keys calls \<subseteq> open_keys (kw_calls w)"
    using exported(6) by (auto split: option.splits)
  have "open_keys calls' \<subseteq> open_keys calls \<union> set ks" "set ks \<subseteq> open_keys calls'"
    using facts by (auto simp: exported_facts_def)
  with before exported(2,4) t show ?thesis by auto
qed simp_all

lemma get_exports_failed:
  assumes "get_device_kv_exports api acl kv_caches w = (Inl e, w')"
  shows "open_keys (kw_calls w') \<subseteq> open_keys (kw_calls w)" and "kw_exports w' = kw_exports w"
proof -
  have "open_keys (kw_calls w') \<subseteq> open_keys (kw_calls w) \<and> kw_exports w' = kw_exports w"
    using assms
  proof (cases rule: get_exports_cases)
    case (failed e' calls calls' entries)
    then have "open_keys calls' \<subseteq> open_keys calls"
      using export_keys_facts [OF failed(3), of "open_keys calls"] by (simp add: exported_facts_def)
    also have "open_keys calls \<subseteq> open_keys (kw_calls w)"
      using failed(4) by (auto split: option.splits)
    finally show ?thesis using failed by simp
  qed simp_all
  then show "open_keys (kw_calls w') \<subseteq> open_keys (kw_calls w)" and "kw_exports w' = kw_exports w" by auto
qed

lemma get_exports_table: "get_device_kv_exports api acl kv_caches w = (Inr t, w') \<Longrightarrow> kw_exports w' = Some t"
  by (erule get_exports_cases) auto

lemma get_exports_covers:
  assumes "get_device_kv_exports api acl kv_caches w = (Inr t, w')" 
    and "\<forall>t. kw_exports w = Some t \<longrightarrow> table_covers t"
  shows "table_covers t"
  using assms(1)
proof (cases rule: get_exports_cases)
  case (cached t')
  with assms(2) show ?thesis by simp
next
  case (exported t' ks calls calls')
  then have t: "t' = t" by simp
  have "exported_facts (open_keys calls) (map (\<lambda>(_, _, ptr, bytes, _). (ptr, bytes)) (et_signature t)) [] (Inr ks) calls' []"
    using export_keys_facts [OF exported(3), of "open_keys calls"] t by simp
  then obtain m where "ks = map (\<lambda>e. m (fst e)) (map (\<lambda>(_, _, ptr, bytes, _). (ptr, bytes)) (et_signature t))"
    by (auto simp: exported_facts_def)
  then have "ks = map (\<lambda>(_, _, ptr, _, _). m ptr) (et_signature t)"
    by (auto simp: case_prod_beta)
  with exported(4,5) t show ?thesis unfolding table_covers_def by blast
qed simp_all

lemma release_exports:
  "kw_exports (release_kv_device_exports w) = None"
  "open_keys (kw_calls (release_kv_device_exports w)) =
     open_keys (kw_calls w) - (case kw_exports w of None \<Rightarrow> {} | Some t \<Rightarrow> set (et_keys t))"
  by (auto simp: release_kv_device_exports_def split: option.splits)

end
