(* ===== verification/KvRows.thy ===== *)
theory KvRows
  imports KvCapture
begin

text \<open>
  The rest of \<open>kv_transfer.py\<close>: which rows of a plan a transfer carries, the device
  transfer, the snapshot of the selected blocks, and the snapshot file.
\<close>

section \<open>The imported rows of a plan\<close>

definition importing :: "epoch_plan \<Rightarrow> epoch_request list" where
  "importing p = filter rq_kv_import_required (pl_requests p)"

text \<open>\<open>1 << row\<close>.\<close>

definition shift_one :: "int \<Rightarrow> exn + int" where
  "shift_one row =
     (if row < 0 then Inl (ValueError ''negative shift count'') else Inr (push_bit (nat row) 1))"

text \<open>\<open>secrets.randbits(63) or 1\<close>, with the random number as an argument.\<close>

definition nonzero_id :: "int \<Rightarrow> int" where
  "nonzero_id r = (if r = 0 then 1 else r)"

section \<open>Device transfers\<close>

definition describe_row ::
  "epoch_request \<Rightarrow> int list \<times> int list \<times> int \<Rightarrow> exn + int list \<times> int list \<times> int" where
  "describe_row q acc =
     (case acc of (block_ids, generations, import_mask) \<Rightarrow>
       if length (rq_scheduler_block_ids q) \<noteq> 1 then
         Inl (ValueError ''device KV IPC requires one scheduler block per row'')
       else
         rbind (seq_set block_ids (rq_row q) (hd (rq_scheduler_block_ids q))) (\<lambda>block_ids'.
         rbind (seq_set generations (rq_row q) (rq_generation q)) (\<lambda>generations'.
         rbind (shift_one (rq_row q)) (\<lambda>b.
           Inr (block_ids', generations', Bit_Operations.or import_mask b)))))"

definition capture_kv_device_transfer ::
  "address_range \<Rightarrow> export_api \<Rightarrow> int \<Rightarrow> epoch_plan \<Rightarrow> kv_worker \<Rightarrow> (exn + device_transfer) \<times> kv_worker" where
  "capture_kv_device_transfer api acl rand p w =
     (if importing p = [] then
        (Inl (ValueError ''device KV transfer requested for a plan without imports''), w)
      else (case kw_caches w of
        None \<Rightarrow> (Inl (RuntimeError ''stock vLLM KV cache layout is not the M4b layout''), w)
      | Some caches \<Rightarrow>
          (if length caches \<noteq> LAYERS then
             (Inl (RuntimeError ''stock vLLM KV cache layout is not the M4b layout''), w)
           else (case get_device_kv_exports api acl caches w of
             (Inl e, w') \<Rightarrow> (Inl e, w')
           | (Inr table, w') \<Rightarrow>
               (rbind (fold_res describe_row (importing p)
                   (replicate GRAPH_BATCH_SIZE 0, replicate GRAPH_BATCH_SIZE 0, 0))
                  (\<lambda>(block_ids, generations, import_mask).
                     let transfer =
                       \<lparr>dt_transfer_id = nonzero_id rand, dt_import_mask = import_mask,
                        dt_row_generations = generations, dt_block_ids = block_ids,
                        dt_source_bytes = et_source_bytes table,
                        dt_source_offsets = et_source_offsets table, dt_keys = et_keys table\<rparr>
                     in rbind (transfer_validate transfer) (\<lambda>_. Inr transfer)), w')))))"

section \<open>Snapshots\<close>

text \<open>\<open>torch.stack(rows, dim=0)\<close> of tensors of one shape; the shape of the result is not read.\<close>

type_synonym torch_stack = "block_tensor list \<Rightarrow> block_tensor"

definition M1_SHAPE :: "nat list" where "M1_SHAPE = [BLOCK_SIZE, NUM_KV_HEADS, HEAD_SIZE]"

definition zero_row :: block_tensor where
  "zero_row = \<lparr>bt_dtype = ''torch.bfloat16'', bt_shape = M1_SHAPE, bt_words = replicate BLOCK_ELEMENTS 0\<rparr>"

definition word_bytes :: "16 word \<Rightarrow> byte list" where
  "word_bytes w = le_bytes 2 (unat w)"

definition block_bytes :: "block_tensor \<Rightarrow> byte list" where
  "block_bytes t = concat (map word_bytes (bt_words t))"

definition tensor_bytes :: "block_tensor \<Rightarrow> exn + byte list" where
  "tensor_bytes t =
     (if bt_dtype t \<noteq> ''torch.bfloat16'' then
        Inl (ValueError (''unsupported KV cache dtype: '' @ bt_dtype t))
      else Inr (block_bytes t))"

text \<open>The body of the loop over rows, for one layer.\<close>

definition capture_row ::
  "(int, epoch_request) dict \<Rightarrow> kv_tensor \<Rightarrow> kv_tensor \<Rightarrow> nat \<Rightarrow> exn + block_tensor \<times> block_tensor" where
  "capture_row by_row key_cache value_cache row =
     (case map_of by_row (int row) of
        None \<Rightarrow> Inr (zero_row, zero_row)
      | Some q \<Rightarrow>
          (if length (rq_scheduler_block_ids q) \<noteq> 1 then
             Inl (ValueError ''M1 transfer requires one scheduler block per row'')
           else let block_id = hd (rq_scheduler_block_ids q) in
           if block_id < 0 \<or> int (length (kt_blocks key_cache)) \<le> block_id then
             Inl (ValueError ''scheduler block is outside the stock KV cache'')
           else
             rbind (seq_item (kt_blocks key_cache) block_id) (\<lambda>key_block.
             rbind (seq_item (kt_blocks value_cache) block_id) (\<lambda>value_block.
               if bt_shape key_block \<noteq> M1_SHAPE \<or> bt_shape value_block \<noteq> M1_SHAPE then
                 Inl (RuntimeError ''stock vLLM KV block shape differs from M1 layout'')
               else Inr (key_block, value_block)))))"

definition capture_layer ::
  "torch_stack \<Rightarrow> (int, epoch_request) dict \<Rightarrow> kv_layer \<Rightarrow> exn + block_tensor \<times> block_tensor" where
  "capture_layer stack by_row layer =
     (case layer of
        NoPair \<Rightarrow> Inl (RuntimeError ''stock vLLM KV cache layer is not a K/V pair'')
      | KVPair key_cache value_cache \<Rightarrow>
          rbind (map_res (capture_row by_row key_cache value_cache) [0..<GRAPH_BATCH_SIZE]) (\<lambda>rows.
            Inr (stack (map fst rows), stack (map snd rows))))"

definition set_generation :: "epoch_request \<Rightarrow> int list \<Rightarrow> exn + int list" where
  "set_generation q generations = seq_set generations (rq_row q) (rq_generation q)"

definition capture_kv_snapshot ::
  "torch_stack \<Rightarrow> int \<Rightarrow> epoch_plan \<Rightarrow> kv_worker \<Rightarrow> exn + kv_snapshot" where
  "capture_kv_snapshot stack rand p w =
     (let requests = importing p in
      if requests = [] then Inl (ValueError ''KV snapshot requested for a plan without imports'')
      else if int BLOCK_SIZE < pl_logical_capacity p then
        Inl (ValueError ''M1 transfer currently supports one 128-token block'')
      else let by_row = fold (\<lambda>q. AList.update (rq_row q) q) requests [] in
      (case kw_caches w of
         None \<Rightarrow> Inl (RuntimeError ''stock vLLM KV cache layout is not the M1 layout'')
       | Some caches \<Rightarrow>
           (if length caches \<noteq> LAYERS then
              Inl (RuntimeError ''stock vLLM KV cache layout is not the M1 layout'')
            else
              rbind (map_res (capture_layer stack by_row) caches) (\<lambda>layers.
              rbind (tensor_bytes (stack (map fst layers))) (\<lambda>key_payload.
              rbind (tensor_bytes (stack (map snd layers))) (\<lambda>value_payload.
              rbind (fold_res set_generation requests (replicate GRAPH_BATCH_SIZE 0)) (\<lambda>generations.
              rbind (map_res (\<lambda>q. shift_one (rq_row q)) requests) (\<lambda>shifts.
                let payload = key_payload @ value_payload; import_mask = sum_list shifts in
                rbind (kv_payload_checksum payload import_mask) (\<lambda>checksum.
                  let snapshot =
                    \<lparr>sn_transfer_id = nonzero_id rand, sn_import_mask = import_mask,
                     sn_row_generations = generations, sn_payload = payload, sn_checksum = checksum\<rparr>
                  in rbind (snapshot_validate snapshot) (\<lambda>_. Inr snapshot))))))))))"

section \<open>Masks and vectors indexed by row\<close>

declare push_bit_of_1 [simp del]

text \<open>The vector with \<open>f q\<close> at the row of each request and the old entry elsewhere.\<close>

definition overlay :: "(epoch_request \<Rightarrow> int) \<Rightarrow> epoch_request list \<Rightarrow> int list \<Rightarrow> int list" where
  "overlay f qs xs =
     map (\<lambda>i. case find (\<lambda>q. rq_row q = int i) qs of Some q \<Rightarrow> f q | None \<Rightarrow> xs ! i) [0..<length xs]"

abbreviation by_rows :: "(epoch_request \<Rightarrow> int) \<Rightarrow> epoch_request list \<Rightarrow> int list" where
  "by_rows f qs \<equiv> overlay f qs [0, 0, 0, 0]"

definition rows_ok :: "epoch_request list \<Rightarrow> bool" where
  "rows_ok qs \<longleftrightarrow> distinct (map rq_row qs) \<and> (\<forall>q \<in> set qs. 0 \<le> rq_row q \<and> rq_row q < 4)"

lemma rows_ok_Cons: "rows_ok (q # qs) \<longleftrightarrow> rows_ok qs \<and> 0 \<le> rq_row q \<and> rq_row q < 4 \<and> rq_row q \<notin> rq_row ` set qs"
  by (auto simp: rows_ok_def)

lemma importing_rows_ok: "plan_wf p \<Longrightarrow> rows_ok (importing p)"
  unfolding plan_wf_def rows_ok_def importing_def request_wf_def
  by (auto simp: distinct_map_filter)

lemma length_overlay [simp]: "length (overlay f qs xs) = length xs"
  by (simp add: overlay_def)

lemma overlay_Cons:
  assumes "0 \<le> rq_row q" and "rq_row q < int (length xs)" and "rq_row q \<notin> rq_row ` set qs"
  shows "overlay f qs (xs[nat (rq_row q) := f q]) = overlay f (q # qs) xs"
proof -
  have "find (\<lambda>r. rq_row r = rq_row q) qs = None"
    using assms(3) by (simp add: find_None_iff) (metis image_eqI)
  then show ?thesis
    using assms(1,2) by (auto simp: overlay_def nth_list_update intro!: nth_equalityI split: option.split)
qed

lemma overlay_Nil [simp]: "overlay f [] xs = xs"
  by (simp add: overlay_def map_nth)

lemma overlay_row:
  assumes "rows_ok qs" and "q \<in> set qs" and "4 \<le> length xs"
  shows "overlay f qs xs ! nat (rq_row q) = f q"
proof -
  have row: "0 \<le> rq_row q" "rq_row q < 4" using assms(1,2) by (auto simp: rows_ok_def)
  have "find (\<lambda>r. rq_row r = rq_row q) qs = Some q"
    using assms(1,2)
  proof (induction qs)
    case Nil
    then show ?case by simp
  next
    case (Cons r qs)
    then show ?case by (auto simp: rows_ok_Cons)
  qed
  with row assms(3) show ?thesis by (simp add: overlay_def)
qed

lemma overlay_other:
  assumes "int i \<notin> rq_row ` set qs" and "i < length xs"
  shows "overlay f qs xs ! i = xs ! i"
proof -
  have "find (\<lambda>q. rq_row q = int i) qs = None"
    using assms(1) by (simp add: find_None_iff) (metis image_eqI)
  with assms(2) show ?thesis by (simp add: overlay_def)
qed

text \<open>The mask with a bit for each row.\<close>

definition rows_mask :: "epoch_request list \<Rightarrow> int" where
  "rows_mask qs = fold (\<lambda>q m. Bit_Operations.or m (push_bit (nat (rq_row q)) 1)) qs 0"

lemma bit_push_one: "bit (push_bit k (1 :: int)) i \<longleftrightarrow> i = k"
  by (auto simp: bit_push_bit_iff bit_1_iff)

lemma fold_or_bit:
  "bit (fold (\<lambda>q m. Bit_Operations.or m (push_bit (nat (rq_row q)) 1)) qs m) i \<longleftrightarrow>
     bit (m :: int) i \<or> i \<in> (\<lambda>q. nat (rq_row q)) ` set qs"
  by (induction qs arbitrary: m) (auto simp: bit_or_iff bit_push_one)

lemma fold_or_nonneg:
  "0 \<le> (m :: int) \<Longrightarrow> 0 \<le> fold (\<lambda>q m. Bit_Operations.or m (push_bit (nat (rq_row q)) 1)) qs m"
  by (induction qs arbitrary: m) auto

lemma rows_mask_selected:
  "rows_ok qs \<Longrightarrow> row_selected (rows_mask qs) i \<longleftrightarrow> int i \<in> rq_row ` set qs"
  unfolding row_selected_bit rows_mask_def fold_or_bit rows_ok_def
  by (auto simp: image_iff) (metis nat_int)

lemma rows_mask_range:
  assumes "rows_ok qs" and "qs \<noteq> []"
  shows "0 < rows_mask qs \<and> rows_mask qs < 16"
proof -
  have nonneg: "0 \<le> rows_mask qs" by (simp add: rows_mask_def fold_or_nonneg)
  have "take_bit 4 (rows_mask qs) = rows_mask qs"
  proof (rule bit_eqI)
    fix i
    show "bit (take_bit 4 (rows_mask qs)) i = bit (rows_mask qs) i"
      using assms(1) rows_mask_selected [OF assms(1), of i, unfolded row_selected_bit]
      by (auto simp: bit_take_bit_iff rows_ok_def)
  qed
  then have "rows_mask qs < 2 ^ 4" by (metis take_bit_int_less_exp)
  moreover have "rows_mask qs \<noteq> 0"
  proof -
    obtain q where q: "q \<in> set qs" using assms(2) by (cases qs) auto
    then have "int (nat (rq_row q)) = rq_row q" using assms(1) by (auto simp: rows_ok_def)
    with q have "bit (rows_mask qs) (nat (rq_row q))"
      using rows_mask_selected [OF assms(1), of "nat (rq_row q)", unfolded row_selected_bit] by auto
    then show ?thesis by auto
  qed
  ultimately show ?thesis using nonneg by simp
qed

lemma shifts_sum:
  assumes "rows_ok qs"
  shows "\<exists>shifts. map_res (\<lambda>q. shift_one (rq_row q)) qs = Inr shifts \<and> sum_list shifts = rows_mask qs"
proof -
  have "map_res (\<lambda>q. shift_one (rq_row q)) qs = Inr (map (\<lambda>q. push_bit (nat (rq_row q)) 1) qs)"
    by (rule map_res_total) (use assms in \<open>auto simp: rows_ok_def shift_one_def\<close>)
  moreover have "m + sum_list (map (\<lambda>q. push_bit (nat (rq_row q)) 1) qs) =
      fold (\<lambda>q m. Bit_Operations.or m (push_bit (nat (rq_row q)) 1)) qs m"
    if "\<forall>q \<in> set qs. \<not> bit m (nat (rq_row q))" for m :: int
    using assms that
  proof (induction qs arbitrary: m)
    case Nil
    show ?case by simp
  next
    case (Cons q qs)
    let ?b = "push_bit (nat (rq_row q)) 1 :: int"
    have "Bit_Operations.and m ?b = 0"
      using Cons.prems(2) by (intro bit_eqI) (auto simp: bit_and_iff bit_push_one)
    then have add: "m + ?b = Bit_Operations.or m ?b" by (rule disjunctive_add_eq_or)
    have "\<forall>r \<in> set qs. \<not> bit (Bit_Operations.or m ?b) (nat (rq_row r))"
    proof
      fix r assume r: "r \<in> set qs"
      then have "rq_row r \<in> rq_row ` set qs" by (rule imageI)
      moreover have "rq_row q \<notin> rq_row ` set qs" using Cons.prems(1) by (simp add: rows_ok_Cons)
      ultimately have "rq_row r \<noteq> rq_row q" by metis
      moreover have "0 \<le> rq_row r" "0 \<le> rq_row q"
        using r Cons.prems(1) by (auto simp: rows_ok_def)
      ultimately have "nat (rq_row r) \<noteq> nat (rq_row q)" by simp
      with r Cons.prems(2) show "\<not> bit (Bit_Operations.or m ?b) (nat (rq_row r))"
        by (simp add: bit_or_iff bit_push_one)
    qed
    then have "Bit_Operations.or m ?b + sum_list (map (\<lambda>q. push_bit (nat (rq_row q)) 1) qs) =
      fold (\<lambda>q m. Bit_Operations.or m (push_bit (nat (rq_row q)) 1)) qs (Bit_Operations.or m ?b)"
      using Cons.prems(1) by (intro Cons.IH) (simp_all add: rows_ok_Cons)
    with add show ?case by (simp add: add.assoc [symmetric])
  qed
  from this [of 0] have "sum_list (map (\<lambda>q. push_bit (nat (rq_row q)) 1) qs) = rows_mask qs"
    by (simp add: rows_mask_def)
  ultimately show ?thesis by blast
qed

text \<open>The two loops over the imported rows, in closed form.\<close>

lemma fold_overlay:
  assumes "\<forall>q \<in> set qs. 0 \<le> rq_row q \<and> rq_row q < int (length xs)" and "distinct (map rq_row qs)"
  shows "fold_res (\<lambda>q xs. seq_set xs (rq_row q) (f q)) qs xs = Inr (overlay f qs xs)"
  using assms
proof (induction qs arbitrary: xs)
  case Nil
  show ?case by simp
next
  case (Cons q qs)
  then show ?case by (simp add: overlay_Cons)
qed

lemma overlay_at:
  assumes "distinct (map rq_row qs)" and "q \<in> set qs" and "0 \<le> rq_row q" and "rq_row q < int (length xs)"
  shows "overlay f qs xs ! nat (rq_row q) = f q"
proof -
  have "find (\<lambda>r. rq_row r = rq_row q) qs = Some q"
    using assms(1,2) by (induction qs) auto
  with assms(3,4) show ?thesis by (simp add: overlay_def)
qed

lemma set_generations:
  "rows_ok qs \<Longrightarrow> 4 \<le> length xs \<Longrightarrow> fold_res set_generation qs xs = Inr (overlay rq_generation qs xs)"
  unfolding set_generation_def by (intro fold_overlay) (auto simp: rows_ok_def)

definition one_block :: "epoch_request \<Rightarrow> bool" where
  "one_block q \<longleftrightarrow> length (rq_scheduler_block_ids q) = 1"

abbreviation block_of :: "epoch_request \<Rightarrow> int" where
  "block_of q \<equiv> hd (rq_scheduler_block_ids q)"

lemma describe_rows:
  assumes "rows_ok qs" and "\<forall>q \<in> set qs. one_block q" and "4 \<le> length bs" and "4 \<le> length gs"
  shows "fold_res describe_row qs (bs, gs, m) =
    Inr (overlay block_of qs bs, overlay rq_generation qs gs,
      fold (\<lambda>q m. Bit_Operations.or m (push_bit (nat (rq_row q)) 1)) qs m)"
  using assms
proof (induction qs arbitrary: bs gs m)
  case Nil
  show ?case by simp
next
  case (Cons q qs)
  then have row: "0 \<le> rq_row q" "rq_row q < int (length bs)" "rq_row q < int (length gs)"
    "rq_row q \<notin> rq_row ` set qs" by (auto simp: rows_ok_Cons)
  have "describe_row q (bs, gs, m) = Inr (bs[nat (rq_row q) := block_of q], gs[nat (rq_row q) := rq_generation q],
      Bit_Operations.or m (push_bit (nat (rq_row q)) 1))"
    using row Cons.prems(2) by (simp add: describe_row_def shift_one_def one_block_def)
  moreover have "rows_ok qs" "\<forall>q \<in> set qs. one_block q" using Cons.prems(1,2) by (auto simp: rows_ok_Cons)
  ultimately show ?case
    using Cons.IH Cons.prems(3,4) row overlay_Cons by simp
qed

lemma describe_needs_blocks:
  "fold_res describe_row qs acc = Inr acc' \<Longrightarrow> q \<in> set qs \<Longrightarrow> one_block q"
  by (induction qs arbitrary: acc) (auto simp: rbind_Inr_iff describe_row_def one_block_def split: if_splits prod.splits)


section \<open>What a capture describes\<close>

lemma get_exports_caches: "get_device_kv_exports api acl caches w = (res, w') \<Longrightarrow> kw_caches w' = kw_caches w"
  by (erule get_exports_cases) auto

text \<open>A device transfer describes exactly the importing rows of the plan it was made for.\<close>

lemma capture_device_facts:
  assumes "capture_kv_device_transfer api acl rand p w = (Inr t, w')" and "plan_wf p"
  shows "transfer_wf t \<and> (\<forall>q \<in> set (importing p). one_block q) \<and> dt_import_mask t = rows_mask (importing p)
    \<and> dt_row_generations t = by_rows rq_generation (importing p)
    \<and> dt_block_ids t = by_rows block_of (importing p)
    \<and> (\<exists>caches table. kw_caches w = Some caches \<and> get_device_kv_exports api acl caches w = (Inr table, w')
         \<and> dt_keys t = et_keys table \<and> dt_source_offsets t = et_source_offsets table)"
proof -
  have zeros: "replicate GRAPH_BATCH_SIZE 0 = [0, 0, 0, 0 :: int]"
    by (simp add: GRAPH_BATCH_SIZE_def numeral_eq_Suc)
  obtain caches where caches: "kw_caches w = Some caches" "length caches = LAYERS"
    using assms(1) by (auto simp: capture_kv_device_transfer_def split: option.splits if_splits)
  obtain r w1 where exports: "get_device_kv_exports api acl caches w = (r, w1)" by fastforce
  from assms(1) caches exports obtain table where table: "r = Inr table" and same: "w1 = w'"
    by (cases r) (auto simp: capture_kv_device_transfer_def split: if_splits)
  from assms(1) caches exports table obtain bs gs m where
    loop: "fold_res describe_row (importing p) ([0, 0, 0, 0], [0, 0, 0, 0], 0) = Inr (bs, gs, m)"
    and wf: "transfer_wf t" and t: "t = \<lparr>dt_transfer_id = nonzero_id rand, dt_import_mask = m,
        dt_row_generations = gs, dt_block_ids = bs, dt_source_bytes = et_source_bytes table,
        dt_source_offsets = et_source_offsets table, dt_keys = et_keys table\<rparr>"
    by (auto simp: capture_kv_device_transfer_def zeros rbind_Inr_iff Let_def transfer_check.validate_iff split: if_splits)
  have blocks: "\<forall>q \<in> set (importing p). one_block q" using describe_needs_blocks [OF loop] by blast
  with describe_rows [OF importing_rows_ok [OF assms(2)], of "[0, 0, 0, 0]" "[0, 0, 0, 0]" 0] loop
  have "bs = by_rows block_of (importing p)" "gs = by_rows rq_generation (importing p)" "m = rows_mask (importing p)"
    by (simp_all add: rows_mask_def)
  with wf blocks t caches(1) exports table same show ?thesis by simp
qed

text \<open>What the code relies on of \<open>torch.stack\<close>: it keeps the type and lays the tensors end to end.\<close>

definition stack_law :: "torch_stack \<Rightarrow> bool" where
  "stack_law stack \<longleftrightarrow> (\<forall>ts. ts \<noteq> [] \<longrightarrow> (\<forall>t \<in> set ts. bt_dtype t = ''torch.bfloat16'') \<longrightarrow>
     bt_dtype (stack ts) = ''torch.bfloat16'' \<and> bt_words (stack ts) = concat (map bt_words ts))"

text \<open>A block in the layout the snapshot expects.\<close>

definition m1_block :: "block_tensor \<Rightarrow> bool" where
  "m1_block t \<longleftrightarrow> bt_dtype t = ''torch.bfloat16'' \<and> bt_shape t = M1_SHAPE \<and> length (bt_words t) = BLOCK_ELEMENTS"

definition has_block :: "kv_tensor \<Rightarrow> epoch_request \<Rightarrow> bool" where
  "has_block t q \<longleftrightarrow> one_block q \<and> 0 \<le> block_of q \<and> block_of q < int (length (kt_blocks t))
     \<and> m1_block (kt_blocks t ! nat (block_of q))"

definition row_block :: "epoch_request list \<Rightarrow> kv_tensor \<Rightarrow> nat \<Rightarrow> block_tensor" where
  "row_block qs t row =
     (case find (\<lambda>q. rq_row q = int row) qs of None \<Rightarrow> zero_row | Some q \<Rightarrow> kt_blocks t ! nat (block_of q))"

lemma zero_row_m1: "m1_block zero_row"
  by (simp add: m1_block_def zero_row_def)

lemma row_block_m1: "\<forall>q \<in> set qs. has_block t q \<Longrightarrow> m1_block (row_block qs t row)"
  by (auto simp: row_block_def zero_row_m1 has_block_def find_Some_iff split: option.splits)

lemma by_row_get:
  "distinct (map rq_row qs) \<Longrightarrow> map_of (fold (\<lambda>q. AList.update (rq_row q) q) qs d) k =
     (case find (\<lambda>q. rq_row q = k) qs of None \<Rightarrow> map_of d k | Some q \<Rightarrow> Some q)"
proof (induction qs arbitrary: d)
  case Nil
  show ?case by simp
next
  case (Cons q qs)
  have "find (\<lambda>r. rq_row r = rq_row q) qs = None"
    using Cons.prems by (simp add: find_None_iff) (metis image_eqI)
  with Cons show ?case by (auto simp: dict_get_update split: option.splits)
qed

lemma capture_rows:
  assumes "rows_ok qs" and "\<forall>q \<in> set qs. has_block k q \<and> has_block v q"
  shows "map_res (capture_row (fold (\<lambda>q. AList.update (rq_row q) q) qs []) k v) [0..<GRAPH_BATCH_SIZE] =
    Inr (map (\<lambda>row. (row_block qs k row, row_block qs v row)) [0..<GRAPH_BATCH_SIZE])"
proof (rule map_res_total)
  fix row
  have dist: "distinct (map rq_row qs)" using assms(1) by (simp add: rows_ok_def)
  show "capture_row (fold (\<lambda>q. AList.update (rq_row q) q) qs []) k v row = Inr (row_block qs k row, row_block qs v row)"
  proof (cases "find (\<lambda>q. rq_row q = int row) qs")
    case None
    then show ?thesis by (simp add: capture_row_def by_row_get [OF dist] row_block_def)
  next
    case (Some q)
    then have "q \<in> set qs" by (auto simp: find_Some_iff)
    with assms(2) have "has_block k q" "has_block v q" by auto
    with Some show ?thesis
      by (simp add: capture_row_def by_row_get [OF dist] row_block_def has_block_def one_block_def m1_block_def not_less Let_def)
  qed
qed

section \<open>No capture raises an execution error\<close>

lemma no_execution_signatures: "no_execution (layer_signatures api layer)"
  unfolding layer_signatures_def bf16_signature_def device_tensor_signature_def device_allocation_range_def Let_def
  by (auto split: kv_layer.split option.split prod.split intro!: no_execution_intros)

lemma no_execution_export_keys: "no_execution (fst (export_keys acl allocations exported ks calls))"
  by (induction acl allocations exported ks calls rule: export_keys.induct)
    (auto simp: Let_def split: option.split prod.split pyval.split)

lemma no_execution_exports: "no_execution (fst (get_device_kv_exports api acl caches w))"
proof (cases "map_res (layer_signatures api) caches")
  case (Inl e)
  moreover have "no_execution (map_res (layer_signatures api) caches)"
    by (intro no_execution_intros) (rule no_execution_signatures)
  ultimately show ?thesis by (simp add: get_device_kv_exports_def)
next
  case (Inr parts)
  have fresh: "no_execution (fst (case export_keys acl allocations [] [] calls of
      (Inl e, calls') \<Rightarrow> (Inl e, g calls') | (Inr ks, calls') \<Rightarrow> (Inr (f ks), h ks calls')))"
    for allocations calls f g h
    using no_execution_export_keys [of acl allocations "[]" "[]" calls] by (auto split: prod.split sum.split)
  show ?thesis
    unfolding get_device_kv_exports_def Inr Let_def
    by (auto simp del: export_keys.simps list.map split: list.split option.split intro!: fresh)
qed

lemma no_execution_describe: "no_execution (describe_row q acc)"
  by (auto simp: describe_row_def shift_one_def split: prod.split intro!: no_execution_intros)

lemma no_execution_device_capture: "no_execution (fst (capture_kv_device_transfer api acl rand p w))"
proof (cases "importing p = [] \<or> kw_caches w = None \<or> length (the (kw_caches w)) \<noteq> LAYERS")
  case True
  then show ?thesis by (auto simp: capture_kv_device_transfer_def split: option.split)
next
  case False
  then obtain caches where caches: "kw_caches w = Some caches" "length caches = LAYERS" "importing p \<noteq> []" by auto
  obtain r w' where ex: "get_device_kv_exports api acl caches w = (r, w')" by fastforce
  then have "no_execution r" using no_execution_exports [of api acl caches w] by simp
  with caches ex show ?thesis
    by (cases r) (auto simp: capture_kv_device_transfer_def Let_def intro!: no_execution_intros no_execution_describe
        split: prod.split)
qed

lemma no_execution_capture_layer: "no_execution (capture_layer stack rows layer)"
  by (auto simp: capture_layer_def capture_row_def Let_def split: kv_layer.split option.split intro!: no_execution_intros)

lemma no_execution_tensor: "no_execution (tensor_bytes t)"
  by (simp add: tensor_bytes_def)

lemma no_execution_snapshot_capture: "no_execution (capture_kv_snapshot stack rand p w)"
  by (auto simp: capture_kv_snapshot_def Let_def shift_one_def set_generation_def split: option.split
      intro!: no_execution_intros no_execution_capture_layer no_execution_tensor)

end
