(* ===== verification/CoreProps.thy ===== *)
theory CoreProps
  imports Abi Config Eligibility Metrics KvRows
begin

text \<open>
  The properties of the contract between the scheduler and the worker, of the configuration,
  of eligibility, of the tensor ABI and of the benchmark journal.
\<close>

section \<open>The contract\<close>

text \<open>A plan can be attached to a scheduler output exactly when it is well-formed: a
  supported batch size, distinct requests, rows and positive generations, rows inside the
  graph, positions that leave room for the epoch, imports only of Host-owned state, and the
  mask of exactly the rows in use. Reading the attribute back gives the plan.\<close>

lemma attached_plan_wf:
  "(\<exists>a. attach_plan p = Inr a \<and> get_plan a = Inr (Some p)) \<longleftrightarrow> plan_wf p"
  by (auto simp: attach_plan_def get_plan_def rbind_Inr_iff plan_validate_iff_wf)

text \<open>C7: A result is accepted for a plan and the sampled tokens exactly when it names the
  plan's requests, a device result is a committed single-call execution of the plan's
  generations with the model-call count of its longest request, a Host result is a declared
  one-token replay of Host-owned state before any device call, an import is proved by its
  checksum, and every request's token count fits the epoch and ends early only at EOS.\<close>

theorem accepted_result_wf:
  "validate_against r p sampled = Inr () \<longleftrightarrow> result_wf p r sampled"
  by (rule validate_against_iff_wf)

text \<open>The generation vector of a well-formed plan has each request's generation at the
  request's row and zero at every unused row.\<close>

lemma generations_by_row:
  assumes "plan_wf p"
  shows "\<exists>v. plan_row_generations p = Inr v \<and> int (length v) = pl_graph_batch_size p
    \<and> (\<forall>q \<in> set (pl_requests p). v ! nat (rq_row q) = rq_generation q)
    \<and> (\<forall>i < length v. int i \<notin> rq_row ` set (pl_requests p) \<longrightarrow> v ! i = 0)"
proof -
  let ?n = "nat (pl_graph_batch_size p)" and ?qs = "pl_requests p"
  have n: "0 \<le> pl_graph_batch_size p" and dist: "distinct (map rq_row ?qs)"
    and rows: "\<forall>q \<in> set ?qs. 0 \<le> rq_row q \<and> rq_row q < pl_graph_batch_size p"
    using assms by (auto simp: plan_wf_def request_wf_def)
  then have v: "plan_row_generations p = Inr (overlay rq_generation ?qs (replicate ?n 0))"
    unfolding plan_row_generations_def by (intro fold_overlay) auto
  moreover have "\<forall>q \<in> set ?qs. overlay rq_generation ?qs (replicate ?n 0) ! nat (rq_row q) = rq_generation q"
    using rows n by (intro ballI overlay_at [OF dist]) auto
  moreover have "\<forall>i < ?n. int i \<notin> rq_row ` set ?qs \<longrightarrow> overlay rq_generation ?qs (replicate ?n 0) ! i = 0"
    by (auto simp: overlay_other)
  ultimately show ?thesis using n by auto
qed

definition plan_example :: epoch_plan where
  "plan_example =
     \<lparr>pl_version = 3, pl_graph_batch_size = 4, pl_max_steps = 4, pl_logical_capacity = 16,
      pl_requests =
        [\<lparr>rq_id = ''x'', rq_row = 2, rq_generation = 5, rq_token_id = 8, rq_position = 3,
          rq_sequence_length = 4, rq_eos_token_id = 2, rq_scheduler_block_ids = [7],
          rq_device_block_ids = (4, 5), rq_state_owner = ''host'', rq_kv_import_required = True\<rparr>,
         \<lparr>rq_id = ''y'', rq_row = 0, rq_generation = 3, rq_token_id = 9, rq_position = 6,
          rq_sequence_length = 7, rq_eos_token_id = 2, rq_scheduler_block_ids = [9],
          rq_device_block_ids = (0, 1), rq_state_owner = ''device'', rq_kv_import_required = False\<rparr>],
      pl_active_mask = [1, 0, 1, 0], pl_sampling_mode = 0, pl_graph_variant = 0\<rparr>"

lemma plan_example_wf: "plan_wf plan_example"
  unfolding plan_validate_iff_wf [symmetric] by code_simp

lemma generations_by_row_witness: "\<exists>v. plan_row_generations plan_example = Inr v \<and> v ! 2 = 5 \<and> v ! 1 = 0"
proof -
  obtain v where "plan_row_generations plan_example = Inr v" "int (length v) = 4"
    "\<forall>q \<in> set (pl_requests plan_example). v ! nat (rq_row q) = rq_generation q"
    "\<forall>i < length v. int i \<notin> rq_row ` set (pl_requests plan_example) \<longrightarrow> v ! i = 0"
    using generations_by_row [OF plan_example_wf] by (auto simp: plan_example_def)
  then show ?thesis by (auto simp: plan_example_def)
qed

section \<open>Configuration and eligibility\<close>

text \<open>C19: Whatever the environment, reading the configuration either raises or gives one the
  scheduler can rely on: 1, 2, 4 or 8 steps that fit the capacity, four rows, and the fixed
  block geometry.\<close>

theorem config_from_any_env:
  "(\<exists>e. config_from_env env = Inl e) \<or> (\<exists>c. config_from_env env = Inr c \<and> cfg_max_steps c \<in> {1, 2, 4, 8}
     \<and> cfg_max_steps c \<le> cfg_logical_capacity c \<and> cfg_max_batch_size c = 4
     \<and> cfg_blocks_per_request c = 2 \<and> cfg_block_size c = 128)"
proof (cases "config_from_env env")
  case (Inr c)
  then show ?thesis using config_from_env_ok [OF Inr] config_from_env_fixed [OF Inr] by (simp add: config_ok_def)
qed simp

text \<open>A request is eligible for the resident graph exactly when it is plain text decoding
  with greedy sampling, no penalty or filter, no log-probabilities, and EOS as its only stop
  condition.\<close>

lemma eligible_iff_plain_greedy:
  "request_rejection_reason r = None \<longleftrightarrow>
     plain_text_request r \<and> (\<exists>p. vr_sampling_params r = Some p \<and> greedy_params p \<and> eos_only_stop p)"
  by (rule rejection_None_iff)

section \<open>The tensor ABI\<close>

text \<open>The sizes \<open>abi.py\<close> asserts when it is imported: the minimal ABI carries 628 bytes
  per epoch where the old one carried 136905444, because the caches and the logits stay on
  the device.\<close>

lemma abi_sizes:
  "total_bytes OLD_INPUTS = 58720516 \<and> total_bytes OLD_OUTPUTS = 78184928
   \<and> total_bytes NEW_INPUTS = 260 \<and> total_bytes NEW_OUTPUTS = 368
   \<and> TOTAL_REDUCTION_BYTES = 136904816 \<and> KV_ROUND_TRIP_BYTES = 117440512"
  by (simp add: abi_defs OLD_TOTAL_BYTES_def NEW_TOTAL_BYTES_def TOTAL_REDUCTION_BYTES_def KV_ROUND_TRIP_BYTES_def)

section \<open>The benchmark journal\<close>

text \<open>C18: Replaying the journal of any run of the scheduler's calls gives exactly the record the
  live counters give, so a killed process loses no count.\<close>

theorem journal_replay_exact:
  "replay_event_journal (mt_journal (fold metric_step calls (new_metrics True))) =
     Inr (as_record (fold metric_step calls (new_metrics True)))"
proof -
  let ?m = "fold metric_step calls (new_metrics True)"
  have enabled: "mt_enabled (new_metrics True)" by (simp add: new_metrics_def)
  have "same_counts (new_metrics True) (new_metrics False)"
    by (simp add: same_counts_def count_eq_def new_metrics_def)
  from metric_run_replay [OF this enabled] obtain m where
    "fold_res replay_event (map call_event calls) (new_metrics False) = Inr m" "same_counts ?m m"
    by blast
  moreover have "mt_journal ?m = map call_event calls"
    using metric_run_journal [OF enabled, of calls] by (simp add: new_metrics_def)
  ultimately show ?thesis
    using same_counts_record [of ?m m] by (simp add: replay_event_journal_def)
qed

end
