(* ===== verification/Scheduler.thy ===== *)
theory Scheduler
  imports Config Eligibility Contract Metrics
begin

text \<open>
  \<open>scheduler.py\<close>: the vLLM scheduler extension. The base class \<open>Scheduler\<close> is vLLM's own:
  its \<open>schedule\<close> and \<open>update_from_output\<close> are arguments of the methods that call them, and
  they act on the base part of the state only. Requests are objects the base class shares
  between its dictionary and its queues, so they live in a store and the queues hold
  references; \<open>in\<close> on a queue compares references.
\<close>

section \<open>State\<close>

record base_sched =
  bs_heap :: "nat \<Rightarrow> vllm_request"
  bs_requests :: "(string, nat) dict"
  bs_running :: "nat list"
  bs_waiting :: "nat list"
  bs_skipped_waiting :: "nat list"
  bs_max_num_running_reqs :: int
  bs_num_lookahead_tokens :: int
  bs_connector :: bool
  bs_ec_connector :: bool
  bs_block_size :: int
  bs_block_ids :: "string \<Rightarrow> int list list"

text \<open>vLLM's \<open>SchedulerOutput\<close>, with the attached plan.\<close>

record sched_output =
  so_num_scheduled_tokens :: "(string, int) dict"
  so_total_num_scheduled_tokens :: int
  so_scheduled_spec_decode_tokens :: pyval
  so_scheduled_encoder_inputs :: pyval
  so_preempted_req_ids :: pyval
  so_plan :: "epoch_plan attr"

text \<open>The subclass adds the configuration, the row table and its bookkeeping.\<close>

record sched =
  sc_base :: base_sched
  sc_config :: epoch_config
  sc_last_rejection :: "string option"
  sc_last_plan :: "epoch_plan option"
  sc_last_result :: "epoch_result option"
  sc_rows :: "(string, int) dict"
  sc_generations :: "(string, int) dict"
  sc_device_owned :: "string set"
  sc_next_generation :: int
  sc_metrics :: metrics

text \<open>The parts of \<open>vllm_config\<close> the constructor reads.\<close>

record vllm_config =
  vc_speculative_config :: pyval
  vc_async_scheduling :: bool
  vc_tensor_parallel_size :: int
  vc_pipeline_parallel_size :: int
  vc_hf_config :: "(string \<times> pyval) list"

definition native_model_rejection_reason :: "(pyval \<Rightarrow> string) \<Rightarrow> vllm_config \<Rightarrow> string option" where
  "native_model_rejection_reason py_repr c =
     map_option (\<lambda>(field, expected). field @ ''='' @ py_repr (py_get (vc_hf_config c) field))
       (List.find (\<lambda>(field, expected). \<not> py_eq (py_get (vc_hf_config c) field) expected)
         [(''model_type'', PStr ''qwen2''), (''num_hidden_layers'', PInt 28),
          (''hidden_size'', PInt 3584), (''vocab_size'', PInt 152064)])"

definition scheduler_init ::
  "(pyval \<Rightarrow> string) \<Rightarrow> (string, string) dict \<Rightarrow> metrics \<Rightarrow> vllm_config \<Rightarrow> base_sched \<Rightarrow> exn + sched" where
  "scheduler_init py_repr env metrics c base =
     rbind (config_from_env env) (\<lambda>config.
       let s = \<lparr>sc_base = base, sc_config = config, sc_last_rejection = None, sc_last_plan = None,
                sc_last_result = None, sc_rows = [], sc_generations = [], sc_device_owned = {},
                sc_next_generation = 1, sc_metrics = metrics\<rparr>
       in if vc_speculative_config c \<noteq> PNone then
            Inl (ValueError ''resident epoch scheduler cannot be combined with speculative decoding'')
          else if vc_async_scheduling c then
            Inl (ValueError ''resident epoch scheduler requires synchronous scheduling'')
          else if vc_tensor_parallel_size c \<noteq> 1 then
            Inl (ValueError ''resident epoch scheduler currently requires tensor parallel size 1'')
          else if vc_pipeline_parallel_size c \<noteq> 1 then
            Inl (ValueError ''resident epoch scheduler currently requires pipeline parallel size 1'')
          else (case native_model_rejection_reason py_repr c of
              Some reason \<Rightarrow> Inl (ValueError (''resident epoch native graph mismatch: '' @ reason))
            | None \<Rightarrow> Inr s))"

section \<open>The row allocator\<close>

text \<open>The first loop: rows of requests that are no longer scheduled are given back.\<close>

fun release_rows :: "string list \<Rightarrow> string list \<Rightarrow> sched \<Rightarrow> (exn + unit) \<times> sched" where
  "release_rows requested [] s = (Inr (), s)"
| "release_rows requested (k # ks) s =
     (if k \<in> set requested then release_rows requested ks s
      else
        let s' = s\<lparr>sc_rows := AList.delete k (sc_rows s)\<rparr>
        in if k \<notin> set (keys (sc_generations s)) then (Inl (KeyError k), s')
           else release_rows requested ks
             (s'\<lparr>sc_generations := AList.delete k (sc_generations s'),
                 sc_device_owned := sc_device_owned s' - {k}\<rparr>))"

text \<open>The sorted difference of the row range and the rows in use.\<close>

definition free_rows :: "sched \<Rightarrow> int list" where
  "free_rows s = filter (\<lambda>r. r \<notin> set (map snd (sc_rows s))) [0..cfg_max_batch_size (sc_config s) - 1]"

text \<open>The second loop: each new request takes the lowest free row and a fresh generation.\<close>

fun take_rows :: "string list \<Rightarrow> int list \<Rightarrow> sched \<Rightarrow> (exn + unit) \<times> sched" where
  "take_rows [] free s = (Inr (), s)"
| "take_rows (k # ks) free s =
     (if k \<in> set (keys (sc_rows s)) then take_rows ks free s
      else (case free of
          [] \<Rightarrow> (Inl (RuntimeError ''resident row allocator exhausted''), s)
        | row # free' \<Rightarrow>
            (if 2 ^ 31 \<le> sc_next_generation s then
               (Inl (RuntimeError ''resident generation space exhausted''), s)
             else take_rows ks free'
               (s\<lparr>sc_rows := AList.update k row (sc_rows s),
                  sc_generations := AList.update k (sc_next_generation s) (sc_generations s),
                  sc_next_generation := sc_next_generation s + 1\<rparr>))))"

definition assign_resident_rows :: "string list \<Rightarrow> sched \<Rightarrow> (exn + unit) \<times> sched" where
  "assign_resident_rows req_ids s =
     (case release_rows req_ids (keys (sc_rows s)) s of
        (Inl e, s') \<Rightarrow> (Inl e, s')
      | (Inr _, s') \<Rightarrow> take_rows req_ids (free_rows s') s')"

section \<open>Host isolation\<close>

abbreviation requests_at :: "sched \<Rightarrow> nat list \<Rightarrow> vllm_request list" where
  "requests_at s refs \<equiv> map (bs_heap (sc_base s)) refs"

definition host_isolation_reason :: "sched \<Rightarrow> nat list \<Rightarrow> string option" where
  "host_isolation_reason s device_running =
     (if device_running = [] then None
      else let host_running = filter (\<lambda>q. q \<notin> set device_running) (bs_running (sc_base s)) in
      if (\<exists>r \<in> set (requests_at s host_running). request_rejection_reason r \<noteq> None) then
        Some ''unsupported-host-isolation''
      else if (\<exists>r \<in> set (requests_at s host_running). vr_num_computed_tokens r < vr_num_prompt_tokens r) then
        Some ''host-prefill-admission''
      else let waiting = bs_waiting (sc_base s) @ bs_skipped_waiting (sc_base s) in
      if (\<exists>r \<in> set (requests_at s waiting). 1 < vr_num_prompt_tokens r \<or> request_rejection_reason r \<noteq> None)
         \<and> int (length (bs_running (sc_base s))) < bs_max_num_running_reqs (sc_base s) then
        Some ''host-prefill-admission''
      else None)"

type_synonym base_schedule = "base_sched \<Rightarrow> (exn + sched_output) \<times> base_sched"

definition device_running_refs :: "sched \<Rightarrow> nat list" where
  "device_running_refs s =
     filter (\<lambda>q. vr_request_id (bs_heap (sc_base s) q) \<in> sc_device_owned s) (bs_running (sc_base s))"

definition schedule_with_host_isolation ::
  "base_schedule \<Rightarrow> sched \<Rightarrow> (exn + sched_output \<times> string list \<times> string option) \<times> sched" where
  "schedule_with_host_isolation super_schedule s =
     (let device_running = device_running_refs s in
      case host_isolation_reason s device_running of
        None \<Rightarrow>
          (case super_schedule (sc_base s) of
             (Inl e, b) \<Rightarrow> (Inl e, s\<lparr>sc_base := b\<rparr>)
           | (Inr out, b) \<Rightarrow> (Inr (out, [], None), s\<lparr>sc_base := b\<rparr>))
      | Some isolation_reason \<Rightarrow>
          (let paused = device_running;
               paused_ids = map vr_request_id (requests_at s paused);
               original_max_running = bs_max_num_running_reqs (sc_base s);
               entered = (sc_base s)\<lparr>
                 bs_running := filter (\<lambda>q. q \<notin> set paused) (bs_running (sc_base s)),
                 bs_max_num_running_reqs := original_max_running - int (length paused)\<rparr>;
               (outcome, b) = super_schedule entered;
               restored = s\<lparr>sc_base := b\<lparr>bs_running := paused @ bs_running b,
                                        bs_max_num_running_reqs := original_max_running\<rparr>\<rparr>
           in case outcome of
                Inl e \<Rightarrow> (Inl e, restored)
              | Inr out \<Rightarrow>
                  (let scheduled = keys (so_num_scheduled_tokens out)
                   in if scheduled = [] then
                        (Inl (RuntimeError ''isolated Host lane did not schedule a request''), restored)
                      else if set scheduled \<inter> set paused_ids \<noteq> {} then
                        (Inl (RuntimeError ''isolated Host lane scheduled Device-owned state''), restored)
                      else (Inr (out, paused_ids, Some isolation_reason), restored))))"

section \<open>Plans\<close>

text \<open>
  \<open>_make_resident_epoch_plan\<close> ends in one of three ways: an exception, a rejection with
  its reason (the call stays on the Host) or a plan.
\<close>

datatype plan_halt = Raised exn | Rejected string

abbreviation reject :: "string \<Rightarrow> plan_halt + 'a" where
  "reject reason \<equiv> Inl (Rejected reason)"

definition raising :: "exn + 'a \<Rightarrow> plan_halt + 'a" where
  "raising r = (case r of Inl e \<Rightarrow> Inl (Raised e) | Inr x \<Rightarrow> Inr x)"

text \<open>The checks on the whole schedule, before rows are assigned.\<close>

definition schedule_rejection :: "sched \<Rightarrow> sched_output \<Rightarrow> string option" where
  "schedule_rejection s out =
     (let config = sc_config s; b = sc_base s; req_ids = keys (so_num_scheduled_tokens out) in
      if req_ids = [] then Some ''empty-schedule''
      else if cfg_max_batch_size config < int (length req_ids) then Some ''batch-too-large''
      else if (\<exists>n \<in> set (map snd (so_num_scheduled_tokens out)). n \<noteq> 1) then Some ''not-single-token-decode''
      else if truthy (so_scheduled_spec_decode_tokens out) then Some ''speculative-decode''
      else if truthy (so_scheduled_encoder_inputs out) then Some ''encoder-input''
      else if truthy (so_preempted_req_ids out) then Some ''preemption''
      else if bs_connector b \<or> bs_ec_connector b then Some ''cache-connector''
      else if bs_block_size b \<noteq> cfg_block_size config then Some ''block-size''
      else if set req_ids \<noteq> set (map vr_request_id (requests_at s (bs_running b))) then Some ''partial-running-set''
      else None)"

text \<open>The first per-request loop: the request's remaining steps, or why it is rejected.\<close>

definition remaining_steps :: "sched \<Rightarrow> vllm_request \<Rightarrow> plan_halt + int" where
  "remaining_steps s r =
     (case request_rejection_reason r of
        Some reason \<Rightarrow> reject reason
      | None \<Rightarrow>
          (if cfg_logical_capacity (sc_config s) < vr_num_prompt_tokens r then
             reject ''prompt-exceeds-resident-capacity''
           else if 1 < vr_num_prompt_tokens r \<and> vr_num_output_tokens r = 0 then
             reject ''host-prefill-in-progress''
           else if 1 < vr_num_prompt_tokens r \<and> vr_request_id r \<notin> sc_device_owned s
                   \<and> vr_num_output_tokens r = 0 then
             reject ''host-prefill-in-progress''
           else if 1 < vr_num_prompt_tokens r \<and> vr_request_id r \<notin> sc_device_owned s
                   \<and> length (bs_block_ids (sc_base s) (vr_request_id r)) \<noteq> 1 then
             reject ''multiple-kv-cache-groups''
           else if vr_num_computed_tokens r \<noteq> vr_num_tokens r then
             reject ''computed-token-accounting''
           else let remaining = vr_max_tokens r - vr_num_output_tokens r in
           if remaining < 1 then reject ''request-has-no-remaining-steps''
           else Inr remaining))"

text \<open>\<open>max(step for step in (1, 2, 4, 8) if step <= budget)\<close>.\<close>

definition epoch_steps :: "int \<Rightarrow> exn + int" where
  "epoch_steps budget =
     (case rev (filter (\<lambda>step. step \<le> budget) [1, 2, 4, 8]) of
        [] \<Rightarrow> Inl (ValueError ''max() arg is an empty sequence'')
      | step # _ \<Rightarrow> Inr step)"

text \<open>The second per-request loop: the request's entry in the plan.\<close>

definition plan_request :: "sched \<Rightarrow> int \<Rightarrow> vllm_request \<Rightarrow> plan_halt + epoch_request" where
  "plan_request s steps r =
     rbind (raising (dict_item (sc_rows s) (vr_request_id r))) (\<lambda>row.
     let position = vr_num_computed_tokens r - 1 in
     if position < 0 \<or> cfg_logical_capacity (sc_config s) < position + steps then reject ''logical-capacity''
     else let block_ids = bs_block_ids (sc_base s) (vr_request_id r) in
     if length block_ids \<noteq> 1 then reject ''multiple-kv-cache-groups''
     else let flat_block_ids = hd block_ids in
     if flat_block_ids = [] then reject ''missing-kv-block''
     else (case vr_sampling_params r of
        None \<Rightarrow> Inl (Raised (AssertionError ''''))
      | Some params \<Rightarrow>
          if sp_eos_token_id params = PNone then Inl (Raised (AssertionError ''''))
          else
            rbind (raising (dict_item (sc_generations s) (vr_request_id r))) (\<lambda>generation.
            rbind (raising (seq_item (vr_all_token_ids r) position)) (\<lambda>token_id.
            rbind (raising (py_int (sp_eos_token_id params))) (\<lambda>eos_token_id.
              Inr \<lparr>rq_id = vr_request_id r, rq_row = row, rq_generation = generation,
                   rq_token_id = token_id, rq_position = position, rq_sequence_length = position + 1,
                   rq_eos_token_id = eos_token_id, rq_scheduler_block_ids = flat_block_ids,
                   rq_device_block_ids =
                     (row * cfg_blocks_per_request (sc_config s), row * cfg_blocks_per_request (sc_config s) + 1),
                   rq_state_owner = (if vr_request_id r \<in> sc_device_owned s then ''device'' else ''host''),
                   rq_kv_import_required =
                     (1 < vr_num_prompt_tokens r \<and> vr_request_id r \<notin> sc_device_owned s)\<rparr>)))))"

definition plan_mask :: "epoch_request list \<Rightarrow> exn + int list" where
  "plan_mask rs = fold_res (\<lambda>r mask. seq_set mask (rq_row r) 1) rs (replicate 4 0)"

text \<open>The plan before its final \<open>validate\<close>.\<close>

definition construct_plan :: "sched \<Rightarrow> vllm_request list \<Rightarrow> plan_halt + epoch_plan" where
  "construct_plan s requests =
     rbind (map_res (remaining_steps s) requests) (\<lambda>remaining.
     rbind (raising (epoch_steps (min (cfg_max_steps (sc_config s)) (Min (set remaining))))) (\<lambda>steps.
     rbind (map_res (plan_request s steps) requests) (\<lambda>request_plans.
     rbind (raising (plan_mask request_plans)) (\<lambda>active_mask.
       Inr \<lparr>pl_version = CONTRACT_VERSION, pl_graph_batch_size = 4, pl_max_steps = steps,
            pl_logical_capacity = cfg_logical_capacity (sc_config s), pl_requests = request_plans,
            pl_active_mask = active_mask, pl_sampling_mode = 0, pl_graph_variant = 0\<rparr>))))"

definition plan_outcome :: "plan_halt + epoch_plan \<Rightarrow> exn + epoch_plan option \<times> string option" where
  "plan_outcome r =
     (case r of
        Inl (Raised e) \<Rightarrow> Inl e
      | Inl (Rejected reason) \<Rightarrow> Inr (None, Some reason)
      | Inr p \<Rightarrow> Inr (Some p, None))"

definition make_resident_epoch_plan ::
  "sched_output \<Rightarrow> sched \<Rightarrow> (exn + epoch_plan option \<times> string option) \<times> sched" where
  "make_resident_epoch_plan out s =
     (case schedule_rejection s out of
        Some reason \<Rightarrow> (Inr (None, Some reason), s)
      | None \<Rightarrow>
          (let req_ids = keys (so_num_scheduled_tokens out) in
           case assign_resident_rows req_ids s of
             (Inl e, s') \<Rightarrow> (Inl e, s')
           | (Inr _, s') \<Rightarrow>
               (case map_res (dict_item (bs_requests (sc_base s'))) req_ids of
                  Inl e \<Rightarrow> (Inl e, s')
                | Inr refs \<Rightarrow>
                    (plan_outcome (rbind (construct_plan s' (requests_at s' refs)) (\<lambda>p.
                       rbind (raising (plan_validate p)) (\<lambda>_. Inr p))), s'))))"

text \<open>\<open>",".join(sorted(ids))\<close>.\<close>

definition join_sorted :: "string list \<Rightarrow> string" where
  "join_sorted ids =
     (case sort ids of [] \<Rightarrow> [] | x # xs \<Rightarrow> x @ concat (map (\<lambda>y. CHR '','' # y) xs))"

definition schedule :: "base_schedule \<Rightarrow> sched \<Rightarrow> (exn + sched_output) \<times> sched" where
  "schedule super_schedule s =
     (if bs_num_lookahead_tokens (sc_base s) \<noteq> 0 then
        (Inl (RuntimeError ''resident epoch lookahead conflicts with another feature''), s)
      else (case schedule_with_host_isolation super_schedule s of
        (Inl e, s1) \<Rightarrow> (Inl e, s1)
      | (Inr (out, paused_ids, isolation_reason), s1) \<Rightarrow>
          (case make_resident_epoch_plan out s1 of
             (Inl e, s2) \<Rightarrow> (Inl e, s2)
           | (Inr (plan, rejection), s2) \<Rightarrow>
               (let scheduled_device_owned =
                      filter (\<lambda>k. k \<in> sc_device_owned s2) (keys (so_num_scheduled_tokens out))
                in if plan = None \<and> scheduled_device_owned \<noteq> [] then
                     (Inl (RuntimeError (''refusing Host execution for Device-owned requests: ''
                        @ join_sorted scheduled_device_owned)), s2)
                   else if paused_ids \<noteq> [] \<and> plan \<noteq> None then
                     (Inl (RuntimeError ''isolated Host lane created a resident plan''), s2)
                   else
                     (let rejection' = (if paused_ids \<noteq> [] then isolation_reason else rejection);
                          s3 = s2\<lparr>sc_last_rejection := rejection', sc_last_plan := plan,
                                  sc_last_result := None,
                                  sc_metrics := record_schedule plan rejection' (sc_metrics s2)\<rparr>
                      in case plan of
                           None \<Rightarrow> (Inr out, s3)
                         | Some p \<Rightarrow>
                             (case attach_plan p of
                                Inl e \<Rightarrow> (Inl e, s3)
                              | Inr a \<Rightarrow> (Inr (out\<lparr>so_plan := a\<rparr>), s3)))))))"

section \<open>Accounting\<close>

text \<open>The dictionary \<open>sampled_by_req\<close>.\<close>

definition sampled_by_req :: "runner_output \<Rightarrow> epoch_plan \<Rightarrow> exn + (string, int list) dict" where
  "sampled_by_req ro p =
     map_res (\<lambda>req_id.
       rbind (dict_item (ro_req_id_to_index ro) req_id) (\<lambda>index.
       rbind (seq_item (ro_sampled_token_ids ro) (int index)) (\<lambda>tokens.
         Inr (req_id, tokens)))) (plan_req_ids p)"

text \<open>The loop that computes \<open>extras\<close>, one entry per request.\<close>

definition extra_steps ::
  "base_sched \<Rightarrow> sched_output \<Rightarrow> (string, int list) dict \<Rightarrow> string \<times> int \<Rightarrow> exn + string \<times> int" where
  "extra_steps b out sampled entry =
     (case entry of (req_id, steps) \<Rightarrow>
       rbind (dict_item (bs_requests b) req_id) (\<lambda>q.
       rbind (dict_item (so_num_scheduled_tokens out) req_id) (\<lambda>scheduled.
         let request = bs_heap b q; extra = steps - scheduled in
         if extra < 0 then Inl (RuntimeError ''resident epoch computed fewer than scheduled tokens'')
         else rbind (dict_item sampled req_id) (\<lambda>tokens.
           if vr_num_tokens request + int (length tokens) < vr_num_computed_tokens request + extra then
             Inl (RuntimeError ''resident epoch would over-advance computed tokens'')
           else Inr (req_id, extra)))))"

text \<open>\<open>self.requests[req_id].num_computed_tokens += extra\<close>.\<close>

fun advance_requests :: "(string \<times> int) list \<Rightarrow> base_sched \<Rightarrow> (exn + unit) \<times> base_sched" where
  "advance_requests [] b = (Inr (), b)"
| "advance_requests ((req_id, extra) # extras) b =
     (case dict_item (bs_requests b) req_id of
        Inl e \<Rightarrow> (Inl e, b)
      | Inr q \<Rightarrow> advance_requests extras
          (b\<lparr>bs_heap := (bs_heap b)(q := (bs_heap b q)\<lparr>vr_num_computed_tokens :=
             vr_num_computed_tokens (bs_heap b q) + extra\<rparr>)\<rparr>))"

definition host_owned_ids :: "epoch_plan \<Rightarrow> string list" where
  "host_owned_ids p = map rq_id (filter (\<lambda>r. rq_state_owner r = ''host'') (pl_requests p))"

definition apply_resident_epoch_accounting ::
  "sched_output \<Rightarrow> runner_output \<Rightarrow> epoch_plan \<Rightarrow> epoch_result \<Rightarrow> sched \<Rightarrow> (exn + unit) \<times> sched" where
  "apply_resident_epoch_accounting out ro p r s =
     (case sampled_by_req ro p of
        Inl e \<Rightarrow> (Inl e, s)
      | Inr sampled \<Rightarrow>
          (case validate_against r p sampled of
             Inl e \<Rightarrow> (Inl e, s)
           | Inr _ \<Rightarrow>
               (case map_res (extra_steps (sc_base s) out sampled) (er_computed_steps r) of
                  Inl e \<Rightarrow> (Inl e, s)
                | Inr extras \<Rightarrow>
                    (case advance_requests extras (sc_base s) of
                       (Inl e, b) \<Rightarrow> (Inl e, s\<lparr>sc_base := b\<rparr>)
                     | (Inr _, b) \<Rightarrow>
                         (Inr (),
                          s\<lparr>sc_base := b,
                            sc_device_owned := (if on_device r then sc_device_owned s \<union> set (host_owned_ids p)
                                                else sc_device_owned s)\<rparr>)))))"

type_synonym 'o base_update = "sched_output \<Rightarrow> runner_output \<Rightarrow> base_sched \<Rightarrow> (exn + 'o) \<times> base_sched"

definition call_super_update ::
  "'o base_update \<Rightarrow> sched_output \<Rightarrow> runner_output \<Rightarrow> sched \<Rightarrow> (exn + 'o) \<times> sched" where
  "call_super_update super_update out ro s =
     (case super_update out ro (sc_base s) of (res, b) \<Rightarrow> (res, s\<lparr>sc_base := b\<rparr>))"

definition update_from_output ::
  "'o base_update \<Rightarrow> sched_output \<Rightarrow> runner_output \<Rightarrow> sched \<Rightarrow> (exn + 'o) \<times> sched" where
  "update_from_output super_update out ro s =
     (case get_plan (so_plan out) of
        Inl e \<Rightarrow> (Inl e, s)
      | Inr None \<Rightarrow>
          (case get_result (ro_result ro) of
             Inl e \<Rightarrow> (Inl e, s)
           | Inr (Some _) \<Rightarrow> (Inl (RuntimeError ''resident epoch result has no scheduler plan''), s)
           | Inr None \<Rightarrow> call_super_update super_update out ro s)
      | Inr (Some p) \<Rightarrow>
          (case get_result (ro_result ro) of
             Inl e \<Rightarrow> (Inl e, s)
           | Inr None \<Rightarrow>
               (Inl (RuntimeError ''resident epoch plan did not receive execution metadata''), s)
           | Inr (Some r) \<Rightarrow>
               (let s1 = s\<lparr>sc_last_result := Some r, sc_metrics := record_result r (sc_metrics s)\<rparr>
                in case apply_resident_epoch_accounting out ro p r s1 of
                     (Inl e, s2) \<Rightarrow> (Inl e, s2)
                   | (Inr _, s2) \<Rightarrow> call_super_update super_update out ro s2)))"

end
