(* ===== verification/SchedulerRows.thy ===== *)
theory SchedulerRows
  imports Scheduler
begin

text \<open>
  The row allocator of \<open>scheduler.py\<close>: its invariant, what assigning rows keeps and what
  it adds, and that it never runs out of rows for an admitted batch.
\<close>

section \<open>The invariant\<close>

text \<open>
  The row table and the generation table list the same requests in the same order; rows are
  distinct and inside the graph; generations are distinct, positive and below the next one;
  only requests that hold a row are Device-owned.
\<close>

definition alloc_inv :: "sched \<Rightarrow> bool" where
  "alloc_inv s \<longleftrightarrow>
     keys (sc_generations s) = keys (sc_rows s) \<and> distinct (keys (sc_rows s))
     \<and> distinct (map snd (sc_rows s))
     \<and> (\<forall>row \<in> set (map snd (sc_rows s)). 0 \<le> row \<and> row < cfg_max_batch_size (sc_config s))
     \<and> distinct (map snd (sc_generations s))
     \<and> (\<forall>g \<in> set (map snd (sc_generations s)). 0 < g \<and> g < sc_next_generation s)
     \<and> 0 < sc_next_generation s \<and> sc_next_generation s \<le> 2 ^ 31
     \<and> sc_device_owned s \<subseteq> set (keys (sc_rows s))"

named_theorems alloc_simps

text \<open>Fields of the state that row assignment never touches.\<close>

definition same_frame :: "sched \<Rightarrow> sched \<Rightarrow> bool" where
  "same_frame s s' \<longleftrightarrow> sc_base s' = sc_base s \<and> sc_config s' = sc_config s
     \<and> sc_last_rejection s' = sc_last_rejection s \<and> sc_last_plan s' = sc_last_plan s
     \<and> sc_last_result s' = sc_last_result s \<and> sc_metrics s' = sc_metrics s"

lemma same_frame_refl [simp]: "same_frame s s"
  by (simp add: same_frame_def)

lemma same_frame_trans: "same_frame s s' \<Longrightarrow> same_frame s' s'' \<Longrightarrow> same_frame s s''"
  by (simp add: same_frame_def)

section \<open>Giving rows back\<close>

definition keep_keys :: "('k \<Rightarrow> bool) \<Rightarrow> ('k, 'v) dict \<Rightarrow> ('k, 'v) dict" where
  "keep_keys P d = filter (\<lambda>e. P (fst e)) d"

lemma keys_keep [simp]: "keys (keep_keys P d) = filter P (keys d)"
  by (simp add: keep_keys_def filter_map comp_def)

lemma set_keep [simp]: "set (keep_keys P d) = {e \<in> set d. P (fst e)}"
  by (auto simp: keep_keys_def)

lemma keep_keys_distinct_values: "distinct (map snd d) \<Longrightarrow> distinct (map snd (keep_keys P d))"
  by (simp add: keep_keys_def distinct_map_filter)

lemma keep_keys_values: "v \<in> set (map snd (keep_keys P d)) \<Longrightarrow> v \<in> set (map snd d)"
  by (auto simp: keep_keys_def)

lemma keep_keys_get: "map_of (keep_keys P d) k = (if P k then map_of d k else None)"
  by (induction d) (auto simp: keep_keys_def)

lemma delete_keep: "AList.delete k d = keep_keys (\<lambda>j. j \<noteq> k) d"
  by (auto simp: AList.delete_eq keep_keys_def intro!: filter_cong)

lemma keep_keep: "keep_keys P (keep_keys Q d) = keep_keys (\<lambda>k. Q k \<and> P k) d"
  by (simp add: keep_keys_def)

lemma release_rows_eq:
  assumes "keys (sc_generations s) = keys (sc_rows s)" and "distinct ks"
    and "set ks \<subseteq> set (keys (sc_rows s))"
  shows "release_rows requested ks s =
    (Inr (), s\<lparr>sc_rows := keep_keys (\<lambda>k. k \<in> set requested \<or> k \<notin> set ks) (sc_rows s),
               sc_generations := keep_keys (\<lambda>k. k \<in> set requested \<or> k \<notin> set ks) (sc_generations s),
               sc_device_owned := sc_device_owned s - (set ks - set requested)\<rparr>)"
  using assms
proof (induction ks arbitrary: s)
  case Nil
  show ?case by (simp add: keep_keys_def)
next
  case (Cons k ks)
  show ?case
  proof (cases "k \<in> set requested")
    case True
    then have "(\<lambda>j. j \<in> set requested \<or> j \<notin> set (k # ks)) = (\<lambda>j. j \<in> set requested \<or> j \<notin> set ks)"
      and "set (k # ks) - set requested = set ks - set requested" by auto
    with True Cons show ?thesis by simp
  next
    case False
    let ?s = "s\<lparr>sc_rows := AList.delete k (sc_rows s), sc_generations := AList.delete k (sc_generations s),
      sc_device_owned := sc_device_owned s - {k}\<rparr>"
    have sub: "set ks \<subseteq> set (keys (sc_rows ?s))" and eq: "keys (sc_generations ?s) = keys (sc_rows ?s)"
      using Cons.prems by (auto simp: delete_keep)
    have pred: "(\<lambda>j. j \<noteq> k \<and> (j \<in> set requested \<or> j \<notin> set ks)) = (\<lambda>j. j \<in> set requested \<or> j \<notin> set (k # ks))"
      using False by auto
    have owned: "sc_device_owned s - {k} - (set ks - set requested) = sc_device_owned s - (set (k # ks) - set requested)"
      using False by auto
    have "k \<in> set (keys (sc_generations s))" using Cons.prems by simp
    with False have "release_rows requested (k # ks) s = release_rows requested ks ?s"
      by (simp add: Let_def)
    also have "\<dots> = (Inr (), ?s\<lparr>sc_rows := keep_keys (\<lambda>k. k \<in> set requested \<or> k \<notin> set ks) (sc_rows ?s),
               sc_generations := keep_keys (\<lambda>k. k \<in> set requested \<or> k \<notin> set ks) (sc_generations ?s),
               sc_device_owned := sc_device_owned ?s - (set ks - set requested)\<rparr>)"
      using Cons.prems by (intro Cons.IH eq sub) simp
    finally show ?thesis by (simp add: delete_keep keep_keep pred owned)
  qed
qed

text \<open>The state after the first loop.\<close>

definition released :: "string list \<Rightarrow> sched \<Rightarrow> sched" where
  "released requested s =
     s\<lparr>sc_rows := keep_keys (\<lambda>k. k \<in> set requested) (sc_rows s),
       sc_generations := keep_keys (\<lambda>k. k \<in> set requested) (sc_generations s),
       sc_device_owned := sc_device_owned s \<inter> set requested\<rparr>"

lemma keep_keys_cong: "(\<And>k. k \<in> set (keys d) \<Longrightarrow> P k = Q k) \<Longrightarrow> keep_keys P d = keep_keys Q d"
  by (auto simp: keep_keys_def intro!: filter_cong)

lemma release_all_rows:
  assumes "alloc_inv s"
  shows "release_rows requested (keys (sc_rows s)) s = (Inr (), released requested s)"
proof -
  have eq: "keys (sc_generations s) = keys (sc_rows s)" "distinct (keys (sc_rows s))"
    and owned: "sc_device_owned s \<subseteq> set (keys (sc_rows s))"
    using assms by (auto simp: alloc_inv_def)
  have "keep_keys (\<lambda>k. k \<in> set requested \<or> k \<notin> set (keys (sc_rows s))) (sc_rows s)
      = keep_keys (\<lambda>k. k \<in> set requested) (sc_rows s)"
    by (rule keep_keys_cong) simp
  moreover have "keep_keys (\<lambda>k. k \<in> set requested \<or> k \<notin> set (keys (sc_rows s))) (sc_generations s)
      = keep_keys (\<lambda>k. k \<in> set requested) (sc_generations s)"
    by (rule keep_keys_cong) (simp only: eq simp_thms)
  moreover have "sc_device_owned s - (set (keys (sc_rows s)) - set requested) = sc_device_owned s \<inter> set requested"
    using owned by blast
  ultimately show ?thesis
    using release_rows_eq [OF eq(1,2) subset_refl, of requested] by (simp only: released_def)
qed

lemma released_inv: "alloc_inv s \<Longrightarrow> alloc_inv (released requested s)"
  unfolding alloc_inv_def released_def
  by (auto simp: keep_keys_distinct_values)

lemma released_frame [simp]: "same_frame s (released requested s)"
  by (simp add: released_def same_frame_def)

section \<open>Taking rows\<close>

definition rows_free :: "int list \<Rightarrow> sched \<Rightarrow> bool" where
  "rows_free free s \<longleftrightarrow> distinct free \<and> (\<forall>row \<in> set free. 0 \<le> row \<and> row < cfg_max_batch_size (sc_config s)
     \<and> row \<notin> set (map snd (sc_rows s)))"

definition take_row :: "string \<Rightarrow> int \<Rightarrow> sched \<Rightarrow> sched" where
  "take_row k row s =
     s\<lparr>sc_rows := AList.update k row (sc_rows s),
       sc_generations := AList.update k (sc_next_generation s) (sc_generations s),
       sc_next_generation := sc_next_generation s + 1\<rparr>"

lemma update_new: "k \<notin> set (keys d) \<Longrightarrow> AList.update k v d = d @ [(k, v)]"
  by (induction d) auto

lemma free_rows_free: "rows_free (free_rows s) s"
  by (auto simp: rows_free_def free_rows_def)

lemma take_row_inv:
  assumes "alloc_inv s" and "k \<notin> set (keys (sc_rows s))" and "rows_free (row # free) s"
    and "sc_next_generation s < 2 ^ 31"
  shows "alloc_inv (take_row k row s) \<and> rows_free free (take_row k row s)"
proof -
  have "k \<notin> set (keys (sc_generations s))" using assms(1,2) by (simp add: alloc_inv_def)
  then have upd: "AList.update k (sc_next_generation s) (sc_generations s) = sc_generations s @ [(k, sc_next_generation s)]"
    "AList.update k row (sc_rows s) = sc_rows s @ [(k, row)]"
    using assms(2) by (simp_all add: update_new)
  have "sc_next_generation s \<notin> set (map snd (sc_generations s))"
    using assms(1) by (auto simp: alloc_inv_def)
  with assms show ?thesis
    unfolding alloc_inv_def rows_free_def take_row_def upd by (auto simp: less_Suc_eq)
qed

lemma take_rows_take:
  "k \<notin> set (keys (sc_rows s)) \<Longrightarrow> sc_next_generation s < 2 ^ 31 \<Longrightarrow>
     take_rows (k # ks) (row # free) s = take_rows ks free (take_row k row s)"
  by (simp add: take_row_def)

text \<open>
  One induction along the recursion of \<open>take_rows\<close> serves every fact below: it has a case
  for a request that keeps its row, one for a request that takes a row, and one for stopping.
\<close>

lemma take_rows_cases [consumes 3, case_names stop skip take]:
  assumes "take_rows ks free s = (res, s')" and "alloc_inv s" and "rows_free free s"
    and stop: "\<And>ks free s res. alloc_inv s \<Longrightarrow> (res = Inr () \<Longrightarrow> ks = []) \<Longrightarrow> P ks free s res s"
    and skip: "\<And>k ks free s res s'. alloc_inv s \<Longrightarrow> k \<in> set (keys (sc_rows s)) \<Longrightarrow> alloc_inv s' \<Longrightarrow>
      P ks free s res s' \<Longrightarrow> P (k # ks) free s res s'"
    and take: "\<And>k ks row free s res s'. alloc_inv s \<Longrightarrow> k \<notin> set (keys (sc_rows s)) \<Longrightarrow>
      rows_free (row # free) s \<Longrightarrow> sc_next_generation s < 2 ^ 31 \<Longrightarrow> alloc_inv s' \<Longrightarrow>
      P ks free (take_row k row s) res s' \<Longrightarrow> P (k # ks) (row # free) s res s'"
  shows "alloc_inv s' \<and> P ks free s res s'"
  using assms(1-3)
proof (induction ks arbitrary: free s)
  case Nil
  then show ?case using stop by auto
next
  case (Cons k ks)
  show ?case
  proof (cases "k \<in> set (keys (sc_rows s))")
    case True
    with Cons.prems Cons.IH [of free s] skip show ?thesis by auto
  next
    case new: False
    show ?thesis
    proof (cases free)
      case Nil
      with new Cons.prems stop [of s res "k # ks" free] show ?thesis by auto
    next
      case (Cons row free')
      show ?thesis
      proof (cases "2 ^ 31 \<le> sc_next_generation s")
        case True
        with new Cons Cons.prems stop [of s res "k # ks" free] show ?thesis by auto
      next
        case False
        with new Cons Cons.prems take_row_inv [of s k row free'] take_rows_take [of k s ks row free']
          Cons.IH [of free' "take_row k row s"] take [of s k row free' s' ks res]
        show ?thesis by (simp add: not_le)
      qed
    qed
  qed
qed

lemma take_row_fields [simp]:
  "sc_rows (take_row k row s) = AList.update k row (sc_rows s)"
  "sc_generations (take_row k row s) = AList.update k (sc_next_generation s) (sc_generations s)"
  "sc_next_generation (take_row k row s) = sc_next_generation s + 1"
  "sc_device_owned (take_row k row s) = sc_device_owned s"
  "sc_config (take_row k row s) = sc_config s"
  by (simp_all add: take_row_def)

lemma take_row_frame [simp]: "same_frame s (take_row k row s)"
  by (simp add: take_row_def same_frame_def)

definition took :: "string list \<Rightarrow> int list \<Rightarrow> sched \<Rightarrow> exn + unit \<Rightarrow> sched \<Rightarrow> bool" where
  "took ks free s res s' \<longleftrightarrow>
     same_frame s s' \<and> sc_device_owned s' = sc_device_owned s
     \<and> sc_next_generation s \<le> sc_next_generation s'
     \<and> (\<forall>k v. map_of (sc_rows s) k = Some v \<longrightarrow> map_of (sc_rows s') k = Some v)
     \<and> (\<forall>k v. map_of (sc_generations s) k = Some v \<longrightarrow> map_of (sc_generations s') k = Some v)
     \<and> (\<forall>k g. map_of (sc_generations s) k = None \<longrightarrow> map_of (sc_generations s') k = Some g \<longrightarrow>
          sc_next_generation s \<le> g)
     \<and> set (keys (sc_rows s')) \<subseteq> set (keys (sc_rows s)) \<union> set ks
     \<and> (res = Inr () \<longrightarrow> set (keys (sc_rows s')) = set (keys (sc_rows s)) \<union> set ks)"

lemma took_take:
  assumes new: "k \<notin> set (keys (sc_rows s))" and inv: "alloc_inv s"
    and took: "took ks free (take_row k row s) res s'"
  shows "took (k # ks) (row # free) s res s'"
proof -
  have none: "map_of (sc_generations s) k = None" "map_of (sc_rows s) k = None"
    using new inv by (simp_all add: alloc_inv_def dict_get_None_iff)
  have frame: "same_frame (take_row k row s) s'" and owned: "sc_device_owned s' = sc_device_owned s"
    and gen: "sc_next_generation s + 1 \<le> sc_next_generation s'"
    and rows: "\<forall>j v. (if j = k then Some row else map_of (sc_rows s) j) = Some v \<longrightarrow> map_of (sc_rows s') j = Some v"
    and gens: "\<forall>j v. (if j = k then Some (sc_next_generation s) else map_of (sc_generations s) j) = Some v \<longrightarrow>
      map_of (sc_generations s') j = Some v"
    and fresh: "\<forall>j g. (if j = k then Some (sc_next_generation s) else map_of (sc_generations s) j) = None \<longrightarrow>
      map_of (sc_generations s') j = Some g \<longrightarrow> sc_next_generation s + 1 \<le> g"
    and sub: "set (keys (sc_rows s')) \<subseteq> insert k (set (keys (sc_rows s))) \<union> set ks"
    and all: "res = Inr () \<longrightarrow> set (keys (sc_rows s')) = insert k (set (keys (sc_rows s))) \<union> set ks"
    using took unfolding took_def take_row_fields dict_keys_update dict_get_update
    by - (elim conjE, assumption)+
  have "map_of (sc_rows s') j = Some v" if "map_of (sc_rows s) j = Some v" for j v
    using rows [rule_format, of j v] that none(2) by (cases "j = k") simp_all
  moreover have "map_of (sc_generations s') j = Some v" if "map_of (sc_generations s) j = Some v" for j v
    using gens [rule_format, of j v] that none(1) by (cases "j = k") simp_all
  moreover have "sc_next_generation s \<le> g"
    if "map_of (sc_generations s) j = None" "map_of (sc_generations s') j = Some g" for j g
    using gens [rule_format, of k "sc_next_generation s"] fresh [rule_format, of j g] that
    by (cases "j = k") simp_all
  moreover have "same_frame s s'"
    using frame take_row_frame same_frame_trans by blast
  moreover have "sc_next_generation s \<le> sc_next_generation s'" using gen by simp
  ultimately show ?thesis using owned sub all unfolding took_def by simp
qed

lemma take_rows_took:
  assumes "take_rows ks free s = (res, s')" and "alloc_inv s" and "rows_free free s"
  shows "alloc_inv s' \<and> took ks free s res s'"
  using assms
proof (induction rule: take_rows_cases)
  case (stop ks free s res)
  then show ?case by (auto simp: took_def)
next
  case (skip k ks free s res s')
  then show ?case by (auto simp: took_def)
next
  case (take k ks row free s res s')
  then show ?case by (blast intro: took_take)
qed

section \<open>Assigning rows\<close>

lemma assign_rows_split:
  "alloc_inv s \<Longrightarrow> assign_resident_rows req_ids s =
     take_rows req_ids (free_rows (released req_ids s)) (released req_ids s)"
  by (simp add: assign_resident_rows_def release_all_rows)

lemma assign_rows_took:
  assumes "alloc_inv s" and "assign_resident_rows req_ids s = (res, s')"
  shows "alloc_inv s'" and "took req_ids (free_rows (released req_ids s)) (released req_ids s) res s'"
  using take_rows_took [of req_ids _ "released req_ids s" res s'] assms released_inv free_rows_free
  by (simp_all add: assign_rows_split)

lemma assign_rows_frame:
  "alloc_inv s \<Longrightarrow> assign_resident_rows req_ids s = (res, s') \<Longrightarrow> same_frame s s'"
  using assign_rows_took(2) [of s req_ids res s'] released_frame [of s req_ids]
    same_frame_trans [of s "released req_ids s" s'] by (auto simp: took_def)

lemma assign_rows_keys:
  "alloc_inv s \<Longrightarrow> assign_resident_rows req_ids s = (Inr (), s') \<Longrightarrow> set (keys (sc_rows s')) = set req_ids"
  by (drule (1) assign_rows_took(2)) (auto simp: took_def released_def)

lemma assign_rows_owned:
  "alloc_inv s \<Longrightarrow> assign_resident_rows req_ids s = (res, s') \<Longrightarrow>
     sc_device_owned s' = sc_device_owned s \<inter> set req_ids"
  by (drule (1) assign_rows_took(2)) (auto simp: took_def released_def)

text \<open>A request that stays scheduled keeps its row and its generation.\<close>

lemma assign_rows_sticky:
  assumes "alloc_inv s" and "assign_resident_rows req_ids s = (res, s')" and "k \<in> set req_ids"
  shows "map_of (sc_rows s) k = Some row \<Longrightarrow> map_of (sc_rows s') k = Some row"
    and "map_of (sc_generations s) k = Some g \<Longrightarrow> map_of (sc_generations s') k = Some g"
proof -
  have *: "map_of (sc_rows (released req_ids s)) k = map_of (sc_rows s) k"
    "map_of (sc_generations (released req_ids s)) k = map_of (sc_generations s) k"
    using assms(3) by (simp_all add: released_def keep_keys_get)
  show "map_of (sc_rows s) k = Some row \<Longrightarrow> map_of (sc_rows s') k = Some row"
    "map_of (sc_generations s) k = Some g \<Longrightarrow> map_of (sc_generations s') k = Some g"
    using assign_rows_took(2) [OF assms(1,2)] * unfolding took_def by metis+
qed

text \<open>Any other generation is one that was never handed out before.\<close>

lemma assign_rows_fresh:
  assumes "alloc_inv s" and "assign_resident_rows req_ids s = (res, s')"
    and "map_of (sc_generations s') k = Some g"
  shows "map_of (sc_generations s) k = Some g \<and> k \<in> set req_ids \<or> sc_next_generation s \<le> g"
proof (cases "map_of (sc_generations (released req_ids s)) k")
  case None
  with assign_rows_took(2) [OF assms(1,2)] assms(3) show ?thesis
    unfolding took_def by (metis released_def sched.select_convs(9) sched.surjective sched.update_convs(6,7,8))
next
  case (Some g')
  with assign_rows_took(2) [OF assms(1,2)] have "map_of (sc_generations s') k = Some g'"
    unfolding took_def by metis
  with Some assms(3) show ?thesis
    by (auto simp: released_def keep_keys_get split: if_splits)
qed

lemma assign_rows_next:
  "alloc_inv s \<Longrightarrow> assign_resident_rows req_ids s = (res, s') \<Longrightarrow> sc_next_generation s \<le> sc_next_generation s'"
  by (drule (1) assign_rows_took(2)) (auto simp: took_def released_def)

section \<open>An admitted batch always fits\<close>

text \<open>The rows in use and the free rows are together all rows of the graph.\<close>

lemma free_rows_count:
  assumes "alloc_inv s" and "0 \<le> cfg_max_batch_size (sc_config s)"
  shows "int (length (free_rows s)) + int (length (sc_rows s)) = cfg_max_batch_size (sc_config s)"
proof -
  let ?n = "cfg_max_batch_size (sc_config s)" and ?used = "set (map snd (sc_rows s))"
  have "set (free_rows s) = {0..<?n} - ?used" by (auto simp: free_rows_def)
  moreover have "?used \<subseteq> {0..<?n}" using assms(1) by (auto simp: alloc_inv_def)
  moreover have "card ?used = length (sc_rows s)"
    using assms(1) distinct_card [of "map snd (sc_rows s)"] by (simp add: alloc_inv_def)
  moreover have "length (free_rows s) = card (set (free_rows s))"
    by (rule distinct_card [symmetric]) (simp add: free_rows_def)
  ultimately have "length (free_rows s) = nat ?n - length (sc_rows s)" "length (sc_rows s) \<le> nat ?n"
    by (auto simp: card_Diff_subset dest: card_mono [rotated])
  then show ?thesis using assms(2) by linarith
qed

lemma take_rows_succeed:
  assumes "alloc_inv s" and "rows_free free s"
    and "card (set ks - set (keys (sc_rows s))) \<le> length free"
    and "sc_next_generation s + int (card (set ks - set (keys (sc_rows s)))) \<le> 2 ^ 31"
  shows "fst (take_rows ks free s) = Inr ()"
  using assms
proof (induction ks arbitrary: free s)
  case Nil
  show ?case by simp
next
  case (Cons k ks)
  show ?case
  proof (cases "k \<in> set (keys (sc_rows s))")
    case True
    then have "set (k # ks) - set (keys (sc_rows s)) = set ks - set (keys (sc_rows s))" by auto
    with True Cons.IH [of s free] Cons.prems show ?thesis by simp
  next
    case False
    let ?new = "set ks - set (keys (sc_rows (take_row k 0 s)))"
    have split: "set (k # ks) - set (keys (sc_rows s)) = insert k ?new" and "k \<notin> ?new" "finite ?new"
      using False by (auto simp: take_row_def dict_keys_update)
    then have card: "card (set (k # ks) - set (keys (sc_rows s))) = Suc (card ?new)" by simp
    from Cons.prems(3) [unfolded card] obtain row free' where free: "free = row # free'" by (cases free) auto
    have next_gen: "sc_next_generation s < 2 ^ 31" using Cons.prems(4) card by linarith
    have same: "set ks - set (keys (sc_rows (take_row k row s))) = ?new"
      by (simp add: take_row_def dict_keys_update)
    have "fst (take_rows ks free' (take_row k row s)) = Inr ()"
    proof (rule Cons.IH)
      show "alloc_inv (take_row k row s)" "rows_free free' (take_row k row s)"
        using take_row_inv [OF Cons.prems(1) False _ next_gen] Cons.prems(2) free by auto
      show "card (set ks - set (keys (sc_rows (take_row k row s)))) \<le> length free'"
        using Cons.prems(3) card free unfolding same by simp
      show "sc_next_generation (take_row k row s) + int (card (set ks - set (keys (sc_rows (take_row k row s))))) \<le> 2 ^ 31"
        using Cons.prems(4) card unfolding same by simp
    qed
    then show ?thesis using False next_gen free take_rows_take by simp
  qed
qed

lemma assign_rows_succeed:
  assumes inv: "alloc_inv s" and fits: "int (length req_ids) \<le> cfg_max_batch_size (sc_config s)"
    and gens: "sc_next_generation s + int (length req_ids) \<le> 2 ^ 31"
  shows "\<exists>s'. assign_resident_rows req_ids s = (Inr (), s')"
proof -
  let ?s = "released req_ids s"
  have inv': "alloc_inv ?s" using inv by (rule released_inv)
  have "distinct (keys (sc_rows ?s))" using inv' by (simp add: alloc_inv_def)
  then have used: "card (set (keys (sc_rows ?s))) = length (sc_rows ?s)"
    using distinct_card by fastforce
  have sub: "set (keys (sc_rows ?s)) \<subseteq> set req_ids" by (auto simp: released_def)
  have new: "card (set req_ids - set (keys (sc_rows ?s))) + length (sc_rows ?s) \<le> length req_ids"
    using sub used card_length [of req_ids] card_Diff_subset [OF _ sub] card_mono [OF _ sub] by simp
  moreover have "int (length (free_rows ?s)) + int (length (sc_rows ?s)) = cfg_max_batch_size (sc_config s)"
    using free_rows_count [OF inv'] fits by (simp add: released_def)
  ultimately have "card (set req_ids - set (keys (sc_rows ?s))) \<le> length (free_rows ?s)"
    using fits by linarith
  moreover have "sc_next_generation ?s + int (card (set req_ids - set (keys (sc_rows ?s)))) \<le> 2 ^ 31"
    using gens new by (simp add: released_def)
  ultimately have "fst (take_rows req_ids (free_rows ?s) ?s) = Inr ()"
    by (intro take_rows_succeed inv' free_rows_free)
  then show ?thesis
    by (cases "take_rows req_ids (free_rows ?s) ?s") (simp add: assign_rows_split [OF inv])
qed

end
