(* ===== verification/SchedulerPlans.thy ===== *)
theory SchedulerPlans
  imports SchedulerRows
begin

text \<open>
  The plans \<open>scheduler.py\<close> builds: they pass their own validation, serve only eligible
  requests, name each request's row and generation, and stay inside every request's token
  budget.
\<close>

section \<open>The number of steps\<close>

lemma epoch_steps_iff:
  "epoch_steps budget = Inr n \<longleftrightarrow>
     n \<in> {1, 2, 4, 8} \<and> n \<le> budget \<and> (\<forall>m \<in> {1, 2, 4, 8}. m \<le> budget \<longrightarrow> m \<le> n)"
  by (auto simp: epoch_steps_def)

lemma epoch_steps_exists: "1 \<le> budget \<Longrightarrow> \<exists>n. epoch_steps budget = Inr n"
  by (auto simp: epoch_steps_def)

section \<open>One request of a plan\<close>

lemma raising_Inr [res_simps]: "raising r = Inr x \<longleftrightarrow> r = Inr x"
  by (cases r) (auto simp: raising_def)

lemma reject_unless_Inr: "(if c then reject reason else k) = Inr x \<longleftrightarrow> \<not> c \<and> k = Inr x"
  by simp

lemma remaining_steps_Inr:
  assumes "remaining_steps s r = Inr n"
  shows "request_rejection_reason r = None" and "n = vr_max_tokens r - vr_num_output_tokens r" and "1 \<le> n"
    and "vr_num_computed_tokens r = vr_num_tokens r"
  using assms by (auto simp: remaining_steps_def Let_def split: option.splits if_splits)

text \<open>What the entry of a request in a plan says about it.\<close>

definition entry_of :: "sched \<Rightarrow> int \<Rightarrow> vllm_request \<Rightarrow> epoch_request \<Rightarrow> bool" where
  "entry_of s steps r q \<longleftrightarrow>
     rq_id q = vr_request_id r
     \<and> map_of (sc_rows s) (rq_id q) = Some (rq_row q)
     \<and> map_of (sc_generations s) (rq_id q) = Some (rq_generation q)
     \<and> rq_position q = vr_num_computed_tokens r - 1 \<and> rq_sequence_length q = rq_position q + 1
     \<and> 0 \<le> rq_position q \<and> rq_position q + steps \<le> cfg_logical_capacity (sc_config s)
     \<and> rq_state_owner q = (if rq_id q \<in> sc_device_owned s then ''device'' else ''host'')
     \<and> rq_kv_import_required q = (1 < vr_num_prompt_tokens r \<and> rq_id q \<notin> sc_device_owned s)
     \<and> seq_item (vr_all_token_ids r) (rq_position q) = Inr (rq_token_id q)
     \<and> bs_block_ids (sc_base s) (rq_id q) = [rq_scheduler_block_ids q]
     \<and> rq_scheduler_block_ids q \<noteq> []"

lemma plan_request_entry: "plan_request s steps r = Inr q \<Longrightarrow> entry_of s steps r q"
  unfolding plan_request_def Let_def
  by (auto simp: rbind_Inr_iff raising_Inr dict_item_Inr entry_of_def length_Suc_conv One_nat_def
      split: option.splits if_splits)

lemma dict_value_inj:
  assumes "distinct (map snd d)" and "map_of d j = Some v" and "map_of d k = Some v"
  shows "j = k"
proof -
  from assms(2,3) have "(j, v) \<in> set d" "(k, v) \<in> set d" by (auto dest: map_of_SomeD)
  with assms(1) have "(j, v) = (k, v)"
    by (metis distinct_map inj_onD snd_conv)
  then show ?thesis by simp
qed

section \<open>The mask\<close>

lemma fold_mask:
  assumes "\<forall>r \<in> set rs. 0 \<le> rq_row r \<and> rq_row r < 4"
  shows "fold_res (\<lambda>r mask. seq_set mask (rq_row r) 1) rs (mask_of_rows 4 rows) =
    Inr (mask_of_rows 4 (rows \<union> rq_row ` set rs))"
  using assms
proof (induction rs arbitrary: rows)
  case Nil
  show ?case by simp
next
  case (Cons r rs)
  then show ?case by (simp add: mask_of_rows_set)
qed

lemma plan_mask_rows:
  "\<forall>r \<in> set rs. 0 \<le> rq_row r \<and> rq_row r < 4 \<Longrightarrow> plan_mask rs = Inr (mask_of_rows 4 (rq_row ` set rs))"
  using fold_mask [of rs "{}"] by (simp add: plan_mask_def mask_of_rows_empty)

section \<open>Whole plans\<close>

definition plan_entries :: "sched \<Rightarrow> vllm_request list \<Rightarrow> epoch_plan \<Rightarrow> bool" where
  "plan_entries s requests p \<longleftrightarrow>
     list_all2 (entry_of s (pl_max_steps p)) requests (pl_requests p)
     \<and> pl_version p = CONTRACT_VERSION \<and> pl_graph_batch_size p = 4
     \<and> pl_logical_capacity p = cfg_logical_capacity (sc_config s)
     \<and> pl_max_steps p \<in> {1, 2, 4, 8} \<and> pl_max_steps p \<le> cfg_max_steps (sc_config s)
     \<and> (\<forall>r \<in> set requests. request_rejection_reason r = None
          \<and> pl_max_steps p \<le> vr_max_tokens r - vr_num_output_tokens r
          \<and> vr_num_computed_tokens r = vr_num_tokens r)
     \<and> plan_mask (pl_requests p) = Inr (pl_active_mask p)"

lemma construct_plan_entries:
  assumes "construct_plan s requests = Inr p" and "requests \<noteq> []"
  shows "plan_entries s requests p"
proof -
  from assms(1) obtain remaining steps qs mask where
    rem: "map_res (remaining_steps s) requests = Inr remaining"
    and steps: "epoch_steps (min (cfg_max_steps (sc_config s)) (Min (set remaining))) = Inr steps"
    and qs: "map_res (plan_request s steps) requests = Inr qs" and mask: "plan_mask qs = Inr mask"
    and p: "p = \<lparr>pl_version = CONTRACT_VERSION, pl_graph_batch_size = 4, pl_max_steps = steps,
            pl_logical_capacity = cfg_logical_capacity (sc_config s), pl_requests = qs,
            pl_active_mask = mask, pl_sampling_mode = 0, pl_graph_variant = 0\<rparr>"
    by (auto simp: construct_plan_def rbind_Inr_iff raising_Inr)
  have budget: "request_rejection_reason r = None \<and> steps \<le> vr_max_tokens r - vr_num_output_tokens r
      \<and> vr_num_computed_tokens r = vr_num_tokens r" if "r \<in> set requests" for r
  proof -
    from map_res_image [OF rem that] obtain n where "n \<in> set remaining" and n: "remaining_steps s r = Inr n"
      by blast
    then have "Min (set remaining) \<le> n" by simp
    with steps remaining_steps_Inr [OF n] show ?thesis by (auto simp: epoch_steps_iff)
  qed
  from qs have "list_all2 (entry_of s steps) requests qs"
    unfolding map_res_list_all2 by (rule list_all2_mono) (rule plan_request_entry)
  with budget steps mask show ?thesis
    by (auto simp: plan_entries_def p epoch_steps_iff)
qed

lemma plan_entries_ids: "plan_entries s requests p \<Longrightarrow> plan_req_ids p = map vr_request_id requests"
  unfolding plan_req_ids_def
  by (rule sym, rule list_all2_eq [THEN iffD2, unfolded list_all2_map1 list_all2_map2])
    (auto simp: plan_entries_def entry_of_def list_all2_map1 list_all2_map2 elim: list_all2_mono)

lemma plan_entries_entry:
  "plan_entries s requests p \<Longrightarrow> q \<in> set (pl_requests p) \<Longrightarrow>
     \<exists>r \<in> set requests. entry_of s (pl_max_steps p) r q"
  unfolding plan_entries_def by (elim conjE) (rule list_all2_right)

text \<open>A plan built from a consistent row table is well-formed, so its validation succeeds.\<close>

lemma plan_entries_wf:
  assumes entries: "plan_entries s requests p" and inv: "alloc_inv s" and config: "config_ok (sc_config s)"
    and nonempty: "requests \<noteq> []" and ids: "distinct (map vr_request_id requests)"
  shows "plan_wf p"
proof -
  have row: "map_of (sc_rows s) (rq_id q) = Some (rq_row q)"
    and gen: "map_of (sc_generations s) (rq_id q) = Some (rq_generation q)"
    if "q \<in> set (pl_requests p)" for q
    using plan_entries_entry [OF entries that] by (auto simp: entry_of_def)
  have range: "0 \<le> rq_row q \<and> rq_row q < 4" if "q \<in> set (pl_requests p)" for q
  proof -
    from row [OF that] have "rq_row q \<in> set (map snd (sc_rows s))" by (force dest: map_of_SomeD)
    then show ?thesis using inv config unfolding alloc_inv_def config_ok_def by metis
  qed
  have pos: "0 < rq_generation q" if "q \<in> set (pl_requests p)" for q
  proof -
    from gen [OF that] have "rq_generation q \<in> set (map snd (sc_generations s))" by (force dest: map_of_SomeD)
    then show ?thesis using inv unfolding alloc_inv_def by metis
  qed
  have dist: "distinct (map rq_id (pl_requests p))"
    using ids plan_entries_ids [OF entries] by (simp add: plan_req_ids_def)
  have "inj_on rq_id (set (pl_requests p))" and dist': "distinct (pl_requests p)"
    using dist by (auto simp: distinct_map)
  moreover have "rq_id q = rq_id q'" if "rq_row q = rq_row q' \<or> rq_generation q = rq_generation q'"
    "q \<in> set (pl_requests p)" "q' \<in> set (pl_requests p)" for q q'
    using that row gen inv dict_value_inj [of "sc_rows s"] dict_value_inj [of "sc_generations s"]
    unfolding alloc_inv_def by metis
  ultimately have "distinct (map rq_row (pl_requests p))" "distinct (map rq_generation (pl_requests p))"
    unfolding distinct_map inj_on_def by blast+
  moreover have "request_wf p q" if "q \<in> set (pl_requests p)" for q
    using plan_entries_entry [OF entries that] range [OF that] entries
    by (auto simp: request_wf_def entry_of_def plan_entries_def)
  moreover have "pl_requests p \<noteq> []"
    using entries nonempty by (auto simp: plan_entries_def)
  moreover have "pl_active_mask p = mask_of_rows 4 (rq_row ` set (pl_requests p))"
    using plan_mask_rows [of "pl_requests p"] range entries by (auto simp: plan_entries_def)
  ultimately show ?thesis
    using entries dist pos by (auto simp: plan_wf_def plan_entries_def plan_req_ids_def)
qed

section \<open>Making a plan from a schedule\<close>

text \<open>vLLM's request dictionary is keyed by the requests' own ids.\<close>

definition requests_keyed :: "base_sched \<Rightarrow> bool" where
  "requests_keyed b \<longleftrightarrow> (\<forall>(k, q) \<in> set (bs_requests b). vr_request_id (bs_heap b q) = k)"

lemma keyed_id:
  assumes "requests_keyed b" and "map_of (bs_requests b) k = Some q"
  shows "vr_request_id (bs_heap b q) = k"
  using assms(1) map_of_SomeD [OF assms(2)] by (auto simp: requests_keyed_def)

lemma keyed_ids:
  assumes "requests_keyed b" and "map_res (dict_item (bs_requests b)) ids = Inr refs"
  shows "map vr_request_id (map (bs_heap b) refs) = ids"
  using assms(2)
proof (induction ids arbitrary: refs)
  case Nil
  then show ?case by simp
next
  case (Cons k ids)
  then show ?case by (auto simp: rbind_Inr_iff dict_item_Inr keyed_id [OF assms(1)])
qed

lemma make_plan_assigned:
  assumes "make_resident_epoch_plan out s = (Inr (Some p, rejection), s')"
  obtains refs where "schedule_rejection s out = None"
    "assign_resident_rows (keys (so_num_scheduled_tokens out)) s = (Inr (), s')"
    "map_res (dict_item (bs_requests (sc_base s'))) (keys (so_num_scheduled_tokens out)) = Inr refs"
    "construct_plan s' (requests_at s' refs) = Inr p" "plan_validate p = Inr ()" "rejection = None"
  using assms
  by (auto simp: make_resident_epoch_plan_def plan_outcome_def rbind_Inr_iff raising_Inr Let_def
      split: option.splits prod.splits sum.splits plan_halt.splits)

lemma schedule_accepted_nonempty: "schedule_rejection s out = None \<Longrightarrow> so_num_scheduled_tokens out \<noteq> []"
  by (auto simp: schedule_rejection_def Let_def split: if_splits)

lemma map_res_empty_iff: "map_res f xs = Inr ys \<Longrightarrow> ys = [] \<longleftrightarrow> xs = []"
  by (drule map_res_length) auto

text \<open>The plan of a schedule covers exactly the scheduled requests.\<close>

lemma make_plan_entries:
  assumes "make_resident_epoch_plan out s = (Inr (Some p, rejection), s')"
  obtains refs where "plan_entries s' (requests_at s' refs) p"
    "map_res (dict_item (bs_requests (sc_base s'))) (keys (so_num_scheduled_tokens out)) = Inr refs" "refs \<noteq> []"
  using make_plan_assigned [OF assms] schedule_accepted_nonempty [of s out]
    construct_plan_entries map_res_empty_iff
  by (metis (no_types, lifting) map_is_Nil_conv)

lemma make_plan_frame:
  assumes "alloc_inv s" and "make_resident_epoch_plan out s = (res, s')"
  shows "alloc_inv s' \<and> same_frame s s'"
proof (cases "schedule_rejection s out")
  case None
  obtain r1 s1 where a: "assign_resident_rows (keys (so_num_scheduled_tokens out)) s = (r1, s1)" by fastforce
  have "s' = s1"
    using assms(2) None a by (auto simp: make_resident_epoch_plan_def split: sum.splits)
  then show ?thesis
    using assign_rows_took(1) [OF assms(1) a] assign_rows_frame [OF assms(1) a] by simp
next
  case (Some reason)
  then show ?thesis using assms by (simp add: make_resident_epoch_plan_def)
qed

text \<open>
  The final \<open>plan.validate()\<close> never raises: up to it, a plan has been built that passes.
\<close>

lemma constructed_plan_wf:
  assumes inv: "alloc_inv s" and config: "config_ok (sc_config s)" and keyed: "requests_keyed (sc_base s)"
    and refs: "map_res (dict_item (bs_requests (sc_base s))) ids = Inr refs"
    and ids: "distinct ids" "ids \<noteq> []"
    and built: "construct_plan s (requests_at s refs) = Inr p"
  shows "plan_wf p"
proof -
  have "map vr_request_id (requests_at s refs) = ids" using keyed_ids [OF keyed refs] .
  moreover have "requests_at s refs \<noteq> []" using map_res_empty_iff [OF refs] ids(2) by simp
  ultimately show ?thesis
    using construct_plan_entries [OF built] plan_entries_wf [OF _ inv config] ids(1) by metis
qed

section \<open>Host isolation restores the queue\<close>

lemma isolation_restores:
  assumes "schedule_with_host_isolation super_schedule s = (res, s')"
  shows "same_frame (s\<lparr>sc_base := sc_base s'\<rparr>) s'" and "sc_rows s' = sc_rows s"
    and "sc_generations s' = sc_generations s" and "sc_device_owned s' = sc_device_owned s"
    and "sc_next_generation s' = sc_next_generation s"
  using assms
  by (auto simp: schedule_with_host_isolation_def Let_def same_frame_def
      split: option.splits prod.splits sum.splits if_splits)

lemma isolation_base:
  assumes "schedule_with_host_isolation super_schedule s = (res, s')"
    and "host_isolation_reason s (device_running_refs s) = Some reason"
  shows "\<exists>outcome b. super_schedule ((sc_base s)\<lparr>
      bs_running := filter (\<lambda>q. q \<notin> set (device_running_refs s)) (bs_running (sc_base s)),
      bs_max_num_running_reqs := bs_max_num_running_reqs (sc_base s) - int (length (device_running_refs s))\<rparr>)
      = (outcome, b)
    \<and> sc_base s' = b\<lparr>bs_running := device_running_refs s @ bs_running b,
        bs_max_num_running_reqs := bs_max_num_running_reqs (sc_base s)\<rparr>"
  using assms
  by (auto simp: schedule_with_host_isolation_def Let_def split: prod.splits sum.splits if_splits)

end
