(* ===== verification/SchedulerSteps.thy ===== *)
theory SchedulerSteps
  imports SchedulerPlans
begin

text \<open>
  The scheduler as a state machine: what one \<open>schedule\<close> and one \<open>update_from_output\<close> do
  to the row table, the Device-owned set and the requests' token counts, and what holds in
  every state a run reaches.
\<close>

section \<open>One scheduling step\<close>

text \<open>How a step may change the row table: entries stay as they are or are new.\<close>

definition rows_evolve :: "sched \<Rightarrow> sched \<Rightarrow> bool" where
  "rows_evolve s s' \<longleftrightarrow>
     alloc_inv s' \<and> sc_config s' = sc_config s \<and> sc_next_generation s \<le> sc_next_generation s'
     \<and> (\<forall>k g. map_of (sc_generations s') k = Some g \<longrightarrow>
          map_of (sc_generations s) k = Some g \<and> map_of (sc_rows s') k = map_of (sc_rows s) k
          \<or> sc_next_generation s \<le> g)"

lemma rows_evolve_same:
  "alloc_inv s \<Longrightarrow> sc_rows s' = sc_rows s \<Longrightarrow> sc_generations s' = sc_generations s \<Longrightarrow>
   sc_device_owned s' \<subseteq> set (keys (sc_rows s)) \<Longrightarrow> sc_next_generation s' = sc_next_generation s \<Longrightarrow>
   sc_config s' = sc_config s \<Longrightarrow> rows_evolve s s'"
  by (simp add: rows_evolve_def alloc_inv_def)

lemma alloc_inv_keys_dom: "alloc_inv s \<Longrightarrow> (map_of (sc_rows s) k = None) = (map_of (sc_generations s) k = None)"
  by (simp add: alloc_inv_def dict_get_None_iff)

lemma assign_rows_evolve:
  assumes inv: "alloc_inv s" and assign: "assign_resident_rows req_ids s = (res, s')"
  shows "rows_evolve s s'"
proof -
  have "map_of (sc_rows s') k = map_of (sc_rows s) k"
    if g: "map_of (sc_generations s) k = Some g" and k: "k \<in> set req_ids" for k g
  proof -
    obtain row where "map_of (sc_rows s) k = Some row"
      using alloc_inv_keys_dom [OF inv, of k] g by (cases "map_of (sc_rows s) k") auto
    then show ?thesis using assign_rows_sticky(1) [OF inv assign k] by simp
  qed
  then show ?thesis
    using assign_rows_took(1) [OF inv assign] assign_rows_next [OF inv assign]
      assign_rows_fresh [OF inv assign] assign_rows_frame [OF inv assign]
    unfolding rows_evolve_def same_frame_def by metis
qed

lemma make_plan_evolve:
  assumes "alloc_inv s" and "make_resident_epoch_plan out s = (res, s')"
  shows "rows_evolve s s'"
proof (cases "schedule_rejection s out")
  case None
  obtain r1 s1 where a: "assign_resident_rows (keys (so_num_scheduled_tokens out)) s = (r1, s1)" by fastforce
  with assms(2) None have "s' = s1"
    by (auto simp: make_resident_epoch_plan_def split: sum.splits)
  with assign_rows_evolve [OF assms(1) a] show ?thesis by simp
next
  case (Some reason)
  with assms show ?thesis by (auto simp: make_resident_epoch_plan_def rows_evolve_def)
qed

lemma rows_evolve_cong:
  "rows_evolve s s' \<Longrightarrow> sc_rows t = sc_rows s \<Longrightarrow> sc_generations t = sc_generations s \<Longrightarrow>
   sc_next_generation t = sc_next_generation s \<Longrightarrow> sc_config t = sc_config s \<Longrightarrow> rows_evolve t s'"
  by (simp add: rows_evolve_def)

lemma alloc_inv_cong:
  "alloc_inv s \<Longrightarrow> sc_rows t = sc_rows s \<Longrightarrow> sc_generations t = sc_generations s \<Longrightarrow>
   sc_device_owned t = sc_device_owned s \<Longrightarrow> sc_next_generation t = sc_next_generation s \<Longrightarrow>
   sc_config t = sc_config s \<Longrightarrow> alloc_inv t"
  by (simp add: alloc_inv_def)

lemma isolation_alloc:
  assumes "schedule_with_host_isolation super_schedule s = (res, s')" and "alloc_inv s"
  shows "alloc_inv s'" and "sc_config s' = sc_config s"
proof -
  show c: "sc_config s' = sc_config s"
    using isolation_restores(1) [OF assms(1)] by (simp add: same_frame_def)
  show "alloc_inv s'"
    using alloc_inv_cong [OF assms(2)] isolation_restores(2-5) [OF assms(1)] c by simp
qed

text \<open>The three ways a call of \<open>schedule\<close> ends, with the states it goes through.\<close>

lemma schedule_cases:
  assumes "schedule super_schedule s = (res, s')"
  obtains (lookahead) e where "res = Inl e" "s' = s"
  | (base) e where "res = Inl e" "schedule_with_host_isolation super_schedule s = (Inl e, s')"
  | (plan_raised) e out paused reason s1 where "res = Inl e"
      "schedule_with_host_isolation super_schedule s = (Inr (out, paused, reason), s1)"
      "make_resident_epoch_plan out s1 = (Inl e, s')"
  | (refused) e out paused reason s1 plan rejection where "res = Inl e"
      "schedule_with_host_isolation super_schedule s = (Inr (out, paused, reason), s1)"
      "make_resident_epoch_plan out s1 = (Inr (plan, rejection), s')"
  | (host) out paused reason s1 s2 rejection where "res = Inr out"
      "schedule_with_host_isolation super_schedule s = (Inr (out, paused, reason), s1)"
      "make_resident_epoch_plan out s1 = (Inr (None, rejection), s2)"
      "set (keys (so_num_scheduled_tokens out)) \<inter> sc_device_owned s2 = {}"
      "s' = s2\<lparr>sc_last_rejection := (if paused \<noteq> [] then reason else rejection), sc_last_plan := None,
         sc_last_result := None,
         sc_metrics := record_schedule None (if paused \<noteq> [] then reason else rejection) (sc_metrics s2)\<rparr>"
  | (device) out reason s1 s2 p rejection where "res = Inr (out\<lparr>so_plan := Attached p\<rparr>)"
      "schedule_with_host_isolation super_schedule s = (Inr (out, [], reason), s1)"
      "make_resident_epoch_plan out s1 = (Inr (Some p, rejection), s2)"
      "s' = s2\<lparr>sc_last_rejection := rejection, sc_last_plan := Some p, sc_last_result := None,
         sc_metrics := record_schedule (Some p) rejection (sc_metrics s2)\<rparr>"
proof (cases "bs_num_lookahead_tokens (sc_base s) = 0")
  case False
  with assms lookahead show thesis by (auto simp: schedule_def)
next
  case True
  obtain r1 s1 where iso: "schedule_with_host_isolation super_schedule s = (r1, s1)" by fastforce
  show thesis
  proof (cases r1)
    case (Inl e)
    with assms True iso base show thesis by (auto simp: schedule_def)
  next
    case (Inr x)
    obtain out paused reason where x: "x = (out, paused, reason)" by (cases x)
    obtain r2 s2 where plan: "make_resident_epoch_plan out s1 = (r2, s2)" by fastforce
    show thesis
    proof (cases r2)
      case (Inl e)
      with assms True iso Inr x plan plan_raised show thesis by (auto simp: schedule_def)
    next
      case r2: (Inr y)
      obtain p rejection where y: "y = (p, rejection)" by (cases y)
      note eqs = True iso Inr x plan r2 y
      show thesis
      proof (cases p)
        case None
        show thesis
        proof (cases "filter (\<lambda>k. k \<in> sc_device_owned s2) (keys (so_num_scheduled_tokens out)) = []")
          case True
          then have "set (keys (so_num_scheduled_tokens out)) \<inter> sc_device_owned s2 = {}"
            by (auto simp: filter_empty_conv)
          with assms eqs None True show thesis
            by (intro host [of out paused reason s1 rejection s2]) (auto simp: schedule_def Let_def)
        next
          case False
          with assms eqs None show thesis
            by (intro refused [of _ out paused reason s1 p rejection]) (auto simp: schedule_def Let_def)
        qed
      next
        case (Some p')
        show thesis
        proof (cases "paused = []")
          case False
          with assms eqs Some show thesis
            by (intro refused [of _ out paused reason s1 p rejection]) (auto simp: schedule_def Let_def)
        next
          case True
          have "plan_validate p' = Inr ()"
            using plan eqs Some by (auto elim: make_plan_assigned)
          with assms eqs Some True show thesis
            by (intro device [where out = out and p = p' and reason = reason and rejection = rejection]) (auto simp: schedule_def Let_def attach_plan_def)
        qed
      qed
    qed
  qed
qed

lemma schedule_evolve:
  assumes "schedule super_schedule s = (res, s')" and inv: "alloc_inv s"
  shows "rows_evolve s s'"
proof -
  have self: "rows_evolve s s" using inv by (simp add: rows_evolve_def)
  have via: "rows_evolve s s2"
    if iso: "schedule_with_host_isolation super_schedule s = (r1, s1)"
      and plan: "make_resident_epoch_plan out s1 = (r2, s2)" for r1 s1 out r2 s2
    using make_plan_evolve [OF isolation_alloc(1) [OF iso inv] plan] isolation_restores(2-5) [OF iso]
      isolation_alloc(2) [OF iso inv] by (auto intro: rows_evolve_cong)
  have frame: "rows_evolve s s2 \<Longrightarrow> rows_evolve s (s2\<lparr>sc_last_rejection := a, sc_last_plan := b, sc_last_result := c, sc_metrics := d\<rparr>)"
    for s2 a b c d by (auto simp: rows_evolve_def alloc_inv_def)
  from assms(1) show ?thesis
  proof (cases rule: schedule_cases)
    case lookahead
    with self show ?thesis by simp
  next
    case (base e)
    have "sc_device_owned s \<subseteq> set (keys (sc_rows s))" using inv by (simp add: alloc_inv_def)
    with base inv show ?thesis
      using isolation_restores(2-5) [OF base(2)] isolation_alloc(2) [OF base(2) inv]
      by (intro rows_evolve_same) auto
  next
    case plan_raised
    then show ?thesis using via by blast
  next
    case refused
    then show ?thesis using via by blast
  next
    case host
    then show ?thesis using via frame by blast
  next
    case device
    then show ?thesis using via frame by blast
  qed
qed

section \<open>Accounting\<close>

lemma advance_requests_succeed:
  "(\<And>k n. (k, n) \<in> set extras \<Longrightarrow> map_of (bs_requests b) k \<noteq> None) \<Longrightarrow> fst (advance_requests extras b) = Inr ()"
proof (induction extras arbitrary: b)
  case Nil
  show ?case by simp
next
  case (Cons x extras)
  obtain k n where x: "x = (k, n)" by (cases x)
  with Cons.prems obtain q where q: "map_of (bs_requests b) k = Some q" by fastforce
  have "fst (advance_requests extras (b\<lparr>bs_heap := h\<rparr>)) = Inr ()" for h
    by (rule Cons.IH) (use Cons.prems in auto)
  with x q show ?case by (simp add: dict_item_def)
qed

lemma advance_requests_frame:
  "advance_requests extras b = (res, b') \<Longrightarrow> \<exists>h. b' = b\<lparr>bs_heap := h\<rparr>"
proof (induction extras arbitrary: b)
  case Nil
  then show ?case by (auto intro: exI [of _ "bs_heap b"])
next
  case (Cons x extras)
  obtain k n where x: "x = (k, n)" by (cases x)
  show ?case
  proof (cases "dict_item (bs_requests b) k")
    case (Inl e)
    with Cons.prems x show ?thesis by (auto intro: exI [of _ "bs_heap b"])
  next
    case (Inr q)
    from Cons.prems x Inr Cons.IH show ?thesis by fastforce
  qed
qed

lemma extra_steps_requests:
  "map_res (extra_steps b out sampled) entries = Inr extras \<Longrightarrow> (k, n) \<in> set extras \<Longrightarrow>
     map_of (bs_requests b) k \<noteq> None"
  by (drule (1) map_res_set)
    (auto simp: extra_steps_def rbind_Inr_iff dict_item_Inr Let_def split: prod.splits if_splits)

text \<open>Accounting is all or nothing: an exception leaves the scheduler as it was.\<close>

lemma accounting_atomic:
  assumes "apply_resident_epoch_accounting out ro p r s = (Inl e, s')"
  shows "s' = s"
proof -
  have "fst (advance_requests extras (sc_base s)) = Inr ()"
    if "map_res (extra_steps (sc_base s) out sampled) (er_computed_steps r) = Inr extras" for sampled extras
    by (rule advance_requests_succeed) (use extra_steps_requests [OF that] in blast)
  with assms show ?thesis
    by (fastforce simp: apply_resident_epoch_accounting_def split: sum.splits prod.splits)
qed

lemma accounting_ok:
  assumes "apply_resident_epoch_accounting out ro p r s = (Inr (), s')"
  obtains sampled extras b where "sampled_by_req ro p = Inr sampled" "result_wf p r sampled"
    "map_res (extra_steps (sc_base s) out sampled) (er_computed_steps r) = Inr extras"
    "advance_requests extras (sc_base s) = (Inr (), b)"
    "s' = s\<lparr>sc_base := b, sc_device_owned := (if on_device r then sc_device_owned s \<union> set (host_owned_ids p)
       else sc_device_owned s)\<rparr>"
  using assms
  by (auto simp: apply_resident_epoch_accounting_def validate_against_iff_wf split: sum.splits prod.splits)

text \<open>Different request ids never name the same request object.\<close>

lemma keyed_refs_inj:
  "requests_keyed b \<Longrightarrow> map_of (bs_requests b) j = Some q \<Longrightarrow> map_of (bs_requests b) k = Some q \<Longrightarrow> j = k"
  using keyed_id [of b j q] keyed_id [of b k q] by simp

lemma advance_requests_other:
  assumes "advance_requests extras b = (Inr (), b')"
    and "\<And>k n. (k, n) \<in> set extras \<Longrightarrow> map_of (bs_requests b) k \<noteq> Some q"
  shows "bs_heap b' q = bs_heap b q"
  using assms
proof (induction extras arbitrary: b)
  case Nil
  then show ?case by simp
next
  case (Cons x extras)
  obtain k n where x: "x = (k, n)" by (cases x)
  from Cons.prems(1) x obtain j where j: "map_of (bs_requests b) k = Some j"
    and rest: "advance_requests extras (b\<lparr>bs_heap := (bs_heap b)(j := (bs_heap b j)\<lparr>vr_num_computed_tokens :=
      vr_num_computed_tokens (bs_heap b j) + n\<rparr>)\<rparr>) = (Inr (), b')"
    by (auto simp: dict_item_def split: option.splits)
  have "j \<noteq> q" using Cons.prems(2) [of k n] x j by auto
  with Cons.IH [OF rest] Cons.prems(2) x show ?case by auto
qed

lemma advance_requests_value:
  assumes "advance_requests extras b = (Inr (), b')" and "requests_keyed b" and "distinct (keys extras)"
    and "(k, n) \<in> set extras" and "map_of (bs_requests b) k = Some q"
  shows "bs_heap b' q = (bs_heap b q)\<lparr>vr_num_computed_tokens := vr_num_computed_tokens (bs_heap b q) + n\<rparr>"
  using assms
proof (induction extras arbitrary: b)
  case Nil
  then show ?case by simp
next
  case (Cons x extras)
  obtain j m where x: "x = (j, m)" by (cases x)
  from Cons.prems(1) x obtain q' where q': "map_of (bs_requests b) j = Some q'"
    by (auto simp: dict_item_def split: option.splits)
  let ?b = "b\<lparr>bs_heap := (bs_heap b)(q' := (bs_heap b q')\<lparr>vr_num_computed_tokens :=
      vr_num_computed_tokens (bs_heap b q') + m\<rparr>)\<rparr>"
  have rest: "advance_requests extras ?b = (Inr (), b')"
    using Cons.prems(1) x q' by (simp add: dict_item_def)
  have keyed: "requests_keyed ?b" using Cons.prems(2) by (auto simp: requests_keyed_def)
  show ?case
  proof (cases "k = j")
    case True
    then have "n = m" and q: "q' = q" using Cons.prems(3-5) x q' by (auto simp: rev_image_eqI)
    have "bs_heap b' q = bs_heap ?b q"
    proof (rule advance_requests_other [OF rest])
      fix k' n' assume "(k', n') \<in> set extras"
      with Cons.prems(3) x have "k' \<noteq> j" by (force simp: rev_image_eqI)
      with keyed_refs_inj [OF Cons.prems(2), of k' q j] q' q
      show "map_of (bs_requests ?b) k' \<noteq> Some q" by auto
    qed
    with \<open>n = m\<close> q show ?thesis by simp
  next
    case False
    then have "q \<noteq> q'" using keyed_refs_inj [OF Cons.prems(2) Cons.prems(5)] q' by blast
    with Cons.IH [OF rest keyed] Cons.prems x False show ?thesis by simp
  qed
qed

section \<open>Runs\<close>

text \<open>
  The engine alternates: it schedules, has the worker execute the scheduled batch, and
  updates from the worker's output; in between, requests arrive, finish and are aborted,
  which changes the base state in any way. A state is the scheduler and the scheduled batch
  whose output is still due. vLLM's \<open>schedule\<close> is any function that returns a fresh output
  object, on which no plan was set yet; the engine outputs vLLM's \<open>update_from_output\<close>
  returns do not matter here.
\<close>

type_synonym engine_state = "sched \<times> sched_output option"

definition fresh_outputs :: "base_schedule \<Rightarrow> bool" where
  "fresh_outputs super_schedule \<longleftrightarrow>
     (\<forall>b out b'. super_schedule b = (Inr out, b') \<longrightarrow> so_plan out = Absent)"

inductive engine_step :: "engine_state \<Rightarrow> engine_state \<Rightarrow> bool" where
  scheduled: "fresh_outputs super_schedule \<Longrightarrow> schedule super_schedule s = (Inr out, s') \<Longrightarrow>
     engine_step (s, None) (s', Some out)"
| schedule_raised: "fresh_outputs super_schedule \<Longrightarrow> schedule super_schedule s = (Inl e, s') \<Longrightarrow>
     engine_step (s, None) (s', None)"
| updated: "update_from_output (super_update :: unit base_update) out ro s = (res, s') \<Longrightarrow> engine_step (s, Some out) (s', None)"
| execution_failed: "engine_step (s, Some out) (s, None)"
| environment: "engine_step (s, pending) (s\<lparr>sc_base := b\<rparr>, pending)"

inductive_cases engine_stepE: "engine_step st st'"

text \<open>A plan that is out for execution still agrees with the row table and the owned set.\<close>

definition plan_current :: "sched \<Rightarrow> epoch_plan \<Rightarrow> bool" where
  "plan_current s p \<longleftrightarrow> plan_wf p \<and> (\<forall>q \<in> set (pl_requests p).
     map_of (sc_rows s) (rq_id q) = Some (rq_row q)
     \<and> map_of (sc_generations s) (rq_id q) = Some (rq_generation q)
     \<and> rq_state_owner q = (if rq_id q \<in> sc_device_owned s then ''device'' else ''host''))"

definition engine_inv :: "engine_state \<Rightarrow> bool" where
  "engine_inv st \<longleftrightarrow> alloc_inv (fst st) \<and> config_ok (sc_config (fst st))
     \<and> (\<forall>out. snd st = Some out \<longrightarrow>
          (case so_plan out of
             Absent \<Rightarrow> set (keys (so_num_scheduled_tokens out)) \<inter> sc_device_owned (fst st) = {}
           | Attached p \<Rightarrow> plan_current (fst st) p
           | Foreign \<Rightarrow> False))"

lemma isolation_output_fresh:
  assumes "fresh_outputs super_schedule"
    and "schedule_with_host_isolation super_schedule s = (Inr (out, paused, reason), s')"
  shows "so_plan out = Absent"
  using assms
  by (auto simp: schedule_with_host_isolation_def fresh_outputs_def Let_def
      split: option.splits prod.splits sum.splits if_splits)

lemma made_plan_current:
  assumes "make_resident_epoch_plan out s = (Inr (Some p, rejection), s')"
  shows "plan_current s' p"
proof -
  have "plan_wf p" using assms by (auto elim: make_plan_assigned simp: plan_validate_iff_wf)
  moreover obtain refs where "plan_entries s' (requests_at s' refs) p"
    using make_plan_entries [OF assms] by blast
  ultimately show ?thesis
    by (auto simp: plan_current_def entry_of_def dest!: plan_entries_entry)
qed

text \<open>What \<open>schedule\<close> returns is safe to hand to the worker, whatever vLLM scheduled.\<close>

lemma schedule_output:
  assumes fresh: "fresh_outputs super_schedule" and run: "schedule super_schedule s = (Inr out, s')"
  shows "case so_plan out of
      Absent \<Rightarrow> set (keys (so_num_scheduled_tokens out)) \<inter> sc_device_owned s' = {}
    | Attached p \<Rightarrow> plan_current s' p \<and> sc_last_plan s' = Some p
    | Foreign \<Rightarrow> False"
  using run
proof (cases rule: schedule_cases)
  case (host out' paused reason s1 s2 rejection)
  with isolation_output_fresh [OF fresh host(2)] show ?thesis by simp
next
  case (device out' reason s1 s2 p rejection)
  with made_plan_current [OF device(3)] show ?thesis by (simp add: plan_current_def)
qed simp_all

lemma update_rows:
  assumes "update_from_output super_update out ro s = (res, s')"
  shows "sc_rows s' = sc_rows s" and "sc_generations s' = sc_generations s"
    and "sc_next_generation s' = sc_next_generation s" and "sc_config s' = sc_config s"
    and "sc_device_owned s \<subseteq> sc_device_owned s'"
    and "\<And>k. k \<in> sc_device_owned s' \<Longrightarrow> k \<notin> sc_device_owned s \<Longrightarrow>
      \<exists>p. so_plan out = Attached p \<and> k \<in> set (host_owned_ids p)"
  using assms
  by (auto simp: update_from_output_def call_super_update_def apply_resident_epoch_accounting_def Let_def get_plan_def
      split: sum.splits option.splits prod.splits attr.splits if_splits)

lemma host_owned_in_rows:
  assumes "plan_current s p" and "k \<in> set (host_owned_ids p)"
  shows "k \<in> set (keys (sc_rows s))"
proof -
  from assms(2) obtain q where "q \<in> set (pl_requests p)" and k: "k = rq_id q"
    by (auto simp: host_owned_ids_def)
  with assms(1) have "map_of (sc_rows s) k = Some (rq_row q)" by (simp add: plan_current_def)
  then show ?thesis by (rule dict_get_Some_keys)
qed

lemma update_inv:
  assumes inv: "engine_inv (s, Some out)" and upd: "update_from_output super_update out ro s = (res, s')"
  shows "engine_inv (s', None)" and "rows_evolve s s'"
proof -
  have "k \<in> set (keys (sc_rows s))" if k: "k \<in> sc_device_owned s'" for k
  proof (cases "k \<in> sc_device_owned s")
    case True
    with inv show ?thesis by (auto simp: engine_inv_def alloc_inv_def)
  next
    case False
    with update_rows(6) [OF upd k] obtain p where "so_plan out = Attached p" "k \<in> set (host_owned_ids p)" by blast
    with inv host_owned_in_rows [of s p k] show ?thesis by (auto simp: engine_inv_def)
  qed
  then have sub: "sc_device_owned s' \<subseteq> set (keys (sc_rows s))" by blast
  have "alloc_inv s" using inv by (simp add: engine_inv_def)
  then show evolve: "rows_evolve s s'"
    using update_rows(1-4) [OF upd] sub by (intro rows_evolve_same) auto
  show "engine_inv (s', None)"
    using evolve inv update_rows(4) [OF upd] by (simp add: engine_inv_def rows_evolve_def)
qed

lemma engine_step_inv:
  assumes "engine_step st st'" and "engine_inv st"
  shows "engine_inv st' \<and> rows_evolve (fst st) (fst st')"
  using assms
proof (induction rule: engine_step.induct)
  case (scheduled super_schedule s out s')
  have evolve: "rows_evolve s s'"
    using schedule_evolve [OF scheduled(2)] scheduled(3) by (simp add: engine_inv_def)
  with schedule_output [OF scheduled(1,2)] scheduled(3) show ?case
    by (auto simp: engine_inv_def rows_evolve_def split: attr.splits)
next
  case (schedule_raised super_schedule s e s')
  then show ?case using schedule_evolve [OF schedule_raised(2)] by (auto simp: engine_inv_def rows_evolve_def)
next
  case (updated super_update out ro s res s')
  then show ?case using update_inv by auto
next
  case (execution_failed s out)
  then show ?case by (simp add: engine_inv_def rows_evolve_def)
next
  case (environment s pending b)
  then have "rows_evolve s (s\<lparr>sc_base := b\<rparr>)"
    by (intro rows_evolve_same) (auto simp: engine_inv_def alloc_inv_def)
  with environment show ?case
    by (auto simp: engine_inv_def rows_evolve_def plan_current_def split: attr.splits)
qed

text \<open>
  The reachable states, with every assignment of a row and a generation to a request that
  was in force at some point of the run.
\<close>

definition assignments :: "sched \<Rightarrow> (string \<times> int \<times> int) set" where
  "assignments s = {(k, row, g). map_of (sc_rows s) k = Some row \<and> map_of (sc_generations s) k = Some g}"

inductive reaches :: "engine_state \<Rightarrow> (string \<times> int \<times> int) set \<Rightarrow> bool" where
  started: "scheduler_init py_repr env metrics vc base = Inr s \<Longrightarrow> reaches (s, None) {}"
| stepped: "reaches st H \<Longrightarrow> engine_step st st' \<Longrightarrow> reaches st' (H \<union> assignments (fst st'))"

lemma scheduler_init_inv:
  assumes "scheduler_init py_repr env metrics vc base = Inr s"
  shows "engine_inv (s, None)" and "assignments s = {}"
  using assms config_from_env_ok
  by (auto simp: scheduler_init_def rbind_Inr_iff Let_def engine_inv_def alloc_inv_def assignments_def
      split: if_splits option.splits)

definition history_inv :: "sched \<Rightarrow> (string \<times> int \<times> int) set \<Rightarrow> bool" where
  "history_inv s H \<longleftrightarrow> assignments s \<subseteq> H \<and> (\<forall>(k, row, g) \<in> H. g < sc_next_generation s)
     \<and> (\<forall>(k, row, g) \<in> H. \<forall>(k', row', g') \<in> H. g = g' \<longrightarrow> k = k' \<and> row = row')"

lemma assignments_functional:
  assumes "alloc_inv s" and a: "(k, row, g) \<in> assignments s" "(k', row', g) \<in> assignments s"
  shows "k = k' \<and> row = row'"
proof -
  have "distinct (map snd (sc_generations s))" using assms(1) by (simp add: alloc_inv_def)
  moreover have "map_of (sc_generations s) k = Some g" "map_of (sc_generations s) k' = Some g"
    using a by (simp_all add: assignments_def)
  ultimately have "k = k'" by (rule dict_value_inj)
  with a show ?thesis by (simp add: assignments_def)
qed

lemma assignments_below: "alloc_inv s \<Longrightarrow> (k, row, g) \<in> assignments s \<Longrightarrow> g < sc_next_generation s"
  by (force simp: assignments_def alloc_inv_def dest: map_of_SomeD)

lemma assignments_evolve:
  "rows_evolve s s' \<Longrightarrow> (k, row, g) \<in> assignments s' \<Longrightarrow>
     (k, row, g) \<in> assignments s \<or> sc_next_generation s \<le> g"
  by (simp add: rows_evolve_def assignments_def) metis

lemma history_step:
  assumes evolve: "rows_evolve s s'" and hist: "history_inv s H"
  shows "history_inv s' (H \<union> assignments s')"
proof -
  have inv: "alloc_inv s'" and mono: "sc_next_generation s \<le> sc_next_generation s'"
    using evolve by (auto simp: rows_evolve_def)
  have old: "(k, row, g) \<in> H \<or> (\<forall>j r. (j, r, g) \<notin> H)" if "(k, row, g) \<in> assignments s'" for k row g
    using assignments_evolve [OF evolve that] hist unfolding history_inv_def by fastforce
  have unique: "k = k' \<and> row = row'"
    if "(k, row, g) \<in> H \<union> assignments s'" "(k', row', g) \<in> H \<union> assignments s'" for k row k' row' g
  proof -
    have "k = k' \<and> row = row'" if "(k, row, g) \<in> H" "(k', row', g) \<in> H"
      using that hist unfolding history_inv_def by blast
    with that old assignments_functional [OF inv] show ?thesis by (metis Un_iff)
  qed
  have below: "g < sc_next_generation s'" if "(k, row, g) \<in> H \<union> assignments s'" for k row g
    using that assignments_below [OF inv] hist mono unfolding history_inv_def by fastforce
  show ?thesis using unique below unfolding history_inv_def by blast
qed

lemma reaches_inv: "reaches st H \<Longrightarrow> engine_inv st \<and> history_inv (fst st) H"
proof (induction rule: reaches.induct)
  case (started py_repr env metrics vc base s)
  then show ?case using scheduler_init_inv by (simp add: history_inv_def)
next
  case (stepped st H st')
  then show ?case using engine_step_inv history_step by blast
qed

end
