(* ===== verification/SchedulerProps.thy ===== *)
theory SchedulerProps
  imports SchedulerSteps
begin

text \<open>
  The properties of the scheduler, each with a run of a small concrete engine it applies to:
  one request with a prompt of three tokens and one generated token.
\<close>

section \<open>A concrete engine\<close>

definition ex_params :: sampling_params where
  "ex_params =
     \<lparr>sp_temperature = PInt 0, sp_top_p = PInt 1, sp_top_k = PInt 0, sp_min_p = PInt 0,
      sp_presence_penalty = PInt 0, sp_frequency_penalty = PInt 0, sp_repetition_penalty = PInt 1,
      sp_min_tokens = PInt 0, sp_ignore_eos = PBool False, sp_eos_token_id = PInt 2, sp_stop = PNone,
      sp_stop_token_ids = PNone, sp_logprobs = PNone, sp_prompt_logprobs = PNone, sp_logit_bias = PNone,
      sp_allowed_token_ids = PNone, sp_bad_words = PNone, sp_repetition_detection = PNone,
      sp_extra_args = PNone\<rparr>"

definition ex_request :: "string \<Rightarrow> vllm_request" where
  "ex_request k =
     \<lparr>vr_request_id = k, vr_pooling_params = PNone, vr_mm_features = PNone, vr_lora_request = PNone,
      vr_prompt_embeds = PNone, vr_use_structured_output = PBool False, vr_sampling_params = Some ex_params,
      vr_num_prompt_tokens = 3, vr_num_output_tokens = 1, vr_num_computed_tokens = 4, vr_num_tokens = 4,
      vr_max_tokens = 10, vr_all_token_ids = [5, 6, 7, 8]\<rparr>"

definition ex_base :: base_sched where
  "ex_base =
     \<lparr>bs_heap = (\<lambda>q. ex_request ''a''), bs_requests = [(''a'', 0)], bs_running = [0], bs_waiting = [],
      bs_skipped_waiting = [], bs_max_num_running_reqs = 4, bs_num_lookahead_tokens = 0,
      bs_connector = False, bs_ec_connector = False, bs_block_size = 128, bs_block_ids = (\<lambda>_. [[7]])\<rparr>"

definition ex_out :: sched_output where
  "ex_out =
     \<lparr>so_num_scheduled_tokens = [(''a'', 1)], so_total_num_scheduled_tokens = 1,
      so_scheduled_spec_decode_tokens = PNone, so_scheduled_encoder_inputs = PNone,
      so_preempted_req_ids = PNone, so_plan = Absent\<rparr>"

definition ex_super :: base_schedule where
  "ex_super b = (Inr ex_out, b)"

definition ex_env :: "(string, string) dict" where
  "ex_env = [(''VLLM_ASCEND_RESIDENT_EPOCH_CAPACITY'', ''16'')]"

definition ex_config :: epoch_config where
  "ex_config = default_config\<lparr>cfg_logical_capacity := 16\<rparr>"

definition ex_vllm :: vllm_config where
  "ex_vllm =
     \<lparr>vc_speculative_config = PNone, vc_async_scheduling = False, vc_tensor_parallel_size = 1,
      vc_pipeline_parallel_size = 1, vc_hf_config = [(''model_type'', PStr ''qwen2''),
        (''num_hidden_layers'', PInt 28), (''hidden_size'', PInt 3584), (''vocab_size'', PInt 152064)]\<rparr>"

definition ex_sched :: sched where
  "ex_sched =
     \<lparr>sc_base = ex_base, sc_config = ex_config, sc_last_rejection = None, sc_last_plan = None,
      sc_last_result = None, sc_rows = [], sc_generations = [], sc_device_owned = {},
      sc_next_generation = 1, sc_metrics = new_metrics False\<rparr>"

definition ex_entry :: epoch_request where
  "ex_entry =
     \<lparr>rq_id = ''a'', rq_row = 0, rq_generation = 1, rq_token_id = 8, rq_position = 3,
      rq_sequence_length = 4, rq_eos_token_id = 2, rq_scheduler_block_ids = [7],
      rq_device_block_ids = (0, 1), rq_state_owner = ''host'', rq_kv_import_required = True\<rparr>"

definition ex_plan :: epoch_plan where
  "ex_plan =
     \<lparr>pl_version = 3, pl_graph_batch_size = 4, pl_max_steps = 8, pl_logical_capacity = 16,
      pl_requests = [ex_entry], pl_active_mask = [1, 0, 0, 0], pl_sampling_mode = 0, pl_graph_variant = 0\<rparr>"

definition ex_assigned :: sched where
  "ex_assigned = ex_sched\<lparr>sc_rows := [(''a'', 0)], sc_generations := [(''a'', 1)], sc_next_generation := 2\<rparr>"

definition ex_planned :: sched where
  "ex_planned = ex_assigned\<lparr>sc_last_plan := Some ex_plan\<rparr>"

text \<open>The result of an epoch of two steps that ended at the end-of-sequence token.\<close>

definition ex_result :: epoch_result where
  "ex_result = (make_result 3 ''device'' 0 2 [(''a'', 2)])
     \<lparr>er_row_generations := [1, 0, 0, 0], er_kv_imported := True, er_kv_import_checksum := 9,
      er_kv_snapshot_checksum := 9, er_kv_transfer_mode := ''host_snapshot''\<rparr>"

definition ex_output :: runner_output where
  "ex_output = \<lparr>ro_req_ids = [''a''], ro_req_id_to_index = [(''a'', 0)], ro_sampled_token_ids = [[11, 2]],
     ro_result = Attached ex_result\<rparr>"

lemmas ex_defs = ex_params_def ex_request_def ex_base_def ex_out_def ex_config_def ex_sched_def
  ex_entry_def ex_plan_def ex_assigned_def ex_planned_def ex_result_def ex_output_def default_config_def

lemma ex_init: "scheduler_init (\<lambda>_. []) ex_env (new_metrics False) ex_vllm ex_base = Inr ex_sched"
proof -
  have "config_from_env ex_env = Inr ex_config" by code_simp
  moreover have "native_model_rejection_reason (\<lambda>_. []) ex_vllm = None" by code_simp
  ultimately show ?thesis by (simp add: scheduler_init_def ex_vllm_def ex_sched_def)
qed

lemma ex_wf: "plan_wf ex_plan"
  unfolding plan_validate_iff_wf [symmetric] by code_simp

lemma ex_construct: "construct_plan ex_assigned [ex_request ''a''] = Inr ex_plan"
  by code_simp

lemma ex_make_plan: "make_resident_epoch_plan ex_out ex_sched = (Inr (Some ex_plan, None), ex_assigned)"
proof -
  have "schedule_rejection ex_sched ex_out = None" by code_simp
  moreover have "assign_resident_rows [''a''] ex_sched = (Inr (), ex_assigned)"
  proof -
    have "free_rows ex_sched = [0, 1, 2, 3]" by code_simp
    then show ?thesis
      by (simp add: assign_resident_rows_def ex_assigned_def ex_sched_def)
  qed
  moreover have "plan_validate ex_plan = Inr ()" by code_simp
  moreover have "map_res (dict_item (bs_requests (sc_base ex_assigned))) [''a''] = Inr [0]" by code_simp
  moreover have "requests_at ex_assigned [0] = [ex_request ''a'']"
    by (simp add: ex_assigned_def ex_sched_def ex_base_def)
  ultimately show ?thesis
    using ex_construct by (simp add: make_resident_epoch_plan_def ex_out_def plan_outcome_def raising_def)
qed

lemma ex_schedule: "schedule ex_super ex_sched = (Inr (ex_out\<lparr>so_plan := Attached ex_plan\<rparr>), ex_planned)"
proof -
  have iso: "schedule_with_host_isolation ex_super ex_sched = (Inr (ex_out, [], None), ex_sched)"
    by (simp add: schedule_with_host_isolation_def device_running_refs_def host_isolation_reason_def
        ex_super_def ex_sched_def)
  have attach: "attach_plan ex_plan = Inr (Attached ex_plan)" by code_simp
  have "bs_num_lookahead_tokens (sc_base ex_sched) = 0" by (simp add: ex_sched_def ex_base_def)
  then show ?thesis
    by (simp add: schedule_def iso ex_make_plan attach)
      (simp add: ex_planned_def ex_assigned_def ex_sched_def record_schedule_def new_metrics_def)
qed

lemma ex_fresh: "fresh_outputs ex_super"
  by (simp add: fresh_outputs_def ex_super_def ex_out_def)

text \<open>vLLM's \<open>schedule\<close> leaves the request dictionary and the requests' ids alone.\<close>

definition keeps_ids :: "base_schedule \<Rightarrow> bool" where
  "keeps_ids super_schedule \<longleftrightarrow> (\<forall>b r b'. super_schedule b = (r, b') \<longrightarrow>
     bs_requests b' = bs_requests b \<and> (\<forall>q. vr_request_id (bs_heap b' q) = vr_request_id (bs_heap b q)))"

lemma isolation_ids:
  assumes "keeps_ids super_schedule" and "schedule_with_host_isolation super_schedule s = (res, s')"
  shows "bs_requests (sc_base s') = bs_requests (sc_base s)
    \<and> (\<forall>q. vr_request_id (bs_heap (sc_base s') q) = vr_request_id (bs_heap (sc_base s) q))"
proof -
  obtain b0 r b where run: "super_schedule b0 = (r, b)" and b0: "bs_requests b0 = bs_requests (sc_base s)" "bs_heap b0 = bs_heap (sc_base s)"
    and b: "bs_requests (sc_base s') = bs_requests b" "bs_heap (sc_base s') = bs_heap b"
  proof (cases "host_isolation_reason s (device_running_refs s)")
    case None
    with assms(2) show thesis
      by (intro that [of "sc_base s" "fst (super_schedule (sc_base s))" "snd (super_schedule (sc_base s))"])
        (auto simp: schedule_with_host_isolation_def split: prod.splits sum.splits)
  next
    case (Some reason)
    from isolation_base [OF assms(2) Some] show thesis by (elim exE conjE) (erule that, auto)
  qed
  with assms(1) show ?thesis unfolding keeps_ids_def by metis
qed

lemma isolation_keyed:
  "keeps_ids super_schedule \<Longrightarrow> schedule_with_host_isolation super_schedule s = (res, s') \<Longrightarrow>
     requests_keyed (sc_base s) \<Longrightarrow> requests_keyed (sc_base s')"
  by (drule (1) isolation_ids) (simp add: requests_keyed_def)

lemma make_plan_base: "make_resident_epoch_plan out s = (res, s') \<Longrightarrow> alloc_inv s \<Longrightarrow> sc_base s' = sc_base s"
  using make_plan_frame [of s out res s'] by (simp add: same_frame_def)

lemma make_plan_ids:
  assumes "make_resident_epoch_plan out s = (Inr (Some p, rejection), s')" and "alloc_inv s"
    and "requests_keyed (sc_base s)"
  shows "plan_req_ids p = keys (so_num_scheduled_tokens out)"
proof -
  obtain refs where e: "plan_entries s' (requests_at s' refs) p"
    and r: "map_res (dict_item (bs_requests (sc_base s'))) (keys (so_num_scheduled_tokens out)) = Inr refs"
    by (rule make_plan_entries [OF assms(1)])
  have "requests_keyed (sc_base s')" using assms(3) make_plan_base [OF assms(1,2)] by simp
  with plan_entries_ids [OF e] keyed_ids r show ?thesis by metis
qed

lemma make_plan_host_lane:
  assumes "make_resident_epoch_plan out s = (res, s')"
    and "set (map vr_request_id (requests_at s (bs_running (sc_base s)))) \<noteq> set (keys (so_num_scheduled_tokens out))"
  shows "s' = s \<and> (\<exists>reason. res = Inr (None, Some reason))"
proof -
  have "schedule_rejection s out \<noteq> None"
    using assms(2) [symmetric] by (simp add: schedule_rejection_def Let_def)
  with assms(1) show ?thesis by (auto simp: make_resident_epoch_plan_def)
qed

lemma ex_reaches:
  "reaches (ex_planned, Some (ex_out\<lparr>so_plan := Attached ex_plan\<rparr>)) ({} \<union> assignments ex_planned)"
  using reaches.stepped [OF reaches.started [OF ex_init] engine_step.scheduled [OF ex_fresh ex_schedule]] by simp

lemma ex_keeps: "keeps_ids ex_super"
  by (simp add: keeps_ids_def ex_super_def)

lemma ex_alloc_inv: "alloc_inv ex_sched" "config_ok (sc_config ex_sched)" "requests_keyed (sc_base ex_sched)"
  using scheduler_init_inv [OF ex_init] by (simp_all add: engine_inv_def requests_keyed_def ex_sched_def ex_base_def ex_request_def)

lemma ex_assigned_inv: "alloc_inv ex_assigned"
  using make_plan_frame [OF ex_alloc_inv(1) ex_make_plan] by simp

lemma extra_steps_keys:
  "map_res (extra_steps b out sampled) entries = Inr extras \<Longrightarrow> keys extras = keys entries"
proof (induction entries arbitrary: extras)
  case Nil
  then show ?case by simp
next
  case (Cons x entries)
  then show ?case
    by (auto simp: rbind_Inr_iff extra_steps_def Let_def split: prod.splits if_splits)
qed

text \<open>What isolation gives back and schedules.\<close>

lemma isolation_paused:
  assumes "schedule_with_host_isolation super_schedule s = (Inr (out, paused, why), s')"
    and "host_isolation_reason s (device_running_refs s) = Some reason"
  shows "take (length (device_running_refs s)) (bs_running (sc_base s')) = device_running_refs s"
    and "bs_max_num_running_reqs (sc_base s') = bs_max_num_running_reqs (sc_base s)"
    and "why = Some reason \<and> paused \<noteq> []"
    and "\<forall>q \<in> set (device_running_refs s). vr_request_id (bs_heap (sc_base s) q) \<notin> set (keys (so_num_scheduled_tokens out))"
proof -
  have nonempty: "device_running_refs s \<noteq> []"
    using assms(2) by (auto simp: host_isolation_reason_def)
  obtain b where "sc_base s' = b\<lparr>bs_running := device_running_refs s @ bs_running b,
      bs_max_num_running_reqs := bs_max_num_running_reqs (sc_base s)\<rparr>"
    using isolation_base [OF assms] by blast
  then show "take (length (device_running_refs s)) (bs_running (sc_base s')) = device_running_refs s"
    "bs_max_num_running_reqs (sc_base s') = bs_max_num_running_reqs (sc_base s)" by simp_all
  have "why = Some reason \<and> paused = map vr_request_id (requests_at s (device_running_refs s))
      \<and> set (keys (so_num_scheduled_tokens out)) \<inter> set paused = {}"
    using assms by (auto simp: schedule_with_host_isolation_def Let_def split: prod.splits sum.splits if_splits)
  with nonempty show "why = Some reason \<and> paused \<noteq> []"
    "\<forall>q \<in> set (device_running_refs s). vr_request_id (bs_heap (sc_base s) q) \<notin> set (keys (so_num_scheduled_tokens out))"
    by (auto simp del: set_map simp: set_map [of _ "device_running_refs s"])
qed

section \<open>Properties\<close>

text \<open>C1: In every state the engine reaches, whatever vLLM schedules and however execution
  ends, the row table is consistent (rows and generations distinct and in range, only
  requests that hold a row Device-owned), and a batch that is out for execution either
  carries no plan and no Device-owned request, or carries a well-formed plan whose rows,
  generations and owners are those of the table.\<close>

theorem reachable_engine_safe:
  assumes "reaches (s, pending) H"
  shows "alloc_inv s \<and> (\<forall>out. pending = Some out \<longrightarrow>
      (so_plan out = Absent \<and> set (keys (so_num_scheduled_tokens out)) \<inter> sc_device_owned s = {})
      \<or> (\<exists>p. so_plan out = Attached p \<and> plan_wf p \<and> (\<forall>q \<in> set (pl_requests p).
           map_of (sc_rows s) (rq_id q) = Some (rq_row q)
           \<and> map_of (sc_generations s) (rq_id q) = Some (rq_generation q)
           \<and> rq_state_owner q = (if rq_id q \<in> sc_device_owned s then ''device'' else ''host''))))"
proof -
  have inv: "engine_inv (s, pending)" using reaches_inv [OF assms] by simp
  have "(so_plan out = Absent \<and> set (keys (so_num_scheduled_tokens out)) \<inter> sc_device_owned s = {})
      \<or> (\<exists>p. so_plan out = Attached p \<and> plan_current s p)" if "pending = Some out" for out
    using inv that by (cases "so_plan out") (simp_all add: engine_inv_def)
  with inv show ?thesis unfolding plan_current_def by (simp add: engine_inv_def)
qed

theorem reachable_engine_safe_witness:
  "alloc_inv ex_planned \<and> map_of (sc_generations ex_planned) ''a'' = Some 1"
  using reachable_engine_safe [OF ex_reaches] by (auto simp: ex_plan_def ex_entry_def)

text \<open>C6: Over a whole run, a generation number names one assignment of one row to one
  request, so the device can tell a row's new tenant from its old one.\<close>

theorem generation_names_one_assignment:
  assumes "reaches (s, pending) H" and "(k, row, g) \<in> H" and "(k', row', g) \<in> H"
  shows "k = k' \<and> row = row'"
  using reaches_inv [OF assms(1)] assms(2,3) unfolding history_inv_def by blast

theorem generation_names_one_assignment_witness:
  "\<exists>st H. reaches st H \<and> (''a'', 0, 1) \<in> H \<and> (\<forall>k row. (k, row, 1) \<in> H \<longrightarrow> ''a'' = k \<and> 0 = row)"
proof -
  have "(''a'', 0, 1) \<in> {} \<union> assignments ex_planned"
    by (simp add: assignments_def ex_planned_def ex_assigned_def)
  with generation_names_one_assignment [OF ex_reaches] ex_reaches show ?thesis by blast
qed

text \<open>C2: What \<open>schedule\<close> returns never sends a Device-owned request to the Host model: an
  output without a plan schedules no Device-owned request, and an attached plan is valid,
  covers exactly the scheduled requests, and is recorded as the last plan.\<close>

theorem schedule_never_hosts_device_state:
  assumes "fresh_outputs super_schedule" and "keeps_ids super_schedule"
    and "alloc_inv s" and "requests_keyed (sc_base s)" and "schedule super_schedule s = (Inr out, s')"
  shows "(so_plan out = Absent \<longrightarrow> set (keys (so_num_scheduled_tokens out)) \<inter> sc_device_owned s' = {})
    \<and> (\<forall>p. so_plan out = Attached p \<longrightarrow> plan_validate p = Inr () \<and> sc_last_plan s' = Some p
          \<and> plan_req_ids p = keys (so_num_scheduled_tokens out))
    \<and> so_plan out \<noteq> Foreign"
  using assms(5)
proof (cases rule: schedule_cases)
  case (host out' paused reason s1 s2 rejection)
  with isolation_output_fresh [OF assms(1) host(2)] show ?thesis by simp
next
  case (device out' reason s1 s2 p rejection)
  have "plan_validate p = Inr ()" using device(3) by (auto elim: make_plan_assigned)
  moreover have "plan_req_ids p = keys (so_num_scheduled_tokens out')"
    using make_plan_ids [OF device(3) isolation_alloc(1) [OF device(2) assms(3)]]
      isolation_keyed [OF assms(2) device(2) assms(4)] by simp
  ultimately show ?thesis using device by simp
qed simp_all

theorem schedule_never_hosts_device_state_witness:
  "plan_validate ex_plan = Inr () \<and> plan_req_ids ex_plan = [''a'']"
  using schedule_never_hosts_device_state [OF ex_fresh ex_keeps ex_alloc_inv(1,3) ex_schedule]
  by (simp add: ex_out_def)

text \<open>The plan the scheduler builds from a consistent row table always passes its own
  validation: building either stops with a reason or gives a valid plan.\<close>

lemma built_plan_is_valid:
  assumes "alloc_inv s" and "config_ok (sc_config s)" and "requests_keyed (sc_base s)"
    and "map_res (dict_item (bs_requests (sc_base s))) ids = Inr refs"
    and "distinct ids" and "ids \<noteq> []"
    and "construct_plan s (requests_at s refs) = Inr p"
  shows "plan_validate p = Inr ()"
  using constructed_plan_wf [OF assms] by (simp add: plan_validate_iff_wf)

theorem built_plan_is_valid_witness: "plan_validate ex_plan = Inr ()"
proof (rule built_plan_is_valid [where s = ex_assigned and ids = "[''a'']" and refs = "[0]"])
  show "alloc_inv ex_assigned" by (rule ex_assigned_inv)
  show "config_ok (sc_config ex_assigned)" "requests_keyed (sc_base ex_assigned)"
    using ex_alloc_inv by (simp_all add: ex_assigned_def)
  show "map_res (dict_item (bs_requests (sc_base ex_assigned))) [''a''] = Inr [0]" by code_simp
  show "construct_plan ex_assigned (requests_at ex_assigned [0]) = Inr ex_plan"
    using ex_construct by (simp add: ex_assigned_def ex_sched_def ex_base_def)
qed simp_all

text \<open>C8: A plan keeps every request inside its limits: the step count is 1, 2, 4 or 8, at
  most the configured maximum and the number of tokens each request may still generate;
  position plus steps fits the resident capacity; every request is eligible, and its token
  counts agree.\<close>

theorem plan_within_budget:
  assumes "make_resident_epoch_plan out s = (Inr (Some p, rejection), s')" and "alloc_inv s"
    and "map_of (so_num_scheduled_tokens out) k = Some n" and "map_of (bs_requests (sc_base s)) k = Some q"
  shows "let r = bs_heap (sc_base s) q in
    n = 1 \<and> request_rejection_reason r = None \<and> vr_num_computed_tokens r = vr_num_tokens r
    \<and> pl_max_steps p \<in> {1, 2, 4, 8} \<and> pl_max_steps p \<le> cfg_max_steps (sc_config s)
    \<and> pl_max_steps p \<le> vr_max_tokens r - vr_num_output_tokens r
    \<and> vr_num_computed_tokens r - 1 + pl_max_steps p \<le> cfg_logical_capacity (sc_config s)"
proof -
  obtain refs where e: "plan_entries s' (requests_at s' refs) p"
    and r: "map_res (dict_item (bs_requests (sc_base s'))) (keys (so_num_scheduled_tokens out)) = Inr refs"
    by (rule make_plan_entries [OF assms(1)])
  have frame: "sc_base s' = sc_base s" "sc_config s' = sc_config s"
    using make_plan_frame [OF assms(2,1)] by (simp_all add: same_frame_def)
  have "k \<in> set (keys (so_num_scheduled_tokens out))" using assms(3) by (rule dict_get_Some_keys)
  from map_res_image [OF r this] assms(4) frame have q: "q \<in> set refs" by (auto simp: dict_item_Inr)
  then have in_requests: "bs_heap (sc_base s) q \<in> set (requests_at s' refs)" using frame by simp
  have "schedule_rejection s out = None" by (rule make_plan_assigned [OF assms(1)])
  moreover have "n \<in> set (map snd (so_num_scheduled_tokens out))" using map_of_SomeD [OF assms(3)] by force
  ultimately have "n = 1" by (auto simp: schedule_rejection_def Let_def split: if_splits)
  moreover obtain e' where "entry_of s' (pl_max_steps p) (bs_heap (sc_base s) q) e'"
    using e in_requests unfolding plan_entries_def by (metis in_set_conv_nth list_all2_conv_all_nth)
  then have "vr_num_computed_tokens (bs_heap (sc_base s) q) - 1 + pl_max_steps p \<le> cfg_logical_capacity (sc_config s)"
    using frame by (simp add: entry_of_def)
  moreover have "pl_max_steps p \<in> {1, 2, 4, 8}" "pl_max_steps p \<le> cfg_max_steps (sc_config s)"
    using e frame unfolding plan_entries_def by metis+
  moreover have "request_rejection_reason (bs_heap (sc_base s) q) = None"
    "pl_max_steps p \<le> vr_max_tokens (bs_heap (sc_base s) q) - vr_num_output_tokens (bs_heap (sc_base s) q)"
    "vr_num_computed_tokens (bs_heap (sc_base s) q) = vr_num_tokens (bs_heap (sc_base s) q)"
    using e in_requests unfolding plan_entries_def by metis+
  ultimately show ?thesis by (simp only: Let_def simp_thms)
qed

theorem plan_within_budget_witness:
  "pl_max_steps ex_plan \<le> 9 \<and> 3 + pl_max_steps ex_plan \<le> 16"
proof -
  have "map_of (so_num_scheduled_tokens ex_out) ''a'' = Some 1" by (simp add: ex_out_def)
  moreover have "map_of (bs_requests (sc_base ex_sched)) ''a'' = Some 0" by (simp add: ex_sched_def ex_base_def)
  ultimately show ?thesis
    using plan_within_budget [OF ex_make_plan ex_alloc_inv(1), of "''a''" 1 0]
    by (simp add: Let_def ex_sched_def ex_base_def ex_request_def ex_config_def)
qed

text \<open>C9: Assigning rows keeps the row table consistent, also when it raises; a request that
  stays scheduled keeps its row and its generation, and every other generation in the table
  is a new one. Device ownership survives exactly for the requests that stay scheduled.\<close>

theorem rows_sticky_and_fresh:
  assumes "alloc_inv s" and "assign_resident_rows req_ids s = (res, s')"
  shows "alloc_inv s' \<and> sc_device_owned s' = sc_device_owned s \<inter> set req_ids
    \<and> (\<forall>k row g. map_of (sc_rows s) k = Some row \<and> map_of (sc_generations s) k = Some g \<and> k \<in> set req_ids \<longrightarrow>
          map_of (sc_rows s') k = Some row \<and> map_of (sc_generations s') k = Some g)
    \<and> (\<forall>k g. map_of (sc_generations s') k = Some g \<longrightarrow>
          map_of (sc_generations s) k = Some g \<and> k \<in> set req_ids \<or> sc_next_generation s \<le> g)"
  using assign_rows_took(1) [OF assms] assign_rows_owned [OF assms] assign_rows_sticky [OF assms]
    assign_rows_fresh [OF assms] by blast

theorem rows_sticky_and_fresh_witness:
  "\<exists>res s'. assign_resident_rows [''b'', ''a''] ex_assigned = (res, s') \<and> alloc_inv s'
    \<and> map_of (sc_rows s') ''a'' = Some 0 \<and> map_of (sc_generations s') ''a'' = Some 1"
proof -
  obtain res s' where "assign_resident_rows [''b'', ''a''] ex_assigned = (res, s')" by fastforce
  with rows_sticky_and_fresh [OF ex_assigned_inv this] show ?thesis
    by (simp add: ex_assigned_def)
qed

text \<open>C10: The row allocator never runs out: for every batch the scheduler admits (at most
  \<open>max_batch_size\<close> requests), as long as generations remain, every request gets a row and
  the table then holds exactly the batch.\<close>

theorem admitted_batch_gets_rows:
  assumes "alloc_inv s" and "int (length req_ids) \<le> cfg_max_batch_size (sc_config s)"
    and "sc_next_generation s + int (length req_ids) \<le> 2 ^ 31"
  shows "\<exists>s'. assign_resident_rows req_ids s = (Inr (), s') \<and> set (keys (sc_rows s')) = set req_ids"
proof -
  obtain s' where s': "assign_resident_rows req_ids s = (Inr (), s')"
    using assign_rows_succeed [OF assms] by blast
  with assign_rows_keys [OF assms(1) s'] show ?thesis by blast
qed

theorem admitted_batch_gets_rows_witness:
  "\<exists>s'. assign_resident_rows [''b'', ''c'', ''d'', ''e''] ex_assigned = (Inr (), s')
     \<and> set (keys (sc_rows s')) = {''b'', ''c'', ''d'', ''e''}"
  using admitted_batch_gets_rows [OF ex_assigned_inv, of "[''b'', ''c'', ''d'', ''e'']"]
  by (simp add: ex_assigned_def ex_sched_def ex_config_def default_config_def)

text \<open>C5: Accounting is all or nothing: when it raises, for whatever reason, no token count
  and no ownership has changed.\<close>

theorem accounting_all_or_nothing:
  assumes "apply_resident_epoch_accounting out ro p r s = (Inl e, s')"
  shows "s' = s"
  using assms by (rule accounting_atomic)

definition ex_bad_result :: epoch_result where
  "ex_bad_result = ex_result\<lparr>er_model_calls := 1\<rparr>"

lemma ex_sampled: "sampled_by_req ex_output ex_plan = Inr [(''a'', [11, 2])]"
  by code_simp

theorem accounting_all_or_nothing_witness:
  "\<exists>e. apply_resident_epoch_accounting ex_out ex_output ex_plan ex_bad_result ex_planned = (Inl e, ex_planned)"
proof -
  have "isl (validate_against ex_bad_result ex_plan [(''a'', [11, 2])])" by code_simp
  then obtain e s' where "apply_resident_epoch_accounting ex_out ex_output ex_plan ex_bad_result ex_planned = (Inl e, s')"
    by (auto simp: apply_resident_epoch_accounting_def ex_sampled isl_def)
  with accounting_all_or_nothing [OF this] show ?thesis by blast
qed

text \<open>C4: Accounting advances every request of the epoch by its computed steps less the
  tokens vLLM accounts for itself, and touches no other request.\<close>

theorem accounting_advances_exactly:
  assumes "apply_resident_epoch_accounting out ro p r s = (Inr (), s')"
    and "requests_keyed (sc_base s)" and "distinct (keys (er_computed_steps r))"
  shows "(\<forall>k steps scheduled q. map_of (er_computed_steps r) k = Some steps
        \<and> map_of (so_num_scheduled_tokens out) k = Some scheduled \<and> map_of (bs_requests (sc_base s)) k = Some q \<longrightarrow>
        scheduled \<le> steps
        \<and> bs_heap (sc_base s') q = (bs_heap (sc_base s) q)\<lparr>vr_num_computed_tokens :=
             vr_num_computed_tokens (bs_heap (sc_base s) q) + (steps - scheduled)\<rparr>)
    \<and> (\<forall>q. (\<forall>k \<in> set (keys (er_computed_steps r)). map_of (bs_requests (sc_base s)) k \<noteq> Some q) \<longrightarrow>
          bs_heap (sc_base s') q = bs_heap (sc_base s) q)"
proof -
  obtain sampled extras b where
    extras: "map_res (extra_steps (sc_base s) out sampled) (er_computed_steps r) = Inr extras"
    and adv: "advance_requests extras (sc_base s) = (Inr (), b)" and s': "sc_base s' = b"
    using accounting_ok [OF assms(1)] by (metis (no_types, lifting) sched.ext_inject sched.surjective sched.update_convs(1,8))
  note keys = extra_steps_keys [OF extras]
  have entry: "(k, steps - scheduled) \<in> set extras \<and> scheduled \<le> steps"
    if "map_of (er_computed_steps r) k = Some steps" "map_of (so_num_scheduled_tokens out) k = Some scheduled" for k steps scheduled
  proof -
    from map_res_image [OF extras map_of_SomeD [OF that(1)]] obtain y where
      "y \<in> set extras" "extra_steps (sc_base s) out sampled (k, steps) = Inr y" by blast
    with that(2) show ?thesis
      by (auto simp: extra_steps_def rbind_Inr_iff dict_item_Inr Let_def split: if_splits)
  qed
  have "bs_heap b q = (bs_heap (sc_base s) q)\<lparr>vr_num_computed_tokens :=
      vr_num_computed_tokens (bs_heap (sc_base s) q) + (steps - scheduled)\<rparr>"
    if "map_of (er_computed_steps r) k = Some steps" "map_of (so_num_scheduled_tokens out) k = Some scheduled"
      "map_of (bs_requests (sc_base s)) k = Some q" for k steps scheduled q
    by (rule advance_requests_value [OF adv assms(2)])
      (use entry [OF that(1,2)] that(3) assms(3) keys in auto)
  moreover have "bs_heap b q = bs_heap (sc_base s) q"
    if "\<forall>k \<in> set (keys (er_computed_steps r)). map_of (bs_requests (sc_base s)) k \<noteq> Some q" for q
  proof (rule advance_requests_other [OF adv])
    fix k n assume "(k, n) \<in> set extras"
    then have "k \<in> set (keys extras)" by force
    with that keys show "map_of (bs_requests (sc_base s)) k \<noteq> Some q" by metis
  qed
  ultimately show ?thesis using entry s' by blast
qed


lemma ex_accounting:
  "apply_resident_epoch_accounting ex_out ex_output ex_plan ex_result ex_planned =
     (Inr (), ex_planned\<lparr>sc_base := ex_base\<lparr>bs_heap := (bs_heap ex_base)(0 := (ex_request ''a'')\<lparr>vr_num_computed_tokens := 5\<rparr>)\<rparr>,
        sc_device_owned := {''a''}\<rparr>)"
proof -
  have valid: "validate_against ex_result ex_plan [(''a'', [11, 2])] = Inr ()" by code_simp
  have extras: "map_res (extra_steps ex_base ex_out [(''a'', [11, 2])]) (er_computed_steps ex_result) = Inr [(''a'', 1)]"
    by code_simp
  have adv: "advance_requests [(''a'', 1)] ex_base =
      (Inr (), ex_base\<lparr>bs_heap := (bs_heap ex_base)(0 := (ex_request ''a'')\<lparr>vr_num_computed_tokens := 5\<rparr>)\<rparr>)"
    by (simp add: dict_item_def ex_base_def ex_request_def)
  have base: "sc_base ex_planned = ex_base" "sc_device_owned ex_planned = {}" "on_device ex_result"
    "host_owned_ids ex_plan = [''a'']"
    by (simp_all add: ex_planned_def ex_assigned_def ex_sched_def on_device_def ex_result_def make_result_def
        host_owned_ids_def ex_plan_def ex_entry_def)
  show ?thesis
    by (simp add: apply_resident_epoch_accounting_def ex_sampled valid base extras adv del: advance_requests.simps)
qed

lemma ex_planned_base: "sc_base ex_planned = ex_base" "requests_keyed ex_base" "alloc_inv ex_planned"
proof -
  show "sc_base ex_planned = ex_base" by (simp add: ex_planned_def ex_assigned_def ex_sched_def)
  show "requests_keyed ex_base" using ex_alloc_inv(3) by (simp add: ex_sched_def)
  show "alloc_inv ex_planned"
    by (rule alloc_inv_cong [OF ex_assigned_inv]) (simp_all add: ex_planned_def)
qed

theorem accounting_advances_exactly_witness:
  "\<exists>s'. apply_resident_epoch_accounting ex_out ex_output ex_plan ex_result ex_planned = (Inr (), s')
     \<and> vr_num_computed_tokens (bs_heap (sc_base s') 0) = 4 + (2 - 1)"
proof -
  have steps: "er_computed_steps ex_result = [(''a'', 2)]" by (simp add: ex_result_def make_result_def)
  then have "distinct (keys (er_computed_steps ex_result))" by simp
  from accounting_advances_exactly [OF ex_accounting _ this, THEN conjunct1, rule_format, of "''a''" 2 1 0] ex_planned_base
  have "bs_heap (sc_base (ex_planned\<lparr>sc_base := ex_base\<lparr>bs_heap := (bs_heap ex_base)(0 := (ex_request ''a'')\<lparr>vr_num_computed_tokens := 5\<rparr>)\<rparr>,
        sc_device_owned := {''a''}\<rparr>)) 0 = (bs_heap ex_base 0)\<lparr>vr_num_computed_tokens :=
      vr_num_computed_tokens (bs_heap ex_base 0) + (2 - 1)\<rparr>"
    by (simp add: steps ex_out_def) (simp add: ex_base_def)
  with ex_accounting show ?thesis by (auto simp: ex_base_def ex_request_def)
qed

text \<open>While Host work is isolated, the Device lane is left alone: whatever vLLM
  schedules, the paused requests are back at the front of the running queue, the request
  limit is restored, no plan is made, no paused request is scheduled, and every row,
  generation and owner is as before.\<close>

lemma isolation_keeps_device_lane:
  assumes "keeps_ids super_schedule" and "schedule super_schedule s = (Inr out, s')"
    and "host_isolation_reason s (device_running_refs s) = Some reason"
  shows "take (length (device_running_refs s)) (bs_running (sc_base s')) = device_running_refs s
    \<and> bs_max_num_running_reqs (sc_base s') = bs_max_num_running_reqs (sc_base s)
    \<and> sc_rows s' = sc_rows s \<and> sc_generations s' = sc_generations s
    \<and> sc_device_owned s' = sc_device_owned s \<and> sc_next_generation s' = sc_next_generation s
    \<and> sc_last_plan s' = None \<and> sc_last_rejection s' = Some reason
    \<and> (\<forall>q \<in> set (device_running_refs s). vr_request_id (bs_heap (sc_base s) q) \<notin> set (keys (so_num_scheduled_tokens out)))"
proof -
  have lane: "make_resident_epoch_plan out0 s1 = (res, s2) \<Longrightarrow> s2 = s1 \<and> (\<exists>reason. res = Inr (None, Some reason))"
    if iso: "schedule_with_host_isolation super_schedule s = (Inr (out0, paused, why), s1)" for out0 paused why s1 res s2
  proof (erule make_plan_host_lane)
    note facts = isolation_paused [OF iso assms(3)]
    obtain q where q: "q \<in> set (device_running_refs s)"
      using assms(3) by (cases "device_running_refs s") (auto simp: host_isolation_reason_def)
    have "vr_request_id (bs_heap (sc_base s1) q) = vr_request_id (bs_heap (sc_base s) q)"
      using isolation_ids [OF assms(1) iso] by simp
    moreover have "q \<in> set (bs_running (sc_base s1))" using facts(1) q by (metis in_set_takeD)
    ultimately have "vr_request_id (bs_heap (sc_base s) q) \<in> set (map vr_request_id (requests_at s1 (bs_running (sc_base s1))))"
      unfolding set_map by (metis imageI)
    with facts(4) q show "set (map vr_request_id (requests_at s1 (bs_running (sc_base s1)))) \<noteq> set (keys (so_num_scheduled_tokens out0))"
      by blast
  qed
  from assms(2) show ?thesis
  proof (cases rule: schedule_cases)
    case (host out' paused why s1 s2 rejection)
    note facts = isolation_paused [OF host(2) assms(3)]
    have "s2 = s1" using lane [OF host(2,3)] by simp
    with host facts isolation_restores [OF host(2)] show ?thesis by auto
  next
    case (device out' why s1 s2 p rejection)
    with lane [OF device(2,3)] show ?thesis by simp
  qed simp_all
qed


text \<open>A Device-owned request runs and a prompt waits for admission.\<close>

definition iso_sched :: sched where
  "iso_sched = ex_assigned\<lparr>sc_device_owned := {''a''},
     sc_base := ex_base\<lparr>bs_heap := (\<lambda>q. if q = 0 then ex_request ''a'' else ex_request ''b''),
       bs_requests := [(''a'', 0), (''b'', 1)], bs_waiting := [1]\<rparr>\<rparr>"

definition iso_super :: base_schedule where
  "iso_super b = (Inr (ex_out\<lparr>so_num_scheduled_tokens := [(''b'', 3)]\<rparr>),
     b\<lparr>bs_running := bs_running b @ [1], bs_waiting := []\<rparr>)"

lemma iso_facts:
  "device_running_refs iso_sched = [0]"
  "host_isolation_reason iso_sched (device_running_refs iso_sched) = Some ''host-prefill-admission''"
  by (simp_all add: device_running_refs_def host_isolation_reason_def iso_sched_def ex_assigned_def ex_sched_def
      ex_base_def ex_request_def)

lemma iso_schedule: "\<exists>out s'. schedule iso_super iso_sched = (Inr out, s')"
proof -
  let ?s1 = "iso_sched\<lparr>sc_base := (sc_base iso_sched)\<lparr>bs_running := [0, 1], bs_waiting := []\<rparr>\<rparr>"
  let ?out = "ex_out\<lparr>so_num_scheduled_tokens := [(''b'', 3)]\<rparr>"
  have lane: "schedule_with_host_isolation iso_super iso_sched = (Inr (?out, [''a''], Some ''host-prefill-admission''), ?s1)"
    unfolding schedule_with_host_isolation_def Let_def iso_facts(1) iso_facts(2) [unfolded iso_facts(1)]
    by (simp add: iso_super_def) (simp add: iso_sched_def ex_assigned_def ex_sched_def ex_base_def ex_request_def)
  have "set (map vr_request_id (requests_at ?s1 (bs_running (sc_base ?s1)))) \<noteq> set (keys (so_num_scheduled_tokens ?out))"
    by (simp add: iso_sched_def ex_request_def)
  then obtain why where "make_resident_epoch_plan ?out ?s1 = (Inr (None, Some why), ?s1)"
    using make_plan_host_lane [of ?out ?s1 "fst (make_resident_epoch_plan ?out ?s1)" "snd (make_resident_epoch_plan ?out ?s1)"]
    by (metis prod.collapse)
  moreover have "bs_num_lookahead_tokens (sc_base iso_sched) = 0" "sc_device_owned ?s1 = {''a''}"
    by (simp_all add: iso_sched_def ex_base_def)
  ultimately show ?thesis
    by (simp add: schedule_def lane Let_def)
qed

theorem isolation_keeps_device_lane_witness:
  "\<exists>out s'. schedule iso_super iso_sched = (Inr out, s') \<and> hd (bs_running (sc_base s')) = 0
    \<and> sc_device_owned s' = {''a''} \<and> map_of (sc_generations s') ''a'' = Some 1"
proof -
  have keeps: "keeps_ids iso_super" by (simp add: keeps_ids_def iso_super_def)
  obtain out s' where run: "schedule iso_super iso_sched = (Inr out, s')" using iso_schedule by blast
  from isolation_keeps_device_lane [OF keeps this iso_facts(2)]
  have "take 1 (bs_running (sc_base s')) = [0]" "sc_device_owned s' = {''a''}" "map_of (sc_generations s') ''a'' = Some 1"
    by (simp_all add: iso_facts(1)) (simp_all add: iso_sched_def ex_assigned_def)
  with run show ?thesis by (cases "bs_running (sc_base s')") auto
qed


text \<open>The base scheduler after it took over the two tokens of the epoch.\<close>

definition ex_next_base :: base_sched where
  "ex_next_base = ex_base\<lparr>bs_heap := (\<lambda>q. (ex_request ''a'')\<lparr>vr_num_output_tokens := 3,
     vr_num_computed_tokens := 6, vr_num_tokens := 6, vr_all_token_ids := [5, 6, 7, 8, 11, 2]\<rparr>)\<rparr>"

definition ex_owned :: sched where
  "ex_owned = ex_planned\<lparr>sc_base := ex_next_base, sc_device_owned := {''a''}\<rparr>"

definition ex_next_entry :: epoch_request where
  "ex_next_entry = ex_entry\<lparr>rq_token_id := 2, rq_position := 5, rq_sequence_length := 6,
     rq_state_owner := ''device'', rq_kv_import_required := False\<rparr>"

lemma ex_next_plan: "make_resident_epoch_plan ex_out ex_owned =
    (Inr (Some (ex_plan\<lparr>pl_max_steps := 4, pl_requests := [ex_next_entry]\<rparr>), None), ex_owned)"
proof -
  let ?p = "ex_plan\<lparr>pl_max_steps := 4, pl_requests := [ex_next_entry]\<rparr>"
  have "schedule_rejection ex_owned ex_out = None" by code_simp
  moreover have "assign_resident_rows [''a''] ex_owned = (Inr (), ex_owned)"
    by (simp add: assign_resident_rows_def ex_owned_def ex_planned_def ex_assigned_def)
  moreover have "construct_plan ex_owned [bs_heap ex_next_base 0] = Inr ?p" by code_simp
  moreover have "plan_validate ?p = Inr ()" by code_simp
  moreover have "map_res (dict_item (bs_requests (sc_base ex_owned))) [''a''] = Inr [0]" by code_simp
  moreover have "requests_at ex_owned [0] = [bs_heap ex_next_base 0]" by (simp add: ex_owned_def)
  ultimately show ?thesis
    by (simp add: make_resident_epoch_plan_def ex_out_def plan_outcome_def raising_def)
qed


end
