(* ===== verification/KvSnapshot.thy ===== *)
theory KvSnapshot
  imports KvRows
begin

text \<open>
  The snapshot of \<open>kv_transfer.py\<close>: where each block lies in the payload, that a snapshot
  of a valid plan on caches in the expected layout is always captured, and that its file is
  replaced as a whole or not at all.
\<close>

section \<open>The layout of the payload\<close>

definition layer_blocks :: "epoch_request list \<Rightarrow> kv_tensor \<Rightarrow> byte list list" where
  "layer_blocks qs t = map (\<lambda>row. block_bytes (row_block qs t row)) [0..<GRAPH_BATCH_SIZE]"

definition cache_blocks :: "epoch_request list \<Rightarrow> kv_tensor list \<Rightarrow> byte list list" where
  "cache_blocks qs ts = concat (map (layer_blocks qs) ts)"

text \<open>The payload of a snapshot of the key caches \<open>ks\<close> and the value caches \<open>vs\<close>.\<close>

definition payload_of :: "epoch_request list \<Rightarrow> kv_tensor list \<Rightarrow> kv_tensor list \<Rightarrow> byte list" where
  "payload_of qs ks vs = concat (cache_blocks qs ks @ cache_blocks qs vs)"

lemma block_bytes_length: "m1_block t \<Longrightarrow> length (block_bytes t) = BLOCK_BYTES"
proof -
  assume "m1_block t"
  then have "length (concat (map word_bytes (bt_words t))) = BLOCK_ELEMENTS * 2"
    by (subst concat_same_length [where n = 2]) (auto simp: m1_block_def word_bytes_def)
  then show ?thesis by (simp add: block_bytes_def BLOCK_BYTES_def ELEMENT_BYTES_def)
qed

lemma concat_nth:
  assumes "\<forall>x \<in> set xss. length x = n" and "i < length xss" and "j < n"
  shows "concat xss ! (i * n + j) = xss ! i ! j"
proof -
  have "concat xss ! (i * n + j) = take n (drop (i * n) (concat xss)) ! j"
    using assms concat_same_length [OF assms(1)] by (subst nth_take) (auto simp: nth_drop add.commute)
  also have "\<dots> = xss ! i ! j" by (simp only: concat_slice [OF assms(1,2)])
  finally show ?thesis .
qed

lemma cache_blocks_nth:
  assumes "layer < length ts" and "row < 4"
  shows "cache_blocks qs ts ! (layer * 4 + row) = block_bytes (row_block qs (ts ! layer) row)"
  using assms concat_nth [of "map (layer_blocks qs) ts" 4 layer row]
  by (simp add: cache_blocks_def layer_blocks_def GRAPH_BATCH_SIZE_def)

lemma cache_blocks_length [simp]: "length (cache_blocks qs ts) = length ts * 4"
  unfolding cache_blocks_def by (subst concat_same_length [where n = 4]) (auto simp: layer_blocks_def GRAPH_BATCH_SIZE_def)

lemma cache_blocks_sizes:
  "\<forall>t \<in> set ts. \<forall>q \<in> set qs. has_block t q \<Longrightarrow> b \<in> set (cache_blocks qs ts) \<Longrightarrow> length b = BLOCK_BYTES"
  by (auto simp: cache_blocks_def layer_blocks_def intro!: block_bytes_length row_block_m1)

lemma payload_length:
  assumes "\<forall>t \<in> set (ks @ vs). \<forall>q \<in> set qs. has_block t q" and "length ks = 28" and "length vs = 28"
  shows "length (payload_of qs ks vs) = PAYLOAD_BYTES"
proof -
  have "\<forall>b \<in> set (cache_blocks qs ks @ cache_blocks qs vs). length b = BLOCK_BYTES"
    using assms(1) cache_blocks_sizes [of ks qs] cache_blocks_sizes [of vs qs] by auto
  then have "length (payload_of qs ks vs) = length (cache_blocks qs ks @ cache_blocks qs vs) * BLOCK_BYTES"
    unfolding payload_of_def by (rule concat_same_length)
  with assms(2,3) show ?thesis by (simp add: BLOCK_BYTES_def kv_sizes)
qed

text \<open>The block of a cache, a layer and a row is where the checksum and the reader look for it.\<close>

lemma payload_block:
  assumes sized: "\<forall>t \<in> set (ks @ vs). \<forall>q \<in> set qs. has_block t q" and len: "length ks = 28" "length vs = 28"
    and "cache < 2" and "layer < 28" and "row < 4"
  shows "slice (block_offset cache layer row) BLOCK_BYTES (payload_of qs ks vs) =
    block_bytes (row_block qs ((if cache = 0 then ks else vs) ! layer) row)"
proof -
  let ?all = "cache_blocks qs ks @ cache_blocks qs vs"
  let ?i = "cache * 112 + (layer * 4 + row)"
  have sizes: "\<forall>b \<in> set ?all. length b = BLOCK_BYTES"
    using sized cache_blocks_sizes [of ks qs] cache_blocks_sizes [of vs qs] by auto
  have i: "?i < length ?all" using assms by (cases cache) auto
  have "block_offset cache layer row = ?i * BLOCK_BYTES"
    by (simp add: block_offset_def CACHE_BYTES_def GRAPH_BATCH_SIZE_def LAYERS_def algebra_simps)
  then have "slice (block_offset cache layer row) BLOCK_BYTES (payload_of qs ks vs) = ?all ! ?i"
    unfolding slice_def payload_of_def using concat_slice [OF sizes i] by simp
  also have "\<dots> = cache_blocks qs (if cache = 0 then ks else vs) ! (layer * 4 + row)"
  proof (cases "cache = 0")
    case True
    then show ?thesis using assms by (simp add: nth_append)
  next
    case False
    then have "cache = 1" using \<open>cache < 2\<close> by simp
    then show ?thesis using assms by (simp add: nth_append)
  qed
  finally show ?thesis
    using assms by (simp add: cache_blocks_nth)
qed

section \<open>Capturing\<close>

text \<open>
  The worker's caches are in the layout the snapshot expects, and hold the block of every
  importing row: \<open>ks\<close> and \<open>vs\<close> are the key and value caches by layer.
\<close>

definition caches_ready :: "kv_worker \<Rightarrow> epoch_request list \<Rightarrow> kv_tensor list \<Rightarrow> kv_tensor list \<Rightarrow> bool" where
  "caches_ready w qs ks vs \<longleftrightarrow> length ks = 28 \<and> length vs = 28
     \<and> kw_caches w = Some (map2 KVPair ks vs)
     \<and> (\<forall>t \<in> set (ks @ vs). \<forall>q \<in> set qs. has_block t q)"

lemma capture_layers:
  assumes "rows_ok qs" and "\<forall>t \<in> set (ks @ vs). \<forall>q \<in> set qs. has_block t q" and "length ks = length vs"
  shows "map_res (capture_layer stack (fold (\<lambda>q. AList.update (rq_row q) q) qs [])) (map2 KVPair ks vs) =
    Inr (map2 (\<lambda>k v. (stack (map (row_block qs k) [0..<GRAPH_BATCH_SIZE]),
      stack (map (row_block qs v) [0..<GRAPH_BATCH_SIZE]))) ks vs)"
  using assms(3,2)
proof (induction ks vs rule: list_induct2)
  case Nil
  show ?case by simp
next
  case (Cons k ks v vs)
  have "capture_layer stack (fold (\<lambda>q. AList.update (rq_row q) q) qs []) (KVPair k v) =
      Inr (stack (map (row_block qs k) [0..<GRAPH_BATCH_SIZE]), stack (map (row_block qs v) [0..<GRAPH_BATCH_SIZE]))"
    using capture_rows [OF assms(1), of k v] Cons.prems by (simp add: capture_layer_def comp_def)
  with Cons show ?case by simp
qed

lemma block_bytes_concat:
  "bt_words t = concat (map bt_words ts) \<Longrightarrow> block_bytes t = concat (map block_bytes ts)"
proof -
  have "concat (map word_bytes (concat (map bt_words ts))) = concat (map block_bytes ts)"
    by (induction ts) (auto simp: block_bytes_def)
  then show "bt_words t = concat (map bt_words ts) \<Longrightarrow> block_bytes t = concat (map block_bytes ts)"
    by (simp add: block_bytes_def)
qed

lemma stack_bytes:
  assumes "stack_law stack" and "ts \<noteq> []" and "\<forall>t \<in> set ts. bt_dtype t = ''torch.bfloat16''"
  shows "bt_dtype (stack ts) = ''torch.bfloat16'' \<and> block_bytes (stack ts) = concat (map block_bytes ts)"
  using assms block_bytes_concat unfolding stack_law_def by blast

lemma stacked_cache:
  assumes law: "stack_law stack" and sized: "\<forall>t \<in> set ts. \<forall>q \<in> set qs. has_block t q" and "ts \<noteq> []"
  shows "tensor_bytes (stack (map (\<lambda>t. stack (map (row_block qs t) [0..<GRAPH_BATCH_SIZE])) ts)) =
    Inr (concat (cache_blocks qs ts))"
proof -
  have layer: "bt_dtype (stack (map (row_block qs t) [0..<GRAPH_BATCH_SIZE])) = ''torch.bfloat16''
      \<and> block_bytes (stack (map (row_block qs t) [0..<GRAPH_BATCH_SIZE])) = concat (layer_blocks qs t)"
    if "t \<in> set ts" for t
  proof -
    have "\<forall>b \<in> set (map (row_block qs t) [0..<GRAPH_BATCH_SIZE]). bt_dtype b = ''torch.bfloat16''"
      using sized that row_block_m1 [of qs t] by (auto simp: m1_block_def)
    from stack_bytes [OF law _ this] show ?thesis
      by (simp add: layer_blocks_def comp_def GRAPH_BATCH_SIZE_def)
  qed
  then have "\<forall>b \<in> set (map (\<lambda>t. stack (map (row_block qs t) [0..<GRAPH_BATCH_SIZE])) ts). bt_dtype b = ''torch.bfloat16''"
    by auto
  from stack_bytes [OF law _ this] assms(3) have
    "bt_dtype (stack (map (\<lambda>t. stack (map (row_block qs t) [0..<GRAPH_BATCH_SIZE])) ts)) = ''torch.bfloat16''"
    "block_bytes (stack (map (\<lambda>t. stack (map (row_block qs t) [0..<GRAPH_BATCH_SIZE])) ts)) =
      concat (map (\<lambda>t. block_bytes (stack (map (row_block qs t) [0..<GRAPH_BATCH_SIZE]))) ts)"
    by (auto simp: comp_def)
  moreover have "concat (map (\<lambda>t. block_bytes (stack (map (row_block qs t) [0..<GRAPH_BATCH_SIZE]))) ts) =
      concat (cache_blocks qs ts)"
    using layer unfolding cache_blocks_def by (induction ts) auto
  ultimately show ?thesis by (simp add: tensor_bytes_def)
qed

lemma imported_generations:
  assumes "plan_wf p" and "row < 4"
  shows "if row_selected (rows_mask (importing p)) row then 0 < by_rows rq_generation (importing p) ! row
    else by_rows rq_generation (importing p) ! row = 0"
proof (cases "int row \<in> rq_row ` set (importing p)")
  case True
  then obtain q where q: "q \<in> set (importing p)" and row: "rq_row q = int row" by auto
  have "by_rows rq_generation (importing p) ! nat (rq_row q) = rq_generation q"
    by (rule overlay_row [OF importing_rows_ok [OF assms(1)] q]) simp
  moreover have "0 < rq_generation q" using q assms(1) by (auto simp: importing_def plan_wf_def)
  ultimately show ?thesis
    using True row rows_mask_selected [OF importing_rows_ok [OF assms(1)]] by simp
next
  case False
  have "[0, 0, 0, 0 :: int] ! row = 0"
    using assms(2) by (auto simp: nth_Cons' less_Suc_eq numeral_eq_Suc)
  with False show ?thesis
    using assms(2) overlay_other [OF False, of "[0, 0, 0, 0]"] rows_mask_selected [OF importing_rows_ok [OF assms(1)]]
    by simp
qed

text \<open>Capturing never fails on caches in the expected layout, and copies the right bytes.\<close>

lemma capture_snapshot_value:
  assumes wf: "plan_wf p" and some: "importing p \<noteq> []" and cap: "pl_logical_capacity p \<le> 128"
    and ready: "caches_ready w (importing p) ks vs" and law: "stack_law stack" and rand: "0 \<le> rand"
  shows "\<exists>s. capture_kv_snapshot stack rand p w = Inr s \<and> snapshot_wf s
    \<and> sn_import_mask s = rows_mask (importing p) \<and> sn_row_generations s = by_rows rq_generation (importing p)
    \<and> sn_payload s = payload_of (importing p) ks vs"
proof -
  let ?qs = "importing p" and ?payload = "payload_of (importing p) ks vs"
  have rows: "rows_ok ?qs" using wf by (rule importing_rows_ok)
  have len: "length ks = 28" "length vs = 28" and caches: "kw_caches w = Some (map2 KVPair ks vs)"
    and sized: "\<forall>t \<in> set (ks @ vs). \<forall>q \<in> set ?qs. has_block t q"
    using ready by (auto simp: caches_ready_def)
  obtain shifts where shifts: "map_res (\<lambda>q. shift_one (rq_row q)) ?qs = Inr shifts" and sum: "sum_list shifts = rows_mask ?qs"
    using shifts_sum [OF rows] by blast
  let ?layers = "map2 (\<lambda>k v. (stack (map (row_block ?qs k) [0..<GRAPH_BATCH_SIZE]),
      stack (map (row_block ?qs v) [0..<GRAPH_BATCH_SIZE]))) ks vs"
  have proj: "map fst ?layers = map (\<lambda>t. stack (map (row_block ?qs t) [0..<GRAPH_BATCH_SIZE])) ks"
    "map snd ?layers = map (\<lambda>t. stack (map (row_block ?qs t) [0..<GRAPH_BATCH_SIZE])) vs"
    using len by (auto intro!: nth_equalityI)
  have bytes: "tensor_bytes (stack (map fst ?layers)) = Inr (concat (cache_blocks ?qs ks))"
    "tensor_bytes (stack (map snd ?layers)) = Inr (concat (cache_blocks ?qs vs))"
    unfolding proj using sized len by (auto intro!: stacked_cache [OF law])
  then obtain layers where layers: "map_res (capture_layer stack (fold (\<lambda>q. AList.update (rq_row q) q) ?qs []))
        (map2 KVPair ks vs) = Inr layers"
    and key: "tensor_bytes (stack (map fst layers)) = Inr (concat (cache_blocks ?qs ks))"
    and val: "tensor_bytes (stack (map snd layers)) = Inr (concat (cache_blocks ?qs vs))"
    using capture_layers [OF rows sized, of stack] len by simp
  have gens: "fold_res set_generation ?qs (replicate GRAPH_BATCH_SIZE 0) = Inr (by_rows rq_generation ?qs)"
    using set_generations [OF rows, of "[0, 0, 0, 0]"] by (simp add: GRAPH_BATCH_SIZE_def numeral_eq_Suc)
  have payload: "concat (cache_blocks ?qs ks) @ concat (cache_blocks ?qs vs) = ?payload"
    by (simp add: payload_of_def)
  have size: "length ?payload = PAYLOAD_BYTES" by (rule payload_length [OF sized len])
  define s where "s = \<lparr>sn_transfer_id = nonzero_id rand, sn_import_mask = rows_mask ?qs,
      sn_row_generations = by_rows rq_generation ?qs, sn_payload = ?payload,
      sn_checksum = int (adler32 (selected_bytes ?payload (rows_mask ?qs)) 1)\<rparr>"
  have matches: "mask_matches (rows_mask ?qs) (by_rows rq_generation ?qs)"
    using rows_mask_range [OF rows some] imported_generations [OF wf] by (simp add: mask_matches_def)
  have s_wf: "snapshot_wf s"
    using matches rand size by (simp add: s_def snapshot_wf_def nonzero_id_def)
  then have valid: "snapshot_validate s = Inr ()" by (simp add: snapshot_validate_iff)
  have "capture_kv_snapshot stack rand p w = Inr s"
    using some cap caches len
    by (simp add: capture_kv_snapshot_def Let_def BLOCK_SIZE_def LAYERS_def layers key val
        gens shifts sum payload checksum_selected [OF size] s_def [symmetric] valid del: One_nat_def)
  with s_wf show ?thesis by (simp add: s_def)
qed


section \<open>The snapshot file\<close>

text \<open>
  Files are a map from absolute paths to contents. A fault is an \<open>OSError\<close> raised by one of
  the system calls; a failing write leaves a prefix of what was to be written. The function
  returns every state of the files it goes through, first to last, so that a crash at any
  point is one of them. \<open>resolve\<close> is \<open>Path(path).resolve()\<close>.
\<close>

type_synonym files = "string \<rightharpoonup> byte list"

datatype io_fault = NoFault | MkdirFails | OpenFails | WriteFails nat | SyncFails | ReplaceFails

definition starts_with :: "string \<Rightarrow> string \<Rightarrow> bool" where
  "starts_with pre s \<longleftrightarrow> take (length pre) s = pre"

text \<open>The part of a path up to its last slash, and the part after it.\<close>

definition path_parent :: "string \<Rightarrow> string" where
  "path_parent s = rev (dropWhile (\<lambda>c. c \<noteq> CHR ''/'') (rev s))"

definition path_name :: "string \<Rightarrow> string" where
  "path_name s = rev (takeWhile (\<lambda>c. c \<noteq> CHR ''/'') (rev s))"

definition temporary_path :: "string \<Rightarrow> int \<Rightarrow> int \<Rightarrow> string" where
  "temporary_path destination pid transfer_id =
     path_parent destination @ ''.'' @ path_name destination @ ''.tmp-'' @ int_str pid @ ''-'' @ int_str transfer_id"

definition snapshot_header_values :: "kv_snapshot \<Rightarrow> int list" where
  "snapshot_header_values s =
     [TRANSFER_MAGIC, TRANSFER_VERSION, int TRANSFER_HEADER_BYTES, sn_transfer_id s,
      int (length (sn_payload s)), sn_import_mask s] @ sn_row_generations s
     @ [int LAYERS, int GRAPH_BATCH_SIZE, int BLOCK_SIZE, int NUM_KV_HEADS, int HEAD_SIZE,
        int ELEMENT_BYTES, sn_checksum s]"

text \<open>The \<open>try ... finally\<close> block, with the states in order.\<close>

definition write_and_replace ::
  "io_fault \<Rightarrow> string \<Rightarrow> string \<Rightarrow> byte list \<Rightarrow> files \<Rightarrow> (exn + unit) \<times> files list" where
  "write_and_replace fault temporary destination content fs =
     (let raised = Inl (OSError ''I/O error''); written = fs(temporary \<mapsto> content) in
      case fault of
        OpenFails \<Rightarrow> (raised, [fs, fs(temporary := None)])
      | WriteFails n \<Rightarrow>
          (raised, [fs, fs(temporary \<mapsto> []), fs(temporary \<mapsto> take n content), fs(temporary := None)])
      | SyncFails \<Rightarrow> (raised, [fs, fs(temporary \<mapsto> []), written, fs(temporary := None)])
      | ReplaceFails \<Rightarrow> (raised, [fs, fs(temporary \<mapsto> []), written, fs(temporary := None)])
      | _ \<Rightarrow>
          (let replaced = (written(temporary := None))(destination \<mapsto> content) in
           (Inr (), [fs, fs(temporary \<mapsto> []), written, replaced, replaced(temporary := None)])))"

definition write_kv_snapshot ::
  "(string \<Rightarrow> string) \<Rightarrow> int \<Rightarrow> io_fault \<Rightarrow> string \<Rightarrow> kv_snapshot \<Rightarrow> files \<Rightarrow> (exn + unit) \<times> files list" where
  "write_kv_snapshot resolve pid fault path snapshot fs =
     (case snapshot_validate snapshot of
        Inl e \<Rightarrow> (Inl e, [fs])
      | Inr _ \<Rightarrow>
          (let destination = resolve path in
           if \<not> starts_with ''/dev/shm/'' destination then
             (Inl (ValueError ''KV transfer files must be under /dev/shm''), [fs])
           else if fault = MkdirFails then (Inl (OSError ''I/O error''), [fs])
           else (let temporary = temporary_path destination pid (sn_transfer_id snapshot) in
           (case pack HEADER (snapshot_header_values snapshot) of
              Inl e \<Rightarrow> (Inl e, [fs])
            | Inr header \<Rightarrow>
                (if fs temporary \<noteq> None then
                   (Inl (RuntimeError (''stale KV transfer temporary file exists: '' @ temporary)), [fs])
                 else write_and_replace fault temporary destination (header @ sn_payload snapshot) fs)))))"

section \<open>The file is replaced as a whole\<close>

lemma path_parts: "path_parent s @ path_name s = s"
  unfolding path_parent_def path_name_def by (simp flip: rev_append)

lemma temporary_differs: "temporary_path d pid i \<noteq> d"
proof
  assume "temporary_path d pid i = d"
  then have "length (temporary_path d pid i) = length (path_parent d @ path_name d)" by (simp add: path_parts)
  then show False by (simp add: temporary_path_def)
qed

definition snapshot_content :: "kv_snapshot \<Rightarrow> byte list \<Rightarrow> bool" where
  "snapshot_content s content \<longleftrightarrow> snapshot_wf s \<and>
     (\<exists>header. pack HEADER (snapshot_header_values s) = Inr header \<and> content = header @ sn_payload s)"

lemma write_and_replace_states:
  assumes "write_and_replace fault temporary destination content fs = (res, states)"
    and "temporary \<noteq> destination" and "fs temporary = None" and "state \<in> set states"
  shows "state destination = fs destination \<or> state destination = Some content"
    and "other \<noteq> temporary \<Longrightarrow> other \<noteq> destination \<Longrightarrow> state other = fs other"
  using assms by (auto simp: write_and_replace_def Let_def split: io_fault.splits)

lemma write_and_replace_end:
  assumes "write_and_replace fault temporary destination content fs = (res, states)"
    and "temporary \<noteq> destination" and "fs temporary = None"
  shows "last states = (if res = Inr () then fs(destination \<mapsto> content) else fs)"
  using assms by (auto simp: write_and_replace_def Let_def fun_eq_iff split: io_fault.splits)

lemma write_snapshot_cases:
  assumes "write_kv_snapshot resolve pid fault path s fs = (res, states)"
  obtains (rejected) e where "res = Inl e" "states = [fs]"
  | (written) content where "snapshot_content s content" "starts_with ''/dev/shm/'' (resolve path)"
      "fs (temporary_path (resolve path) pid (sn_transfer_id s)) = None"
      "write_and_replace fault (temporary_path (resolve path) pid (sn_transfer_id s)) (resolve path) content fs = (res, states)"
proof (cases "snapshot_validate s")
  case (Inl e)
  with assms show thesis by (intro rejected [of e]) (auto simp: write_kv_snapshot_def)
next
  case (Inr u)
  then have wf: "snapshot_wf s" by (simp add: snapshot_validate_iff [symmetric])
  show thesis
  proof (cases "pack HEADER (snapshot_header_values s)")
    case (Inl e)
    show thesis
    proof (cases "res")
      case (Inl e')
      with assms Inr \<open>pack HEADER (snapshot_header_values s) = Inl e\<close> show thesis
        by (intro rejected [of e']) (auto simp: write_kv_snapshot_def Let_def split: if_splits)
    next
      case (Inr u')
      with assms \<open>snapshot_validate s = Inr u\<close> \<open>pack HEADER (snapshot_header_values s) = Inl e\<close> show thesis
        by (auto simp: write_kv_snapshot_def Let_def split: if_splits)
    qed
  next
    case header: (Inr header)
    show thesis
    proof (cases "starts_with ''/dev/shm/'' (resolve path) \<and> fault \<noteq> MkdirFails
        \<and> fs (temporary_path (resolve path) pid (sn_transfer_id s)) = None")
      case True
      with assms Inr header wf show thesis
        by (intro written [of "header @ sn_payload s"]) (auto simp: write_kv_snapshot_def Let_def snapshot_content_def)
    next
      case False
      with assms Inr header rejected show thesis
        by (auto simp: write_kv_snapshot_def Let_def split: if_splits)
    qed
  qed
qed

lemma snapshot_content_reads:
  assumes "snapshot_content s content"
  shows "unpack HEADER (take 80 content) = Inr (snapshot_header_values s)" and "drop 80 content = sn_payload s"
proof -
  obtain header where header: "pack HEADER (snapshot_header_values s) = Inr header" "content = header @ sn_payload s"
    using assms by (auto simp: snapshot_content_def)
  have "length header = 80" using snapshot_header.packed_size [OF header(1)] by (simp add: TRANSFER_HEADER_BYTES_def)
  with header show "unpack HEADER (take 80 content) = Inr (snapshot_header_values s)" "drop 80 content = sn_payload s"
    using snapshot_header.roundtrip by auto
qed

lemma no_execution_write [simp]: "no_execution (fst (write_kv_snapshot resolve pid fault path s fs))"
  using no_execution_snapshot [of s] no_execution_pack [of HEADER "snapshot_header_values s"]
  by (auto simp: write_kv_snapshot_def write_and_replace_def no_execution_def Let_def split: sum.split io_fault.split)

end
