(* ===== verification/KvProps.thy ===== *)
theory KvProps
  imports KvSnapshot
begin

text \<open>
  The properties of the KV transfers: what a valid device transfer guarantees, its wire
  format, the checksum, the snapshot and its file, and the life of the exported keys.
\<close>

section \<open>Device transfers\<close>


text \<open>C13: The IPC metadata of a transfer is always 4088 bytes; unpacking its header gives the
  transfer's mask, size, generations, blocks and offsets, and cutting its key slots gives
  the keys.\<close>

theorem ipc_metadata_roundtrip:
  assumes "wire_bytes t = Inr bs" and "\<forall>key \<in> set (dt_keys t). \<forall>c \<in> set key. c \<noteq> CHR 0x00"
  shows "length bs = 4088 \<and> unpack IPC_METADATA_HEADER (take 504 bs) = Inr (transfer_header t)
    \<and> map slot_key (key_slots bs) = dt_keys t"
  using wire_bytes_length [OF assms(1)] wire_bytes_header [OF assms(1)] wire_bytes_keys [OF assms] by blast

definition ipc_example :: device_transfer where
  "ipc_example =
     \<lparr>dt_transfer_id = 5, dt_import_mask = 1, dt_row_generations = [9, 0, 0, 0], dt_block_ids = [3, 0, 0, 0],
      dt_source_bytes = 1048576, dt_source_offsets = replicate 56 0, dt_keys = replicate 56 ''key''\<rparr>"

lemma less_4: "(i :: nat) < 4 \<longleftrightarrow> i = 0 \<or> i = 1 \<or> i = 2 \<or> i = 3"
  by auto

lemma ipc_example_wf: "transfer_wf ipc_example"
proof -
  have "device_row_wf ipc_example row" if "row < 4" for row
    using that
    by (auto simp: less_4 device_row_wf_def ipc_example_def row_selected_bit bit_1_iff BLOCK_BYTES_def kv_sizes)
  moreover have "key_fits ''key''" by (simp add: key_fits_def)
  ultimately show ?thesis by (auto simp: transfer_wf_def ipc_example_def)
qed

theorem ipc_metadata_roundtrip_witness:
  "\<exists>bs. wire_bytes ipc_example = Inr bs \<and> length bs = 4088 \<and> map slot_key (key_slots bs) = replicate 56 ''key''"
proof -
  have "list_all2 fld_fits IPC_METADATA_HEADER (transfer_header ipc_example)" by code_simp
  then obtain bs where bs: "wire_bytes ipc_example = Inr bs"
    using wire_bytes_exists [OF ipc_example_wf] by blast
  moreover have "\<forall>key \<in> set (dt_keys ipc_example). \<forall>c \<in> set key. c \<noteq> CHR 0x00"
    by (simp add: ipc_example_def)
  ultimately have "length bs = 4088" "map slot_key (key_slots bs) = dt_keys ipc_example"
    using ipc_metadata_roundtrip by blast+
  with bs show ?thesis by (simp add: ipc_example_def)
qed

section \<open>The checksum\<close>

text \<open>The payload checksum is the Adler-32 of the selected blocks laid end to end, keys
  before values; nothing outside the selected rows can change it.\<close>

lemma checksum_covers_selected_blocks:
  assumes "length payload = PAYLOAD_BYTES" and "length payload' = PAYLOAD_BYTES"
    and "\<forall>off \<in> set (selected_offsets m). slice off BLOCK_BYTES payload = slice off BLOCK_BYTES payload'"
  shows "kv_payload_checksum payload m = Inr (int (adler32 (selected_bytes payload m) 1))
    \<and> kv_payload_checksum payload' m = kv_payload_checksum payload m"
proof -
  have "selected_bytes payload m = selected_bytes payload' m"
    using assms(3) by (simp add: selected_bytes_def cong: map_cong)
  then show ?thesis by (simp add: checksum_selected assms(1,2))
qed

lemma selected_offsets_iff:
  "off \<in> set (selected_offsets m) \<longleftrightarrow>
     (\<exists>cache < 2. \<exists>layer < 28. \<exists>row \<in> set (selected_rows m). off = block_offset cache layer row)"
proof -
  have "set (selected_offsets m) = (\<Union>cache \<in> {..<2}. \<Union>layer \<in> {..<28}. block_offset cache layer ` set (selected_rows m))"
    by (simp add: selected_offsets_def LAYERS_def lessThan_Suc numeral_2_eq_2 Un_commute atLeast0LessThan)
  then show ?thesis by (simp only: UN_iff lessThan_iff image_iff bex_simps) blast
qed

lemma slice_replicate: "off + n \<le> k \<Longrightarrow> slice off n (replicate k x @ ys) = replicate n x"
  by (simp add: slice_def)

text \<open>Changing the last byte of the payload, which belongs to the unselected row 3.\<close>

theorem checksum_covers_selected_blocks_witness:
  "kv_payload_checksum (replicate (PAYLOAD_BYTES - 1) 0 @ [1]) 1 = kv_payload_checksum (replicate PAYLOAD_BYTES 0) 1"
proof -
  have size: "PAYLOAD_BYTES = 29360128" "BLOCK_BYTES = 131072" by (simp_all add: kv_sizes BLOCK_BYTES_def)
  have "off + BLOCK_BYTES \<le> PAYLOAD_BYTES - 1" if "off \<in> set (selected_offsets 1)" for off
  proof -
    from that obtain cache layer row where "cache < 2" "layer < 28" "row \<in> set (selected_rows 1)"
      and off: "off = block_offset cache layer row"
      unfolding selected_offsets_iff by blast
    moreover have "row = 0" using \<open>row \<in> set (selected_rows 1)\<close>
      by (auto simp: selected_rows_def row_selected_bit bit_1_iff)
    ultimately have "off = (cache * 112 + layer * 4) * BLOCK_BYTES" "cache \<le> 1" "layer \<le> 27"
      by (auto simp: block_offset_def CACHE_BYTES_def LAYERS_def GRAPH_BATCH_SIZE_def algebra_simps size)
    then have "off \<le> (112 + 108) * BLOCK_BYTES" by (simp add: size)
    then show ?thesis by (simp add: size)
  qed
  then have "\<forall>off \<in> set (selected_offsets 1). slice off BLOCK_BYTES (replicate PAYLOAD_BYTES 0 :: byte list) =
      slice off BLOCK_BYTES (replicate (PAYLOAD_BYTES - 1) 0 @ [1])"
    using slice_replicate [of _ BLOCK_BYTES PAYLOAD_BYTES "0 :: byte" "[]"] by (fastforce simp: slice_replicate)
  then show ?thesis
    using checksum_covers_selected_blocks [of "replicate PAYLOAD_BYTES 0" "replicate (PAYLOAD_BYTES - 1) 0 @ [1]" 1]
    by (simp add: size)
qed

section \<open>Snapshots\<close>


text \<open>A worker whose caches hold eight blocks of zeros, and a plan that imports block 7 at row 2.\<close>

definition zero_cache :: kv_tensor where
  "zero_cache =
     \<lparr>kt_dtype = ''torch.bfloat16'', kt_contiguous = True, kt_data_ptr = 4096, kt_numel = 524288,
      kt_element_size = 2, kt_storage_ptr = 4096, kt_storage_bytes = 1048576, kt_storage_offset = 0,
      kt_blocks = replicate 8 zero_row\<rparr>"

definition snapshot_worker :: kv_worker where
  "snapshot_worker =
     \<lparr>kw_caches = Some (map2 KVPair (replicate 28 zero_cache) (replicate 28 zero_cache)),
      kw_exports = None, kw_calls = []\<rparr>"

definition snapshot_plan :: epoch_plan where
  "snapshot_plan =
     \<lparr>pl_version = 3, pl_graph_batch_size = 4, pl_max_steps = 4, pl_logical_capacity = 16,
      pl_requests =
        [\<lparr>rq_id = ''x'', rq_row = 2, rq_generation = 5, rq_token_id = 8, rq_position = 3,
          rq_sequence_length = 4, rq_eos_token_id = 2, rq_scheduler_block_ids = [7],
          rq_device_block_ids = (4, 5), rq_state_owner = ''host'', rq_kv_import_required = True\<rparr>],
      pl_active_mask = [0, 0, 1, 0], pl_sampling_mode = 0, pl_graph_variant = 0\<rparr>"

definition concat_stack :: torch_stack where
  "concat_stack ts =
     \<lparr>bt_dtype = (if \<forall>t \<in> set ts. bt_dtype t = ''torch.bfloat16'' then ''torch.bfloat16'' else ''torch.float32''),
      bt_shape = [], bt_words = concat (map bt_words ts)\<rparr>"

lemma concat_stack_law: "stack_law concat_stack"
  by (auto simp: stack_law_def concat_stack_def)

lemma snapshot_plan_facts:
  "plan_wf snapshot_plan" "importing snapshot_plan = pl_requests snapshot_plan"
proof -
  show "plan_wf snapshot_plan" unfolding plan_validate_iff_wf [symmetric] by code_simp
  show "importing snapshot_plan = pl_requests snapshot_plan" by (simp add: importing_def snapshot_plan_def)
qed

lemma snapshot_ready:
  "caches_ready snapshot_worker (importing snapshot_plan) (replicate 28 zero_cache) (replicate 28 zero_cache)"
  unfolding snapshot_plan_facts(2) using zero_row_m1
  by (simp add: caches_ready_def snapshot_worker_def snapshot_plan_def has_block_def one_block_def zero_cache_def)



definition zero_snapshot :: kv_snapshot where
  "zero_snapshot =
     \<lparr>sn_transfer_id = 5, sn_import_mask = 1, sn_row_generations = [9, 0, 0, 0],
      sn_payload = replicate PAYLOAD_BYTES 0,
      sn_checksum = int (adler32 (selected_bytes (replicate PAYLOAD_BYTES 0) 1) 1)\<rparr>"

lemma zero_snapshot_wf: "snapshot_wf zero_snapshot"
  by (auto simp: snapshot_wf_def zero_snapshot_def mask_matches_def less_4 row_selected_bit bit_1_iff)

lemma replicate_small: "replicate 4 x = [x, x, x, x]" "replicate 7 x = [x, x, x, x, x, x, x]"
  by (simp_all add: numeral_eq_Suc)

lemma zero_snapshot_packs: "\<exists>header. pack HEADER (snapshot_header_values zero_snapshot) = Inr header"
proof -
  have "adler32 (selected_bytes (replicate PAYLOAD_BYTES 0) 1) 1 < 2 ^ 32"
    by (rule adler_state_bound) (rule adler32_state [OF adler_state_one])
  then have "int (adler32 (selected_bytes (replicate PAYLOAD_BYTES 0) 1) 1) < int (2 ^ 32)"
    by (simp only: of_nat_less_iff)
  then have "fld_fits U32 (sn_checksum zero_snapshot)" by (simp add: zero_snapshot_def fld_fits_def)
  then show ?thesis
    unfolding pack_fits HEADER_def snapshot_header_values_def replicate_small
    by (simp add: zero_snapshot_def fld_fits_def TRANSFER_MAGIC_def TRANSFER_VERSION_def TRANSFER_HEADER_BYTES_def
        kv_sizes)
qed


section \<open>Exported keys\<close>


definition bf16_cache :: "int \<Rightarrow> kv_tensor" where
  "bf16_cache ptr =
     \<lparr>kt_dtype = ''torch.bfloat16'', kt_contiguous = True, kt_data_ptr = ptr + 2, kt_numel = 2,
      kt_element_size = 2, kt_storage_ptr = ptr + 2, kt_storage_bytes = 4, kt_storage_offset = 0,
      kt_blocks = []\<rparr>"

text \<open>A runtime whose allocations are eight bytes each, and that exports the first keys it is asked for.\<close>

definition slab_api :: address_range where
  "slab_api = Some (\<lambda>p. (p - p mod 8, 8, 0))"

definition slab_acl :: "int \<Rightarrow> export_api" where
  "slab_acl limit calls ptr bytes =
     (if int (length calls) < limit then (PStr (if ptr = 8 then ''key-8'' else ''key-16''), 0) else (PNone, 5))"

definition fresh_worker :: kv_worker where
  "fresh_worker = \<lparr>kw_caches = None, kw_exports = None, kw_calls = []\<rparr>"


text \<open>C17: A failing export leaks nothing: every key it opened before the failure is closed again.\<close>

theorem failed_export_leaks_nothing:
  assumes "get_device_kv_exports api acl kv_caches w = (Inl e, w')"
  shows "open_keys (kw_calls w') \<subseteq> open_keys (kw_calls w)"
  by (rule get_exports_failed(1) [OF assms])

theorem failed_export_leaks_nothing_witness:
  "\<exists>e w'. get_device_kv_exports slab_api (slab_acl 1) [KVPair (bf16_cache 8) (bf16_cache 16)] fresh_worker = (Inl e, w')
     \<and> length (kw_calls w') = 3 \<and> open_keys (kw_calls w') = {}"
proof -
  let ?run = "get_device_kv_exports slab_api (slab_acl 1) [KVPair (bf16_cache 8) (bf16_cache 16)] fresh_worker"
  have "(case ?run of (Inl e, w') \<Rightarrow> length (kw_calls w') = 3 | _ \<Rightarrow> False)"
    by code_simp
  then obtain e w' where run: "?run = (Inl e, w')" and calls: "length (kw_calls w') = 3"
    by (auto split: prod.splits sum.splits)
  with failed_export_leaks_nothing [OF run] show ?thesis
    by (auto simp: fresh_worker_def open_keys_def)
qed

definition reexport_worker :: kv_worker where
  "reexport_worker =
     snd (get_device_kv_exports slab_api (slab_acl 9) [KVPair (bf16_cache 8) (bf16_cache 8)] fresh_worker)"

definition stale_worker :: kv_worker where
  "stale_worker =
     snd (get_device_kv_exports slab_api (slab_acl 1) [KVPair (bf16_cache 16) (bf16_cache 16)] reexport_worker)"

text \<open>A failing re-export, though, keeps the old table as the worker's cached one while its
  keys are closed: after one, a call with the old tensors returns the cached table, none of
  whose keys is open.\<close>

lemma failed_reexport_returns_closed_keys:
  "exports_open reexport_worker \<and> (\<exists>t. kw_exports stale_worker = Some t
     \<and> get_device_kv_exports slab_api (slab_acl 9) [KVPair (bf16_cache 8) (bf16_cache 8)] stale_worker
         = (Inr t, stale_worker)
     \<and> set (et_keys t) \<inter> open_keys (kw_calls stale_worker) = {} \<and> et_keys t \<noteq> [])"
proof -
  define t where "t = \<lparr>et_signature = replicate 2 (10, 4, 8, 8, 2), et_source_bytes = 8,
    et_source_offsets = [2, 2], et_keys = [''key-8'', ''key-8'']\<rparr>"
  have first: "reexport_worker = \<lparr>kw_caches = None, kw_exports = Some t,
      kw_calls = [ExportCall 8 8 (PStr ''key-8'') 0]\<rparr>"
    unfolding t_def by code_simp
  have stale: "stale_worker = \<lparr>kw_caches = None, kw_exports = Some t,
      kw_calls = [ExportCall 8 8 (PStr ''key-8'') 0, CloseCall ''key-8'', ExportCall 16 8 PNone 5]\<rparr>"
    unfolding t_def by code_simp
  have again: "get_device_kv_exports slab_api (slab_acl 9) [KVPair (bf16_cache 8) (bf16_cache 8)] stale_worker
      = (Inr t, stale_worker)"
    unfolding t_def by code_simp
  have "exports_open reexport_worker" by (simp add: first exports_open_def t_def open_keys_def)
  moreover have "open_keys (kw_calls stale_worker) = {}" by (simp add: stale open_keys_def)
  ultimately show ?thesis using again by (simp add: stale t_def)
qed

text \<open>C15: A captured device transfer is valid and describes exactly the plan's importing rows:
  its mask, its generations and its block ids are those of the importing requests at their
  rows and zero elsewhere, and its keys are those of the worker's export table.\<close>

theorem device_transfer_describes_imports:
  assumes "capture_kv_device_transfer api acl rand p w = (Inr t, w')" and "plan_wf p"
  shows "transfer_validate t = Inr ()
    \<and> (\<forall>row < 4. row_selected (dt_import_mask t) row \<longleftrightarrow> (\<exists>q \<in> set (importing p). rq_row q = int row))
    \<and> (\<forall>q \<in> set (importing p). dt_row_generations t ! nat (rq_row q) = rq_generation q
          \<and> [dt_block_ids t ! nat (rq_row q)] = rq_scheduler_block_ids q)
    \<and> (\<exists>table. kw_exports w' = Some table \<and> dt_keys t = et_keys table)"
proof -
  note facts = capture_device_facts [OF assms]
  have rows: "rows_ok (importing p)" by (rule importing_rows_ok [OF assms(2)])
  have "row_selected (dt_import_mask t) row \<longleftrightarrow> (\<exists>q \<in> set (importing p). rq_row q = int row)" for row
    using facts rows_mask_selected [OF rows] by (simp add: image_iff eq_commute [of "int row"])
  moreover have "dt_row_generations t ! nat (rq_row q) = rq_generation q \<and> [dt_block_ids t ! nat (rq_row q)] = rq_scheduler_block_ids q"
    if "q \<in> set (importing p)" for q
  proof -
    have "one_block q" using facts that by blast
    then have "[block_of q] = rq_scheduler_block_ids q"
      by (cases "rq_scheduler_block_ids q") (auto simp: one_block_def)
    then show ?thesis
      using facts overlay_row [OF rows that, of "[0, 0, 0, 0]" rq_generation] overlay_row [OF rows that, of "[0, 0, 0, 0]" block_of]
      by simp
  qed
  moreover obtain table where "kw_exports w' = Some table" "dt_keys t = et_keys table"
    using facts get_exports_table by metis
  ultimately show ?thesis using facts by (simp add: transfer_validate_iff)
qed

text \<open>A worker whose 56 caches lie in one allocation of eight blocks.\<close>

definition device_cache :: kv_tensor where
  "device_cache =
     \<lparr>kt_dtype = ''torch.bfloat16'', kt_contiguous = True, kt_data_ptr = 8, kt_numel = 524288,
      kt_element_size = 2, kt_storage_ptr = 8, kt_storage_bytes = 1048576, kt_storage_offset = 0,
      kt_blocks = []\<rparr>"

definition device_worker :: kv_worker where
  "device_worker =
     \<lparr>kw_caches = Some (replicate 28 (KVPair device_cache device_cache)), kw_exports = None, kw_calls = []\<rparr>"

definition one_allocation :: address_range where
  "one_allocation = Some (\<lambda>p. (8, 1048576, 0))"

definition device_table :: export_table where
  "device_table =
     \<lparr>et_signature = replicate 56 (8, 1048576, 8, 1048576, 0), et_source_bytes = 1048576,
      et_source_offsets = replicate 56 0, et_keys = replicate 56 ''key-8''\<rparr>"

definition device_example :: device_transfer where
  "device_example =
     \<lparr>dt_transfer_id = 1, dt_import_mask = 4, dt_row_generations = [0, 0, 5, 0], dt_block_ids = [0, 0, 7, 0],
      dt_source_bytes = 1048576, dt_source_offsets = replicate 56 0, dt_keys = replicate 56 ''key-8''\<rparr>"

lemma device_example_wf: "transfer_wf device_example"
proof -
  have "push_bit 2 (1 :: int) = 4" by (simp add: push_bit_eq_mult)
  then have "bit (4 :: int) row \<longleftrightarrow> row = 2" for row
    using bit_push_one [of 2 row] by metis
  then have "device_row_wf device_example row" if "row < 4" for row
    using that unfolding less_4
    by (elim disjE) (simp_all add: device_row_wf_def device_example_def row_selected_bit BLOCK_BYTES_def kv_sizes)
  moreover have "key_fits ''key-8''" by (simp add: key_fits_def)
  ultimately show ?thesis by (auto simp: transfer_wf_def device_example_def)
qed

theorem device_transfer_describes_imports_witness:
  "\<exists>w'. capture_kv_device_transfer one_allocation (slab_acl 1) 0 snapshot_plan device_worker = (Inr device_example, w')
    \<and> (\<forall>q \<in> set (importing snapshot_plan). dt_row_generations device_example ! nat (rq_row q) = rq_generation q)"
proof -
  have "(case get_device_kv_exports one_allocation (slab_acl 1) (replicate 28 (KVPair device_cache device_cache)) device_worker of
      (Inr t, w') \<Rightarrow> t = device_table | _ \<Rightarrow> False)" by code_simp
  then obtain w' where exports: "get_device_kv_exports one_allocation (slab_acl 1)
      (replicate 28 (KVPair device_cache device_cache)) device_worker = (Inr device_table, w')"
    by (auto split: prod.splits sum.splits)
  have loop: "fold_res describe_row (importing snapshot_plan) (replicate GRAPH_BATCH_SIZE 0, replicate GRAPH_BATCH_SIZE 0, 0) =
      Inr ([0, 0, 7, 0], [0, 0, 5, 0], 4)" by code_simp
  have some: "importing snapshot_plan \<noteq> []"
    unfolding snapshot_plan_facts(2) by (simp add: snapshot_plan_def)
  have valid: "transfer_validate device_example = Inr ()"
    using device_example_wf by (simp add: transfer_validate_iff)
  have caches: "kw_caches device_worker = Some (replicate 28 (KVPair device_cache device_cache))"
    by (simp add: device_worker_def)
  have "capture_kv_device_transfer one_allocation (slab_acl 1) 0 snapshot_plan device_worker = (Inr device_example, w')"
    using valid some caches
    by (simp add: capture_kv_device_transfer_def LAYERS_def exports loop)
      (simp add: device_table_def device_example_def nonzero_id_def)
  with device_transfer_describes_imports [OF this snapshot_plan_facts(1)] show ?thesis by blast
qed

end
