(* ===== verification/Backend.thy ===== *)
theory Backend
  imports KvTransfer Scheduler
begin

text \<open>
  \<open>backend.py\<close>: what a native engine is, and the backend that runs it for a plan and turns
  its output into the runner output the scheduler accounts for. An engine is a record of
  its operations on a state of its own; an operation an engine may lack is optional.
\<close>

section \<open>Native outputs\<close>

record native_output =
  no_status :: int
  no_model_calls :: int
  no_token_ids :: "(string, int list) dict"
  no_row_generations :: "int list"
  no_commit_state :: commit_state
  no_feed_calls :: int
  no_fetch_calls :: int
  no_wall_us :: int
  no_native_cpu_us :: int
  no_declared_input_bytes :: int
  no_declared_output_bytes :: int
  no_socket_send_calls :: int
  no_socket_receive_calls :: int
  no_kv_imported :: bool
  no_kv_import_checksum :: int
  no_kv_transfer_mode :: string

text \<open>The constructor with the dataclass defaults.\<close>

definition make_native_output :: "int \<Rightarrow> int \<Rightarrow> (string, int list) dict \<Rightarrow> int list \<Rightarrow> native_output" where
  "make_native_output status model_calls token_ids row_generations =
     \<lparr>no_status = status, no_model_calls = model_calls, no_token_ids = token_ids,
      no_row_generations = row_generations, no_commit_state = COMMITTED, no_feed_calls = 1,
      no_fetch_calls = 1, no_wall_us = 0, no_native_cpu_us = 0, no_declared_input_bytes = 0,
      no_declared_output_bytes = 0, no_socket_send_calls = 1, no_socket_receive_calls = 1,
      no_kv_imported = False, no_kv_import_checksum = 0, no_kv_transfer_mode = ''none''\<rparr>"

record warmup_output =
  wo_status :: int
  wo_model_calls :: int
  wo_feed_calls :: int
  wo_fetch_calls :: int
  wo_wall_us :: int
  wo_commit_state :: commit_state
  wo_native_cpu_us :: int
  wo_declared_input_bytes :: int
  wo_declared_output_bytes :: int
  wo_socket_send_calls :: int
  wo_socket_receive_calls :: int

section \<open>Engines\<close>

text \<open>\<open>NativeEpochEngine\<close>, with the optional operations the backend looks up by name.\<close>

record 's engine =
  en_warm_up :: "'s \<Rightarrow> (exn + warmup_output) \<times> 's"
  en_execute :: "epoch_plan \<Rightarrow> 's \<Rightarrow> (exn + native_output) \<times> 's"
  en_execute_with_import :: "(epoch_plan \<Rightarrow> kv_snapshot \<Rightarrow> 's \<Rightarrow> (exn + native_output) \<times> 's) option"
  en_execute_with_device_transfer ::
    "(epoch_plan \<Rightarrow> device_transfer \<Rightarrow> 's \<Rightarrow> (exn + native_output) \<times> 's) option"
  en_close :: "('s \<Rightarrow> (exn + unit) \<times> 's) option"

section \<open>The backend\<close>

definition backend_warm_up :: "'s engine \<Rightarrow> 's \<Rightarrow> (exn + warmup_output) \<times> 's" where
  "backend_warm_up eng s =
     (case en_warm_up eng s of
        (Inl e, s') \<Rightarrow> (Inl e, s')
      | (Inr out, s') \<Rightarrow>
          (if wo_status out \<noteq> 0 then
             (Inl (RuntimeError (''native resident warmup returned '' @ int_str (wo_status out))), s')
           else if wo_model_calls out \<noteq> 1 \<or> wo_feed_calls out \<noteq> 1 \<or> wo_fetch_calls out \<noteq> 1
                   \<or> wo_commit_state out \<noteq> COMMITTED then
             (Inl (RuntimeError ''resident warmup must execute one complete decoder step''), s')
           else (Inr out, s')))"

definition backend_close :: "'s engine \<Rightarrow> 's \<Rightarrow> (exn + unit) \<times> 's" where
  "backend_close eng s = (case en_close eng of None \<Rightarrow> (Inr (), s) | Some f \<Rightarrow> f s)"

text \<open>The second \<open>try\<close>: the engine's own commit state is kept, any other exception proves nothing.\<close>

definition reclassify :: "exn \<Rightarrow> exn" where
  "reclassify e =
     (case e of
        ExecutionError m c st \<Rightarrow> e
      | _ \<Rightarrow> ExecutionError ''native resident epoch failed without commit-state proof'' EXECUTING None)"

definition call_engine ::
  "'s engine \<Rightarrow> epoch_plan \<Rightarrow> kv_snapshot option \<Rightarrow> device_transfer option \<Rightarrow> 's \<Rightarrow> (exn + native_output) \<times> 's" where
  "call_engine eng p snapshot transfer s =
     (case transfer of
        Some t \<Rightarrow>
          (case en_execute_with_device_transfer eng of
             None \<Rightarrow> (Inl (ExecutionError ''resident backend does not support direct Device KV transfer'' PREPARED None), s)
           | Some f \<Rightarrow> f p t s)
      | None \<Rightarrow>
          (case snapshot of
             None \<Rightarrow> en_execute eng p s
           | Some sn \<Rightarrow>
               (case en_execute_with_import eng of
                  None \<Rightarrow> (Inl (ExecutionError ''resident backend does not support KV import'' PREPARED None), s)
                | Some f \<Rightarrow> f p sn s)))"

definition native_result ::
  "epoch_plan \<Rightarrow> kv_snapshot option \<Rightarrow> device_transfer option \<Rightarrow> native_output \<Rightarrow> int list list \<Rightarrow> epoch_result" where
  "native_result p snapshot transfer out sampled =
     (make_result CONTRACT_VERSION ''device'' 0 (no_model_calls out)
        (zip (plan_req_ids p) (map (\<lambda>tokens. int (length tokens)) sampled)))
     \<lparr>er_row_generations := no_row_generations out, er_commit_state := no_commit_state out,
      er_feed_calls := no_feed_calls out, er_fetch_calls := no_fetch_calls out,
      er_wall_us := no_wall_us out, er_native_cpu_us := no_native_cpu_us out,
      er_declared_input_bytes := no_declared_input_bytes out,
      er_declared_output_bytes := no_declared_output_bytes out,
      er_socket_send_calls := no_socket_send_calls out,
      er_socket_receive_calls := no_socket_receive_calls out,
      er_kv_imported := no_kv_imported out, er_kv_import_checksum := no_kv_import_checksum out,
      er_kv_snapshot_checksum := (case snapshot of Some sn \<Rightarrow> sn_checksum sn | None \<Rightarrow> 0),
      er_kv_transfer_mode := (if transfer \<noteq> None then ''device_ipc''
        else if snapshot \<noteq> None then ''host_snapshot'' else ''none'')\<rparr>"

text \<open>Everything after the engine returned.\<close>

definition accept_output ::
  "epoch_plan \<Rightarrow> kv_snapshot option \<Rightarrow> device_transfer option \<Rightarrow> native_output \<Rightarrow> exn + runner_output" where
  "accept_output p snapshot transfer out =
     (if no_status out \<noteq> 0 then
        Inl (ExecutionError (''native resident epoch returned status '' @ int_str (no_status out))
          (no_commit_state out) (Some (no_status out)))
      else if no_commit_state out \<noteq> COMMITTED then
        Inl (ExecutionError ''successful native resident epoch was not committed'' (no_commit_state out) None)
      else if (\<exists>sn. snapshot = Some sn \<and> no_kv_import_checksum out \<noteq> sn_checksum sn) then
        Inl (ExecutionError ''resident KV import checksum disagrees with the Host snapshot'' COMMITTED None)
      else if transfer \<noteq> None \<and> no_kv_import_checksum out = 0 then
        Inl (ExecutionError ''direct Device KV transfer did not return an import checksum'' COMMITTED None)
      else if set (keys (no_token_ids out)) \<noteq> set (plan_req_ids p) then
        Inl (ExecutionError ''native resident epoch returned the wrong request set'' COMMITTED None)
      else let req_ids = plan_req_ids p in
      rbind (map_res (dict_item (no_token_ids out)) req_ids) (\<lambda>sampled.
        let result = native_result p snapshot transfer out sampled in
        case validate_against result p (zip req_ids sampled) of
          Inl e \<Rightarrow> Inl (ExecutionError (''committed resident epoch result is invalid: '' @ exn_str e) COMMITTED None)
        | Inr _ \<Rightarrow>
            Inr \<lparr>ro_req_ids = req_ids, ro_req_id_to_index = zip req_ids [0..<length req_ids],
                 ro_sampled_token_ids = sampled, ro_result = attach_result result\<rparr>))"

definition backend_execute ::
  "'s engine \<Rightarrow> epoch_plan \<Rightarrow> kv_snapshot option \<Rightarrow> device_transfer option \<Rightarrow> 's \<Rightarrow> (exn + runner_output) \<times> 's" where
  "backend_execute eng p snapshot transfer s =
     (if snapshot \<noteq> None \<and> transfer \<noteq> None then
        (Inl (ValueError ''resident epoch cannot use two KV transfer modes''), s)
      else (case plan_validate p of
        Inl e \<Rightarrow> (Inl (ExecutionError (''resident epoch plan validation failed: '' @ exn_str e) PREPARED None), s)
      | Inr _ \<Rightarrow>
          (case call_engine eng p snapshot transfer s of
             (Inl e, s') \<Rightarrow> (Inl (reclassify e), s')
           | (Inr out, s') \<Rightarrow> (accept_output p snapshot transfer out, s'))))"

text \<open>
  \<open>load_backend_from_env\<close>: \<open>factory\<close> imports the module, looks the factory up and calls
  it; the result is the engine's initial state.
\<close>

fun split_colon :: "string \<Rightarrow> (string \<times> string) option" where
  "split_colon [] = None"
| "split_colon (c # cs) =
     (if c = CHR '':'' then Some ([], cs) else map_option (\<lambda>(a, b). (c # a, b)) (split_colon cs))"

definition load_backend_from_env ::
  "(string, string) dict \<Rightarrow> (string \<Rightarrow> string \<Rightarrow> exn + 's) \<Rightarrow> exn + 's" where
  "load_backend_from_env env factory =
     (case map_of env ''VLLM_ASCEND_RESIDENT_EPOCH_BACKEND_FACTORY'' of
        None \<Rightarrow> Inl (RuntimeError ''VLLM_ASCEND_RESIDENT_EPOCH_BACKEND_FACTORY must name a module:factory for the native DataFlow backend'')
      | Some target \<Rightarrow>
          (case split_colon target of
             None \<Rightarrow> Inl (RuntimeError ''VLLM_ASCEND_RESIDENT_EPOCH_BACKEND_FACTORY must name a module:factory for the native DataFlow backend'')
           | Some (module_name, factory_name) \<Rightarrow> factory module_name factory_name))"

section \<open>What the backend returns and raises\<close>

lemma zip_keys: "length xs = length ys \<Longrightarrow> keys (zip xs ys) = xs"
  by simp

lemma map_of_zip_index:
  "distinct ids \<Longrightarrow> i < length ids \<Longrightarrow> length vs = length ids \<Longrightarrow> map_of (zip ids vs) (ids ! i) = Some (vs ! i)"
  by (simp add: map_of_zip_nth)

text \<open>The scheduler reads the sampled tokens back as the backend laid them out.\<close>

lemma sampled_by_req_zip:
  assumes "ro_req_id_to_index ro = zip (plan_req_ids p) [0..<length (plan_req_ids p)]"
    and "length (ro_sampled_token_ids ro) = length (plan_req_ids p)" and "distinct (plan_req_ids p)"
  shows "sampled_by_req ro p = Inr (zip (plan_req_ids p) (ro_sampled_token_ids ro))"
proof -
  let ?ids = "plan_req_ids p" and ?f = "\<lambda>req_id. rbind (dict_item (ro_req_id_to_index ro) req_id) (\<lambda>index.
      rbind (seq_item (ro_sampled_token_ids ro) (int index)) (\<lambda>tokens. Inr (req_id, tokens)))"
  have step: "?f (?ids ! i) = Inr (?ids ! i, ro_sampled_token_ids ro ! i)" if "i < length ?ids" for i
  proof -
    have "map_of (zip ?ids [0..<length ?ids]) (?ids ! i) = Some ([0..<length ?ids] ! i)"
      by (rule map_of_zip_index [OF assms(3) that]) simp
    then have "dict_item (ro_req_id_to_index ro) (?ids ! i) = Inr i"
      using that assms(1) by (simp add: dict_item_def)
    with that assms(2) show ?thesis by simp
  qed
  have "list_all2 (\<lambda>x y. ?f x = Inr y) ?ids (zip ?ids (ro_sampled_token_ids ro))"
    unfolding list_all2_conv_all_nth using step assms(2) by simp
  then show ?thesis unfolding sampled_by_req_def map_res_list_all2 .
qed

lemma case_unit_Inr:
  "(case r of Inl e \<Rightarrow> Inl (f e) | Inr _ \<Rightarrow> Inr x) = Inr y \<longleftrightarrow> (r :: 'e + unit) = Inr () \<and> x = y"
  by (cases r) auto

lemma accept_output_ok:
  assumes "accept_output p snapshot transfer out = Inr ro" and "distinct (plan_req_ids p)"
  obtains sampled where "map_res (dict_item (no_token_ids out)) (plan_req_ids p) = Inr sampled"
    "ro = \<lparr>ro_req_ids = plan_req_ids p, ro_req_id_to_index = zip (plan_req_ids p) [0..<length (plan_req_ids p)],
       ro_sampled_token_ids = sampled, ro_result = Attached (native_result p snapshot transfer out sampled)\<rparr>"
    "validate_against (native_result p snapshot transfer out sampled) p (zip (plan_req_ids p) sampled) = Inr ()"
    "no_status out = 0" "no_commit_state out = COMMITTED"
    "\<And>sn. snapshot = Some sn \<Longrightarrow> no_kv_import_checksum out = sn_checksum sn"
    "transfer \<noteq> None \<Longrightarrow> no_kv_import_checksum out \<noteq> 0"
  using assms(1)
  by (auto simp: accept_output_def Let_def rbind_Inr_iff case_unit_Inr attach_result_def split: if_splits)

lemma native_result_device [simp]: "on_device (native_result p snapshot transfer out sampled)"
  by (simp add: on_device_def native_result_def make_result_def)

lemma backend_execute_ok:
  assumes "backend_execute eng p snapshot transfer s = (Inr ro, s')"
  obtains out where "plan_wf p" "call_engine eng p snapshot transfer s = (Inr out, s')"
    "accept_output p snapshot transfer out = Inr ro" "snapshot = None \<or> transfer = None"
proof -
  from assms obtain u where "plan_validate p = Inr u" and modes: "snapshot = None \<or> transfer = None"
    by (auto simp: backend_execute_def split: if_splits sum.splits)
  moreover from this have "plan_wf p" by (simp add: plan_validate_iff_wf [symmetric])
  moreover obtain r s1 where call: "call_engine eng p snapshot transfer s = (r, s1)" by fastforce
  ultimately show thesis
    using assms that by (cases r) (auto simp: backend_execute_def split: if_splits)
qed

text \<open>What accounting needs of a runner output is what the backend has checked.\<close>

lemma backend_output_accepted:
  assumes "backend_execute eng p snapshot transfer s = (Inr ro, s')"
  shows "\<exists>r sampled. ro_result ro = Attached r \<and> on_device r \<and> sampled_by_req ro p = Inr sampled
    \<and> validate_against r p sampled = Inr () \<and> ro_req_ids ro = plan_req_ids p"
proof -
  obtain out where wf: "plan_wf p" and acc: "accept_output p snapshot transfer out = Inr ro"
    by (rule backend_execute_ok [OF assms])
  have dist: "distinct (plan_req_ids p)" using wf by (simp add: plan_wf_def)
  obtain sampled where sampled: "map_res (dict_item (no_token_ids out)) (plan_req_ids p) = Inr sampled"
    and ro: "ro = \<lparr>ro_req_ids = plan_req_ids p, ro_req_id_to_index = zip (plan_req_ids p) [0..<length (plan_req_ids p)],
       ro_sampled_token_ids = sampled, ro_result = Attached (native_result p snapshot transfer out sampled)\<rparr>"
    and valid: "validate_against (native_result p snapshot transfer out sampled) p (zip (plan_req_ids p) sampled) = Inr ()"
    by (rule accept_output_ok [OF acc dist])
  have "sampled_by_req ro p = Inr (zip (plan_req_ids p) sampled)"
    using sampled_by_req_zip [of ro p] map_res_length [OF sampled] dist by (simp add: ro)
  with valid show ?thesis by (simp add: ro)
qed

text \<open>Apart from the misuse of two transfer modes, every failure carries a commit state.\<close>

lemma reclassify_execution: "\<exists>m c st. reclassify e = ExecutionError m c st"
  by (cases e) (auto simp: reclassify_def)

lemma token_items_total:
  "set (keys (no_token_ids out)) = set (plan_req_ids p) \<Longrightarrow>
     \<exists>sampled. map_res (dict_item (no_token_ids out)) (plan_req_ids p) = Inr sampled"
proof (cases "map_res (dict_item (no_token_ids out)) (plan_req_ids p)")
  case (Inl e)
  then obtain k where "k \<in> set (plan_req_ids p)" "dict_item (no_token_ids out) k = Inl e"
    by (blast dest: map_res_Inl)
  moreover assume "set (keys (no_token_ids out)) = set (plan_req_ids p)"
  ultimately show ?thesis using dict_keysE [of k "no_token_ids out"] by (auto simp: dict_item_def)
qed simp

definition failure_state :: "native_output \<Rightarrow> exn \<Rightarrow> bool" where
  "failure_state out e \<longleftrightarrow>
     (case e of
        ExecutionError m c st \<Rightarrow>
          c = no_commit_state out \<and> (no_status out \<noteq> 0 \<or> c \<noteq> COMMITTED) \<or> c = COMMITTED \<and> st = None
      | _ \<Rightarrow> False)"

lemma accept_output_shape:
  "case accept_output p snapshot transfer out of Inl e \<Rightarrow> failure_state out e | Inr ro \<Rightarrow> True"
proof (cases "no_status out = 0 \<and> no_commit_state out = COMMITTED \<and> set (keys (no_token_ids out)) = set (plan_req_ids p)")
  case True
  then obtain sampled where "map_res (dict_item (no_token_ids out)) (plan_req_ids p) = Inr sampled"
    using token_items_total by blast
  with True show ?thesis
    by (simp add: accept_output_def Let_def) (simp add: failure_state_def split: sum.split)
next
  case False
  then show ?thesis by (auto simp: accept_output_def failure_state_def)
qed

lemma accept_output_error:
  "accept_output p snapshot transfer out = Inl e \<Longrightarrow> failure_state out e"
  using accept_output_shape [where p = p and snapshot = snapshot and transfer = transfer and out = out] by simp

text \<open>
  A loop over the requests that stores a bounded list of tokens for each gives a dictionary
  with exactly the plan's request ids.
\<close>

lemma dict_update_new: "k \<notin> set (keys d) \<Longrightarrow> AList.update k v d = d @ [(k, v)]"
  by (induction d) auto

lemma fold_updates:
  assumes "\<And>q d d'. q \<in> set qs \<Longrightarrow> step q d = Inr d' \<Longrightarrow>
      \<exists>tokens. d' = AList.update (rq_id q) tokens d \<and> int (length tokens) \<le> m"
    and "fold_res step qs d = Inr d'" and "distinct (map rq_id qs)" and "set (map rq_id qs) \<inter> set (keys d) = {}"
  shows "\<exists>new. d' = d @ new \<and> keys new = map rq_id qs \<and> (\<forall>(k, tokens) \<in> set new. int (length tokens) \<le> m)"
  using assms
proof (induction qs arbitrary: d)
  case Nil
  then show ?case by simp
next
  case (Cons q qs)
  from Cons.prems(2) obtain d1 where step: "step q d = Inr d1" and more: "fold_res step qs d1 = Inr d'"
    by (auto simp: rbind_Inr_iff)
  obtain tokens where d1: "d1 = AList.update (rq_id q) tokens d" and len: "int (length tokens) \<le> m"
    using Cons.prems(1) [OF _ step] by auto
  have "rq_id q \<notin> set (keys d)" using Cons.prems(4) by simp
  then have d1: "d1 = d @ [(rq_id q, tokens)]" unfolding d1 by (rule dict_update_new)
  moreover have "set (map rq_id qs) \<inter> set (keys d1) = {}" using Cons.prems(3,4) d1 by auto
  ultimately obtain new where "d' = d1 @ new" "keys new = map rq_id qs"
    "\<forall>(k, tokens) \<in> set new. int (length tokens) \<le> m"
    using Cons.IH [OF _ more] Cons.prems(1,3) by (metis (no_types, lifting) distinct.simps(2) list.set_intros(2) list.simps(9))
  with d1 len show ?case by (intro exI [of _ "(rq_id q, tokens) # new"]) simp
qed

lemma plan_fold_updates:
  assumes "plan_wf p" and "\<And>q d d'. q \<in> set (pl_requests p) \<Longrightarrow> step q d = Inr d' \<Longrightarrow>
      \<exists>tokens. d' = AList.update (rq_id q) tokens d \<and> int (length tokens) \<le> m"
    and "fold_res step (pl_requests p) [] = Inr d'"
  shows "keys d' = plan_req_ids p \<and> (\<forall>(k, tokens) \<in> set d'. int (length tokens) \<le> m)"
proof -
  have "distinct (map rq_id (pl_requests p))" using assms(1) by (simp add: plan_wf_def plan_req_ids_def)
  from fold_updates [where m = m, OF assms(2,3) this] show ?thesis by (auto simp: plan_req_ids_def)
qed

section \<open>The contract of an engine\<close>

text \<open>
  What the backend and the worker rely on. \<open>untouched s s'\<close> says that between the two states
  the engine has evidence that the device committed nothing for the request: it is what a
  \<open>PREPARED\<close> commit state promises, whether raised or returned.
\<close>

locale native_engine =
  fixes eng :: "'s engine" and untouched :: "'s \<Rightarrow> 's \<Rightarrow> bool"
  assumes untouched_refl: "untouched s s"
    and ids: "plan_wf p \<Longrightarrow> call_engine eng p snapshot transfer s = (Inr out, s') \<Longrightarrow>
      keys (no_token_ids out) = plan_req_ids p"
    and bounded: "plan_wf p \<Longrightarrow> call_engine eng p snapshot transfer s = (Inr out, s') \<Longrightarrow>
      (k, tokens) \<in> set (no_token_ids out) \<Longrightarrow> int (length tokens) \<le> max 0 (pl_max_steps p)"
    and prepared: "call_engine eng p snapshot transfer s = (Inl (ExecutionError m PREPARED st), s') \<Longrightarrow>
      untouched s s'"
    and prepared_output: "call_engine eng p snapshot transfer s = (Inr out, s') \<Longrightarrow>
      no_commit_state out = PREPARED \<Longrightarrow> untouched s s'"
begin

lemma reclassify_prepared: "reclassify e = ExecutionError m PREPARED st \<Longrightarrow> e = ExecutionError m PREPARED st"
  by (cases e) (auto simp: reclassify_def)

text \<open>The backend reports \<open>PREPARED\<close> only when the engine has left the device alone.\<close>

lemma backend_prepared:
  assumes "backend_execute eng p snapshot transfer s = (Inl (ExecutionError m PREPARED st), s')"
  shows "untouched s s'"
proof (cases "plan_validate p")
  case (Inl e)
  with assms untouched_refl show ?thesis by (auto simp: backend_execute_def split: if_splits)
next
  case (Inr u)
  obtain r s1 where call: "call_engine eng p snapshot transfer s = (r, s1)" by fastforce
  show ?thesis
  proof (cases r)
    case (Inl e)
    with assms Inr call have "s1 = s'" "reclassify e = ExecutionError m PREPARED st"
      by (auto simp: backend_execute_def split: if_splits)
    with call Inl prepared reclassify_prepared show ?thesis by blast
  next
    case out: (Inr out)
    with assms Inr call have "s1 = s'" and err: "accept_output p snapshot transfer out = Inl (ExecutionError m PREPARED st)"
      by (auto simp: backend_execute_def split: if_splits)
    with accept_output_error [OF err] call out prepared_output show ?thesis
      by (auto simp: failure_state_def)
  qed
qed

text \<open>The backend's check of the request set never fires, and no request overruns the epoch.\<close>

lemma right_request_set:
  "plan_wf p \<Longrightarrow> call_engine eng p snapshot transfer s = (Inr out, s') \<Longrightarrow>
     set (keys (no_token_ids out)) = set (plan_req_ids p)"
  using ids by metis

lemma no_overrun:
  assumes "plan_wf p" and "call_engine eng p snapshot transfer s = (Inr out, s')"
    and "map_of (no_token_ids out) k = Some tokens"
  shows "int (length tokens) \<le> max 0 (pl_max_steps p)"
  using bounded [OF assms(1,2) map_of_SomeD [OF assms(3)]] .

end

text \<open>
  An engine that always answers a plain epoch, with a committed result the contract accepts.
\<close>

locale total_engine = native_engine +
  assumes answers: "plan_wf p \<Longrightarrow> pl_graph_batch_size p = 4 \<Longrightarrow> 1 \<le> pl_max_steps p \<Longrightarrow>
      \<exists>out s'. en_execute eng p s = (Inr out, s') \<and> no_status out = 0 \<and> no_commit_state out = COMMITTED
        \<and> no_feed_calls out = 1 \<and> no_fetch_calls out = 1 \<and> \<not> no_kv_imported out
        \<and> plan_row_generations p = Inr (no_row_generations out)
        \<and> no_model_calls out = pl_max_steps p
        \<and> (\<forall>(k, tokens) \<in> set (no_token_ids out). int (length tokens) = pl_max_steps p)"
begin

lemma backend_answers:
  assumes wf: "plan_wf p" and b4: "pl_graph_batch_size p = 4" and steps: "1 \<le> pl_max_steps p"
    and plain: "\<forall>q \<in> set (pl_requests p). \<not> rq_kv_import_required q"
  shows "\<exists>ro s'. backend_execute eng p None None s = (Inr ro, s')
    \<and> (\<forall>tokens \<in> set (ro_sampled_token_ids ro). int (length tokens) = pl_max_steps p)"
proof -
  obtain out s' where run: "en_execute eng p s = (Inr out, s')" and ok: "no_status out = 0" "no_commit_state out = COMMITTED"
    "no_feed_calls out = 1" "no_fetch_calls out = 1" "\<not> no_kv_imported out" "no_model_calls out = pl_max_steps p"
    and gens: "plan_row_generations p = Inr (no_row_generations out)"
    and full: "\<forall>(k, tokens) \<in> set (no_token_ids out). int (length tokens) = pl_max_steps p"
    using answers [OF assms(1-3)] by blast
  have call: "call_engine eng p None None s = (Inr out, s')" using run by (simp add: call_engine_def)
  note set_ids = right_request_set [OF wf call]
  obtain sampled where sampled: "map_res (dict_item (no_token_ids out)) (plan_req_ids p) = Inr sampled"
    using token_items_total [OF set_ids] by blast
  have len: "length sampled = length (plan_req_ids p)" using map_res_length [OF sampled] .
  have tokens: "int (length t) = pl_max_steps p" if t: "t \<in> set sampled" for t
  proof -
    obtain k where "dict_item (no_token_ids out) k = Inr t" using map_res_set [OF sampled t] by blast
    then have "(k, t) \<in> set (no_token_ids out)" by (auto simp: dict_item_Inr dest: map_of_SomeD)
    with full show ?thesis by blast
  qed
  let ?steps = "zip (plan_req_ids p) (map (\<lambda>t. int (length t)) sampled)" and ?r = "native_result p None None out sampled"
  have vals: "map snd ?steps = map (\<lambda>_. pl_max_steps p) sampled"
    using len tokens by simp
  have nonempty: "plan_req_ids p \<noteq> []" using wf by (simp add: plan_wf_def plan_req_ids_def)
  have dist: "distinct (plan_req_ids p)" using wf by (simp add: plan_wf_def)
  have "sampled \<noteq> []" using len nonempty by auto
  then have "set (map snd ?steps) = {pl_max_steps p}" unfolding vals by (cases sampled) auto
  moreover have "?steps \<noteq> []" using \<open>sampled \<noteq> []\<close> nonempty by (cases sampled; cases "plan_req_ids p") auto
  ultimately have max: "max_value ?steps = Inr (pl_max_steps p)" by (simp add: max_value_def del: set_map)
  have steps_ok: "steps_wf p ?r (zip (plan_req_ids p) sampled) q" if q: "q \<in> set (pl_requests p)" for q
  proof -
    have "rq_id q \<in> set (plan_req_ids p)" using q by (simp add: plan_req_ids_def)
    then obtain i where i: "i < length (plan_req_ids p)" "rq_id q = plan_req_ids p ! i" by (metis in_set_conv_nth)
    then have "map_of (zip (plan_req_ids p) sampled) (rq_id q) = Some (sampled ! i)"
      "map_of ?steps (rq_id q) = Some (int (length (sampled ! i)))"
      using map_of_zip_index [OF dist i(1), of sampled] map_of_zip_index [OF dist i(1), of "map (\<lambda>t. int (length t)) sampled"] i len
      by simp_all
    moreover have "int (length (sampled ! i)) = pl_max_steps p" using tokens i len by simp
    ultimately show ?thesis
      using steps by (simp add: steps_wf_def native_result_def make_result_def on_host_def)
  qed
  have "keys ?steps = plan_req_ids p" "keys (zip (plan_req_ids p) sampled) = plan_req_ids p"
    using len by simp_all
  then have ids_of: "fst ` set ?steps = set (plan_req_ids p)" "fst ` set (zip (plan_req_ids p) sampled) = set (plan_req_ids p)"
    by (metis set_map)+
  have "result_wf p ?r (zip (plan_req_ids p) sampled)"
    using wf ok gens max steps_ok plain ids_of
    by (simp add: result_wf_def device_committed_def import_proved_def transfer_mode_def on_host_def plan_wf_def)
      (simp add: native_result_def make_result_def)
  then have "validate_against ?r p (zip (plan_req_ids p) sampled) = Inr ()" by (simp add: validate_against_iff_wf)
  moreover have "plan_validate p = Inr ()" using wf by (simp add: plan_validate_iff_wf)
  ultimately show ?thesis
    using call ok set_ids sampled tokens by (simp add: backend_execute_def accept_output_def Let_def)
qed

end

end
