(* ===== verification/Testing.thy ===== *)
theory Testing
  imports Backend
begin

text \<open>
  \<open>testing.py\<close>: the deterministic engine the control plane is tested with, and that it meets
  the engine contract: it always answers, with a result the contract accepts.
\<close>

record test_state =
  te_warmup_calls :: int
  te_execute_calls :: int

definition create_test_engine :: test_state where
  "create_test_engine = \<lparr>te_warmup_calls = 0, te_execute_calls = 0\<rparr>"

definition test_warm_up :: "test_state \<Rightarrow> (exn + warmup_output) \<times> test_state" where
  "test_warm_up s =
     (Inr \<lparr>wo_status = 0, wo_model_calls = 1, wo_feed_calls = 1, wo_fetch_calls = 1, wo_wall_us = 10,
        wo_commit_state = COMMITTED, wo_native_cpu_us = 1, wo_declared_input_bytes = 260,
        wo_declared_output_bytes = 368, wo_socket_send_calls = 1, wo_socket_receive_calls = 1\<rparr>,
      s\<lparr>te_warmup_calls := te_warmup_calls s + 1\<rparr>)"

definition test_tokens :: "epoch_plan \<Rightarrow> epoch_request \<Rightarrow> int list" where
  "test_tokens p q = map (\<lambda>step. (rq_token_id q + int step + 1) mod 152064) [0..<nat (pl_max_steps p)]"

text \<open>The dictionary comprehension, where a repeated request id would keep its first place.\<close>

definition test_token_ids :: "epoch_plan \<Rightarrow> (string, int list) dict" where
  "test_token_ids p = fold (\<lambda>q. AList.update (rq_id q) (test_tokens p q)) (pl_requests p) []"

definition test_execute :: "epoch_plan \<Rightarrow> test_state \<Rightarrow> (exn + native_output) \<times> test_state" where
  "test_execute p s =
     (rbind (plan_row_generations p) (\<lambda>row_generations.
        Inr ((make_native_output 0 (pl_max_steps p) (test_token_ids p) row_generations)
          \<lparr>no_wall_us := 10, no_native_cpu_us := 1, no_declared_input_bytes := 260,
           no_declared_output_bytes := 368\<rparr>)),
      s\<lparr>te_execute_calls := te_execute_calls s + 1\<rparr>)"

definition test_execute_with_import ::
  "epoch_plan \<Rightarrow> kv_snapshot \<Rightarrow> test_state \<Rightarrow> (exn + native_output) \<times> test_state" where
  "test_execute_with_import p snapshot s =
     (case snapshot_validate snapshot of
        Inl e \<Rightarrow> (Inl e, s)
      | Inr _ \<Rightarrow>
          (case test_execute p s of
             (Inl e, s') \<Rightarrow> (Inl e, s')
           | (Inr out, s') \<Rightarrow>
               (Inr (out\<lparr>no_kv_imported := True, no_kv_import_checksum := sn_checksum snapshot,
                         no_declared_input_bytes := int (length (sn_payload snapshot)) + 212\<rparr>), s')))"

definition test_execute_with_device_transfer ::
  "epoch_plan \<Rightarrow> device_transfer \<Rightarrow> test_state \<Rightarrow> (exn + native_output) \<times> test_state" where
  "test_execute_with_device_transfer p t s =
     (case transfer_validate t of
        Inl e \<Rightarrow> (Inl e, s)
      | Inr _ \<Rightarrow>
          (case test_execute p s of
             (Inl e, s') \<Rightarrow> (Inl e, s')
           | (Inr out, s') \<Rightarrow>
               (Inr (out\<lparr>no_kv_imported := True, no_kv_import_checksum := 1,
                         no_kv_transfer_mode := ''device_ipc''\<rparr>), s')))"

definition test_engine :: "test_state engine" where
  "test_engine =
     \<lparr>en_warm_up = test_warm_up, en_execute = test_execute,
      en_execute_with_import = Some test_execute_with_import,
      en_execute_with_device_transfer = Some test_execute_with_device_transfer, en_close = None\<rparr>"

section \<open>The engine contract\<close>

lemma fold_update_new:
  "distinct (map rq_id qs) \<Longrightarrow> set (map rq_id qs) \<inter> set (keys d) = {} \<Longrightarrow>
     fold (\<lambda>q. AList.update (rq_id q) (f q)) qs d = d @ map (\<lambda>q. (rq_id q, f q)) qs"
proof (induction qs arbitrary: d)
  case Nil
  show ?case by simp
next
  case (Cons q qs)
  have "AList.update (rq_id q) (f q) d = d @ [(rq_id q, f q)]"
    using Cons.prems(2) by (induction d) auto
  moreover have "set (map rq_id qs) \<inter> set (keys (d @ [(rq_id q, f q)])) = {}"
    using Cons.prems by auto
  ultimately show ?case using Cons.IH [of "d @ [(rq_id q, f q)]"] Cons.prems(1) by simp
qed

lemma test_token_ids_eq:
  "distinct (plan_req_ids p) \<Longrightarrow> test_token_ids p = map (\<lambda>q. (rq_id q, test_tokens p q)) (pl_requests p)"
  unfolding test_token_ids_def plan_req_ids_def by (subst fold_update_new) auto

lemma test_tokens_length: "length (test_tokens p q) = nat (pl_max_steps p)"
  by (simp add: test_tokens_def)

text \<open>Whatever operation is called, an output holds the tokens of the plain epoch.\<close>

lemma test_call_output:
  assumes "call_engine test_engine p snapshot transfer s = (Inr out, s')"
  shows "no_token_ids out = test_token_ids p" and "no_commit_state out = COMMITTED"
proof -
  have plain: "no_token_ids out = test_token_ids p \<and> no_commit_state out = COMMITTED"
    if "test_execute p s = (Inr out, s')" for out s'
    using that by (auto simp: test_execute_def rbind_Inr_iff make_native_output_def)
  from assms have "no_token_ids out = test_token_ids p \<and> no_commit_state out = COMMITTED"
    by (auto simp: call_engine_def test_engine_def test_execute_with_import_def
        test_execute_with_device_transfer_def dest: plain split: option.splits sum.splits prod.splits)
  then show "no_token_ids out = test_token_ids p" "no_commit_state out = COMMITTED" by auto
qed

text \<open>It never claims to have left the device alone.\<close>

lemma test_call_error:
  assumes "call_engine test_engine p snapshot transfer s = (Inl e, s')"
  shows "plain_exn e"
proof -
  have plain: "plain_exn e" if "test_execute p s = (Inl e, s')" for e s'
    using that no_executionD [OF no_execution_generations [of p]] by (auto simp: test_execute_def rbind_Inl_iff)
  show ?thesis
    using assms no_executionD [OF no_execution_snapshot] no_executionD [OF no_execution_transfer]
    by (auto simp: call_engine_def test_engine_def test_execute_with_import_def
        test_execute_with_device_transfer_def dest: plain split: option.splits sum.splits prod.splits)
qed

lemma fold_set_total:
  "\<forall>q \<in> set qs. 0 \<le> rq_row q \<and> rq_row q < int (length xs) \<Longrightarrow>
     \<exists>g. fold_res (\<lambda>r g. seq_set g (rq_row r) (rq_generation r)) qs xs = Inr g"
  by (induction qs arbitrary: xs) auto

interpretation test: native_engine test_engine "\<lambda>s s'. s' = s"
proof
  fix p snapshot transfer s out s' k tokens m st
  assume wf: "plan_wf p"
  then have dist: "distinct (plan_req_ids p)" by (simp add: plan_wf_def)
  assume call: "call_engine test_engine p snapshot transfer s = (Inr out, s')"
  note ids = test_call_output(1) [OF call, unfolded test_token_ids_eq [OF dist]]
  show "keys (no_token_ids out) = plan_req_ids p"
    unfolding ids by (simp add: plan_req_ids_def comp_def)
  show "int (length tokens) \<le> max 0 (pl_max_steps p)" if "(k, tokens) \<in> set (no_token_ids out)"
    using that unfolding ids by (auto simp: test_tokens_length)
qed (auto dest: test_call_output(2) test_call_error)

interpretation test: total_engine test_engine "\<lambda>s s'. s' = s"
proof
  fix p s
  assume wf: "plan_wf p" and "pl_graph_batch_size p = 4" and steps: "1 \<le> pl_max_steps p"
  have "\<forall>q \<in> set (pl_requests p). 0 \<le> rq_row q \<and> rq_row q < int (length (replicate (nat (pl_graph_batch_size p)) (0 :: int)))"
    using wf by (auto simp: plan_wf_def request_wf_def)
  then obtain g where "plan_row_generations p = Inr g"
    unfolding plan_row_generations_def using fold_set_total by blast
  moreover have "distinct (plan_req_ids p)" using wf by (simp add: plan_wf_def)
  ultimately show "\<exists>out s'. en_execute test_engine p s = (Inr out, s') \<and> no_status out = 0 \<and> no_commit_state out = COMMITTED
        \<and> no_feed_calls out = 1 \<and> no_fetch_calls out = 1 \<and> \<not> no_kv_imported out
        \<and> plan_row_generations p = Inr (no_row_generations out)
        \<and> no_model_calls out = pl_max_steps p
        \<and> (\<forall>(k, tokens) \<in> set (no_token_ids out). int (length tokens) = pl_max_steps p)"
    using steps by (auto simp: test_engine_def test_execute_def make_native_output_def test_token_ids_eq test_tokens_length)
qed

end
