(* ===== verification/Sidecar.thy ===== *)
theory Sidecar
  imports Backend KvSnapshot
begin

text \<open>
  \<open>sidecar_backend.py\<close>: the engine that talks to the native server over a Unix socket. The
  server is not part of the model: what \<open>recv\<close> returns is any list of events, what
  \<open>sendall\<close> does any list of outcomes. The state records every message handed to
  \<open>sendall\<close>, so that it can be said whether a request may have reached the server.
\<close>

section \<open>The wire protocol\<close>

definition REQUEST_MAGIC :: int where "REQUEST_MAGIC = 0x71317131"
definition RESPONSE_MAGIC :: int where "RESPONSE_MAGIC = 0x71327132"
definition PROTOCOL_VERSION :: int where "PROTOCOL_VERSION = SIDECAR_PROTOCOL_VERSION"
definition EXECUTE :: int where "EXECUTE = 1"
definition WARM_UP :: int where "WARM_UP = 2"
definition SHUTDOWN :: int where "SHUTDOWN = 3"
definition IMPORT_EXECUTE :: int where "IMPORT_EXECUTE = 4"
definition DEVICE_IPC_EXECUTE :: int where "DEVICE_IPC_EXECUTE = 5"
definition MAX_EPOCH_STEPS :: int where "MAX_EPOCH_STEPS = 8"
definition WARMUP_GENERATION :: int where "WARMUP_GENERATION = 2 ^ 31 - 1"

definition REQUEST :: "fld list" where
  "REQUEST = [U32, U16, U16, I32, I32, U64] @ replicate 4 I64 @ replicate 4 I64 @ replicate 4 I32
     @ replicate 4 I32 @ replicate 4 I32"

definition RESPONSE :: "fld list" where
  "RESPONSE = [U32, I32, I32, I32, I32, I32, I32, I32] @ replicate 4 I64 @ replicate 4 I32
     @ replicate 4 I32 @ replicate 32 I64"

interpretation request_wire: wire_format REQUEST SIDECAR_REQUEST_BYTES
  by unfold_locales (simp add: REQUEST_def SIDECAR_REQUEST_BYTES_def calcsize_def sum_list_replicate)

interpretation response_wire: wire_format RESPONSE SIDECAR_RESPONSE_BYTES
  by unfold_locales (simp add: RESPONSE_def SIDECAR_RESPONSE_BYTES_def calcsize_def sum_list_replicate)

text \<open>\<open>EpochCommitState(value)\<close>, raising for a value that is none.\<close>

definition commit_state_of :: "int \<Rightarrow> exn + commit_state" where
  "commit_state_of v =
     (if v = 0 then Inr PREPARED else if v = 1 then Inr EXECUTING else if v = 2 then Inr COMMITTED
      else Inl (ExecutionError (''sidecar returned invalid commit state '' @ int_str v) EXECUTING None))"

text \<open>\<open>_by_row\<close>.\<close>

definition by_row :: "epoch_plan \<Rightarrow> (epoch_request \<Rightarrow> int) \<Rightarrow> int \<Rightarrow> exn + int list" where
  "by_row p field fill =
     fold_res (\<lambda>q xs. seq_set xs (rq_row q) (field q)) (pl_requests p) (replicate GRAPH_BATCH_SIZE fill)"

section \<open>The connection\<close>

text \<open>What one \<open>recv\<close> finds: bytes that have arrived (none: the peer closed), or an exception.\<close>

datatype recv_event = Chunk "byte list" | RecvFails exn

record sidecar =
  sd_open :: bool
  sd_sent :: "byte list list"
  sd_send_faults :: "exn option list"
  sd_inbox :: "recv_event list"
  sd_process :: "int option"
  sd_exits :: bool
  sd_files :: files
  sd_socket_path :: string
  sd_transfer_path :: string
  sd_pid :: int
  sd_write_fault :: io_fault

text \<open>A failing \<open>sendall\<close> may have sent some of the message, so the message counts as sent.\<close>

definition send_all :: "byte list \<Rightarrow> sidecar \<Rightarrow> (exn + unit) \<times> sidecar" where
  "send_all bs s =
     (let s' = s\<lparr>sd_sent := sd_sent s @ [bs], sd_send_faults := tl (sd_send_faults s)\<rparr>
      in case sd_send_faults s of
           Some e # _ \<Rightarrow> (Inl e, s')
         | _ \<Rightarrow> (Inr (), s'))"

definition status_str :: "int option \<Rightarrow> string" where
  "status_str st = (case st of None \<Rightarrow> ''None'' | Some i \<Rightarrow> int_str i)"

text \<open>The loop of \<open>_receive_exact\<close>; when nothing more arrives, the socket times out.\<close>

fun receive_chunks ::
  "int option \<Rightarrow> nat \<Rightarrow> recv_event list \<Rightarrow> byte list \<Rightarrow> (exn + byte list) \<times> recv_event list" where
  "receive_chunks status 0 inbox acc = (Inr acc, inbox)"
| "receive_chunks status (Suc n) [] acc = (Inl (TimeoutError ''timed out''), [])"
| "receive_chunks status (Suc n) (RecvFails e # inbox) acc = (Inl e, inbox)"
| "receive_chunks status (Suc n) (Chunk bs # inbox) acc =
     (if bs = [] then
        (Inl (RuntimeError (''resident epoch sidecar closed the control socket (status=''
           @ status_str status @ '')'')), Chunk bs # inbox)
      else if length bs \<le> Suc n then receive_chunks status (Suc n - length bs) inbox (acc @ bs)
      else (Inr (acc @ take (Suc n) bs), Chunk (drop (Suc n) bs) # inbox))"

definition receive_exact :: "nat \<Rightarrow> sidecar \<Rightarrow> (exn + byte list) \<times> sidecar" where
  "receive_exact wanted s =
     (if \<not> sd_open s then (Inl (AssertionError ''''), s)
      else (case receive_chunks (sd_process s) wanted (sd_inbox s) [] of
        (r, inbox) \<Rightarrow> (r, s\<lparr>sd_inbox := inbox\<rparr>)))"

definition receive_response :: "sidecar \<Rightarrow> (exn + int list) \<times> sidecar" where
  "receive_response s =
     (case receive_exact (calcsize RESPONSE) s of
        (r, s') \<Rightarrow>
          (rbind r (\<lambda>bs. rbind (unpack RESPONSE bs) (\<lambda>vs.
             if vs ! 0 \<noteq> RESPONSE_MAGIC then
               Inl (RuntimeError ''resident epoch sidecar response magic mismatch'')
             else Inr vs)), s'))"

section \<open>Warm-up\<close>

definition warmup_request :: "int list" where
  "warmup_request =
     [REQUEST_MAGIC, PROTOCOL_VERSION, WARM_UP, 1, 1, 0, 11690, 0, 0, 0, 0, 0, 0, 0, 1, 0, 0, 0,
      151645, 151645, 151645, 151645, WARMUP_GENERATION, 0, 0, 0]"

definition warmup_output_of :: "int list \<Rightarrow> exn + warmup_output" where
  "warmup_output_of vs =
     rbind (commit_state_of (vs ! 6)) (\<lambda>commit.
       if vs ! 1 \<noteq> 0 then
         Inl (ExecutionError (''resident epoch warmup failed: '' @ int_str (vs ! 1)) commit (Some (vs ! 1)))
       else if slice 12 4 vs \<noteq> [1, 0, 0, 0] then
         Inl (RuntimeError ''resident epoch warmup did not execute exactly one row'')
       else if slice 16 4 vs \<noteq> [WARMUP_GENERATION, 0, 0, 0] then
         Inl (RuntimeError ''resident epoch warmup generation acknowledgement failed'')
       else Inr \<lparr>wo_status = vs ! 2, wo_model_calls = vs ! 3, wo_feed_calls = vs ! 4, wo_fetch_calls = vs ! 5,
                 wo_wall_us = vs ! 8, wo_commit_state = commit, wo_native_cpu_us = vs ! 9,
                 wo_declared_input_bytes = vs ! 10, wo_declared_output_bytes = vs ! 11,
                 wo_socket_send_calls = 1, wo_socket_receive_calls = 1\<rparr>)"

definition sidecar_warm_up :: "sidecar \<Rightarrow> (exn + warmup_output) \<times> sidecar" where
  "sidecar_warm_up s =
     (if \<not> sd_open s then (Inl (RuntimeError ''resident epoch sidecar is closed''), s)
      else (case pack REQUEST warmup_request of
        Inl e \<Rightarrow> (Inl e, s)
      | Inr payload \<Rightarrow>
          (case send_all payload s of
             (Inl e, s1) \<Rightarrow> (Inl e, s1)
           | (Inr _, s1) \<Rightarrow>
               (case receive_response s1 of
                  (r, s2) \<Rightarrow> (rbind r warmup_output_of, s2)))))"

section \<open>Execution\<close>

text \<open>\<open>xs[i:j]\<close>.\<close>

definition py_slice :: "'a list \<Rightarrow> int \<Rightarrow> int \<Rightarrow> 'a list" where
  "py_slice xs i j =
     (let n = int (length xs); clip = (\<lambda>k. if k < 0 then max 0 (k + n) else min k n)
      in take (nat (clip j - clip i)) (drop (nat (clip i)) xs))"

definition request_payload :: "int \<Rightarrow> int \<Rightarrow> epoch_plan \<Rightarrow> exn + byte list" where
  "request_payload operation transfer_id p =
     rbind (by_row p rq_token_id 0) (\<lambda>tokens.
     rbind (by_row p rq_position 0) (\<lambda>positions.
     rbind (by_row p rq_sequence_length 0) (\<lambda>lengths.
     rbind (by_row p rq_eos_token_id 151645) (\<lambda>eos.
     rbind (plan_row_generations p) (\<lambda>generations.
       pack REQUEST ([REQUEST_MAGIC, PROTOCOL_VERSION, operation, int (length (pl_requests p)),
         pl_max_steps p, transfer_id] @ tokens @ positions @ lengths @ eos @ generations))))))"

text \<open>The loop that takes each request's tokens out of the response.\<close>

definition take_tokens ::
  "epoch_plan \<Rightarrow> commit_state \<Rightarrow> int list \<Rightarrow> epoch_request \<Rightarrow> (string, int list) dict \<Rightarrow>
   exn + (string, int list) dict" where
  "take_tokens p commit vs q token_ids =
     rbind (seq_item (slice 12 4 vs) (rq_row q)) (\<lambda>count.
       if count < 0 \<or> pl_max_steps p < count then
         Inl (ExecutionError ''sidecar returned an invalid executed count'' commit None)
       else let offset = rq_row q * MAX_EPOCH_STEPS in
         Inr (AList.update (rq_id q) (py_slice (drop 20 vs) offset (offset + count)) token_ids))"

definition response_output :: "epoch_plan \<Rightarrow> int \<Rightarrow> int list \<Rightarrow> exn + native_output" where
  "response_output p operation vs =
     rbind (commit_state_of (vs ! 6)) (\<lambda>commit.
       if vs ! 1 \<noteq> 0 then
         Inl (ExecutionError (''resident epoch sidecar execute failed: '' @ int_str (vs ! 1)) commit (Some (vs ! 1)))
       else
         rbind (fold_res (take_tokens p commit vs) (pl_requests p) []) (\<lambda>token_ids.
           Inr ((make_native_output (vs ! 2) (vs ! 3) token_ids (slice 16 4 vs))
             \<lparr>no_commit_state := commit, no_feed_calls := vs ! 4, no_fetch_calls := vs ! 5,
              no_wall_us := vs ! 8, no_native_cpu_us := vs ! 9, no_declared_input_bytes := vs ! 10,
              no_declared_output_bytes := vs ! 11,
              no_kv_imported := (operation = IMPORT_EXECUTE \<or> operation = DEVICE_IPC_EXECUTE),
              no_kv_import_checksum := take_bit 32 (vs ! 7)\<rparr>)))"

definition with_metadata :: "int \<Rightarrow> byte list option \<Rightarrow> byte list \<Rightarrow> exn + byte list" where
  "with_metadata operation metadata payload =
     (if operation \<noteq> DEVICE_IPC_EXECUTE then Inr payload
      else (case metadata of
        None \<Rightarrow> Inl (ValueError ''direct Device KV operation has invalid metadata'')
      | Some bs \<Rightarrow>
          (if length bs \<noteq> IPC_METADATA_BYTES then
             Inl (ValueError ''direct Device KV operation has invalid metadata'')
           else Inr (payload @ bs))))"

definition ambiguous :: "exn \<Rightarrow> exn" where
  "ambiguous e = ExecutionError (''resident epoch response is ambiguous: '' @ exn_str e) EXECUTING None"

definition raw_execute ::
  "int \<Rightarrow> int \<Rightarrow> byte list option \<Rightarrow> epoch_plan \<Rightarrow> sidecar \<Rightarrow> (exn + native_output) \<times> sidecar" where
  "raw_execute operation transfer_id metadata p s =
     (if \<not> sd_open s then (Inl (ExecutionError ''resident epoch sidecar is closed'' PREPARED None), s)
      else if pl_graph_batch_size p \<noteq> int GRAPH_BATCH_SIZE then
        (Inl (ValueError ''the sidecar backend owns only the static B=4 graph''), s)
      else (case rbind (request_payload operation transfer_id p) (with_metadata operation metadata) of
        Inl e \<Rightarrow> (Inl e, s)
      | Inr payload \<Rightarrow>
          (case send_all payload s of
             (Inl e, s1) \<Rightarrow> (Inl (ambiguous e), s1)
           | (Inr _, s1) \<Rightarrow>
               (case receive_response s1 of
                  (Inl e, s2) \<Rightarrow> (Inl (ambiguous e), s2)
                | (Inr vs, s2) \<Rightarrow> (response_output p operation vs, s2)))))"

definition sidecar_execute :: "epoch_plan \<Rightarrow> sidecar \<Rightarrow> (exn + native_output) \<times> sidecar" where
  "sidecar_execute p s = raw_execute EXECUTE 0 None p s"

text \<open>The mask and the generations a transfer must have for the plan.\<close>

definition expected_rows :: "epoch_plan \<Rightarrow> exn + int \<times> int list" where
  "expected_rows p =
     rbind (map_res (\<lambda>q. shift_one (rq_row q)) (importing p)) (\<lambda>shifts.
     rbind (fold_res set_generation (importing p) (replicate GRAPH_BATCH_SIZE 0)) (\<lambda>generations.
       Inr (sum_list shifts, generations)))"

definition check_snapshot_rows :: "epoch_plan \<Rightarrow> kv_snapshot \<Rightarrow> exn + unit" where
  "check_snapshot_rows p sn =
     rbind (snapshot_validate sn) (\<lambda>_.
     rbind (map_res (\<lambda>q. shift_one (rq_row q)) (importing p)) (\<lambda>shifts.
       if sn_import_mask sn \<noteq> sum_list shifts then
         Inl (ValueError ''KV snapshot mask does not match the resident plan'')
       else rbind (fold_res set_generation (importing p) (replicate GRAPH_BATCH_SIZE 0)) (\<lambda>generations.
         if sn_row_generations sn \<noteq> generations then
           Inl (ValueError ''KV snapshot generations do not match the resident plan'')
         else Inr ())))"

definition check_transfer_rows :: "epoch_plan \<Rightarrow> device_transfer \<Rightarrow> exn + unit" where
  "check_transfer_rows p t =
     rbind (transfer_validate t) (\<lambda>_.
     rbind (map_res (\<lambda>q. shift_one (rq_row q)) (importing p)) (\<lambda>shifts.
       if dt_import_mask t \<noteq> sum_list shifts then
         Inl (ValueError ''device KV transfer mask does not match the resident plan'')
       else rbind (fold_res set_generation (importing p) (replicate GRAPH_BATCH_SIZE 0)) (\<lambda>generations.
         if dt_row_generations t \<noteq> generations then
           Inl (ValueError ''device KV transfer generations do not match the resident plan'')
         else Inr ())))"

definition sidecar_execute_with_import ::
  "epoch_plan \<Rightarrow> kv_snapshot \<Rightarrow> sidecar \<Rightarrow> (exn + native_output) \<times> sidecar" where
  "sidecar_execute_with_import p sn s =
     (case check_snapshot_rows p sn of
        Inl e \<Rightarrow> (Inl e, s)
      | Inr _ \<Rightarrow>
          (case write_kv_snapshot (\<lambda>path. path) (sd_pid s) (sd_write_fault s) (sd_transfer_path s) sn (sd_files s) of
             (Inl e, states) \<Rightarrow> (Inl e, s\<lparr>sd_files := last states\<rparr>)
           | (Inr _, states) \<Rightarrow>
               (case raw_execute IMPORT_EXECUTE (sn_transfer_id sn) None p (s\<lparr>sd_files := last states\<rparr>) of
                  (r, s1) \<Rightarrow> (r, s1\<lparr>sd_files := (sd_files s1)(sd_transfer_path s1 := None)\<rparr>))))"

definition sidecar_execute_with_device_transfer ::
  "epoch_plan \<Rightarrow> device_transfer \<Rightarrow> sidecar \<Rightarrow> (exn + native_output) \<times> sidecar" where
  "sidecar_execute_with_device_transfer p t s =
     (case rbind (check_transfer_rows p t) (\<lambda>_. wire_bytes t) of
        Inl e \<Rightarrow> (Inl e, s)
      | Inr metadata \<Rightarrow> raw_execute DEVICE_IPC_EXECUTE (dt_transfer_id t) (Some metadata) p s)"

section \<open>Shutdown\<close>

text \<open>\<open>_stop_process\<close>: terminate, and kill after a minute; either way the process is gone.\<close>

definition stop_process :: "sidecar \<Rightarrow> sidecar" where
  "stop_process s =
     (if sd_process s = None then s\<lparr>sd_process := Some (if sd_exits s then -15 else -9)\<rparr> else s)"

definition socket_error :: "exn \<Rightarrow> bool" where
  "socket_error e \<longleftrightarrow>
     (case e of OSError _ \<Rightarrow> True | FileNotFoundError _ \<Rightarrow> True | TimeoutError _ \<Rightarrow> True | RuntimeError _ \<Rightarrow> True
      | ExecutionError _ _ _ \<Rightarrow> True | _ \<Rightarrow> False)"

definition say_goodbye :: "sidecar \<Rightarrow> (exn + unit) \<times> sidecar" where
  "say_goodbye s =
     (case pack REQUEST ([REQUEST_MAGIC, PROTOCOL_VERSION, SHUTDOWN, 0, 0, 0] @ replicate 20 0) of
        Inl e \<Rightarrow> (Inl e, s)
      | Inr payload \<Rightarrow>
          (case send_all payload s of
             (Inl e, s1) \<Rightarrow> (Inl e, s1)
           | (Inr _, s1) \<Rightarrow> (case receive_response s1 of (r, s2) \<Rightarrow> (rbind r (\<lambda>_. Inr ()), s2))))"

definition finish_close :: "bool \<Rightarrow> sidecar \<Rightarrow> sidecar" where
  "finish_close force s =
     (let s1 = s\<lparr>sd_open := False\<rparr>;
          s2 = (if force then stop_process s1
                else if sd_exits s1 then
                  s1\<lparr>sd_process := Some (case sd_process s1 of None \<Rightarrow> 0 | Some st \<Rightarrow> st)\<rparr>
                else stop_process s1)
      in s2\<lparr>sd_files := (sd_files s2)(sd_socket_path s2 := None, sd_transfer_path s2 := None)\<rparr>)"

definition sidecar_close :: "bool \<Rightarrow> sidecar \<Rightarrow> (exn + unit) \<times> sidecar" where
  "sidecar_close force s =
     (if sd_open s \<and> \<not> force \<and> sd_process s = None then
        (case say_goodbye s of
           (Inl e, s1) \<Rightarrow> (if socket_error e then (Inr (), finish_close True s1) else (Inl e, s1))
         | (Inr _, s1) \<Rightarrow> (Inr (), finish_close False s1))
      else (Inr (), finish_close force s))"

definition sidecar_engine :: "sidecar engine" where
  "sidecar_engine =
     \<lparr>en_warm_up = sidecar_warm_up, en_execute = sidecar_execute,
      en_execute_with_import = Some sidecar_execute_with_import,
      en_execute_with_device_transfer = Some sidecar_execute_with_device_transfer,
      en_close = Some (sidecar_close False)\<rparr>"

section \<open>Reading the stream\<close>

text \<open>The bytes that arrive before the peer closes the connection or \<open>recv\<close> raises.\<close>

fun arrived :: "recv_event list \<Rightarrow> byte list" where
  "arrived [] = []"
| "arrived (RecvFails e # inbox) = []"
| "arrived (Chunk bs # inbox) = (if bs = [] then [] else bs @ arrived inbox)"

lemma receive_chunks_enough:
  "n \<le> length (arrived inbox) \<Longrightarrow>
     \<exists>rest. receive_chunks status n inbox acc = (Inr (acc @ take n (arrived inbox)), rest)
       \<and> arrived rest = drop n (arrived inbox)"
proof (induction status n inbox acc rule: receive_chunks.induct)
  case (4 status n bs inbox acc)
  show ?case
  proof (cases "bs \<noteq> [] \<and> length bs \<le> Suc n")
    case True
    with "4.prems" have "Suc n - length bs \<le> length (arrived inbox)" by simp
    with "4.IH" True obtain rest where
      "receive_chunks status (Suc n - length bs) inbox (acc @ bs)
        = (Inr ((acc @ bs) @ take (Suc n - length bs) (arrived inbox)), rest)"
      "arrived rest = drop (Suc n - length bs) (arrived inbox)" by blast
    with True show ?thesis by simp
  next
    case False
    with "4.prems" show ?thesis by (cases "bs = []") simp_all
  qed
qed simp_all

lemma receive_chunks_short:
  "length (arrived inbox) < n \<Longrightarrow> \<exists>e rest. receive_chunks status n inbox acc = (Inl e, rest)"
  by (induction status n inbox acc rule: receive_chunks.induct) (auto split: if_splits)

lemma receive_exact_enough:
  assumes "sd_open s" and "n \<le> length (arrived (sd_inbox s))"
  shows "\<exists>rest. receive_exact n s = (Inr (take n (arrived (sd_inbox s))), s\<lparr>sd_inbox := rest\<rparr>)
    \<and> arrived rest = drop n (arrived (sd_inbox s))"
  using receive_chunks_enough [OF assms(2), of "sd_process s" "[]"] assms(1)
  by (auto simp: receive_exact_def)

text \<open>Only the unread bytes change, and sending changes none of them.\<close>

lemma receive_response_frame:
  "receive_response s = (r, s') \<Longrightarrow> \<exists>rest. s' = s\<lparr>sd_inbox := rest\<rparr>"
  by (cases s) (auto simp: receive_response_def receive_exact_def split: if_splits prod.splits)

lemma send_all_frame:
  "snd (send_all bs s) = s\<lparr>sd_sent := sd_sent s @ [bs], sd_send_faults := tl (sd_send_faults s)\<rparr>"
  by (auto simp: send_all_def Let_def split: list.split option.split)

lemma receive_response_send:
  "fst (receive_response (snd (send_all bs s))) = fst (receive_response s)"
  by (simp add: send_all_frame receive_response_def receive_exact_def split: prod.split)

lemma receive_response_length: "fst (receive_response s) = Inr vs \<Longrightarrow> length vs = 52"
  by (auto simp: receive_response_def rbind_Inr_iff unpack_def RESPONSE_def split: prod.splits if_splits)

section \<open>What an execution sends and returns\<close>

lemma no_execution_by_row [simp]: "no_execution (by_row p field fill)"
  unfolding by_row_def by (intro no_execution_intros) simp

lemma no_execution_payload [simp]: "no_execution (request_payload operation transfer_id p)"
  unfolding request_payload_def by (intro no_execution_intros) simp_all

lemma no_execution_metadata [simp]: "no_execution (with_metadata operation metadata payload)"
  by (auto simp: with_metadata_def split: option.split)

lemma no_execution_message [simp]:
  "no_execution (rbind (request_payload operation transfer_id p) (with_metadata operation metadata))"
  by (intro no_execution_intros) simp_all

text \<open>An execution is one of these: refused, ambiguous, or answered.\<close>

lemma raw_execute_cases:
  assumes "raw_execute operation transfer_id metadata p s = (r, s')"
  obtains (closed) "\<not> sd_open s" "s' = s" "r = Inl (ExecutionError ''resident epoch sidecar is closed'' PREPARED None)"
  | (refused) e where "sd_open s" "s' = s" "r = Inl e" "plain_exn e"
  | (ambiguous) payload e where "sd_open s"
      "rbind (request_payload operation transfer_id p) (with_metadata operation metadata) = Inr payload"
      "sd_sent s' = sd_sent s @ [payload]" "sd_files s' = sd_files s" "sd_transfer_path s' = sd_transfer_path s"
      "r = Inl (ambiguous e)"
  | (answered) payload vs where "sd_open s" "pl_graph_batch_size p = 4"
      "rbind (request_payload operation transfer_id p) (with_metadata operation metadata) = Inr payload"
      "sd_sent s' = sd_sent s @ [payload]" "sd_files s' = sd_files s" "sd_transfer_path s' = sd_transfer_path s"
      "fst (receive_response s) = Inr vs" "r = response_output p operation vs"
proof (cases "sd_open s \<and> pl_graph_batch_size p = 4")
  case False
  with assms closed refused show thesis by (auto simp: raw_execute_def GRAPH_BATCH_SIZE_def split: if_splits)
next
  case ok: True
  show thesis
  proof (cases "rbind (request_payload operation transfer_id p) (with_metadata operation metadata)")
    case (Inl e)
    with assms ok no_executionD [OF no_execution_message Inl] show thesis
      by (intro refused [of e]) (auto simp: raw_execute_def GRAPH_BATCH_SIZE_def)
  next
    case payload: (Inr payload)
    obtain q s1 where send: "send_all payload s = (q, s1)" by fastforce
    have s1: "s1 = s\<lparr>sd_sent := sd_sent s @ [payload], sd_send_faults := tl (sd_send_faults s)\<rparr>"
      using send_all_frame [of payload s] send by simp
    obtain r2 s2 where recv: "receive_response s1 = (r2, s2)" by fastforce
    have same: "fst (receive_response s) = r2" using receive_response_send [of payload s] send recv by simp
    obtain rest where s2: "s2 = s1\<lparr>sd_inbox := rest\<rparr>" using receive_response_frame [OF recv] by blast
    show thesis
    proof (cases q)
      case (Inl e)
      with assms ok payload send s1 show thesis
        by (intro ambiguous [of payload e]) (auto simp: raw_execute_def GRAPH_BATCH_SIZE_def)
    next
      case sent: (Inr u)
      show thesis
      proof (cases r2)
        case (Inl e)
        with assms ok payload send sent recv s1 s2 show thesis
          by (intro ambiguous [of payload e]) (auto simp: raw_execute_def GRAPH_BATCH_SIZE_def)
      next
        case (Inr vs)
        with assms ok payload send sent recv s1 s2 same show thesis
          by (intro answered [of payload vs]) (auto simp: raw_execute_def GRAPH_BATCH_SIZE_def)
      qed
    qed
  qed
qed

lemma py_slice_length: "0 \<le> i \<Longrightarrow> 0 \<le> n \<Longrightarrow> int (length (py_slice xs i (i + n))) \<le> n"
  by (auto simp: py_slice_def Let_def)

lemma take_tokens_ok:
  assumes "take_tokens p commit vs q token_ids = Inr token_ids'" and "0 \<le> rq_row q"
  shows "\<exists>tokens. token_ids' = AList.update (rq_id q) tokens token_ids \<and> int (length tokens) \<le> max 0 (pl_max_steps p)"
proof -
  obtain count where "seq_item (slice 12 4 vs) (rq_row q) = Inr count"
    using assms(1) by (auto simp: take_tokens_def rbind_Inr_iff)
  with assms(1) have "0 \<le> count" "count \<le> pl_max_steps p"
    "token_ids' = AList.update (rq_id q)
       (py_slice (drop 20 vs) (rq_row q * MAX_EPOCH_STEPS) (rq_row q * MAX_EPOCH_STEPS + count)) token_ids"
    by (simp_all add: take_tokens_def Let_def split: if_splits)
  moreover have "0 \<le> rq_row q * MAX_EPOCH_STEPS" using assms(2) by (simp add: MAX_EPOCH_STEPS_def)
  then have "int (length (py_slice (drop 20 vs) (rq_row q * MAX_EPOCH_STEPS) (rq_row q * MAX_EPOCH_STEPS + count))) \<le> count"
    using \<open>0 \<le> count\<close> by (rule py_slice_length)
  ultimately show ?thesis by auto
qed

lemma response_output_ok:
  assumes "response_output p operation vs = Inr out" and "plan_wf p"
  shows "keys (no_token_ids out) = plan_req_ids p"
    and "(k, tokens) \<in> set (no_token_ids out) \<Longrightarrow> int (length tokens) \<le> max 0 (pl_max_steps p)"
proof -
  have "\<exists>commit. fold_res (take_tokens p commit vs) (pl_requests p) [] = Inr (no_token_ids out)"
    using assms(1) by (auto simp: response_output_def rbind_Inr_iff make_native_output_def split: if_splits)
  then obtain commit where take: "fold_res (take_tokens p commit vs) (pl_requests p) [] = Inr (no_token_ids out)" ..
  have "0 \<le> rq_row q" if "q \<in> set (pl_requests p)" for q
    using that assms(2) by (simp add: plan_wf_def request_wf_def)
  with plan_fold_updates [where m = "max 0 (pl_max_steps p)", OF assms(2) _ take] take_tokens_ok
  have all: "keys (no_token_ids out) = plan_req_ids p
    \<and> (\<forall>(k, tokens) \<in> set (no_token_ids out). int (length tokens) \<le> max 0 (pl_max_steps p))" by blast
  then show "keys (no_token_ids out) = plan_req_ids p" ..
  show "(k, tokens) \<in> set (no_token_ids out) \<Longrightarrow> int (length tokens) \<le> max 0 (pl_max_steps p)"
    using all by blast
qed

lemma commit_state_prepared:
  "commit_state_of v = Inr c \<Longrightarrow> c = PREPARED \<Longrightarrow> v = 0"
  "commit_state_of v = Inl e \<Longrightarrow> \<exists>m. e = ExecutionError m EXECUTING None"
  by (auto simp: commit_state_of_def split: if_splits)

lemma take_tokens_error: "fold_res (take_tokens p commit vs) qs d = Inl (ExecutionError m c st) \<Longrightarrow> c = commit"
proof (induction qs arbitrary: d)
  case (Cons q qs)
  then show ?case
  proof (cases "take_tokens p commit vs q d")
    case (Inl e)
    with Cons.prems show ?thesis
      by (auto simp: take_tokens_def rbind_Inl_iff Let_def seq_item_def split: if_splits)
  next
    case (Inr d1)
    with Cons show ?thesis by simp
  qed
qed simp

lemma response_output_prepared:
  assumes "response_output p operation vs = Inl (ExecutionError m PREPARED st)
    \<or> response_output p operation vs = Inr out \<and> no_commit_state out = PREPARED"
  shows "vs ! 6 = 0"
proof (cases "commit_state_of (vs ! 6)")
  case (Inl e)
  with assms commit_state_prepared(2) show ?thesis by (fastforce simp: response_output_def)
next
  case (Inr c)
  with assms have "c = PREPARED"
    by (auto simp: response_output_def rbind_Inr_iff rbind_Inl_iff split: if_splits dest: take_tokens_error)
  with Inr commit_state_prepared(1) show ?thesis by blast
qed


section \<open>The engine contract\<close>

text \<open>The sidecar has evidence that the device is untouched: nothing was sent, or the server said so.\<close>

definition untouched :: "sidecar \<Rightarrow> sidecar \<Rightarrow> bool" where
  "untouched s s' \<longleftrightarrow> sd_sent s' = sd_sent s \<or> (\<exists>vs. fst (receive_response s) = Inr vs \<and> vs ! 6 = 0)"

lemma receive_response_files [simp]: "fst (receive_response (s\<lparr>sd_files := fs\<rparr>)) = fst (receive_response s)"
  by (simp add: receive_response_def receive_exact_def split: prod.split)

lemma untouched_files [simp]:
  "untouched (s\<lparr>sd_files := fs\<rparr>) s' = untouched s s'" "untouched s (s'\<lparr>sd_files := fs\<rparr>) = untouched s s'"
  by (simp_all add: untouched_def)

lemma raw_execute_prepared:
  assumes "raw_execute operation transfer_id metadata p s = (r, s')"
    and "r = Inl (ExecutionError m PREPARED st) \<or> r = Inr out \<and> no_commit_state out = PREPARED"
  shows "untouched s s'"
  using assms(1)
proof (cases rule: raw_execute_cases)
  case (refused e)
  then show ?thesis by (simp add: untouched_def)
next
  case (answered payload vs)
  have "vs ! 6 = 0"
    using assms(2) unfolding answered(8) by (rule response_output_prepared)
  with answered show ?thesis by (auto simp: untouched_def)
qed (use assms(2) in \<open>auto simp: untouched_def ambiguous_def\<close>)

lemma raw_execute_output:
  assumes "raw_execute operation transfer_id metadata p s = (Inr out, s')"
  shows "\<exists>vs. response_output p operation vs = Inr out"
  using assms by (cases rule: raw_execute_cases) auto

lemma no_execution_check_rows [simp]:
  "no_execution (check_snapshot_rows p sn)" "no_execution (check_transfer_rows p t)"
  unfolding check_snapshot_rows_def check_transfer_rows_def shift_one_def set_generation_def
  by (intro no_execution_intros; simp)+

text \<open>Each operation either refuses the call, with nothing sent, or is a raw execution.\<close>

lemma import_cases:
  assumes "sidecar_execute_with_import p sn s = (r, s')"
  obtains (refused) e fs where "r = Inl e" "plain_exn e" "s' = s\<lparr>sd_files := fs\<rparr>"
  | (executed) fs s1 where "check_snapshot_rows p sn = Inr ()"
      "raw_execute IMPORT_EXECUTE (sn_transfer_id sn) None p (s\<lparr>sd_files := fs\<rparr>) = (r, s1)"
      "s' = s1\<lparr>sd_files := (sd_files s1)(sd_transfer_path s1 := None)\<rparr>"
proof (cases "check_snapshot_rows p sn")
  case (Inl e)
  with assms no_executionD [OF no_execution_check_rows(1) Inl] show thesis
    by (intro refused [of e "sd_files s"]) (auto simp: sidecar_execute_with_import_def)
next
  case checked: (Inr u)
  obtain w states where wrote: "write_kv_snapshot (\<lambda>path. path) (sd_pid s) (sd_write_fault s) (sd_transfer_path s) sn (sd_files s) = (w, states)"
    by fastforce
  show thesis
  proof (cases w)
    case (Inl e)
    have "no_execution w" using no_execution_write wrote by (metis fst_conv)
    with assms checked wrote Inl show thesis
      by (intro refused [of e "last states"]) (auto simp: sidecar_execute_with_import_def)
  next
    case (Inr v)
    obtain r1 s1 where "raw_execute IMPORT_EXECUTE (sn_transfer_id sn) None p (s\<lparr>sd_files := last states\<rparr>) = (r1, s1)"
      using prod.exhaust by blast
    with assms checked wrote Inr show thesis
      by (intro executed [of "last states" s1]) (auto simp: sidecar_execute_with_import_def)
  qed
qed

lemma device_cases:
  assumes "sidecar_execute_with_device_transfer p t s = (r, s')"
  obtains (refused) e where "r = Inl e" "plain_exn e" "s' = s"
  | (executed) metadata where "check_transfer_rows p t = Inr ()" "wire_bytes t = Inr metadata"
      "raw_execute DEVICE_IPC_EXECUTE (dt_transfer_id t) (Some metadata) p s = (r, s')"
proof (cases "rbind (check_transfer_rows p t) (\<lambda>_. wire_bytes t)")
  case (Inl e)
  have "no_execution (rbind (check_transfer_rows p t) (\<lambda>_. wire_bytes t))" by (intro no_execution_intros) simp_all
  from no_executionD [OF this Inl] assms Inl show thesis
    by (intro refused [of e]) (auto simp: sidecar_execute_with_device_transfer_def)
next
  case (Inr metadata)
  with assms show thesis
    by (intro executed [of metadata]) (auto simp: sidecar_execute_with_device_transfer_def rbind_Inr_iff)
qed

lemma sidecar_call_cases:
  assumes "call_engine sidecar_engine p snapshot transfer s = (r, s')"
  obtains (refused) e fs where "r = Inl e" "plain_exn e" "s' = s\<lparr>sd_files := fs\<rparr>"
  | (executed) operation transfer_id metadata fs s1 fs' where
      "raw_execute operation transfer_id metadata p (s\<lparr>sd_files := fs\<rparr>) = (r, s1)" "s' = s1\<lparr>sd_files := fs'\<rparr>"
proof (cases transfer)
  case (Some t)
  with assms have "sidecar_execute_with_device_transfer p t s = (r, s')"
    by (simp add: call_engine_def sidecar_engine_def)
  then show thesis
  proof (cases rule: device_cases)
    case (refused e)
    then show thesis by (intro that(1) [of e "sd_files s"]) auto
  next
    case (executed metadata)
    then show thesis by (intro that(2) [of _ _ _ "sd_files s" s' "sd_files s'"]) auto
  qed
next
  case None
  show thesis
  proof (cases snapshot)
    case None
    with \<open>transfer = None\<close> assms have "sidecar_execute p s = (r, s')" by (simp add: call_engine_def sidecar_engine_def)
    then show thesis by (intro that(2) [of EXECUTE 0 None "sd_files s" s' "sd_files s'"]) (auto simp: sidecar_execute_def)
  next
    case (Some sn)
    with None assms have "sidecar_execute_with_import p sn s = (r, s')" by (simp add: call_engine_def sidecar_engine_def)
    then show thesis by (cases rule: import_cases) (auto intro: that)
  qed
qed

lemma sidecar_call_output:
  assumes "call_engine sidecar_engine p snapshot transfer s = (Inr out, s')"
  shows "\<exists>operation vs. response_output p operation vs = Inr out"
  using assms
proof (cases rule: sidecar_call_cases)
  case (executed operation transfer_id metadata fs s1 fs')
  with raw_execute_output show ?thesis by blast
qed simp

lemma sidecar_call_prepared:
  assumes "call_engine sidecar_engine p snapshot transfer s = (r, s')"
    and "r = Inl (ExecutionError m PREPARED st) \<or> r = Inr out \<and> no_commit_state out = PREPARED"
  shows "untouched s s'"
  using assms(1)
proof (cases rule: sidecar_call_cases)
  case (refused e fs)
  then show ?thesis by (simp add: untouched_def)
next
  case (executed operation transfer_id metadata fs s1 fs')
  with raw_execute_prepared [OF executed(1) assms(2)] show ?thesis by simp
qed

interpretation sidecar: native_engine sidecar_engine untouched
proof
  fix p snapshot transfer s out s' k tokens m st
  show "untouched s s" by (simp add: untouched_def)
  assume wf: "plan_wf p" and call: "call_engine sidecar_engine p snapshot transfer s = (Inr out, s')"
  then obtain operation vs where out: "response_output p operation vs = Inr out"
    using sidecar_call_output by blast
  show "keys (no_token_ids out) = plan_req_ids p" by (rule response_output_ok(1) [OF out wf])
  show "(k, tokens) \<in> set (no_token_ids out) \<Longrightarrow> int (length tokens) \<le> max 0 (pl_max_steps p)"
    by (rule response_output_ok(2) [OF out wf])
qed (auto intro: sidecar_call_prepared)

end
