(* ===== verification/SidecarStart.thy ===== *)
theory SidecarStart
  imports Sidecar
begin

text \<open>
  The constructor of \<open>SidecarDataFlowEngine\<close>: the environment and the paths it checks, the
  environment and the command line of the server, and the wait for its socket. The host's
  file system is an argument: what a path resolves to, what exists, what cannot be removed.
\<close>

section \<open>The host\<close>

record host =
  ho_env :: "(string, string) dict"
  ho_resolve :: "string \<Rightarrow> string"
  ho_is_file :: "string \<Rightarrow> bool"
  ho_is_dir :: "string \<Rightarrow> bool"
  ho_exists :: "string \<Rightarrow> bool"
  ho_mkdir :: "string \<Rightarrow> exn + unit"
  ho_unlink_error :: "string \<Rightarrow> string option"

text \<open>\<open>os.getenv(name)\<close>, where an unset variable and an empty one are both false.\<close>

definition env_str :: "(string, string) dict \<Rightarrow> string \<Rightarrow> string" where
  "env_str env name = (case map_of env name of None \<Rightarrow> '''' | Some v \<Rightarrow> v)"

definition in_shm :: "string \<Rightarrow> bool" where
  "in_shm path \<longleftrightarrow> starts_with ''/dev/shm/'' path"

definition required_path :: "host \<Rightarrow> string \<Rightarrow> bool \<Rightarrow> exn + string" where
  "required_path h name directory =
     (let raw = env_str (ho_env h) name
      in if raw = '''' then Inl (RuntimeError (name @ '' is required by the DataFlow sidecar''))
      else let path = ho_resolve h raw in
        if \<not> (if directory then ho_is_dir h path else ho_is_file h path) then
          Inl (RuntimeError (name @ '' must name an existing ''
            @ (if directory then ''directory'' else ''file'') @ '': '' @ path))
        else Inr path)"

text \<open>\<open>s.split(":")\<close> and \<open>":".join(items)\<close>.\<close>

fun split_colons :: "string \<Rightarrow> string list" where
  "split_colons [] = ['''']"
| "split_colons (c # cs) =
     (if c = CHR '':'' then '''' # split_colons cs
      else (case split_colons cs of x # xs \<Rightarrow> (c # x) # xs | [] \<Rightarrow> [[c]]))"

fun join_colons :: "string list \<Rightarrow> string" where
  "join_colons [] = ''''"
| "join_colons [x] = x"
| "join_colons (x # xs) = x @ '':'' @ join_colons xs"

section \<open>The server's environment\<close>

definition custom_opp_env :: "host \<Rightarrow> (string, string) dict \<Rightarrow> exn + (string, string) dict" where
  "custom_opp_env h env =
     (let raw = env_str (ho_env h) ''VLLM_ASCEND_RESIDENT_EPOCH_CHILD_ASCEND_CUSTOM_OPP_PATH''
      in if raw = '''' then Inr env
      else let roots = map (ho_resolve h) (split_colons raw) in
        if \<not> list_all (ho_is_dir h) roots then Inl (RuntimeError ''resident sidecar custom OPP path is invalid'')
        else Inr (AList.update ''ASCEND_CUSTOM_OPP_PATH'' (join_colons roots) env))"

definition library_path_env :: "host \<Rightarrow> (string, string) dict \<Rightarrow> exn + (string, string) dict" where
  "library_path_env h env =
     (let raw = env_str (ho_env h) ''VLLM_ASCEND_RESIDENT_EPOCH_CHILD_LIBRARY_PATH''
      in if raw = '''' then Inr env
      else let roots = map (ho_resolve h) (split_colons raw) in
        if \<not> list_all (ho_is_dir h) roots then Inl (RuntimeError ''resident sidecar library path is invalid'')
        else let inherited = env_str env ''LD_LIBRARY_PATH'' in
          Inr (AList.update ''LD_LIBRARY_PATH''
            (join_colons (roots @ (if inherited = '''' then [] else [inherited]))) env))"

definition trace_env :: "host \<Rightarrow> (string, string) dict \<Rightarrow> exn + (string, string) dict" where
  "trace_env h env =
     (let library_raw = env_str (ho_env h) ''VLLM_ASCEND_RESIDENT_EPOCH_MEMCPY_TRACE_LIBRARY'';
          path_raw = env_str (ho_env h) ''VLLM_ASCEND_RESIDENT_EPOCH_MEMCPY_TRACE_PATH''
      in if (library_raw = '''') \<noteq> (path_raw = '''') then
        Inl (RuntimeError ''memcpy trace library and output path must be set together'')
      else if library_raw = '''' then Inr env
      else let library = ho_resolve h library_raw; path = ho_resolve h path_raw in
        if \<not> ho_is_file h library then Inl (RuntimeError (''memcpy trace library is missing: '' @ library))
        else if \<not> in_shm library then Inl (RuntimeError ''memcpy trace library must be in /dev/shm'')
        else if \<not> in_shm path then Inl (RuntimeError ''memcpy trace output must be in /dev/shm'')
        else if ho_exists h path then Inl (RuntimeError (''memcpy trace output already exists: '' @ path))
        else rbind (ho_mkdir h path) (\<lambda>_.
          let preload = env_str env ''LD_PRELOAD'' in
          Inr (AList.update ''ASCEND_RT_MEMCPY_TRACE_PATH'' path
            (AList.update ''LD_PRELOAD'' (if preload = '''' then library else library @ '':'' @ preload) env))))"

section \<open>The command line\<close>

record launch =
  la_socket_path :: string
  la_transfer_path :: string
  la_command :: "string list"
  la_env :: "(string, string) dict"

definition reset_path :: "host \<Rightarrow> string \<Rightarrow> exn + unit" where
  "reset_path h path =
     (case ho_unlink_error h path of
        None \<Rightarrow> Inr ()
      | Some m \<Rightarrow> Inl (RuntimeError (''cannot reset sidecar socket: '' @ m)))"

text \<open>
  Everything up to \<open>subprocess.Popen\<close>. A resolved path under \<open>/dev/shm/\<close> ends in its name, so
  \<open>with_name(name + suffix)\<close> appends the suffix.
\<close>

definition prepare_launch :: "host \<Rightarrow> exn + launch" where
  "prepare_launch h =
     rbind (required_path h ''VLLM_ASCEND_RESIDENT_EPOCH_SERVER'' False) (\<lambda>server.
     rbind (required_path h ''VLLM_ASCEND_RESIDENT_EPOCH_AIR'' False) (\<lambda>air.
     rbind (required_path h ''VLLM_ASCEND_RESIDENT_EPOCH_GRAPH_CONFIG'' False) (\<lambda>graph_config.
     rbind (required_path h ''VLLM_ASCEND_RESIDENT_EPOCH_FUNC_CONFIG'' False) (\<lambda>func_config.
     rbind (required_path h ''VLLM_ASCEND_RESIDENT_EPOCH_TILING'' False) (\<lambda>tiling.
     rbind (required_path h ''VLLM_ASCEND_RESIDENT_EPOCH_EXTERNAL_WEIGHTS'' True) (\<lambda>weights.
       let socket_raw = env_str (ho_env h) ''VLLM_ASCEND_RESIDENT_EPOCH_SOCKET'' in
       if socket_raw = '''' then Inl (RuntimeError ''VLLM_ASCEND_RESIDENT_EPOCH_SOCKET is required'')
       else let socket_path = ho_resolve h socket_raw; transfer_path = socket_path @ ''.kv-transfer'' in
       if \<not> in_shm socket_path then Inl (RuntimeError ''resident epoch socket must be under /dev/shm'')
       else if \<not> in_shm weights then Inl (RuntimeError ''resident epoch external weights must be in /dev/shm'')
       else if \<not> in_shm transfer_path then Inl (RuntimeError ''resident KV transfer file must be under /dev/shm'')
       else
         rbind (custom_opp_env h (ho_env h)) (\<lambda>env1.
         rbind (library_path_env h env1) (\<lambda>env2.
         rbind (trace_env h env2) (\<lambda>child_env.
         rbind (reset_path h socket_path) (\<lambda>_.
         rbind (reset_path h transfer_path) (\<lambda>_.
           Inr \<lparr>la_socket_path = socket_path, la_transfer_path = transfer_path,
                la_command = [server, socket_path, air, graph_config, func_config, weights, tiling],
                la_env = child_env\<rparr>)))))))))))"

section \<open>Waiting for the server\<close>

text \<open>
  One look of the startup loop at the process and the socket: the exit status, whether the
  socket exists, and whether a connection is accepted. The list ends when the deadline passes.
\<close>

record look =
  lk_status :: "int option"
  lk_exists :: bool
  lk_connects :: bool

fun await_socket :: "look list \<Rightarrow> exn + bool" where
  "await_socket [] = Inr False"
| "await_socket (l # ls) =
     (case lk_status l of
        Some st \<Rightarrow> Inl (RuntimeError (''resident epoch sidecar exited during startup with status '' @ int_str st))
      | None \<Rightarrow> if lk_exists l \<and> lk_connects l then Inr True else await_socket ls)"

definition startup_timeout :: "(string, string) dict \<Rightarrow> exn + int" where
  "startup_timeout env =
     (case int_parse (case map_of env ''VLLM_ASCEND_RESIDENT_EPOCH_STARTUP_TIMEOUT'' of None \<Rightarrow> ''3600'' | Some v \<Rightarrow> v) of
        None \<Rightarrow> Inl (ValueError ''invalid literal for int() with base 10'')
      | Some n \<Rightarrow> Inr n)"

text \<open>The first response, which reports the native initialization.\<close>

definition read_startup :: "sidecar \<Rightarrow> (exn + unit) \<times> sidecar" where
  "read_startup s =
     (case receive_response s of
        (Inl e, s1) \<Rightarrow> (Inl e, s1)
      | (Inr startup, s1) \<Rightarrow>
          (if startup ! 1 \<noteq> 0 then
             (case sidecar_close True s1 of
                (Inl e, s2) \<Rightarrow> (Inl e, s2)
              | (Inr _, s2) \<Rightarrow>
                  (Inl (RuntimeError (''resident epoch sidecar native initialization failed: '' @ int_str (startup ! 1))), s2))
           else (Inr (), s1)))"

definition spawn :: "launch \<Rightarrow> sidecar \<Rightarrow> sidecar" where
  "spawn la s =
     s\<lparr>sd_open := False, sd_sent := [], sd_process := None, sd_socket_path := la_socket_path la,
       sd_transfer_path := la_transfer_path la,
       sd_files := (sd_files s)(la_socket_path la := None, la_transfer_path la := None)\<rparr>"

definition last_status :: "look list \<Rightarrow> int option" where
  "last_status looks =
     (case dropWhile (\<lambda>l. lk_status l = None) looks of [] \<Rightarrow> None | l # _ \<Rightarrow> lk_status l)"

text \<open>
  The constructor; \<open>peer\<close> holds what the server will send and how it exits. No state means
  that no process was started.
\<close>

definition sidecar_init :: "host \<Rightarrow> look list \<Rightarrow> sidecar \<Rightarrow> (exn + unit) \<times> sidecar option" where
  "sidecar_init h looks peer =
     (case prepare_launch h of
        Inl e \<Rightarrow> (Inl e, None)
      | Inr la \<Rightarrow>
          (let s = spawn la peer in
           case startup_timeout (ho_env h) of
             Inl e \<Rightarrow> (Inl e, Some s)
           | Inr _ \<Rightarrow>
               (case await_socket looks of
                  Inl e \<Rightarrow> (Inl e, Some (s\<lparr>sd_process := last_status looks\<rparr>))
                | Inr False \<Rightarrow> (Inl (TimeoutError ''resident epoch sidecar socket startup timed out''), Some (stop_process s))
                | Inr True \<Rightarrow> (case read_startup (s\<lparr>sd_open := True\<rparr>) of (r, s1) \<Rightarrow> (r, Some s1)))))"

section \<open>What a started engine guarantees\<close>

lemma split_colons_nonempty: "split_colons s \<noteq> []"
  by (induction s) (auto split: list.split)

text \<open>Splitting undoes joining, so an inherited search path keeps its items.\<close>

lemma split_join: "xs \<noteq> [] \<Longrightarrow> \<forall>x \<in> set xs. CHR '':'' \<notin> set x \<Longrightarrow> split_colons (join_colons xs) = xs"
proof (induction xs rule: join_colons.induct)
  case (2 x)
  then show ?case by (induction x) auto
next
  case (3 x y ys)
  then have IH: "split_colons (join_colons (y # ys)) = y # ys" by simp
  have "CHR '':'' \<notin> set x \<Longrightarrow> split_colons (x @ '':'' @ join_colons (y # ys)) = x # y # ys"
  proof (induction x)
    case (Cons c cs)
    then have "c \<noteq> CHR '':''" by auto
    with Cons show ?case by simp
  qed (simp add: IH)
  with "3.prems" show ?case by simp
qed simp

lemma join_split: "join_colons (split_colons s) = s"
proof (induction s)
  case (Cons c cs)
  obtain x xs where split: "split_colons cs = x # xs" using split_colons_nonempty [of cs] by (cases "split_colons cs") auto
  with Cons have cs: "cs = join_colons (x # xs)" by simp
  show ?case using split by (cases xs) (auto simp: cs)
qed simp

lemma required_path_Inr:
  "required_path h name directory = Inr path \<longleftrightarrow>
     env_str (ho_env h) name \<noteq> '''' \<and> path = ho_resolve h (env_str (ho_env h) name)
     \<and> (if directory then ho_is_dir h path else ho_is_file h path)"
  unfolding required_path_def Let_def raise_if_Inr by (cases directory) auto

text \<open>The seven arguments of the server: all but the socket are existing files, the weights a directory.\<close>

definition command_ok :: "host \<Rightarrow> string list \<Rightarrow> bool" where
  "command_ok h command \<longleftrightarrow>
     (\<exists>server socket_path air graph_config func_config weights tiling.
        command = [server, socket_path, air, graph_config, func_config, weights, tiling]
        \<and> list_all (ho_is_file h) [server, air, graph_config, func_config, tiling]
        \<and> ho_is_dir h weights \<and> in_shm socket_path \<and> in_shm weights)"

lemma prepare_launch_paths:
  assumes "prepare_launch h = Inr la"
  shows "command_ok h (la_command la)" and "la_command la ! 1 = la_socket_path la"
    and "la_transfer_path la = la_socket_path la @ ''.kv-transfer''"
proof -
  have "command_ok h (la_command la) \<and> la_command la ! 1 = la_socket_path la
      \<and> la_transfer_path la = la_socket_path la @ ''.kv-transfer''"
    using assms unfolding prepare_launch_def Let_def rbind_Inr_iff raise_if_Inr required_path_Inr not_not if_True if_False
    apply (elim exE conjE)
    apply (drule Inr_inject)
    apply hypsubst
    apply (simp only: launch.simps command_ok_def list.pred_inject nth_Cons_0 One_nat_def nth_Cons_Suc)
    apply (intro conjI exI; (rule refl TrueI | assumption))
    done
  then show "command_ok h (la_command la)" "la_command la ! 1 = la_socket_path la"
    "la_transfer_path la = la_socket_path la @ ''.kv-transfer''" by simp_all
qed

lemma await_socket_connected:
  "await_socket looks = Inr True \<Longrightarrow> \<exists>l \<in> set looks. lk_status l = None \<and> lk_exists l \<and> lk_connects l"
  by (induction looks) (auto split: option.splits if_splits)

lemma read_startup_ok:
  "read_startup s = (Inr (), s') \<Longrightarrow>
     \<exists>vs rest. fst (receive_response s) = Inr vs \<and> vs ! 1 = 0 \<and> s' = s\<lparr>sd_inbox := rest\<rparr>"
  using receive_response_frame [of s]
  by (auto simp: read_startup_def split: prod.splits sum.splits if_splits)

lemma finish_close_gone:
  "\<not> sd_open (finish_close force s) \<and> sd_process (finish_close force s) \<noteq> None
   \<and> sd_files (finish_close force s) (sd_socket_path s) = None
   \<and> sd_files (finish_close force s) (sd_transfer_path s) = None"
  by (auto simp: finish_close_def stop_process_def Let_def split: option.split)

end
