(* ===== verification/Ctypes.thy ===== *)
theory Ctypes
  imports SidecarStart KvRows
begin

text \<open>
  \<open>ctypes_backend.py\<close>: the engine that calls the native library in-process. The library is an
  argument; what crosses the boundary are machine words, since \<open>c_int32(v)\<close> keeps the low bits
  of \<open>v\<close> without complaint, and \<open>.value\<close> reads them back as a signed number.
\<close>

section \<open>The boundary\<close>

text \<open>The arguments of \<open>resident_epoch_execute\<close>, by their C types.\<close>

record native_call =
  nc_handle :: "int option"
  nc_request_count :: "32 word"
  nc_max_steps :: "32 word"
  nc_token_ids :: "64 word list"
  nc_positions :: "64 word list"
  nc_sequence_lengths :: "32 word list"
  nc_eos_token_ids :: "32 word list"
  nc_row_generations :: "32 word list"
  nc_transfer_path :: "string option"
  nc_transfer_id :: "64 word"
  nc_ipc_metadata :: "byte list option"

text \<open>What it returns and writes through its pointers.\<close>

record native_return =
  nr_status :: "32 word"
  nr_tokens :: "64 word list"
  nr_executed :: "32 word list"
  nr_row_generations :: "32 word list"
  nr_model_calls :: "32 word"
  nr_device_status :: "32 word"
  nr_feed_calls :: "32 word"
  nr_fetch_calls :: "32 word"
  nr_commit_state :: "32 word"
  nr_kv_import_checksum :: "32 word"
  nr_wall_us :: "64 word"
  nr_native_cpu_us :: "64 word"
  nr_declared_input_bytes :: "64 word"
  nr_declared_output_bytes :: "64 word"

record 'n native_lib =
  nl_load :: "string \<Rightarrow> exn + unit"
  nl_create :: "string list \<Rightarrow> 'n \<Rightarrow> (int \<times> 32 word) \<times> 'n"
  nl_execute :: "native_call \<Rightarrow> 'n \<Rightarrow> native_return \<times> 'n"
  nl_destroy :: "int \<Rightarrow> 'n \<Rightarrow> 'n"

text \<open>An array of \<open>n\<close> zeros after the library has written to it.\<close>

definition filled :: "nat \<Rightarrow> 'w::len word list \<Rightarrow> 'w word list" where
  "filled n ws = take n (ws @ replicate n 0)"

lemma length_filled [simp]: "length (filled n ws) = n"
  by (simp add: filled_def)

text \<open>The engine; \<open>cs_calls\<close> records every call of \<open>resident_epoch_execute\<close> with its answer.\<close>

record 'n ctypes_state =
  cs_handle :: "int option"
  cs_native :: 'n
  cs_calls :: "(native_call \<times> native_return) list"
  cs_files :: files
  cs_pid :: int
  cs_write_fault :: io_fault
  cs_resolve :: "string \<Rightarrow> string"

section \<open>Construction\<close>

definition ctypes_required_path :: "host \<Rightarrow> string \<Rightarrow> bool \<Rightarrow> exn + string" where
  "ctypes_required_path h name directory =
     (let raw = env_str (ho_env h) name
      in if raw = '''' then Inl (RuntimeError (name @ '' is required by the DataFlow backend''))
      else let path = ho_resolve h raw in
        if \<not> (if directory then ho_is_dir h path else ho_is_file h path) then
          Inl (RuntimeError (name @ '' must name an existing ''
            @ (if directory then ''directory'' else ''file'') @ '': '' @ path))
        else Inr path)"

definition ctypes_paths :: "host \<Rightarrow> exn + string \<times> string list" where
  "ctypes_paths h =
     rbind (ctypes_required_path h ''VLLM_ASCEND_RESIDENT_EPOCH_LIBRARY'' False) (\<lambda>library_path.
     rbind (ctypes_required_path h ''VLLM_ASCEND_RESIDENT_EPOCH_AIR'' False) (\<lambda>air_path.
     rbind (ctypes_required_path h ''VLLM_ASCEND_RESIDENT_EPOCH_GRAPH_CONFIG'' False) (\<lambda>graph_config.
     rbind (ctypes_required_path h ''VLLM_ASCEND_RESIDENT_EPOCH_FUNC_CONFIG'' False) (\<lambda>func_config.
     rbind (ctypes_required_path h ''VLLM_ASCEND_RESIDENT_EPOCH_TILING'' False) (\<lambda>tiling_path.
     rbind (ctypes_required_path h ''VLLM_ASCEND_RESIDENT_EPOCH_EXTERNAL_WEIGHTS'' True) (\<lambda>external_weights.
       if \<not> in_shm external_weights then
         Inl (RuntimeError ''resident epoch external weights must be in /dev/shm'')
       else Inr (library_path, [air_path, graph_config, func_config, external_weights, tiling_path])))))))"

text \<open>A null pointer is \<open>None\<close>, as is a failed creation's handle. The state starts without a handle.\<close>

definition ctypes_init :: "'n native_lib \<Rightarrow> host \<Rightarrow> 'n ctypes_state \<Rightarrow> (exn + unit) \<times> 'n ctypes_state" where
  "ctypes_init lib h s =
     (case rbind (ctypes_paths h) (\<lambda>(library_path, arguments).
             rbind (nl_load lib library_path) (\<lambda>_. Inr arguments)) of
        Inl e \<Rightarrow> (Inl e, s)
      | Inr arguments \<Rightarrow>
          (case nl_create lib arguments (cs_native s) of
             ((handle, status), native) \<Rightarrow>
               let s1 = s\<lparr>cs_handle := (if handle = 0 then None else Some handle), cs_native := native\<rparr>
               in if cs_handle s1 = None \<or> sint status \<noteq> 0 then
                    (Inl (RuntimeError (''failed to create DataFlow resident epoch, status='' @ int_str (sint status))), s1)
                  else (Inr (), s1)))"

section \<open>Execution\<close>

text \<open>The body of the loop that places each request in its row.\<close>

definition place_request ::
  "epoch_request \<Rightarrow> int list \<times> int list \<times> int list \<times> int list \<Rightarrow> exn + int list \<times> int list \<times> int list \<times> int list" where
  "place_request q acc =
     (case acc of (tokens, positions, lengths, eos) \<Rightarrow>
        rbind (seq_set tokens (rq_row q) (rq_token_id q)) (\<lambda>tokens'.
        rbind (seq_set positions (rq_row q) (rq_position q)) (\<lambda>positions'.
        rbind (seq_set lengths (rq_row q) (rq_sequence_length q)) (\<lambda>lengths'.
        rbind (seq_set eos (rq_row q) (rq_eos_token_id q)) (\<lambda>eos'.
          Inr (tokens', positions', lengths', eos'))))))"

definition native_arguments ::
  "epoch_plan \<Rightarrow> int option \<Rightarrow> string option \<Rightarrow> int \<Rightarrow> byte list option \<Rightarrow> exn + native_call" where
  "native_arguments p handle transfer_path transfer_id metadata =
     rbind (fold_res place_request (pl_requests p)
         (replicate 4 0, replicate 4 0, replicate 4 0, replicate 4 151645)) (\<lambda>(tokens, positions, lengths, eos).
     rbind (plan_row_generations p) (\<lambda>generations.
       Inr \<lparr>nc_handle = handle, nc_request_count = word_of_int (int (length (pl_requests p))),
            nc_max_steps = word_of_int (pl_max_steps p), nc_token_ids = map word_of_int tokens,
            nc_positions = map word_of_int positions, nc_sequence_lengths = map word_of_int lengths,
            nc_eos_token_ids = map word_of_int eos, nc_row_generations = map word_of_int generations,
            nc_transfer_path = transfer_path, nc_transfer_id = word_of_int transfer_id,
            nc_ipc_metadata = metadata\<rparr>))"

definition native_commit_state :: "native_return \<Rightarrow> exn + commit_state" where
  "native_commit_state r =
     (let v = sint (nr_commit_state r)
      in if v = 0 then Inr PREPARED else if v = 1 then Inr EXECUTING else if v = 2 then Inr COMMITTED
         else Inl (ExecutionError ''resident_epoch_execute returned no valid commit state'' EXECUTING
                (Some (sint (nr_status r)))))"

text \<open>The tokens of a row, read one by one; an index past the array raises.\<close>

definition read_tokens :: "native_return \<Rightarrow> int \<Rightarrow> int \<Rightarrow> exn + int list" where
  "read_tokens r offset executed =
     map_res (\<lambda>step. rbind (seq_item (filled (4 * nat MAX_EPOCH_STEPS) (nr_tokens r)) (offset + int step))
       (\<lambda>w. Inr (sint w))) [0..<nat executed]"

definition native_tokens ::
  "epoch_plan \<Rightarrow> commit_state \<Rightarrow> native_return \<Rightarrow> epoch_request \<Rightarrow> (string, int list) dict \<Rightarrow>
   exn + (string, int list) dict" where
  "native_tokens p commit r q tokens_by_req =
     rbind (seq_item (filled 4 (nr_executed r)) (rq_row q)) (\<lambda>w.
       let executed = sint w in
       if executed < 0 \<or> pl_max_steps p < executed then
         Inl (ExecutionError ''native backend returned an invalid executed count'' commit None)
       else let offset = rq_row q * MAX_EPOCH_STEPS in
         rbind (read_tokens r offset executed) (\<lambda>tokens.
           Inr (AList.update (rq_id q) tokens tokens_by_req)))"

definition native_output_of :: "epoch_plan \<Rightarrow> bool \<Rightarrow> native_return \<Rightarrow> exn + native_output" where
  "native_output_of p imported r =
     rbind (native_commit_state r) (\<lambda>commit.
       if sint (nr_status r) \<noteq> 0 then
         Inl (ExecutionError (''resident_epoch_execute failed with status '' @ int_str (sint (nr_status r)))
           commit (Some (sint (nr_status r))))
       else
         rbind (fold_res (native_tokens p commit r) (pl_requests p) []) (\<lambda>tokens_by_req.
           Inr ((make_native_output (sint (nr_device_status r)) (sint (nr_model_calls r)) tokens_by_req
                 (map sint (filled 4 (nr_row_generations r))))
             \<lparr>no_commit_state := commit, no_feed_calls := sint (nr_feed_calls r),
              no_fetch_calls := sint (nr_fetch_calls r), no_wall_us := sint (nr_wall_us r),
              no_native_cpu_us := sint (nr_native_cpu_us r),
              no_declared_input_bytes := sint (nr_declared_input_bytes r),
              no_declared_output_bytes := sint (nr_declared_output_bytes r),
              no_kv_imported := imported,
              no_kv_import_checksum := take_bit 32 (sint (nr_kv_import_checksum r))\<rparr>)))"

definition ctypes_call ::
  "'n native_lib \<Rightarrow> epoch_plan \<Rightarrow> string option \<Rightarrow> int \<Rightarrow> byte list option \<Rightarrow> 'n ctypes_state \<Rightarrow>
   (exn + native_output) \<times> 'n ctypes_state" where
  "ctypes_call lib p transfer_path transfer_id metadata s =
     (if pl_graph_batch_size p \<noteq> 4 then
        (Inl (ValueError ''the ctypes backend owns only the static B=4 graph''), s)
      else (case native_arguments p (cs_handle s) transfer_path transfer_id metadata of
        Inl e \<Rightarrow> (Inl e, s)
      | Inr c \<Rightarrow>
          (case nl_execute lib c (cs_native s) of
             (r, native) \<Rightarrow>
               (native_output_of p (transfer_path \<noteq> None \<or> metadata \<noteq> None) r,
                s\<lparr>cs_native := native, cs_calls := cs_calls s @ [(c, r)]\<rparr>))))"

definition ctypes_execute :: "'n native_lib \<Rightarrow> epoch_plan \<Rightarrow> 'n ctypes_state \<Rightarrow> (exn + native_output) \<times> 'n ctypes_state" where
  "ctypes_execute lib p s = ctypes_call lib p None 0 None s"

definition ctypes_transfer_path :: "int \<Rightarrow> int \<Rightarrow> string" where
  "ctypes_transfer_path pid transfer_id =
     ''/dev/shm/cruise-kv-transfer-'' @ int_str pid @ ''-'' @ int_str transfer_id"

definition ctypes_execute_with_import ::
  "'n native_lib \<Rightarrow> epoch_plan \<Rightarrow> kv_snapshot \<Rightarrow> 'n ctypes_state \<Rightarrow> (exn + native_output) \<times> 'n ctypes_state" where
  "ctypes_execute_with_import lib p sn s =
     (let path = ctypes_transfer_path (cs_pid s) (sn_transfer_id sn)
      in case write_kv_snapshot (cs_resolve s) (cs_pid s) (cs_write_fault s) path sn (cs_files s) of
           (Inl e, states) \<Rightarrow> (Inl e, s\<lparr>cs_files := last states\<rparr>)
         | (Inr _, states) \<Rightarrow>
             (case ctypes_call lib p (Some path) (sn_transfer_id sn) None (s\<lparr>cs_files := last states\<rparr>) of
                (r, s1) \<Rightarrow> (r, s1\<lparr>cs_files := (cs_files s1)(path := None)\<rparr>)))"

text \<open>\<open>create_string_buffer\<close> ends the bytes with a zero.\<close>

definition ctypes_execute_with_device_transfer ::
  "'n native_lib \<Rightarrow> epoch_plan \<Rightarrow> device_transfer \<Rightarrow> 'n ctypes_state \<Rightarrow> (exn + native_output) \<times> 'n ctypes_state" where
  "ctypes_execute_with_device_transfer lib p t s =
     (case rbind (transfer_validate t) (\<lambda>_. wire_bytes t) of
        Inl e \<Rightarrow> (Inl e, s)
      | Inr metadata \<Rightarrow> ctypes_call lib p None (dt_transfer_id t) (Some (metadata @ [0])) s)"

definition ctypes_close :: "'n native_lib \<Rightarrow> 'n ctypes_state \<Rightarrow> (exn + unit) \<times> 'n ctypes_state" where
  "ctypes_close lib s =
     (case cs_handle s of
        None \<Rightarrow> (Inr (), s)
      | Some handle \<Rightarrow> (Inr (), s\<lparr>cs_native := nl_destroy lib handle (cs_native s), cs_handle := None\<rparr>))"

text \<open>The class defines no \<open>warm_up\<close>, so the backend's call of it raises.\<close>

definition ctypes_warm_up :: "'n ctypes_state \<Rightarrow> (exn + warmup_output) \<times> 'n ctypes_state" where
  "ctypes_warm_up s =
     (Inl (AttributeError (str_repr ''CtypesDataFlowEngine'' @ '' object has no attribute '' @ str_repr ''warm_up'')), s)"

definition ctypes_engine :: "'n native_lib \<Rightarrow> 'n ctypes_state engine" where
  "ctypes_engine lib =
     \<lparr>en_warm_up = ctypes_warm_up, en_execute = ctypes_execute lib,
      en_execute_with_import = Some (ctypes_execute_with_import lib),
      en_execute_with_device_transfer = Some (ctypes_execute_with_device_transfer lib),
      en_close = Some (ctypes_close lib)\<rparr>"

section \<open>The engine contract\<close>

text \<open>The library was not called, or its only answer says that nothing was committed.\<close>

definition native_untouched :: "'n ctypes_state \<Rightarrow> 'n ctypes_state \<Rightarrow> bool" where
  "native_untouched s s' \<longleftrightarrow>
     cs_calls s' = cs_calls s \<or> (\<exists>c r. cs_calls s' = cs_calls s @ [(c, r)] \<and> sint (nr_commit_state r) = 0)"

lemma no_execution_arguments [simp]: "no_execution (native_arguments p handle path transfer_id metadata)"
  unfolding native_arguments_def place_request_def
  by (intro no_execution_intros; simp split: prod.split; intro allI impI no_execution_intros) simp_all

lemma no_execution_read [simp]: "no_execution (read_tokens r offset executed)"
  unfolding read_tokens_def by (intro no_execution_intros) simp_all

lemma native_tokens_error: "fold_res (native_tokens p commit r) qs d = Inl (ExecutionError m c st) \<Longrightarrow> c = commit"
proof (induction qs arbitrary: d)
  case (Cons q qs)
  then show ?case
  proof (cases "native_tokens p commit r q d")
    case (Inl e)
    with Cons.prems have "native_tokens p commit r q d = Inl (ExecutionError m c st)" by simp
    then show ?thesis
      by (auto simp: native_tokens_def rbind_Inl_iff Let_def split: if_splits
          dest!: no_executionD [OF no_execution_read] no_executionD [OF no_execution_seq(1)])
  next
    case (Inr d1)
    with Cons show ?thesis by simp
  qed
qed simp

lemma native_output_prepared:
  assumes "native_output_of p imported r = Inl (ExecutionError m PREPARED st)
    \<or> native_output_of p imported r = Inr out \<and> no_commit_state out = PREPARED"
  shows "sint (nr_commit_state r) = 0"
  using assms native_tokens_error [of p _ r "pl_requests p" "[]" m PREPARED st]
  by (auto simp: native_output_of_def native_commit_state_def Let_def rbind_Inr_iff rbind_Inl_iff split: if_splits)

lemma native_tokens_ok:
  assumes "native_tokens p commit r q d = Inr d'"
  shows "\<exists>tokens. d' = AList.update (rq_id q) tokens d \<and> int (length tokens) \<le> max 0 (pl_max_steps p)"
  using assms by (auto simp: native_tokens_def read_tokens_def rbind_Inr_iff Let_def dest!: map_res_length split: if_splits)

lemma native_output_ok:
  assumes "native_output_of p imported r = Inr out" and "plan_wf p"
  shows "keys (no_token_ids out) = plan_req_ids p
    \<and> (\<forall>(k, tokens) \<in> set (no_token_ids out). int (length tokens) \<le> max 0 (pl_max_steps p))"
proof -
  have "\<exists>commit. fold_res (native_tokens p commit r) (pl_requests p) [] = Inr (no_token_ids out)"
    using assms(1) by (auto simp: native_output_of_def rbind_Inr_iff make_native_output_def split: if_splits)
  then obtain commit where "fold_res (native_tokens p commit r) (pl_requests p) [] = Inr (no_token_ids out)" ..
  from plan_fold_updates [where m = "max 0 (pl_max_steps p)", OF assms(2) native_tokens_ok this] show ?thesis .
qed

text \<open>A call of any operation is refused, or is one call of the library and what its answer means.\<close>

lemma ctypes_call_cases:
  assumes "ctypes_call lib p path transfer_id metadata s = (res, s')"
  obtains (refused) e where "res = Inl e" "plain_exn e" "cs_calls s' = cs_calls s"
  | (called) c r where "cs_calls s' = cs_calls s @ [(c, r)]"
      "res = native_output_of p (path \<noteq> None \<or> metadata \<noteq> None) r"
proof (cases "native_arguments p (cs_handle s) path transfer_id metadata")
  case (Inl e)
  with no_executionD [OF no_execution_arguments Inl] assms refused show thesis
    by (auto simp: ctypes_call_def split: if_splits)
next
  case (Inr c)
  with assms refused called show thesis by (auto simp: ctypes_call_def split: if_splits prod.splits)
qed

lemma ctypes_engine_cases:
  assumes "call_engine (ctypes_engine lib) p snapshot transfer s = (res, s')"
  obtains (refused) e where "res = Inl e" "plain_exn e" "cs_calls s' = cs_calls s"
  | (called) imported c r where "cs_calls s' = cs_calls s @ [(c, r)]" "res = native_output_of p imported r"
proof (cases transfer)
  case (Some t)
  show thesis
  proof (cases "rbind (transfer_validate t) (\<lambda>_. wire_bytes t)")
    case (Inl e)
    have "no_execution (rbind (transfer_validate t) (\<lambda>_. wire_bytes t))" by (intro no_execution_intros) simp_all
    from no_executionD [OF this Inl] Inl Some assms show thesis
      by (intro refused [of e])
        (auto simp: call_engine_def ctypes_engine_def ctypes_execute_with_device_transfer_def)
  next
    case (Inr metadata)
    with Some assms have "ctypes_call lib p None (dt_transfer_id t) (Some (metadata @ [0])) s = (res, s')"
      by (simp add: call_engine_def ctypes_engine_def ctypes_execute_with_device_transfer_def)
    then show thesis by (cases rule: ctypes_call_cases) (auto intro: that)
  qed
next
  case None
  show thesis
  proof (cases snapshot)
    case None
    with \<open>transfer = None\<close> assms have "ctypes_call lib p None 0 None s = (res, s')"
      by (simp add: call_engine_def ctypes_engine_def ctypes_execute_def)
    then show thesis by (cases rule: ctypes_call_cases) (auto intro: that)
  next
    case (Some sn)
    let ?path = "ctypes_transfer_path (cs_pid s) (sn_transfer_id sn)"
    obtain w states where wrote: "write_kv_snapshot (cs_resolve s) (cs_pid s) (cs_write_fault s) ?path sn (cs_files s) = (w, states)"
      by fastforce
    have run: "ctypes_execute_with_import lib p sn s = (res, s')"
      using None Some assms by (simp add: call_engine_def ctypes_engine_def)
    show thesis
    proof (cases w)
      case (Inl e)
      have "no_execution w" using no_execution_write wrote by (metis fst_conv)
      with Inl wrote run show thesis
        by (intro refused [of e]) (auto simp: ctypes_execute_with_import_def Let_def)
    next
      case (Inr u)
      obtain res1 s1 where call: "ctypes_call lib p (Some ?path) (sn_transfer_id sn) None (s\<lparr>cs_files := last states\<rparr>) = (res1, s1)"
        using prod.exhaust by blast
      with Inr wrote run have "res = res1" "cs_calls s' = cs_calls s1"
        by (auto simp: ctypes_execute_with_import_def Let_def)
      with call show thesis by (cases rule: ctypes_call_cases) (auto intro: that)
    qed
  qed
qed

interpretation ctypes: native_engine "ctypes_engine lib" native_untouched for lib :: "'n native_lib"
proof
  fix p snapshot transfer and s s' :: "'n ctypes_state" and out k tokens m st
  show "native_untouched s s" by (simp add: native_untouched_def)
  show "native_untouched s s'" if "call_engine (ctypes_engine lib) p snapshot transfer s = (Inl (ExecutionError m PREPARED st), s')"
    using that native_output_prepared
    by (cases rule: ctypes_engine_cases) (auto simp: native_untouched_def, metis)
  show "native_untouched s s'" if "call_engine (ctypes_engine lib) p snapshot transfer s = (Inr out, s')"
    "no_commit_state out = PREPARED"
    using that(1)
  proof (cases rule: ctypes_engine_cases)
    case (called imported c r)
    with that(2) native_output_prepared have "sint (nr_commit_state r) = 0" by metis
    with called show ?thesis by (auto simp: native_untouched_def)
  qed simp
  assume wf: "plan_wf p" and call: "call_engine (ctypes_engine lib) p snapshot transfer s = (Inr out, s')"
  from call obtain imported r where "native_output_of p imported r = Inr out"
    by (cases rule: ctypes_engine_cases) auto
  from native_output_ok [OF this wf] show "keys (no_token_ids out) = plan_req_ids p"
    "(k, tokens) \<in> set (no_token_ids out) \<Longrightarrow> int (length tokens) \<le> max 0 (pl_max_steps p)" by auto
qed

end
