(* ===== verification/TransportProps.thy ===== *)
theory TransportProps
  imports CoreProps Testing Ctypes
begin

text \<open>
  The properties of the backend and its engines: what an accepted output guarantees, what
  \<open>PREPARED\<close> means for each transport, how the sidecar's stream is read and written, and that
  the two transports give the native code the same inputs.
\<close>

section \<open>The backend\<close>

text \<open>C22: What the backend returns is accepted by the scheduler: the result it attached is read back
  as a device result, the tokens are read back per request, and the two pass validation
  against the plan.\<close>

theorem backend_output_accounted:
  assumes "backend_execute eng p snapshot transfer s = (Inr ro, s')"
  shows "\<exists>r sampled. get_result (ro_result ro) = Inr (Some r) \<and> on_device r \<and> sampled_by_req ro p = Inr sampled
    \<and> validate_against r p sampled = Inr () \<and> ro_req_ids ro = plan_req_ids p"
  using backend_output_accepted [OF assms] by (auto simp: get_result_def)

definition plain_example :: epoch_plan where
  "plain_example = plan_example
     \<lparr>pl_requests := map (\<lambda>q. q\<lparr>rq_kv_import_required := False\<rparr>) (pl_requests plan_example)\<rparr>"

lemma plain_example_wf: "plan_wf plain_example"
  unfolding plan_validate_iff_wf [symmetric] by code_simp

lemma plain_example_facts:
  "pl_graph_batch_size plain_example = 4" "1 \<le> pl_max_steps plain_example"
  "\<forall>q \<in> set (pl_requests plain_example). \<not> rq_kv_import_required q"
  by (simp_all add: plain_example_def plan_example_def)

theorem backend_output_accounted_witness:
  "\<exists>ro s' r. backend_execute test_engine plain_example None None create_test_engine = (Inr ro, s')
     \<and> get_result (ro_result ro) = Inr (Some r) \<and> on_device r"
  using test.backend_answers [OF plain_example_wf plain_example_facts] backend_output_accounted
  by (metis (no_types))



section \<open>What PREPARED means\<close>

text \<open>C23: Through the sidecar, a \<open>PREPARED\<close> error of the backend comes with evidence: either no byte
  of a request was handed to the socket, or the server's response to it carries the state
  \<open>PREPARED\<close>.\<close>

theorem sidecar_prepared_evidence:
  assumes "backend_execute sidecar_engine p snapshot transfer s = (Inl (ExecutionError m PREPARED st), s')"
  shows "sd_sent s' = sd_sent s \<or> (\<exists>vs. fst (receive_response s) = Inr vs \<and> vs ! 6 = 0)"
  using sidecar.backend_prepared [OF assms] by (simp add: untouched_def)

definition closed_sidecar :: sidecar where
  "closed_sidecar =
     \<lparr>sd_open = False, sd_sent = [], sd_send_faults = [], sd_inbox = [], sd_process = Some 0, sd_exits = True,
      sd_files = (\<lambda>_. None), sd_socket_path = ''/dev/shm/s'', sd_transfer_path = ''/dev/shm/s.kv-transfer'',
      sd_pid = 1, sd_write_fault = NoFault\<rparr>"

lemma closed_sent: "sd_sent closed_sidecar = []"
  by (simp add: closed_sidecar_def)

lemma closed_execute:
  "backend_execute sidecar_engine plain_example None None closed_sidecar
     = (Inl (ExecutionError ''resident epoch sidecar is closed'' PREPARED None), closed_sidecar)"
  using plain_example_wf
  by (simp add: backend_execute_def plan_validate_iff_wf [symmetric] call_engine_def sidecar_engine_def
      sidecar_execute_def raw_execute_def closed_sidecar_def reclassify_def)

theorem sidecar_prepared_evidence_witness:
  "sd_sent (snd (backend_execute sidecar_engine plain_example None None closed_sidecar)) = []
   \<or> (\<exists>vs. fst (receive_response closed_sidecar) = Inr vs \<and> vs ! 6 = 0)"
  using sidecar_prepared_evidence [OF closed_execute] by (simp only: closed_execute closed_sent snd_conv)

text \<open>Through the native library, a \<open>PREPARED\<close> error of the backend means that the library was
  not called, or was called once and answered \<open>PREPARED\<close> itself.\<close>

lemma ctypes_prepared_evidence:
  assumes "backend_execute (ctypes_engine lib) p snapshot transfer s = (Inl (ExecutionError m PREPARED st), s')"
  shows "cs_calls s' = cs_calls s
    \<or> (\<exists>c r. cs_calls s' = cs_calls s @ [(c, r)] \<and> sint (nr_commit_state r) = 0)"
  using ctypes.backend_prepared [OF assms] by (simp add: native_untouched_def)

text \<open>A library that refuses every epoch before it starts.\<close>

definition refusing_return :: native_return where
  "refusing_return =
     \<lparr>nr_status = 7, nr_tokens = [], nr_executed = [], nr_row_generations = [], nr_model_calls = 0,
      nr_device_status = 0, nr_feed_calls = 0, nr_fetch_calls = 0, nr_commit_state = 0,
      nr_kv_import_checksum = 0, nr_wall_us = 0, nr_native_cpu_us = 0, nr_declared_input_bytes = 0,
      nr_declared_output_bytes = 0\<rparr>"

definition refusing_lib :: "unit native_lib" where
  "refusing_lib =
     \<lparr>nl_load = (\<lambda>_. Inr ()), nl_create = (\<lambda>_ n. ((1, 0), n)), nl_execute = (\<lambda>_ n. (refusing_return, n)),
      nl_destroy = (\<lambda>_ n. n)\<rparr>"

definition ctypes_example :: "unit ctypes_state" where
  "ctypes_example =
     \<lparr>cs_handle = Some 1, cs_native = (), cs_calls = [], cs_files = (\<lambda>_. None), cs_pid = 1,
      cs_write_fault = NoFault, cs_resolve = (\<lambda>path. path)\<rparr>"

lemma ctypes_example_arguments: "\<exists>c. native_arguments plain_example (Some 1) None 0 None = Inr c"
  by (simp add: native_arguments_def plain_example_def plan_example_def place_request_def plan_row_generations_def)

lemma ctypes_example_execute:
  "\<exists>m s'. backend_execute (ctypes_engine refusing_lib) plain_example None None ctypes_example
     = (Inl (ExecutionError m PREPARED (Some 7)), s')"
  using plain_example_wf ctypes_example_arguments plain_example_facts(1)
  by (auto simp: backend_execute_def plan_validate_iff_wf [symmetric] call_engine_def ctypes_engine_def
      ctypes_execute_def ctypes_call_def ctypes_example_def refusing_lib_def refusing_return_def
      native_output_of_def native_commit_state_def reclassify_def)

theorem ctypes_prepared_evidence_witness:
  "\<exists>m s'. backend_execute (ctypes_engine refusing_lib) plain_example None None ctypes_example
       = (Inl (ExecutionError m PREPARED (Some 7)), s')
     \<and> (cs_calls s' = cs_calls ctypes_example
        \<or> (\<exists>c r. cs_calls s' = cs_calls ctypes_example @ [(c, r)] \<and> sint (nr_commit_state r) = 0))"
  using ctypes_example_execute ctypes_prepared_evidence by blast

end
