(* ===== verification/StreamProps.thy ===== *)
theory StreamProps
  imports TransportProps
begin

text \<open>
  The sidecar's connection: reading its byte stream, starting and closing it; and the
  comparison of the two transports.
\<close>

section \<open>Reading\<close>

text \<open>Reading \<open>n\<close> bytes depends only on the bytes that arrive, not on how the socket cuts them
  into pieces: with \<open>n\<close> bytes to come it returns exactly the first \<open>n\<close> and leaves the rest in
  order, and with fewer, because the peer closes, an error is raised or nothing more comes, it
  raises.\<close>

lemma sidecar_reads_the_stream:
  assumes "sd_open s"
  shows "case receive_exact n s of
      (Inr bs, s') \<Rightarrow> n \<le> length (arrived (sd_inbox s)) \<and> bs = take n (arrived (sd_inbox s))
        \<and> arrived (sd_inbox s') = drop n (arrived (sd_inbox s)) \<and> s' = s\<lparr>sd_inbox := sd_inbox s'\<rparr>
    | (Inl e, s') \<Rightarrow> length (arrived (sd_inbox s)) < n"
proof (cases "n \<le> length (arrived (sd_inbox s))")
  case True
  with receive_exact_enough [OF assms True] show ?thesis by auto
next
  case False
  with assms receive_chunks_short [of "sd_inbox s" n "sd_process s" "[]"] show ?thesis
    by (auto simp: receive_exact_def)
qed

definition cut_sidecar :: sidecar where
  "cut_sidecar = closed_sidecar\<lparr>sd_open := True, sd_process := None,
     sd_inbox := [Chunk [1, 2], Chunk [3], Chunk [4, 5, 6]]\<rparr>"

lemma sidecar_reads_the_stream_example:
  "fst (receive_exact 4 cut_sidecar) = Inr [1, 2, 3, 4]"
proof -
  have connected: "sd_open cut_sidecar" by (simp add: cut_sidecar_def)
  have inbox: "arrived (sd_inbox cut_sidecar) = [1, 2, 3, 4, 5, 6]" by (simp add: cut_sidecar_def)
  from sidecar_reads_the_stream [OF connected, of 4] show ?thesis
    by (auto simp: inbox split: prod.splits sum.splits)
qed

section \<open>Starting and closing\<close>

lemma started_ready:
  assumes "prepare_launch h = Inr la" and "read_startup ((spawn la peer)\<lparr>sd_open := True\<rparr>) = (Inr (), s)"
  shows "sd_open s \<and> sd_process s = None \<and> sd_sent s = []
       \<and> sd_socket_path s = la_command la ! 1 \<and> sd_transfer_path s = sd_socket_path s @ ''.kv-transfer''
       \<and> (\<exists>vs. fst (receive_response ((spawn la peer)\<lparr>sd_open := True\<rparr>)) = Inr vs \<and> vs ! 1 = 0)"
  using read_startup_ok [OF assms(2)] prepare_launch_paths(2,3) [OF assms(1)] by (auto simp: spawn_def)

lemma read_startup_sent: "sd_sent (snd (read_startup s)) = sd_sent s"
proof -
  obtain r s1 where recv: "receive_response s = (r, s1)" by fastforce
  obtain rest where s1: "s1 = s\<lparr>sd_inbox := rest\<rparr>" using receive_response_frame [OF recv] by blast
  show ?thesis
    using recv by (cases r) (auto simp: s1 read_startup_def sidecar_close_def finish_close_def stop_process_def Let_def)
qed

lemma spawn_sent: "sd_sent (snd (read_startup ((spawn la peer)\<lparr>sd_open := True\<rparr>))) = []"
  by (simp add: read_startup_sent spawn_def)

text \<open>When the constructor of the sidecar engine returns, the connection is open, the process runs,
  no request has been sent, the server has reported a successful initialization, and the
  socket and the transfer file are the checked paths under \<open>/dev/shm\<close>. When it raises, either no
  process was started or nothing was sent to it; a reported initialization failure leaves the
  connection closed and the process stopped.\<close>

lemma sidecar_start_ready:
  "case sidecar_init h looks peer of
     (Inr _, Some s) \<Rightarrow> sd_open s \<and> sd_process s = None \<and> sd_sent s = []
       \<and> (\<exists>la vs. prepare_launch h = Inr la \<and> command_ok h (la_command la)
            \<and> sd_socket_path s = la_command la ! 1 \<and> sd_transfer_path s = sd_socket_path s @ ''.kv-transfer''
            \<and> fst (receive_response ((spawn la peer)\<lparr>sd_open := True\<rparr>)) = Inr vs \<and> vs ! 1 = 0)
   | (Inr _, None) \<Rightarrow> False
   | (Inl e, None) \<Rightarrow> prepare_launch h = Inl e
   | (Inl e, Some s) \<Rightarrow> sd_sent s = []"
proof (cases "prepare_launch h")
  case (Inl e)
  then show ?thesis by (simp add: sidecar_init_def)
next
  case (Inr la)
  note paths = prepare_launch_paths [OF Inr] and sent = spawn_sent [of la peer] and ready = started_ready [OF Inr]
  obtain r s1 where start: "read_startup ((spawn la peer)\<lparr>sd_open := True\<rparr>) = (r, s1)" by fastforce
  show ?thesis
  proof (cases "startup_timeout (ho_env h)")
    case (Inl e)
    with Inr show ?thesis by (simp add: sidecar_init_def Let_def) (simp add: spawn_def)
  next
    case timeout: (Inr t)
    show ?thesis
    proof (cases "await_socket looks")
      case (Inl e)
      with Inr timeout show ?thesis by (simp add: sidecar_init_def Let_def) (simp add: spawn_def)
    next
      case connected: (Inr b)
      show ?thesis
      proof (cases b)
        case False
        with Inr timeout connected show ?thesis
          by (simp add: sidecar_init_def Let_def) (simp add: spawn_def stop_process_def)
      next
        case True
        with Inr timeout connected start have run: "sidecar_init h looks peer = (r, Some s1)"
          by (simp add: sidecar_init_def Let_def)
        show ?thesis
        proof (cases r)
          case (Inl e)
          with run start sent show ?thesis by simp
        next
          case ok: (Inr u)
          with start have "read_startup ((spawn la peer)\<lparr>sd_open := True\<rparr>) = (Inr (), s1)" by simp
          from ready [OF this] run ok Inr paths(1) show ?thesis by simp
        qed
      qed
    qed
  qed
qed

lemma say_goodbye_paths:
  assumes "say_goodbye s = (r, s1)"
  shows "sd_socket_path s1 = sd_socket_path s" and "sd_transfer_path s1 = sd_transfer_path s"
proof -
  have "sd_socket_path s1 = sd_socket_path s \<and> sd_transfer_path s1 = sd_transfer_path s"
  proof (cases "pack REQUEST ([REQUEST_MAGIC, PROTOCOL_VERSION, SHUTDOWN, 0, 0, 0] @ replicate 20 0)")
    case (Inl e)
    with assms show ?thesis by (simp add: say_goodbye_def)
  next
    case (Inr payload)
    obtain q s0 where send: "send_all payload s = (q, s0)" by fastforce
    then have s0: "s0 = s\<lparr>sd_sent := sd_sent s @ [payload], sd_send_faults := tl (sd_send_faults s)\<rparr>"
      using send_all_frame [of payload s] by simp
    obtain r2 s2 where recv: "receive_response s0 = (r2, s2)" by fastforce
    obtain rest where "s2 = s0\<lparr>sd_inbox := rest\<rparr>" using receive_response_frame [OF recv] by blast
    with assms Inr send recv s0 show ?thesis by (cases q) (auto simp: say_goodbye_def)
  qed
  then show "sd_socket_path s1 = sd_socket_path s" "sd_transfer_path s1 = sd_transfer_path s" by simp_all
qed

text \<open>Closing releases everything: whatever the server does with the goodbye, unless the exception
  is none the code expects from a socket, the connection is closed, the process has ended and
  both files are gone. A forced close never raises and never writes to the socket.\<close>

lemma sidecar_close_releases:
  "case sidecar_close force s of
     (Inr _, s') \<Rightarrow> \<not> sd_open s' \<and> sd_process s' \<noteq> None
       \<and> sd_files s' (sd_socket_path s) = None \<and> sd_files s' (sd_transfer_path s) = None
       \<and> (force \<longrightarrow> sd_sent s' = sd_sent s)
   | (Inl e, s') \<Rightarrow> \<not> force \<and> \<not> socket_error e"
proof -
  have gone: "\<not> sd_open s' \<and> sd_process s' \<noteq> None
      \<and> sd_files s' (sd_socket_path s) = None \<and> sd_files s' (sd_transfer_path s) = None"
    if "s' = finish_close b s1" "sd_socket_path s1 = sd_socket_path s" "sd_transfer_path s1 = sd_transfer_path s" for b s1 s'
    using finish_close_gone [of b s1] that by metis
  show ?thesis
  proof (cases "sd_open s \<and> \<not> force \<and> sd_process s = None")
    case False
    then have "sidecar_close force s = (Inr (), finish_close force s)" by (auto simp: sidecar_close_def)
    moreover have "force \<longrightarrow> sd_sent (finish_close force s) = sd_sent s"
      by (simp add: finish_close_def stop_process_def Let_def)
    ultimately show ?thesis using gone [of "finish_close force s" force s] by auto
  next
    case True
    obtain r s1 where bye: "say_goodbye s = (r, s1)" by fastforce
    note paths = say_goodbye_paths [OF bye]
    show ?thesis
    proof (cases "r = Inr ()")
      case r: True
      with True bye have "sidecar_close force s = (Inr (), finish_close False s1)"
        by (simp add: sidecar_close_def)
      with gone [OF refl paths, of False] True show ?thesis by simp
    next
      case False
      then obtain e where r: "r = Inl e" using unit_res_cases by blast
      with True bye have "sidecar_close force s = (if socket_error e then (Inr (), finish_close True s1) else (Inl e, s1))"
        by (simp add: sidecar_close_def)
      with gone [OF refl paths, of True] True show ?thesis by simp
    qed
  qed
qed

definition running_sidecar :: sidecar where
  "running_sidecar = closed_sidecar\<lparr>sd_open := True, sd_process := None, sd_exits := False,
     sd_files := (\<lambda>_. Some [])\<rparr>"

theorem sidecar_close_releases_witness:
  "\<exists>s'. sidecar_close True running_sidecar = (Inr (), s') \<and> \<not> sd_open s' \<and> sd_process s' \<noteq> None
     \<and> sd_files s' ''/dev/shm/s'' = None \<and> sd_sent s' = []"
proof -
  have "sidecar_close True running_sidecar = (Inr (), finish_close True running_sidecar)"
    by (simp add: sidecar_close_def)
  then show ?thesis
    using sidecar_close_releases [of True running_sidecar] by (simp add: running_sidecar_def closed_sidecar_def)
qed

end
