(* ===== verification/TransportAgree.thy ===== *)
theory TransportAgree
  imports StreamProps
begin

text \<open>
  The two transports carry the same plan to the native code and read the same output from
  the same answer, as long as the values fit the wire format; the message the sidecar packs
  is compared with the machine words the in-process call is given.
\<close>

lemma plain_example_steps: "pl_max_steps plain_example \<le> 8"
  by (simp add: plain_example_def plan_example_def)

section \<open>Inputs\<close>

lemma fits_words:
  "fld_fits I32 v \<Longrightarrow> sint (word_of_int v :: 32 word) = v"
  "fld_fits I64 v \<Longrightarrow> sint (word_of_int v :: 64 word) = v"
  "fld_fits U64 v \<Longrightarrow> uint (word_of_int v :: 64 word) = v"
  by (simp_all add: fld_fits_def sint_sbintrunc' signed_take_bit_int_eq_self uint_word_of_int)

lemma four_elements: "length xs = 4 \<Longrightarrow> \<exists>a b c d. xs = [a, b, c, d]"
  by (simp add: numeral_eq_Suc length_Suc_conv) blast

lemma replicate_4: "replicate 4 x = [x, x, x, x]"
  by (simp add: numeral_eq_Suc)

lemma plan_rows_4:
  assumes "plan_wf p" and "pl_graph_batch_size p = 4"
  shows "\<forall>q \<in> set (pl_requests p). 0 \<le> rq_row q \<and> rq_row q < 4" and "distinct (map rq_row (pl_requests p))"
  using assms by (simp_all add: plan_wf_def request_wf_def)

lemma by_row_overlay:
  assumes "plan_wf p" and "pl_graph_batch_size p = 4"
  shows "by_row p f fill = Inr (overlay f (pl_requests p) [fill, fill, fill, fill])"
  unfolding by_row_def GRAPH_BATCH_SIZE_def replicate_4
  by (rule fold_overlay) (use plan_rows_4 [OF assms] in simp_all)

lemma generations_overlay:
  assumes "plan_wf p" and "pl_graph_batch_size p = 4"
  shows "plan_row_generations p = Inr (overlay rq_generation (pl_requests p) [0, 0, 0, 0])"
proof -
  have "replicate (nat (pl_graph_batch_size p)) 0 = [0, 0, 0, 0 :: int]" by (simp add: assms(2) replicate_4)
  then show ?thesis
    unfolding plan_row_generations_def using plan_rows_4 [OF assms] by (simp add: fold_overlay)
qed

lemma place_overlay:
  assumes "\<forall>q \<in> set qs. 0 \<le> rq_row q \<and> rq_row q < 4" and "distinct (map rq_row qs)"
    and "length ts = 4" "length ps = 4" "length ls = 4" "length es = 4"
  shows "fold_res place_request qs (ts, ps, ls, es) =
    Inr (overlay rq_token_id qs ts, overlay rq_position qs ps, overlay rq_sequence_length qs ls,
      overlay rq_eos_token_id qs es)"
  using assms
proof (induction qs arbitrary: ts ps ls es)
  case (Cons q qs)
  then show ?case by (simp add: place_request_def overlay_Cons)
qed simp

lemma native_arguments_overlay:
  assumes "plan_wf p" and "pl_graph_batch_size p = 4"
  shows "native_arguments p handle path transfer_id metadata = Inr
    \<lparr>nc_handle = handle, nc_request_count = word_of_int (int (length (pl_requests p))),
     nc_max_steps = word_of_int (pl_max_steps p),
     nc_token_ids = map word_of_int (overlay rq_token_id (pl_requests p) [0, 0, 0, 0]),
     nc_positions = map word_of_int (overlay rq_position (pl_requests p) [0, 0, 0, 0]),
     nc_sequence_lengths = map word_of_int (overlay rq_sequence_length (pl_requests p) [0, 0, 0, 0]),
     nc_eos_token_ids = map word_of_int (overlay rq_eos_token_id (pl_requests p) [151645, 151645, 151645, 151645]),
     nc_row_generations = map word_of_int (overlay rq_generation (pl_requests p) [0, 0, 0, 0]),
     nc_transfer_path = path, nc_transfer_id = word_of_int transfer_id, nc_ipc_metadata = metadata\<rparr>"
  by (simp add: native_arguments_def replicate_4 place_overlay plan_rows_4 [OF assms] generations_overlay [OF assms])

text \<open>The values of a call in the order the wire format has them.\<close>

definition wire_of_call :: "int \<Rightarrow> native_call \<Rightarrow> int list" where
  "wire_of_call operation c =
     [REQUEST_MAGIC, PROTOCOL_VERSION, operation, sint (nc_request_count c), sint (nc_max_steps c),
      uint (nc_transfer_id c)] @ map sint (nc_token_ids c) @ map sint (nc_positions c)
     @ map sint (nc_sequence_lengths c) @ map sint (nc_eos_token_ids c) @ map sint (nc_row_generations c)"

lemma map_words_fit:
  "list_all (fld_fits I32) xs \<Longrightarrow> map (\<lambda>v. sint (word_of_int v :: 32 word)) xs = xs"
  "list_all (fld_fits I64) xs \<Longrightarrow> map (\<lambda>v. sint (word_of_int v :: 64 word)) xs = xs"
  by (induction xs) (auto simp: fits_words)

lemma list_all2_replicate: "list_all2 P (replicate n f) xs \<longleftrightarrow> length xs = n \<and> list_all (P f) xs"
  by (auto simp: list_all2_conv_all_nth list_all_length)

text \<open>A message is packed exactly when its values fit, and then the words of the call are its values.\<close>

lemma same_inputs:
  assumes "plan_wf p" and "pl_graph_batch_size p = 4"
    and "request_payload operation transfer_id p = Inr bs"
    and "native_arguments p handle path transfer_id metadata = Inr c"
  shows "unpack REQUEST bs = Inr (wire_of_call operation c)"
    and "map sint (nc_token_ids c) = overlay rq_token_id (pl_requests p) [0, 0, 0, 0]"
    and "map sint (nc_positions c) = overlay rq_position (pl_requests p) [0, 0, 0, 0]"
    and "map sint (nc_row_generations c) = overlay rq_generation (pl_requests p) [0, 0, 0, 0]"
proof -
  let ?t = "overlay rq_token_id (pl_requests p) [0, 0, 0, 0]" and ?p = "overlay rq_position (pl_requests p) [0, 0, 0, 0]"
    and ?l = "overlay rq_sequence_length (pl_requests p) [0, 0, 0, 0]"
    and ?e = "overlay rq_eos_token_id (pl_requests p) [151645, 151645, 151645, 151645]"
    and ?g = "overlay rq_generation (pl_requests p) [0, 0, 0, 0]"
  let ?vs = "[REQUEST_MAGIC, PROTOCOL_VERSION, operation, int (length (pl_requests p)), pl_max_steps p, transfer_id]
     @ ?t @ ?p @ ?l @ ?e @ ?g"
  have packed: "pack REQUEST ?vs = Inr bs"
    using assms(3) by (simp add: request_payload_def by_row_overlay [OF assms(1,2)] generations_overlay [OF assms(1,2)])
  then have "list_all2 fld_fits REQUEST ?vs" using pack_fits by blast
  then have fits: "fld_fits I32 (int (length (pl_requests p)))" "fld_fits I32 (pl_max_steps p)" "fld_fits U64 transfer_id"
    "list_all (fld_fits I64) ?t" "list_all (fld_fits I64) ?p" "list_all (fld_fits I32) ?l" "list_all (fld_fits I32) ?e"
    "list_all (fld_fits I32) ?g"
    by (simp_all add: REQUEST_def list_all2_append list_all2_replicate)
  have "wire_of_call operation c = ?vs"
    using assms(4) unfolding native_arguments_overlay [OF assms(1,2)]
    by (auto simp: wire_of_call_def comp_def map_words_fit fits fits_words
        fits_words(1) [OF fits(1), unfolded of_int_of_nat_eq])
  with unpack_pack [OF packed] show "unpack REQUEST bs = Inr (wire_of_call operation c)" by simp
  show "map sint (nc_token_ids c) = ?t" "map sint (nc_positions c) = ?p" "map sint (nc_row_generations c) = ?g"
    using assms(4) unfolding native_arguments_overlay [OF assms(1,2)]
    by (auto simp: comp_def map_words_fit fits)
qed

section \<open>Outputs\<close>

text \<open>The answer of the library in the order a response has it.\<close>

definition wire_of_return :: "native_return \<Rightarrow> int list" where
  "wire_of_return r =
     [RESPONSE_MAGIC, sint (nr_status r), sint (nr_device_status r), sint (nr_model_calls r),
      sint (nr_feed_calls r), sint (nr_fetch_calls r), sint (nr_commit_state r), sint (nr_kv_import_checksum r),
      sint (nr_wall_us r), sint (nr_native_cpu_us r), sint (nr_declared_input_bytes r),
      sint (nr_declared_output_bytes r)] @ map sint (filled 4 (nr_executed r))
     @ map sint (filled 4 (nr_row_generations r)) @ map sint (filled 32 (nr_tokens r))"

lemma wire_parts:
  "slice 12 4 (wire_of_return r) = map sint (filled 4 (nr_executed r))"
  "slice 16 4 (wire_of_return r) = map sint (filled 4 (nr_row_generations r))"
  "drop 20 (wire_of_return r) = map sint (filled 32 (nr_tokens r))"
  by (simp_all add: slice_def wire_of_return_def)

lemma read_tokens_slice:
  assumes "0 \<le> offset" and "0 \<le> n" and "offset + n \<le> 32"
  shows "read_tokens r offset n = Inr (py_slice (map sint (filled 32 (nr_tokens r))) offset (offset + n))"
proof -
  let ?f = "\<lambda>step. sint (filled 32 (nr_tokens r) ! nat (offset + int step))"
  have "read_tokens r offset n = Inr (map ?f [0..<nat n])"
    unfolding read_tokens_def by (rule map_res_total) (use assms in \<open>simp add: MAX_EPOCH_STEPS_def\<close>)
  also have "map ?f [0..<nat n] = take (nat n) (drop (nat offset) (map sint (filled 32 (nr_tokens r))))"
    using assms by (intro nth_equalityI) (auto simp: nat_add_distrib)
  also have "\<dots> = py_slice (map sint (filled 32 (nr_tokens r))) offset (offset + n)"
    using assms by (simp add: py_slice_def Let_def)
  finally show ?thesis .
qed

lemma same_tokens:
  assumes "0 \<le> rq_row q" and "rq_row q < 4" and "pl_max_steps p \<le> 8"
  shows "take_tokens p commit (wire_of_return r) q d = Inr d' \<longleftrightarrow> native_tokens p commit r q d = Inr d'"
proof -
  let ?n = "sint (filled 4 (nr_executed r) ! nat (rq_row q))"
  have item: "seq_item (filled 4 (nr_executed r)) (rq_row q) = Inr (filled 4 (nr_executed r) ! nat (rq_row q))"
    "seq_item (map sint (filled 4 (nr_executed r))) (rq_row q) = Inr ?n"
    using assms by simp_all
  have "read_tokens r (rq_row q * MAX_EPOCH_STEPS) ?n
      = Inr (py_slice (map sint (filled 32 (nr_tokens r))) (rq_row q * MAX_EPOCH_STEPS) (rq_row q * MAX_EPOCH_STEPS + ?n))"
    if "0 \<le> ?n" "?n \<le> pl_max_steps p"
    using that assms by (intro read_tokens_slice) (simp_all add: MAX_EPOCH_STEPS_def)
  then show ?thesis
    by (auto simp: take_tokens_def native_tokens_def wire_parts item Let_def)
qed

lemma fold_res_same:
  "(\<And>q d d'. q \<in> set qs \<Longrightarrow> step q d = Inr d' \<longleftrightarrow> step' q d = Inr d') \<Longrightarrow>
     fold_res step qs d = Inr d' \<longleftrightarrow> fold_res step' qs d = Inr d'"
  by (induction qs arbitrary: d) (auto simp: rbind_Inr_iff)

lemma same_commit_state:
  "commit_state_of (sint (nr_commit_state r)) = Inr c \<longleftrightarrow> native_commit_state r = Inr c"
  by (simp add: commit_state_of_def native_commit_state_def Let_def)

lemma same_outputs:
  assumes "plan_wf p" and "pl_graph_batch_size p = 4" and "pl_max_steps p \<le> 8"
    and "imported \<longleftrightarrow> operation = IMPORT_EXECUTE \<or> operation = DEVICE_IPC_EXECUTE"
  shows "response_output p operation (wire_of_return r) = Inr out \<longleftrightarrow> native_output_of p imported r = Inr out"
proof -
  have tokens: "fold_res (take_tokens p c (wire_of_return r)) (pl_requests p) [] = Inr ts
      \<longleftrightarrow> fold_res (native_tokens p c r) (pl_requests p) [] = Inr ts" for c ts
    by (rule fold_res_same) (use plan_rows_4 [OF assms(1,2)] assms(3) in \<open>simp add: same_tokens\<close>)
  have fields: "wire_of_return r ! 1 = sint (nr_status r)" "wire_of_return r ! 6 = sint (nr_commit_state r)"
    by (simp_all add: wire_of_return_def)
  show ?thesis
    unfolding response_output_def native_output_of_def fields rbind_Inr_iff same_commit_state raise_if_Inr tokens wire_parts assms(4)
    by (simp add: wire_of_return_def)
qed

section \<open>The properties\<close>

lemma sint_at: "map sint ws = xs \<Longrightarrow> i < length xs \<Longrightarrow> sint (ws ! i) = xs ! i"
  by auto

text \<open>C24: When the sidecar sends a plain epoch, it sends one message, and that message decodes to
  exactly the arguments, read as signed numbers, that the in-process engine passes to the
  library for the same plan; each request's token, position and generation is found in the
  request's row.\<close>

theorem transports_same_inputs:
  assumes "plan_wf p" and "pl_graph_batch_size p = 4"
    and "sidecar_execute p s = (res, s')" and "sd_sent s' \<noteq> sd_sent s" and "ctypes_execute lib p t = (res', t')"
  shows "\<exists>bs c ret. sd_sent s' = sd_sent s @ [bs] \<and> cs_calls t' = cs_calls t @ [(c, ret)]
    \<and> unpack REQUEST bs = Inr (wire_of_call EXECUTE c)
    \<and> (\<forall>q \<in> set (pl_requests p). sint (nc_token_ids c ! nat (rq_row q)) = rq_token_id q
         \<and> sint (nc_positions c ! nat (rq_row q)) = rq_position q
         \<and> sint (nc_row_generations c ! nat (rq_row q)) = rq_generation q)"
proof -
  obtain bs where bs: "request_payload EXECUTE 0 p = Inr bs" and sent: "sd_sent s' = sd_sent s @ [bs]"
    using assms(3,4) unfolding sidecar_execute_def
    by (cases rule: raw_execute_cases) (auto simp: rbind_Inr_iff with_metadata_def EXECUTE_def DEVICE_IPC_EXECUTE_def)
  obtain c where c: "native_arguments p (cs_handle t) None 0 None = Inr c"
    using native_arguments_overlay [OF assms(1,2)] by blast
  obtain ret n where "nl_execute lib c (cs_native t) = (ret, n)" by fastforce
  with assms(2,5) c have called: "cs_calls t' = cs_calls t @ [(c, ret)]"
    by (auto simp: ctypes_execute_def ctypes_call_def)
  note same = same_inputs [OF assms(1,2) bs c]
  have "sint (nc_token_ids c ! nat (rq_row q)) = rq_token_id q \<and> sint (nc_positions c ! nat (rq_row q)) = rq_position q
      \<and> sint (nc_row_generations c ! nat (rq_row q)) = rq_generation q" if q: "q \<in> set (pl_requests p)" for q
  proof -
    have row: "0 \<le> rq_row q" "rq_row q < 4" and dist: "distinct (map rq_row (pl_requests p))"
      using plan_rows_4 [OF assms(1,2)] q by auto
    have at: "overlay f (pl_requests p) [0, 0, 0, 0] ! nat (rq_row q) = f q" for f
      by (rule overlay_at [OF dist q]) (use row in simp_all)
    have short: "nat (rq_row q) < length (overlay f (pl_requests p) [0, 0, 0, 0])" for f using row by simp
    show ?thesis
      unfolding sint_at [OF same(2) short] sint_at [OF same(3) short] sint_at [OF same(4) short] at by simp
  qed
  with sent called same(1) show ?thesis by blast
qed

definition open_sidecar :: sidecar where
  "open_sidecar = closed_sidecar\<lparr>sd_open := True, sd_process := None\<rparr>"

lemma plain_example_packs: "\<exists>bs. request_payload EXECUTE 0 plain_example = Inr bs"
  using pack_fits
  by (simp add: request_payload_def by_row_def plan_row_generations_def plain_example_def plan_example_def
      GRAPH_BATCH_SIZE_def replicate_4)
    (simp add: REQUEST_def replicate_4 fld_fits_def REQUEST_MAGIC_def PROTOCOL_VERSION_def SIDECAR_PROTOCOL_VERSION_def EXECUTE_def)

lemma open_sidecar_sends: "\<exists>bs. sd_sent (snd (sidecar_execute plain_example open_sidecar)) = [bs]"
  using plain_example_packs plain_example_facts(1)
  by (auto simp: sidecar_execute_def raw_execute_def open_sidecar_def closed_sidecar_def GRAPH_BATCH_SIZE_def
      with_metadata_def EXECUTE_def DEVICE_IPC_EXECUTE_def send_all_def receive_response_def receive_exact_def Let_def
      split: prod.split sum.split)

theorem transports_same_inputs_witness:
  "\<exists>bs c. sd_sent (snd (sidecar_execute plain_example open_sidecar)) = [bs]
     \<and> unpack REQUEST bs = Inr (wire_of_call EXECUTE c) \<and> sint (nc_token_ids c ! 2) = 8"
proof -
  obtain res s' where run: "sidecar_execute plain_example open_sidecar = (res, s')" by fastforce
  obtain res' t' where call: "ctypes_execute refusing_lib plain_example ctypes_example = (res', t')" by fastforce
  have "sd_sent s' \<noteq> sd_sent open_sidecar"
    using open_sidecar_sends run by (auto simp: open_sidecar_def closed_sidecar_def)
  from transports_same_inputs [OF plain_example_wf plain_example_facts(1) run this call] run
  show ?thesis by (fastforce simp: open_sidecar_def closed_sidecar_def plain_example_def plan_example_def)
qed

text \<open>C25: From the same native answer the two transports compute the same output: whenever one
  accepts it, so does the other, with every field equal.\<close>

theorem transports_same_output:
  assumes "plan_wf p" and "pl_graph_batch_size p = 4" and "pl_max_steps p \<le> 8"
  shows "response_output p operation (wire_of_return r) = Inr out
    \<longleftrightarrow> native_output_of p (operation = IMPORT_EXECUTE \<or> operation = DEVICE_IPC_EXECUTE) r = Inr out"
  by (rule same_outputs [OF assms refl])

definition answering_return :: native_return where
  "answering_return = refusing_return
     \<lparr>nr_status := 0, nr_tokens := [1, 2, 3, 4], nr_executed := [4, 0, 0, 0], nr_commit_state := 2\<rparr>"

lemma answering_output: "\<exists>out. native_output_of plain_example False answering_return = Inr out"
  unfolding isl_neg_Inr [symmetric] plain_example_def plan_example_def answering_return_def refusing_return_def by code_simp

theorem transports_same_output_witness:
  "\<exists>out. response_output plain_example EXECUTE (wire_of_return answering_return) = Inr out
     \<and> native_output_of plain_example False answering_return = Inr out"
  using answering_output
    transports_same_output [OF plain_example_wf plain_example_facts(1) plain_example_steps, of EXECUTE answering_return]
  by (simp add: EXECUTE_def IMPORT_EXECUTE_def DEVICE_IPC_EXECUTE_def)

end
