(* ===== verification/Plugin.thy ===== *)
theory Plugin
  imports Ctypes Testing
begin

text \<open>
  \<open>plugin.py\<close> and \<open>triton_compat.py\<close>: the patched worker. A scheduler output with a plan goes to
  the resident backend; the stock worker runs it only when the backend could not be loaded or
  reports that it committed nothing, and then only if the Host still owns every request. The
  stock worker is an argument, as are the backend's engine and what loading it gives.
\<close>

section \<open>The fallback result\<close>

text \<open>What the stock \<open>execute_model\<close> returns: a \<open>ModelRunnerOutput\<close>, or some other object.\<close>

datatype host_output = Synchronous runner_output | OtherOutput

definition fallback_result :: "string list \<Rightarrow> epoch_result" where
  "fallback_result req_ids =
     (make_result CONTRACT_VERSION ''host_fallback'' 0 1 (fold (\<lambda>req_id. AList.update req_id 1) req_ids []))
       \<lparr>er_commit_state := PREPARED, er_fallback_safe := True, er_feed_calls := 0, er_fetch_calls := 0\<rparr>"

definition attach_host_fallback_result :: "host_output \<Rightarrow> string list \<Rightarrow> exn + runner_output" where
  "attach_host_fallback_result out req_ids =
     (case out of
        OtherOutput \<Rightarrow> Inl (TypeError ''resident epoch fallback requires synchronous ModelRunnerOutput'')
      | Synchronous ro \<Rightarrow> Inr (ro\<lparr>ro_result := attach_result (fallback_result req_ids)\<rparr>))"

section \<open>The patched worker\<close>

text \<open>
  The worker: the resident backend's engine, once loaded, its caches and exports, and the rest
  of the stock worker. \<open>wk_host_runs\<close> records the outputs the stock worker was asked to execute.
\<close>

record ('s, 'h) worker =
  wk_backend :: "'s option"
  wk_kv :: kv_worker
  wk_host :: 'h
  wk_host_runs :: "sched_output list"

type_synonym ('s, 'h) stock = "sched_output \<Rightarrow> ('s, 'h) worker \<Rightarrow> (exn + host_output) \<times> ('s, 'h) worker"

text \<open>What a worker's surroundings give: the environment, the ACL runtime, torch and random numbers.\<close>

record surroundings =
  su_env :: "(string, string) dict"
  su_api :: address_range
  su_acl :: export_api
  su_stack :: torch_stack
  su_transfer_random :: int
  su_snapshot_random :: int

definition run_host ::
  "('s, 'h) stock \<Rightarrow> sched_output \<Rightarrow> ('s, 'h) worker \<Rightarrow> (exn + host_output) \<times> ('s, 'h) worker" where
  "run_host stock out w =
     (case stock out w of (r, w') \<Rightarrow> (r, w'\<lparr>wk_host_runs := wk_host_runs w @ [out]\<rparr>))"

text \<open>Run the stock worker and attach the accounting metadata.\<close>

definition host_fallback ::
  "('s, 'h) stock \<Rightarrow> sched_output \<Rightarrow> epoch_plan \<Rightarrow> ('s, 'h) worker \<Rightarrow> (exn + host_output) \<times> ('s, 'h) worker" where
  "host_fallback stock out p w =
     (case run_host stock out w of
        (Inl e, w') \<Rightarrow> (Inl e, w')
      | (Inr output, w') \<Rightarrow>
          (rbind (attach_host_fallback_result output (plan_req_ids p)) (\<lambda>ro. Inr (Synchronous ro)), w'))"

definition run_backend ::
  "'s engine \<Rightarrow> epoch_plan \<Rightarrow> kv_snapshot option \<Rightarrow> device_transfer option \<Rightarrow> 's \<Rightarrow> ('s, 'h) worker \<Rightarrow>
   (exn + host_output) \<times> ('s, 'h) worker" where
  "run_backend eng p snapshot transfer s w =
     (case backend_execute eng p snapshot transfer s of
        (r, s') \<Rightarrow> (rbind r (\<lambda>ro. Inr (Synchronous ro)), w\<lparr>wk_backend := Some s'\<rparr>))"

text \<open>The body of the \<open>try\<close>: a device transfer if there is state to import, or a snapshot if that is allowed.\<close>

definition resident_attempt ::
  "'s engine \<Rightarrow> surroundings \<Rightarrow> epoch_plan \<Rightarrow> 's \<Rightarrow> ('s, 'h) worker \<Rightarrow> (exn + host_output) \<times> ('s, 'h) worker" where
  "resident_attempt eng su p s w =
     (if importing p = [] then run_backend eng p None None s w
      else (case capture_kv_device_transfer (su_api su) (su_acl su) (su_transfer_random su) p (wk_kv w) of
        (Inl e, kv) \<Rightarrow>
          (let w1 = w\<lparr>wk_kv := kv\<rparr>
           in if (case map_of (su_env su) ''VLLM_ASCEND_RESIDENT_EPOCH_ALLOW_HOST_KV_SNAPSHOT'' of
                    None \<Rightarrow> ''0'' | Some v \<Rightarrow> v) \<noteq> ''1'' then (Inl e, w1)
              else (case capture_kv_snapshot (su_stack su) (su_snapshot_random su) p kv of
                Inl e' \<Rightarrow> (Inl e', w1)
              | Inr snapshot \<Rightarrow> run_backend eng p (Some snapshot) None s w1))
      | (Inr transfer, kv) \<Rightarrow> run_backend eng p None (Some transfer) s (w\<lparr>wk_kv := kv\<rparr>)))"

definition attempt_or_fallback ::
  "'s engine \<Rightarrow> surroundings \<Rightarrow> ('s, 'h) stock \<Rightarrow> sched_output \<Rightarrow> epoch_plan \<Rightarrow> 's \<Rightarrow> ('s, 'h) worker \<Rightarrow>
   (exn + host_output) \<times> ('s, 'h) worker" where
  "attempt_or_fallback eng su stock out p s w =
     (case resident_attempt eng su p s w of
        (Inl (ExecutionError m c st), w') \<Rightarrow>
          (if \<not> input_preserving c \<or> \<not> host_replay_safe p then (Inl (ExecutionError m c st), w')
           else host_fallback stock out p w')
      | other \<Rightarrow> other)"

definition execute_model_with_fallback ::
  "'s engine \<Rightarrow> (exn + 's) \<Rightarrow> surroundings \<Rightarrow> ('s, 'h) stock \<Rightarrow> sched_output \<Rightarrow> ('s, 'h) worker \<Rightarrow>
   (exn + host_output) \<times> ('s, 'h) worker" where
  "execute_model_with_fallback eng loaded su stock out w =
     (case get_plan (so_plan out) of
        Inl e \<Rightarrow> (Inl e, w)
      | Inr None \<Rightarrow> run_host stock out w
      | Inr (Some p) \<Rightarrow>
          (case wk_backend w of
             Some s \<Rightarrow> attempt_or_fallback eng su stock out p s w
           | None \<Rightarrow>
               (case loaded of
                  Inl e \<Rightarrow> if \<not> host_replay_safe p then (Inl e, w) else host_fallback stock out p w
                | Inr s \<Rightarrow> attempt_or_fallback eng su stock out p s (w\<lparr>wk_backend := Some s\<rparr>))))"

section \<open>Registration and shutdown\<close>

text \<open>
  The class attributes \<open>register\<close> replaces: a method is the stock one or the wrapper around it.
\<close>

datatype 'm py_method = Stock 'm | Wrapped "'m py_method"

record 'm worker_class =
  wc_execute_model :: "'m py_method"
  wc_shutdown :: "'m py_method"
  wc_original_execute_model :: "'m py_method option"
  wc_original_shutdown :: "'m py_method option"

text \<open>\<open>triton.language.extra\<close>: its \<open>ascend\<close> attribute, and the module \<open>cann\<close>, by the functions of \<open>libdevice\<close>.\<close>

record triton_extra =
  te_ascend :: "string list option option"
  te_cann :: "exn + string list option"

definition has_pow :: "string list option \<Rightarrow> bool" where
  "has_pow libdevice = (case libdevice of None \<Rightarrow> False | Some functions \<Rightarrow> ''pow'' \<in> set functions)"

definition ensure_triton_ascend_runtime :: "triton_extra \<Rightarrow> (exn + string) \<times> triton_extra" where
  "ensure_triton_ascend_runtime t =
     (if (case te_ascend t of None \<Rightarrow> False | Some native \<Rightarrow> has_pow native) then
        (Inr ''triton.language.extra.ascend.libdevice.pow'', t)
      else (case te_cann t of
        Inl e \<Rightarrow> (Inl e, t)
      | Inr cann \<Rightarrow>
          (if \<not> has_pow cann then (Inl (AttributeError ''pow''), t)
           else (Inr ''triton.language.extra.cann.libdevice.pow'', t\<lparr>te_ascend := Some cann\<rparr>))))"

definition register :: "triton_extra \<times> 'm worker_class \<Rightarrow> (exn + unit) \<times> triton_extra \<times> 'm worker_class" where
  "register state =
     (case state of (t, c) \<Rightarrow>
        (case ensure_triton_ascend_runtime t of
           (Inl e, t') \<Rightarrow> (Inl e, t', c)
         | (Inr _, t') \<Rightarrow>
             (if wc_original_execute_model c \<noteq> None then (Inr (), t', c)
              else (Inr (), t', c\<lparr>wc_execute_model := Wrapped (wc_execute_model c), wc_shutdown := Wrapped (wc_shutdown c),
                    wc_original_execute_model := Some (wc_execute_model c),
                    wc_original_shutdown := Some (wc_shutdown c)\<rparr>))))"

text \<open>
  The patched \<open>shutdown\<close>: the \<open>finally\<close> block runs whether or not closing the backend raised; an
  exception of the stock shutdown replaces one of the backend.
\<close>

definition plugin_shutdown ::
  "'s engine \<Rightarrow> (('s, 'h) worker \<Rightarrow> (exn + unit) \<times> ('s, 'h) worker) \<Rightarrow> ('s, 'h) worker \<Rightarrow>
   (exn + unit) \<times> 's option \<times> ('s, 'h) worker" where
  "plugin_shutdown eng stock_shutdown w =
     (let closed = (case wk_backend w of None \<Rightarrow> (Inr (), None) | Some s \<Rightarrow> map_prod id Some (backend_close eng s));
          w1 = w\<lparr>wk_kv := release_kv_device_exports (wk_kv w), wk_backend := None\<rparr>
      in case stock_shutdown w1 of
           (Inl e, w2) \<Rightarrow> (Inl e, snd closed, w2)
         | (Inr _, w2) \<Rightarrow> (fst closed, snd closed, w2))"

section \<open>The fallback result is what accounting accepts\<close>

lemma fold_update_ones:
  "distinct ks \<Longrightarrow> set ks \<inter> set (keys d) = {} \<Longrightarrow>
     fold (\<lambda>k. AList.update k (1 :: int)) ks d = d @ map (\<lambda>k. (k, 1)) ks"
proof (induction ks arbitrary: d)
  case (Cons k ks)
  then have "AList.update k 1 d = d @ [(k, 1)]" by (intro dict_update_new) auto
  moreover have "set ks \<inter> set (keys (d @ [(k, 1)])) = {}" using Cons.prems by auto
  ultimately show ?case using Cons.IH [of "d @ [(k, 1)]"] Cons.prems(1) by simp
qed simp

lemma fallback_steps:
  "distinct ids \<Longrightarrow> er_computed_steps (fallback_result ids) = map (\<lambda>k. (k, 1)) ids"
  by (simp add: fallback_result_def make_result_def fold_update_ones)

lemma map_of_ones: "k \<in> set ids \<Longrightarrow> map_of (map (\<lambda>k. (k, 1)) ids) k = Some 1"
  by (induction ids) auto

lemma fallback_flags:
  "er_version (fallback_result ids) = CONTRACT_VERSION" "\<not> on_device (fallback_result ids)"
  "on_host (fallback_result ids)" "er_commit_state (fallback_result ids) = PREPARED"
  "er_fallback_safe (fallback_result ids)" "er_feed_calls (fallback_result ids) = 0"
  "er_fetch_calls (fallback_result ids) = 0" "import_proved (fallback_result ids)"
  by (simp_all add: fallback_result_def make_result_def on_device_def on_host_def import_proved_def)

lemma fallback_valid_iff:
  assumes wf: "plan_wf p" and steps: "1 \<le> pl_max_steps p" and ids: "keys sampled = plan_req_ids p"
  shows "validate_against (fallback_result (plan_req_ids p)) p sampled = Inr ()
    \<longleftrightarrow> host_replay_safe p \<and> (\<forall>(k, tokens) \<in> set sampled. length tokens = 1)"
proof -
  let ?r = "fallback_result (plan_req_ids p)"
  have dist: "distinct (plan_req_ids p)" using wf by (simp add: plan_wf_def)
  note computed = fallback_steps [OF dist]
  have one: "map_of (er_computed_steps ?r) (rq_id q) = Some 1" if "q \<in> set (pl_requests p)" for q
    unfolding computed by (rule map_of_ones) (use that in \<open>simp add: plan_req_ids_def\<close>)
  have "(\<forall>q \<in> set (pl_requests p). steps_wf p ?r sampled q) \<longleftrightarrow> (\<forall>(k, tokens) \<in> set sampled. length tokens = 1)"
  proof
    assume all: "\<forall>q \<in> set (pl_requests p). steps_wf p ?r sampled q"
    show "\<forall>(k, tokens) \<in> set sampled. length tokens = 1"
    proof clarify
      fix k tokens assume in_sampled: "(k, tokens) \<in> set sampled"
      then have "k \<in> set (plan_req_ids p)" using ids by (metis fst_conv image_eqI list.set_map)
      then obtain q where q: "q \<in> set (pl_requests p)" "k = rq_id q" by (auto simp: plan_req_ids_def)
      have "map_of sampled k = Some tokens" using in_sampled dist ids by simp
      with all q one [OF q(1)] show "length tokens = 1" by (auto simp: steps_wf_def)
    qed
  next
    assume all: "\<forall>(k, tokens) \<in> set sampled. length tokens = 1"
    show "\<forall>q \<in> set (pl_requests p). steps_wf p ?r sampled q"
    proof
      fix q assume q: "q \<in> set (pl_requests p)"
      then have "rq_id q \<in> set (keys sampled)" using ids by (simp add: plan_req_ids_def)
      then obtain tokens where "map_of sampled (rq_id q) = Some tokens" using dict_keysE by metis
      with all one [OF q] steps show "steps_wf p ?r sampled q"
        by (auto simp: steps_wf_def fallback_flags dest: map_of_SomeD)
    qed
  qed
  moreover have "keys (er_computed_steps ?r) = plan_req_ids p" unfolding computed by (simp add: comp_def)
  moreover have "er_version ?r = pl_version p" using wf by (simp add: fallback_flags plan_wf_def)
  ultimately show ?thesis
    unfolding validate_against_iff_wf result_wf_def host_replayed_def using ids
    by (simp add: fallback_flags)
qed

section \<open>When the stock worker runs\<close>

lemma host_fallback_runs: "host_fallback stock out p w = (r, w') \<Longrightarrow> wk_host_runs w' = wk_host_runs w @ [out]"
  by (auto simp: host_fallback_def run_host_def split: prod.splits sum.splits)

lemma resident_attempt_runs: "resident_attempt eng su p s w = (r, w') \<Longrightarrow> wk_host_runs w' = wk_host_runs w"
  by (auto simp: resident_attempt_def run_backend_def Let_def split: prod.splits sum.splits if_splits)

text \<open>An execution error of an attempt is the backend's, and the backend's state after it is kept.\<close>

lemma resident_attempt_execution:
  assumes "resident_attempt eng su p s w = (Inl (ExecutionError m c st), w')"
  shows "\<exists>snapshot transfer s'. backend_execute eng p snapshot transfer s = (Inl (ExecutionError m c st), s')
    \<and> wk_backend w' = Some s'"
proof -
  have run: "\<exists>snapshot transfer s'. backend_execute eng p snapshot transfer s = (Inl (ExecutionError m c st), s')
      \<and> wk_backend w' = Some s'"
    if "run_backend eng p snapshot transfer s w1 = (Inl (ExecutionError m c st), w')" for snapshot transfer w1
    using that by (auto simp: run_backend_def rbind_Inl_iff split: prod.splits) blast
  show ?thesis
  proof (cases "importing p = []")
    case True
    with assms run show ?thesis by (simp add: resident_attempt_def)
  next
    case False
    obtain r kv where cap: "capture_kv_device_transfer (su_api su) (su_acl su) (su_transfer_random su) p (wk_kv w) = (r, kv)"
      by fastforce
    show ?thesis
    proof (cases r)
      case (Inr transfer)
      with assms False cap run show ?thesis by (simp add: resident_attempt_def)
    next
      case (Inl e)
      have "no_execution r" using no_execution_device_capture cap by (metis fst_conv)
      with Inl have e: "plain_exn e" by simp
      have snap: "no_execution (capture_kv_snapshot (su_stack su) (su_snapshot_random su) p kv)"
        by (rule no_execution_snapshot_capture)
      with assms False cap Inl e run show ?thesis
        by (auto simp: resident_attempt_def Let_def split: if_splits sum.splits)
    qed
  qed
qed

lemma attempt_or_fallback_cases:
  assumes "attempt_or_fallback eng su stock out p s w = (r, w')"
  obtains (device) "wk_host_runs w' = wk_host_runs w"
  | (host) m st w1 snapshot transfer s1 where
      "backend_execute eng p snapshot transfer s = (Inl (ExecutionError m PREPARED st), s1)"
      "wk_backend w1 = Some s1" "wk_host_runs w1 = wk_host_runs w" "host_replay_safe p"
      "host_fallback stock out p w1 = (r, w')"
proof -
  obtain r1 w1 where att: "resident_attempt eng su p s w = (r1, w1)" by fastforce
  note runs = resident_attempt_runs [OF att]
  show thesis
  proof (cases "\<exists>m st. r1 = Inl (ExecutionError m PREPARED st) \<and> host_replay_safe p")
    case True
    then obtain m st where r1: "r1 = Inl (ExecutionError m PREPARED st)" and safe: "host_replay_safe p" by blast
    with assms att have "host_fallback stock out p w1 = (r, w')"
      by (simp add: attempt_or_fallback_def input_preserving_def)
    with resident_attempt_execution [OF att [unfolded r1]] runs safe show thesis by (blast intro: host)
  next
    case False
    with assms att have "w' = w1"
      by (auto simp: attempt_or_fallback_def input_preserving_def split: sum.splits exn.splits if_splits)
    with runs show thesis by (intro device) simp
  qed
qed

text \<open>
  Why the stock worker ran for an output with a plan: the backend could not be loaded, or the
  backend, in a state \<open>s\<close>, reported \<open>PREPARED\<close> and ended in a state that \<open>P\<close> relates to \<open>s\<close>.
\<close>

definition host_run_justified ::
  "'s engine \<Rightarrow> ('s \<Rightarrow> 's \<Rightarrow> bool) \<Rightarrow> (exn + 's) \<Rightarrow> epoch_plan \<Rightarrow> ('s, 'h) worker \<Rightarrow> bool" where
  "host_run_justified eng P loaded p w \<longleftrightarrow>
     host_replay_safe p
     \<and> (wk_backend w = None \<and> isl loaded
        \<or> (\<exists>s snapshot transfer m st s1. (wk_backend w = Some s \<or> wk_backend w = None \<and> loaded = Inr s)
             \<and> backend_execute eng p snapshot transfer s = (Inl (ExecutionError m PREPARED st), s1) \<and> P s s1))"

context native_engine begin

lemma fallback_justified:
  assumes "execute_model_with_fallback eng loaded su stock out w = (r, w')" and "so_plan out = Attached p"
  shows "wk_host_runs w' = wk_host_runs w
    \<or> wk_host_runs w' = wk_host_runs w @ [out] \<and> host_run_justified eng untouched loaded p w"
proof -
  have attempt: ?thesis
    if "attempt_or_fallback eng su stock out p s w0 = (r, w')" "wk_host_runs w0 = wk_host_runs w"
      and used: "wk_backend w = Some s \<or> wk_backend w = None \<and> loaded = Inr s" for s w0
    using that(1)
  proof (cases rule: attempt_or_fallback_cases)
    case device
    with that(2) show ?thesis by simp
  next
    case (host m st w1 snapshot transfer s1)
    from backend_prepared [OF host(1)] used host(1,4) have "host_run_justified eng untouched loaded p w"
      unfolding host_run_justified_def by blast
    with host_fallback_runs [OF host(5)] host(3) that(2) show ?thesis by simp
  qed
  show ?thesis
  proof (cases "wk_backend w")
    case (Some s)
    with assms attempt [of s w] show ?thesis by (simp add: execute_model_with_fallback_def get_plan_def)
  next
    case None
    show ?thesis
    proof (cases loaded)
      case (Inr s)
      with None assms attempt [of s "w\<lparr>wk_backend := Some s\<rparr>"] show ?thesis
        by (simp add: execute_model_with_fallback_def get_plan_def)
    next
      case (Inl e)
      with None assms host_fallback_runs [of stock out p w r w'] show ?thesis
        by (auto simp: execute_model_with_fallback_def get_plan_def host_run_justified_def split: if_splits)
    qed
  qed
qed

end

section \<open>Registration\<close>

lemma ensure_triton_twice:
  "ensure_triton_ascend_runtime t = (Inr name, t') \<Longrightarrow>
     snd (ensure_triton_ascend_runtime t') = t' \<and> (\<exists>functions. te_ascend t' = Some (Some functions) \<and> ''pow'' \<in> set functions)"
  by (auto simp: ensure_triton_ascend_runtime_def has_pow_def split: option.splits sum.splits if_splits)

lemma register_once:
  "register state = (Inr (), state') \<Longrightarrow> register state' = (Inr (), state')"
  by (cases state)
    (auto simp: register_def ensure_triton_ascend_runtime_def has_pow_def split: option.splits sum.splits if_splits)

text \<open>After a shutdown no export is open through the worker, even if closing the backend failed.\<close>

lemma plugin_shutdown_releases:
  assumes "\<And>w. wk_kv (snd (stock_shutdown w)) = wk_kv w \<and> wk_backend (snd (stock_shutdown w)) = wk_backend w"
    and "plugin_shutdown eng stock_shutdown w = (r, s, w')"
  shows "wk_backend w' = None" and "kw_exports (wk_kv w') = None"
    and "open_keys (kw_calls (wk_kv w')) =
      open_keys (kw_calls (wk_kv w)) - (case kw_exports (wk_kv w) of None \<Rightarrow> {} | Some t \<Rightarrow> set (et_keys t))"
proof -
  let ?w1 = "w\<lparr>wk_kv := release_kv_device_exports (wk_kv w), wk_backend := None\<rparr>"
  have "w' = snd (stock_shutdown ?w1)"
    using assms(2) by (auto simp: plugin_shutdown_def Let_def split: prod.splits sum.splits)
  with assms(1) [of ?w1] have "wk_backend w' = None" "wk_kv w' = release_kv_device_exports (wk_kv w)" by simp_all
  then show "wk_backend w' = None" "kw_exports (wk_kv w') = None"
    "open_keys (kw_calls (wk_kv w')) =
      open_keys (kw_calls (wk_kv w)) - (case kw_exports (wk_kv w) of None \<Rightarrow> {} | Some t \<Rightarrow> set (et_keys t))"
    by (simp_all add: release_exports)
qed

end
