(* ===== verification/PluginProps.thy ===== *)
theory PluginProps
  imports Plugin TransportProps
begin

text \<open>
  The properties of the patched worker: when the stock model may run in the place of a
  resident epoch, and that what it returns then is what the scheduler accepts.
\<close>

text \<open>C20: For an output with a plan, the stock worker runs at most once. It runs only if the Host owns
  the state of every request of the plan and either no backend could be loaded or the sidecar
  backend failed with \<open>PREPARED\<close>; and then no byte of a request was handed to the server, or the
  server itself answered that nothing was committed. So no epoch the device may have executed
  is replayed on the Host.\<close>

theorem host_runs_only_untouched:
  assumes "execute_model_with_fallback sidecar_engine loaded su stock out w = (r, w')"
    and "so_plan out = Attached p"
  shows "wk_host_runs w' = wk_host_runs w
    \<or> wk_host_runs w' = wk_host_runs w @ [out] \<and> host_run_justified sidecar_engine untouched loaded p w"
  by (rule sidecar.fallback_justified [OF assms])

definition host_example :: epoch_plan where
  "host_example = plan_example
     \<lparr>pl_requests := map (\<lambda>q. q\<lparr>rq_kv_import_required := False, rq_state_owner := ''host''\<rparr>) (pl_requests plan_example)\<rparr>"

lemma host_example_wf: "plan_wf host_example"
  unfolding plan_validate_iff_wf [symmetric] by code_simp

lemma host_example_facts:
  "host_replay_safe host_example" "importing host_example = []" "1 \<le> pl_max_steps host_example"
  "plan_req_ids host_example = [''x'', ''y'']"
  by (simp_all add: host_example_def plan_example_def host_replay_safe_def importing_def plan_req_ids_def)

definition host_ro :: runner_output where
  "host_ro = \<lparr>ro_req_ids = [''x'', ''y''], ro_req_id_to_index = [(''x'', 0), (''y'', 1)],
     ro_sampled_token_ids = [[5], [6]], ro_result = Absent\<rparr>"

definition host_out :: sched_output where
  "host_out =
     \<lparr>so_num_scheduled_tokens = [(''x'', 1), (''y'', 1)], so_total_num_scheduled_tokens = 2,
      so_scheduled_spec_decode_tokens = PNone, so_scheduled_encoder_inputs = PNone,
      so_preempted_req_ids = PNone, so_plan = Attached host_example\<rparr>"

definition host_stock :: "(sidecar, unit) stock" where
  "host_stock out w = (Inr (Synchronous host_ro), w)"

definition host_worker :: "(sidecar, unit) worker" where
  "host_worker = \<lparr>wk_backend = Some closed_sidecar, wk_kv = \<lparr>kw_caches = None, kw_exports = None, kw_calls = []\<rparr>,
     wk_host = (), wk_host_runs = []\<rparr>"

definition plain_surroundings :: surroundings where
  "plain_surroundings = \<lparr>su_env = [], su_api = None, su_acl = (\<lambda>_ _ _. (PNone, 1)), su_stack = hd,
     su_transfer_random = 1, su_snapshot_random = 1\<rparr>"

lemma closed_execute_host:
  "backend_execute sidecar_engine host_example None None closed_sidecar
     = (Inl (ExecutionError ''resident epoch sidecar is closed'' PREPARED None), closed_sidecar)"
  using host_example_wf
  by (simp add: backend_execute_def plan_validate_iff_wf [symmetric] call_engine_def sidecar_engine_def
      sidecar_execute_def raw_execute_def closed_sidecar_def reclassify_def)

lemma host_worker_runs: "wk_host_runs host_worker = []"
  by (simp add: host_worker_def)

lemma host_example_runs:
  "wk_host_runs (snd (execute_model_with_fallback sidecar_engine (Inl (OSError ''x'')) plain_surroundings host_stock
     host_out host_worker)) = [host_out]"
  using host_example_facts
  by (simp add: execute_model_with_fallback_def get_plan_def host_out_def host_worker_def attempt_or_fallback_def
      resident_attempt_def run_backend_def closed_execute_host input_preserving_def host_fallback_def run_host_def
      host_stock_def split: prod.split)

theorem host_runs_only_untouched_witness:
  "host_run_justified sidecar_engine untouched (Inl (OSError ''x'')) host_example host_worker"
proof -
  obtain r w' where run: "execute_model_with_fallback sidecar_engine (Inl (OSError ''x'')) plain_surroundings host_stock
     host_out host_worker = (r, w')" by fastforce
  have "so_plan host_out = Attached host_example" by (simp add: host_out_def)
  from host_runs_only_untouched [OF run this] host_example_runs host_worker_runs show ?thesis by (simp add: run)
qed

text \<open>C21: The metadata attached to a fallback is right for accounting: the scheduler reads it as a Host
  result with the sampled tokens unchanged, and accepts it exactly when the Host owns the state
  of every request and the stock model sampled one token for each.\<close>

theorem fallback_result_accepted:
  assumes "plan_wf p" and "1 \<le> pl_max_steps p"
    and "attach_host_fallback_result (Synchronous ro) (plan_req_ids p) = Inr ro'"
    and "sampled_by_req ro p = Inr sampled"
  shows "\<exists>r. get_result (ro_result ro') = Inr (Some r) \<and> on_host r \<and> sampled_by_req ro' p = Inr sampled
    \<and> (validate_against r p sampled = Inr ()
       \<longleftrightarrow> host_replay_safe p \<and> (\<forall>(k, tokens) \<in> set sampled. length tokens = 1))"
proof -
  have ro': "ro' = ro\<lparr>ro_result := Attached (fallback_result (plan_req_ids p))\<rparr>"
    using assms(3) by (simp add: attach_host_fallback_result_def attach_result_def)
  have "keys sampled = plan_req_ids p"
  proof -
    have "list_all2 (\<lambda>k entry. fst entry = k) (plan_req_ids p) sampled"
      using assms(4) unfolding sampled_by_req_def map_res_list_all2
      by (rule list_all2_mono) (auto simp: rbind_Inr_iff)
    then show ?thesis by (auto simp: list_all2_conv_all_nth intro: nth_equalityI)
  qed
  moreover have "sampled_by_req ro' p = sampled_by_req ro p" by (simp add: ro' sampled_by_req_def)
  ultimately show ?thesis
    using fallback_valid_iff [OF assms(1,2)] assms(4) by (simp add: ro' get_result_def fallback_flags)
qed

theorem fallback_result_accepted_witness:
  "\<exists>ro' r. attach_host_fallback_result (Synchronous host_ro) [''x'', ''y''] = Inr ro'
     \<and> get_result (ro_result ro') = Inr (Some r) \<and> validate_against r host_example [(''x'', [5]), (''y'', [6])] = Inr ()"
proof -
  have attached: "attach_host_fallback_result (Synchronous host_ro) (plan_req_ids host_example)
      = Inr (host_ro\<lparr>ro_result := attach_result (fallback_result (plan_req_ids host_example))\<rparr>)"
    by (simp add: attach_host_fallback_result_def)
  have "sampled_by_req host_ro host_example = Inr [(''x'', [5]), (''y'', [6])]"
    by (simp add: sampled_by_req_def host_example_facts host_ro_def dict_item_def)
  from fallback_result_accepted [OF host_example_wf host_example_facts(3) attached this] host_example_facts attached
  show ?thesis by auto
qed

end
