(* ===== verification/Worker.thy ===== *)
theory Worker
  imports Plugin PyVal
begin

text \<open>
  \<open>worker.py\<close>: the dedicated worker, which has no model of its own and runs only plans. What
  it uses of torch and vLLM, the distributed environment and the page size of a cache
  specification, is an argument.
\<close>

definition NUM_LAYERS :: nat where "NUM_LAYERS = 28"
definition WORKER_KV_HEADS :: int where "WORKER_KV_HEADS = 4"
definition WORKER_HEAD_SIZE :: int where "WORKER_HEAD_SIZE = 128"

definition RESIDENT_WORKER_QUALNAME :: string where
  "RESIDENT_WORKER_QUALNAME = ''vllm_ascend_resident_epoch.worker.ResidentEpochWorker''"

section \<open>What the worker is given\<close>

record parallel_config =
  pc_worker_cls :: pyval
  pc_tensor_parallel_size :: int
  pc_pipeline_parallel_size :: int

text \<open>The distributed environment: a state of its own with the operations the worker calls.\<close>

record 'd distributed =
  di_is_initialized :: "'d \<Rightarrow> bool"
  di_init_environment :: "'d \<Rightarrow> (exn + unit) \<times> 'd"
  di_ensure_model_parallel :: "'d \<Rightarrow> (exn + unit) \<times> 'd"
  di_destroy_model_parallel :: "'d \<Rightarrow> (exn + unit) \<times> 'd"
  di_destroy_environment :: "'d \<Rightarrow> (exn + unit) \<times> 'd"

text \<open>\<open>FullAttentionSpec\<close> of bfloat16 caches, and what is read of \<open>KVCacheConfig\<close>.\<close>

record kv_spec =
  ks_block_size :: int
  ks_num_kv_heads :: int
  ks_head_size :: int
  ks_dtype :: string

record kv_config =
  kc_num_blocks :: int
  kc_group_block_sizes :: "int list"

record ('s, 'd) resident_worker =
  rw_parallel :: parallel_config
  rw_config :: epoch_config
  rw_backend :: "'s option"
  rw_warmup_output :: "warmup_output option"
  rw_kv_cache_config :: "kv_config option"
  rw_owns_distributed :: bool
  rw_device :: "string option"
  rw_distributed :: 'd

section \<open>Construction and initialization\<close>

definition worker_init ::
  "(string, string) dict \<Rightarrow> parallel_config \<Rightarrow> 'd \<Rightarrow> exn + ('s, 'd) resident_worker" where
  "worker_init env pc d =
     rbind (config_from_env env) (\<lambda>config.
       if pc_tensor_parallel_size pc \<noteq> 1 then
         Inl (ValueError ''resident epoch worker requires tensor parallel size 1'')
       else if pc_pipeline_parallel_size pc \<noteq> 1 then
         Inl (ValueError ''resident epoch worker requires pipeline parallel size 1'')
       else Inr \<lparr>rw_parallel = pc, rw_config = config, rw_backend = None, rw_warmup_output = None,
                 rw_kv_cache_config = None, rw_owns_distributed = False, rw_device = None,
                 rw_distributed = d\<rparr>)"

definition ensure_parallel ::
  "'d distributed \<Rightarrow> ('s, 'd) resident_worker \<Rightarrow> (exn + unit) \<times> ('s, 'd) resident_worker" where
  "ensure_parallel ops w =
     (case di_ensure_model_parallel ops (rw_distributed w) of
        (Inl e, d) \<Rightarrow> (Inl e, w\<lparr>rw_distributed := d\<rparr>)
      | (Inr _, d) \<Rightarrow> (Inr (), w\<lparr>rw_distributed := d, rw_device := Some ''npu:0''\<rparr>))"

definition init_device ::
  "'d distributed \<Rightarrow> ('s, 'd) resident_worker \<Rightarrow> (exn + unit) \<times> ('s, 'd) resident_worker" where
  "init_device ops w =
     (if \<not> py_eq (pc_worker_cls (rw_parallel w)) (PStr RESIDENT_WORKER_QUALNAME) then
        (Inr (), w\<lparr>rw_device := Some ''npu:0''\<rparr>)
      else if di_is_initialized ops (rw_distributed w) then ensure_parallel ops w
      else (case di_init_environment ops (rw_distributed w) of
        (Inl e, d) \<Rightarrow> (Inl e, w\<lparr>rw_distributed := d\<rparr>)
      | (Inr _, d) \<Rightarrow> ensure_parallel ops (w\<lparr>rw_distributed := d, rw_owns_distributed := True\<rparr>)))"

definition load_model ::
  "(exn + 's) \<Rightarrow> bool \<Rightarrow> ('s, 'd) resident_worker \<Rightarrow> (exn + unit) \<times> ('s, 'd) resident_worker" where
  "load_model loaded load_dummy_weights w =
     (if load_dummy_weights then (Inl (ValueError ''resident epoch worker does not support dummy weights''), w)
      else (case loaded of
        Inl e \<Rightarrow> (Inl e, w)
      | Inr s \<Rightarrow> (Inr (), w\<lparr>rw_backend := Some s\<rparr>)))"

definition layer_name :: "nat \<Rightarrow> string" where
  "layer_name layer = ''model.layers.'' @ nat_str layer @ ''.self_attn''"

definition get_kv_cache_spec :: "('s, 'd) resident_worker \<Rightarrow> (string, kv_spec) dict" where
  "get_kv_cache_spec w =
     (let spec = \<lparr>ks_block_size = cfg_block_size (rw_config w), ks_num_kv_heads = WORKER_KV_HEADS,
        ks_head_size = WORKER_HEAD_SIZE, ks_dtype = ''torch.bfloat16''\<rparr>
      in map (\<lambda>layer. (layer_name layer, spec)) [0..<NUM_LAYERS])"

definition determine_available_memory :: "(kv_spec \<Rightarrow> int) \<Rightarrow> ('s, 'd) resident_worker \<Rightarrow> int" where
  "determine_available_memory page_size_bytes w =
     (let page_size = page_size_bytes (snd (hd (get_kv_cache_spec w)))
      in cfg_physical_blocks (rw_config w) * int NUM_LAYERS * page_size)"

definition get_cache_block_size_bytes :: "(kv_spec \<Rightarrow> int) \<Rightarrow> ('s, 'd) resident_worker \<Rightarrow> int" where
  "get_cache_block_size_bytes page_size_bytes w =
     sum_list (map (\<lambda>(name, spec). page_size_bytes spec) (get_kv_cache_spec w))"

definition initialize_from_config ::
  "kv_config \<Rightarrow> ('s, 'd) resident_worker \<Rightarrow> (exn + unit) \<times> ('s, 'd) resident_worker" where
  "initialize_from_config kc w =
     (if kc_num_blocks kc < cfg_physical_blocks (rw_config w) then
        (Inl (ValueError ''scheduler KV capacity is smaller than the static DataFlow graph''), w)
      else if length (kc_group_block_sizes kc) \<noteq> 1 then
        (Inl (ValueError ''resident epoch worker requires one KV cache group''), w)
      else if hd (kc_group_block_sizes kc) \<noteq> 128 then
        (Inl (ValueError ''resident epoch worker requires 128-token KV blocks''), w)
      else (Inr (), w\<lparr>rw_kv_cache_config := Some kc\<rparr>))"

text \<open>The time is returned in microseconds; the code divides it by a million.\<close>

definition compile_or_warm_up_model ::
  "'s engine \<Rightarrow> ('s, 'd) resident_worker \<Rightarrow> (exn + int) \<times> ('s, 'd) resident_worker" where
  "compile_or_warm_up_model eng w =
     (case rw_backend w of
        None \<Rightarrow> (Inl (RuntimeError ''resident epoch backend is not loaded''), w)
      | Some s \<Rightarrow>
          (case backend_warm_up eng s of
             (Inl e, s') \<Rightarrow> (Inl e, w\<lparr>rw_backend := Some s'\<rparr>)
           | (Inr out, s') \<Rightarrow> (Inr (wo_wall_us out), w\<lparr>rw_backend := Some s', rw_warmup_output := Some out\<rparr>)))"

section \<open>Execution and the other requests\<close>

definition worker_execute_model ::
  "'s engine \<Rightarrow> sched_output \<Rightarrow> ('s, 'd) resident_worker \<Rightarrow> (exn + runner_output) \<times> ('s, 'd) resident_worker" where
  "worker_execute_model eng out w =
     (case get_plan (so_plan out) of
        Inl e \<Rightarrow> (Inl e, w)
      | Inr None \<Rightarrow>
          (if so_total_num_scheduled_tokens out = 0 then
             (Inr \<lparr>ro_req_ids = [], ro_req_id_to_index = [], ro_sampled_token_ids = [], ro_result = Absent\<rparr>, w)
           else (Inl (RuntimeError ''dedicated resident epoch worker received a request outside the native support envelope''), w))
      | Inr (Some p) \<Rightarrow>
          (case rw_backend w of
             None \<Rightarrow> (Inl (RuntimeError ''resident epoch backend is not loaded''), w)
           | Some s \<Rightarrow> (case backend_execute eng p None None s of (r, s') \<Rightarrow> (r, w\<lparr>rw_backend := Some s'\<rparr>))))"

definition sample_tokens :: "exn + unit" where
  "sample_tokens = Inl (RuntimeError ''resident epoch worker returns sampled tokens synchronously'')"

definition get_model :: "exn + unit" where
  "get_model = Inl (RuntimeError ''the resident DataFlow model is not a torch.nn.Module'')"

definition add_lora :: "exn + bool" where
  "add_lora = Inl (RuntimeError ''LoRA is outside the resident epoch support envelope'')"

definition remove_lora :: "int \<Rightarrow> bool" where "remove_lora lora_id = False"
definition pin_lora :: "int \<Rightarrow> bool" where "pin_lora lora_id = False"
definition list_loras :: "int set" where "list_loras = {}"

definition update_max_model_len :: "int \<Rightarrow> int \<Rightarrow> exn + unit" where
  "update_max_model_len configured max_model_len =
     (if max_model_len \<noteq> configured then
        Inl (ValueError ''resident epoch worker does not support auto-fit model length'')
      else Inr ())"

text \<open>The two calls that tear the distributed environment down, if the worker made it.\<close>

definition release_distributed ::
  "'d distributed \<Rightarrow> ('s, 'd) resident_worker \<Rightarrow> (exn + unit) \<times> ('s, 'd) resident_worker" where
  "release_distributed ops w =
     (if \<not> rw_owns_distributed w then (Inr (), w)
      else (case di_destroy_model_parallel ops (rw_distributed w) of
        (Inl e, d) \<Rightarrow> (Inl e, w\<lparr>rw_distributed := d\<rparr>)
      | (Inr _, d) \<Rightarrow>
          (case di_destroy_environment ops d of
             (Inl e, d') \<Rightarrow> (Inl e, w\<lparr>rw_distributed := d'\<rparr>)
           | (Inr _, d') \<Rightarrow> (Inr (), w\<lparr>rw_distributed := d', rw_owns_distributed := False\<rparr>))))"

definition worker_shutdown ::
  "'s engine \<Rightarrow> 'd distributed \<Rightarrow> ('s, 'd) resident_worker \<Rightarrow>
   (exn + unit) \<times> 's option \<times> ('s, 'd) resident_worker" where
  "worker_shutdown eng ops w =
     (case rw_backend w of
        None \<Rightarrow> (case release_distributed ops w of (r, w') \<Rightarrow> (r, None, w'))
      | Some s \<Rightarrow>
          (case backend_close eng s of
             (Inl e, s') \<Rightarrow> (Inl e, Some s', w\<lparr>rw_backend := Some s'\<rparr>)
           | (Inr _, s') \<Rightarrow>
               (case release_distributed ops (w\<lparr>rw_backend := None\<rparr>) of (r, w') \<Rightarrow> (r, Some s', w'))))"

section \<open>What the worker guarantees\<close>

lemma layer_names_distinct: "dict_wf (get_kv_cache_spec w)"
proof -
  have "inj layer_name"
    unfolding layer_name_def inj_def using unsigned_value_nat_str by (metis append_same_eq option.inject same_append_eq)
  then show ?thesis
    by (simp add: dict_wf_def get_kv_cache_spec_def Let_def comp_def distinct_map inj_on_def)
qed

text \<open>The memory asked for is that of the static graph's blocks in every layer.\<close>

lemma available_memory_covers_graph:
  "determine_available_memory page w = cfg_physical_blocks (rw_config w) * get_cache_block_size_bytes page w"
  by (simp add: determine_available_memory_def get_cache_block_size_bytes_def get_kv_cache_spec_def Let_def
      comp_def hd_map NUM_LAYERS_def sum_list_triv)

text \<open>A shutdown destroys the distributed environment only if the worker created it.\<close>

lemma worker_shutdown_ownership:
  "\<not> rw_owns_distributed w \<Longrightarrow> worker_shutdown eng ops w = (r, s, w') \<Longrightarrow> rw_distributed w' = rw_distributed w"
  by (auto simp: worker_shutdown_def release_distributed_def split: option.splits prod.splits sum.splits)

text \<open>The worker never samples for a request that is in no plan.\<close>

lemma worker_runs_only_plans:
  assumes "worker_execute_model eng out w = (Inr ro, w')"
  shows "ro_sampled_token_ids ro = [] \<and> w' = w \<and> so_total_num_scheduled_tokens out = 0
    \<or> (\<exists>p s s'. so_plan out = Attached p \<and> rw_backend w = Some s \<and> backend_execute eng p None None s = (Inr ro, s'))"
  using assms by (auto simp: worker_execute_model_def get_plan_def split: attr.splits option.splits prod.splits if_splits)

end
