(* ===== verification/Paths.thy ===== *)
theory Paths
  imports PyVal "HOL-Library.Sublist" "HOL-Library.List_Lexorder" "HOL-Library.Char_ord"
begin

text \<open>
  What the configuration and the compatibility manifest need of the standard library: pure
  POSIX paths as strings, \<open>str.split\<close> and \<open>str.join\<close>, and the patterns the code matches.
\<close>

section \<open>Strings\<close>

text \<open>\<open>s.split(c)\<close> and \<open>sep.join(items)\<close>.\<close>

fun split_on :: "char \<Rightarrow> string \<Rightarrow> string list" where
  "split_on c [] = ['''']"
| "split_on c (x # xs) =
     (if x = c then '''' # split_on c xs
      else (case split_on c xs of y # ys \<Rightarrow> (x # y) # ys | [] \<Rightarrow> [[x]]))"

fun join_with :: "string \<Rightarrow> string list \<Rightarrow> string" where
  "join_with sep [] = ''''"
| "join_with sep [x] = x"
| "join_with sep (x # xs) = x @ sep @ join_with sep xs"

definition comma_join :: "string list \<Rightarrow> string" where
  "comma_join = join_with '', ''"

text \<open>\<open>not s.strip()\<close> is the test the code makes for a blank string.\<close>

definition blank :: "string \<Rightarrow> bool" where
  "blank s \<longleftrightarrow> strip_str s = ''''"

definition ends_with :: "string \<Rightarrow> string \<Rightarrow> bool" where
  "ends_with tail s \<longleftrightarrow> suffix tail s"

text \<open>The pattern \<open>[0-9a-f]{64}\<close>, matched against the whole string.\<close>

definition lower_hex :: "char \<Rightarrow> bool" where
  "lower_hex c \<longleftrightarrow> c \<in> set ''0123456789abcdef''"

definition is_sha256 :: "string \<Rightarrow> bool" where
  "is_sha256 s \<longleftrightarrow> length s = 64 \<and> list_all lower_hex s"

lemma split_on_nonempty: "split_on c s \<noteq> []"
  by (induction s) (auto split: list.split)

lemma split_on_append:
  "c \<notin> set x \<Longrightarrow> split_on c (x @ c # ys) = x # split_on c ys"
  by (induction x) auto

lemma split_on_plain: "c \<notin> set x \<Longrightarrow> split_on c x = [x]"
  by (induction x) auto

lemma split_on_snoc: "split_on c (s @ c # ys) = split_on c s @ split_on c ys"
proof (induction s)
  case (Cons a s)
  then show ?case using split_on_nonempty [of c s] by (cases "split_on c s") auto
qed simp

section \<open>Paths\<close>

definition is_absolute :: "string \<Rightarrow> bool" where
  "is_absolute p \<longleftrightarrow> (case p of [] \<Rightarrow> False | c # _ \<Rightarrow> c = CHR ''/'')"

text \<open>\<open>Path(p).parts\<close> without the root.\<close>

definition path_parts :: "string \<Rightarrow> string list" where
  "path_parts p = filter (\<lambda>x. x \<noteq> '''' \<and> x \<noteq> ''.'') (split_on (CHR ''/'') p)"

definition pure_name :: "string \<Rightarrow> string" where
  "pure_name p = (if path_parts p = [] then '''' else last (path_parts p))"

text \<open>\<open>a / b\<close> for a relative \<open>b\<close>; an absolute one replaces \<open>a\<close>.\<close>

definition path_join :: "string \<Rightarrow> string \<Rightarrow> string" where
  "path_join a b = (if is_absolute b then b else a @ ''/'' @ b)"

text \<open>\<open>p.relative_to(root)\<close> succeeds.\<close>

definition is_relative_to :: "string \<Rightarrow> string \<Rightarrow> bool" where
  "is_relative_to p dir \<longleftrightarrow> is_absolute p = is_absolute dir \<and> prefix (path_parts dir) (path_parts p)"

text \<open>\<open>p == q\<close> of two paths.\<close>

definition same_path :: "string \<Rightarrow> string \<Rightarrow> bool" where
  "same_path p q \<longleftrightarrow> is_absolute p = is_absolute q \<and> path_parts p = path_parts q"

lemma path_parts_join: "\<not> is_absolute b \<Longrightarrow> path_parts (path_join a b) = path_parts a @ path_parts b"
  by (simp add: path_join_def path_parts_def split_on_snoc)

lemma path_join_absolute: "is_absolute a \<Longrightarrow> is_absolute (path_join a b)"
  by (auto simp: path_join_def is_absolute_def split: list.splits)

lemma path_join_under: "is_absolute a \<Longrightarrow> \<not> is_absolute b \<Longrightarrow> is_relative_to (path_join a b) a"
  by (simp add: is_relative_to_def path_parts_join path_join_absolute)

lemma is_relative_to_trans: "is_relative_to p q \<Longrightarrow> is_relative_to q r \<Longrightarrow> is_relative_to p r"
  by (auto simp: is_relative_to_def intro: prefix_order.trans)

text \<open>A relative path without \<open>..\<close> stays below the directory it is joined to, component by component.\<close>

lemma path_join_safe:
  "\<not> is_absolute b \<Longrightarrow> ''..'' \<notin> set (path_parts b) \<Longrightarrow> path_parts (path_join a b) = path_parts a @ path_parts b"
  by (rule path_parts_join)

text \<open>Printing the components of an absolute path and reading them back.\<close>

definition clean_parts :: "string list \<Rightarrow> bool" where
  "clean_parts xs \<longleftrightarrow> (\<forall>x \<in> set xs. x \<noteq> '''' \<and> x \<noteq> ''.'' \<and> CHR ''/'' \<notin> set x)"

lemma split_on_chars: "x \<in> set (split_on c s) \<Longrightarrow> c \<notin> set x"
proof (induction s arbitrary: x)
  case (Cons a s)
  then show ?case using split_on_nonempty [of c s] by (cases "split_on c s") (auto split: if_splits)
qed simp

lemma path_parts_clean: "clean_parts (path_parts p)"
  by (auto simp: clean_parts_def path_parts_def dest: split_on_chars)

lemma split_on_join: "clean_parts xs \<Longrightarrow> xs \<noteq> [] \<Longrightarrow> split_on (CHR ''/'') (join_with ''/'' xs) = xs"
  by (induction "''/'' :: string" xs rule: join_with.induct)
    (auto simp: clean_parts_def split_on_plain split_on_append)

lemma path_parts_print: "clean_parts xs \<Longrightarrow> path_parts (CHR ''/'' # join_with ''/'' xs) = xs"
  by (cases "xs = []") (auto simp: path_parts_def split_on_join clean_parts_def filter_id_conv)

section \<open>Values\<close>

text \<open>\<open>isinstance(v, int) and not isinstance(v, bool) and v >= 1\<close>.\<close>

definition positive_int :: "pyval \<Rightarrow> bool" where
  "positive_int v \<longleftrightarrow> (case v of PInt i \<Rightarrow> 1 \<le> i | _ \<Rightarrow> False)"

text \<open>A string that is not blank.\<close>

definition solid_str :: "pyval \<Rightarrow> bool" where
  "solid_str v \<longleftrightarrow> (case v of PStr s \<Rightarrow> \<not> blank s | _ \<Rightarrow> False)"

definition sha256_value :: "pyval \<Rightarrow> bool" where
  "sha256_value v \<longleftrightarrow> (case v of PStr s \<Rightarrow> is_sha256 s | _ \<Rightarrow> False)"

text \<open>The strings of a list of values, for lists already checked to hold only strings.\<close>

definition str_of :: "pyval \<Rightarrow> string" where
  "str_of v = (case v of PStr s \<Rightarrow> s | _ \<Rightarrow> '''')"

definition dict_of :: "pyval \<Rightarrow> (string \<times> pyval) list" where
  "dict_of v = (case v of PDict d \<Rightarrow> d | _ \<Rightarrow> [])"

definition items_of :: "pyval \<Rightarrow> pyval list" where
  "items_of v = (case v of PList xs \<Rightarrow> xs | _ \<Rightarrow> [])"

end
