(* ===== verification/Compatibility.thy ===== *)
theory Compatibility
  imports Paths Contract
begin

text \<open>
  \<open>compatibility.py\<close> and the rest of \<open>version.py\<close>: the checks of the packaged compatibility
  manifest and the selection of a profile. The manifest is the value \<open>json.loads\<close> returns.
\<close>

definition PACKAGE_VERSION :: string where "PACKAGE_VERSION = ''0.1.0''"
definition PRODUCT_MATURITY :: string where "PRODUCT_MATURITY = ''research-baseline''"
definition COMPATIBILITY_SCHEMA_VERSION :: int where "COMPATIBILITY_SCHEMA_VERSION = 2"
definition RUNTIME_CONFIG_SCHEMA_VERSION :: int where "RUNTIME_CONFIG_SCHEMA_VERSION = 1"
definition HOST_UDF_ABI_VERSION :: int where "HOST_UDF_ABI_VERSION = 2"
definition DECODER_ABI_VERSION :: int where "DECODER_ABI_VERSION = 1"
definition DECODER_INPUTS :: int where "DECODER_INPUTS = 9"
definition DECODER_OUTPUTS :: int where "DECODER_OUTPUTS = 4"

section \<open>The checks\<close>

definition non_empty_strings :: "pyval \<Rightarrow> string \<Rightarrow> exn + string list" where
  "non_empty_strings value name =
     (if \<not> is_list value \<or> items_of value = [] \<or> (\<exists>item \<in> set (items_of value). \<not> solid_str item) then
        Inl (CompatibilityError (name @ '' must be a non-empty string list''))
      else let strings = map str_of (items_of value) in
        if card (set strings) \<noteq> length strings then Inl (CompatibilityError (name @ '' contains duplicates''))
        else Inr strings)"

definition expected_product :: pyval where
  "expected_product = PDict
     [(''name'', PStr ''Cruise''), (''package'', PStr ''vllm-ascend-resident-epoch''),
      (''version'', PStr PACKAGE_VERSION), (''maturity'', PStr PRODUCT_MATURITY)]"

definition expected_contracts :: pyval where
  "expected_contracts = PDict
     [(''python_contract'', PInt PYTHON_CONTRACT_VERSION), (''runtime_config'', PInt RUNTIME_CONFIG_SCHEMA_VERSION),
      (''sidecar_protocol'', PInt SIDECAR_PROTOCOL_VERSION),
      (''sidecar_request_bytes'', PInt (int SIDECAR_REQUEST_BYTES)),
      (''sidecar_response_bytes'', PInt (int SIDECAR_RESPONSE_BYTES)),
      (''host_udf_abi'', PInt HOST_UDF_ABI_VERSION), (''host_udf_inputs'', PInt HOST_UDF_INPUTS),
      (''host_udf_outputs'', PInt HOST_UDF_OUTPUTS), (''decoder_abi'', PInt DECODER_ABI_VERSION),
      (''decoder_inputs'', PInt DECODER_INPUTS), (''decoder_outputs'', PInt DECODER_OUTPUTS)]"

text \<open>\<open>isinstance(v, dict) and set(v) == {...}\<close>.\<close>

definition has_keys :: "pyval \<Rightarrow> string set \<Rightarrow> bool" where
  "has_keys v ks \<longleftrightarrow> is_dict v \<and> set (keys (dict_of v)) = ks"

definition check_alternative :: "pyval \<Rightarrow> exn + unit" where
  "check_alternative alternative =
     (if \<not> has_keys alternative {''module'', ''attribute''} then
        Inl (CompatibilityError ''each Python symbol alternative must contain module and attribute'')
      else if \<not> solid_str (py_get (dict_of alternative) ''module'')
              \<or> \<not> solid_str (py_get (dict_of alternative) ''attribute'') then
        Inl (CompatibilityError ''Python symbol alternative fields must be non-empty'')
      else Inr ())"

text \<open>The body of the loop over the required symbols, with the ids seen so far.\<close>

definition check_symbol :: "pyval \<Rightarrow> string list \<Rightarrow> exn + string list" where
  "check_symbol symbol symbol_ids =
     (let d = dict_of symbol in
      if \<not> has_keys symbol {''id'', ''alternatives'', ''remediation''} then
        Inl (CompatibilityError ''each required Python symbol must contain id, alternatives, and remediation'')
      else if \<not> solid_str (py_get d ''id'') \<or> \<not> solid_str (py_get d ''remediation'') then
        Inl (CompatibilityError ''required Python symbol fields must be non-empty'')
      else let alternatives = py_get d ''alternatives'' in
      if \<not> is_list alternatives \<or> items_of alternatives = [] then
        Inl (CompatibilityError ''required Python symbol alternatives must be a non-empty list'')
      else rbind (for_each check_alternative (items_of alternatives)) (\<lambda>_.
        if str_of (py_get d ''id'') \<in> set symbol_ids then
          Inl (CompatibilityError ''required Python symbols contain duplicate ids'')
        else Inr (symbol_ids @ [str_of (py_get d ''id'')])))"

definition check_component :: "pyval \<Rightarrow> string list \<times> string list \<Rightarrow> exn + string list \<times> string list" where
  "check_component component seen =
     (let d = dict_of component in
      if \<not> has_keys component {''id'', ''name'', ''relative_paths''} then
        Inl (CompatibilityError ''each required CANN file must contain id, name, and relative_paths'')
      else if \<not> solid_str (py_get d ''id'') then
        Inl (CompatibilityError ''required CANN file id must be non-empty'')
      else if \<not> solid_str (py_get d ''name'') then
        Inl (CompatibilityError ''required CANN file name must be non-empty'')
      else let component_id = str_of (py_get d ''id''); component_name = str_of (py_get d ''name'') in
      if CHR ''/'' \<in> set component_name \<or> CHR 0x5C \<in> set component_name then
        Inl (CompatibilityError ''required CANN file name must be a basename'')
      else rbind (non_empty_strings (py_get d ''relative_paths'')
               (''required CANN file '' @ component_id @ '' relative_paths'')) (\<lambda>relative_paths.
        if (\<exists>value \<in> set relative_paths. is_absolute value \<or> ''..'' \<in> set (path_parts value)) then
          Inl (CompatibilityError (''required CANN file '' @ component_id @ '' has an unsafe relative path''))
        else if (\<exists>value \<in> set relative_paths. pure_name value \<noteq> component_name) then
          Inl (CompatibilityError (''required CANN file '' @ component_id @ '' paths disagree with its name''))
        else if component_id \<in> set (fst seen) \<or> component_name \<in> set (snd seen) then
          Inl (CompatibilityError ''required CANN files contain duplicates'')
        else Inr (fst seen @ [component_id], snd seen @ [component_name])))"

definition check_requirements :: "pyval \<Rightarrow> exn + unit" where
  "check_requirements requirements =
     (if \<not> is_dict requirements then
        Inl (CompatibilityError ''compatibility manifest has no capability requirements'')
      else let d = dict_of requirements in
      rbind (non_empty_strings (py_get d ''architectures'') ''capability_requirements.architectures'') (\<lambda>_.
      rbind (non_empty_strings (py_get d ''accelerators'') ''capability_requirements.accelerators'') (\<lambda>_.
      rbind (non_empty_strings (py_get d ''required_python_modules'') ''capability_requirements.required_python_modules'') (\<lambda>_.
      let symbols = py_get d ''required_python_symbols'' in
      if \<not> is_list symbols \<or> items_of symbols = [] then
        Inl (CompatibilityError ''capability_requirements.required_python_symbols must be a non-empty list'')
      else rbind (fold_res check_symbol (items_of symbols) []) (\<lambda>_.
      rbind (for_each (\<lambda>name.
          if \<not> positive_int (py_get d name) then
            Inl (CompatibilityError (''capability_requirements.'' @ name @ '' must be a positive integer''))
          else Inr ()) [''minimum_accelerator_count'', ''minimum_shared_memory_free_bytes'']) (\<lambda>_.
      let required_cann_files = py_get d ''required_cann_files'' in
      if \<not> is_list required_cann_files \<or> items_of required_cann_files = [] then
        Inl (CompatibilityError ''capability_requirements.required_cann_files must be a non-empty list'')
      else rbind (fold_res check_component (items_of required_cann_files) ([], [])) (\<lambda>_. Inr ())))))))"

section \<open>Profiles\<close>

definition required_assets :: "string list" where
  "required_assets =
     [''graph_config_sha256'', ''tiling_sha256'', ''runtime_weights_manifest_sha256'', ''runtime_weight_files'',
      ''runtime_weight_bytes'']"

text \<open>\<open>sorted(required - set(d))\<close>.\<close>

definition missing_keys :: "string list \<Rightarrow> (string \<times> pyval) list \<Rightarrow> string list" where
  "missing_keys required d = sort (filter (\<lambda>k. k \<notin> set (keys d)) required)"

definition check_profile_assets :: "string \<Rightarrow> pyval \<Rightarrow> exn + unit" where
  "check_profile_assets profile_id assets =
     (if \<not> is_dict assets then Inl (CompatibilityError (''profile '' @ profile_id @ '' has no asset record''))
      else let d = dict_of assets; missing = missing_keys required_assets d in
      if missing \<noteq> [] then
        Inl (CompatibilityError (''profile '' @ profile_id @ '' is missing assets: '' @ comma_join missing))
      else rbind (for_each (\<lambda>(name, value).
          if ends_with ''_sha256'' name \<and> \<not> sha256_value value then
            Inl (CompatibilityError (''profile '' @ profile_id @ '' has invalid '' @ name))
          else Inr ()) d) (\<lambda>_.
        for_each (\<lambda>name.
          if \<not> positive_int (py_get d name) then
            Inl (CompatibilityError (''profile '' @ profile_id @ '' has invalid '' @ name))
          else Inr ()) [''runtime_weight_files'', ''runtime_weight_bytes'']))"

definition check_profile_model :: "string \<Rightarrow> pyval \<Rightarrow> exn + unit" where
  "check_profile_model profile_id model =
     (if \<not> is_dict model then Inl (CompatibilityError (''profile '' @ profile_id @ '' has no model record''))
      else for_each (\<lambda>name.
          if \<not> sha256_value (py_get (dict_of model) name) then
            Inl (CompatibilityError (''profile '' @ profile_id @ '' has invalid model '' @ name))
          else Inr ()) [''config_sha256'', ''index_sha256''])"

text \<open>\<open>v in xs\<close> compares with \<open>==\<close>.\<close>

definition py_member :: "pyval \<Rightarrow> pyval \<Rightarrow> bool" where
  "py_member v xs \<longleftrightarrow> (\<exists>x \<in> set (items_of xs). py_eq v x)"

definition int_of :: "pyval \<Rightarrow> int" where
  "int_of v = (case v of PInt i \<Rightarrow> i | _ \<Rightarrow> 0)"

definition check_profile_hardware :: "(string \<times> pyval) list \<Rightarrow> string \<Rightarrow> pyval \<Rightarrow> exn + unit" where
  "check_profile_hardware requirements profile_id hardware =
     (if \<not> is_dict hardware then Inl (CompatibilityError (''profile '' @ profile_id @ '' has no hardware record''))
      else let d = dict_of hardware in
      if \<not> py_member (py_get d ''architecture'') (py_get requirements ''architectures'') then
        Inl (CompatibilityError (''profile '' @ profile_id @ '' uses an unsupported architecture''))
      else if \<not> py_member (py_get d ''accelerator'') (py_get requirements ''accelerators'') then
        Inl (CompatibilityError (''profile '' @ profile_id @ '' uses an unsupported accelerator''))
      else let accelerator_count = py_get d ''accelerator_count'' in
      if \<not> is_int accelerator_count \<or> is_bool accelerator_count
         \<or> int_of accelerator_count < int_of (py_get requirements ''minimum_accelerator_count'') then
        Inl (CompatibilityError (''profile '' @ profile_id @ '' has insufficient accelerator_count''))
      else Inr ())"

definition check_profile ::
  "(string \<times> pyval) list \<Rightarrow> pyval \<Rightarrow> string list \<Rightarrow> exn + string list" where
  "check_profile requirements profile profile_ids =
     (let d = dict_of profile in
      if \<not> is_dict profile \<or> \<not> is_str (py_get d ''id'') then
        Inl (CompatibilityError ''compatibility profile has no id'')
      else let profile_id = str_of (py_get d ''id'') in
      if profile_id \<in> set profile_ids then
        Inl (CompatibilityError (''duplicate compatibility profile '' @ profile_id))
      else let software = py_get d ''software'' in
      if \<not> is_dict software \<or> \<not> is_str (py_get (dict_of software) ''driver'') then
        Inl (CompatibilityError (''profile '' @ profile_id @ '' has no driver version''))
      else
        rbind (check_profile_assets profile_id (py_get d ''assets'')) (\<lambda>_.
        rbind (check_profile_model profile_id (py_get d ''model'')) (\<lambda>_.
        rbind (check_profile_hardware requirements profile_id (py_get d ''hardware'')) (\<lambda>_.
          Inr (profile_ids @ [profile_id])))))"

definition validate_compatibility_manifest :: "(string \<times> pyval) list \<Rightarrow> exn + unit" where
  "validate_compatibility_manifest manifest =
     (if \<not> py_eq (py_get manifest ''schema_version'') (PInt COMPATIBILITY_SCHEMA_VERSION) then
        Inl (CompatibilityError ''unsupported compatibility manifest schema'')
      else let product = py_get manifest ''product'' in
      if \<not> is_dict product then Inl (CompatibilityError ''compatibility manifest has no product record'')
      else if \<not> py_eq product expected_product then
        Inl (CompatibilityError ''compatibility product record disagrees with package'')
      else if \<not> py_eq (py_get manifest ''contracts'') expected_contracts then
        Inl (CompatibilityError ''compatibility contract versions disagree with code'')
      else let requirements = py_get manifest ''capability_requirements'' in
      rbind (check_requirements requirements) (\<lambda>_.
      let profiles = py_get manifest ''profiles'' in
      if \<not> is_list profiles \<or> items_of profiles = [] then
        Inl (CompatibilityError ''compatibility manifest has no profiles'')
      else rbind (fold_res (check_profile (dict_of requirements)) (items_of profiles) []) (\<lambda>_. Inr ())))"

section \<open>Loading\<close>

text \<open>\<open>resource\<close> is what reading and parsing the packaged file gives.\<close>

definition load_compatibility_manifest :: "exn + pyval \<Rightarrow> exn + (string \<times> pyval) list" where
  "load_compatibility_manifest resource =
     rbind resource (\<lambda>value.
       case value of
         PDict manifest \<Rightarrow> rbind (validate_compatibility_manifest manifest) (\<lambda>_. Inr manifest)
       | _ \<Rightarrow> Inl (AttributeError ''object has no attribute get''))"

definition get_capability_requirements :: "exn + pyval \<Rightarrow> exn + (string \<times> pyval) list" where
  "get_capability_requirements resource =
     rbind (load_compatibility_manifest resource) (\<lambda>manifest.
       Inr (dict_of (py_get manifest ''capability_requirements'')))"

definition list_compatibility_profiles :: "exn + pyval \<Rightarrow> exn + pyval list" where
  "list_compatibility_profiles resource =
     rbind (load_compatibility_manifest resource) (\<lambda>manifest. Inr (items_of (py_get manifest ''profiles'')))"

definition profile_id_of :: "pyval \<Rightarrow> string" where
  "profile_id_of profile = str_of (py_get (dict_of profile) ''id'')"

definition get_compatibility_profile :: "exn + pyval \<Rightarrow> string option \<Rightarrow> exn + pyval" where
  "get_compatibility_profile resource profile_id =
     rbind (load_compatibility_manifest resource) (\<lambda>manifest.
       let profiles = items_of (py_get manifest ''profiles'') in
       case profile_id of
         None \<Rightarrow>
           (if length profiles \<noteq> 1 then
              Inl (CompatibilityError (''a compatibility profile must be selected; available profiles: ''
                @ comma_join (map profile_id_of profiles)))
            else Inr (hd profiles))
       | Some i \<Rightarrow>
           (case find (\<lambda>profile. profile_id_of profile = i) profiles of
              Some profile \<Rightarrow> Inr profile
            | None \<Rightarrow> Inl (CompatibilityError (''unknown compatibility profile '' @ str_repr i))))"

section \<open>What an accepted manifest guarantees\<close>

text \<open>A profile as the rest of the package reads it.\<close>

definition profile_ok :: "(string \<times> pyval) list \<Rightarrow> pyval \<Rightarrow> bool" where
  "profile_ok requirements profile \<longleftrightarrow>
     is_dict profile \<and> py_get (dict_of profile) ''id'' = PStr (profile_id_of profile)
     \<and> (let assets = py_get (dict_of profile) ''assets''; model = py_get (dict_of profile) ''model'';
            hardware = py_get (dict_of profile) ''hardware'' in
          is_dict assets \<and> is_dict model \<and> is_dict hardware
          \<and> (\<forall>k \<in> {''graph_config_sha256'', ''tiling_sha256'', ''runtime_weights_manifest_sha256''}.
               sha256_value (py_get (dict_of assets) k))
          \<and> (\<forall>k \<in> {''runtime_weight_files'', ''runtime_weight_bytes''}. positive_int (py_get (dict_of assets) k))
          \<and> (\<forall>k \<in> {''config_sha256'', ''index_sha256''}. sha256_value (py_get (dict_of model) k))
          \<and> py_member (py_get (dict_of hardware) ''architecture'') (py_get requirements ''architectures'')
          \<and> py_member (py_get (dict_of hardware) ''accelerator'') (py_get requirements ''accelerators'')
          \<and> int_of (py_get requirements ''minimum_accelerator_count'')
              \<le> int_of (py_get (dict_of hardware) ''accelerator_count''))"

lemma missing_keys_none: "missing_keys required d = [] \<longleftrightarrow> set required \<subseteq> set (keys d)"
  by (auto simp: missing_keys_def filter_empty_conv simp flip: set_empty2)

lemma check_profile_assets_ok:
  assumes "check_profile_assets i assets = Inr u"
  shows "is_dict assets"
    and "\<forall>k \<in> {''graph_config_sha256'', ''tiling_sha256'', ''runtime_weights_manifest_sha256''}.
               sha256_value (py_get (dict_of assets) k)"
    and "\<forall>k \<in> {''runtime_weight_files'', ''runtime_weight_bytes''}. positive_int (py_get (dict_of assets) k)"
proof -
  let ?d = "dict_of assets"
  have facts: "is_dict assets" "set required_assets \<subseteq> set (keys ?d)"
    "\<forall>(name, value) \<in> set ?d. ends_with ''_sha256'' name \<longrightarrow> sha256_value value"
    "positive_int (py_get ?d ''runtime_weight_files'')" "positive_int (py_get ?d ''runtime_weight_bytes'')"
    using assms unfolding check_profile_assets_def Let_def raise_if_Inr missing_keys_none [symmetric]
    by (cases u; auto simp: for_each_ok rbind_Inr_iff split: if_splits)+
  have sha: "sha256_value (py_get ?d k)" if k: "k \<in> set required_assets" "ends_with ''_sha256'' k" for k
  proof -
    from k(1) facts(2) obtain v where v: "map_of ?d k = Some v" using dict_keysE [of k ?d] by blast
    then have "(k, v) \<in> set ?d" by (rule map_of_SomeD)
    with facts(3) k(2) have "sha256_value v" by blast
    with v show ?thesis by (simp add: py_get_def)
  qed
  show "is_dict assets" by (rule facts(1))
  show "\<forall>k \<in> {''graph_config_sha256'', ''tiling_sha256'', ''runtime_weights_manifest_sha256''}. sha256_value (py_get ?d k)"
    using sha by (simp add: required_assets_def ends_with_def suffix_def)
  show "\<forall>k \<in> {''runtime_weight_files'', ''runtime_weight_bytes''}. positive_int (py_get ?d k)"
    using facts(4,5) by simp
qed

lemma check_profile_ok:
  assumes "check_profile requirements profile ids = Inr ids'"
  shows "ids' = ids @ [profile_id_of profile] \<and> profile_id_of profile \<notin> set ids \<and> profile_ok requirements profile"
proof -
  let ?d = "dict_of profile"
  have facts: "is_dict profile" "is_str (py_get ?d ''id'')" "profile_id_of profile \<notin> set ids"
    "ids' = ids @ [profile_id_of profile]"
    and assets: "check_profile_assets (profile_id_of profile) (py_get ?d ''assets'') = Inr ()"
    and model: "check_profile_model (profile_id_of profile) (py_get ?d ''model'') = Inr ()"
    and hardware: "check_profile_hardware requirements (profile_id_of profile) (py_get ?d ''hardware'') = Inr ()"
    using assms unfolding check_profile_def Let_def raise_if_Inr rbind_Inr_iff profile_id_of_def by auto
  have "is_dict (py_get ?d ''model'')" "\<forall>k \<in> {''config_sha256'', ''index_sha256''}. sha256_value (py_get (dict_of (py_get ?d ''model'')) k)"
    using model unfolding check_profile_model_def raise_if_Inr by (auto simp: for_each_ok rbind_Inr_iff split: if_splits)
  moreover have "is_dict (py_get ?d ''hardware'')"
    "py_member (py_get (dict_of (py_get ?d ''hardware'')) ''architecture'') (py_get requirements ''architectures'')"
    "py_member (py_get (dict_of (py_get ?d ''hardware'')) ''accelerator'') (py_get requirements ''accelerators'')"
    "int_of (py_get requirements ''minimum_accelerator_count'')
       \<le> int_of (py_get (dict_of (py_get ?d ''hardware'')) ''accelerator_count'')"
    using hardware unfolding check_profile_hardware_def Let_def raise_if_Inr by auto
  moreover have "py_get ?d ''id'' = PStr (profile_id_of profile)"
    using facts(2) by (simp add: profile_id_of_def is_str_def str_of_def split: pyval.splits)
  ultimately show ?thesis
    using facts(1,3,4) check_profile_assets_ok [OF assets] unfolding profile_ok_def Let_def by blast
qed

text \<open>A loop that collects a key per element, refusing repetitions.\<close>

lemma fold_collect:
  assumes "\<And>q a a'. step q a = Inr a' \<Longrightarrow> a' = a @ [f q] \<and> f q \<notin> set a \<and> P q"
    and "fold_res step qs a = Inr a'" and "distinct a"
  shows "a' = a @ map f qs \<and> distinct a' \<and> (\<forall>q \<in> set qs. P q)"
  using assms(2,3)
proof (induction qs arbitrary: a)
  case (Cons q qs)
  from Cons.prems(1) obtain b where b: "step q a = Inr b" and rest: "fold_res step qs b = Inr a'"
    by (auto simp: rbind_Inr_iff)
  from assms(1) [OF b] have q: "b = a @ [f q]" "f q \<notin> set a" "P q" by simp_all
  with Cons.prems(2) have "distinct b" by simp
  note IH = Cons.IH [OF rest this]
  then have "a' = a @ map f (q # qs)" "\<forall>q \<in> set (q # qs). P q" using q by simp_all
  with IH show ?case by blast
qed simp

definition component_safe :: "pyval \<Rightarrow> bool" where
  "component_safe component \<longleftrightarrow>
     (\<forall>value \<in> set (items_of (py_get (dict_of component) ''relative_paths'')).
        \<not> is_absolute (str_of value) \<and> ''..'' \<notin> set (path_parts (str_of value))
        \<and> PStr (pure_name (str_of value)) = py_get (dict_of component) ''name'')"

lemma check_component_safe:
  assumes "check_component component seen = Inr seen'"
  shows "component_safe component"
proof -
  have strings: "xs = map str_of (items_of v)" if "non_empty_strings v n = Inr xs" for v n xs
    using that unfolding non_empty_strings_def Let_def raise_if_Inr by simp
  have name: "v = PStr (str_of v)" if "solid_str v" for v
    using that by (simp add: solid_str_def str_of_def split: pyval.splits)
  show ?thesis
    using assms name [of "py_get (dict_of component) ''name''"]
    unfolding check_component_def Let_def raise_if_Inr rbind_Inr_iff component_safe_def
    by (auto dest!: strings)
qed

lemma fold_each:
  "(\<And>q a a'. step q a = Inr a' \<Longrightarrow> P q) \<Longrightarrow> fold_res step qs a = Inr a' \<Longrightarrow> \<forall>q \<in> set qs. P q"
  by (induction qs arbitrary: a) (auto simp: rbind_Inr_iff)

lemma manifest_facts:
  assumes "validate_compatibility_manifest manifest = Inr u"
  shows "distinct (map profile_id_of (items_of (py_get manifest ''profiles'')))"
    and "\<forall>profile \<in> set (items_of (py_get manifest ''profiles'')).
      profile_ok (dict_of (py_get manifest ''capability_requirements'')) profile"
    and "\<forall>component \<in> set (items_of (py_get (dict_of (py_get manifest ''capability_requirements'')) ''required_cann_files'')).
      component_safe component"
proof -
  let ?req = "dict_of (py_get manifest ''capability_requirements'')"
  obtain ids where fold: "fold_res (check_profile ?req) (items_of (py_get manifest ''profiles'')) [] = Inr ids"
    and req: "check_requirements (py_get manifest ''capability_requirements'') = Inr ()"
    using assms unfolding validate_compatibility_manifest_def Let_def raise_if_Inr rbind_Inr_iff by auto
  have "ids = [] @ map profile_id_of (items_of (py_get manifest ''profiles'')) \<and> distinct ids
    \<and> (\<forall>profile \<in> set (items_of (py_get manifest ''profiles'')). profile_ok ?req profile)"
    by (rule fold_collect [where step = "check_profile ?req" and P = "profile_ok ?req", OF check_profile_ok fold]) simp_all
  then show "distinct (map profile_id_of (items_of (py_get manifest ''profiles'')))"
    "\<forall>profile \<in> set (items_of (py_get manifest ''profiles'')). profile_ok ?req profile" by (metis append_Nil)+
  obtain seen where "fold_res check_component (items_of (py_get ?req ''required_cann_files'')) ([], []) = Inr seen"
    using req unfolding check_requirements_def Let_def raise_if_Inr rbind_Inr_iff by auto
  from fold_each [OF check_component_safe this]
  show "\<forall>component \<in> set (items_of (py_get ?req ''required_cann_files'')). component_safe component" .
qed

lemma load_manifest:
  assumes "load_compatibility_manifest resource = Inr manifest"
  shows "resource = Inr (PDict manifest)" and "validate_compatibility_manifest manifest = Inr ()"
proof -
  obtain v where v: "resource = Inr v" using assms by (auto simp: load_compatibility_manifest_def rbind_Inr_iff)
  with assms have "v = PDict manifest \<and> validate_compatibility_manifest manifest = Inr ()"
    by (cases v) (auto simp: load_compatibility_manifest_def rbind_Inr_iff)
  with v show "resource = Inr (PDict manifest)" "validate_compatibility_manifest manifest = Inr ()" by simp_all
qed

lemma find_unique:
  "distinct (map f xs) \<Longrightarrow> x \<in> set xs \<Longrightarrow> find (\<lambda>y. f y = f x) xs = Some x"
  by (induction xs) auto

lemma get_profile_found:
  assumes "load_compatibility_manifest resource = Inr manifest"
    and "profile \<in> set (items_of (py_get manifest ''profiles''))"
  shows "get_compatibility_profile resource (Some (profile_id_of profile)) = Inr profile"
proof -
  from find_unique [OF manifest_facts(1) [OF load_manifest(2) [OF assms(1)]] assms(2)] show ?thesis
    by (simp add: get_compatibility_profile_def assms(1) Let_def)
qed

lemma get_profile_listed:
  assumes "get_compatibility_profile resource (Some i) = Inr profile"
  shows "\<exists>manifest. load_compatibility_manifest resource = Inr manifest
    \<and> profile \<in> set (items_of (py_get manifest ''profiles'')) \<and> profile_id_of profile = i
    \<and> profile_ok (dict_of (py_get manifest ''capability_requirements'')) profile"
proof -
  obtain manifest where load: "load_compatibility_manifest resource = Inr manifest"
    and found: "find (\<lambda>profile. profile_id_of profile = i) (items_of (py_get manifest ''profiles'')) = Some profile"
    using assms by (auto simp: get_compatibility_profile_def rbind_Inr_iff Let_def split: option.splits)
  moreover note load_manifest(2) [OF load]
  moreover have "profile \<in> set (items_of (py_get manifest ''profiles''))" "profile_id_of profile = i"
    using found by (auto simp: find_Some_iff)
  ultimately show ?thesis using manifest_facts(2) by blast
qed

end
