(* ===== verification/RuntimeConfig.thy ===== *)
theory RuntimeConfig
  imports Compatibility Config Wire
begin

text \<open>
  \<open>runtime_config.py\<close>: the runtime configuration file, the checks of the paths and the assets
  it names, and the environment it gives the engine. Paths are strings; the file system, the
  JSON parser and SHA-256 are what \<open>filesystem\<close> holds.
\<close>

section \<open>The host\<close>

record filesystem =
  fy_posix :: bool
  fy_expanduser :: "string \<Rightarrow> exn + string"
  fy_resolve :: "string \<Rightarrow> string"
  fy_is_file :: "string \<Rightarrow> bool"
  fy_is_dir :: "string \<Rightarrow> bool"
  fy_mode :: "string \<Rightarrow> int"
  fy_bytes :: "string \<Rightarrow> byte list"
  fy_json :: "string \<Rightarrow> exn + pyval"
  fy_children :: "string \<Rightarrow> string list"
  fy_mkdir :: "string \<Rightarrow> exn + unit"
  fy_digest :: "byte list \<Rightarrow> string"
  fy_repr :: "pyval \<Rightarrow> string"

abbreviation config_error :: "string \<Rightarrow> exn" where
  "config_error m \<equiv> RuntimeConfigError m None"

text \<open>\<open>sha256_file\<close>: the file is hashed in chunks of a mebibyte.\<close>

fun chunks_of :: "nat \<Rightarrow> byte list \<Rightarrow> byte list list" where
  "chunks_of 0 bs = []"
| "chunks_of (Suc fuel) bs = (if bs = [] then [] else take (1024 * 1024) bs # chunks_of fuel (drop (1024 * 1024) bs))"

definition sha256_file :: "filesystem \<Rightarrow> string \<Rightarrow> string" where
  "sha256_file fs path =
     (let bs = fy_bytes fs path in fy_digest fs (concat (chunks_of (length bs) bs)))"

definition file_size :: "filesystem \<Rightarrow> string \<Rightarrow> int" where
  "file_size fs path = int (length (fy_bytes fs path))"

section \<open>Checked values\<close>

definition mapping_of :: "pyval \<Rightarrow> string \<Rightarrow> exn + (string \<times> pyval) list" where
  "mapping_of value name =
     (case value of PDict d \<Rightarrow> Inr d | _ \<Rightarrow> Inl (config_error (name @ '' must be an object'')))"

definition positive_value :: "pyval \<Rightarrow> string \<Rightarrow> exn + int" where
  "positive_value value name =
     (if \<not> positive_int value then Inl (config_error (name @ '' must be a positive integer''))
      else Inr (int_of value))"

definition sha256_of :: "pyval \<Rightarrow> string \<Rightarrow> exn + string" where
  "sha256_of value name =
     (if \<not> sha256_value value then Inl (config_error (name @ '' must be a lowercase SHA256''))
      else Inr (str_of value))"

definition path_of :: "filesystem \<Rightarrow> string \<Rightarrow> pyval \<Rightarrow> string \<Rightarrow> exn + string" where
  "path_of fs base value name =
     (if \<not> solid_str value then Inl (config_error (name @ '' must be a non-empty path''))
      else rbind (fy_expanduser fs (str_of value)) (\<lambda>path.
        Inr (fy_resolve fs (path_join base path))))"

definition require_keys :: "(string \<times> pyval) list \<Rightarrow> string list \<Rightarrow> string \<Rightarrow> exn + unit" where
  "require_keys d required name =
     (let missing = missing_keys required d
      in if missing \<noteq> [] then Inl (config_error (name @ '' is missing: '' @ comma_join missing)) else Inr ())"

section \<open>The configuration\<close>

record runtime_settings =
  rs_scratch_root :: string
  rs_minimum_scratch_free_bytes :: int
  rs_max_steps :: int
  rs_logical_capacity :: int
  rs_startup_timeout_seconds :: int
  rs_persistent_output_limit_bytes :: int

record runtime_assets =
  ra_server :: string
  ra_air :: string
  ra_graph_config :: string
  ra_function_config :: string
  ra_tiling :: string
  ra_external_weights :: string
  ra_external_weights_manifest :: string
  ra_resource_config :: string
  ra_model_config :: string
  ra_model_index :: string

record asset_integrity =
  ai_air_sha256 :: string
  ai_graph_config_sha256 :: string
  ai_tiling_sha256 :: string
  ai_external_weights_manifest_sha256 :: string
  ai_external_weight_files :: int
  ai_external_weight_bytes :: int
  ai_model_config_sha256 :: string
  ai_model_index_sha256 :: string

record cruise_config =
  cc_source :: string
  cc_compatibility_profile :: string
  cc_device_id :: int
  cc_cann_set_env :: string
  cc_custom_opp_vendors :: "string list"
  cc_runtime :: runtime_settings
  cc_assets :: runtime_assets
  cc_integrity :: asset_integrity

text \<open>The pairs of a configured and a declared value, in the order of \<open>bindings\<close>.\<close>

definition profile_bindings ::
  "asset_integrity \<Rightarrow> (string \<times> pyval) list \<Rightarrow> (string \<times> pyval) list \<Rightarrow> (string \<times> pyval \<times> pyval) list" where
  "profile_bindings ai assets model =
     [(''integrity.graph_config_sha256'', PStr (ai_graph_config_sha256 ai), py_get assets ''graph_config_sha256''),
      (''integrity.tiling_sha256'', PStr (ai_tiling_sha256 ai), py_get assets ''tiling_sha256''),
      (''integrity.external_weights_manifest_sha256'', PStr (ai_external_weights_manifest_sha256 ai),
        py_get assets ''runtime_weights_manifest_sha256''),
      (''integrity.external_weight_files'', PInt (ai_external_weight_files ai), py_get assets ''runtime_weight_files''),
      (''integrity.external_weight_bytes'', PInt (ai_external_weight_bytes ai), py_get assets ''runtime_weight_bytes''),
      (''integrity.model_config_sha256'', PStr (ai_model_config_sha256 ai), py_get model ''config_sha256''),
      (''integrity.model_index_sha256'', PStr (ai_model_index_sha256 ai), py_get model ''index_sha256'')]"

definition validate_profile_identity :: "filesystem \<Rightarrow> (string \<times> pyval) list \<Rightarrow> asset_integrity \<Rightarrow> exn + unit" where
  "validate_profile_identity fs profile ai =
     (let profile_id = str_of (py_get profile ''id'') in
      rbind (mapping_of (py_get profile ''assets'') (''profile '' @ profile_id @ '' assets'')) (\<lambda>assets.
      rbind (mapping_of (py_get profile ''model'') (''profile '' @ profile_id @ '' model'')) (\<lambda>model.
        let mismatches = map (\<lambda>(name, actual, expected).
              name @ '' expected '' @ fy_repr fs expected @ '', got '' @ fy_repr fs actual)
            (filter (\<lambda>(name, actual, expected). \<not> py_eq actual expected) (profile_bindings ai assets model))
        in if mismatches \<noteq> [] then
             Inl (config_error (''runtime assets do not match compatibility profile '' @ profile_id @ '': ''
               @ join_with ''; '' mismatches))
           else Inr ())))"

section \<open>Loading\<close>

definition allowed_top_level :: "string list" where
  "allowed_top_level =
     [''schema_version'', ''compatibility_profile'', ''device_id'', ''cann_set_env'', ''custom_opp_vendors'',
      ''runtime'', ''assets'', ''integrity'']"

text \<open>A section of the configuration: an object with exactly the required fields.\<close>

definition section_of :: "pyval \<Rightarrow> string list \<Rightarrow> string \<Rightarrow> exn + (string \<times> pyval) list" where
  "section_of value required name =
     rbind (mapping_of value name) (\<lambda>d.
     rbind (require_keys d required name) (\<lambda>_.
       if set (keys d) \<noteq> set required then Inl (config_error (name @ '' contains unknown fields''))
       else Inr d))"

definition load_settings :: "filesystem \<Rightarrow> string \<Rightarrow> pyval \<Rightarrow> exn + runtime_settings" where
  "load_settings fs base value =
     rbind (section_of value [''scratch_root'', ''minimum_scratch_free_bytes'', ''max_steps'', ''logical_capacity'',
         ''startup_timeout_seconds'', ''persistent_output_limit_bytes''] ''runtime'') (\<lambda>d.
     rbind (positive_value (py_get d ''max_steps'') ''runtime.max_steps'') (\<lambda>max_steps.
       if max_steps \<notin> {1, 2, 4, 8} then Inl (config_error ''runtime.max_steps must be one of 1, 2, 4, 8'')
       else
     rbind (positive_value (py_get d ''logical_capacity'') ''runtime.logical_capacity'') (\<lambda>logical_capacity.
       if logical_capacity < max_steps then Inl (config_error ''runtime.logical_capacity must cover max_steps'')
       else
     rbind (path_of fs base (py_get d ''scratch_root'') ''runtime.scratch_root'') (\<lambda>scratch_root.
     rbind (positive_value (py_get d ''minimum_scratch_free_bytes'') ''runtime.minimum_scratch_free_bytes'') (\<lambda>minimum.
     rbind (positive_value (py_get d ''startup_timeout_seconds'') ''runtime.startup_timeout_seconds'') (\<lambda>timeout.
     rbind (positive_value (py_get d ''persistent_output_limit_bytes'') ''runtime.persistent_output_limit_bytes'') (\<lambda>limit.
       Inr \<lparr>rs_scratch_root = scratch_root, rs_minimum_scratch_free_bytes = minimum, rs_max_steps = max_steps,
            rs_logical_capacity = logical_capacity, rs_startup_timeout_seconds = timeout,
            rs_persistent_output_limit_bytes = limit\<rparr>)))))))"

text \<open>The code builds the assets over a set of names, whose order Python does not fix.\<close>

definition load_assets :: "filesystem \<Rightarrow> string \<Rightarrow> pyval \<Rightarrow> exn + runtime_assets" where
  "load_assets fs base value =
     rbind (section_of value [''server'', ''air'', ''graph_config'', ''function_config'', ''tiling'',
         ''external_weights'', ''external_weights_manifest'', ''resource_config'', ''model_config'',
         ''model_index''] ''assets'') (\<lambda>d.
     let asset = (\<lambda>name. path_of fs base (py_get d name) (''assets.'' @ name)) in
     rbind (asset ''server'') (\<lambda>server.
     rbind (asset ''air'') (\<lambda>air.
     rbind (asset ''graph_config'') (\<lambda>graph_config.
     rbind (asset ''function_config'') (\<lambda>function_config.
     rbind (asset ''tiling'') (\<lambda>tiling.
     rbind (asset ''external_weights'') (\<lambda>external_weights.
     rbind (asset ''external_weights_manifest'') (\<lambda>external_weights_manifest.
     rbind (asset ''resource_config'') (\<lambda>resource_config.
     rbind (asset ''model_config'') (\<lambda>model_config.
     rbind (asset ''model_index'') (\<lambda>model_index.
       Inr \<lparr>ra_server = server, ra_air = air, ra_graph_config = graph_config,
            ra_function_config = function_config, ra_tiling = tiling, ra_external_weights = external_weights,
            ra_external_weights_manifest = external_weights_manifest, ra_resource_config = resource_config,
            ra_model_config = model_config, ra_model_index = model_index\<rparr>)))))))))))"

definition load_integrity :: "pyval \<Rightarrow> exn + asset_integrity" where
  "load_integrity value =
     rbind (section_of value [''air_sha256'', ''graph_config_sha256'', ''tiling_sha256'',
         ''external_weights_manifest_sha256'', ''external_weight_files'', ''external_weight_bytes'',
         ''model_config_sha256'', ''model_index_sha256''] ''integrity'') (\<lambda>d.
     rbind (sha256_of (py_get d ''air_sha256'') ''integrity.air_sha256'') (\<lambda>air.
     rbind (sha256_of (py_get d ''graph_config_sha256'') ''integrity.graph_config_sha256'') (\<lambda>graph_config.
     rbind (sha256_of (py_get d ''tiling_sha256'') ''integrity.tiling_sha256'') (\<lambda>tiling.
     rbind (sha256_of (py_get d ''external_weights_manifest_sha256'') ''integrity.external_weights_manifest_sha256'') (\<lambda>manifest.
     rbind (positive_value (py_get d ''external_weight_files'') ''integrity.external_weight_files'') (\<lambda>weight_files.
     rbind (positive_value (py_get d ''external_weight_bytes'') ''integrity.external_weight_bytes'') (\<lambda>weight_bytes.
     rbind (sha256_of (py_get d ''model_config_sha256'') ''integrity.model_config_sha256'') (\<lambda>model_config.
     rbind (sha256_of (py_get d ''model_index_sha256'') ''integrity.model_index_sha256'') (\<lambda>model_index.
       Inr \<lparr>ai_air_sha256 = air, ai_graph_config_sha256 = graph_config, ai_tiling_sha256 = tiling,
            ai_external_weights_manifest_sha256 = manifest, ai_external_weight_files = weight_files,
            ai_external_weight_bytes = weight_bytes, ai_model_config_sha256 = model_config,
            ai_model_index_sha256 = model_index\<rparr>)))))))))"

definition load_vendors :: "filesystem \<Rightarrow> string \<Rightarrow> pyval \<Rightarrow> exn + string list" where
  "load_vendors fs base value =
     (if \<not> is_list value \<or> items_of value = [] then
        Inl (config_error ''custom_opp_vendors must be a non-empty list'')
      else rbind (map_res (\<lambda>(index, v). path_of fs base v (''custom_opp_vendors['' @ nat_str index @ '']''))
                (enumerate 0 (items_of value))) (\<lambda>vendors.
        if card (set vendors) \<noteq> length vendors then
          Inl (config_error ''custom_opp_vendors contains duplicates'')
        else Inr vendors))"

text \<open>\<open>source.parent\<close> of a resolved path.\<close>

definition parent_of :: "string \<Rightarrow> string" where
  "parent_of p = ''/'' @ join_with ''/'' (butlast (path_parts p))"

definition load_root :: "pyval \<Rightarrow> exn + (string \<times> pyval) list" where
  "load_root value =
     rbind (mapping_of value ''configuration'') (\<lambda>d.
       let unknown = sort (filter (\<lambda>k. k \<notin> set allowed_top_level) (keys d)) in
       if unknown \<noteq> [] then Inl (config_error (''unknown top-level fields: '' @ comma_join unknown))
       else rbind (require_keys d allowed_top_level ''configuration'') (\<lambda>_.
         if \<not> py_eq (py_get d ''schema_version'') (PInt RUNTIME_CONFIG_SCHEMA_VERSION) then
           Inl (config_error ''unsupported runtime configuration schema'')
         else Inr d))"

definition load_runtime_config :: "filesystem \<Rightarrow> exn + pyval \<Rightarrow> string \<Rightarrow> exn + cruise_config" where
  "load_runtime_config fs resource path =
     rbind (fy_expanduser fs path) (\<lambda>expanded.
     let source = fy_resolve fs expanded in
     rbind (case fy_json fs source of
              Inr value \<Rightarrow> Inr value
            | Inl (FileNotFoundError m) \<Rightarrow> Inl (config_error (''configuration does not exist: '' @ source))
            | Inl (JSONDecodeError m) \<Rightarrow> Inl (config_error (''configuration is not valid JSON: '' @ m))
            | Inl e \<Rightarrow> Inl e) (\<lambda>value.
     rbind (load_root value) (\<lambda>d.
     if \<not> is_str (py_get d ''compatibility_profile'') then
       Inl (config_error ''compatibility_profile must be a string'')
     else let profile_id = str_of (py_get d ''compatibility_profile'') in
     rbind (get_compatibility_profile resource (Some profile_id)) (\<lambda>profile.
     let device_id = py_get d ''device_id'' in
     if \<not> is_int device_id \<or> is_bool device_id \<or> int_of device_id < 0 then
       Inl (config_error ''device_id must be a non-negative integer'')
     else let base = parent_of source in
     rbind (load_settings fs base (py_get d ''runtime'')) (\<lambda>runtime.
     rbind (load_assets fs base (py_get d ''assets'')) (\<lambda>assets.
     rbind (load_integrity (py_get d ''integrity'')) (\<lambda>integrity.
     rbind (validate_profile_identity fs (dict_of profile) integrity) (\<lambda>_.
     rbind (load_vendors fs base (py_get d ''custom_opp_vendors'')) (\<lambda>vendors.
     rbind (path_of fs base (py_get d ''cann_set_env'') ''cann_set_env'') (\<lambda>cann_set_env.
       Inr \<lparr>cc_source = source, cc_compatibility_profile = profile_id, cc_device_id = int_of device_id,
            cc_cann_set_env = cann_set_env, cc_custom_opp_vendors = vendors, cc_runtime = runtime,
            cc_assets = assets, cc_integrity = integrity\<rparr>))))))))))"

end
