(* ===== verification/RuntimePaths.thy ===== *)
theory RuntimePaths
  imports RuntimeConfig
begin

text \<open>
  The methods of \<open>CruiseRuntimeConfig\<close>: the checks of everything the configuration names, and
  the environment of the engine.
\<close>

section \<open>Validating the paths\<close>

definition required_files :: "cruise_config \<Rightarrow> (string \<times> string) list" where
  "required_files c =
     (let a = cc_assets c in
      [(''cann_set_env'', cc_cann_set_env c), (''server'', ra_server a), (''air'', ra_air a),
       (''graph_config'', ra_graph_config a), (''function_config'', ra_function_config a), (''tiling'', ra_tiling a),
       (''external_weights_manifest'', ra_external_weights_manifest a), (''resource_config'', ra_resource_config a),
       (''model_config'', ra_model_config a), (''model_index'', ra_model_index a)])"

definition check_required_file :: "filesystem \<Rightarrow> cruise_config \<Rightarrow> string \<times> string \<Rightarrow> exn + unit" where
  "check_required_file fs c entry =
     (case entry of (name, path) \<Rightarrow>
        if \<not> fy_is_file fs path then
          Inl (RuntimeConfigError (name @ '' is not a file: '' @ path)
            (Some (''missing-runtime-asset'', ''regular file for '' @ name @ '' at '' @ path,
              ''missing or not a regular file'',
              ''provision the content-addressed asset bundle declared by profile '' @ cc_compatibility_profile c
                @ ''; do not substitute an unqualified model or artifact'')))
        else Inr ())"

definition validate_device_paths :: "filesystem \<Rightarrow> cruise_config \<Rightarrow> exn + unit" where
  "validate_device_paths fs c =
     (if \<not> fy_posix fs then Inr ()
      else let scratch = fy_resolve fs (rs_scratch_root (cc_runtime c));
               weights = fy_resolve fs (ra_external_weights (cc_assets c)) in
      if \<not> is_relative_to scratch ''/dev/shm'' then
        Inl (config_error (''scratch_root must be below /dev/shm: '' @ scratch))
      else if same_path scratch ''/dev/shm'' then Inl (config_error ''scratch_root must not be /dev/shm itself'')
      else if is_relative_to weights scratch then
        Inl (config_error ''external_weights must not be inside the cleanup-managed scratch_root'')
      else Inr ())"

definition validate_opp_vendors :: "filesystem \<Rightarrow> cruise_config \<Rightarrow> exn + unit" where
  "validate_opp_vendors fs c =
     for_each (\<lambda>vendor. for_each (\<lambda>relative.
       let path = path_join vendor relative in
       if \<not> fy_is_dir fs path then Inl (config_error (''custom OPP directory is missing: '' @ path)) else Inr ())
       [''op_impl'', ''op_proto'', ''op_api/lib'']) (cc_custom_opp_vendors c)"

text \<open>\<open>json.loads\<close> of a file, with the errors the code turns into its own.\<close>

definition parse_json :: "filesystem \<Rightarrow> string \<Rightarrow> string \<Rightarrow> exn + pyval" where
  "parse_json fs path what =
     (case fy_json fs path of
        Inr value \<Rightarrow> Inr value
      | Inl e \<Rightarrow>
          Inl (case e of
             OSError m \<Rightarrow> config_error (what @ m)
           | FileNotFoundError m \<Rightarrow> config_error (what @ m)
           | TimeoutError m \<Rightarrow> config_error (what @ m)
           | JSONDecodeError m \<Rightarrow> config_error (what @ m)
           | other \<Rightarrow> other))"

definition get_of :: "pyval \<Rightarrow> string \<Rightarrow> exn + pyval" where
  "get_of value k =
     (case value of PDict d \<Rightarrow> Inr (py_get d k) | _ \<Rightarrow> Inl (AttributeError ''object has no attribute get''))"

definition validate_function_config :: "filesystem \<Rightarrow> cruise_config \<Rightarrow> exn + unit" where
  "validate_function_config fs c =
     rbind (parse_json fs (ra_function_config (cc_assets c)) ''cannot parse function_config: '') (\<lambda>value.
     rbind (get_of value ''func_list'') (\<lambda>functions.
       if \<not> py_eq functions (PList [PDict [(''func_name'', PStr ''g4c_b4_resident_epoch'')]]) then
         Inl (config_error ''function_config selects an unexpected UDF'')
       else if \<not> py_eq (py_get (dict_of value) ''input_num'') (PInt HOST_UDF_INPUTS) then
         Inl (config_error ''function_config Host-UDF input count is incompatible'')
       else if \<not> py_eq (py_get (dict_of value) ''output_num'') (PInt HOST_UDF_OUTPUTS) then
         Inl (config_error ''function_config Host-UDF output count is incompatible'')
       else let workspace = py_get (dict_of value) ''workspace'' in
       if \<not> is_str workspace \<or> \<not> fy_is_dir fs (str_of workspace) then
         Inl (config_error ''function_config workspace is missing'')
       else Inr ()))"

text \<open>The dictionary of digests by path: of two assets with one path only the later digest is kept.\<close>

definition expected_digests :: "cruise_config \<Rightarrow> (string, string) dict" where
  "expected_digests c =
     (let a = cc_assets c; i = cc_integrity c in
      fold (\<lambda>(path, digest). AList.update path digest)
        [(ra_air a, ai_air_sha256 i), (ra_graph_config a, ai_graph_config_sha256 i), (ra_tiling a, ai_tiling_sha256 i),
         (ra_external_weights_manifest a, ai_external_weights_manifest_sha256 i),
         (ra_model_config a, ai_model_config_sha256 i), (ra_model_index a, ai_model_index_sha256 i)] [])"

definition validate_hashes :: "filesystem \<Rightarrow> cruise_config \<Rightarrow> exn + unit" where
  "validate_hashes fs c =
     for_each (\<lambda>(path, digest).
       let observed = sha256_file fs path in
       if observed \<noteq> digest then
         Inl (config_error (''SHA256 mismatch for '' @ path @ '': expected '' @ digest @ '', observed '' @ observed))
       else Inr ()) (expected_digests c)"

definition weight_names :: "filesystem \<Rightarrow> cruise_config \<Rightarrow> string list" where
  "weight_names fs c =
     (let dir = ra_external_weights (cc_assets c)
      in filter (\<lambda>name. fy_is_file fs (path_join dir name)) (fy_children fs dir))"

text \<open>\<open>record["name"]\<close> of one entry of the manifest, and the comparison of its file.\<close>

definition check_weight_record :: "filesystem \<Rightarrow> cruise_config \<Rightarrow> pyval \<Rightarrow> exn + unit" where
  "check_weight_record fs c entry =
     (case entry of
        PDict d \<Rightarrow>
          (case map_of d ''name'' of
             None \<Rightarrow> Inl (KeyError ''name'')
           | Some (PStr name) \<Rightarrow>
               (let path = path_join (ra_external_weights (cc_assets c)) name in
                if \<not> py_eq (PInt (file_size fs path)) (py_get d ''bytes'') then
                  Inl (config_error (''external weight size mismatch: '' @ name))
                else if \<not> py_eq (PStr (sha256_file fs path)) (py_get d ''sha256'') then
                  Inl (config_error (''external weight SHA256 mismatch: '' @ name))
                else Inr ())
           | Some _ \<Rightarrow> Inl (TypeError ''unsupported operand type(s) for /''))
      | _ \<Rightarrow> Inl (TypeError ''indices must be integers''))"

text \<open>The set of the names in the manifest; a list or an object is not hashable.\<close>

definition manifest_names :: "pyval list \<Rightarrow> exn + pyval list" where
  "manifest_names records =
     (let names = map (\<lambda>r. py_get (dict_of r) ''name'') (filter is_dict records)
      in if (\<exists>n \<in> set names. is_list n \<or> is_dict n) then Inl (TypeError ''unhashable type'') else Inr names)"

definition check_weights_manifest :: "filesystem \<Rightarrow> cruise_config \<Rightarrow> string list \<Rightarrow> exn + unit" where
  "check_weights_manifest fs c names =
     rbind (parse_json fs (ra_external_weights_manifest (cc_assets c)) ''cannot parse external weight manifest: '') (\<lambda>value.
     rbind (get_of value ''files'') (\<lambda>records.
       if \<not> is_list records \<or> length (items_of records) \<noteq> length names then
         Inl (config_error ''external weight manifest file list is incomplete'')
       else rbind (manifest_names (items_of records)) (\<lambda>found.
         if set found \<noteq> PStr ` set names then
           Inl (config_error ''external weight manifest names do not match directory'')
         else for_each (check_weight_record fs c) (items_of records))))"

definition validate_external_weights :: "filesystem \<Rightarrow> bool \<Rightarrow> cruise_config \<Rightarrow> exn + unit" where
  "validate_external_weights fs deep c =
     (let names = weight_names fs c; i = cc_integrity c;
          observed_bytes = sum_list (map (\<lambda>name. file_size fs (path_join (ra_external_weights (cc_assets c)) name)) names)
      in if int (length names) \<noteq> ai_external_weight_files i then
           Inl (config_error (''external weight file count mismatch: expected '' @ int_str (ai_external_weight_files i)
             @ '', observed '' @ nat_str (length names)))
         else if observed_bytes \<noteq> ai_external_weight_bytes i then
           Inl (config_error (''external weight byte count mismatch: expected '' @ int_str (ai_external_weight_bytes i)
             @ '', observed '' @ int_str observed_bytes))
         else if \<not> deep then Inr ()
         else check_weights_manifest fs c names)"

definition validate_paths :: "filesystem \<Rightarrow> bool \<Rightarrow> cruise_config \<Rightarrow> exn + unit" where
  "validate_paths fs deep c =
     rbind (for_each (check_required_file fs c) (required_files c)) (\<lambda>_.
       let server = ra_server (cc_assets c); weights = ra_external_weights (cc_assets c) in
       if fy_posix fs \<and> Bit_Operations.and (fy_mode fs server) 73 = 0 then
         Inl (RuntimeConfigError (''server is not executable: '' @ server)
           (Some (''invalid-runtime-asset-permissions'', ''executable server at '' @ server,
             ''regular file without an executable bit'',
             ''restore the executable mode from the qualified asset bundle'')))
       else if \<not> fy_is_dir fs weights then
         Inl (RuntimeConfigError (''external_weights is not a directory: '' @ weights)
           (Some (''missing-runtime-asset'',
             ''external weight directory with '' @ int_str (ai_external_weight_files (cc_integrity c)) @ '' files and ''
               @ int_str (ai_external_weight_bytes (cc_integrity c)) @ '' bytes at '' @ weights,
             ''missing or not a directory'',
             ''provision the content-addressed runtime weights declared by profile '' @ cc_compatibility_profile c
               @ ''; do not download or reuse a different model revision'')))
       else
         rbind (validate_device_paths fs c) (\<lambda>_.
         rbind (validate_opp_vendors fs c) (\<lambda>_.
         rbind (validate_function_config fs c) (\<lambda>_.
         rbind (validate_hashes fs c) (\<lambda>_.
           validate_external_weights fs deep c)))))"

section \<open>The environment of the engine\<close>

definition run_directories :: "string \<Rightarrow> string list" where
  "run_directories run =
     [run @ ''/cache/ascend'', run @ ''/cache/torchinductor'', run @ ''/cache/triton'', run @ ''/cache/xdg'',
      run @ ''/logs'', run @ ''/tmp'', run @ ''/graph-external-weights'']"

definition engine_settings :: "cruise_config \<Rightarrow> string \<Rightarrow> (string, string) dict" where
  "engine_settings c run =
     (let a = cc_assets c in
      [(''ASCEND_RT_VISIBLE_DEVICES'', int_str (cc_device_id c)), (''ASCEND_GLOBAL_LOG_LEVEL'', ''3''),
       (''ASCEND_SLOG_PRINT_TO_STDOUT'', ''1''), (''ASCEND_PROCESS_LOG_PATH'', run @ ''/logs''),
       (''ASCEND_CACHE_PATH'', run @ ''/cache/ascend''), (''TMPDIR'', run @ ''/tmp''),
       (''TORCHINDUCTOR_CACHE_DIR'', run @ ''/cache/torchinductor''), (''TRITON_CACHE_DIR'', run @ ''/cache/triton''),
       (''XDG_CACHE_HOME'', run @ ''/cache/xdg''), (''PYTHONDONTWRITEBYTECODE'', ''1''),
       (''RESOURCE_CONFIG_PATH'', ra_resource_config a),
       (''VLLM_ASCEND_RESIDENT_EPOCH_BACKEND_FACTORY'',
         ''vllm_ascend_resident_epoch.sidecar_backend:create_sidecar_engine''),
       (''VLLM_ASCEND_RESIDENT_EPOCH_SERVER'', ra_server a), (''VLLM_ASCEND_RESIDENT_EPOCH_AIR'', ra_air a),
       (''VLLM_ASCEND_RESIDENT_EPOCH_GRAPH_CONFIG'', ra_graph_config a),
       (''VLLM_ASCEND_RESIDENT_EPOCH_FUNC_CONFIG'', ra_function_config a),
       (''VLLM_ASCEND_RESIDENT_EPOCH_TILING'', ra_tiling a),
       (''VLLM_ASCEND_RESIDENT_EPOCH_EXTERNAL_WEIGHTS'', run @ ''/graph-external-weights''),
       (''VLLM_ASCEND_RESIDENT_EPOCH_RUNTIME_WEIGHTS'', ra_external_weights a),
       (''VLLM_ASCEND_RESIDENT_EPOCH_SOCKET'', run @ ''/resident-epoch.sock''),
       (''VLLM_ASCEND_RESIDENT_EPOCH_STARTUP_TIMEOUT'', int_str (rs_startup_timeout_seconds (cc_runtime c))),
       (''VLLM_ASCEND_RESIDENT_EPOCH_STEPS'', int_str (rs_max_steps (cc_runtime c))),
       (''VLLM_ASCEND_RESIDENT_EPOCH_CAPACITY'', int_str (rs_logical_capacity (cc_runtime c)))])"

text \<open>\<open>f"{new}:{old}" if old else new\<close>.\<close>

definition prepend_search :: "string \<Rightarrow> string \<Rightarrow> (string, string) dict \<Rightarrow> (string, string) dict" where
  "prepend_search name new env =
     (case map_of env name of
        Some old \<Rightarrow> AList.update name (if old = '''' then new else new @ '':'' @ old) env
      | None \<Rightarrow> AList.update name new env)"

definition engine_environment ::
  "filesystem \<Rightarrow> cruise_config \<Rightarrow> string \<Rightarrow> (string, string) dict \<Rightarrow> exn + (string, string) dict" where
  "engine_environment fs c run_directory base =
     (let run = fy_resolve fs run_directory in
      rbind (for_each (fy_mkdir fs) (run_directories run)) (\<lambda>_.
        let environment = fold (\<lambda>(name, value). AList.update name value) (engine_settings c run) base;
            vendors = cc_custom_opp_vendors c
        in Inr (if vendors = [] then environment
                else prepend_search ''LD_LIBRARY_PATH''
                       (join_with '':'' (map (\<lambda>v. v @ ''/op_api/lib'') vendors))
                       (prepend_search ''ASCEND_CUSTOM_OPP_PATH'' (join_with '':'' vendors) environment))))"

section \<open>What loading and validating guarantee\<close>

lemma fold_update_get:
  "distinct (keys d) \<Longrightarrow> map_of (fold (\<lambda>(k, v). AList.update k v) d base) j =
     (case map_of d j of Some v \<Rightarrow> Some v | None \<Rightarrow> map_of base j)"
proof (induction d arbitrary: base j)
  case (Cons entry d)
  obtain k v where entry: "entry = (k, v)" by fastforce
  have fresh: "map_of d k = None" and rest: "distinct (keys d)"
    using Cons.prems by (auto simp: entry map_of_eq_None_iff)
  show ?case
    by (cases "j = k") (simp_all add: entry fresh Cons.IH [OF rest] dict_get_update split: option.split)
qed simp

lemma settings_distinct: "distinct (keys (engine_settings c run))"
  by (simp add: engine_settings_def Let_def)

lemma environment_get:
  assumes "engine_environment fs c dir base = Inr env" and "j \<notin> {''LD_LIBRARY_PATH'', ''ASCEND_CUSTOM_OPP_PATH''}"
  shows "map_of env j =
    (case map_of (engine_settings c (fy_resolve fs dir)) j of Some v \<Rightarrow> Some v | None \<Rightarrow> map_of base j)"
proof -
  have other: "map_of (prepend_search name new e) j = map_of e j" if "j \<noteq> name" for name new e
    using that by (simp add: prepend_search_def dict_get_update split: option.split)
  let ?plain = "fold (\<lambda>(name, value). AList.update name value) (engine_settings c (fy_resolve fs dir)) base"
  have "map_of env j = map_of ?plain j"
    using assms other by (auto simp: engine_environment_def Let_def rbind_Inr_iff split: if_splits)
  also have "\<dots> = (case map_of (engine_settings c (fy_resolve fs dir)) j of Some v \<Rightarrow> Some v | None \<Rightarrow> map_of base j)"
    by (rule fold_update_get [OF settings_distinct])
  finally show ?thesis .
qed

definition settings_ok :: "runtime_settings \<Rightarrow> bool" where
  "settings_ok rs \<longleftrightarrow> rs_max_steps rs \<in> {1, 2, 4, 8} \<and> rs_max_steps rs \<le> rs_logical_capacity rs
     \<and> 1 \<le> rs_minimum_scratch_free_bytes rs \<and> 1 \<le> rs_startup_timeout_seconds rs
     \<and> 1 \<le> rs_persistent_output_limit_bytes rs"

lemma positive_value_ok: "positive_value v n = Inr i \<Longrightarrow> 1 \<le> i"
  by (auto simp: positive_value_def positive_int_def int_of_def split: if_splits pyval.splits)

lemma load_settings_ok:
  assumes "load_settings fs base v = Inr rs" shows "settings_ok rs"
  using assms unfolding load_settings_def rbind_Inr_iff raise_if_Inr
  by (elim exE conjE) (drule positive_value_ok, simp add: settings_ok_def, auto dest: positive_value_ok)

lemma load_runtime_config_ok:
  assumes "load_runtime_config fs resource path = Inr c"
  shows "settings_ok (cc_runtime c)" and "0 \<le> cc_device_id c" and "distinct (cc_custom_opp_vendors c)"
    and "cc_custom_opp_vendors c \<noteq> []"
    and "\<exists>profile. get_compatibility_profile resource (Some (cc_compatibility_profile c)) = Inr profile
      \<and> validate_profile_identity fs (dict_of profile) (cc_integrity c) = Inr ()"
proof -
  have "settings_ok (cc_runtime c) \<and> 0 \<le> cc_device_id c
      \<and> (\<exists>v. load_vendors fs (parent_of (cc_source c)) v = Inr (cc_custom_opp_vendors c))
      \<and> (\<exists>profile. get_compatibility_profile resource (Some (cc_compatibility_profile c)) = Inr profile
      \<and> validate_profile_identity fs (dict_of profile) (cc_integrity c) = Inr ())"
    using assms unfolding load_runtime_config_def Let_def rbind_Inr_iff raise_if_Inr
    by (elim exE conjE) (auto dest: load_settings_ok)
  moreover have "distinct vs \<and> vs \<noteq> []" if load: "load_vendors fs base v = Inr vs" for base v vs
  proof -
    have some: "items_of v \<noteq> []" and card: "card (set vs) = length vs"
      and items: "map_res (\<lambda>(index, v). path_of fs base v (''custom_opp_vendors['' @ nat_str index @ '']''))
        (enumerate 0 (items_of v)) = Inr vs"
      using load unfolding load_vendors_def raise_if_Inr rbind_Inr_iff by auto
    from map_res_length [OF items] some card show ?thesis by (auto intro: card_distinct)
  qed
  ultimately show "settings_ok (cc_runtime c)" "0 \<le> cc_device_id c" "distinct (cc_custom_opp_vendors c)"
    "cc_custom_opp_vendors c \<noteq> []"
    "\<exists>profile. get_compatibility_profile resource (Some (cc_compatibility_profile c)) = Inr profile
      \<and> validate_profile_identity fs (dict_of profile) (cc_integrity c) = Inr ()" by blast+
qed

end
