(* ===== verification/Patterns.thy ===== *)
theory Patterns
  imports Paths
begin

text \<open>
  What \<open>doctor.py\<close> uses of the module \<open>re\<close>: sequences of character tests, greedy repetitions,
  alternatives of words, anchors and captured groups, matched with backtracking as Python does.
  A pattern is a list of pieces; \<open>Mark\<close> stands for a parenthesis and records the position, so
  the text between the marks \<open>2 * i\<close> and \<open>2 * i + 1\<close> is group \<open>i + 1\<close>. Strings are ASCII.
\<close>

section \<open>Pieces\<close>

datatype piece =
    One "char \<Rightarrow> bool"
  | Many "char \<Rightarrow> bool"
  | Perhaps "char \<Rightarrow> bool"
  | Word "string list" bool
  | LineStart
  | LineEnd
  | Boundary
  | Mark

definition re_digit :: "char \<Rightarrow> bool" where
  "re_digit c \<longleftrightarrow> c \<in> set ''0123456789''"

definition re_space :: "char \<Rightarrow> bool" where
  "re_space c \<longleftrightarrow> py_space c"

definition re_solid :: "char \<Rightarrow> bool" where
  "re_solid c \<longleftrightarrow> \<not> py_space c"

definition lower_letters :: string where "lower_letters = ''abcdefghijklmnopqrstuvwxyz''"
definition upper_letters :: string where "upper_letters = ''ABCDEFGHIJKLMNOPQRSTUVWXYZ''"

definition lower_char :: "char \<Rightarrow> char" where
  "lower_char c = (case map_of (zip upper_letters lower_letters) c of Some l \<Rightarrow> l | None \<Rightarrow> c)"

definition upper_char :: "char \<Rightarrow> char" where
  "upper_char c = (case map_of (zip lower_letters upper_letters) c of Some u \<Rightarrow> u | None \<Rightarrow> c)"

definition word_char :: "char \<Rightarrow> bool" where
  "word_char c \<longleftrightarrow> c \<in> set (''0123456789_'' @ lower_letters @ upper_letters)"

definition lit :: "char \<Rightarrow> piece" where
  "lit c = One (\<lambda>x. x = c)"

text \<open>\<open>x+\<close> is \<open>x\<close> and then any number of them.\<close>

definition some_of :: "(char \<Rightarrow> bool) \<Rightarrow> piece list" where
  "some_of P = [One P, Many P]"

section \<open>Matching\<close>

definition boundary :: "string \<Rightarrow> string \<Rightarrow> bool" where
  "boundary passed rest \<longleftrightarrow>
     (case passed of [] \<Rightarrow> False | c # _ \<Rightarrow> word_char c) \<noteq> (case rest of [] \<Rightarrow> False | c # _ \<Rightarrow> word_char c)"

definition starts_word :: "bool \<Rightarrow> string \<Rightarrow> string \<Rightarrow> bool" where
  "starts_word fold_case word s \<longleftrightarrow>
     (if fold_case then map lower_char (take (length word) s) = map lower_char word else take (length word) s = word)"

text \<open>The first of the choices that leads to a match.\<close>

fun first_some :: "('a \<Rightarrow> 'b option) \<Rightarrow> 'a list \<Rightarrow> 'b option" where
  "first_some f [] = None"
| "first_some f (x # xs) = (case f x of Some y \<Rightarrow> Some y | None \<Rightarrow> first_some f xs)"

text \<open>
  \<open>re_match ps passed rest marks\<close>: \<open>passed\<close> is the reversed text before the position. The result
  is the passed text, the rest, and the positions of the marks, last first. A repetition first
  tries one more character, an alternative the first of its words.
\<close>

fun words_left :: "piece list \<Rightarrow> nat" where
  "words_left (Word ws fold_case # ps) = length ws"
| "words_left ps = 0"

function (sequential) re_match ::
  "piece list \<Rightarrow> string \<Rightarrow> string \<Rightarrow> nat list \<Rightarrow> (string \<times> string \<times> nat list) option" where
  "re_match [] passed rest marks = Some (passed, rest, marks)"
| "re_match (One P # ps) passed rest marks =
     (case rest of c # cs \<Rightarrow> if P c then re_match ps (c # passed) cs marks else None | [] \<Rightarrow> None)"
| "re_match (Many P # ps) passed rest marks =
     (case rest of
        c # cs \<Rightarrow>
          (if P c then
             (case re_match (Many P # ps) (c # passed) cs marks of
                Some found \<Rightarrow> Some found
              | None \<Rightarrow> re_match ps passed rest marks)
           else re_match ps passed rest marks)
      | [] \<Rightarrow> re_match ps passed rest marks)"
| "re_match (Perhaps P # ps) passed rest marks =
     (case rest of
        c # cs \<Rightarrow>
          (if P c then
             (case re_match ps (c # passed) cs marks of
                Some found \<Rightarrow> Some found
              | None \<Rightarrow> re_match ps passed rest marks)
           else re_match ps passed rest marks)
      | [] \<Rightarrow> re_match ps passed rest marks)"
| "re_match (Word [] fold_case # ps) passed rest marks = None"
| "re_match (Word (w # ws) fold_case # ps) passed rest marks =
     (if starts_word fold_case w rest then
        (case re_match ps (rev (take (length w) rest) @ passed) (drop (length w) rest) marks of
           Some found \<Rightarrow> Some found
         | None \<Rightarrow> re_match (Word ws fold_case # ps) passed rest marks)
      else re_match (Word ws fold_case # ps) passed rest marks)"
| "re_match (LineStart # ps) passed rest marks =
     (if passed = [] \<or> hd passed = CHR 0x0A then re_match ps passed rest marks else None)"
| "re_match (LineEnd # ps) passed rest marks =
     (if rest = [] \<or> hd rest = CHR 0x0A then re_match ps passed rest marks else None)"
| "re_match (Boundary # ps) passed rest marks =
     (if boundary passed rest then re_match ps passed rest marks else None)"
| "re_match (Mark # ps) passed rest marks = re_match ps passed rest (length passed # marks)"
  by pat_completeness auto

termination
  by (relation "measures [\<lambda>(ps, _, rest, _). length rest + length ps, \<lambda>(ps, _, rest, _). words_left ps]")
     auto

definition groups_of :: "string \<Rightarrow> nat list \<Rightarrow> string list" where
  "groups_of s marks =
     (let ms = rev marks in
      map (\<lambda>i. take (ms ! (2 * i + 1) - ms ! (2 * i)) (drop (ms ! (2 * i)) s)) [0..<length ms div 2])"

text \<open>\<open>re.match(...).groups()\<close> at the start of the string.\<close>

definition re_prefix :: "piece list \<Rightarrow> string \<Rightarrow> string list option" where
  "re_prefix ps s = map_option (\<lambda>(_, _, marks). groups_of s marks) (re_match ps [] s [])"

text \<open>\<open>re.search\<close>: the first position where the pattern matches.\<close>

definition search_from :: "piece list \<Rightarrow> string \<Rightarrow> nat \<Rightarrow> (string \<times> string \<times> nat list) option" where
  "search_from ps s start =
     first_some (\<lambda>i. re_match ps (rev (take i s)) (drop i s) []) [start..<Suc (length s)]"

definition re_search :: "piece list \<Rightarrow> string \<Rightarrow> string list option" where
  "re_search ps s = map_option (\<lambda>(_, _, marks). groups_of s marks) (search_from ps s 0)"

text \<open>\<open>match.start()\<close> of a pattern that begins with \<open>Mark\<close>.\<close>

definition re_start :: "piece list \<Rightarrow> string \<Rightarrow> nat option" where
  "re_start ps s = map_option (\<lambda>(_, _, marks). last marks) (search_from (Mark # ps) s 0)"

text \<open>
  \<open>re.finditer\<close> of a pattern without empty matches: each search starts where the last match
  ended, so as many searches as there are characters, and one, are enough.
\<close>

fun find_from :: "nat \<Rightarrow> piece list \<Rightarrow> string \<Rightarrow> nat \<Rightarrow> string list list" where
  "find_from 0 ps s start = []"
| "find_from (Suc fuel) ps s start =
     (case search_from ps s start of
        None \<Rightarrow> []
      | Some (passed, _, marks) \<Rightarrow> groups_of s marks # find_from fuel ps s (length passed))"

definition re_finditer :: "piece list \<Rightarrow> string \<Rightarrow> string list list" where
  "re_finditer ps s = find_from (Suc (length s)) ps s 0"

section \<open>The patterns of the module\<close>

definition base_version_pattern :: "piece list" where
  "base_version_pattern =
     [Mark] @ some_of re_digit @ [lit CHR ''.''] @ some_of re_digit @ [lit CHR ''.''] @ some_of re_digit @ [Mark]"

definition cann_version_pattern :: "piece list" where
  "cann_version_pattern = [LineStart, Word [''Version=''] False, Mark] @ some_of re_solid @ [Mark, LineEnd]"

definition device_pattern :: "piece list" where
  "device_pattern =
     [LineStart, lit CHR ''|'', Many re_space, Mark] @ some_of re_digit @ [Mark] @ some_of re_space
       @ [Mark] @ some_of re_solid @ [Mark] @ some_of re_space @ [lit CHR ''|''] @ some_of re_space
       @ [Mark, Word [''OK'', ''Warning'', ''Alarm'', ''Unknown''] True, Mark, Boundary]"

definition process_header_pattern :: "piece list" where
  "process_header_pattern = [Word [''Process''] True] @ some_of re_space @ [Word [''id''] True]"

definition process_pattern :: "piece list" where
  "process_pattern =
     [LineStart, lit CHR ''|'', Many re_space, Mark] @ some_of re_digit @ [Mark] @ some_of re_space
       @ some_of re_digit @ some_of re_space @ [Perhaps (\<lambda>c. c = CHR ''|''), Many re_space, Mark]
       @ some_of re_digit @ [Mark] @ some_of re_space"

definition npu_smi_pattern :: "piece list" where
  "npu_smi_pattern = [Word [''npu-smi''] False] @ some_of re_space @ [Mark] @ some_of re_solid @ [Mark]"

definition driver_pattern :: "piece list" where
  "driver_pattern = [Boundary, Word [''Version:''] False, Many re_space, Mark] @ some_of re_solid @ [Mark]"

section \<open>What a match is\<close>

text \<open>A match reads the string from left to right and loses nothing of it.\<close>

lemma first_some_Some: "first_some f xs = Some y \<Longrightarrow> \<exists>x \<in> set xs. f x = Some y"
  by (induction xs) (auto split: option.splits)

lemma re_match_text:
  "re_match ps passed rest marks = Some (passed', rest', marks') \<Longrightarrow>
     rev passed' @ rest' = rev passed @ rest \<and> length passed \<le> length passed'"
proof (induction ps passed rest marks rule: re_match.induct)
  case (3 P ps passed rest marks)
  then show ?case by (cases rest) (auto split: if_splits option.splits)
next
  case (4 P ps passed rest marks)
  then show ?case by (auto split: list.splits if_splits option.splits)
next
  case (6 w ws fold_case ps passed rest marks)
  show ?case
  proof (cases "re_match (Word ws fold_case # ps) passed rest marks = Some (passed', rest', marks')")
    case False
    then have "re_match ps (rev (take (length w) rest) @ passed) (drop (length w) rest) marks = Some (passed', rest', marks')"
      "starts_word fold_case w rest"
      using 6(4) by (auto split: if_splits option.splits)
    then show ?thesis using 6(1) by auto
  qed (use 6 in \<open>auto split: if_splits option.splits\<close>)
qed (auto split: if_splits list.splits)

lemma search_text:
  assumes "search_from ps s start = Some (passed, rest, marks)"
  shows "rev passed @ rest = s" and "start \<le> length passed"
proof -
  obtain i where i: "start \<le> i" "i \<le> length s" "re_match ps (rev (take i s)) (drop i s) [] = Some (passed, rest, marks)"
    using first_some_Some [OF assms [unfolded search_from_def]] by auto
  from re_match_text [OF i(3)] i(1,2) show "rev passed @ rest = s" "start \<le> length passed" by auto
qed

end
