(* ===== verification/Doctor.thy ===== *)
theory Doctor
  imports RuntimePaths Patterns
begin

text \<open>
  \<open>doctor.py\<close>: the report of a readiness check and the checks it is made of. What the host
  answers (imports, commands, files, free space) is in \<open>machine\<close>. A check function returns the
  report with its checks added, or the exception that leaves the doctor.
\<close>

section \<open>Reports\<close>

datatype status = Passed | Warned | Failed

record check =
  ck_name :: string
  ck_status :: status
  ck_detail :: string
  ck_code :: "string option"
  ck_expected :: "string option"
  ck_observed :: "string option"
  ck_remediation :: "string option"

record doctor_report =
  dr_mode :: string
  dr_profile :: "string option"
  dr_checks :: "check list"

definition report_passed :: "doctor_report \<Rightarrow> bool" where
  "report_passed r \<longleftrightarrow> (\<forall>c \<in> set (dr_checks r). ck_status c \<noteq> Failed)"

definition report_add :: "check \<Rightarrow> doctor_report \<Rightarrow> doctor_report" where
  "report_add c r = r\<lparr>dr_checks := dr_checks r @ [c]\<rparr>"

definition plain_check :: "string \<Rightarrow> status \<Rightarrow> string \<Rightarrow> check" where
  "plain_check name st detail =
     \<lparr>ck_name = name, ck_status = st, ck_detail = detail, ck_code = None, ck_expected = None,
      ck_observed = None, ck_remediation = None\<rparr>"

definition status_str :: "status \<Rightarrow> string" where
  "status_str st = (case st of Passed \<Rightarrow> ''pass'' | Warned \<Rightarrow> ''warn'' | Failed \<Rightarrow> ''fail'')"

definition optional :: "string option \<Rightarrow> pyval" where
  "optional s = (case s of None \<Rightarrow> PNone | Some t \<Rightarrow> PStr t)"

text \<open>\<open>asdict(check)\<close> and \<open>to_dict\<close>.\<close>

definition check_dict :: "check \<Rightarrow> pyval" where
  "check_dict c = PDict
     [(''name'', PStr (ck_name c)), (''status'', PStr (status_str (ck_status c))), (''detail'', PStr (ck_detail c)),
      (''code'', optional (ck_code c)), (''expected'', optional (ck_expected c)),
      (''observed'', optional (ck_observed c)), (''remediation'', optional (ck_remediation c))]"

definition report_dict :: "doctor_report \<Rightarrow> pyval" where
  "report_dict r = PDict
     [(''schema_version'', PInt 2), (''mode'', PStr (dr_mode r)), (''profile'', optional (dr_profile r)),
      (''pass'', PBool (report_passed r)), (''checks'', PList (map check_dict (dr_checks r)))]"

definition base_version :: "string \<Rightarrow> string" where
  "base_version s = (case re_prefix base_version_pattern s of Some (g # _) \<Rightarrow> g | _ \<Rightarrow> s)"

definition requirement_detail :: "string \<Rightarrow> string \<Rightarrow> string \<Rightarrow> string" where
  "requirement_detail expected observed remediation =
     ''expected='' @ expected @ ''; observed='' @ observed @ ''; remediation='' @ remediation"

definition add_requirement ::
  "string \<Rightarrow> bool \<Rightarrow> string \<Rightarrow> string \<Rightarrow> string \<Rightarrow> string \<Rightarrow> doctor_report \<Rightarrow> doctor_report" where
  "add_requirement name ok code expected observed remediation =
     report_add \<lparr>ck_name = name, ck_status = (if ok then Passed else Failed),
       ck_detail = requirement_detail expected observed remediation,
       ck_code = (if ok then None else Some code), ck_expected = Some expected,
       ck_observed = Some observed, ck_remediation = Some remediation\<rparr>"

text \<open>A failed check with its detail, as the calls \<open>report.add(name, "fail", ...)\<close> make it.\<close>

definition add_failure ::
  "string \<Rightarrow> string \<Rightarrow> string \<Rightarrow> string \<Rightarrow> string \<Rightarrow> doctor_report \<Rightarrow> doctor_report" where
  "add_failure name code expected observed remediation =
     add_requirement name False code expected observed remediation"

section \<open>The host\<close>

record completed =
  cp_returncode :: int
  cp_stdout :: string
  cp_stderr :: string

record machine =
  mc_resource :: "exn + pyval"
  mc_fs :: filesystem
  mc_os_name :: string
  mc_version_info :: "int list"
  mc_python_version :: string
  mc_architecture :: string
  mc_environ :: "(string, string) dict"
  mc_import :: "string \<Rightarrow> string + unit"
  mc_version_attr :: "string \<Rightarrow> pyval"
  mc_file_attr :: "string \<Rightarrow> string"
  mc_getattr :: "string list \<Rightarrow> string + unit"
  mc_which :: "string \<Rightarrow> string option"
  mc_read :: "string \<Rightarrow> exn + string"
  mc_writable :: "string \<Rightarrow> bool"
  mc_free :: "string \<Rightarrow> exn + int"
  mc_run :: "string list \<Rightarrow> exn + completed"
  mc_exists :: "string \<Rightarrow> bool"

definition py_str :: "machine \<Rightarrow> pyval \<Rightarrow> string" where
  "py_str m v = (case v of PStr s \<Rightarrow> s | PInt i \<Rightarrow> int_str i | _ \<Rightarrow> fy_repr (mc_fs m) v)"

definition list_str :: "string list \<Rightarrow> string" where
  "list_str xs = ''['' @ comma_join xs @ '']''"

text \<open>\<open>v[k]\<close> of a value of any type.\<close>

definition py_item :: "pyval \<Rightarrow> string \<Rightarrow> exn + pyval" where
  "py_item v k = (case v of PDict d \<Rightarrow> dict_item d k | _ \<Rightarrow> Inl (TypeError ''indices must be integers''))"

text \<open>\<open>type(exc).__name__\<close>, and the exceptions \<open>except OSError\<close> catches.\<close>

fun exn_name :: "exn \<Rightarrow> string" where
  "exn_name (ValueError m) = ''ValueError''"
| "exn_name (TypeError m) = ''TypeError''"
| "exn_name (RuntimeError m) = ''RuntimeError''"
| "exn_name (KeyError m) = ''KeyError''"
| "exn_name (IndexError m) = ''IndexError''"
| "exn_name (AttributeError m) = ''AttributeError''"
| "exn_name (AssertionError m) = ''AssertionError''"
| "exn_name (TimeoutError m) = ''TimeoutError''"
| "exn_name (OSError m) = ''OSError''"
| "exn_name (FileNotFoundError m) = ''FileNotFoundError''"
| "exn_name (StructError m) = ''error''"
| "exn_name (UnicodeError m) = ''UnicodeError''"
| "exn_name (CompatibilityError m) = ''CompatibilityError''"
| "exn_name (JSONDecodeError m) = ''JSONDecodeError''"
| "exn_name (TimeoutExpired m) = ''TimeoutExpired''"
| "exn_name (RuntimeConfigError m details) = ''RuntimeConfigError''"
| "exn_name (ExecutionError m c st) = ''ResidentEpochExecutionError''"

fun is_os_error :: "exn \<Rightarrow> bool" where
  "is_os_error (OSError m) = True"
| "is_os_error (FileNotFoundError m) = True"
| "is_os_error (TimeoutError m) = True"
| "is_os_error _ = False"

definition module_version :: "machine \<Rightarrow> string \<Rightarrow> string + string" where
  "module_version m name =
     (case mc_import m name of
        Inl failure \<Rightarrow> Inl failure
      | Inr _ \<Rightarrow>
          (case mc_version_attr m name of
             PStr v \<Rightarrow> Inr v
           | _ \<Rightarrow> Inl (''RuntimeError: '' @ name @ '' does not expose __version__'')))"

text \<open>The walk up to the first existing ancestor.\<close>

lemma parent_shorter:
  assumes "\<not> same_path p (parent_of p)" "is_absolute p"
  shows "length (path_parts (parent_of p)) < length (path_parts p)"
proof -
  have "clean_parts (butlast (path_parts p))"
    using path_parts_clean [of p] in_set_butlastD unfolding clean_parts_def by metis
  then have parts: "path_parts (parent_of p) = butlast (path_parts p)"
    by (simp add: parent_of_def path_parts_print)
  have "path_parts p \<noteq> []"
    using assms parts by (auto simp: same_path_def parent_of_def is_absolute_def)
  then show ?thesis by (simp add: parts)
qed

lemma parent_absolute [simp]: "is_absolute (parent_of p)"
  by (simp add: parent_of_def is_absolute_def)

function nearest_existing_parent :: "machine \<Rightarrow> string \<Rightarrow> string" where
  "nearest_existing_parent m candidate =
     (if mc_exists m candidate \<or> same_path candidate (parent_of candidate) \<or> \<not> is_absolute candidate then candidate
      else nearest_existing_parent m (parent_of candidate))"
  by pat_completeness auto

termination
  by (relation "measure (\<lambda>(m, p). length (path_parts p))") (auto intro: parent_shorter)

declare nearest_existing_parent.simps [simp del]

section \<open>The contract smoke\<close>

definition smoke_request :: epoch_request where
  "smoke_request =
     \<lparr>rq_id = ''smoke'', rq_row = 0, rq_generation = 1, rq_token_id = 1, rq_position = 0, rq_sequence_length = 1,
      rq_eos_token_id = 2, rq_scheduler_block_ids = [0], rq_device_block_ids = (0, 1),
      rq_state_owner = ''host'', rq_kv_import_required = False\<rparr>"

definition smoke_plan :: epoch_plan where
  "smoke_plan =
     \<lparr>pl_version = PYTHON_CONTRACT_VERSION, pl_graph_batch_size = 4, pl_max_steps = 1, pl_logical_capacity = 8,
      pl_requests = [smoke_request], pl_active_mask = [1, 0, 0, 0], pl_sampling_mode = 0, pl_graph_variant = 0\<rparr>"

definition smoke_result :: epoch_result where
  "smoke_result =
     (make_result PYTHON_CONTRACT_VERSION ''device'' 0 1 [(''smoke'', 1)])\<lparr>er_row_generations := [1, 0, 0, 0]\<rparr>"

definition contract_smoke :: "exn + unit" where
  "contract_smoke =
     rbind (plan_validate smoke_plan) (\<lambda>_. validate_against smoke_result smoke_plan [(''smoke'', [3])])"

definition run_source_smoke :: "machine \<Rightarrow> exn + doctor_report" where
  "run_source_smoke m =
     (let report = \<lparr>dr_mode = ''source-smoke'', dr_profile = None, dr_checks = []\<rparr> in
      rbind (case load_compatibility_manifest (mc_resource m) of
               Inl e \<Rightarrow>
                 if is_os_error e \<or> exn_name e \<in> {''CompatibilityError'', ''JSONDecodeError''} then
                   Inr (plain_check ''compatibility-manifest'' Failed (exn_str e))
                 else Inl e
             | Inr manifest \<Rightarrow>
                 Inr (plain_check ''compatibility-manifest'' Passed
                   (''schema='' @ py_str m (py_get manifest ''schema_version'') @ '' profiles=''
                     @ nat_str (length (items_of (py_get manifest ''profiles'')))))) (\<lambda>manifest_check.
      let python_check =
            (if [3, 10] \<le> mc_version_info m then plain_check ''python'' Passed (mc_python_version m)
             else plain_check ''python'' Failed (''requires Python >=3.10, found '' @ mc_python_version m));
          contract_check =
            (case contract_smoke of
               Inl e \<Rightarrow> plain_check ''contract-smoke'' Failed (exn_name e @ '': '' @ exn_str e)
             | Inr _ \<Rightarrow> plain_check ''contract-smoke'' Passed ''plan/result validation passed'')
      in Inr (report_add contract_check (report_add python_check (report_add manifest_check report)))))"

section \<open>The Python packages\<close>

definition check_package ::
  "machine \<Rightarrow> string \<Rightarrow> string \<times> string \<times> pyval \<times> bool \<Rightarrow> doctor_report \<Rightarrow> exn + doctor_report" where
  "check_package m profile_id package report =
     (case package of (label, name, expected, compare_base) \<Rightarrow>
        (case module_version m name of
           Inl failure \<Rightarrow>
             Inr (add_failure label ''missing-python-dependency'' (py_str m expected) (''import failed: '' @ failure)
               (''install '' @ label @ '' from the selected profile into the active Python environment'') report)
         | Inr observed \<Rightarrow>
             if compare_base \<and> \<not> is_str expected then Inl (TypeError ''expected string or bytes-like object'')
             else let left = (if compare_base then base_version observed else observed);
                      right = (if compare_base then PStr (base_version (str_of expected)) else expected)
             in Inr (add_requirement label (py_eq (PStr left) right) ''incompatible-package-version''
               (py_str m expected) observed
               (''install the '' @ label @ '' build declared by profile '' @ profile_id
                 @ '' or qualify this package combination as a new profile'') report)))"

text \<open>The manifest's check has seen that \<open>software\<close> is an object with a driver version, and nothing else of it.\<close>

definition check_software :: "machine \<Rightarrow> pyval \<Rightarrow> doctor_report \<Rightarrow> exn + doctor_report" where
  "check_software m profile report =
     (let software = py_get (dict_of profile) ''software'' in
      rbind (py_item software ''python'') (\<lambda>python.
      let report1 = add_requirement ''python-profile'' (py_eq (PStr (mc_python_version m)) python)
            ''incompatible-python-version'' (py_str m python) (mc_python_version m)
            (''activate an environment with Python '' @ py_str m python
              @ '' or select a profile validated for this interpreter'') report in
      rbind (py_item software ''torch'') (\<lambda>torch.
      rbind (py_item software ''torch_npu'') (\<lambda>torch_npu.
      rbind (rbind (py_item software ''vllm'') (\<lambda>v. py_item v ''version'')) (\<lambda>vllm.
      rbind (rbind (py_item software ''vllm_ascend'') (\<lambda>v. py_item v ''version'')) (\<lambda>vllm_ascend.
        fold_res (check_package m (profile_id_of profile))
          [(''torch'', ''torch'', torch, True), (''torch-npu'', ''torch_npu'', torch_npu, False),
           (''vllm'', ''vllm'', vllm, False), (''vllm-ascend'', ''vllm_ascend'', vllm_ascend, False)] report1))))))"

section \<open>The CANN toolkit\<close>

fun first_cann_root :: "filesystem \<Rightarrow> string list \<Rightarrow> string list \<Rightarrow> exn + string option" where
  "first_cann_root fs seen [] = Inr None"
| "first_cann_root fs seen (candidate # candidates) =
     rbind (fy_expanduser fs candidate) (\<lambda>expanded.
       let resolved = fy_resolve fs expanded in
       if (\<exists>p \<in> set seen. same_path resolved p) then first_cann_root fs seen candidates
       else if fy_is_file fs (path_join (path_join resolved ''opp'') ''version.info'') then Inr (Some resolved)
       else first_cann_root fs (resolved # seen) candidates)"

definition find_cann_root :: "machine \<Rightarrow> pyval \<Rightarrow> exn + string option" where
  "find_cann_root m expected_version =
     (let named = map (\<lambda>name. case map_of (mc_environ m) name of Some raw \<Rightarrow> raw | None \<Rightarrow> '''') [''ASCEND_HOME_PATH'', ''ASCEND_TOOLKIT_HOME''] in
      first_cann_root (mc_fs m) []
        (filter (\<lambda>raw. raw \<noteq> '''') named
         @ [''/usr/local/Ascend/ascend-toolkit/latest'', ''/usr/local/Ascend/cann-'' @ py_str m expected_version]))"

definition check_cann :: "machine \<Rightarrow> pyval \<Rightarrow> doctor_report \<Rightarrow> exn + string option \<times> doctor_report" where
  "check_cann m profile report =
     rbind (py_item (py_get (dict_of profile) ''software'') ''cann'') (\<lambda>cann.
     let expected = py_str m cann in
     rbind (find_cann_root m cann) (\<lambda>cann_root.
       case cann_root of
         None \<Rightarrow>
           Inr (None, add_failure ''cann'' ''missing-cann-runtime'' expected ''not found''
             (''install CANN '' @ expected @ '' and source its set_env.sh before running doctor'') report)
       | Some dir \<Rightarrow>
           rbind (mc_read m (path_join (path_join dir ''opp'') ''version.info'')) (\<lambda>content.
             let observed = (case re_search cann_version_pattern content of Some (g # _) \<Rightarrow> g | _ \<Rightarrow> ''unknown'')
             in Inr (Some dir, add_requirement ''cann'' (py_eq (PStr observed) cann) ''incompatible-cann-version''
                  expected (observed @ '' at '' @ dir)
                  (''source CANN '' @ expected @ '' or select a profile validated for CANN '' @ observed) report))))"

definition find_cann_component :: "machine \<Rightarrow> string \<Rightarrow> pyval \<Rightarrow> string option" where
  "find_cann_component m dir component =
     (let executable = (case mc_which m (str_of (py_get (dict_of component) ''name'')) of Some e \<Rightarrow> e | None \<Rightarrow> '''') in
      if executable \<noteq> '''' then Some (fy_resolve (mc_fs m) executable)
      else map_option (fy_resolve (mc_fs m))
        (find (fy_is_file (mc_fs m))
          (map (\<lambda>v. path_join dir (str_of v)) (items_of (py_get (dict_of component) ''relative_paths'')))))"

end
