(* ===== verification/DoctorChecks.thy ===== *)
theory DoctorChecks
  imports Doctor
begin

text \<open>
  The rest of \<open>doctor.py\<close>: the capabilities of the CANN toolkit, the shared memory, the NPU as
  \<open>npu-smi info\<close> prints it, and the two doctors that put the checks together.
\<close>

section \<open>Capabilities\<close>

definition check_python_module :: "machine \<Rightarrow> string option \<Rightarrow> string \<Rightarrow> doctor_report \<Rightarrow> doctor_report" where
  "check_python_module m cann_root name report =
     (case mc_import m name of
        Inl failure \<Rightarrow>
          let site = map_option (\<lambda>dir. path_join (path_join dir ''python'') ''site-packages'') cann_root;
              installed = map_option (\<lambda>s. path_join s name) site in
          if (case installed of Some path \<Rightarrow> fy_is_dir (mc_fs m) path | None \<Rightarrow> False) then
            add_failure (''python-module-'' @ name) ''inactive-device-control-runtime'' ''importable''
              (''installed at '' @ the installed @ '' but import failed: '' @ failure)
              (''export PYTHONPATH='' @ the site @ '':$PYTHONPATH in the active Python '' @ mc_python_version m
                @ '' environment, then rerun doctor'') report
          else
            add_failure (''python-module-'' @ name) ''missing-device-control-runtime'' ''importable''
              (''import failed: '' @ failure)
              ''install the CANN DataFlow Python package in the active environment and source the toolkit set_env.sh''
              report
      | Inr _ \<Rightarrow>
          add_requirement (''python-module-'' @ name) True ''missing-device-control-runtime'' ''importable''
            (mc_file_attr m name) ''none'' report)"

text \<open>The attribute path is walked from the imported module, one \<open>getattr\<close> after the other.\<close>

definition resolve_symbol :: "machine \<Rightarrow> string \<Rightarrow> string \<Rightarrow> string + unit" where
  "resolve_symbol m name attribute =
     rbind (mc_import m name) (\<lambda>_.
       let names = split_on (CHR ''.'') attribute
       in for_each (\<lambda>n. mc_getattr m (name # take n names)) [1..<Suc (length names)])"

definition qualified_name :: "pyval \<Rightarrow> string" where
  "qualified_name alternative =
     str_of (py_get (dict_of alternative) ''module'') @ ''.'' @ str_of (py_get (dict_of alternative) ''attribute'')"

fun try_alternatives :: "machine \<Rightarrow> pyval list \<Rightarrow> string list \<Rightarrow> string list + string" where
  "try_alternatives m [] failures = Inl failures"
| "try_alternatives m (alternative # alternatives) failures =
     (case resolve_symbol m (str_of (py_get (dict_of alternative) ''module''))
             (str_of (py_get (dict_of alternative) ''attribute'')) of
        Inl failure \<Rightarrow> try_alternatives m alternatives (failures @ [qualified_name alternative @ '': '' @ failure])
      | Inr _ \<Rightarrow> Inr (qualified_name alternative))"

definition check_python_symbol :: "machine \<Rightarrow> pyval \<Rightarrow> doctor_report \<Rightarrow> doctor_report" where
  "check_python_symbol m symbol report =
     (let d = dict_of symbol; alternatives = items_of (py_get d ''alternatives'');
          name = ''python-symbol-'' @ str_of (py_get d ''id'');
          expected = ''one of '' @ comma_join (map qualified_name alternatives) in
      case try_alternatives m alternatives [] of
        Inl failures \<Rightarrow>
          add_requirement name False ''missing-python-runtime-capability'' expected
            (''unavailable: '' @ join_with ''; '' failures) (str_of (py_get d ''remediation'')) report
      | Inr matched \<Rightarrow>
          add_requirement name True ''missing-python-runtime-capability'' expected
            (''available as '' @ matched) ''none'' report)"

definition check_cann_file :: "machine \<Rightarrow> string option \<Rightarrow> pyval \<Rightarrow> doctor_report \<Rightarrow> doctor_report" where
  "check_cann_file m cann_root component report =
     (let d = dict_of component; basename = str_of (py_get d ''name'');
          found = (case cann_root of Some dir \<Rightarrow> find_cann_component m dir component | None \<Rightarrow> None) in
      add_requirement (str_of (py_get d ''id'')) (found \<noteq> None) ''missing-cann-component''
        (''CANN file '' @ basename) (case found of Some path \<Rightarrow> path | None \<Rightarrow> ''not found'')
        (''install the CANN component that provides '' @ basename
          @ '' and source the matching toolkit environment'') report)"

definition check_cann_capabilities ::
  "machine \<Rightarrow> (string \<times> pyval) list \<Rightarrow> string option \<Rightarrow> doctor_report \<Rightarrow> doctor_report" where
  "check_cann_capabilities m requirements cann_root report =
     fold (check_cann_file m cann_root) (items_of (py_get requirements ''required_cann_files''))
       (fold (check_python_symbol m) (items_of (py_get requirements ''required_python_symbols''))
         (fold (check_python_module m cann_root)
           (map str_of (items_of (py_get requirements ''required_python_modules''))) report))"

section \<open>Shared memory\<close>

definition check_shared_memory :: "machine \<Rightarrow> (string \<times> pyval) list \<Rightarrow> doctor_report \<Rightarrow> exn + doctor_report" where
  "check_shared_memory m requirements report =
     (let required = int_of (py_get requirements ''minimum_shared_memory_free_bytes'') in
      if mc_os_name m \<noteq> ''posix'' then
        Inr (add_requirement ''shared-memory'' False ''unsupported-shared-memory-filesystem'' ''writable /dev/shm''
          (''os.name='' @ mc_os_name m) ''run Cruise on a supported Linux host'' report)
      else if \<not> fy_is_dir (mc_fs m) ''/dev/shm'' \<or> \<not> mc_writable m ''/dev/shm'' then
        Inr (add_requirement ''shared-memory'' False ''unavailable-shared-memory-filesystem'' ''writable /dev/shm''
          ''missing or not writable'' ''mount a writable tmpfs at /dev/shm'' report)
      else (case mc_free m ''/dev/shm'' of
          Inl e \<Rightarrow>
            if is_os_error e then
              Inr (add_requirement ''shared-memory'' False ''unavailable-shared-memory-filesystem''
                (''at least '' @ int_str required @ '' free bytes'') (''cannot query: '' @ exn_str e)
                ''repair or remount /dev/shm, then rerun doctor'' report)
            else Inl e
        | Inr free \<Rightarrow>
            Inr (add_requirement ''shared-memory'' (required \<le> free) ''insufficient-shared-memory''
              (''at least '' @ int_str required @ '' free bytes'') (int_str free @ '' free bytes'')
              ''free /dev/shm space or enlarge the tmpfs mount'' report)))"

section \<open>The NPU\<close>

text \<open>\<open>int(s)\<close> of a group of digits.\<close>

definition digits_int :: "string \<Rightarrow> int" where
  "digits_int s = (case int_parse s of Some i \<Rightarrow> i | None \<Rightarrow> 0)"

definition parse_npu_devices :: "string \<Rightarrow> (int, string \<times> string) dict" where
  "parse_npu_devices output =
     fold (\<lambda>gs. AList.update (digits_int (gs ! 0)) (gs ! 1, gs ! 2)) (re_finditer device_pattern output) []"

definition parse_npu_processes :: "string \<Rightarrow> (int, int list) dict" where
  "parse_npu_processes output =
     (case re_start process_header_pattern output of
        None \<Rightarrow> []
      | Some start \<Rightarrow>
          let processes =
                fold (\<lambda>gs d. let device = digits_int (gs ! 0) in
                    AList.update device ((case map_of d device of Some pids \<Rightarrow> pids | None \<Rightarrow> []) @ [digits_int (gs ! 1)]) d)
                  (re_finditer process_pattern (drop start output)) []
          in map (\<lambda>(device, pids). (device, sort (remdups pids))) processes)"

text \<open>\<open>s.split()[-1]\<close>; the manifest's check has seen that accelerators are not blank.\<close>

function py_words :: "string \<Rightarrow> string list" where
  "py_words [] = []"
| "py_words (c # cs) =
     (if py_space c then py_words cs
      else (c # takeWhile (\<lambda>x. \<not> py_space x) cs) # py_words (dropWhile (\<lambda>x. \<not> py_space x) cs))"
  by pat_completeness auto

termination
  by (relation "measure length") (simp_all add: le_imp_less_Suc length_dropWhile_le)

definition product_of :: "string \<Rightarrow> string" where
  "product_of accelerator = (if py_words accelerator = [] then '''' else last (py_words accelerator))"

definition allowed_products :: "(string \<times> pyval) list \<Rightarrow> string list" where
  "allowed_products requirements =
     sort (remdups (map (\<lambda>v. product_of (str_of v)) (items_of (py_get requirements ''accelerators''))))"

definition first_group :: "string list option \<Rightarrow> string" where
  "first_group found = (case found of Some (g # _) \<Rightarrow> g | _ \<Rightarrow> ''unknown'')"

definition repr_strs :: "machine \<Rightarrow> string list \<Rightarrow> string" where
  "repr_strs m xs = fy_repr (mc_fs m) (PList (map PStr xs))"

text \<open>The checks of one listed device: its product, its health, and that nothing runs on it.\<close>

definition check_device ::
  "machine \<Rightarrow> (string \<times> pyval) list \<Rightarrow> string \<Rightarrow> string \<Rightarrow> int \<Rightarrow> string \<times> string \<Rightarrow> doctor_report \<Rightarrow> doctor_report" where
  "check_device m requirements output expected device_id selected report =
     (case selected of (product, health) \<Rightarrow>
        let allowed = allowed_products requirements;
            active = (case map_of (parse_npu_processes output) device_id of Some pids \<Rightarrow> pids | None \<Rightarrow> []) in
        add_requirement ''npu-availability'' (active = []) ''occupied-npu-device'' ''no active compute processes''
          (if active \<noteq> [] then ''pids='' @ list_str (map int_str active) else ''idle'')
          ''stop the listed workload or select an idle NPU''
         (add_requirement ''npu-device'' (map lower_char health = ''ok'') ''unhealthy-npu-device'' ''health=OK''
            (''device='' @ int_str device_id @ '' product='' @ product @ '' health='' @ health)
            ''resolve the NPU health alarm or select another healthy device''
           (add_requirement ''npu-product'' (product \<in> set allowed \<and> product = expected) ''unsupported-accelerator''
              (''one of '' @ repr_strs m allowed @ ''; profile='' @ expected) product
              ''use a supported accelerator or add a separately qualified profile'' report)))"

definition check_npu_output ::
  "machine \<Rightarrow> pyval \<Rightarrow> (string \<times> pyval) list \<Rightarrow> int \<Rightarrow> string \<Rightarrow> doctor_report \<Rightarrow> exn + doctor_report" where
  "check_npu_output m profile requirements device_id output report =
     (let hardware = py_get (dict_of profile) ''hardware'' in
      rbind (py_item hardware ''npu_smi_version'') (\<lambda>smi.
      let observed_version = first_group (re_search npu_smi_pattern output);
          report1 = add_requirement ''npu-smi'' (py_eq (PStr observed_version) smi) ''incompatible-npu-smi-version''
            (py_str m smi) observed_version
            (''install driver tools '' @ py_str m smi @ '' or select a profile validated for '' @ observed_version) report;
          observed_driver = first_group (re_search driver_pattern output);
          expected_driver = str_of (py_get (dict_of (py_get (dict_of profile) ''software'')) ''driver'');
          report2 = add_requirement ''driver'' (observed_driver = expected_driver) ''incompatible-driver-version''
            expected_driver observed_driver
            (''install driver '' @ expected_driver @ '' or qualify driver '' @ observed_driver @ '' as a new profile'') report1;
          devices = parse_npu_devices output;
          supported = length (filter (\<lambda>(_, product, _). product \<in> set (allowed_products requirements)) devices);
          minimum = int_of (py_get requirements ''minimum_accelerator_count'');
          report3 = add_requirement ''npu-count'' (minimum \<le> int supported) ''insufficient-supported-accelerators''
            (''at least '' @ int_str minimum @ '' supported accelerator(s)'')
            (nat_str supported @ '' supported; '' @ nat_str (length devices) @ '' total'')
            ''select a host with enough supported Ascend accelerators'' report2;
          expected = product_of (str_of (py_get (dict_of hardware) ''accelerator''))
      in case map_of devices device_id of
           None \<Rightarrow>
             Inr (add_failure ''npu-device'' ''unavailable-npu-device''
               (''device '' @ int_str device_id @ '' listed as '' @ expected)
               (''listed devices='' @ list_str (map int_str (sort (keys devices))))
               ''choose a listed device with --device or repair NPU enumeration'' report3)
         | Some selected \<Rightarrow> Inr (check_device m requirements output expected device_id selected report3)))"

definition check_npu ::
  "machine \<Rightarrow> pyval \<Rightarrow> (string \<times> pyval) list \<Rightarrow> int \<Rightarrow> doctor_report \<Rightarrow> exn + doctor_report" where
  "check_npu m profile requirements device_id report =
     (case mc_which m ''npu-smi'' of
        None \<Rightarrow>
          Inr (add_failure ''npu-smi'' ''missing-npu-management-tool'' ''npu-smi on PATH'' ''not found''
            ''install the Ascend driver tools and put npu-smi on PATH'' report)
      | Some executable \<Rightarrow>
          (case mc_run m [executable, ''info''] of
             Inl e \<Rightarrow>
               if is_os_error e \<or> exn_name e = ''TimeoutExpired'' then
                 Inr (add_failure ''npu-smi'' ''npu-management-query-failed'' ''successful npu-smi info''
                   (exn_name e @ '': '' @ exn_str e) ''repair driver access and rerun npu-smi info'' report)
               else Inl e
           | Inr result \<Rightarrow>
               if cp_returncode result \<noteq> 0 then
                 Inr (add_failure ''npu-smi'' ''npu-management-query-failed'' ''exit=0''
                   (''exit='' @ int_str (cp_returncode result) @ '': '' @ strip_str (cp_stderr result))
                   ''repair driver access and rerun npu-smi info'' report)
               else check_npu_output m profile requirements device_id (cp_stdout result) report))"

section \<open>The doctors\<close>

definition unknown_profile_report :: "machine \<Rightarrow> string option \<Rightarrow> exn + doctor_report" where
  "unknown_profile_report m profile_id =
     rbind (case list_compatibility_profiles (mc_resource m) of
              Inl (CompatibilityError _) \<Rightarrow> Inr ''manifest unavailable''
            | Inl e \<Rightarrow> Inl e
            | Inr profiles \<Rightarrow> Inr (comma_join (map profile_id_of profiles))) (\<lambda>available.
       Inr (add_failure ''compatibility-profile'' ''unknown-or-missing-compatibility-profile'' available
         (case profile_id of Some i \<Rightarrow> i | None \<Rightarrow> ''not selected'')
         (''select one of the packaged profiles: '' @ available)
         \<lparr>dr_mode = ''npu'', dr_profile = profile_id, dr_checks = []\<rparr>))"

definition check_architecture ::
  "machine \<Rightarrow> pyval \<Rightarrow> (string \<times> pyval) list \<Rightarrow> doctor_report \<Rightarrow> doctor_report" where
  "check_architecture m profile requirements =
     (let allowed = py_get requirements ''architectures'';
          expected = py_get (dict_of (py_get (dict_of profile) ''hardware'')) ''architecture'';
          architecture = mc_architecture m in
      add_requirement ''architecture'' (py_member (PStr architecture) allowed \<and> py_eq (PStr architecture) expected)
        ''unsupported-host-architecture''
        (''one of '' @ py_str m allowed @ ''; profile='' @ py_str m expected) architecture
        ''install Cruise on a supported aarch64 host'')"

definition check_status :: "machine \<Rightarrow> pyval \<Rightarrow> doctor_report \<Rightarrow> exn + doctor_report" where
  "check_status m profile report =
     rbind (py_item profile ''status'') (\<lambda>st.
       if \<not> is_str st then Inl (AttributeError ''object has no attribute startswith'')
       else let remediation = ''complete the profile qualification before claiming product support'';
                candidate = \<lparr>ck_name = ''profile-status'', ck_status = Warned,
                  ck_detail = requirement_detail ''validated profile'' (str_of st) remediation,
                  ck_code = Some ''unvalidated-compatibility-profile'', ck_expected = Some ''validated profile'',
                  ck_observed = Some (str_of st), ck_remediation = Some remediation\<rparr>;
                report1 = (if prefix ''candidate-'' (str_of st) then report_add candidate report else report)
       in Inr (report_add (plain_check ''maturity'' Warned
            (''profile status='' @ str_of st @ ''; this is not Stable v1.0'')) report1))"

definition run_npu_doctor :: "machine \<Rightarrow> string option \<Rightarrow> int \<Rightarrow> exn + doctor_report" where
  "run_npu_doctor m profile_id device_id =
     (case get_compatibility_profile (mc_resource m) profile_id of
        Inl (CompatibilityError _) \<Rightarrow> unknown_profile_report m profile_id
      | Inl e \<Rightarrow> Inl e
      | Inr profile \<Rightarrow>
          let report = report_add (plain_check ''compatibility-profile'' Passed (profile_id_of profile))
                \<lparr>dr_mode = ''npu'', dr_profile = Some (profile_id_of profile), dr_checks = []\<rparr> in
          rbind (get_capability_requirements (mc_resource m)) (\<lambda>requirements.
          rbind (check_software m profile (check_architecture m profile requirements report)) (\<lambda>report1.
          rbind (check_cann m profile report1) (\<lambda>(cann_root, report2).
          let report3 = check_cann_capabilities m requirements cann_root report2 in
          rbind (check_npu m profile requirements device_id report3) (\<lambda>report4.
          rbind (check_shared_memory m requirements report4) (\<lambda>report5.
            check_status m profile report5))))))"

definition check_assets :: "machine \<Rightarrow> bool \<Rightarrow> cruise_config \<Rightarrow> doctor_report \<Rightarrow> exn + doctor_report" where
  "check_assets m deep c report =
     (case validate_paths (mc_fs m) deep c of
        Inl (RuntimeConfigError msg details) \<Rightarrow>
          Inr (report_add \<lparr>ck_name = ''runtime-assets'', ck_status = Failed, ck_detail = msg,
            ck_code = map_option fst details, ck_expected = map_option (fst \<circ> snd) details,
            ck_observed = map_option (fst \<circ> snd \<circ> snd) details,
            ck_remediation = map_option (snd \<circ> snd \<circ> snd) details\<rparr> report)
      | Inl e \<Rightarrow> Inl e
      | Inr _ \<Rightarrow>
          Inr (report_add (plain_check ''runtime-assets'' Passed
            (''all paths, contracts, counts, bytes, and configured hashes passed''
              @ (if deep then ''; external weights were deep-hashed'' else ''''))) report))"

definition check_scratch :: "machine \<Rightarrow> cruise_config \<Rightarrow> doctor_report \<Rightarrow> exn + doctor_report" where
  "check_scratch m c report =
     (let scratch_parent = nearest_existing_parent m (rs_scratch_root (cc_runtime c)) in
      case mc_free m scratch_parent of
        Inl e \<Rightarrow>
          if is_os_error e then Inr (report_add (plain_check ''scratch-capacity'' Failed (exn_str e)) report)
          else Inl e
      | Inr free \<Rightarrow>
          let required = rs_minimum_scratch_free_bytes (cc_runtime c) in
          Inr (report_add (plain_check ''scratch-capacity'' (if required \<le> free then Passed else Failed)
            (''required='' @ int_str required @ '' free='' @ int_str free @ '' filesystem='' @ scratch_parent)) report))"

definition run_runtime_doctor :: "machine \<Rightarrow> cruise_config \<Rightarrow> bool \<Rightarrow> exn + doctor_report" where
  "run_runtime_doctor m c deep =
     rbind (run_npu_doctor m (Some (cc_compatibility_profile c)) (cc_device_id c)) (\<lambda>report.
     rbind (check_assets m deep c (report\<lparr>dr_mode := ''runtime''\<rparr>)) (check_scratch m c))"

text \<open>The lines of \<open>render_report\<close>; \<open>json.dumps\<close> of the report's dictionary is a parameter.\<close>

definition render_report :: "(pyval \<Rightarrow> string) \<Rightarrow> bool \<Rightarrow> doctor_report \<Rightarrow> string" where
  "render_report dumps json_output r =
     (if json_output then dumps (report_dict r) @ [CHR 0x0A]
      else join_with [CHR 0x0A]
        ((''Cruise '' @ dr_mode r @ '': '' @ (if report_passed r then ''PASS'' else ''FAIL''))
         # map (\<lambda>c. map upper_char (status_str (ck_status c)) @ '' '' @ ck_name c @ '': '' @ ck_detail c) (dr_checks r))
        @ [CHR 0x0A])"

end
