(* ===== verification/DoctorProps.thy ===== *)
theory DoctorProps
  imports DoctorChecks
begin

text \<open>
  What a doctor's verdict means: each check, and the doctor they make up, passes exactly when
  the fact it stands for holds of the host.
\<close>

section \<open>The interface of a check\<close>

lemma passed_add [simp]: "report_passed (report_add c r) \<longleftrightarrow> report_passed r \<and> ck_status c \<noteq> Failed"
  by (auto simp: report_passed_def report_add_def)

lemma passed_requirement [simp]:
  "report_passed (add_requirement name ok code expected observed remediation r) \<longleftrightarrow> report_passed r \<and> ok"
  by (simp add: add_requirement_def)

lemma passed_failure [simp]: "\<not> report_passed (add_failure name code expected observed remediation r)"
  by (simp add: add_failure_def)

lemma passed_plain [simp]: "ck_status (plain_check name st detail) = st"
  by (simp add: plain_check_def)

lemma passed_mode [simp]: "report_passed (r\<lparr>dr_mode := mode\<rparr>) = report_passed r"
  by (simp add: report_passed_def)

lemma passed_none [simp]: "report_passed \<lparr>dr_mode = mode, dr_profile = p, dr_checks = []\<rparr>"
  by (simp add: report_passed_def)

text \<open>
  A check passes exactly when its fact holds, and never turns a failing report into a passing
  one.
\<close>

locale exact_check =
  fixes check :: "doctor_report \<Rightarrow> exn + doctor_report" and fact :: bool
  assumes exact: "check r = Inr r' \<Longrightarrow> report_passed r' \<longleftrightarrow> report_passed r \<and> fact"
begin

lemma then_exact:
  assumes "rbind (check r) k = Inr r''" and "\<And>r'. k r' = Inr r'' \<Longrightarrow> Q \<longleftrightarrow> report_passed r' \<and> P"
  shows "Q \<longleftrightarrow> report_passed r \<and> fact \<and> P"
  using assms exact by (auto simp: rbind_Inr_iff)

end

section \<open>The facts\<close>

definition package_ready :: "machine \<Rightarrow> string \<times> string \<times> pyval \<times> bool \<Rightarrow> bool" where
  "package_ready m package \<longleftrightarrow>
     (case package of (label, name, expected, compare_base) \<Rightarrow>
        (case module_version m name of
           Inl _ \<Rightarrow> False
         | Inr v \<Rightarrow> if compare_base then base_version v = base_version (str_of expected)
                    else expected = PStr v))"

lemma py_eq_PStr [simp]: "py_eq (PStr s) v \<longleftrightarrow> v = PStr s"
  by simp

lemma package_exact:
  "check_package m i package r = Inr r' \<Longrightarrow> report_passed r' \<longleftrightarrow> report_passed r \<and> package_ready m package"
  by (cases package) (auto simp: check_package_def package_ready_def Let_def split: sum.splits if_splits)

lemma fold_exact:
  assumes "\<And>x r r'. step x r = Inr r' \<Longrightarrow> report_passed r' \<longleftrightarrow> report_passed r \<and> P x"
  shows "fold_res step xs r = Inr r' \<Longrightarrow> report_passed r' \<longleftrightarrow> report_passed r \<and> (\<forall>x \<in> set xs. P x)"
proof (induction xs arbitrary: r)
  case (Cons x xs)
  then obtain r1 where r1: "step x r = Inr r1" "fold_res step xs r1 = Inr r'" by (auto simp: rbind_Inr_iff)
  with Cons.IH [OF r1(2)] assms [OF r1(1)] show ?case by auto
qed simp

lemma fold_passed:
  assumes "\<And>x r. report_passed (step x r) \<longleftrightarrow> report_passed r \<and> P x"
  shows "report_passed (fold step xs r) \<longleftrightarrow> report_passed r \<and> (\<forall>x \<in> set xs. P x)"
  by (induction xs arbitrary: r) (auto simp: assms)

definition software_of :: "pyval \<Rightarrow> (string \<times> pyval) list" where
  "software_of profile = dict_of (py_get (dict_of profile) ''software'')"

text \<open>The interpreter and the four packages are the profile's.\<close>

definition software_ready :: "machine \<Rightarrow> pyval \<Rightarrow> bool" where
  "software_ready m profile \<longleftrightarrow>
     (let software = software_of profile; version = (\<lambda>k. py_get (dict_of (py_get software k)) ''version'') in
      py_get software ''python'' = PStr (mc_python_version m)
      \<and> package_ready m (''torch'', ''torch'', py_get software ''torch'', True)
      \<and> package_ready m (''torch-npu'', ''torch_npu'', py_get software ''torch_npu'', False)
      \<and> package_ready m (''vllm'', ''vllm'', version ''vllm'', False)
      \<and> package_ready m (''vllm-ascend'', ''vllm_ascend'', version ''vllm_ascend'', False))"

lemma py_item_get: "py_item v k = Inr x \<Longrightarrow> x = py_get (dict_of v) k"
  by (auto simp: py_item_def py_get_def dict_of_def dict_item_def split: pyval.splits option.splits)

interpretation software: exact_check "check_software m profile" "software_ready m profile" for m profile
proof
  fix r r' assume "check_software m profile r = Inr r'"
  then obtain python torch torch_npu vllm vllm_version ascend ascend_version where
    items: "py_item (py_get (dict_of profile) ''software'') ''python'' = Inr python"
      "py_item (py_get (dict_of profile) ''software'') ''torch'' = Inr torch"
      "py_item (py_get (dict_of profile) ''software'') ''torch_npu'' = Inr torch_npu"
      "py_item (py_get (dict_of profile) ''software'') ''vllm'' = Inr vllm" "py_item vllm ''version'' = Inr vllm_version"
      "py_item (py_get (dict_of profile) ''software'') ''vllm_ascend'' = Inr ascend" "py_item ascend ''version'' = Inr ascend_version"
    and fold: "fold_res (check_package m (profile_id_of profile))
          [(''torch'', ''torch'', torch, True), (''torch-npu'', ''torch_npu'', torch_npu, False),
           (''vllm'', ''vllm'', vllm_version, False), (''vllm-ascend'', ''vllm_ascend'', ascend_version, False)]
          (add_requirement ''python-profile'' (py_eq (PStr (mc_python_version m)) python)
            ''incompatible-python-version'' (py_str m python) (mc_python_version m)
            (''activate an environment with Python '' @ py_str m python
              @ '' or select a profile validated for this interpreter'') r) = Inr r'"
    unfolding check_software_def Let_def rbind_Inr_iff by (elim exE conjE) (rule that)
  show "report_passed r' \<longleftrightarrow> report_passed r \<and> software_ready m profile"
    using fold_exact [OF package_exact fold] items [THEN py_item_get]
    by (simp add: software_ready_def software_of_def Let_def)
qed

text \<open>The CANN toolkit that was found has the profile's version.\<close>

definition cann_ready :: "machine \<Rightarrow> pyval \<Rightarrow> string option \<Rightarrow> bool" where
  "cann_ready m profile cann_root \<longleftrightarrow>
     (case cann_root of
        None \<Rightarrow> False
      | Some dir \<Rightarrow>
          (case mc_read m (path_join (path_join dir ''opp'') ''version.info'') of
             Inl _ \<Rightarrow> False
           | Inr content \<Rightarrow>
               py_get (software_of profile) ''cann'' = PStr (first_group (re_search cann_version_pattern content))))"

lemma cann_exact:
  assumes "check_cann m profile r = Inr (cann_root, r')"
  shows "find_cann_root m (py_get (software_of profile) ''cann'') = Inr cann_root
    \<and> (report_passed r' \<longleftrightarrow> report_passed r \<and> cann_ready m profile cann_root)"
proof -
  obtain cann where item: "py_item (py_get (dict_of profile) ''software'') ''cann'' = Inr cann"
    using assms by (auto simp: check_cann_def rbind_Inr_iff)
  have cann: "py_get (software_of profile) ''cann'' = cann"
    using py_item_get [OF item] by (simp add: software_of_def)
  obtain found where found: "find_cann_root m cann = Inr found"
    using assms by (auto simp: check_cann_def rbind_Inr_iff item Let_def)
  show ?thesis
  proof (cases found)
    case None
    with assms show ?thesis by (auto simp: check_cann_def item found cann cann_ready_def Let_def)
  next
    case (Some dir)
    then show ?thesis
      using assms by (auto simp: check_cann_def item found cann cann_ready_def Let_def rbind_Inr_iff first_group_def)
  qed
qed

lemma try_alternatives_some:
  "(\<exists>q. try_alternatives m alternatives failures = Inr q) \<longleftrightarrow>
     (\<exists>a \<in> set alternatives. resolve_symbol m (str_of (py_get (dict_of a) ''module''))
        (str_of (py_get (dict_of a) ''attribute'')) = Inr ())"
proof (induction alternatives arbitrary: failures)
  case (Cons a alternatives)
  show ?case
  proof (cases "resolve_symbol m (str_of (py_get (dict_of a) ''module'')) (str_of (py_get (dict_of a) ''attribute''))")
    case (Inl e)
    then show ?thesis using Cons.IH by simp
  qed simp
qed simp

text \<open>Every required module imports, some alternative of every symbol resolves, every file is found.\<close>

definition symbol_ready :: "machine \<Rightarrow> pyval \<Rightarrow> bool" where
  "symbol_ready m symbol \<longleftrightarrow>
     (\<exists>a \<in> set (items_of (py_get (dict_of symbol) ''alternatives'')).
        resolve_symbol m (str_of (py_get (dict_of a) ''module'')) (str_of (py_get (dict_of a) ''attribute'')) = Inr ())"

definition cann_file_ready :: "machine \<Rightarrow> string option \<Rightarrow> pyval \<Rightarrow> bool" where
  "cann_file_ready m cann_root component \<longleftrightarrow>
     (\<exists>dir path. cann_root = Some dir \<and> find_cann_component m dir component = Some path)"

definition capabilities_ready :: "machine \<Rightarrow> (string \<times> pyval) list \<Rightarrow> string option \<Rightarrow> bool" where
  "capabilities_ready m requirements cann_root \<longleftrightarrow>
     (\<forall>v \<in> set (items_of (py_get requirements ''required_python_modules'')). mc_import m (str_of v) = Inr ())
     \<and> (\<forall>symbol \<in> set (items_of (py_get requirements ''required_python_symbols'')). symbol_ready m symbol)
     \<and> (\<forall>component \<in> set (items_of (py_get requirements ''required_cann_files'')).
          cann_file_ready m cann_root component)"

lemma module_exact: "report_passed (check_python_module m cann_root name r) \<longleftrightarrow> report_passed r \<and> mc_import m name = Inr ()"
  by (cases "mc_import m name") (auto simp: check_python_module_def Let_def)

lemma symbol_exact: "report_passed (check_python_symbol m symbol r) \<longleftrightarrow> report_passed r \<and> symbol_ready m symbol"
proof (cases "try_alternatives m (items_of (py_get (dict_of symbol) ''alternatives'')) []")
  case (Inl failures)
  then have "\<not> symbol_ready m symbol" by (simp add: symbol_ready_def flip: try_alternatives_some [where failures = "[]"])
  with Inl show ?thesis by (simp add: check_python_symbol_def Let_def)
next
  case (Inr q)
  then have "symbol_ready m symbol" by (simp add: symbol_ready_def flip: try_alternatives_some [where failures = "[]"])
  with Inr show ?thesis by (simp add: check_python_symbol_def Let_def)
qed

lemma cann_file_exact:
  "report_passed (check_cann_file m cann_root component r) \<longleftrightarrow> report_passed r \<and> cann_file_ready m cann_root component"
  by (auto simp: check_cann_file_def Let_def cann_file_ready_def split: option.splits)

lemma capabilities_exact:
  "report_passed (check_cann_capabilities m requirements cann_root r) \<longleftrightarrow>
     report_passed r \<and> capabilities_ready m requirements cann_root"
  unfolding check_cann_capabilities_def
  by (simp add: fold_passed [where step = "check_cann_file m cann_root", OF cann_file_exact]
      fold_passed [where step = "check_python_symbol m", OF symbol_exact]
      fold_passed [where step = "check_python_module m cann_root", OF module_exact] capabilities_ready_def conj_ac)

text \<open>The device is listed with the right product, healthy and idle, on a host with the right driver.\<close>

definition device_ready :: "pyval \<Rightarrow> (string \<times> pyval) list \<Rightarrow> int \<Rightarrow> string \<Rightarrow> bool" where
  "device_ready profile requirements device_id output \<longleftrightarrow>
     (let hardware = dict_of (py_get (dict_of profile) ''hardware''); devices = parse_npu_devices output;
          allowed = set (allowed_products requirements) in
      py_get hardware ''npu_smi_version'' = PStr (first_group (re_search npu_smi_pattern output))
      \<and> first_group (re_search driver_pattern output) = str_of (py_get (software_of profile) ''driver'')
      \<and> int_of (py_get requirements ''minimum_accelerator_count'')
          \<le> int (length (filter (\<lambda>(_, product, _). product \<in> allowed) devices))
      \<and> (case map_of devices device_id of
           None \<Rightarrow> False
         | Some (product, health) \<Rightarrow>
             product \<in> allowed \<and> product = product_of (str_of (py_get hardware ''accelerator''))
             \<and> map lower_char health = ''ok''
             \<and> (case map_of (parse_npu_processes output) device_id of None \<Rightarrow> True | Some pids \<Rightarrow> pids = [])))"

definition npu_ready :: "machine \<Rightarrow> pyval \<Rightarrow> (string \<times> pyval) list \<Rightarrow> int \<Rightarrow> bool" where
  "npu_ready m profile requirements device_id \<longleftrightarrow>
     (case mc_which m ''npu-smi'' of
        None \<Rightarrow> False
      | Some executable \<Rightarrow>
          (case mc_run m [executable, ''info''] of
             Inl _ \<Rightarrow> False
           | Inr result \<Rightarrow>
               cp_returncode result = 0 \<and> device_ready profile requirements device_id (cp_stdout result)))"

lemma device_exact:
  "report_passed (check_device m requirements output expected device_id (product, health) r) \<longleftrightarrow> report_passed r
     \<and> product \<in> set (allowed_products requirements) \<and> product = expected \<and> map lower_char health = ''ok''
     \<and> (case map_of (parse_npu_processes output) device_id of None \<Rightarrow> True | Some pids \<Rightarrow> pids = [])"
  by (auto simp: check_device_def Let_def split: option.split)

lemma npu_output_exact:
  assumes "check_npu_output m profile requirements device_id output r = Inr r'"
  shows "report_passed r' \<longleftrightarrow> report_passed r \<and> device_ready profile requirements device_id output"
proof -
  obtain smi where item: "py_item (py_get (dict_of profile) ''hardware'') ''npu_smi_version'' = Inr smi"
    using assms unfolding check_npu_output_def Let_def rbind_Inr_iff by blast
  note smi = py_item_get [OF item]
  have "case check_npu_output m profile requirements device_id output r of
      Inl _ \<Rightarrow> True
    | Inr r' \<Rightarrow> report_passed r' \<longleftrightarrow> report_passed r \<and> device_ready profile requirements device_id output"
  proof (cases "map_of (parse_npu_devices output) device_id")
    case None
    then show ?thesis by (simp add: check_npu_output_def item Let_def device_ready_def)
  next
    case (Some selected)
    obtain product health where "selected = (product, health)" by fastforce
    with Some show ?thesis
      by (simp add: check_npu_output_def item Let_def device_ready_def device_exact software_of_def
          smi [symmetric] conj_assoc)
  qed
  with assms show ?thesis by simp
qed

interpretation npu: exact_check "check_npu m profile requirements device_id" "npu_ready m profile requirements device_id"
  for m profile requirements device_id
  by unfold_locales
    (auto simp: check_npu_def npu_ready_def dest: npu_output_exact split: option.splits sum.splits if_splits)

definition shared_memory_ready :: "machine \<Rightarrow> (string \<times> pyval) list \<Rightarrow> bool" where
  "shared_memory_ready m requirements \<longleftrightarrow>
     mc_os_name m = ''posix'' \<and> fy_is_dir (mc_fs m) ''/dev/shm'' \<and> mc_writable m ''/dev/shm''
     \<and> (\<exists>free. mc_free m ''/dev/shm'' = Inr free
          \<and> int_of (py_get requirements ''minimum_shared_memory_free_bytes'') \<le> free)"

interpretation shared_memory: exact_check "check_shared_memory m requirements" "shared_memory_ready m requirements"
  for m requirements
  by unfold_locales
    (auto simp: check_shared_memory_def shared_memory_ready_def Let_def split: sum.splits if_splits)

interpretation profile_status: exact_check "check_status m profile" True for m profile
  by unfold_locales
    (auto simp: check_status_def Let_def rbind_Inr_iff split: if_splits)

interpretation assets: exact_check "check_assets m deep c" "validate_paths (mc_fs m) deep c = Inr ()" for m deep c
  by unfold_locales (auto simp: check_assets_def split: sum.splits exn.splits)

definition scratch_ready :: "machine \<Rightarrow> cruise_config \<Rightarrow> bool" where
  "scratch_ready m c \<longleftrightarrow>
     (\<exists>free. mc_free m (nearest_existing_parent m (rs_scratch_root (cc_runtime c))) = Inr free
        \<and> rs_minimum_scratch_free_bytes (cc_runtime c) \<le> free)"

interpretation scratch: exact_check "check_scratch m c" "scratch_ready m c" for m c
  by unfold_locales (auto simp: check_scratch_def scratch_ready_def Let_def split: sum.splits if_splits)

section \<open>The verdicts\<close>

definition architecture_ready :: "machine \<Rightarrow> pyval \<Rightarrow> (string \<times> pyval) list \<Rightarrow> bool" where
  "architecture_ready m profile requirements \<longleftrightarrow>
     py_member (PStr (mc_architecture m)) (py_get requirements ''architectures'')
     \<and> py_get (dict_of (py_get (dict_of profile) ''hardware'')) ''architecture'' = PStr (mc_architecture m)"

lemma architecture_exact:
  "report_passed (check_architecture m profile requirements r) \<longleftrightarrow>
     report_passed r \<and> architecture_ready m profile requirements"
  by (simp add: check_architecture_def architecture_ready_def Let_def)

text \<open>The host is the one the profile asks for, apart from the device's own checks.\<close>

definition host_ready :: "machine \<Rightarrow> pyval \<Rightarrow> (string \<times> pyval) list \<Rightarrow> int \<Rightarrow> bool" where
  "host_ready m profile requirements device_id \<longleftrightarrow>
     architecture_ready m profile requirements \<and> software_ready m profile
     \<and> (\<exists>cann_root. find_cann_root m (py_get (software_of profile) ''cann'') = Inr cann_root
          \<and> cann_ready m profile cann_root \<and> capabilities_ready m requirements cann_root)
     \<and> npu_ready m profile requirements device_id \<and> shared_memory_ready m requirements"

lemma npu_doctor_exact:
  assumes "run_npu_doctor m profile_id device_id = Inr report"
  shows "report_passed report \<longleftrightarrow>
    (\<exists>profile requirements. get_compatibility_profile (mc_resource m) profile_id = Inr profile
       \<and> get_capability_requirements (mc_resource m) = Inr requirements
       \<and> host_ready m profile requirements device_id)"
proof (cases "get_compatibility_profile (mc_resource m) profile_id")
  case (Inl e)
  then show ?thesis
    using assms by (auto simp: run_npu_doctor_def unknown_profile_report_def rbind_Inr_iff split: exn.splits sum.splits)
next
  case (Inr profile)
  let ?report = "report_add (plain_check ''compatibility-profile'' Passed (profile_id_of profile))
    \<lparr>dr_mode = ''npu'', dr_profile = Some (profile_id_of profile), dr_checks = []\<rparr>"
  obtain requirements report1 cann_root report2 report4 report5 where
    steps: "get_capability_requirements (mc_resource m) = Inr requirements"
      "check_software m profile (check_architecture m profile requirements ?report) = Inr report1"
      "check_cann m profile report1 = Inr (cann_root, report2)"
      "check_npu m profile requirements device_id (check_cann_capabilities m requirements cann_root report2) = Inr report4"
      "check_shared_memory m requirements report4 = Inr report5" "check_status m profile report5 = Inr report"
    using assms unfolding run_npu_doctor_def Inr sum.case Let_def rbind_Inr_iff by (auto simp: rbind_Inr_iff)
  note chain = profile_status.exact [OF steps(6)] shared_memory.exact [OF steps(5)] npu.exact [OF steps(4)]
    capabilities_exact [of m requirements cann_root report2] cann_exact [OF steps(3)] software.exact [OF steps(2)]
    architecture_exact [of m profile requirements ?report]
  show ?thesis
    unfolding host_ready_def using chain steps(1) Inr by auto
qed

lemma contract_smoke_ok: "contract_smoke = Inr ()"
  by code_simp

lemma source_smoke_exact:
  assumes "run_source_smoke m = Inr report"
  shows "report_passed report \<longleftrightarrow>
    (\<exists>manifest. load_compatibility_manifest (mc_resource m) = Inr manifest) \<and> [3, 10] \<le> mc_version_info m"
  using assms
  by (auto simp: run_source_smoke_def Let_def rbind_Inr_iff contract_smoke_ok split: sum.splits if_splits)

end
