(* ===== verification/Scratch.thy ===== *)
theory Scratch
  imports RuntimePaths
begin

text \<open>
  The managed scratch of \<open>cli.py\<close>: the scratch root and its marker, the directory of one run,
  and the supervised command that runs in it. The disk is a dictionary from resolved paths, as
  their components, to folders and texts. What the host decides, which operation fails and
  what it leaves behind then, is in \<open>scratch_host\<close>.
\<close>

section \<open>The disk\<close>

datatype node = Folder | Text string

type_synonym place = "string list"
type_synonym disk = "(place, node) dict"

record scratch_host =
  sc_fs :: filesystem
  sc_mkdir :: "place \<Rightarrow> exn + unit"
  sc_write :: "place \<Rightarrow> (exn \<times> string option) option"
  sc_rmtree :: "place \<Rightarrow> (exn \<times> place list) option"
  sc_remove :: "place \<Rightarrow> exn + unit"
  sc_free :: "place \<Rightarrow> exn + int"
  sc_names :: "string list"

definition disk_exists :: "disk \<Rightarrow> place \<Rightarrow> bool" where
  "disk_exists d p \<longleftrightarrow> map_of d p \<noteq> None"

definition disk_is_dir :: "disk \<Rightarrow> place \<Rightarrow> bool" where
  "disk_is_dir d p \<longleftrightarrow> map_of d p = Some Folder"

definition disk_is_file :: "disk \<Rightarrow> place \<Rightarrow> bool" where
  "disk_is_file d p \<longleftrightarrow> (case map_of d p of Some (Text _) \<Rightarrow> True | _ \<Rightarrow> False)"

text \<open>\<open>list(p.iterdir())\<close>.\<close>

definition disk_entries :: "disk \<Rightarrow> place \<Rightarrow> place list" where
  "disk_entries d p = filter (\<lambda>q. q \<noteq> [] \<and> butlast q = p) (keys d)"

definition place_str :: "place \<Rightarrow> string" where
  "place_str p = ''/'' @ join_with ''/'' p"

text \<open>\<open>p.resolve()\<close>.\<close>

definition resolve_place :: "scratch_host \<Rightarrow> place \<Rightarrow> place" where
  "resolve_place h p = path_parts (fy_resolve (sc_fs h) (place_str p))"

text \<open>\<open>read_text(encoding="ascii")\<close>, which reads every line end as a line feed.\<close>

fun universal_newlines :: "string \<Rightarrow> string" where
  "universal_newlines [] = []"
| "universal_newlines (c # cs) =
     (if c = CHR 0x0D then
        CHR 0x0A # (case cs of c' # cs' \<Rightarrow> if c' = CHR 0x0A then universal_newlines cs' else universal_newlines cs | [] \<Rightarrow> [])
      else c # universal_newlines cs)"

definition read_text :: "disk \<Rightarrow> place \<Rightarrow> exn + string" where
  "read_text d p =
     (case map_of d p of
        None \<Rightarrow> Inl (FileNotFoundError ''No such file or directory'')
      | Some Folder \<Rightarrow> Inl (OSError ''Is a directory'')
      | Some (Text s) \<Rightarrow>
          if (\<exists>c \<in> set s. 128 \<le> (of_char c :: nat)) then Inl (UnicodeError ''ordinal not in range(128)'')
          else Inr (universal_newlines s))"

text \<open>A failing write may leave the file empty or cut.\<close>

definition write_text :: "scratch_host \<Rightarrow> place \<Rightarrow> string \<Rightarrow> disk \<Rightarrow> (exn + unit) \<times> disk" where
  "write_text h p s d =
     (case sc_write h p of
        Some (e, None) \<Rightarrow> (Inl e, d)
      | Some (e, Some left) \<Rightarrow> (Inl e, AList.update p (Text left) d)
      | None \<Rightarrow> (Inr (), AList.update p (Text s) d))"

text \<open>\<open>mkdir(parents=True)\<close>: the missing folders are made from the top.\<close>

fun make_folders :: "scratch_host \<Rightarrow> place list \<Rightarrow> disk \<Rightarrow> (exn + unit) \<times> disk" where
  "make_folders h [] d = (Inr (), d)"
| "make_folders h (p # ps) d =
     (case map_of d p of
        Some Folder \<Rightarrow> make_folders h ps d
      | Some (Text _) \<Rightarrow> (Inl (OSError ''Not a directory''), d)
      | None \<Rightarrow>
          (case sc_mkdir h p of
             Inl e \<Rightarrow> (Inl e, d)
           | Inr _ \<Rightarrow> make_folders h ps (AList.update p Folder d)))"

definition ancestors :: "place \<Rightarrow> place list" where
  "ancestors p = map (\<lambda>n. take n p) [1..<length p + 1]"

definition mkdir_parents :: "scratch_host \<Rightarrow> place \<Rightarrow> disk \<Rightarrow> (exn + unit) \<times> disk" where
  "mkdir_parents h p d = make_folders h (ancestors p) d"

definition below :: "place \<Rightarrow> place \<Rightarrow> bool" where
  "below p q \<longleftrightarrow> prefix p q"

text \<open>\<open>shutil.rmtree(p)\<close>; one that fails may have removed part of the tree.\<close>

definition rmtree :: "scratch_host \<Rightarrow> place \<Rightarrow> disk \<Rightarrow> (exn + unit) \<times> disk" where
  "rmtree h p d =
     (case sc_rmtree h p of
        None \<Rightarrow> (Inr (), filter (\<lambda>(q, _). \<not> below p q) d)
      | Some (e, gone) \<Rightarrow> (Inl e, filter (\<lambda>(q, _). below p q \<longrightarrow> q \<notin> set gone) d))"

section \<open>The scratch root\<close>

definition SCRATCH_MARKER :: string where "SCRATCH_MARKER = ''.cruise-scratch-root-v1''"
definition RUN_MARKER :: string where "RUN_MARKER = ''.cruise-run-v1''"
definition MARKER_CONTENT :: string where "MARKER_CONTENT = ''Cruise managed scratch v1'' @ [CHR 0x0A]"

definition scratch_place :: "scratch_host \<Rightarrow> cruise_config \<Rightarrow> place" where
  "scratch_place h c = path_parts (fy_resolve (sc_fs h) (rs_scratch_root (cc_runtime c)))"

text \<open>The scratch root with its marker: adopted, or made.\<close>

definition adopt_root :: "scratch_host \<Rightarrow> place \<Rightarrow> disk \<Rightarrow> (exn + unit) \<times> disk" where
  "adopt_root h scratch d =
     (let marker = scratch @ [SCRATCH_MARKER] in
      if disk_exists d scratch then
        if \<not> disk_is_dir d scratch then (Inl (config_error (''scratch_root is not a directory: '' @ place_str scratch)), d)
        else if disk_exists d marker then
          (case read_text d marker of
             Inl e \<Rightarrow> (Inl e, d)
           | Inr s \<Rightarrow>
               if s \<noteq> MARKER_CONTENT then (Inl (config_error (''scratch marker is invalid: '' @ place_str marker)), d)
               else (Inr (), d))
        else if disk_entries d scratch \<noteq> [] then
          (Inl (config_error (''refusing to adopt non-empty unmarked scratch_root: '' @ place_str scratch)), d)
        else write_text h marker MARKER_CONTENT d
      else
        (case mkdir_parents h scratch d of
           (Inl e, d') \<Rightarrow> (Inl e, d')
         | (Inr _, d') \<Rightarrow> write_text h marker MARKER_CONTENT d'))"

definition ensure_scratch_root :: "scratch_host \<Rightarrow> cruise_config \<Rightarrow> disk \<Rightarrow> (exn + place) \<times> disk" where
  "ensure_scratch_root h c d =
     (let path = fy_resolve (sc_fs h) (rs_scratch_root (cc_runtime c)); scratch = path_parts path in
      if \<not> fy_posix (sc_fs h) then (Inl (config_error ''cruise run is supported only on Linux''), d)
      else if \<not> is_relative_to path ''/dev/shm'' then
        (Inl (config_error (''scratch_root must be below /dev/shm: '' @ path)), d)
      else if same_path path ''/dev/shm'' then (Inl (config_error ''scratch_root must not be /dev/shm itself''), d)
      else
        (case adopt_root h scratch d of
           (Inl e, d') \<Rightarrow> (Inl e, d')
         | (Inr _, d') \<Rightarrow>
             (case sc_free h scratch of
                Inl e \<Rightarrow> (Inl e, d')
              | Inr free \<Rightarrow>
                  let required = rs_minimum_scratch_free_bytes (cc_runtime c) in
                  if free < required then
                    (Inl (config_error (''scratch filesystem has '' @ int_str free @ '' free bytes; ''
                       @ int_str required @ '' required'')), d')
                  else (Inr scratch, d'))))"

section \<open>The directory of a run\<close>

text \<open>\<open>mkdtemp\<close> takes the first of its random names that is not taken.\<close>

fun mkdtemp :: "scratch_host \<Rightarrow> place \<Rightarrow> string list \<Rightarrow> disk \<Rightarrow> (exn + place) \<times> disk" where
  "mkdtemp h dir [] d = (Inl (OSError ''No usable temporary directory name found''), d)"
| "mkdtemp h dir (name # names) d =
     (let p = dir @ [''run-'' @ name] in
      if disk_exists d p then mkdtemp h dir names d
      else (case sc_mkdir h p of Inl e \<Rightarrow> (Inl e, d) | Inr _ \<Rightarrow> (Inr p, AList.update p Folder d)))"

definition create_run_directory :: "scratch_host \<Rightarrow> place \<Rightarrow> disk \<Rightarrow> (exn + place) \<times> disk" where
  "create_run_directory h scratch d =
     (case mkdtemp h scratch (sc_names h) d of
        (Inl e, d') \<Rightarrow> (Inl e, d')
      | (Inr p, d') \<Rightarrow>
          let path = resolve_place h p in
          (case write_text h (path @ [RUN_MARKER]) MARKER_CONTENT d' of
             (Inl e, d'') \<Rightarrow> (Inl e, d'')
           | (Inr _, d'') \<Rightarrow> (Inr path, d'')))"

definition cleanup_run_directory :: "scratch_host \<Rightarrow> place \<Rightarrow> place \<Rightarrow> disk \<Rightarrow> (exn + unit) \<times> disk" where
  "cleanup_run_directory h scratch run d =
     (let resolved_root = resolve_place h scratch; resolved_run = resolve_place h run in
      if butlast resolved_run \<noteq> resolved_root then
        (Inl (config_error (''refusing to clean unexpected run directory: '' @ place_str resolved_run)), d)
      else let marker = resolved_run @ [RUN_MARKER];
               refuse = (Inl (config_error (''refusing to clean unmarked run directory: '' @ place_str resolved_run)), d) in
      if \<not> disk_is_file d marker then refuse
      else (case read_text d marker of
              Inl e \<Rightarrow> (Inl e, d)
            | Inr s \<Rightarrow> if s \<noteq> MARKER_CONTENT then refuse else rmtree h resolved_run d))"

definition remove_empty_scratch_root :: "scratch_host \<Rightarrow> cruise_config \<Rightarrow> disk \<Rightarrow> (exn + unit) \<times> disk" where
  "remove_empty_scratch_root h c d =
     (let scratch = scratch_place h c; marker = scratch @ [SCRATCH_MARKER] in
      if \<not> disk_exists d scratch then (Inr (), d)
      else if \<not> disk_is_dir d scratch \<or> \<not> disk_is_file d marker then
        (Inl (config_error (''refusing to remove unmarked scratch_root: '' @ place_str scratch)), d)
      else (case read_text d marker of
              Inl e \<Rightarrow> (Inl e, d)
            | Inr s \<Rightarrow>
                if s \<noteq> MARKER_CONTENT then (Inl (config_error (''scratch marker is invalid: '' @ place_str marker)), d)
                else let entries = filter (\<lambda>p. p \<noteq> marker) (disk_entries d scratch) in
                if entries \<noteq> [] then
                  (Inl (config_error (''scratch_root is not empty: '' @ comma_join (sort (map last entries)))), d)
                else (case sc_remove h marker of
                        Inl e \<Rightarrow> (Inl e, d)
                      | Inr _ \<Rightarrow>
                          let d' = AList.delete marker d in
                          (case sc_remove h scratch of
                             Inl e \<Rightarrow> (Inl e, d')
                           | Inr _ \<Rightarrow> (Inr (), AList.delete scratch d')))))"

section \<open>The supervised command\<close>

text \<open>
  What a started command does: the signals that arrive while it is waited for, each with
  whether it still runs then; what the wait gives; whether it runs when the wait is over, 60
  seconds after \<open>SIGTERM\<close> and 60 seconds after \<open>SIGKILL\<close>; and the disk it leaves.
\<close>

record child_run =
  cr_signals :: "(int \<times> bool) list"
  cr_wait :: "exn + int"
  cr_running :: bool
  cr_survives_term :: bool
  cr_survives_kill :: bool
  cr_disk :: disk

type_synonym child = "string list \<Rightarrow> (string, string) dict \<Rightarrow> disk \<Rightarrow> exn + child_run"

record session =
  sn_disk :: disk
  sn_handlers :: "int \<Rightarrow> string"
  sn_sent :: "int list"

definition SIGINT :: int where "SIGINT = 2"
definition SIGKILL :: int where "SIGKILL = 9"
definition SIGTERM :: int where "SIGTERM = 15"

definition run_arguments :: "cruise_config \<Rightarrow> string list \<Rightarrow> string list" where
  "run_arguments c command =
     [''/bin/bash'', ''-c'', ''set -euo pipefail; source '' @ [CHR 0x22] @ ''$1'' @ [CHR 0x22] @ ''; shift; exec ''
        @ [CHR 0x22] @ ''$@'' @ [CHR 0x22], ''cruise'', cc_cann_set_env c] @ command"

text \<open>\<open>forward\<close>: a signal goes to the group of a command that still runs.\<close>

definition forwarded :: "(int \<times> bool) list \<Rightarrow> int list" where
  "forwarded signals = map fst (filter snd signals)"

definition installed :: "(int \<Rightarrow> string) \<Rightarrow> int \<Rightarrow> string" where
  "installed handlers = handlers(SIGINT := ''forward'', SIGTERM := ''forward'')"

definition restored :: "(int \<Rightarrow> string) \<Rightarrow> (int \<Rightarrow> string) \<Rightarrow> int \<Rightarrow> string" where
  "restored previous handlers = handlers(SIGINT := previous SIGINT, SIGTERM := previous SIGTERM)"

text \<open>
  The end of a command that still runs, which one that was waited for does not: what is sent,
  and whether it cannot be ended.
\<close>

definition stop_child :: "child_run \<Rightarrow> int list \<times> bool" where
  "stop_child run =
     (if \<not> isl (cr_wait run) \<or> \<not> cr_running run then ([], False)
      else if \<not> cr_survives_term run then ([SIGTERM], False)
      else ([SIGTERM, SIGKILL], cr_survives_kill run))"

text \<open>The engine's directories, made while the environment is built.\<close>

fun make_directories :: "scratch_host \<Rightarrow> string list \<Rightarrow> disk \<Rightarrow> (exn + unit) \<times> disk" where
  "make_directories h [] d = (Inr (), d)"
| "make_directories h (p # ps) d =
     (case mkdir_parents h (path_parts p) d of
        (Inl e, d') \<Rightarrow> (Inl e, d')
      | (Inr _, d') \<Rightarrow> make_directories h ps d')"

definition run_environment ::
  "scratch_host \<Rightarrow> cruise_config \<Rightarrow> place \<Rightarrow> (string, string) dict \<Rightarrow> disk \<Rightarrow> (exn + (string, string) dict) \<times> disk" where
  "run_environment h c run base d =
     (case make_directories h (run_directories (fy_resolve (sc_fs h) (place_str run))) d of
        (Inl e, d') \<Rightarrow> (Inl e, d')
      | (Inr _, d') \<Rightarrow> (engine_environment ((sc_fs h)\<lparr>fy_mkdir := \<lambda>p. Inr ()\<rparr>) c (place_str run) base, d'))"

text \<open>The \<open>try\<close> statement: the command, and what happens however it ends.\<close>

definition supervise ::
  "scratch_host \<Rightarrow> child \<Rightarrow> place \<Rightarrow> place \<Rightarrow> string list \<Rightarrow> (string, string) dict \<Rightarrow> session \<Rightarrow> (exn + int) \<times> session" where
  "supervise h child scratch run arguments environment s =
     (case child arguments environment (sn_disk s) of
        Inl e \<Rightarrow>
          (case cleanup_run_directory h scratch run (sn_disk s) of
             (Inl e', d) \<Rightarrow> (Inl e', s\<lparr>sn_disk := d\<rparr>)
           | (Inr _, d) \<Rightarrow> (Inl e, s\<lparr>sn_disk := d\<rparr>))
      | Inr outcome \<Rightarrow>
          let (stopped, stuck) = stop_child outcome;
              s' = s\<lparr>sn_disk := cr_disk outcome,
                     sn_handlers := restored (sn_handlers s) (installed (sn_handlers s)),
                     sn_sent := sn_sent s @ forwarded (cr_signals outcome) @ stopped\<rparr> in
          if stuck then (Inl (TimeoutExpired ''timed out after 60 seconds''), s')
          else (case cleanup_run_directory h scratch run (sn_disk s') of
                  (Inl e', d) \<Rightarrow> (Inl e', s'\<lparr>sn_disk := d\<rparr>)
                | (Inr _, d) \<Rightarrow> (cr_wait outcome, s'\<lparr>sn_disk := d\<rparr>)))"

definition run_supervised ::
  "scratch_host \<Rightarrow> child \<Rightarrow> (string, string) dict \<Rightarrow> cruise_config \<Rightarrow> string list \<Rightarrow> bool \<Rightarrow> session
     \<Rightarrow> (exn + int) \<times> session" where
  "run_supervised h child environ c command deep s =
     (if command = [] then (Inl (config_error ''cruise run requires a command after --''), s)
      else case validate_paths (sc_fs h) deep c of
        Inl e \<Rightarrow> (Inl e, s)
      | Inr _ \<Rightarrow>
          (case ensure_scratch_root h c (sn_disk s) of
             (Inl e, d) \<Rightarrow> (Inl e, s\<lparr>sn_disk := d\<rparr>)
           | (Inr scratch, d1) \<Rightarrow>
               (case create_run_directory h scratch d1 of
                  (Inl e, d) \<Rightarrow> (Inl e, s\<lparr>sn_disk := d\<rparr>)
                | (Inr run, d2) \<Rightarrow>
                    (case run_environment h c run environ d2 of
                       (Inl e, d) \<Rightarrow> (Inl e, s\<lparr>sn_disk := d\<rparr>)
                     | (Inr environment, d3) \<Rightarrow>
                         supervise h child scratch run (run_arguments c command) environment (s\<lparr>sn_disk := d3\<rparr>)))))"

section \<open>What the disk operations change\<close>

text \<open>A disk whose entries lie in folders.\<close>

definition disk_wf :: "disk \<Rightarrow> bool" where
  "disk_wf d \<longleftrightarrow> (\<forall>p \<in> set (keys d). p \<noteq> [] \<longrightarrow> map_of d (butlast p) = Some Folder)"

text \<open>\<open>d'\<close> has the entries of \<open>d\<close>, and new ones only where \<open>P\<close> holds.\<close>

definition grows :: "(place \<Rightarrow> bool) \<Rightarrow> disk \<Rightarrow> disk \<Rightarrow> bool" where
  "grows P d d' \<longleftrightarrow> (\<forall>p. map_of d' p \<noteq> map_of d p \<longrightarrow> map_of d p = None \<and> P p)"

lemma grows_refl [simp]: "grows P d d"
  by (simp add: grows_def)

lemma grows_update: "map_of d p = None \<Longrightarrow> P p \<Longrightarrow> grows P d (AList.update p v d)"
  by (simp add: grows_def dict_get_update)

lemma grows_trans: "grows P d d' \<Longrightarrow> grows P d' d'' \<Longrightarrow> grows P d d''"
  unfolding grows_def by metis

lemma grows_mono: "grows P d d' \<Longrightarrow> (\<And>p. map_of d p = None \<Longrightarrow> P p \<Longrightarrow> Q p) \<Longrightarrow> grows Q d d'"
  unfolding grows_def by blast

lemma grows_keeps: "grows P d d' \<Longrightarrow> map_of d p = Some v \<Longrightarrow> map_of d' p = Some v"
  unfolding grows_def by (metis option.distinct(1))

lemma make_folders_grows:
  "make_folders h ps d = (r, d') \<Longrightarrow> grows (\<lambda>p. p \<in> set ps) d d'"
proof (induction h ps d rule: make_folders.induct)
  case (2 h p ps d)
  show ?case
  proof (cases "map_of d p")
    case None
    with 2 show ?thesis
      by (auto split: sum.splits intro: grows_update grows_trans [OF grows_update] grows_mono)
  next
    case (Some v)
    with 2 show ?thesis by (cases v) (auto intro: grows_mono)
  qed
qed simp

lemma make_folders_done:
  "make_folders h ps d = (Inr u, d') \<Longrightarrow> p \<in> set ps \<Longrightarrow> map_of d' p = Some Folder"
proof (induction h ps d rule: make_folders.induct)
  case (2 h q ps d)
  show ?case
  proof (cases "map_of d q")
    case None
    with 2 show ?thesis
      by (auto split: sum.splits intro: grows_keeps [OF make_folders_grows] simp: dict_get_update)
  next
    case (Some v)
    with 2 show ?thesis by (cases v) (auto intro: grows_keeps [OF make_folders_grows])
  qed
qed simp

lemma ancestors_iff: "q \<in> set (ancestors p) \<longleftrightarrow> q \<noteq> [] \<and> prefix q p"
  by (auto simp: ancestors_def image_iff prefix_def not_less_eq_eq Suc_le_eq
      intro!: bexI [of _ "length q"] simp flip: length_greater_0_conv)
     (metis append_take_drop_id)

lemma map_of_filter_below:
  "map_of (filter (\<lambda>(q, _). \<not> below p q) d) q = (if below p q then None else map_of d q)"
  by (induction d) auto

lemma map_of_filter_gone:
  "map_of (filter (\<lambda>(q, _). below p q \<longrightarrow> q \<notin> X) d) q = (if below p q \<and> q \<in> X then None else map_of d q)"
  by (induction d) auto

end
