(* ===== verification/ScratchProps.thy ===== *)
theory ScratchProps
  imports Scratch
begin

text \<open>
  The properties of the managed scratch: cleaning up removes nothing but the marked directory
  of a run, and a supervised run leaves the disk, the signal handlers and the exit status as
  its contract says.
\<close>

section \<open>Markers\<close>

definition marked :: "disk \<Rightarrow> place \<Rightarrow> string \<Rightarrow> bool" where
  "marked d p name \<longleftrightarrow> (\<exists>s. map_of d (p @ [name]) = Some (Text s) \<and> universal_newlines s = MARKER_CONTENT)"

lemma read_text_marker: "map_of d p = Some (Text MARKER_CONTENT) \<Longrightarrow> read_text d p = Inr MARKER_CONTENT"
  by (simp add: read_text_def MARKER_CONTENT_def)

lemma read_text_marked: "read_text d (p @ [name]) = Inr MARKER_CONTENT \<Longrightarrow> marked d p name"
  by (auto simp: read_text_def marked_def split: option.splits node.splits if_splits)

section \<open>Cleaning up\<close>

lemma rmtree_effect:
  "rmtree h p d = (r, d') \<Longrightarrow> map_of d' q = map_of d q \<or> (below p q \<and> map_of d' q = None)"
  by (cases "sc_rmtree h p") (auto simp: rmtree_def map_of_filter_below map_of_filter_gone split: if_splits)

lemma rmtree_done: "rmtree h p d = (Inr u, d') \<Longrightarrow> d' = filter (\<lambda>(q, _). \<not> below p q) d"
  by (auto simp: rmtree_def split: option.splits)

lemma cleanup_cases:
  assumes "cleanup_run_directory h scratch run d = (r, d')"
  obtains "d' = d" and "isl r"
  | "butlast (resolve_place h run) = resolve_place h scratch" and "marked d (resolve_place h run) RUN_MARKER"
    and "rmtree h (resolve_place h run) d = (r, d')"
  using assms read_text_marked [of d "resolve_place h run" RUN_MARKER]
  by (auto simp: cleanup_run_directory_def Let_def split: if_splits sum.splits)

section \<open>A run\<close>

lemma write_text_grows: "write_text h p s d = (r, d') \<Longrightarrow> map_of d p = None \<Longrightarrow> grows (\<lambda>q. q = p) d d'"
  by (auto simp: write_text_def split: option.splits intro: grows_update)

lemma write_text_done: "write_text h p s d = (Inr u, d') \<Longrightarrow> map_of d' p = Some (Text s)"
  by (auto simp: write_text_def dict_get_update split: option.splits)

lemma disk_wfD: "disk_wf d \<Longrightarrow> map_of d (p @ [n]) = Some v \<Longrightarrow> map_of d p = Some Folder"
  using dict_get_Some_keys [of d "p @ [n]" v] by (force simp: disk_wf_def)

lemma mkdir_parents_grows: "mkdir_parents h p d = (r, d') \<Longrightarrow> grows (\<lambda>q. below q p) d d'"
  unfolding mkdir_parents_def by (drule make_folders_grows, erule grows_mono) (simp add: ancestors_iff below_def)

lemma adopt_root_grows:
  assumes "adopt_root h scratch d = (r, d')" and wf: "disk_wf d"
  shows "grows (\<lambda>p. below p scratch \<or> p = scratch @ [SCRATCH_MARKER]) d d'"
proof (cases "disk_exists d scratch")
  case True
  then show ?thesis
    using assms(1)
    by (auto simp: adopt_root_def Let_def disk_exists_def split: if_splits sum.splits
        intro: grows_mono [OF write_text_grows])
next
  case False
  then have missing: "map_of d (scratch @ [SCRATCH_MARKER]) = None"
    using disk_wfD [OF wf] by (fastforce simp: disk_exists_def)
  obtain r1 d1 where made: "mkdir_parents h scratch d = (r1, d1)" by fastforce
  note g = mkdir_parents_grows [OF made]
  then have "map_of d1 (scratch @ [SCRATCH_MARKER]) = None"
    using missing unfolding grows_def below_def by (metis append_Nil2 not_Cons_self2 prefix_def same_append_eq prefix_order.antisym prefixI)
  moreover have "write_text h (scratch @ [SCRATCH_MARKER]) MARKER_CONTENT d1 = (r, d')" if "r1 = Inr u" for u
    using False assms(1) made that by (simp add: adopt_root_def Let_def)
  moreover have "d1 = d'" if "r1 = Inl e" for e
    using False assms(1) made that by (simp add: adopt_root_def Let_def)
  ultimately have "grows (\<lambda>p. p = scratch @ [SCRATCH_MARKER]) d1 d'"
    by (cases r1) (auto dest: write_text_grows)
  with g show ?thesis by (elim grows_trans [OF grows_mono grows_mono]) simp_all
qed

lemma mkdtemp_done:
  "mkdtemp h dir names d = (Inr p, d') \<Longrightarrow>
     (\<exists>n \<in> set names. p = dir @ [''run-'' @ n]) \<and> map_of d p = None \<and> d' = AList.update p Folder d"
  by (induction h dir names d rule: mkdtemp.induct) (auto simp: Let_def disk_exists_def split: if_splits sum.splits)

lemma create_run_done:
  assumes "create_run_directory h scratch d = (Inr run, d')"
    and inside: "\<And>n m. map_of d (scratch @ [n]) = None \<Longrightarrow> map_of d ((scratch @ [n]) @ [m]) = None"
    and links: "\<And>p. below scratch p \<Longrightarrow> clean_parts p \<Longrightarrow> resolve_place h p = p"
    and names: "\<forall>n \<in> set (sc_names h). CHR ''/'' \<notin> set n" and scratch: "clean_parts scratch"
  shows "butlast run = scratch" and "run \<noteq> []" and "map_of d run = None" and "grows (below run) d d'"
    and "map_of d' (run @ [RUN_MARKER]) = Some (Text MARKER_CONTENT)" and "clean_parts run"
proof -
  obtain p d1 where made: "mkdtemp h scratch (sc_names h) d = (Inr p, d1)"
    and path: "run = resolve_place h p"
    and marker: "write_text h (run @ [RUN_MARKER]) MARKER_CONTENT d1 = (Inr (), d')"
    using assms(1) by (auto simp: create_run_directory_def Let_def split: prod.splits sum.splits)
  obtain m where m: "m \<in> set (sc_names h)" "p = scratch @ [''run-'' @ m]" and new: "map_of d p = None" and d1: "d1 = AList.update p Folder d"
    using mkdtemp_done [OF made] by blast
  then obtain n where p: "p = scratch @ [n]" by simp
  have clean: "clean_parts p" using m names scratch by (auto simp: clean_parts_def)
  then have run: "run = p" using links [of p] path by (simp add: p below_def)
  then show "butlast run = scratch" "run \<noteq> []" "map_of d run = None" using new by (simp_all add: p)
  have "map_of d (run @ [RUN_MARKER]) = None"
    using inside [OF new [unfolded p]] by (simp add: run p)
  then have "map_of d1 (run @ [RUN_MARKER]) = None" by (simp add: d1 dict_get_update run)
  from write_text_grows [OF marker this] have "grows (below run) d1 d'"
    by (rule grows_mono) (simp add: below_def)
  moreover have "grows (below run) d d1"
    unfolding d1 by (rule grows_update) (simp_all add: new run below_def)
  ultimately show "grows (below run) d d'" by (rule grows_trans [rotated])
  show "map_of d' (run @ [RUN_MARKER]) = Some (Text MARKER_CONTENT)" by (rule write_text_done [OF marker])
  show "clean_parts run" using clean run by simp
qed

lemma make_directories_grows:
  "make_directories h ps d = (r, d') \<Longrightarrow> grows (\<lambda>q. \<exists>p \<in> set ps. below q (path_parts p)) d d'"
proof (induction h ps d rule: make_directories.induct)
  case (2 h p ps d)
  obtain r1 d1 where made: "mkdir_parents h (path_parts p) d = (r1, d1)" by fastforce
  have "grows (\<lambda>q. \<exists>p \<in> set (p # ps). below q (path_parts p)) d d1"
    by (rule grows_mono [OF mkdir_parents_grows [OF made]]) auto
  then show ?case
    using 2 made by (auto split: sum.splits intro: grows_trans [OF _ grows_mono])
qed simp

lemma run_directories_below:
  assumes "path \<in> set (run_directories run)" and "below q (path_parts path)"
  shows "below q (path_parts run) \<or> below (path_parts run) q"
proof -
  have "prefix (path_parts run) (path_parts path)"
    using assms(1) by (auto simp: run_directories_def path_parts_def split_on_snoc)
  with assms(2) show ?thesis unfolding below_def by (rule prefix_same_cases)
qed

lemma run_environment_grows:
  assumes "run_environment h c run base d = (r, d')" and "resolve_place h run = run"
  shows "grows (\<lambda>q. below q run \<or> below run q) d d'"
proof -
  obtain r1 where "make_directories h (run_directories (fy_resolve (sc_fs h) (place_str run))) d = (r1, d')"
    using assms(1) by (auto simp: run_environment_def split: prod.splits sum.splits)
  then show ?thesis
    using assms(2) by (elim grows_mono [OF make_directories_grows])
      (auto simp: resolve_place_def dest: run_directories_below)
qed

text \<open>What a run may add to the disk: the scratch root, its marker, and what lies in its own directory.\<close>

definition run_place :: "place \<Rightarrow> place \<Rightarrow> place \<Rightarrow> bool" where
  "run_place scratch run p \<longleftrightarrow> below p scratch \<or> p = scratch @ [SCRATCH_MARKER] \<or> below run p"

lemma ensure_done:
  assumes "ensure_scratch_root h c d = (Inr scratch, d')"
  shows "scratch = scratch_place h c" and "adopt_root h scratch d = (Inr (), d')"
    and "\<exists>free. sc_free h scratch = Inr free \<and> rs_minimum_scratch_free_bytes (cc_runtime c) \<le> free"
  using assms by (auto simp: ensure_scratch_root_def scratch_place_def Let_def split: if_splits prod.splits sum.splits)

lemma missing_inside:
  "disk_wf d \<Longrightarrow> map_of d p = None \<Longrightarrow> map_of d (p @ [m]) = None"
  using disk_wfD [of d p m] by (cases "map_of d (p @ [m])") auto

lemma started_run:
  assumes wf: "disk_wf d" and links: "\<And>p. below (scratch_place h c) p \<Longrightarrow> clean_parts p \<Longrightarrow> resolve_place h p = p"
    and names: "\<forall>n \<in> set (sc_names h). CHR ''/'' \<notin> set n"
    and ensured: "ensure_scratch_root h c d = (Inr scratch, d1)"
    and created: "create_run_directory h scratch d1 = (Inr run, d2)"
    and environment: "run_environment h c run environ d2 = (e, d3)"
  shows "grows (run_place scratch run) d d3" and "butlast run = scratch" and "map_of d run = None"
    and "map_of d3 (run @ [RUN_MARKER]) = Some (Text MARKER_CONTENT)" and "resolve_place h run = run"
proof -
  note scratch = ensure_done(1) [OF ensured] and adopted = adopt_root_grows [OF ensure_done(2) [OF ensured] wf]
  have links': "\<And>p. below scratch p \<Longrightarrow> clean_parts p \<Longrightarrow> resolve_place h p = p" using links scratch by simp
  have clean: "clean_parts scratch" by (simp add: scratch scratch_place_def path_parts_clean)
  have deep: "map_of d1 ((scratch @ [n]) @ [m]) = map_of d ((scratch @ [n]) @ [m])" for n m
    using adopted unfolding grows_def below_def by (auto simp: prefix_def)
  have inside: "map_of d1 ((scratch @ [n]) @ [m]) = None" if "map_of d1 (scratch @ [n]) = None" for n m
    using that deep missing_inside [OF wf] adopted unfolding grows_def by metis
  note run = create_run_done [OF created inside links' names clean]
  show "butlast run = scratch" by (rule run(1))
  then have "below scratch run" by (metis below_def prefixeq_butlast)
  then show same: "resolve_place h run = run" using links' run(6) by blast
  show "map_of d run = None" using run(3) adopted unfolding grows_def by metis
  note made = run_environment_grows [OF environment same]
  show "map_of d3 (run @ [RUN_MARKER]) = Some (Text MARKER_CONTENT)"
    by (rule grows_keeps [OF made run(5)])
  have up: "below q scratch \<or> below run q" if "below q run" for q
    using that run(1,2) unfolding below_def by (metis append_butlast_last_id prefix_order.refl prefix_snoc)
  show "grows (run_place scratch run) d d3"
    by (rule grows_trans [OF grows_mono [OF adopted] grows_trans [OF grows_mono [OF run(4)] grows_mono [OF made]]])
      (auto simp: run_place_def dest: up)
qed

lemma cleanup_done:
  assumes "cleanup_run_directory h scratch run d = (Inr u, d')"
  shows "d' = filter (\<lambda>(q, _). \<not> below (resolve_place h run) q) d"
  using assms by (cases rule: cleanup_cases) (auto dest: rmtree_done)

lemma restored_installed: "restored handlers (installed handlers) = handlers"
  by (simp add: restored_def installed_def)

lemma supervise_done:
  assumes "supervise h child scratch run arguments environment s = (Inr code, s')"
  shows "\<exists>outcome. child arguments environment (sn_disk s) = Inr outcome \<and> cr_wait outcome = Inr code
    \<and> sn_disk s' = filter (\<lambda>(q, _). \<not> below (resolve_place h run) q) (cr_disk outcome)
    \<and> sn_handlers s' = sn_handlers s \<and> sn_sent s' = sn_sent s @ forwarded (cr_signals outcome)"
proof -
  obtain outcome where child: "child arguments environment (sn_disk s) = Inr outcome"
    using assms by (cases "child arguments environment (sn_disk s)")
      (auto simp: supervise_def split: prod.splits sum.splits)
  then show ?thesis
    using assms cleanup_done
    by (auto simp: supervise_def Let_def stop_child_def restored_installed split: prod.splits sum.splits if_splits)
qed

lemma run_supervised_done:
  assumes "run_supervised h child environ c command deep s = (Inr code, s')"
  obtains scratch d1 run d2 environment d3 where
    "command \<noteq> []" "validate_paths (sc_fs h) deep c = Inr ()"
    "ensure_scratch_root h c (sn_disk s) = (Inr scratch, d1)" "create_run_directory h scratch d1 = (Inr run, d2)"
    "run_environment h c run environ d2 = (Inr environment, d3)"
    "supervise h child scratch run (run_arguments c command) environment (s\<lparr>sn_disk := d3\<rparr>) = (Inr code, s')"
  using assms by (auto simp: run_supervised_def split: if_splits prod.splits sum.splits)

section \<open>A run whose environment cannot be made\<close>

text \<open>
  The environment is built before the \<open>try\<close> statement whose \<open>finally\<close> cleans up: when a
  directory of the engine cannot be made, the directory of the run stays behind.
\<close>

lemma failed_environment_leaks:
  assumes wf: "disk_wf (sn_disk s)"
    and links: "\<And>p. below (scratch_place h c) p \<Longrightarrow> clean_parts p \<Longrightarrow> resolve_place h p = p"
    and names: "\<forall>n \<in> set (sc_names h). CHR ''/'' \<notin> set n" and "command \<noteq> []" and "validate_paths (sc_fs h) deep c = Inr ()"
    and ensured: "ensure_scratch_root h c (sn_disk s) = (Inr scratch, d1)"
    and created: "create_run_directory h scratch d1 = (Inr run, d2)"
    and failed: "run_environment h c run environ d2 = (Inl e, d3)"
  shows "run_supervised h child environ c command deep s = (Inl e, s\<lparr>sn_disk := d3\<rparr>)"
    and "map_of (sn_disk s) run = None" and "marked d3 run RUN_MARKER"
  using assms started_run(3,4) [OF wf links names ensured created failed]
  by (auto simp: run_supervised_def marked_def intro!: exI [of _ MARKER_CONTENT]) (simp_all add: MARKER_CONTENT_def)

end
