(* ===== verification/Cli.thy ===== *)
theory Cli
  imports DoctorProps ScratchProps
begin

text \<open>
  \<open>main\<close> of \<open>cli.py\<close>: the commands, what they print and the status they exit with. The parsed
  arguments are the value \<open>argparse\<close> returns; \<open>json.dumps\<close> is a parameter.
\<close>

section \<open>Arguments and outcomes\<close>

datatype cli_args =
    Version bool
  | Doctor string "string option" int "string option" bool bool
  | Smoke bool
  | Validate string bool bool
  | Run string bool bool "string list"
  | Cleanup string

text \<open>The status \<open>main\<close> returns, and the exit of \<open>parser.error\<close>, whose status is 2.\<close>

datatype outcome = Returned int | UsageError string

record cli_host =
  ci_machine :: machine
  ci_scratch :: scratch_host
  ci_child :: child
  ci_environ :: "(string, string) dict"
  ci_dumps :: "pyval \<Rightarrow> string"

definition load_config :: "cli_host \<Rightarrow> string \<Rightarrow> exn + cruise_config" where
  "load_config h path = load_runtime_config (mc_fs (ci_machine h)) (mc_resource (ci_machine h)) path"

definition config_summary :: "cruise_config \<Rightarrow> bool \<Rightarrow> pyval" where
  "config_summary c paths_checked = PDict
     [(''schema_version'', PInt 1), (''pass'', PBool True), (''configuration'', PStr (cc_source c)),
      (''profile'', PStr (cc_compatibility_profile c)), (''device_id'', PInt (cc_device_id c)),
      (''max_steps'', PInt (rs_max_steps (cc_runtime c))),
      (''logical_capacity'', PInt (rs_logical_capacity (cc_runtime c))), (''paths_checked'', PBool paths_checked)]"

definition dry_run_summary :: "cruise_config \<Rightarrow> string list \<Rightarrow> bool \<Rightarrow> pyval" where
  "dry_run_summary c command deep = PDict
     [(''pass'', PBool True), (''profile'', PStr (cc_compatibility_profile c)), (''device_id'', PInt (cc_device_id c)),
      (''command'', PList (map PStr command)), (''deep_integrity'', PBool deep)]"

section \<open>The commands\<close>

definition cmd_version :: "cli_host \<Rightarrow> bool \<Rightarrow> exn + outcome \<times> string list" where
  "cmd_version h json_output =
     rbind (load_compatibility_manifest (mc_resource (ci_machine h))) (\<lambda>manifest.
     let contracts = py_get manifest ''contracts'' in
       Inr (Returned 0,
         if json_output then
           [ci_dumps h (PDict [(''product'', PStr ''Cruise''), (''version'', PStr PACKAGE_VERSION),
              (''maturity'', PStr PRODUCT_MATURITY), (''contracts'', contracts)])]
         else (''Cruise '' @ PACKAGE_VERSION @ '' ('' @ PRODUCT_MATURITY @ '')'')
           # map (\<lambda>(name, version). name @ ''='' @ py_str (ci_machine h) version) (dict_of contracts)))"

definition show_report :: "cli_host \<Rightarrow> bool \<Rightarrow> doctor_report \<Rightarrow> outcome \<times> string list" where
  "show_report h json_output report =
     (Returned (if report_passed report then 0 else 1), [render_report (ci_dumps h) json_output report])"

definition cmd_smoke :: "cli_host \<Rightarrow> bool \<Rightarrow> exn + outcome \<times> string list" where
  "cmd_smoke h json_output = rbind (run_source_smoke (ci_machine h)) (\<lambda>report. Inr (show_report h json_output report))"

definition cmd_doctor ::
  "cli_host \<Rightarrow> string \<Rightarrow> string option \<Rightarrow> int \<Rightarrow> string option \<Rightarrow> bool \<Rightarrow> bool \<Rightarrow> exn + outcome \<times> string list" where
  "cmd_doctor h mode profile device config deep json_output =
     (let m = ci_machine h in
      if mode = ''source'' then
        if config \<noteq> None then Inr (UsageError ''--config is valid only with --mode runtime'', [])
        else rbind (run_source_smoke m) (\<lambda>report. Inr (show_report h json_output (report\<lparr>dr_mode := ''source''\<rparr>)))
      else if mode = ''npu'' then
        if config \<noteq> None then Inr (UsageError ''--config is valid only with --mode runtime'', [])
        else rbind (run_npu_doctor m profile device) (\<lambda>report. Inr (show_report h json_output report))
      else
        (case config of
           None \<Rightarrow> Inr (UsageError ''--mode runtime requires --config'', [])
         | Some path \<Rightarrow>
             rbind (load_config h path) (\<lambda>c.
             rbind (run_runtime_doctor m c deep) (\<lambda>report. Inr (show_report h json_output report)))))"

definition cmd_validate :: "cli_host \<Rightarrow> string \<Rightarrow> bool \<Rightarrow> bool \<Rightarrow> exn + outcome \<times> string list" where
  "cmd_validate h path check_paths deep =
     rbind (load_config h path) (\<lambda>c.
     rbind (if check_paths \<or> deep then validate_paths (mc_fs (ci_machine h)) deep c else Inr ()) (\<lambda>_.
       Inr (Returned 0, [ci_dumps h (config_summary c (check_paths \<or> deep))])))"

definition cmd_run :: "cli_host \<Rightarrow> string \<Rightarrow> bool \<Rightarrow> bool \<Rightarrow> string list \<Rightarrow> session
    \<Rightarrow> (exn + outcome \<times> string list) \<times> session" where
  "cmd_run h path deep dry_run child_command s =
     (case load_config h path of
        Inl e \<Rightarrow> (Inl e, s)
      | Inr c \<Rightarrow>
          let command = (case child_command of x # xs \<Rightarrow> if x = ''--'' then xs else child_command | [] \<Rightarrow> []) in
          if command = [] then (Inr (UsageError ''cruise run requires a command after --'', []), s)
          else if dry_run then
            (rbind (validate_paths (mc_fs (ci_machine h)) deep c) (\<lambda>_.
               Inr (Returned 0, [ci_dumps h (dry_run_summary c command deep)])), s)
          else
            (case run_supervised (ci_scratch h) (ci_child h) (ci_environ h) c command deep s of
               (r, s') \<Rightarrow> (rbind r (\<lambda>code. Inr (Returned code, [])), s')))"

definition cmd_cleanup :: "cli_host \<Rightarrow> string \<Rightarrow> session \<Rightarrow> (exn + outcome \<times> string list) \<times> session" where
  "cmd_cleanup h path s =
     (case load_config h path of
        Inl e \<Rightarrow> (Inl e, s)
      | Inr c \<Rightarrow>
          (case remove_empty_scratch_root (ci_scratch h) c (sn_disk s) of
             (r, d) \<Rightarrow>
               (rbind r (\<lambda>_. Inr (Returned 0, [''Cruise scratch root is absent: '' @ rs_scratch_root (cc_runtime c)])),
                s\<lparr>sn_disk := d\<rparr>)))"

definition cli_dispatch :: "cli_host \<Rightarrow> cli_args \<Rightarrow> session \<Rightarrow> (exn + outcome \<times> string list) \<times> session" where
  "cli_dispatch h args s =
     (case args of
        Version json_output \<Rightarrow> (cmd_version h json_output, s)
      | Smoke json_output \<Rightarrow> (cmd_smoke h json_output, s)
      | Doctor mode profile device config deep json_output \<Rightarrow>
          (cmd_doctor h mode profile device config deep json_output, s)
      | Validate path check_paths deep \<Rightarrow> (cmd_validate h path check_paths deep, s)
      | Run path deep dry_run command \<Rightarrow> cmd_run h path deep dry_run command s
      | Cleanup path \<Rightarrow> cmd_cleanup h path s)"

text \<open>The exceptions \<open>main\<close> turns into a message and status 1.\<close>

definition reported :: "exn \<Rightarrow> bool" where
  "reported e \<longleftrightarrow>
     is_os_error e \<or> exn_name e \<in> {''RuntimeConfigError'', ''CompatibilityError'', ''JSONDecodeError''}"

definition cli_main :: "cli_host \<Rightarrow> cli_args \<Rightarrow> session \<Rightarrow> (exn + outcome \<times> string list) \<times> session" where
  "cli_main h args s =
     (case cli_dispatch h args s of
        (Inl e, s') \<Rightarrow>
          (if reported e then Inr (Returned 1, [''cruise: '' @ exn_str e]) else Inl e, s')
      | (Inr r, s') \<Rightarrow> (Inr r, s'))"

section \<open>What the statuses mean\<close>

text \<open>Only a run and a cleanup change anything, and a dry run is no run.\<close>

lemma reading_commands_keep:
  assumes "cli_main h args s = (r, s')" and "\<And>path deep command. args \<noteq> Run path deep False command"
    and "\<And>path. args \<noteq> Cleanup path"
  shows "s' = s"
proof (cases args)
  case (Run path deep dry_run command)
  with assms(2) have "dry_run" by (cases dry_run) auto
  with Run assms(1) show ?thesis
    by (auto simp: cli_main_def cli_dispatch_def cmd_run_def Let_def split: sum.splits if_splits prod.splits)
qed (use assms in \<open>auto simp: cli_main_def cli_dispatch_def split: sum.splits\<close>)

text \<open>The runtime doctor exits with 0 exactly when its report passes.\<close>

lemma doctor_status:
  assumes "load_config h path = Inr c" and "run_runtime_doctor (ci_machine h) c deep = Inr report"
  shows "\<exists>printed. cli_main h (Doctor ''runtime'' profile device (Some path) deep json) s =
    (Inr (Returned (if report_passed report then 0 else 1), printed), s)"
  using assms by (simp add: cli_main_def cli_dispatch_def cmd_doctor_def show_report_def)

end
