(* ===== verification/RuntimeExample.thy ===== *)
theory RuntimeExample
  imports Cli SidecarStart
begin

text \<open>
  A compatibility manifest, a runtime configuration and a host that go together, on which the
  properties of the command line are applied.
\<close>

definition sha_example :: string where
  "sha_example = replicate 64 CHR ''a''"

definition sha_value_example :: pyval where
  "sha_value_example = PStr sha_example"

definition requirements_example :: "(string \<times> pyval) list" where
  "requirements_example =
     [(''architectures'', PList [PStr ''aarch64'']), (''accelerators'', PList [PStr ''B2'']),
      (''minimum_accelerator_count'', PInt 1), (''minimum_shared_memory_free_bytes'', PInt 100),
      (''required_python_modules'', PList [PStr ''dataflow'']),
      (''required_python_symbols'', PList [PDict
         [(''id'', PStr ''triton''),
          (''alternatives'', PList [PDict [(''module'', PStr ''triton''), (''attribute'', PStr ''pow'')]]),
          (''remediation'', PStr ''install'')]]),
      (''required_cann_files'', PList [PDict
         [(''id'', PStr ''header''), (''name'', PStr ''f.h''), (''relative_paths'', PList [PStr ''include/f.h''])]])]"

definition profile_example :: pyval where
  "profile_example = PDict
     [(''id'', PStr ''p1''), (''status'', PStr ''candidate-r1''),
      (''hardware'', PDict
         [(''architecture'', PStr ''aarch64''), (''accelerator'', PStr ''B2''),
          (''accelerator_count'', PInt 1), (''npu_smi_version'', PStr ''1'')]),
      (''software'', PDict
         [(''python'', PStr ''3.11''), (''driver'', PStr ''1''), (''cann'', PStr ''8.5''), (''torch'', PStr ''2.9.0''),
          (''torch_npu'', PStr ''2.9.0''), (''vllm'', PDict [(''version'', PStr ''0.20'')]),
          (''vllm_ascend'', PDict [(''version'', PStr ''0.19'')])]),
      (''model'', PDict [(''config_sha256'', sha_value_example), (''index_sha256'', sha_value_example)]),
      (''assets'', PDict
         [(''graph_config_sha256'', sha_value_example), (''tiling_sha256'', sha_value_example),
          (''runtime_weights_manifest_sha256'', sha_value_example), (''runtime_weight_files'', PInt 1),
          (''runtime_weight_bytes'', PInt 1)])]"

definition manifest_example :: "(string \<times> pyval) list" where
  "manifest_example =
     [(''schema_version'', PInt 2), (''product'', expected_product), (''contracts'', expected_contracts),
      (''capability_requirements'', PDict requirements_example), (''profiles'', PList [profile_example])]"

lemma requirements_ok: "check_requirements (PDict requirements_example) = Inr ()"
  by code_simp

lemma profile_accepted: "check_profile requirements_example profile_example [] = Inr [''p1'']"
  by code_simp

lemma expected_records_equal: "py_eq expected_product expected_product" "py_eq expected_contracts expected_contracts"
  by code_simp+

lemma manifest_accepted: "load_compatibility_manifest (Inr (PDict manifest_example)) = Inr manifest_example"
proof -
  have "is_dict expected_product" by (simp add: expected_product_def is_dict_def)
  then have "validate_compatibility_manifest manifest_example = Inr ()"
    by (simp add: validate_compatibility_manifest_def manifest_example_def py_get_def expected_records_equal
        requirements_ok profile_accepted COMPATIBILITY_SCHEMA_VERSION_def is_list_def items_of_def dict_of_def
        del: py_eq.simps(2-8))
  then show ?thesis by (simp add: load_compatibility_manifest_def)
qed

definition config_json :: pyval where
  "config_json = PDict
     [(''schema_version'', PInt 1), (''compatibility_profile'', PStr ''p1''), (''device_id'', PInt 0),
      (''cann_set_env'', PStr ''/env''), (''custom_opp_vendors'', PList [PStr ''/v'']),
      (''runtime'', PDict
         [(''scratch_root'', PStr ''/dev/shm/cr''), (''minimum_scratch_free_bytes'', PInt 10), (''max_steps'', PInt 4),
          (''logical_capacity'', PInt 16), (''startup_timeout_seconds'', PInt 5),
          (''persistent_output_limit_bytes'', PInt 1)]),
      (''assets'', PDict
         [(''server'', PStr ''/a/server''), (''air'', PStr ''/a/air''), (''graph_config'', PStr ''/a/graph''),
          (''function_config'', PStr ''/a/func''), (''tiling'', PStr ''/a/tiling''), (''external_weights'', PStr ''/w''),
          (''external_weights_manifest'', PStr ''/a/manifest''), (''resource_config'', PStr ''/a/resource''),
          (''model_config'', PStr ''/a/model''), (''model_index'', PStr ''/a/index'')]),
      (''integrity'', PDict
         [(''air_sha256'', sha_value_example), (''graph_config_sha256'', sha_value_example),
          (''tiling_sha256'', sha_value_example), (''external_weights_manifest_sha256'', sha_value_example),
          (''external_weight_files'', PInt 1), (''external_weight_bytes'', PInt 1),
          (''model_config_sha256'', sha_value_example), (''model_index_sha256'', sha_value_example)])]"

definition function_json :: pyval where
  "function_json = PDict
     [(''func_list'', PList [PDict [(''func_name'', PStr ''g4c_b4_resident_epoch'')]]), (''input_num'', PInt 8),
      (''output_num'', PInt 2), (''workspace'', PStr ''/ws'')]"

definition fs_example :: filesystem where
  "fs_example =
     \<lparr>fy_posix = True, fy_expanduser = Inr, fy_resolve = (\<lambda>p. if p = '''' then ''/'' else p), fy_is_file = (\<lambda>p. True), fy_is_dir = (\<lambda>p. True),
      fy_mode = (\<lambda>p. 73), fy_bytes = (\<lambda>p. [0]),
      fy_json = (\<lambda>p. if p = ''/c.json'' then Inr config_json else Inr function_json),
      fy_children = (\<lambda>p. [''x'']), fy_mkdir = (\<lambda>p. Inr ()), fy_digest = (\<lambda>bs. sha_example),
      fy_repr = (\<lambda>v. ''value'')\<rparr>"

definition config_example :: cruise_config where
  "config_example =
     \<lparr>cc_source = ''/c.json'', cc_compatibility_profile = ''p1'', cc_device_id = 0, cc_cann_set_env = ''/env'',
      cc_custom_opp_vendors = [''/v''],
      cc_runtime = \<lparr>rs_scratch_root = ''/dev/shm/cr'', rs_minimum_scratch_free_bytes = 10, rs_max_steps = 4,
        rs_logical_capacity = 16, rs_startup_timeout_seconds = 5, rs_persistent_output_limit_bytes = 1\<rparr>,
      cc_assets = \<lparr>ra_server = ''/a/server'', ra_air = ''/a/air'', ra_graph_config = ''/a/graph'',
        ra_function_config = ''/a/func'', ra_tiling = ''/a/tiling'', ra_external_weights = ''/w'',
        ra_external_weights_manifest = ''/a/manifest'', ra_resource_config = ''/a/resource'',
        ra_model_config = ''/a/model'', ra_model_index = ''/a/index''\<rparr>,
      cc_integrity = \<lparr>ai_air_sha256 = sha_example, ai_graph_config_sha256 = sha_example,
        ai_tiling_sha256 = sha_example, ai_external_weights_manifest_sha256 = sha_example,
        ai_external_weight_files = 1, ai_external_weight_bytes = 1, ai_model_config_sha256 = sha_example,
        ai_model_index_sha256 = sha_example\<rparr>\<rparr>"

lemma settings_loaded:
  "load_settings fs_example ''/'' (py_get (dict_of config_json) ''runtime'') = Inr (cc_runtime config_example)"
  by code_simp

lemma integrity_loaded: "load_integrity (py_get (dict_of config_json) ''integrity'') = Inr (cc_integrity config_example)"
  by code_simp

lemma assets_loaded:
  "load_assets fs_example ''/'' (py_get (dict_of config_json) ''assets'') = Inr (cc_assets config_example)"
  by code_simp

lemma identity_accepted:
  "validate_profile_identity fs_example (dict_of profile_example) (cc_integrity config_example) = Inr ()"
  by code_simp

lemma example_files:
  "sha256_file fs_example p = sha_example" "file_size fs_example p = 1" "weight_names fs_example config_example = [''x'']"
  by (simp_all add: sha256_file_def file_size_def weight_names_def fs_example_def Let_def)

lemma example_digests: "map snd (expected_digests config_example) = replicate 6 sha_example"
  by code_simp

lemma hashes_validated: "validate_hashes fs_example config_example = Inr ()"
proof -
  have digest: "digest = sha_example" if "(path, digest) \<in> set (expected_digests config_example)" for path digest
    using that example_digests by (metis in_set_replicate list.set_map image_eqI snd_conv)
  then show ?thesis by (auto simp: validate_hashes_def for_each_ok Let_def example_files dest: digest)
qed

lemma weights_validated: "validate_external_weights fs_example False config_example = Inr ()"
  by (simp add: validate_external_weights_def example_files Let_def) (simp add: config_example_def)

lemma function_validated: "validate_function_config fs_example config_example = Inr ()"
  by code_simp

lemma vendors_validated: "validate_opp_vendors fs_example config_example = Inr ()"
  by (simp add: validate_opp_vendors_def for_each_ok Let_def fs_example_def config_example_def)

lemma device_paths_validated: "validate_device_paths fs_example config_example = Inr ()"
  by code_simp

lemma files_validated: "for_each (check_required_file fs_example config_example) (required_files config_example) = Inr ()"
  by (auto simp: for_each_ok check_required_file_def fs_example_def)

lemma config_validated: "validate_paths fs_example False config_example = Inr ()"
  by (simp add: validate_paths_def files_validated device_paths_validated vendors_validated function_validated
      hashes_validated weights_validated Let_def) (simp add: fs_example_def)

lemma vendors_loaded:
  "load_vendors fs_example ''/'' (py_get (dict_of config_json) ''custom_opp_vendors'') = Inr [''/v'']"
  by code_simp

lemma root_loaded: "load_root config_json = Inr (dict_of config_json)"
  by code_simp

lemma example_values:
  "is_str (py_get (dict_of config_json) ''compatibility_profile'')"
  "str_of (py_get (dict_of config_json) ''compatibility_profile'') = ''p1''"
  "is_int (py_get (dict_of config_json) ''device_id'')" "\<not> is_bool (py_get (dict_of config_json) ''device_id'')"
  "int_of (py_get (dict_of config_json) ''device_id'') = 0" "parent_of ''/c.json'' = ''/''"
  "path_of fs_example ''/'' (py_get (dict_of config_json) ''cann_set_env'') ''cann_set_env'' = Inr ''/env''"
  by code_simp+

lemma example_source:
  "fy_expanduser fs_example p = Inr p" "p \<noteq> '''' \<Longrightarrow> fy_resolve fs_example p = p" "fy_json fs_example ''/c.json'' = Inr config_json"
  by (simp_all add: fs_example_def)

lemma profile_selected: "get_compatibility_profile (Inr (PDict manifest_example)) (Some ''p1'') = Inr profile_example"
proof -
  have "profile_id_of profile_example = ''p1''" by code_simp
  then show ?thesis
    by (simp add: get_compatibility_profile_def manifest_accepted Let_def)
       (simp add: manifest_example_def py_get_def items_of_def)
qed

lemma config_loaded: "load_runtime_config fs_example (Inr (PDict manifest_example)) ''/c.json'' = Inr config_example"
  by (simp add: load_runtime_config_def example_source Let_def root_loaded example_values profile_selected
      settings_loaded assets_loaded integrity_loaded identity_accepted vendors_loaded)
     (simp add: config_example_def)

section \<open>The host\<close>

definition npu_output_example :: string where
  "npu_output_example = ''npu-smi 1 Version: 1'' @ [CHR 0x0A] @ ''|0 B2 | OK''"

definition machine_example :: machine where
  "machine_example =
     \<lparr>mc_resource = Inr (PDict manifest_example), mc_fs = fs_example, mc_os_name = ''posix'', mc_version_info = [3, 11, 0],
      mc_python_version = ''3.11'', mc_architecture = ''aarch64'', mc_environ = [(''ASCEND_HOME_PATH'', ''/cann'')],
      mc_import = (\<lambda>name. Inr ()),
      mc_version_attr = (\<lambda>name. if name = ''torch'' then PStr ''2.9.0'' else if name = ''torch_npu'' then PStr ''2.9.0''
         else if name = ''vllm'' then PStr ''0.20'' else PStr ''0.19''),
      mc_file_attr = (\<lambda>name. ''built-in''), mc_getattr = (\<lambda>names. Inr ()), mc_which = (\<lambda>name. Some ''/bin/tool''),
      mc_read = (\<lambda>p. Inr ''Version=8.5''), mc_writable = (\<lambda>p. True), mc_free = (\<lambda>p. Inr 1000),
      mc_run = (\<lambda>command. Inr \<lparr>cp_returncode = 0, cp_stdout = npu_output_example, cp_stderr = ''''\<rparr>),
      mc_exists = (\<lambda>p. True)\<rparr>"

definition scratch_example :: scratch_host where
  "scratch_example =
     \<lparr>sc_fs = fs_example, sc_mkdir = (\<lambda>p. Inr ()), sc_write = (\<lambda>p. None), sc_rmtree = (\<lambda>p. None),
      sc_remove = (\<lambda>p. Inr ()), sc_free = (\<lambda>p. Inr 1000), sc_names = [''a'']\<rparr>"

text \<open>A command that ends with 7 after a \<open>SIGTERM\<close> was sent on to it.\<close>

definition child_example :: child where
  "child_example arguments environment d =
     Inr \<lparr>cr_signals = [(SIGTERM, True)], cr_wait = Inr 7, cr_running = False, cr_survives_term = False,
       cr_survives_kill = False, cr_disk = d\<rparr>"

definition disk_example :: disk where
  "disk_example = [([], Folder), ([''dev''], Folder), ([''dev'', ''shm''], Folder)]"

definition session_example :: session where
  "session_example = \<lparr>sn_disk = disk_example, sn_handlers = (\<lambda>s. ''default''), sn_sent = []\<rparr>"

end
