(* ===== verification/DoctorExample.thy ===== *)
theory DoctorExample
  imports RuntimeExample
begin

text \<open>
  The doctor on the example host: each check returns, and each of the facts holds.
\<close>

lemma example_items:
  "py_item (py_get (dict_of profile_example) ''software'') ''python'' = Inr (PStr ''3.11'')"
  "py_item (py_get (dict_of profile_example) ''software'') ''torch'' = Inr (PStr ''2.9.0'')"
  "py_item (py_get (dict_of profile_example) ''software'') ''torch_npu'' = Inr (PStr ''2.9.0'')"
  "rbind (py_item (py_get (dict_of profile_example) ''software'') ''vllm'') (\<lambda>v. py_item v ''version'') = Inr (PStr ''0.20'')"
  "rbind (py_item (py_get (dict_of profile_example) ''software'') ''vllm_ascend'') (\<lambda>v. py_item v ''version'') = Inr (PStr ''0.19'')"
  "py_item (py_get (dict_of profile_example) ''software'') ''cann'' = Inr (PStr ''8.5'')"
  "py_item (py_get (dict_of profile_example) ''hardware'') ''npu_smi_version'' = Inr (PStr ''1'')"
  "py_item profile_example ''status'' = Inr (PStr ''candidate-r1'')"
  by code_simp+

lemma example_modules:
  "module_version machine_example ''torch'' = Inr ''2.9.0''" "module_version machine_example ''torch_npu'' = Inr ''2.9.0''"
  "module_version machine_example ''vllm'' = Inr ''0.20''" "module_version machine_example ''vllm_ascend'' = Inr ''0.19''"
  by code_simp+

lemma returns_software: "\<exists>r'. check_software machine_example profile_example r = Inr r'"
  by (simp add: check_software_def Let_def example_items check_package_def example_modules is_str_def)

lemma software_example: "software_ready machine_example profile_example" by code_simp
lemma cann_root_example: "find_cann_root machine_example (PStr ''8.5'') = Inr (Some ''/cann'')" by code_simp
lemma cann_example: "cann_ready machine_example profile_example (Some ''/cann'')" by code_simp

lemma returns_cann: "\<exists>r'. check_cann machine_example profile_example r = Inr (Some ''/cann'', r')"
  by (simp add: check_cann_def Let_def example_items cann_root_example)
     (simp add: machine_example_def)

lemma capabilities_example: "capabilities_ready machine_example requirements_example (Some ''/cann'')"
proof -
  have "list_all (\<lambda>v. mc_import machine_example (str_of v) = Inr ()) (items_of (py_get requirements_example ''required_python_modules''))"
    "list_all (symbol_ready machine_example) (items_of (py_get requirements_example ''required_python_symbols''))"
    "list_all (\<lambda>c. find_cann_component machine_example ''/cann'' c = Some ''/bin/tool'')
       (items_of (py_get requirements_example ''required_cann_files''))"
    by code_simp+
  then show ?thesis by (auto simp: capabilities_ready_def cann_file_ready_def list_all_iff)
qed

lemma npu_example: "npu_ready machine_example profile_example requirements_example 0" by code_simp
lemma architecture_example: "architecture_ready machine_example profile_example requirements_example" by code_simp

lemma returns_npu: "\<exists>r'. check_npu machine_example profile_example requirements_example 0 r = Inr r'"
proof -
  have "mc_which machine_example ''npu-smi'' = Some ''/bin/tool''"
    "\<And>c. mc_run machine_example c = Inr \<lparr>cp_returncode = 0, cp_stdout = npu_output_example, cp_stderr = ''''\<rparr>"
    by (simp_all add: machine_example_def)
  then show ?thesis
    by (simp add: check_npu_def check_npu_output_def example_items Let_def split: option.split)
qed

lemma shared_memory_returns: "\<exists>r'. check_shared_memory machine_example requirements_example r = Inr r'"
  by (simp add: check_shared_memory_def machine_example_def Let_def)

lemma shared_memory_example: "shared_memory_ready machine_example requirements_example"
  by (simp add: shared_memory_ready_def machine_example_def fs_example_def requirements_example_def py_get_def int_of_def)

lemma status_returns: "\<exists>r'. check_status machine_example profile_example r = Inr r'"
  by (simp add: check_status_def example_items is_str_def Let_def)

lemma requirements_selected: "get_capability_requirements (Inr (PDict manifest_example)) = Inr requirements_example"
  by (simp add: get_capability_requirements_def manifest_accepted) (simp add: manifest_example_def py_get_def dict_of_def)

lemma returns_then: "\<exists>x. r = Inr x \<Longrightarrow> (\<And>x. \<exists>y. k x = Inr y) \<Longrightarrow> \<exists>y. rbind r k = Inr y"
  by auto

lemma returns_pair: "\<exists>x. r = Inr (a, x) \<Longrightarrow> (\<And>x. \<exists>y. k (a, x) = Inr y) \<Longrightarrow> \<exists>y. rbind r k = Inr y"
  by auto

lemma example_npu_doctor: "\<exists>r. run_npu_doctor machine_example (Some ''p1'') 0 = Inr r \<and> report_passed r"
proof -
  have resource: "mc_resource machine_example = Inr (PDict manifest_example)" by (simp add: machine_example_def)
  have "\<exists>r. run_npu_doctor machine_example (Some ''p1'') 0 = Inr r"
    unfolding run_npu_doctor_def resource profile_selected sum.case Let_def requirements_selected rbind_simps
    by (rule returns_then [OF returns_software], rule returns_pair [OF returns_cann], unfold prod.case)
       (intro returns_then [OF returns_npu] returns_then [OF shared_memory_returns] status_returns)
  moreover have "host_ready machine_example profile_example requirements_example 0"
    using architecture_example software_example cann_example capabilities_example npu_example shared_memory_example
      cann_root_example py_item_get [OF example_items(6)]
    by (auto simp: host_ready_def software_of_def)
  ultimately show ?thesis
    using npu_doctor_exact by (fastforce simp: resource profile_selected requirements_selected)
qed
end
