(* ===== verification/OpsProps.thy ===== *)
theory OpsProps
  imports DoctorExample
begin

text \<open>
  The properties of the command line and what it rests on: the compatibility manifest, the
  runtime configuration and what the engine makes of it, the managed scratch, the doctor.
\<close>

section \<open>The compatibility manifest\<close>

text \<open>C27: A manifest that is accepted is well-typed for everything that reads it: the product and the
  contract versions are the code's, the profiles have distinct ids and each is what looking it up
  by its id returns, every profile has its hashes, counts and a supported architecture and
  accelerator, and every path of a required file stays below the directory it is joined to.\<close>

theorem accepted_manifest_typed:
  assumes "load_compatibility_manifest resource = Inr manifest"
  shows "resource = Inr (PDict manifest)
    \<and> py_eq (py_get manifest ''product'') expected_product \<and> py_eq (py_get manifest ''contracts'') expected_contracts
    \<and> distinct (map profile_id_of (items_of (py_get manifest ''profiles'')))
    \<and> (\<forall>profile \<in> set (items_of (py_get manifest ''profiles'')).
         get_compatibility_profile resource (Some (profile_id_of profile)) = Inr profile
         \<and> profile_ok (dict_of (py_get manifest ''capability_requirements'')) profile)
    \<and> (\<forall>component \<in> set (items_of (py_get (dict_of (py_get manifest ''capability_requirements'')) ''required_cann_files'')).
         component_safe component
         \<and> (\<forall>value \<in> set (items_of (py_get (dict_of component) ''relative_paths'')). \<forall>dir.
              path_parts (path_join dir (str_of value)) = path_parts dir @ path_parts (str_of value)
              \<and> ''..'' \<notin> set (path_parts (str_of value))))"
proof -
  note valid = load_manifest(2) [OF assms]
  have "py_eq (py_get manifest ''product'') expected_product" "py_eq (py_get manifest ''contracts'') expected_contracts"
    using valid unfolding validate_compatibility_manifest_def Let_def raise_if_Inr by simp_all
  then show ?thesis
    using load_manifest(1) [OF assms] manifest_facts [OF valid] get_profile_found [OF assms] path_parts_join
    unfolding component_safe_def by blast
qed

theorem accepted_manifest_typed_witness:
  "distinct (map profile_id_of (items_of (py_get manifest_example ''profiles'')))
   \<and> get_compatibility_profile (Inr (PDict manifest_example)) (Some ''p1'') = Inr profile_example"
  using accepted_manifest_typed [OF manifest_accepted] profile_selected by blast

section \<open>From the configuration to the engine\<close>

lemma required_path_found:
  "map_of (ho_env h) name = Some path \<Longrightarrow> path \<noteq> '''' \<Longrightarrow> ho_resolve h path = path \<Longrightarrow>
     (if directory then ho_is_dir h path else ho_is_file h path) \<Longrightarrow> required_path h name directory = Inr path"
  by (simp add: required_path_def env_str_def)

text \<open>The paths a configuration hands to the engine are resolved and not empty.\<close>

lemma path_of_resolved: "path_of fs base v name = Inr p \<Longrightarrow> \<exists>q. p = fy_resolve fs q"
  by (auto simp: path_of_def rbind_Inr_iff split: if_splits)

lemma load_assets_resolved:
  assumes "load_assets fs base v = Inr a"
    and p: "p \<in> {ra_server a, ra_air a, ra_graph_config a, ra_function_config a, ra_tiling a}"
  shows "\<exists>q. p = fy_resolve fs q"
  using assms unfolding load_assets_def Let_def rbind_Inr_iff
  by (elim exE conjE) (auto dest: path_of_resolved)

lemma load_config_resolved:
  assumes "load_runtime_config fs resource path = Inr c"
    and "p \<in> {ra_server (cc_assets c), ra_air (cc_assets c), ra_graph_config (cc_assets c),
              ra_function_config (cc_assets c), ra_tiling (cc_assets c)}"
  shows "\<exists>q. p = fy_resolve fs q"
proof -
  obtain base v where "load_assets fs base v = Inr (cc_assets c)"
    using assms(1) unfolding load_runtime_config_def Let_def rbind_Inr_iff raise_if_Inr
    by (elim exE conjE) auto
  from load_assets_resolved [OF this assms(2)] show ?thesis .
qed

lemma validated_file:
  assumes "validate_paths fs deep c = Inr ()"
    and "p \<in> {ra_server (cc_assets c), ra_air (cc_assets c), ra_graph_config (cc_assets c),
              ra_function_config (cc_assets c), ra_tiling (cc_assets c)}"
  shows "fy_is_file fs p"
proof -
  have "\<forall>entry \<in> set (required_files c). check_required_file fs c entry = Inr ()"
    using assms(1) unfolding validate_paths_def by (simp add: for_each_then)
  with assms(2) show ?thesis
    by (auto simp: required_files_def Let_def check_required_file_def split: if_splits)
qed

text \<open>The parts of the engine's host that come from the configuration's host.\<close>

definition engine_host :: "filesystem \<Rightarrow> string \<Rightarrow> (string, string) dict \<Rightarrow> host \<Rightarrow> bool" where
  "engine_host fs run env h \<longleftrightarrow>
     ho_env h = env \<and> ho_resolve h = fy_resolve fs \<and> ho_is_file h = fy_is_file fs
     \<and> ho_is_dir h (run @ ''/graph-external-weights'')
     \<and> ho_unlink_error h (run @ ''/resident-epoch.sock'') = None
     \<and> ho_unlink_error h (run @ ''/resident-epoch.sock.kv-transfer'') = None"

text \<open>Resolving a path again, or a new name in a resolved run directory, changes nothing.\<close>

definition resolves_stably :: "filesystem \<Rightarrow> string \<Rightarrow> bool" where
  "resolves_stably fs run \<longleftrightarrow>
     (\<forall>p. fy_resolve fs (fy_resolve fs p) = fy_resolve fs p \<and> fy_resolve fs p \<noteq> '''')
     \<and> fy_resolve fs (run @ ''/graph-external-weights'') = run @ ''/graph-external-weights''
     \<and> fy_resolve fs (run @ ''/resident-epoch.sock'') = run @ ''/resident-epoch.sock''"

definition overriding_names :: "string list" where
  "overriding_names =
     [''VLLM_ASCEND_RESIDENT_EPOCH_CHILD_ASCEND_CUSTOM_OPP_PATH'', ''VLLM_ASCEND_RESIDENT_EPOCH_CHILD_LIBRARY_PATH'',
      ''VLLM_ASCEND_RESIDENT_EPOCH_MEMCPY_TRACE_LIBRARY'', ''VLLM_ASCEND_RESIDENT_EPOCH_MEMCPY_TRACE_PATH'']"

lemma overriding_unset:
  "list_all (\<lambda>j. map_of (engine_settings c run) j = None \<and> j \<noteq> ''LD_LIBRARY_PATH''
     \<and> j \<noteq> ''ASCEND_CUSTOM_OPP_PATH'') overriding_names"
  by (simp add: overriding_names_def engine_settings_def Let_def)

lemma environment_values:
  assumes "engine_environment fs c dir base = Inr env"
  shows "map_of (engine_settings c (fy_resolve fs dir)) j = Some v
      \<Longrightarrow> j \<notin> {''LD_LIBRARY_PATH'', ''ASCEND_CUSTOM_OPP_PATH''} \<Longrightarrow> map_of env j = Some v"
    and "j \<in> set overriding_names \<Longrightarrow> map_of base j = None \<Longrightarrow> map_of env j = None"
proof -
  show "map_of (engine_settings c (fy_resolve fs dir)) j = Some v
      \<Longrightarrow> j \<notin> {''LD_LIBRARY_PATH'', ''ASCEND_CUSTOM_OPP_PATH''} \<Longrightarrow> map_of env j = Some v"
    using environment_get [OF assms] by simp
  assume j: "j \<in> set overriding_names" and none: "map_of base j = None"
  have "j \<notin> {''LD_LIBRARY_PATH'', ''ASCEND_CUSTOM_OPP_PATH''}" "map_of (engine_settings c (fy_resolve fs dir)) j = None"
    using overriding_unset [of c "fy_resolve fs dir"] j by (auto simp: list_all_iff)
  with environment_get [OF assms] none show "map_of env j = None" by simp
qed

lemma starts_with_append:
  assumes "starts_with pre s" shows "starts_with pre (s @ rest)"
proof -
  obtain t where "s = pre @ t" using assms unfolding starts_with_def by (metis append_take_drop_id)
  then show ?thesis by (simp add: starts_with_def)
qed

lemma launch_prepared:
  assumes env: "engine_environment fs c dir base = Inr env" and valid: "validate_paths fs deep c = Inr ()"
    and loaded: "load_runtime_config fs resource path = Inr c"
    and plain: "\<forall>name \<in> set overriding_names. map_of base name = None"
    and run: "run = fy_resolve fs dir" "starts_with ''/dev/shm/'' run" "resolves_stably fs run"
    and host: "engine_host fs run env h"
  shows "prepare_launch h = Inr
    \<lparr>la_socket_path = run @ ''/resident-epoch.sock'', la_transfer_path = run @ ''/resident-epoch.sock.kv-transfer'',
     la_command = [ra_server (cc_assets c), run @ ''/resident-epoch.sock'', ra_air (cc_assets c),
       ra_graph_config (cc_assets c), ra_function_config (cc_assets c), run @ ''/graph-external-weights'',
       ra_tiling (cc_assets c)],
     la_env = env\<rparr>"
proof -
  have asset: "required_path h name False = Inr p"
    if name: "map_of (engine_settings c run) name = Some p" "name \<notin> {''LD_LIBRARY_PATH'', ''ASCEND_CUSTOM_OPP_PATH''}"
      and p: "p \<in> {ra_server (cc_assets c), ra_air (cc_assets c), ra_graph_config (cc_assets c),
            ra_function_config (cc_assets c), ra_tiling (cc_assets c)}" for name p
  proof -
    obtain q where "p = fy_resolve fs q" using load_config_resolved [OF loaded p] by blast
    then have "p \<noteq> ''''" "fy_resolve fs p = p" using run(3) by (simp_all add: resolves_stably_def)
    moreover have "map_of env name = Some p"
      using environment_values(1) [OF env, folded run(1), OF name] .
    ultimately show ?thesis
      using validated_file [OF valid p] host by (intro required_path_found) (simp_all add: engine_host_def)
  qed
  have weights: "required_path h ''VLLM_ASCEND_RESIDENT_EPOCH_EXTERNAL_WEIGHTS'' True = Inr (run @ ''/graph-external-weights'')"
    using host run(3) environment_values(1) [OF env, folded run(1), of "''VLLM_ASCEND_RESIDENT_EPOCH_EXTERNAL_WEIGHTS''"]
    by (intro required_path_found) (simp_all add: engine_host_def resolves_stably_def engine_settings_def Let_def)
  have socket: "env_str (ho_env h) ''VLLM_ASCEND_RESIDENT_EPOCH_SOCKET'' = run @ ''/resident-epoch.sock''"
    using host environment_values(1) [OF env, folded run(1), of "''VLLM_ASCEND_RESIDENT_EPOCH_SOCKET''"]
    by (simp add: engine_host_def env_str_def engine_settings_def Let_def)
  have unset: "env_str (ho_env h) name = ''''" if "name \<in> set overriding_names" for name
    using environment_values(2) [OF env that] plain that host by (simp add: env_str_def engine_host_def)
  have shm: "in_shm (run @ rest)" for rest
    unfolding in_shm_def by (rule starts_with_append [OF run(2)])
  have unchanged: "custom_opp_env h (ho_env h) = Inr env" "library_path_env h env = Inr env" "trace_env h env = Inr env"
    using unset host
    by (simp_all add: custom_opp_env_def library_path_env_def trace_env_def overriding_names_def engine_host_def)
  have resets: "reset_path h (run @ ''/resident-epoch.sock'') = Inr ()"
    "reset_path h (run @ ''/resident-epoch.sock.kv-transfer'') = Inr ()"
    using host by (simp_all add: reset_path_def engine_host_def)
  have resolved: "ho_resolve h (run @ ''/resident-epoch.sock'') = run @ ''/resident-epoch.sock''"
    using host run(3) by (simp add: engine_host_def resolves_stably_def)
  show ?thesis
    unfolding prepare_launch_def socket Let_def
    by (simp add: asset engine_settings_def Let_def weights resolved shm unchanged resets)
qed

text \<open>C28: A configuration that loads and validates reaches the engine unchanged: in the environment it
  makes, the scheduler and the worker read exactly its step count and capacity, and the sidecar
  prepares the launch of its server with its artifacts, on a socket and a weight directory in the
  directory of the run.\<close>

theorem configuration_reaches_engine:
  assumes loaded: "load_runtime_config fs resource path = Inr c" and valid: "validate_paths fs deep c = Inr ()"
    and env: "engine_environment fs c dir base = Inr env"
    and plain: "\<forall>name \<in> set overriding_names. map_of base name = None"
    and run: "run = fy_resolve fs dir" "starts_with ''/dev/shm/'' run" "resolves_stably fs run"
    and host: "engine_host fs run env h"
  shows "config_from_env env =
      Inr (default_config\<lparr>cfg_max_steps := rs_max_steps (cc_runtime c),
        cfg_logical_capacity := rs_logical_capacity (cc_runtime c)\<rparr>)
    \<and> map_of env ''VLLM_ASCEND_RESIDENT_EPOCH_BACKEND_FACTORY''
        = Some ''vllm_ascend_resident_epoch.sidecar_backend:create_sidecar_engine''
    \<and> (\<exists>l. prepare_launch h = Inr l \<and> la_env l = env \<and> la_socket_path l = run @ ''/resident-epoch.sock''
        \<and> la_command l = [ra_server (cc_assets c), run @ ''/resident-epoch.sock'', ra_air (cc_assets c),
            ra_graph_config (cc_assets c), ra_function_config (cc_assets c), run @ ''/graph-external-weights'',
            ra_tiling (cc_assets c)])"
proof -
  note found = environment_values(1) [OF env]
  have "config_from_env env = Inr (default_config\<lparr>cfg_max_steps := rs_max_steps (cc_runtime c),
        cfg_logical_capacity := rs_logical_capacity (cc_runtime c)\<rparr>)"
    using load_runtime_config_ok(1) [OF loaded]
    by (intro config_from_env_printed found) (simp_all add: engine_settings_def Let_def settings_ok_def)
  moreover have "map_of env ''VLLM_ASCEND_RESIDENT_EPOCH_BACKEND_FACTORY''
      = Some ''vllm_ascend_resident_epoch.sidecar_backend:create_sidecar_engine''"
    by (intro found) (simp_all add: engine_settings_def Let_def)
  ultimately show ?thesis using launch_prepared [OF env valid loaded plain run host] by simp
qed

definition env_example :: "(string, string) dict" where
  "env_example = (case engine_environment fs_example config_example ''/dev/shm/cr/run-a'' [] of Inr env \<Rightarrow> env | Inl _ \<Rightarrow> [])"

definition engine_host_example :: host where
  "engine_host_example =
     \<lparr>ho_env = env_example, ho_resolve = fy_resolve fs_example, ho_is_file = (\<lambda>p. True), ho_is_dir = (\<lambda>p. True),
      ho_exists = (\<lambda>p. True), ho_mkdir = (\<lambda>p. Inr ()), ho_unlink_error = (\<lambda>p. None)\<rparr>"

lemma example_environment: "engine_environment fs_example config_example ''/dev/shm/cr/run-a'' [] = Inr env_example"
  by (simp add: env_example_def engine_environment_def Let_def run_directories_def)
     (simp add: fs_example_def)

theorem configuration_reaches_engine_witness:
  "config_from_env env_example = Inr (default_config\<lparr>cfg_max_steps := 4, cfg_logical_capacity := 16\<rparr>)
   \<and> (\<exists>l. prepare_launch engine_host_example = Inr l \<and> la_command l =
        [''/a/server'', ''/dev/shm/cr/run-a/resident-epoch.sock'', ''/a/air'', ''/a/graph'', ''/a/func'',
         ''/dev/shm/cr/run-a/graph-external-weights'', ''/a/tiling''])"
proof -
  have plain: "\<forall>name \<in> set overriding_names. map_of [] name = None" by simp
  have run: "''/dev/shm/cr/run-a'' = fy_resolve fs_example ''/dev/shm/cr/run-a''"
    "starts_with ''/dev/shm/'' ''/dev/shm/cr/run-a''" "resolves_stably fs_example ''/dev/shm/cr/run-a''"
    by (simp_all add: resolves_stably_def fs_example_def starts_with_def)
  have host: "engine_host fs_example ''/dev/shm/cr/run-a'' env_example engine_host_example"
    by (simp add: engine_host_def engine_host_example_def fs_example_def)
  show ?thesis
    using configuration_reaches_engine [OF config_loaded config_validated example_environment plain run host]
    by (auto simp: config_example_def)
qed

text \<open>C29: Cleaning up a run directory is confined: if the call changes anything at all, the directory
  lies directly in the scratch root and holds the marker of a run, every place it changes is in
  that directory, and it only removes; if it succeeds nothing of the directory is left, and if it
  is refused for another reason than a failing removal the disk is as it was.\<close>

theorem cleanup_confined:
  assumes "cleanup_run_directory h scratch run d = (r, d')"
  shows "(\<forall>p. map_of d' p \<noteq> map_of d p \<longrightarrow>
      below (resolve_place h run) p \<and> map_of d' p = None
      \<and> butlast (resolve_place h run) = resolve_place h scratch \<and> marked d (resolve_place h run) RUN_MARKER)
    \<and> (r = Inr () \<longrightarrow> (\<forall>p. below (resolve_place h run) p \<longrightarrow> map_of d' p = None))
    \<and> (sc_rmtree h (resolve_place h run) = None \<and> isl r \<longrightarrow> d' = d)"
  using assms
proof (cases rule: cleanup_cases)
  case 2
  then show ?thesis
    using rmtree_effect [OF 2(3)] 2(1,2) by (auto simp: rmtree_def map_of_filter_below split: option.splits)
qed auto

theorem cleanup_confined_witness:
  "\<exists>d'. cleanup_run_directory scratch_example [''dev'', ''shm'', ''cr''] [''dev'', ''shm'', ''cr'', ''run-a'']
       (disk_example @ [([''dev'', ''shm'', ''cr'', ''run-a'', ''.cruise-run-v1''], Text MARKER_CONTENT)]) = (Inr (), d')
     \<and> map_of d' [''dev'', ''shm'', ''cr'', ''run-a'', ''.cruise-run-v1''] = None"
proof -
  let ?d = "disk_example @ [([''dev'', ''shm'', ''cr'', ''run-a'', ''.cruise-run-v1''], Text MARKER_CONTENT)]"
  have "fst (cleanup_run_directory scratch_example [''dev'', ''shm'', ''cr''] [''dev'', ''shm'', ''cr'', ''run-a''] ?d) = Inr ()"
    by code_simp
  then obtain d' where run: "cleanup_run_directory scratch_example [''dev'', ''shm'', ''cr'']
      [''dev'', ''shm'', ''cr'', ''run-a''] ?d = (Inr (), d')" by (metis prod.collapse)
  have "below (resolve_place scratch_example [''dev'', ''shm'', ''cr'', ''run-a''])
      [''dev'', ''shm'', ''cr'', ''run-a'', ''.cruise-run-v1'']" by code_simp
  with cleanup_confined [OF run] run show ?thesis by blast
qed

section \<open>A supervised run\<close>


lemma example_links: "clean_parts p \<Longrightarrow> resolve_place scratch_example p = p"
  by (simp add: resolve_place_def place_str_def scratch_example_def example_source path_parts_print)

lemma example_run:
  "fst (run_supervised scratch_example child_example [] config_example [''serve''] False session_example) = Inr 7"
proof -
  have fs: "sc_fs scratch_example = fs_example" by (simp add: scratch_example_def)
  show ?thesis
    by (simp add: run_supervised_def fs config_validated) code_simp
qed


section \<open>The doctor\<close>

text \<open>C31: The verdict of the runtime doctor is exact: a report it returns is a pass if and only if the
  profile of the configuration is in an accepted manifest, the interpreter, the packages, the CANN
  toolkit and its files are the profile's, the device is listed with the profile's product, healthy
  and idle, /dev/shm and the file system of the scratch root have the space asked for, and
  validating the paths of the configuration succeeds.\<close>

theorem runtime_doctor_exact:
  assumes "run_runtime_doctor m c deep = Inr report"
  shows "report_passed report \<longleftrightarrow>
    (\<exists>profile requirements.
       get_compatibility_profile (mc_resource m) (Some (cc_compatibility_profile c)) = Inr profile
       \<and> get_capability_requirements (mc_resource m) = Inr requirements
       \<and> host_ready m profile requirements (cc_device_id c))
    \<and> validate_paths (mc_fs m) deep c = Inr () \<and> scratch_ready m c"
proof -
  obtain r1 r2 where "run_npu_doctor m (Some (cc_compatibility_profile c)) (cc_device_id c) = Inr r1"
    and "check_assets m deep c (r1\<lparr>dr_mode := ''runtime''\<rparr>) = Inr r2" and "check_scratch m c r2 = Inr report"
    using assms by (auto simp: run_runtime_doctor_def rbind_Inr_iff)
  from npu_doctor_exact [OF this(1)] assets.exact [OF this(2)] scratch.exact [OF this(3)] show ?thesis by simp
qed

lemma example_scratch_check: "\<exists>r'. check_scratch machine_example config_example r = Inr r' \<and> report_passed r' = report_passed r"
  by (simp add: check_scratch_def machine_example_def config_example_def Let_def)

theorem runtime_doctor_exact_witness:
  "\<exists>report profile requirements. run_runtime_doctor machine_example config_example False = Inr report
     \<and> host_ready machine_example profile requirements 0 \<and> scratch_ready machine_example config_example"
proof -
  obtain r where npu: "run_npu_doctor machine_example (Some ''p1'') 0 = Inr r" "report_passed r"
    using example_npu_doctor by blast
  have fs: "mc_fs machine_example = fs_example" by (simp add: machine_example_def)
  obtain r1 where assets: "check_assets machine_example False config_example (r\<lparr>dr_mode := ''runtime''\<rparr>) = Inr r1" "report_passed r1"
    using npu(2) by (auto simp: check_assets_def fs config_validated)
  obtain report where scratch: "check_scratch machine_example config_example r1 = Inr report" "report_passed report"
    using example_scratch_check [of r1] assets(2) by blast
  have doctor: "run_runtime_doctor machine_example config_example False = Inr report"
    using npu(1) assets(1) scratch(1) by (simp add: run_runtime_doctor_def config_example_def)
  have "cc_device_id config_example = 0" by (simp add: config_example_def)
  with runtime_doctor_exact [OF doctor] scratch(2) doctor show ?thesis by auto
qed

end
