(* ===== verification/BoundedLog.thy ===== *)
theory BoundedLog
  imports PyVal Wire
begin

text \<open>
  \<open>storage_guard/bounded_log.py\<close>: a byte stream of any length is kept as its first bytes, a
  marker with the number of bytes left out and the digest of the whole stream, and its last
  bytes. The digest is a parameter, and so is how the stream is cut into reads.
\<close>

section \<open>Arguments\<close>

record log_args =
  la_output :: string
  la_metadata :: string
  la_head_bytes :: int
  la_tail_bytes :: int
  la_chunk_bytes :: int

text \<open>What \<open>parse_args\<close> checks; a message is what \<open>parser.error\<close> ends the program with.\<close>

definition log_args_error :: "log_args \<Rightarrow> string option" where
  "log_args_error a =
     (if min (min (la_head_bytes a) (la_tail_bytes a)) (la_chunk_bytes a) < 0 then
        Some ''byte limits must be non-negative''
      else if la_chunk_bytes a = 0 then Some ''--chunk-bytes must be positive''
      else None)"

section \<open>The loop\<close>

text \<open>The slices \<open>xs[:i]\<close> and \<open>xs[i:]\<close> of a Python sequence.\<close>

definition slice_to :: "'a list \<Rightarrow> int \<Rightarrow> 'a list" where
  "slice_to xs i = take (nat (if i < 0 then i + int (length xs) else i)) xs"

definition slice_from :: "'a list \<Rightarrow> int \<Rightarrow> 'a list" where
  "slice_from xs i = drop (nat (if i < 0 then i + int (length xs) else i)) xs"

definition update_tail :: "byte list \<Rightarrow> byte list \<Rightarrow> int \<Rightarrow> byte list" where
  "update_tail kept data limit =
     (if limit = 0 then kept
      else if limit \<le> int (length data) then slice_from data (- limit)
      else
        (let excess = int (length kept) + int (length data) - limit in
         (if 0 < excess then slice_from kept excess else kept) @ data))"

text \<open>What the loop keeps: what the digest was fed, the counters, the tail and the file.\<close>

record log_state =
  lg_digested :: "byte list"
  lg_total_bytes :: int
  lg_head_bytes :: int
  lg_tail :: "byte list"
  lg_written :: "byte list"

definition log_start :: log_state where
  "log_start = \<lparr>lg_digested = [], lg_total_bytes = 0, lg_head_bytes = 0, lg_tail = [], lg_written = []\<rparr>"

definition log_chunk :: "log_args \<Rightarrow> byte list \<Rightarrow> log_state \<Rightarrow> log_state" where
  "log_chunk a chunk s =
     (let head_room = la_head_bytes a - lg_head_bytes s;
          start = (if 0 < head_room then slice_to chunk head_room else []);
          rest = (if 0 < head_room then slice_from chunk (int (length start)) else chunk)
      in s\<lparr>lg_digested := lg_digested s @ chunk,
           lg_total_bytes := lg_total_bytes s + int (length chunk),
           lg_head_bytes := lg_head_bytes s + int (length start),
           lg_tail := (if rest \<noteq> [] then update_tail (lg_tail s) rest (la_tail_bytes a) else lg_tail s),
           lg_written := lg_written s @ start\<rparr>)"

text \<open>
  The reads of the standard input: the loop ends at the first empty one. A list that ends
  without one is a stream that ended.
\<close>

fun log_loop :: "log_args \<Rightarrow> byte list list \<Rightarrow> log_state \<Rightarrow> log_state" where
  "log_loop a [] s = s"
| "log_loop a (chunk # chunks) s = (if chunk = [] then s else log_loop a chunks (log_chunk a chunk s))"

section \<open>The file and its metadata\<close>

definition ascii_bytes :: "string \<Rightarrow> byte list" where
  "ascii_bytes s = map (\<lambda>c. word_of_nat (of_char c)) s"

definition log_omitted :: "log_state \<Rightarrow> int" where
  "log_omitted s = lg_total_bytes s - lg_head_bytes s - int (length (lg_tail s))"

definition log_truncated :: "log_state \<Rightarrow> bool" where
  "log_truncated s \<longleftrightarrow> lg_head_bytes s + int (length (lg_tail s)) < lg_total_bytes s"

definition log_marker :: "int \<Rightarrow> string \<Rightarrow> byte list" where
  "log_marker omitted digest = ascii_bytes
     ([CHR 0x0A] @ ''[storage-guard truncated '' @ int_str omitted @ '' bytes; full-stream-sha256='' @ digest
        @ '']'' @ [CHR 0x0A])"

definition log_output :: "(byte list \<Rightarrow> string) \<Rightarrow> log_state \<Rightarrow> byte list" where
  "log_output sha s =
     lg_written s
     @ (if log_truncated s then log_marker (log_omitted s) (sha (lg_digested s)) else [])
     @ lg_tail s"

definition log_metadata :: "(byte list \<Rightarrow> string) \<Rightarrow> log_args \<Rightarrow> log_state \<Rightarrow> (string \<times> pyval) list" where
  "log_metadata sha a s =
     [(''format'', PStr ''bounded-log-v1''),
      (''total_bytes'', PInt (lg_total_bytes s)),
      (''retained_stream_bytes'', PInt (lg_head_bytes s + int (length (lg_tail s)))),
      (''output_file_bytes'', PInt (int (length (log_output sha s)))),
      (''head_limit_bytes'', PInt (la_head_bytes a)),
      (''tail_limit_bytes'', PInt (la_tail_bytes a)),
      (''truncated'', PBool (log_truncated s)),
      (''omitted_bytes'', PInt (log_omitted s)),
      (''full_stream_sha256'', PStr (sha (lg_digested s)))]"

datatype log_file = Log "byte list" | Metadata "(string \<times> pyval) list"

text \<open>
  \<open>main\<close> over the files there are. Both files are opened for exclusive creation, so the
  metadata fails when it is given the path of the log.
\<close>

definition log_main ::
  "(byte list \<Rightarrow> string) \<Rightarrow> log_args \<Rightarrow> byte list list \<Rightarrow> (string, log_file) dict \<Rightarrow> (exn + int) \<times> (string, log_file) dict" where
  "log_main sha a reads files =
     (if map_of files (la_output a) \<noteq> None \<or> map_of files (la_metadata a) \<noteq> None then (Inr 2, files)
      else
        (let s = log_loop a reads log_start;
             files' = AList.update (la_output a) (Log (log_output sha s)) files
         in if map_of files' (la_metadata a) \<noteq> None then (Inl (OSError ''File exists''), files')
            else (Inr 0, AList.update (la_metadata a) (Metadata (log_metadata sha a s)) files')))"

section \<open>What is retained\<close>

text \<open>The stream that the reads deliver, and the whole of it cut at once.\<close>

fun stream_of :: "byte list list \<Rightarrow> byte list" where
  "stream_of [] = []"
| "stream_of (chunk # chunks) = (if chunk = [] then [] else chunk @ stream_of chunks)"

definition last_bytes :: "nat \<Rightarrow> 'a list \<Rightarrow> 'a list" where
  "last_bytes n xs = drop (length xs - n) xs"

lemma length_last_bytes [simp]: "length (last_bytes n xs) = min n (length xs)"
  by (simp add: last_bytes_def)

lemma last_bytes_zero [simp]: "last_bytes 0 xs = []"
  by (simp add: last_bytes_def)

lemma last_bytes_append: "last_bytes n (xs @ ys) = last_bytes (n - length ys) xs @ last_bytes n ys"
  unfolding last_bytes_def by (cases "length ys \<le> n") (simp_all add: diff_diff_right add.commute)

lemma last_bytes_last_bytes: "m \<le> n \<Longrightarrow> last_bytes m (last_bytes n xs) = last_bytes m xs"
proof -
  assume "m \<le> n"
  then have "length xs - n + (length xs - (length xs - n) - m) = length xs - m" by linarith
  then show ?thesis by (simp only: last_bytes_def drop_drop length_drop add.commute)
qed

text \<open>The tail after one more piece is the tail of all of it.\<close>

lemma update_tail_last_bytes:
  assumes "0 \<le> limit" and "kept = last_bytes (nat limit) xs"
  shows "update_tail kept data limit = last_bytes (nat limit) (xs @ data)"
proof -
  define n where "n = nat limit"
  have limit: "limit = int n" using assms(1) by (simp add: n_def)
  have kept: "kept = last_bytes n xs" using assms(2) by (simp add: n_def)
  consider "n = 0" | "0 < n" "n \<le> length data" | "0 < n" "length data < n" by linarith
  then show ?thesis
  proof cases
    case 1
    then show ?thesis by (simp add: update_tail_def limit kept)
  next
    case 2
    then have "nat (int (length data) - int n) = length data - n" by simp
    with 2 show ?thesis
      by (simp add: update_tail_def limit slice_from_def last_bytes_append) (simp add: last_bytes_def)
  next
    case 3
    have "(if 0 < int (length kept) + int (length data) - limit
           then slice_from kept (int (length kept) + int (length data) - limit) else kept)
        = last_bytes (n - length data) kept"
      using 3 by (auto simp: slice_from_def last_bytes_def limit nat_diff_distrib' algebra_simps intro!: arg_cong2 [where f = drop])
    also have "\<dots> = last_bytes (n - length data) xs"
      using kept by (simp add: last_bytes_last_bytes)
    finally have "update_tail kept data limit = last_bytes (n - length data) xs @ data"
      using 3 by (simp only: update_tail_def Let_def) (simp add: limit)
    then show ?thesis
      using 3 by (simp add: limit last_bytes_append) (simp add: last_bytes_def)
  qed
qed

text \<open>
  The state after reading \<open>xs\<close>, as the abstract specification gives it: everything is
  counted and digested, the head is written and the tail of the rest is kept.
\<close>

definition log_view :: "nat \<Rightarrow> nat \<Rightarrow> byte list \<Rightarrow> log_state" where
  "log_view h t xs =
     \<lparr>lg_digested = xs, lg_total_bytes = int (length xs), lg_head_bytes = int (min h (length xs)),
      lg_tail = last_bytes t (drop h xs), lg_written = take h xs\<rparr>"

lemma log_chunk_view:
  assumes "0 \<le> la_head_bytes a" and "0 \<le> la_tail_bytes a"
  shows "log_chunk a chunk (log_view (nat (la_head_bytes a)) (nat (la_tail_bytes a)) xs)
    = log_view (nat (la_head_bytes a)) (nat (la_tail_bytes a)) (xs @ chunk)"
proof -
  define h where "h = nat (la_head_bytes a)"
  have head: "la_head_bytes a = int h" using assms(1) by (simp add: h_def)
  define rest where "rest = drop (h - length xs) chunk"
  have start: "(if 0 < int h - int (min h (length xs)) then slice_to chunk (int h - int (min h (length xs))) else [])
      = take (h - length xs) chunk"
    by (auto simp: slice_to_def min_def nat_diff_distrib')
  have cut: "(if 0 < int h - int (min h (length xs)) then slice_from chunk (int (length (take (h - length xs) chunk))) else chunk)
      = rest"
    by (auto simp: slice_from_def rest_def min_def)
  have drop: "drop h (xs @ chunk) = drop h xs @ rest"
    by (simp add: rest_def)
  have kept: "(if rest \<noteq> [] then update_tail (last_bytes (nat (la_tail_bytes a)) (drop h xs)) rest (la_tail_bytes a)
       else last_bytes (nat (la_tail_bytes a)) (drop h xs))
      = last_bytes (nat (la_tail_bytes a)) (drop h (xs @ chunk))"
    using update_tail_last_bytes [OF assms(2) refl] unfolding drop by auto
  show ?thesis
    unfolding log_chunk_def Let_def log_view_def head h_def [symmetric] nat_int log_state.simps start cut kept
    by simp
qed

lemma log_loop_view:
  assumes "0 \<le> la_head_bytes a" and "0 \<le> la_tail_bytes a"
  shows "log_loop a chunks (log_view (nat (la_head_bytes a)) (nat (la_tail_bytes a)) xs)
    = log_view (nat (la_head_bytes a)) (nat (la_tail_bytes a)) (xs @ stream_of chunks)"
  by (induction chunks arbitrary: xs) (simp_all add: log_chunk_view [OF assms])

lemma log_start_view: "log_start = log_view h t []"
  by (simp add: log_start_def log_view_def last_bytes_def)

lemma log_args_limits: "log_args_error a = None \<Longrightarrow> 0 \<le> la_head_bytes a \<and> 0 \<le> la_tail_bytes a"
  by (auto simp: log_args_error_def min_less_iff_disj split: if_splits)

text \<open>What the log of a stream is, in terms of the stream alone.\<close>

definition bounded_log :: "(byte list \<Rightarrow> string) \<Rightarrow> nat \<Rightarrow> nat \<Rightarrow> byte list \<Rightarrow> byte list" where
  "bounded_log sha h t xs =
     (if length xs \<le> h + t then xs
      else take h xs @ log_marker (int (length xs - h - t)) (sha xs) @ drop (length xs - t) xs)"

lemma log_view_truncated: "log_truncated (log_view h t xs) \<longleftrightarrow> h + t < length xs"
  by (auto simp: log_truncated_def log_view_def)

lemma log_view_omitted: "log_omitted (log_view h t xs) = int (length xs - h - t)"
  by (auto simp: log_omitted_def log_view_def)

lemma log_view_output: "log_output sha (log_view h t xs) = bounded_log sha h t xs"
proof (cases "h + t < length xs")
  case True
  then show ?thesis
    unfolding log_output_def bounded_log_def log_view_truncated log_view_omitted
    by (simp add: log_view_def last_bytes_def)
next
  case False
  then have "last_bytes t (drop h xs) = drop h xs" by (simp add: last_bytes_def)
  with False show ?thesis
    unfolding log_output_def bounded_log_def log_view_truncated by (simp add: log_view_def)
qed

section \<open>A whole run\<close>

definition log_metadata_of :: "(byte list \<Rightarrow> string) \<Rightarrow> log_args \<Rightarrow> byte list \<Rightarrow> (string \<times> pyval) list" where
  "log_metadata_of sha a xs =
     (let h = nat (la_head_bytes a); t = nat (la_tail_bytes a); kept = min (length xs) (h + t) in
      [(''format'', PStr ''bounded-log-v1''),
       (''total_bytes'', PInt (int (length xs))),
       (''retained_stream_bytes'', PInt (int kept)),
       (''output_file_bytes'', PInt (int (length (bounded_log sha h t xs)))),
       (''head_limit_bytes'', PInt (la_head_bytes a)),
       (''tail_limit_bytes'', PInt (la_tail_bytes a)),
       (''truncated'', PBool (kept < length xs)),
       (''omitted_bytes'', PInt (int (length xs - kept))),
       (''full_stream_sha256'', PStr (sha xs))])"

lemma log_view_metadata:
  "log_metadata sha a (log_view (nat (la_head_bytes a)) (nat (la_tail_bytes a)) xs) = log_metadata_of sha a xs"
proof -
  define h where "h = nat (la_head_bytes a)"
  define t where "t = nat (la_tail_bytes a)"
  have kept: "lg_head_bytes (log_view h t xs) + int (length (lg_tail (log_view h t xs)))
      = int (min (length xs) (h + t))"
    by (simp add: log_view_def)
  have rest: "log_omitted (log_view h t xs) = int (length xs - min (length xs) (h + t))"
    by (simp add: log_view_omitted)
  have cut: "log_truncated (log_view h t xs) \<longleftrightarrow> min (length xs) (h + t) < length xs"
    by (auto simp: log_view_truncated)
  have all: "lg_total_bytes (log_view h t xs) = int (length xs)" "lg_digested (log_view h t xs) = xs"
    by (simp_all add: log_view_def)
  show ?thesis
    unfolding log_metadata_def log_metadata_of_def Let_def h_def [symmetric] t_def [symmetric]
      kept rest cut all log_view_output by simp
qed

text \<open>C40: for accepted limits and fresh, distinct paths the program keeps, of any stream and
  however it was cut into reads, the stream itself when it fits the limits; otherwise its first
  \<open>head_bytes\<close>, the marker with the exact number of bytes left out and the digest of all of it,
  and its last \<open>tail_bytes\<close>. The metadata describes the whole stream and no other file changes.\<close>

theorem bounded_log_exact:
  assumes "log_args_error a = None" and "la_output a \<noteq> la_metadata a"
    and "map_of files (la_output a) = None" and "map_of files (la_metadata a) = None"
  shows "fst (log_main sha a reads files) = Inr 0
    \<and> map_of (snd (log_main sha a reads files)) = (map_of files)
      (la_output a \<mapsto> Log (bounded_log sha (nat (la_head_bytes a)) (nat (la_tail_bytes a)) (stream_of reads)),
       la_metadata a \<mapsto> Metadata (log_metadata_of sha a (stream_of reads)))"
proof -
  have "log_loop a reads log_start
      = log_view (nat (la_head_bytes a)) (nat (la_tail_bytes a)) (stream_of reads)"
    unfolding log_start_view [of "nat (la_head_bytes a)" "nat (la_tail_bytes a)"]
    using log_loop_view [of a reads "[]"] log_args_limits [OF assms(1)] by simp
  then have "log_main sha a reads files
      = (Inr 0, AList.update (la_metadata a) (Metadata (log_metadata_of sha a (stream_of reads)))
          (AList.update (la_output a)
            (Log (bounded_log sha (nat (la_head_bytes a)) (nat (la_tail_bytes a)) (stream_of reads))) files))"
    using assms(2,3,4) by (simp add: log_main_def Let_def dict_simps log_view_metadata log_view_output)
  then show ?thesis by (simp add: dict_simps fun_eq_iff)
qed

text \<open>What is kept of the stream never exceeds the two limits.\<close>

lemma bounded_log_length:
  "length (bounded_log sha h t xs)
    \<le> h + t + (if h + t < length xs then length (log_marker (int (length xs - h - t)) (sha xs)) else 0)"
  by (auto simp: bounded_log_def)

definition log_example :: log_args where
  "log_example = \<lparr>la_output = ''log'', la_metadata = ''meta'', la_head_bytes = 2, la_tail_bytes = 3, la_chunk_bytes = 4\<rparr>"

theorem bounded_log_exact_witness:
  "map_of (snd (log_main (\<lambda>_. ''d'') log_example [[1, 2, 3, 4], [5, 6, 7], [8], [], [9]] [])) ''log''
   = Some (Log ([1, 2] @ log_marker 3 ''d'' @ [6, 7, 8]))"
  using bounded_log_exact [of log_example "[]" "\<lambda>_. ''d''" "[[1, 2, 3, 4], [5, 6, 7], [8], [], [9]]"]
  by (simp add: log_example_def log_args_error_def bounded_log_def)

end
