(* ===== verification/Evidence.thy ===== *)
theory Evidence
  imports Paths
begin

text \<open>
  The recorded evidence of the hardware runs, as the scripts at the top of the repository read
  and write it: files of text, read as tables by \<open>csv.DictReader\<close>, as documents by \<open>json.loads\<close>,
  and hashed.
\<close>

section \<open>Files\<close>

text \<open>
  The \<open>csv\<close> reader and writer for tab-separated text, the JSON parser and printer, and the
  SHA-256 of a file's content.
\<close>

record evidence_io =
  io_csv_rows :: "string \<Rightarrow> exn + string list list"
  io_csv_text :: "string list list \<Rightarrow> string"
  io_json :: "string \<Rightarrow> exn + pyval"
  io_dumps :: "pyval \<Rightarrow> string"
  io_sha :: "string \<Rightarrow> string"

type_synonym evidence = "(string, string) dict"

definition read_evidence :: "evidence \<Rightarrow> string \<Rightarrow> exn + string" where
  "read_evidence files path =
     (case map_of files path of
        None \<Rightarrow> Inl (FileNotFoundError (''No such file or directory: '' @ path))
      | Some s \<Rightarrow> Inr s)"

definition load_json :: "evidence_io \<Rightarrow> evidence \<Rightarrow> string \<Rightarrow> exn + pyval" where
  "load_json io files path = rbind (read_evidence files path) (io_json io)"

definition evidence_sha256 :: "evidence_io \<Rightarrow> evidence \<Rightarrow> string \<Rightarrow> exn + string" where
  "evidence_sha256 io files path = rbind (read_evidence files path) (\<lambda>s. Inr (io_sha io s))"

lemma read_evidence_Inr [res_simps]: "read_evidence files path = Inr s \<longleftrightarrow> map_of files path = Some s"
  by (auto simp: read_evidence_def split: option.splits)

lemma read_evidence_update:
  "read_evidence (AList.update p s files) q = (if q = p then Inr s else read_evidence files q)"
  by (simp add: read_evidence_def dict_simps)

lemma evidence_sha256_update:
  "evidence_sha256 io (AList.update p s files) q = (if q = p then Inr (io_sha io s) else evidence_sha256 io files q)"
  by (simp add: evidence_sha256_def read_evidence_update)

section \<open>Rows of a table\<close>

text \<open>
  \<open>csv.DictReader\<close>: the first row names the columns, empty rows are skipped, and a row that is
  too short has \<open>None\<close> in its missing columns.
\<close>

type_synonym table_row = "(string \<times> string option) list"

fun dict_row :: "string list \<Rightarrow> string list \<Rightarrow> table_row" where
  "dict_row [] fs = []"
| "dict_row (k # ks) [] = (k, None) # dict_row ks []"
| "dict_row (k # ks) (f # fs) = (k, Some f) # dict_row ks fs"

definition table_header :: "string list list \<Rightarrow> string list" where
  "table_header rows = (case rows of [] \<Rightarrow> [] | header # _ \<Rightarrow> header)"

definition table_body :: "string list list \<Rightarrow> table_row list" where
  "table_body rows = map (dict_row (table_header rows)) (filter (\<lambda>fs. fs \<noteq> []) (drop 1 rows))"

definition read_table :: "evidence_io \<Rightarrow> evidence \<Rightarrow> string \<Rightarrow> exn + string list list" where
  "read_table io files path = rbind (read_evidence files path) (io_csv_rows io)"

lemma dict_row_get: "map_of (dict_row ks fs) k = Some v \<Longrightarrow> k \<in> set ks"
  by (induction ks fs rule: dict_row.induct) (auto split: if_splits)

lemma dict_row_fields:
  "length fs = length ks \<Longrightarrow> distinct ks \<Longrightarrow> map (map_of (dict_row ks fs)) ks = map (Some \<circ> Some) fs"
proof (induction ks fs rule: dict_row.induct)
  case (3 k ks f fs)
  then have "map (map_of (dict_row (k # ks) (f # fs))) ks = map (map_of (dict_row ks fs)) ks"
    by (intro map_cong) auto
  also have "\<dots> = map (Some \<circ> Some) fs" using 3 by simp
  finally show ?case by (simp add: fun_upd_def comp_def)
qed simp_all

section \<open>Values of documents\<close>

text \<open>The number an \<open>int\<close> is; a \<open>bool\<close> is one too.\<close>

definition python_int :: "pyval \<Rightarrow> int option" where
  "python_int v = (case v of PInt i \<Rightarrow> Some i | PBool b \<Rightarrow> Some (if b then 1 else 0) | _ \<Rightarrow> None)"

lemma python_int_is_int: "is_int v \<longleftrightarrow> python_int v \<noteq> None"
  by (cases v) (simp_all add: is_int_def python_int_def)

lemma python_int_simps [simp]: "python_int (PInt i) = Some i"
  by (simp add: python_int_def)

text \<open>\<open>v.get(k)\<close> of a value that should be a dictionary.\<close>

definition value_get :: "pyval \<Rightarrow> string \<Rightarrow> exn + pyval" where
  "value_get v k =
     (case v of PDict d \<Rightarrow> Inr (py_get d k) | _ \<Rightarrow> Inl (AttributeError ''object has no attribute get''))"

lemma value_get_dict [simp]: "value_get (PDict d) k = Inr (py_get d k)"
  by (simp add: value_get_def)

text \<open>\<open>v[k]\<close> of a value that should be a dictionary.\<close>

definition value_item :: "pyval \<Rightarrow> string \<Rightarrow> exn + pyval" where
  "value_item v k =
     (case v of PDict d \<Rightarrow> dict_item d k | _ \<Rightarrow> Inl (TypeError ''object is not subscriptable''))"

section \<open>Medians\<close>

text \<open>\<open>statistics.median\<close> of integers: the middle one, or the float halfway between the two.\<close>

definition median :: "int list \<Rightarrow> exn + pyval" where
  "median xs =
     (let ys = sort xs; n = length ys in
      if n = 0 then Inl (ValueError ''no median for empty data'')
      else if n mod 2 = 1 then Inr (PInt (ys ! (n div 2)))
      else Inr (PFloat (Fin ((of_int (ys ! (n div 2 - 1)) + of_int (ys ! (n div 2))) / 2))))"

lemma median_constant: "0 < n \<Longrightarrow> even n \<Longrightarrow> median (replicate n x) = Inr (PFloat (Fin (of_int x)))"
  by (simp add: median_def Let_def sorted_sort_id)

lemma median_total: "xs \<noteq> [] \<Longrightarrow> \<exists>v. median xs = Inr v"
proof -
  assume "xs \<noteq> []"
  then have "sort xs \<noteq> []" by (metis length_0_conv length_sort)
  then show ?thesis by (simp add: median_def Let_def)
qed

end
