(* ===== verification/TransferTrace.thy ===== *)
theory TransferTrace
  imports Evidence Abi
begin

text \<open>
  \<open>summarize_runtime_memcpy.py\<close>: the trace of the copies of a benchmark process, cut by the
  wall-clock windows of its measured epochs. Four blocks of 15 epochs are summarized, two of
  the old and two of the new ABI.
\<close>

section \<open>Trace records\<close>

definition BLOCKS :: "string list" where
  "BLOCKS = [''old-1'', ''new-1'', ''new-2'', ''old-2'']"

definition ROUTES :: "(string, string) dict" where
  "ROUTES = [(''old-1'', ''old''), (''new-1'', ''new''), (''new-2'', ''new''), (''old-2'', ''old'')]"

definition TRACE_FIELDS :: "string list" where
  "TRACE_FIELDS = [''api'', ''pid'', ''tid'', ''start_ns'', ''end_ns'', ''bytes'', ''dest_max'', ''kind'', ''status'']"

definition FILTERED_TRACE_FIELDS :: "string list" where
  "FILTERED_TRACE_FIELDS = [''block'', ''sample'', ''transport'', ''direction''] @ TRACE_FIELDS"

definition RUNTIME_MEMCPY_APIS :: "string list" where
  "RUNTIME_MEMCPY_APIS =
     [''rtMemcpy'', ''rtMemcpyEx'', ''rtMemcpyAsync'', ''rtMemcpyAsyncWithoutCheckKind'', ''rtMemcpyAsyncEx'',
      ''rtMemcpyAsyncWithCfg'', ''rtMemcpyAsyncWithCfgV2'', ''rtMemcpyHostTask'', ''rtMemcpyAsyncWithOffset'',
      ''rtMemcpy2d'', ''rtMemcpy2dAsync'', ''rtsMemcpy'', ''rtsMemcpyAsync'', ''rtsMemcpyBatch'',
      ''rtsMemcpyBatchAsync'', ''rtsMemcpyAsyncWithDesc'']"

definition MBUF_DIAGNOSTIC_APIS :: "string list" where
  "MBUF_DIAGNOSTIC_APIS =
     [''rtMbufAlloc'', ''rtMbufBuild'', ''rtMbufSetDataLen'', ''rtMbufGetBuffSize'', ''rtBuffGet'', ''rtBuffConfirm'']"

definition FEED :: string where "FEED = ''FeedDataFlowGraphTensor''"
definition FETCH :: string where "FETCH = ''FetchDataFlowGraphTensor''"

definition DATAFLOW_API_DIRECTIONS :: "(string, string) dict" where
  "DATAFLOW_API_DIRECTIONS = [(FEED, ''host_to_device''), (FETCH, ''device_to_host'')]"

definition TRACE_APIS :: "string list" where
  "TRACE_APIS = RUNTIME_MEMCPY_APIS @ MBUF_DIAGNOSTIC_APIS @ keys DATAFLOW_API_DIRECTIONS"

text \<open>The tensor sizes of a route and direction.\<close>

definition expected_tensor_bytes :: "string \<Rightarrow> string \<Rightarrow> int list" where
  "expected_tensor_bytes route direction =
     map (int \<circ> nbytes)
       (if route = ''old'' then (if direction = ''host_to_device'' then OLD_INPUTS else OLD_OUTPUTS)
        else (if direction = ''host_to_device'' then NEW_INPUTS else NEW_OUTPUTS))"

definition transport :: "string \<Rightarrow> exn + string" where
  "transport api =
     (if api \<in> set (keys DATAFLOW_API_DIRECTIONS) then Inr ''dataflow_tensor''
      else if api \<in> set RUNTIME_MEMCPY_APIS then Inr ''runtime_memcpy''
      else if api \<in> set MBUF_DIAGNOSTIC_APIS then Inr ''mbuf_diagnostic''
      else Inl (ValueError (''unclassified trace API: '' @ api)))"

definition runtime_direction :: "string \<Rightarrow> int \<Rightarrow> string option" where
  "runtime_direction api kind =
     (if kind = 1 then Some ''host_to_device''
      else if kind = 2 then Some ''device_to_host''
      else if \<not> prefix ''rts'' api \<and> kind = 6 then Some ''host_to_device''
      else if \<not> prefix ''rts'' api \<and> kind = 7 then Some ''device_to_host''
      else None)"

definition trace_direction :: "string \<Rightarrow> int \<Rightarrow> string option" where
  "trace_direction api kind =
     (case map_of DATAFLOW_API_DIRECTIONS api of
        Some d \<Rightarrow> Some d
      | None \<Rightarrow> if api \<in> set RUNTIME_MEMCPY_APIS then runtime_direction api kind else None)"

record trace_call =
  tc_api :: string
  tc_pid :: int
  tc_tid :: int
  tc_start :: int
  tc_end :: int
  tc_bytes :: int
  tc_dest_max :: int
  tc_kind :: int
  tc_status :: int

section \<open>Reading a trace\<close>

text \<open>\<open>int(row[field])\<close>.\<close>

definition trace_int :: "table_row \<Rightarrow> string \<Rightarrow> exn + int" where
  "trace_int row field =
     rbind (dict_item row field) (\<lambda>v.
       case v of
         None \<Rightarrow> Inl (TypeError ''int() argument must be a string'')
       | Some s \<Rightarrow> (case int_parse s of None \<Rightarrow> Inl (ValueError ''invalid literal for int()'') | Some i \<Rightarrow> Inr i))"

definition trace_api :: "table_row \<Rightarrow> string option" where
  "trace_api row = (case map_of row ''api'' of Some v \<Rightarrow> v | None \<Rightarrow> None)"

definition read_call :: "string \<Rightarrow> nat \<times> table_row \<Rightarrow> exn + trace_call" where
  "read_call path numbered =
     (let (line, row) = numbered;
          pos = path @ '':'' @ nat_str line
      in case map_res (trace_int row) (tl TRACE_FIELDS) of
           Inr [pid, tid, start_ns, end_ns, bytes, dest_max, kind, status] \<Rightarrow>
             (case trace_api row of
                None \<Rightarrow> Inl (ValueError (''invalid transfer trace API '' @ pos))
              | Some api \<Rightarrow>
                  if api \<notin> set TRACE_APIS then Inl (ValueError (''invalid transfer trace API '' @ pos))
                  else if start_ns \<le> 0 \<or> end_ns < start_ns then
                    Inl (ValueError (''invalid transfer trace timestamp '' @ pos))
                  else if bytes < 0 \<or> dest_max < bytes then
                    Inl (ValueError (''invalid transfer trace byte count '' @ pos))
                  else Inr \<lparr>tc_api = api, tc_pid = pid, tc_tid = tid, tc_start = start_ns, tc_end = end_ns,
                         tc_bytes = bytes, tc_dest_max = dest_max, tc_kind = kind, tc_status = status\<rparr>)
         | _ \<Rightarrow> Inl (ValueError (''invalid transfer trace row '' @ pos)))"

definition read_trace :: "evidence_io \<Rightarrow> evidence \<Rightarrow> string \<Rightarrow> exn + trace_call list" where
  "read_trace io files path =
     rbind (read_table io files path) (\<lambda>rows.
       if table_header rows \<noteq> TRACE_FIELDS then Inl (ValueError (''unexpected transfer trace header in '' @ path))
       else map_res (read_call path) (enumerate 2 (table_body rows)))"

section \<open>The measured windows\<close>

text \<open>One window after another: each starts after the end of the one before.\<close>

fun read_windows :: "string \<Rightarrow> (nat \<times> pyval) list \<Rightarrow> (int \<times> int) list \<Rightarrow> exn + (int \<times> int) list" where
  "read_windows path [] windows = Inr windows"
| "read_windows path ((index, sample) # samples) windows =
     rbind (value_get sample ''epoch_wall_clock_start_ns'') (\<lambda>start.
     rbind (value_get sample ''epoch_wall_clock_end_ns'') (\<lambda>end.
       case (python_int start, python_int end) of
         (Some s, Some e) \<Rightarrow>
           if e \<le> s then Inl (ValueError (''invalid epoch wall-clock window '' @ path @ '':'' @ nat_str index))
           else if windows \<noteq> [] \<and> s \<le> snd (last windows) then
             Inl (ValueError (''overlapping epoch wall-clock windows: '' @ path))
           else read_windows path samples (windows @ [(s, e)])
       | _ \<Rightarrow> Inl (ValueError (''invalid epoch wall-clock window '' @ path @ '':'' @ nat_str index))))"

definition load_windows :: "evidence_io \<Rightarrow> evidence \<Rightarrow> string \<Rightarrow> exn + (int \<times> int) list" where
  "load_windows io files path =
     rbind (load_json io files path) (\<lambda>result.
     rbind (value_get result ''samples'') (\<lambda>samples.
       case samples of
         PList xs \<Rightarrow>
           if length xs \<noteq> 15 then Inl (ValueError (''benchmark result must contain 15 samples: '' @ path))
           else read_windows path (enumerate 0 xs) []
       | _ \<Rightarrow> Inl (ValueError (''benchmark result must contain 15 samples: '' @ path))))"

section \<open>The summary of one epoch\<close>

definition with_api :: "string \<Rightarrow> trace_call list \<Rightarrow> trace_call list" where
  "with_api api rows = filter (\<lambda>row. tc_api row = api) rows"

definition with_apis :: "string list \<Rightarrow> trace_call list \<Rightarrow> trace_call list" where
  "with_apis apis rows = filter (\<lambda>row. tc_api row \<in> set apis) rows"

text \<open>The records of one call share its process, thread, times and status.\<close>

definition dataflow_call_count :: "trace_call list \<Rightarrow> string \<Rightarrow> nat" where
  "dataflow_call_count rows api =
     length (remdups (map (\<lambda>row. (tc_pid row, tc_tid row, tc_start row, tc_end row, tc_status row)) (with_api api rows)))"

definition failed_records :: "trace_call list \<Rightarrow> nat" where
  "failed_records rows = length (filter (\<lambda>row. tc_status row \<noteq> 0) rows)"

definition sizes :: "trace_call list \<Rightarrow> int list" where
  "sizes rows = map tc_bytes rows"

text \<open>The runtime copies by direction: records and bytes.\<close>

definition add_directional :: "trace_call \<Rightarrow> (string, int \<times> int) dict \<Rightarrow> (string, int \<times> int) dict" where
  "add_directional row totals =
     (case runtime_direction (tc_api row) (tc_kind row) of
        None \<Rightarrow> totals
      | Some direction \<Rightarrow>
          if tc_status row \<noteq> 0 then totals
          else (case map_of totals direction of
                  None \<Rightarrow> totals
                | Some (records, bytes) \<Rightarrow> AList.update direction (records + 1, bytes + tc_bytes row) totals))"

definition directional_totals :: "trace_call list \<Rightarrow> (string, int \<times> int) dict" where
  "directional_totals rows = fold add_directional rows [(''host_to_device'', (0, 0)), (''device_to_host'', (0, 0))]"

definition directional :: "trace_call list \<Rightarrow> string \<Rightarrow> int \<times> int" where
  "directional rows direction = (case map_of (directional_totals rows) direction of Some v \<Rightarrow> v | None \<Rightarrow> (0, 0))"

record sample_summary =
  ss_sample :: int
  ss_window_start :: int
  ss_window_end :: int
  ss_dataflow_status :: string
  ss_feed_calls :: int
  ss_fetch_calls :: int
  ss_feed_count :: int
  ss_fetch_count :: int
  ss_feed_bytes :: "int list"
  ss_fetch_bytes :: "int list"
  ss_h2d_bytes :: int
  ss_d2h_bytes :: int
  ss_total_bytes :: int
  ss_dataflow_failed :: int
  ss_runtime_status :: string
  ss_runtime_records :: int
  ss_runtime_failed :: int
  ss_runtime_h2d_records :: int
  ss_runtime_d2h_records :: int
  ss_runtime_h2d_bytes :: int
  ss_runtime_d2h_bytes :: int
  ss_runtime_total_bytes :: int
  ss_mbuf_records :: int
  ss_mbuf_failed :: int

definition runtime_status_of :: "trace_call list \<Rightarrow> string" where
  "runtime_status_of rows =
     (if failed_records rows \<noteq> 0 then ''invalid'' else if rows = [] then ''observed_zero'' else ''observed'')"

definition dataflow_observed :: "string \<Rightarrow> trace_call list \<Rightarrow> bool" where
  "dataflow_observed route rows \<longleftrightarrow>
     dataflow_call_count rows FEED = 1 \<and> dataflow_call_count rows FETCH = 1
     \<and> sizes (with_api FEED rows) = expected_tensor_bytes route ''host_to_device''
     \<and> sizes (with_api FETCH rows) = expected_tensor_bytes route ''device_to_host''
     \<and> failed_records (with_api FEED rows @ with_api FETCH rows) = 0"

definition summarize_sample :: "string \<Rightarrow> nat \<Rightarrow> int \<times> int \<Rightarrow> trace_call list \<Rightarrow> sample_summary" where
  "summarize_sample route index window rows =
     (let feed_rows = with_api FEED rows; fetch_rows = with_api FETCH rows;
          runtime_rows = with_apis RUNTIME_MEMCPY_APIS rows; mbuf_rows = with_apis MBUF_DIAGNOSTIC_APIS rows
      in \<lparr>ss_sample = int index, ss_window_start = fst window, ss_window_end = snd window,
          ss_dataflow_status = (if dataflow_observed route rows then ''observed'' else ''not_observed''),
          ss_feed_calls = int (dataflow_call_count rows FEED),
          ss_fetch_calls = int (dataflow_call_count rows FETCH),
          ss_feed_count = int (length feed_rows), ss_fetch_count = int (length fetch_rows),
          ss_feed_bytes = sizes feed_rows, ss_fetch_bytes = sizes fetch_rows,
          ss_h2d_bytes = sum_list (sizes feed_rows), ss_d2h_bytes = sum_list (sizes fetch_rows),
          ss_total_bytes = sum_list (sizes feed_rows) + sum_list (sizes fetch_rows),
          ss_dataflow_failed = int (failed_records (feed_rows @ fetch_rows)),
          ss_runtime_status = runtime_status_of runtime_rows,
          ss_runtime_records = int (length runtime_rows),
          ss_runtime_failed = int (failed_records runtime_rows),
          ss_runtime_h2d_records = fst (directional runtime_rows ''host_to_device''),
          ss_runtime_d2h_records = fst (directional runtime_rows ''device_to_host''),
          ss_runtime_h2d_bytes = snd (directional runtime_rows ''host_to_device''),
          ss_runtime_d2h_bytes = snd (directional runtime_rows ''device_to_host''),
          ss_runtime_total_bytes = sum_list (map (snd \<circ> snd) (directional_totals runtime_rows)),
          ss_mbuf_records = int (length mbuf_rows),
          ss_mbuf_failed = int (failed_records mbuf_rows)\<rparr>)"

text \<open>The dictionary of a sample.\<close>

definition sample_doc :: "sample_summary \<Rightarrow> (string \<times> pyval) list" where
  "sample_doc s =
     [(''sample'', PInt (ss_sample s)),
      (''window_start_ns'', PInt (ss_window_start s)), (''window_end_ns'', PInt (ss_window_end s)),
      (''dataflow_status'', PStr (ss_dataflow_status s)),
      (''dataflow_feed_calls'', PInt (ss_feed_calls s)), (''dataflow_fetch_calls'', PInt (ss_fetch_calls s)),
      (''dataflow_feed_tensor_count'', PInt (ss_feed_count s)),
      (''dataflow_fetch_tensor_count'', PInt (ss_fetch_count s)),
      (''dataflow_feed_tensor_bytes'', PList (map PInt (ss_feed_bytes s))),
      (''dataflow_fetch_tensor_bytes'', PList (map PInt (ss_fetch_bytes s))),
      (''dataflow_host_to_device_bytes'', PInt (ss_h2d_bytes s)),
      (''dataflow_device_to_host_bytes'', PInt (ss_d2h_bytes s)),
      (''dataflow_total_bytes'', PInt (ss_total_bytes s)),
      (''dataflow_failed_records'', PInt (ss_dataflow_failed s)),
      (''runtime_memcpy_status'', PStr (ss_runtime_status s)),
      (''runtime_memcpy_records'', PInt (ss_runtime_records s)),
      (''runtime_memcpy_failed_records'', PInt (ss_runtime_failed s)),
      (''runtime_memcpy_host_to_device_records'', PInt (ss_runtime_h2d_records s)),
      (''runtime_memcpy_device_to_host_records'', PInt (ss_runtime_d2h_records s)),
      (''runtime_memcpy_host_to_device_bytes'', PInt (ss_runtime_h2d_bytes s)),
      (''runtime_memcpy_device_to_host_bytes'', PInt (ss_runtime_d2h_bytes s)),
      (''runtime_memcpy_total_directional_bytes'', PInt (ss_runtime_total_bytes s)),
      (''mbuf_diagnostic_records'', PInt (ss_mbuf_records s)),
      (''mbuf_diagnostic_failed_records'', PInt (ss_mbuf_failed s))]"

section \<open>The scan of the trace\<close>

type_synonym call_key = "string \<times> string \<times> int \<times> int \<times> int \<times> int"

text \<open>
  What the loops over windows and records accumulate. \<open>sn_contained\<close> are the records of the
  current window; the three collections of indexes and keys are sets in the code.
\<close>

record scan =
  sn_measured :: "nat list"
  sn_boundary :: "nat list"
  sn_boundary_keys :: "call_key list"
  sn_filtered :: "string list list"
  sn_contained :: "trace_call list"
  sn_samples :: "sample_summary list"

definition scan_start :: scan where
  "scan_start = \<lparr>sn_measured = [], sn_boundary = [], sn_boundary_keys = [], sn_filtered = [],
     sn_contained = [], sn_samples = []\<rparr>"

definition overlaps :: "int \<times> int \<Rightarrow> trace_call \<Rightarrow> bool" where
  "overlaps window call \<longleftrightarrow> fst window \<le> tc_end call \<and> tc_start call \<le> snd window"

definition inside :: "int \<times> int \<Rightarrow> trace_call \<Rightarrow> bool" where
  "inside window call \<longleftrightarrow> fst window \<le> tc_start call \<and> tc_end call \<le> snd window"

definition call_fields :: "trace_call \<Rightarrow> string list" where
  "call_fields c =
     [tc_api c, int_str (tc_pid c), int_str (tc_tid c), int_str (tc_start c), int_str (tc_end c),
      int_str (tc_bytes c), int_str (tc_dest_max c), int_str (tc_kind c), int_str (tc_status c)]"

text \<open>A row of the filtered trace, in the order of \<open>FILTERED_TRACE_FIELDS\<close> and as the writer prints it.\<close>

definition filtered_row :: "string \<Rightarrow> nat \<Rightarrow> string \<Rightarrow> trace_call \<Rightarrow> string list" where
  "filtered_row label index kind call =
     [label, int_str (int index), kind,
      (case trace_direction (tc_api call) (tc_kind call) of None \<Rightarrow> '''' | Some d \<Rightarrow> d)] @ call_fields call"

definition scan_call :: "string \<Rightarrow> nat \<Rightarrow> int \<times> int \<Rightarrow> nat \<times> trace_call \<Rightarrow> scan \<Rightarrow> exn + scan" where
  "scan_call label index window numbered s =
     (let (k, call) = numbered in
      if overlaps window call \<and> \<not> inside window call then
        rbind (transport (tc_api call)) (\<lambda>kind.
          Inr (s\<lparr>sn_boundary := List.insert k (sn_boundary s),
                 sn_boundary_keys := List.insert
                   (kind, tc_api call, tc_pid call, tc_tid call, tc_start call, tc_end call) (sn_boundary_keys s)\<rparr>))
      else if \<not> inside window call then Inr s
      else
        rbind (transport (tc_api call)) (\<lambda>kind.
          Inr (s\<lparr>sn_measured := List.insert k (sn_measured s),
                 sn_contained := sn_contained s @ [call],
                 sn_filtered := sn_filtered s @ [filtered_row label index kind call]\<rparr>)))"

definition scan_window ::
  "string \<Rightarrow> string \<Rightarrow> trace_call list \<Rightarrow> nat \<times> int \<times> int \<Rightarrow> scan \<Rightarrow> exn + scan" where
  "scan_window label route calls numbered s =
     (let (index, window) = numbered in
      rbind (fold_res (scan_call label index window) (enumerate 0 calls) (s\<lparr>sn_contained := []\<rparr>)) (\<lambda>t.
        Inr (t\<lparr>sn_samples := sn_samples t @ [summarize_sample route index window (sn_contained t)]\<rparr>)))"

definition scan_block ::
  "string \<Rightarrow> string \<Rightarrow> trace_call list \<Rightarrow> (int \<times> int) list \<Rightarrow> exn + scan" where
  "scan_block label route calls windows =
     fold_res (scan_window label route calls) (enumerate 0 windows) scan_start"

section \<open>The summary of one block\<close>

text \<open>\<open>dict(sorted(Counter(_transport(...)).items()))\<close>.\<close>

definition transport_counts :: "trace_call list \<Rightarrow> exn + (string, int) dict" where
  "transport_counts calls =
     rbind (map_res (\<lambda>c. transport (tc_api c)) calls) (\<lambda>kinds.
       Inr (map (\<lambda>t. (t, int (count_list kinds t))) (sort (remdups kinds))))"

definition counter_get :: "(string, int) dict \<Rightarrow> string \<Rightarrow> int" where
  "counter_get d k = (case map_of d k of None \<Rightarrow> 0 | Some n \<Rightarrow> n)"

definition outside_counts :: "(string, int) dict \<Rightarrow> (string, int) dict \<Rightarrow> (string, int) dict" where
  "outside_counts raw measured = map (\<lambda>t. (t, counter_get raw t - counter_get measured t)) (keys raw)"

definition block_runtime_status :: "sample_summary list \<Rightarrow> bool \<Rightarrow> string" where
  "block_runtime_status samples crossing =
     (let statuses = set (map ss_runtime_status samples) in
      if ''invalid'' \<in> statuses \<or> crossing then ''invalid''
      else if statuses = {''observed_zero''} then ''observed_zero''
      else ''observed'')"

definition BLOCK_REASON :: string where
  "BLOCK_REASON = ''every measured epoch must contain one complete DataFlow Feed/Fetch tensor payload ''
     @ ''matching its ABI, with no failed or boundary-crossing calls''"

record block_summary =
  bk_route :: string
  bk_status :: string
  bk_reason :: "string option"
  bk_payload_status :: string
  bk_runtime_status :: string
  bk_trace_path :: string
  bk_trace_sha256 :: string
  bk_result_path :: string
  bk_result_sha256 :: string
  bk_filtered_path :: string
  bk_filtered_sha256 :: string
  bk_raw_count :: int
  bk_raw_by :: "(string, int) dict"
  bk_measured_count :: int
  bk_measured_by :: "(string, int) dict"
  bk_outside_by :: "(string, int) dict"
  bk_failed_measured :: int
  bk_boundary_records :: int
  bk_boundary_calls :: int
  bk_samples :: "sample_summary list"

text \<open>\<open>path.open("x")\<close>, the rows and the header.\<close>

definition write_filtered :: "evidence_io \<Rightarrow> string \<Rightarrow> string list list \<Rightarrow> evidence \<Rightarrow> exn + evidence" where
  "write_filtered io path rows files =
     (if map_of files path \<noteq> None then Inl (OSError (''File exists: '' @ path))
      else Inr (AList.update path (io_csv_text io (FILTERED_TRACE_FIELDS # rows)) files))"

definition measured_calls :: "trace_call list \<Rightarrow> scan \<Rightarrow> trace_call list" where
  "measured_calls calls s = map (\<lambda>k. calls ! k) (sn_measured s)"

definition block_summary_of ::
  "evidence_io \<Rightarrow> evidence \<Rightarrow> string \<Rightarrow> string \<Rightarrow> string \<Rightarrow> string \<Rightarrow> trace_call list \<Rightarrow> scan \<Rightarrow> exn + block_summary" where
  "block_summary_of io files route trace_path result_path filtered_path calls s =
     rbind (transport_counts calls) (\<lambda>raw_by.
     rbind (transport_counts (measured_calls calls s)) (\<lambda>measured_by.
     rbind (evidence_sha256 io files trace_path) (\<lambda>trace_sha.
     rbind (evidence_sha256 io files result_path) (\<lambda>result_sha.
     rbind (evidence_sha256 io files filtered_path) (\<lambda>filtered_sha.
       let observed = (\<forall>x \<in> set (sn_samples s). ss_dataflow_status x = ''observed'');
           failed = failed_records (measured_calls calls s);
           status = (if observed \<and> sn_boundary_keys s = [] \<and> failed = 0 then ''observed'' else ''not_observed'')
       in Inr \<lparr>bk_route = route, bk_status = status,
            bk_reason = (if status = ''observed'' then None else Some BLOCK_REASON),
            bk_payload_status = (if observed then ''observed'' else ''not_observed''),
            bk_runtime_status = block_runtime_status (sn_samples s) (sn_boundary_keys s \<noteq> []),
            bk_trace_path = trace_path, bk_trace_sha256 = trace_sha,
            bk_result_path = result_path, bk_result_sha256 = result_sha,
            bk_filtered_path = filtered_path, bk_filtered_sha256 = filtered_sha,
            bk_raw_count = int (length calls), bk_raw_by = raw_by,
            bk_measured_count = int (length (sn_measured s)), bk_measured_by = measured_by,
            bk_outside_by = outside_counts raw_by measured_by,
            bk_failed_measured = int failed,
            bk_boundary_records = int (length (sn_boundary s)),
            bk_boundary_calls = int (length (sn_boundary_keys s)),
            bk_samples = sn_samples s\<rparr>)))))"

definition summarize_block ::
  "evidence_io \<Rightarrow> string \<Rightarrow> string \<Rightarrow> string \<Rightarrow> string \<Rightarrow> evidence \<Rightarrow> (exn + block_summary) \<times> evidence" where
  "summarize_block io label trace_path result_path filtered_path files =
     (case rbind (dict_item ROUTES label) (\<lambda>route.
           rbind (read_trace io files trace_path) (\<lambda>calls.
           rbind (load_windows io files result_path) (\<lambda>windows.
           rbind (scan_block label route calls windows) (\<lambda>s.
           rbind (write_filtered io filtered_path (sn_filtered s) files) (\<lambda>files'.
             Inr (route, calls, s, files')))))) of
        Inl e \<Rightarrow> (Inl e, files)
      | Inr (route, calls, s, files') \<Rightarrow>
          (block_summary_of io files' route trace_path result_path filtered_path calls s, files'))"

definition counts_doc :: "(string, int) dict \<Rightarrow> pyval" where
  "counts_doc d = PDict (map (\<lambda>(t, n). (t, PInt n)) d)"

definition block_doc :: "block_summary \<Rightarrow> (string \<times> pyval) list" where
  "block_doc b =
     [(''route'', PStr (bk_route b)), (''status'', PStr (bk_status b)),
      (''reason'', (case bk_reason b of None \<Rightarrow> PNone | Some r \<Rightarrow> PStr r)),
      (''dataflow_tensor_payload_status'', PStr (bk_payload_status b)),
      (''runtime_memcpy_status'', PStr (bk_runtime_status b)),
      (''trace_path'', PStr (bk_trace_path b)), (''trace_sha256'', PStr (bk_trace_sha256 b)),
      (''benchmark_result_path'', PStr (bk_result_path b)),
      (''benchmark_result_sha256'', PStr (bk_result_sha256 b)),
      (''filtered_trace_path'', PStr (bk_filtered_path b)),
      (''filtered_trace_sha256'', PStr (bk_filtered_sha256 b)),
      (''raw_record_count'', PInt (bk_raw_count b)),
      (''raw_records_by_transport'', counts_doc (bk_raw_by b)),
      (''measured_record_count'', PInt (bk_measured_count b)),
      (''measured_records_by_transport'', counts_doc (bk_measured_by b)),
      (''outside_window_records_by_transport'', counts_doc (bk_outside_by b)),
      (''failed_measured_records'', PInt (bk_failed_measured b)),
      (''boundary_crossing_records'', PInt (bk_boundary_records b)),
      (''boundary_crossing_calls'', PInt (bk_boundary_calls b)),
      (''samples'', PList (map (PDict \<circ> sample_doc) (bk_samples b)))]"

section \<open>The four blocks\<close>

definition join_semicolon :: "string list \<Rightarrow> string" where
  "join_semicolon = join_with ''; ''"

text \<open>The blocks in the order of \<open>BLOCKS\<close>, each writing its filtered trace.\<close>

fun summarize_blocks ::
  "evidence_io \<Rightarrow> (string, string) dict \<Rightarrow> (string, string) dict \<Rightarrow> string \<Rightarrow> string list \<Rightarrow> evidence
   \<Rightarrow> (exn + (string \<times> block_summary) list) \<times> evidence" where
  "summarize_blocks io traces results dir [] files = (Inr [], files)"
| "summarize_blocks io traces results dir (label # labels) files =
     (case (dict_item traces label, dict_item results label) of
        (Inr trace, Inr result) \<Rightarrow>
          (case summarize_block io label trace result (path_join dir (label @ ''.tsv'')) files of
             (Inl e, files') \<Rightarrow> (Inl e, files')
           | (Inr b, files') \<Rightarrow>
               (case summarize_blocks io traces results dir labels files' of
                  (Inl e, files'') \<Rightarrow> (Inl e, files'')
                | (Inr bs, files'') \<Rightarrow> (Inr ((label, b) # bs), files'')))
      | (Inl e, _) \<Rightarrow> (Inl e, files)
      | (_, Inl e) \<Rightarrow> (Inl e, files))"

definition block_samples :: "(string \<times> block_summary) list \<Rightarrow> string \<Rightarrow> exn + sample_summary list" where
  "block_samples blocks label = rbind (dict_item blocks label) (\<lambda>b. Inr (bk_samples b))"

definition route_samples :: "(string \<times> block_summary) list \<Rightarrow> string \<Rightarrow> exn + sample_summary list" where
  "route_samples blocks route =
     rbind (block_samples blocks (route @ ''-1'')) (\<lambda>xs.
     rbind (block_samples blocks (route @ ''-2'')) (\<lambda>ys. Inr (xs @ ys)))"

definition status_set :: "sample_summary list \<Rightarrow> pyval" where
  "status_set samples = PList (map PStr (sort (remdups (map ss_runtime_status samples))))"

text \<open>The medians of a route, by the name of the field.\<close>

definition MEDIAN_FIELDS :: "(string \<times> (sample_summary \<Rightarrow> int)) list" where
  "MEDIAN_FIELDS =
     [(''dataflow_host_to_device_bytes'', ss_h2d_bytes), (''dataflow_device_to_host_bytes'', ss_d2h_bytes),
      (''dataflow_total_bytes'', ss_total_bytes), (''runtime_memcpy_records'', ss_runtime_records),
      (''runtime_memcpy_host_to_device_bytes'', ss_runtime_h2d_bytes),
      (''runtime_memcpy_device_to_host_bytes'', ss_runtime_d2h_bytes),
      (''runtime_memcpy_total_directional_bytes'', ss_runtime_total_bytes)]"

definition summarize_route :: "sample_summary list \<Rightarrow> exn + (string \<times> pyval) list" where
  "summarize_route samples =
     rbind (map_res (\<lambda>(name, field). rbind (median (map field samples)) (\<lambda>m. Inr (name @ ''_median'', m))) MEDIAN_FIELDS)
       (\<lambda>medians. Inr ((''sample_count'', PInt (int (length samples))) # medians
          @ [(''runtime_memcpy_statuses'', status_set samples)]))"

definition expected_payload :: "string \<Rightarrow> pyval" where
  "expected_payload route = PDict
     [(''host_to_device_tensor_bytes'', PList (map PInt (expected_tensor_bytes route ''host_to_device''))),
      (''device_to_host_tensor_bytes'', PList (map PInt (expected_tensor_bytes route ''device_to_host''))),
      (''host_to_device_bytes'', PInt (int (total_bytes (if route = ''old'' then OLD_INPUTS else NEW_INPUTS)))),
      (''device_to_host_bytes'', PInt (int (total_bytes (if route = ''old'' then OLD_OUTPUTS else NEW_OUTPUTS))))]"

definition summary_reason :: "(string \<times> block_summary) list \<Rightarrow> string" where
  "summary_reason blocks =
     join_semicolon (map (\<lambda>(label, b). label @ '': '' @ (case bk_reason b of None \<Rightarrow> ''None'' | Some r \<Rightarrow> r))
       (filter (\<lambda>(_, b). bk_status b \<noteq> ''observed'') blocks))"

definition summary_status :: "(string \<times> block_summary) list \<Rightarrow> string" where
  "summary_status blocks = (if \<forall>(_, b) \<in> set blocks. bk_status b = ''observed'' then ''observed'' else ''not_observed'')"

definition MEASUREMENT_BOUNDARIES :: pyval where
  "MEASUREMENT_BOUNDARIES = PDict
     [(''dataflow_tensor'', PStr (''Tensor::GetSize() on the actual DFlowSessionImpl FeedDataFlowGraph and ''
         @ ''FetchDataFlowGraph arguments'')),
      (''runtime_memcpy'', PStr (''LD_PRELOAD interception of CANN rtMemcpy/rtsMemcpy API families in the ''
         @ ''resident sidecar'')),
      (''mbuf_diagnostic'', PStr ''LD_PRELOAD interception of selected Mbuf/Buff allocation and size APIs'')]"

definition summary_doc ::
  "(string \<times> block_summary) list \<Rightarrow> (string \<times> pyval) list \<Rightarrow> (string \<times> pyval) list" where
  "summary_doc blocks routes =
     [(''schema_version'', PInt 2),
      (''metric'', PStr (''DataFlow tensor payload and CANN runtime memcpy activity inside measured ''
         @ ''EngineCore epoch windows'')),
      (''measurement_boundaries'', MEASUREMENT_BOUNDARIES),
      (''status'', PStr (summary_status blocks)),
      (''reason'', (if summary_status blocks = ''observed'' then PNone else PStr (summary_reason blocks))),
      (''logical_abi_bytes_used_as_transfer'', PBool False),
      (''dataflow_tensor_payload_is_physical_link_bytes'', PBool False),
      (''physical_link_bytes_claimed'', PBool False),
      (''clock'', PStr ''CLOCK_REALTIME/time.time_ns''),
      (''blocks'', PDict (map (\<lambda>(label, b). (label, PDict (block_doc b))) blocks)),
      (''routes'', PDict routes),
      (''expected_dataflow_payload'', PDict [(''old'', expected_payload ''old''), (''new'', expected_payload ''new'')])]"

definition summarize_trace ::
  "evidence_io \<Rightarrow> (string, string) dict \<Rightarrow> (string, string) dict \<Rightarrow> string \<Rightarrow> evidence
   \<Rightarrow> (exn + (string \<times> pyval) list) \<times> evidence" where
  "summarize_trace io traces results dir files =
     (case summarize_blocks io traces results dir BLOCKS files of
        (Inl e, files') \<Rightarrow> (Inl e, files')
      | (Inr blocks, files') \<Rightarrow>
          (rbind (route_samples blocks ''old'') (\<lambda>old. rbind (route_samples blocks ''new'') (\<lambda>new.
           rbind (summarize_route old) (\<lambda>old_doc. rbind (summarize_route new) (\<lambda>new_doc.
             Inr (summary_doc blocks [(''old'', PDict old_doc), (''new'', PDict new_doc)]))))), files'))"

text \<open>\<open>main\<close>: the summary is written and printed; 0 when it is observed, 2 when not, 1 when it is invalid.\<close>

definition trace_main ::
  "evidence_io \<Rightarrow> (string, string) dict \<Rightarrow> (string, string) dict \<Rightarrow> string \<Rightarrow> string \<Rightarrow> evidence
   \<Rightarrow> (exn + int) \<times> evidence" where
  "trace_main io traces results dir output files =
     (case summarize_trace io traces results dir files of
        (Inl e, files') \<Rightarrow>
          ((case e of
              OSError _ \<Rightarrow> Inr 1 | FileNotFoundError _ \<Rightarrow> Inr 1 | ValueError _ \<Rightarrow> Inr 1
            | UnicodeError _ \<Rightarrow> Inr 1 | JSONDecodeError _ \<Rightarrow> Inr 1 | _ \<Rightarrow> Inl e), files')
      | (Inr doc, files') \<Rightarrow>
          (Inr (if py_get doc ''status'' = PStr ''observed'' then 0 else 2),
           AList.update output (io_dumps io (PDict doc)) files'))"

end
