(* ===== verification/TransferVerify.thy ===== *)
theory TransferVerify
  imports TransferTrace
begin

text \<open>
  The part of \<open>verify_abi_comparison_result.py\<close> that recomputes a summary of copies from the raw
  trace. It has its own reading of the trace and its own checks; its constants, its loop over
  windows and records, and its helpers \<open>_transport\<close>, \<open>_runtime_direction\<close> and \<open>_call_count\<close>
  repeat those of the summarizer and are shared with \<open>TransferTrace\<close> here.
\<close>

definition require :: "bool \<Rightarrow> string \<Rightarrow> exn + unit" where
  "require condition message = (if condition then Inr () else Inl (ValueError message))"

lemma require_Inr [res_simps]: "require c m = Inr u \<longleftrightarrow> c"
  by (simp add: require_def)

lemma require_True [simp]: "require True m = Inr ()"
  by (simp add: require_def)

lemma require_then: "rbind (require c m) (\<lambda>_. k) = Inr y \<longleftrightarrow> c \<and> k = Inr y"
  by (simp add: require_def)

text \<open>\<open>EXPECTED_TENSOR_BYTES\<close>, written out.\<close>

definition EXPECTED_TENSOR_BYTES :: "string \<Rightarrow> string \<Rightarrow> int list" where
  "EXPECTED_TENSOR_BYTES route direction =
     (if route = ''old'' then
        (if direction = ''host_to_device'' then [32, 32, 16, 29360128, 16, 16, 32, 29360128, 72, 44]
         else [19464192, 256, 29360128, 29360128, 32, 32, 16, 16, 16, 112])
      else (if direction = ''host_to_device'' then [32, 32, 16, 16, 16, 32, 72, 44] else [256, 112]))"

section \<open>Files and values\<close>

text \<open>\<open>Path(d.get(k, ""))\<close>, and \<open>is_file\<close>.\<close>

definition path_entry :: "(string \<times> pyval) list \<Rightarrow> string \<Rightarrow> exn + string" where
  "path_entry d k =
     (case map_of d k of
        None \<Rightarrow> Inr ''''
      | Some (PStr s) \<Rightarrow> Inr s
      | Some _ \<Rightarrow> Inl (TypeError ''argument should be a str or an os.PathLike object''))"

definition evidence_file :: "evidence \<Rightarrow> string \<Rightarrow> bool" where
  "evidence_file files path \<longleftrightarrow> map_of files path \<noteq> None"

text \<open>A file that an entry names with its digest.\<close>

definition check_hashed ::
  "evidence_io \<Rightarrow> evidence \<Rightarrow> (string \<times> pyval) list \<Rightarrow> string \<Rightarrow> string \<Rightarrow> string \<Rightarrow> string \<Rightarrow> exn + string" where
  "check_hashed io files d path_key hash_key missing mismatch =
     rbind (path_entry d path_key) (\<lambda>path.
     rbind (require (evidence_file files path) missing) (\<lambda>_.
     rbind (evidence_sha256 io files path) (\<lambda>h.
     rbind (require (py_get d hash_key = PStr h) mismatch) (\<lambda>_. Inr path))))"

definition load_hashed :: "evidence_io \<Rightarrow> evidence \<Rightarrow> (string \<times> pyval) list \<Rightarrow> string \<Rightarrow> exn + pyval" where
  "load_hashed io files entry label =
     rbind (check_hashed io files entry ''path'' ''sha256'' (label @ '': missing input file'') (label @ '': SHA256 mismatch''))
       (load_json io files)"

text \<open>\<open>v[i]\<close> for an index from zero.\<close>

definition value_index :: "pyval \<Rightarrow> nat \<Rightarrow> exn + pyval" where
  "value_index v i =
     (case v of
        PList xs \<Rightarrow> seq_item xs (int i)
      | PStr s \<Rightarrow> if i < length s then Inr (PStr [s ! i]) else Inl (IndexError ''string index out of range'')
      | PDict d \<Rightarrow> Inl (KeyError (nat_str i))
      | _ \<Rightarrow> Inl (TypeError ''object is not subscriptable''))"

section \<open>Reading the raw trace\<close>

definition verify_call :: "nat \<times> table_row \<Rightarrow> exn + trace_call" where
  "verify_call numbered =
     (let (line, row) = numbered in
      case trace_api row of
        None \<Rightarrow> Inl (ValueError (''invalid raw trace API at line '' @ nat_str line))
      | Some api \<Rightarrow>
          rbind (require (api \<in> set TRACE_APIS) (''invalid raw trace API at line '' @ nat_str line)) (\<lambda>_.
          case map_res (trace_int row) (tl TRACE_FIELDS) of
            Inr [pid, tid, start_ns, end_ns, bytes, dest_max, kind, status] \<Rightarrow>
              rbind (require (0 < start_ns \<and> start_ns \<le> end_ns)
                (''invalid raw trace timestamp at line '' @ nat_str line)) (\<lambda>_.
              rbind (require (0 \<le> bytes \<and> bytes \<le> dest_max)
                (''invalid raw trace byte count at line '' @ nat_str line)) (\<lambda>_.
              Inr \<lparr>tc_api = api, tc_pid = pid, tc_tid = tid, tc_start = start_ns, tc_end = end_ns,
                    tc_bytes = bytes, tc_dest_max = dest_max, tc_kind = kind, tc_status = status\<rparr>))
          | _ \<Rightarrow> Inl (ValueError (''invalid raw trace row at line '' @ nat_str line))))"

definition verify_read_trace :: "evidence_io \<Rightarrow> evidence \<Rightarrow> string \<Rightarrow> exn + trace_call list" where
  "verify_read_trace io files path =
     rbind (read_table io files path) (\<lambda>rows.
     rbind (require (table_header rows = TRACE_FIELDS) ''unexpected raw trace header'') (\<lambda>_.
       map_res verify_call (enumerate 2 (table_body rows))))"

section \<open>Recomputing a block\<close>

definition raw_int :: "pyval \<Rightarrow> string \<Rightarrow> exn + int" where
  "raw_int sample field = rbind (value_item sample field) py_int"

text \<open>The sample as the verifier builds it, from rows that passed its checks.\<close>

definition recomputed_sample :: "nat \<Rightarrow> int \<times> int \<Rightarrow> trace_call list \<Rightarrow> sample_summary" where
  "recomputed_sample index window rows =
     (let feed = with_api FEED rows; fetch = with_api FETCH rows;
          runtime = with_apis RUNTIME_MEMCPY_APIS rows; mbuf = with_apis MBUF_DIAGNOSTIC_APIS rows
      in \<lparr>ss_sample = int index, ss_window_start = fst window, ss_window_end = snd window,
          ss_dataflow_status = ''observed'', ss_feed_calls = 1, ss_fetch_calls = 1,
          ss_feed_count = int (length feed), ss_fetch_count = int (length fetch),
          ss_feed_bytes = sizes feed, ss_fetch_bytes = sizes fetch,
          ss_h2d_bytes = sum_list (sizes feed), ss_d2h_bytes = sum_list (sizes fetch),
          ss_total_bytes = sum_list (sizes feed) + sum_list (sizes fetch),
          ss_dataflow_failed = 0,
          ss_runtime_status = runtime_status_of runtime,
          ss_runtime_records = int (length runtime),
          ss_runtime_failed = int (failed_records runtime),
          ss_runtime_h2d_records = fst (directional runtime ''host_to_device''),
          ss_runtime_d2h_records = fst (directional runtime ''device_to_host''),
          ss_runtime_h2d_bytes = snd (directional runtime ''host_to_device''),
          ss_runtime_d2h_bytes = snd (directional runtime ''device_to_host''),
          ss_runtime_total_bytes = sum_list (map (snd \<circ> snd) (directional_totals runtime)),
          ss_mbuf_records = int (length mbuf),
          ss_mbuf_failed = int (failed_records mbuf)\<rparr>)"

definition check_reported :: "string \<Rightarrow> nat \<Rightarrow> pyval \<Rightarrow> sample_summary \<Rightarrow> exn + unit" where
  "check_reported label index reported recomputed =
     for_each (\<lambda>(field, expected).
       rbind (value_get reported field) (\<lambda>v.
         require (py_eq v expected)
           (''recomputed '' @ field @ '' mismatch: '' @ label @ ''/'' @ nat_str index)))
     (sample_doc recomputed)"

definition check_rows :: "string \<Rightarrow> string \<Rightarrow> nat \<Rightarrow> trace_call list \<Rightarrow> exn + unit" where
  "check_rows label route index rows =
     (let where_at = label @ ''/'' @ nat_str index; feed = with_api FEED rows; fetch = with_api FETCH rows in
      rbind (require (sizes feed = EXPECTED_TENSOR_BYTES route ''host_to_device'')
        (''DataFlow Feed tensor payload mismatch: '' @ where_at)) (\<lambda>_.
      rbind (require (sizes fetch = EXPECTED_TENSOR_BYTES route ''device_to_host'')
        (''DataFlow Fetch tensor payload mismatch: '' @ where_at)) (\<lambda>_.
      rbind (require (dataflow_call_count rows FEED = 1) (''DataFlow Feed call count mismatch: '' @ where_at)) (\<lambda>_.
      rbind (require (dataflow_call_count rows FETCH = 1) (''DataFlow Fetch call count mismatch: '' @ where_at)) (\<lambda>_.
        require (\<forall>row \<in> set (feed @ fetch). tc_status row = 0) (''failed DataFlow record: '' @ where_at))))))"

definition recompute_sample ::
  "string \<Rightarrow> string \<Rightarrow> (string \<times> pyval) list \<Rightarrow> trace_call list \<Rightarrow> nat \<times> pyval \<Rightarrow> scan \<Rightarrow> exn + scan" where
  "recompute_sample label route block calls numbered s =
     (let (index, raw_sample) = numbered in
      rbind (raw_int raw_sample ''epoch_wall_clock_start_ns'') (\<lambda>window_start.
      rbind (raw_int raw_sample ''epoch_wall_clock_end_ns'') (\<lambda>window_end.
      rbind (require (window_start < window_end) (''invalid raw epoch window: '' @ label)) (\<lambda>_.
      rbind (fold_res (scan_call label index (window_start, window_end)) (enumerate 0 calls)
        (s\<lparr>sn_contained := []\<rparr>)) (\<lambda>t.
      rbind (check_rows label route index (sn_contained t)) (\<lambda>_.
        let recomputed = recomputed_sample index (window_start, window_end) (sn_contained t) in
        rbind (dict_item block ''samples'') (\<lambda>samples.
        rbind (value_index samples index) (\<lambda>reported.
        rbind (check_reported label index reported recomputed) (\<lambda>_.
          Inr (t\<lparr>sn_samples := sn_samples t @ [recomputed]\<rparr>))))))))))"

text \<open>\<open>_normalize_filtered_row\<close> of a row that was read.\<close>

definition normalize_filtered_row :: "table_row \<Rightarrow> string list" where
  "normalize_filtered_row row =
     map (\<lambda>field. case map_of row field of None \<Rightarrow> '''' | Some None \<Rightarrow> ''None'' | Some (Some s) \<Rightarrow> s)
       FILTERED_TRACE_FIELDS"

definition check_filtered ::
  "evidence_io \<Rightarrow> evidence \<Rightarrow> string \<Rightarrow> (string \<times> pyval) list \<Rightarrow> string list list \<Rightarrow> exn + unit" where
  "check_filtered io files label block expected_filtered =
     rbind (check_hashed io files block ''filtered_trace_path'' ''filtered_trace_sha256''
       (''missing filtered transfer trace: '' @ label) (''filtered transfer trace SHA256 mismatch: '' @ label)) (\<lambda>path.
     rbind (read_table io files path) (\<lambda>rows.
     rbind (require (table_header rows = FILTERED_TRACE_FIELDS)
       (''unexpected filtered transfer trace header: '' @ label)) (\<lambda>_.
       require (map normalize_filtered_row (table_body rows) = expected_filtered)
         (''filtered transfer rows do not match raw trace: '' @ label))))"

definition require_entry :: "(string \<times> pyval) list \<Rightarrow> string \<Rightarrow> pyval \<Rightarrow> string \<Rightarrow> exn + unit" where
  "require_entry block key expected message = require (py_eq (py_get block key) expected) message"

definition check_counts ::
  "string \<Rightarrow> (string \<times> pyval) list \<Rightarrow> trace_call list \<Rightarrow> scan \<Rightarrow> exn + unit" where
  "check_counts label block calls s =
     rbind (transport_counts calls) (\<lambda>raw_by.
     rbind (transport_counts (measured_calls calls s)) (\<lambda>measured_by.
     rbind (require_entry block ''raw_record_count'' (PInt (int (length calls))) (''raw count: '' @ label)) (\<lambda>_.
     rbind (require_entry block ''raw_records_by_transport'' (counts_doc raw_by) (''raw transport counts: '' @ label)) (\<lambda>_.
     rbind (require_entry block ''measured_record_count'' (PInt (int (length (sn_measured s)))) (''measured count: '' @ label)) (\<lambda>_.
     rbind (require_entry block ''measured_records_by_transport'' (counts_doc measured_by)
       (''measured transport counts: '' @ label)) (\<lambda>_.
     rbind (require_entry block ''outside_window_records_by_transport'' (counts_doc (outside_counts raw_by measured_by))
       (''outside-window transport counts: '' @ label)) (\<lambda>_.
       require_entry block ''failed_measured_records'' (PInt (int (failed_records (measured_calls calls s))))
         (''failed measured records: '' @ label))))))))"

definition recompute_transfer_block ::
  "evidence_io \<Rightarrow> evidence \<Rightarrow> string \<Rightarrow> string \<Rightarrow> (string \<times> pyval) list \<Rightarrow> pyval \<Rightarrow> exn + sample_summary list" where
  "recompute_transfer_block io files label route block raw_block =
     rbind (check_hashed io files block ''trace_path'' ''trace_sha256''
       (''missing raw transfer trace: '' @ label) (''raw transfer trace SHA256 mismatch: '' @ label)) (\<lambda>trace_path.
     rbind (check_hashed io files block ''benchmark_result_path'' ''benchmark_result_sha256''
       (''missing benchmark result: '' @ label) (''benchmark result SHA256 mismatch: '' @ label)) (\<lambda>benchmark_path.
     rbind (load_json io files benchmark_path) (\<lambda>benchmark.
     rbind (require (py_eq benchmark raw_block) (''benchmark result does not match analyzer input: '' @ label)) (\<lambda>_.
     rbind (verify_read_trace io files trace_path) (\<lambda>calls.
     rbind (value_item raw_block ''samples'') (\<lambda>raw_samples.
     rbind (case raw_samples of PList xs \<Rightarrow> Inr xs | _ \<Rightarrow> Inl (TypeError ''object is not iterable'')) (\<lambda>xs.
     rbind (fold_res (recompute_sample label route block calls) (enumerate 0 xs) scan_start) (\<lambda>s.
     rbind (require (sn_boundary_keys s = []) (''epoch boundary crossing: '' @ label)) (\<lambda>_.
     rbind (require_entry block ''boundary_crossing_records'' (PInt (int (length (sn_boundary s))))
       (''boundary record count mismatch: '' @ label)) (\<lambda>_.
     rbind (require_entry block ''boundary_crossing_calls'' (PInt (int (length (sn_boundary_keys s))))
       (''boundary call count mismatch: '' @ label)) (\<lambda>_.
     rbind (check_filtered io files label block (sn_filtered s)) (\<lambda>_.
     rbind (check_counts label block calls s) (\<lambda>_.
     rbind (require_entry block ''runtime_memcpy_status'' (PStr (block_runtime_status (sn_samples s) False))
       (''runtime memcpy block status mismatch: '' @ label)) (\<lambda>_.
     rbind (require_entry block ''status'' (PStr ''observed'') (''transfer block failed: '' @ label)) (\<lambda>_.
       Inr (sn_samples s))))))))))))))))"

section \<open>The summaries of the routes\<close>

text \<open>\<open>d.get(k, {})\<close> of a value that should be a dictionary.\<close>

definition value_get_dict_default :: "pyval \<Rightarrow> string \<Rightarrow> exn + pyval" where
  "value_get_dict_default v k =
     (case v of
        PDict d \<Rightarrow> Inr (case map_of d k of None \<Rightarrow> PDict [] | Some w \<Rightarrow> w)
      | _ \<Rightarrow> Inl (AttributeError ''object has no attribute get''))"

definition verify_route ::
  "pyval \<Rightarrow> string \<times> sample_summary list \<Rightarrow> exn + unit" where
  "verify_route transfer numbered =
     (let (route, samples) = numbered in
      rbind (value_get_dict_default transfer ''routes'') (\<lambda>routes.
      rbind (value_get_dict_default routes route) (\<lambda>reported.
      rbind (value_get reported ''sample_count'') (\<lambda>n.
      rbind (require (py_eq n (PInt 30)) (''transfer route count: '' @ route)) (\<lambda>_.
      rbind (for_each (\<lambda>(name, field).
          rbind (median (map field samples)) (\<lambda>expected.
          rbind (value_get reported (name @ ''_median'')) (\<lambda>v.
            require (py_eq v expected) (''transfer route median: '' @ route @ ''/'' @ name)))) MEDIAN_FIELDS) (\<lambda>_.
      rbind (value_get reported ''runtime_memcpy_statuses'') (\<lambda>v.
        require (py_eq v (status_set samples)) (''runtime status set: '' @ route))))))))"

definition verify_route_summaries ::
  "pyval \<Rightarrow> (string \<times> sample_summary list) list \<Rightarrow> exn + unit" where
  "verify_route_summaries transfer samples = for_each (verify_route transfer) samples"

end
