(* ===== verification/TransferProps.thy ===== *)
theory TransferProps
  imports TransferVerify
begin

text \<open>
  The properties of the summary of copies: every record is counted once, an observed block
  carries exactly the tensors of its ABI, and the verifier that recomputes the summary from
  the raw trace accepts what the summarizer wrote.
\<close>

section \<open>Records\<close>

text \<open>What the checks of either reader give.\<close>

definition sound_call :: "trace_call \<Rightarrow> bool" where
  "sound_call c \<longleftrightarrow> tc_api c \<in> set TRACE_APIS \<and> 0 < tc_start c \<and> tc_start c \<le> tc_end c
     \<and> 0 \<le> tc_bytes c \<and> tc_bytes c \<le> tc_dest_max c"

lemma length_trace_fields: "length (tl TRACE_FIELDS) = 8"
  by (simp add: TRACE_FIELDS_def)

lemma list_of_eight:
  "length xs = 8 \<Longrightarrow> \<exists>a b c d e f g h. xs = [a, b, c, d, e, f, g, h]"
  by (auto simp: length_Suc_conv eval_nat_numeral)

lemma trace_ints:
  assumes "map_res (trace_int row) (tl TRACE_FIELDS) = Inr xs"
  obtains a b c d e f g h where "xs = [a, b, c, d, e, f, g, h]"
  using list_of_eight [of xs] map_res_length [OF assms] length_trace_fields by metis

text \<open>The two readers of a row accept the same rows and read the same record.\<close>

lemma read_call_iff:
  "read_call path (line, row) = Inr c \<longleftrightarrow>
     sound_call c \<and> trace_api row = Some (tc_api c)
     \<and> map_res (trace_int row) (tl TRACE_FIELDS)
       = Inr [tc_pid c, tc_tid c, tc_start c, tc_end c, tc_bytes c, tc_dest_max c, tc_kind c, tc_status c]"
proof (cases "map_res (trace_int row) (tl TRACE_FIELDS)")
  case (Inl e)
  then show ?thesis by (simp add: read_call_def)
next
  case (Inr xs)
  then obtain a b c' d e f g h where "xs = [a, b, c', d, e, f, g, h]" by (rule trace_ints)
  with Inr show ?thesis
    by (cases c) (auto simp: read_call_def Let_def sound_call_def split: option.splits if_splits)
qed

lemma verify_call_iff: "verify_call (line, row) = Inr c \<longleftrightarrow> read_call path (line, row) = Inr c"
proof (cases "map_res (trace_int row) (tl TRACE_FIELDS)")
  case (Inl e)
  then show ?thesis by (auto simp: read_call_def Let_def verify_call_def rbind_Inr_iff split: option.splits)
next
  case (Inr xs)
  then obtain a b c' d e f g h where "xs = [a, b, c', d, e, f, g, h]" by (rule trace_ints)
  with Inr show ?thesis
    by (auto simp: read_call_def Let_def verify_call_def require_def split: option.splits if_splits)
qed

lemma map_res_cong_Inr:
  "(\<And>x y. f x = Inr y \<longleftrightarrow> g x = Inr y) \<Longrightarrow> map_res f xs = Inr ys \<longleftrightarrow> map_res g xs = Inr ys"
  by (simp add: map_res_list_all2)

lemma verify_read_trace_iff:
  "verify_read_trace io files path = Inr calls \<longleftrightarrow> read_trace io files path = Inr calls"
proof -
  have "map_res verify_call xs = Inr calls \<longleftrightarrow> map_res (read_call path) xs = Inr calls" for xs
    by (rule map_res_cong_Inr) (metis verify_call_iff surj_pair)
  then show ?thesis
    by (auto simp: verify_read_trace_def read_trace_def rbind_Inr_iff require_def)
qed

lemma read_trace_sound: "read_trace io files path = Inr calls \<Longrightarrow> c \<in> set calls \<Longrightarrow> sound_call c"
  by (auto simp: read_trace_def rbind_Inr_iff read_call_iff dest!: map_res_set split: if_splits)

lemma transport_classified:
  "api \<in> set TRACE_APIS \<Longrightarrow> \<exists>k. transport api = Inr k"
  by (auto simp: transport_def TRACE_APIS_def)

definition transport_name :: "string \<Rightarrow> string" where
  "transport_name api = (case transport api of Inr k \<Rightarrow> k | Inl _ \<Rightarrow> '''')"

lemma transport_name: "api \<in> set TRACE_APIS \<Longrightarrow> transport api = Inr (transport_name api)"
  using transport_classified [of api] by (auto simp: transport_name_def)

section \<open>The scan in closed form\<close>

definition crossing :: "int \<times> int \<Rightarrow> trace_call \<Rightarrow> bool" where
  "crossing window call \<longleftrightarrow> overlaps window call \<and> \<not> inside window call"

definition key_of_call :: "trace_call \<Rightarrow> call_key" where
  "key_of_call c = (transport_name (tc_api c), tc_api c, tc_pid c, tc_tid c, tc_start c, tc_end c)"

text \<open>The indexes, from \<open>n\<close>, of the records that satisfy a predicate.\<close>

definition indexes :: "(trace_call \<Rightarrow> bool) \<Rightarrow> nat \<Rightarrow> trace_call list \<Rightarrow> nat list" where
  "indexes P n calls = map fst (filter (\<lambda>(_, c). P c) (enumerate n calls))"

lemma indexes_Cons: "indexes P n (c # cs) = (if P c then n # indexes P (Suc n) cs else indexes P (Suc n) cs)"
  by (simp add: indexes_def)

lemma indexes_Nil [simp]: "indexes P n [] = []"
  by (simp add: indexes_def)

lemma scan_call_eq:
  assumes "tc_api c \<in> set TRACE_APIS"
  shows "scan_call label i w (k, c) s = Inr
    (if crossing w c then
       s\<lparr>sn_boundary := List.insert k (sn_boundary s),
         sn_boundary_keys := List.insert (key_of_call c) (sn_boundary_keys s)\<rparr>
     else if inside w c then
       s\<lparr>sn_measured := List.insert k (sn_measured s), sn_contained := sn_contained s @ [c],
         sn_filtered := sn_filtered s @ [filtered_row label i (transport_name (tc_api c)) c]\<rparr>
     else s)"
  by (simp add: scan_call_def crossing_def key_of_call_def transport_name [OF assms])

lemma crossing_not_inside: "crossing w c \<Longrightarrow> \<not> inside w c"
  by (simp add: crossing_def)

lemma scan_calls:
  assumes "\<And>c. c \<in> set calls \<Longrightarrow> tc_api c \<in> set TRACE_APIS"
  shows "fold_res (scan_call label i w) (enumerate n calls) s = Inr
    (s\<lparr>sn_measured := fold List.insert (indexes (inside w) n calls) (sn_measured s),
       sn_boundary := fold List.insert (indexes (crossing w) n calls) (sn_boundary s),
       sn_boundary_keys := fold List.insert (map key_of_call (filter (crossing w) calls)) (sn_boundary_keys s),
       sn_filtered := sn_filtered s
         @ map (\<lambda>c. filtered_row label i (transport_name (tc_api c)) c) (filter (inside w) calls),
       sn_contained := sn_contained s @ filter (inside w) calls\<rparr>)"
  using assms
proof (induction calls arbitrary: n s)
  case (Cons c cs)
  then have "tc_api c \<in> set TRACE_APIS" by simp
  moreover have "\<And>c. c \<in> set cs \<Longrightarrow> tc_api c \<in> set TRACE_APIS" using Cons.prems by simp
  ultimately show ?case
    by (cases "crossing w c"; cases "inside w c")
      (simp_all add: scan_call_eq Cons.IH indexes_Cons crossing_not_inside)
qed simp

text \<open>One window, and all of them, apart from the samples.\<close>

definition scan_of :: "string \<Rightarrow> trace_call list \<Rightarrow> nat \<times> int \<times> int \<Rightarrow> scan \<Rightarrow> scan" where
  "scan_of label calls numbered s =
     (let (i, w) = numbered in
      s\<lparr>sn_measured := fold List.insert (indexes (inside w) 0 calls) (sn_measured s),
        sn_boundary := fold List.insert (indexes (crossing w) 0 calls) (sn_boundary s),
        sn_boundary_keys := fold List.insert (map key_of_call (filter (crossing w) calls)) (sn_boundary_keys s),
        sn_filtered := sn_filtered s
          @ map (\<lambda>c. filtered_row label i (transport_name (tc_api c)) c) (filter (inside w) calls),
        sn_contained := filter (inside w) calls\<rparr>)"

definition scan_all :: "string \<Rightarrow> trace_call list \<Rightarrow> (nat \<times> int \<times> int) list \<Rightarrow> scan \<Rightarrow> scan" where
  "scan_all label calls windows s = fold (scan_of label calls) windows s"

lemma scan_all_simps [simp]:
  "scan_all label calls [] s = s"
  "scan_all label calls (w # ws) s = scan_all label calls ws (scan_of label calls w s)"
  by (simp_all add: scan_all_def)

lemma scan_of_samples: "scan_of label calls w (s\<lparr>sn_samples := xs\<rparr>) = (scan_of label calls w s)\<lparr>sn_samples := xs\<rparr>"
  by (simp add: scan_of_def split: prod.split)

lemma scan_all_samples: "scan_all label calls ws (s\<lparr>sn_samples := xs\<rparr>) = (scan_all label calls ws s)\<lparr>sn_samples := xs\<rparr>"
  by (induction ws arbitrary: s) (simp_all add: scan_of_samples)

lemma scan_all_kept [simp]: "sn_samples (scan_all label calls ws s) = sn_samples s"
  by (induction ws arbitrary: s) (simp_all add: scan_of_def split: prod.split)

lemma scan_all_measured:
  "sn_measured (scan_all label calls ws s)
    = fold List.insert (concat (map (\<lambda>(i, w). indexes (inside w) 0 calls) ws)) (sn_measured s)"
  by (induction ws arbitrary: s) (auto simp: scan_of_def)

lemma scan_all_boundary:
  "sn_boundary (scan_all label calls ws s)
    = fold List.insert (concat (map (\<lambda>(i, w). indexes (crossing w) 0 calls) ws)) (sn_boundary s)"
  by (induction ws arbitrary: s) (auto simp: scan_of_def)

lemma scan_all_keys:
  "sn_boundary_keys (scan_all label calls ws s)
    = fold List.insert (concat (map (\<lambda>(i, w). map key_of_call (filter (crossing w) calls)) ws)) (sn_boundary_keys s)"
  by (induction ws arbitrary: s) (auto simp: scan_of_def)

lemma scan_all_filtered:
  "sn_filtered (scan_all label calls ws s) = sn_filtered s
    @ concat (map (\<lambda>(i, w). map (\<lambda>c. filtered_row label i (transport_name (tc_api c)) c) (filter (inside w) calls)) ws)"
  by (induction ws arbitrary: s) (auto simp: scan_of_def)

lemma scan_one_window:
  assumes "\<And>c. c \<in> set calls \<Longrightarrow> tc_api c \<in> set TRACE_APIS"
  shows "fold_res (scan_call label i w) (enumerate 0 calls) (s\<lparr>sn_contained := []\<rparr>) = Inr (scan_of label calls (i, w) s)"
  by (simp add: scan_calls [OF assms] scan_of_def)

lemma scan_windows:
  assumes "\<And>c. c \<in> set calls \<Longrightarrow> tc_api c \<in> set TRACE_APIS"
  shows "fold_res (scan_window label route calls) windows s = Inr
    ((scan_all label calls windows s)\<lparr>sn_samples := sn_samples s
       @ map (\<lambda>(i, w). summarize_sample route i w (filter (inside w) calls)) windows\<rparr>)"
proof (induction windows arbitrary: s)
  case (Cons numbered windows)
  obtain i w where nw: "numbered = (i, w)" by (cases numbered)
  have "scan_window label route calls numbered s = Inr ((scan_of label calls (i, w) s)
      \<lparr>sn_samples := sn_samples s @ [summarize_sample route i w (filter (inside w) calls)]\<rparr>)"
    unfolding nw scan_window_def by (simp add: scan_one_window [OF assms]) (simp add: scan_of_def)
  then show ?case by (simp add: nw Cons.IH scan_all_samples)
qed simp

text \<open>The state of a whole block.\<close>

definition block_scan :: "string \<Rightarrow> string \<Rightarrow> trace_call list \<Rightarrow> (int \<times> int) list \<Rightarrow> scan" where
  "block_scan label route calls windows =
     (scan_all label calls (enumerate 0 windows) scan_start)
       \<lparr>sn_samples := map (\<lambda>(i, w). summarize_sample route i w (filter (inside w) calls)) (enumerate 0 windows)\<rparr>"

lemma scan_block_total:
  assumes "\<forall>c \<in> set calls. sound_call c"
  shows "scan_block label route calls windows = Inr (block_scan label route calls windows)"
  using assms by (simp add: scan_block_def block_scan_def scan_windows sound_call_def scan_start_def)

section \<open>The windows are disjoint\<close>

definition windows_wf :: "(int \<times> int) list \<Rightarrow> bool" where
  "windows_wf ws \<longleftrightarrow> sorted_wrt (\<lambda>v w. snd v < fst w) ws \<and> (\<forall>w \<in> set ws. fst w < snd w)"

lemma windows_wf_snoc:
  assumes "windows_wf ws" and "fst w < snd w" and "ws \<noteq> [] \<longrightarrow> snd (last ws) < fst w"
  shows "windows_wf (ws @ [w])"
proof -
  have "snd v < fst w" if "v \<in> set ws" for v
  proof (cases "v = last ws")
    case True
    with assms(3) that show ?thesis by auto
  next
    case False
    obtain us where ws: "ws = us @ [last ws]" using \<open>v \<in> set ws\<close> by (metis append_butlast_last_id empty_iff empty_set)
    with False that have "v \<in> set us" by (metis Un_iff empty_iff insert_iff list.set set_append)
    with assms(1) ws have "snd v < fst (last ws)"
      unfolding windows_wf_def by (metis list.set_intros(1) sorted_wrt_append)
    moreover have "fst (last ws) < snd (last ws)"
      using assms(1) ws unfolding windows_wf_def by (metis in_set_conv_decomp)
    ultimately show ?thesis using assms(3) that by auto
  qed
  with assms(1,2) show ?thesis by (auto simp: windows_wf_def sorted_wrt_append)
qed

text \<open>A sample's window, when it has one.\<close>

definition sample_window :: "pyval \<Rightarrow> int \<times> int \<Rightarrow> bool" where
  "sample_window sample w \<longleftrightarrow> (\<exists>d. sample = PDict d
     \<and> python_int (py_get d ''epoch_wall_clock_start_ns'') = Some (fst w)
     \<and> python_int (py_get d ''epoch_wall_clock_end_ns'') = Some (snd w))"

lemma value_get_Inr: "value_get v k = Inr x \<longleftrightarrow> (\<exists>d. v = PDict d \<and> x = py_get d k)"
  by (auto simp: value_get_def split: pyval.splits)

lemma read_windows_Cons:
  "read_windows path ((i, sample) # samples) ws = Inr vs \<longleftrightarrow>
    (\<exists>w. sample_window sample w \<and> fst w < snd w \<and> (ws \<noteq> [] \<longrightarrow> snd (last ws) < fst w)
      \<and> read_windows path samples (ws @ [w]) = Inr vs)"
proof (cases sample)
  case (PDict d)
  then show ?thesis
    by (cases "python_int (py_get d ''epoch_wall_clock_start_ns'')"; cases "python_int (py_get d ''epoch_wall_clock_end_ns'')")
      (auto simp: sample_window_def)
qed (simp_all add: sample_window_def value_get_def)

lemma read_windows_spec:
  "read_windows path (enumerate n samples) ws = Inr vs \<Longrightarrow> windows_wf ws \<Longrightarrow>
    \<exists>us. vs = ws @ us \<and> list_all2 sample_window samples us \<and> windows_wf vs"
proof (induction samples arbitrary: n ws)
  case Nil
  then show ?case by simp
next
  case (Cons sample samples)
  from Cons.prems(1) obtain w where w: "sample_window sample w" "fst w < snd w" "ws \<noteq> [] \<longrightarrow> snd (last ws) < fst w"
      and rest: "read_windows path (enumerate (Suc n) samples) (ws @ [w]) = Inr vs"
    unfolding enumerate_simps read_windows_Cons by blast
  have "windows_wf (ws @ [w])" using Cons.prems(2) w by (intro windows_wf_snoc) auto
  from Cons.IH [OF rest this] obtain us
    where "vs = (ws @ [w]) @ us" "list_all2 sample_window samples us" "windows_wf vs" by blast
  with w(1) show ?case by (intro exI [of _ "w # us"]) simp
qed

lemma load_windows_spec:
  assumes "load_windows io files path = Inr ws"
  obtains d samples where "load_json io files path = Inr (PDict d)" and "py_get d ''samples'' = PList samples"
    and "length samples = 15" and "list_all2 sample_window samples ws" and "windows_wf ws"
proof -
  from assms obtain x v where x: "load_json io files path = Inr x" and v: "value_get x ''samples'' = Inr v"
      and k: "(case v of PList xs \<Rightarrow>
           if length xs \<noteq> 15 then Inl (ValueError (''benchmark result must contain 15 samples: '' @ path))
           else read_windows path (enumerate 0 xs) []
       | _ \<Rightarrow> Inl (ValueError (''benchmark result must contain 15 samples: '' @ path))) = Inr ws"
    unfolding load_windows_def rbind_Inr_iff by blast
  from v obtain d where d: "load_json io files path = Inr (PDict d)" and "v = py_get d ''samples''"
    using x by (auto simp: value_get_Inr)
  moreover from k obtain samples where "v = PList samples" and n: "length samples = 15"
      and windows: "read_windows path (enumerate 0 samples) [] = Inr ws"
    by (cases v) (auto split: if_splits)
  ultimately have samples: "py_get d ''samples'' = PList samples" by simp
  from read_windows_spec [OF windows] have "list_all2 sample_window samples ws" "windows_wf ws"
    by (auto simp: windows_wf_def)
  with d samples n show ?thesis using that by blast
qed

section \<open>Counting\<close>

lemma indexes_set: "k \<in> set (indexes P n calls) \<longleftrightarrow> n \<le> k \<and> k < n + length calls \<and> P (calls ! (k - n))"
proof (induction calls arbitrary: n)
  case (Cons c cs)
  then show ?case by (cases "k \<le> n") (auto simp: indexes_Cons nth_Cons')
qed simp

lemma indexes_distinct: "distinct (indexes P n calls)"
  by (induction calls arbitrary: n) (auto simp: indexes_Cons indexes_set)

lemma indexes_length: "length (indexes P n calls) = length (filter P calls)"
  by (induction calls arbitrary: n) (auto simp: indexes_Cons)

lemma indexes_calls: "map (\<lambda>k. (us @ calls) ! k) (indexes P (length us) calls) = filter P calls"
proof (induction calls arbitrary: us)
  case (Cons c cs)
  from Cons [of "us @ [c]"] show ?case by (simp add: indexes_Cons)
qed simp

lemma distinct_concat_map:
  "sorted_wrt (\<lambda>x y. set (f x) \<inter> set (f y) = {}) xs \<Longrightarrow> (\<And>x. x \<in> set xs \<Longrightarrow> distinct (f x)) \<Longrightarrow>
    distinct (concat (map f xs))"
  by (induction xs) auto

lemma fold_insert_distinct: "distinct (xs @ ys) \<Longrightarrow> fold List.insert xs ys = rev xs @ ys"
  by (induction xs arbitrary: ys) auto

lemma inside_once:
  assumes "windows_wf ws" and "\<forall>c \<in> set calls. sound_call c"
  shows "distinct (concat (map (\<lambda>w. indexes (inside w) 0 calls) ws))"
proof (rule distinct_concat_map)
  have "set (indexes (inside v) 0 calls) \<inter> set (indexes (inside w) 0 calls) = {}" if "snd v < fst w" for v w
    using that assms(2) by (fastforce simp: indexes_set inside_def sound_call_def dest: nth_mem)
  then show "sorted_wrt (\<lambda>v w. set (indexes (inside v) 0 calls) \<inter> set (indexes (inside w) 0 calls) = {}) ws"
    using assms(1) unfolding windows_wf_def by (metis (mono_tags, lifting) sorted_wrt_mono_rel)
qed (rule indexes_distinct)

lemma map_enumerate_snd: "map (\<lambda>(i, w). f w) (enumerate n ws) = map f ws"
  by (induction ws arbitrary: n) auto

text \<open>The measured records are those inside the windows, window by window.\<close>

lemma block_measured:
  assumes "windows_wf ws" and "\<forall>c \<in> set calls. sound_call c"
  shows "sn_measured (block_scan label route calls ws) = rev (concat (map (\<lambda>w. indexes (inside w) 0 calls) ws))"
  using fold_insert_distinct [of "concat (map (\<lambda>w. indexes (inside w) 0 calls) ws)" "[]"] inside_once [OF assms]
  by (simp add: block_scan_def scan_all_measured scan_start_def map_enumerate_snd)

lemma block_measured_calls:
  assumes "windows_wf ws" and "\<forall>c \<in> set calls. sound_call c"
  shows "measured_calls calls (block_scan label route calls ws) = rev (concat (map (\<lambda>w. filter (inside w) calls) ws))"
  using indexes_calls [of "[]" calls]
  by (simp add: measured_calls_def block_measured [OF assms] rev_map [symmetric] map_concat comp_def)

text \<open>Every record belongs to one transport: the payload, a runtime copy or a diagnostic.\<close>

lemma records_partition:
  assumes "\<And>c. c \<in> set rows \<Longrightarrow> tc_api c \<in> set TRACE_APIS"
  shows "length (with_api FEED rows) + length (with_api FETCH rows)
    + length (with_apis RUNTIME_MEMCPY_APIS rows) + length (with_apis MBUF_DIAGNOSTIC_APIS rows) = length rows"
  using assms
proof (induction rows)
  case (Cons c rows)
  then have rest: "length (with_api FEED rows) + length (with_api FETCH rows)
      + length (with_apis RUNTIME_MEMCPY_APIS rows) + length (with_apis MBUF_DIAGNOSTIC_APIS rows) = length rows"
    by simp
  have classes: "FEED \<noteq> FETCH" "FEED \<notin> set RUNTIME_MEMCPY_APIS" "FETCH \<notin> set RUNTIME_MEMCPY_APIS"
      "FEED \<notin> set MBUF_DIAGNOSTIC_APIS" "FETCH \<notin> set MBUF_DIAGNOSTIC_APIS"
      "set RUNTIME_MEMCPY_APIS \<inter> set MBUF_DIAGNOSTIC_APIS = {}"
    by (simp_all add: FEED_def FETCH_def RUNTIME_MEMCPY_APIS_def MBUF_DIAGNOSTIC_APIS_def)
  from Cons.prems [of c] consider "tc_api c = FEED" | "tc_api c = FETCH"
    | "tc_api c \<in> set RUNTIME_MEMCPY_APIS" | "tc_api c \<in> set MBUF_DIAGNOSTIC_APIS"
    by (auto simp: TRACE_APIS_def DATAFLOW_API_DIRECTIONS_def)
  then show ?case
    using rest classes by cases (auto simp: with_api_def with_apis_def)
qed (simp_all add: with_api_def with_apis_def)

lemma summarized_records:
  assumes "\<And>c. c \<in> set rows \<Longrightarrow> tc_api c \<in> set TRACE_APIS"
  shows "ss_feed_count (summarize_sample route i w rows) + ss_fetch_count (summarize_sample route i w rows)
    + ss_runtime_records (summarize_sample route i w rows) + ss_mbuf_records (summarize_sample route i w rows)
    = int (length rows)"
  using records_partition [of rows] assms by (simp add: summarize_sample_def Let_def flip: of_nat_add)

text \<open>The counters by transport.\<close>

definition kind_counts :: "string list \<Rightarrow> (string, int) dict" where
  "kind_counts kinds = map (\<lambda>t. (t, int (count_list kinds t))) (sort (remdups kinds))"

lemma transport_counts_Inr:
  assumes "\<And>c. c \<in> set calls \<Longrightarrow> tc_api c \<in> set TRACE_APIS"
  shows "transport_counts calls = Inr (kind_counts (map (transport_name \<circ> tc_api) calls))"
  using map_res_total [of calls "\<lambda>c. transport (tc_api c)" "transport_name \<circ> tc_api"] assms
  by (simp add: transport_counts_def transport_name kind_counts_def)

lemma map_of_map_key: "map_of (map (\<lambda>t. (t, f t)) ts) k = (if k \<in> set ts then Some (f k) else None)"
  by (induction ts) auto

lemma counter_get_counts:
  "counter_get (kind_counts kinds) k = int (count_list kinds k)"
  by (simp add: kind_counts_def counter_get_def map_of_map_key count_notin)

lemma outside_counts_sum:
  assumes "set measured \<subseteq> set raw"
  shows "sum_list (map snd (outside_counts (kind_counts raw) (kind_counts measured))) = int (length raw) - int (length measured)"
proof -
  have "sum_list (map snd (outside_counts (kind_counts raw) (kind_counts measured)))
    = sum_list (map (\<lambda>t. int (count_list raw t) - int (count_list measured t)) (sort (remdups raw)))"
    by (simp add: outside_counts_def counter_get_counts comp_def) (simp add: kind_counts_def comp_def)
  also have "\<dots> = (\<Sum>t \<in> set raw. int (count_list raw t) - int (count_list measured t))"
    by (simp add: sum_list_distinct_conv_sum_set)
  also have "\<dots> = int (\<Sum>t \<in> set raw. count_list raw t) - int (\<Sum>t \<in> set raw. count_list measured t)"
    by (simp add: sum_subtractf)
  also have "\<dots> = int (length raw) - int (length measured)"
    using sum_count_set [of raw "set raw"] sum_count_set [of measured "set raw"] assms by simp
  finally show ?thesis .
qed

lemma filter_in_windows:
  assumes "c \<in> set (concat (map (\<lambda>w. filter (inside w) calls) ws))"
  shows "c \<in> set calls"
  using assms by auto

section \<open>A block\<close>

text \<open>What a block that was summarized is.\<close>

lemma summarize_blockE:
  assumes "summarize_block io label trace result filtered files = (Inr b, files')"
  obtains route calls ws where "map_of ROUTES label = Some route" and "read_trace io files trace = Inr calls"
    and "load_windows io files result = Inr ws" and "map_of files filtered = None"
    and "files' = AList.update filtered
      (io_csv_text io (FILTERED_TRACE_FIELDS # sn_filtered (block_scan label route calls ws))) files"
    and "block_summary_of io files' route trace result filtered calls (block_scan label route calls ws) = Inr b"
proof -
  from assms obtain route calls ws s files1 where route: "dict_item ROUTES label = Inr route"
      and calls: "read_trace io files trace = Inr calls" and ws: "load_windows io files result = Inr ws"
      and s: "scan_block label route calls ws = Inr s"
      and w: "write_filtered io filtered (sn_filtered s) files = Inr files1"
      and b: "block_summary_of io files1 route trace result filtered calls s = Inr b" and f: "files1 = files'"
    unfolding summarize_block_def
    by (force simp: rbind_Inr_iff split: sum.splits prod.splits)
  from s have "s = block_scan label route calls ws"
    using scan_block_total [of calls label route ws] read_trace_sound [OF calls] by simp
  with w b f route calls ws show ?thesis
    by (intro that [of route calls ws]) (auto simp: write_filtered_def dict_item_Inr split: if_splits)
qed

lemma block_of_fields:
  assumes "block_summary_of io files route trace result filtered calls s = Inr b"
    and "\<forall>c \<in> set calls. sound_call c" and "set (measured_calls calls s) \<subseteq> set calls"
  shows "bk_samples b = sn_samples s" and "bk_route b = route"
    and "bk_measured_count b = int (length (sn_measured s))" and "bk_raw_count b = int (length calls)"
    and "bk_status b = (if (\<forall>x \<in> set (sn_samples s). ss_dataflow_status x = ''observed'')
      \<and> sn_boundary_keys s = [] \<and> failed_records (measured_calls calls s) = 0 then ''observed'' else ''not_observed'')"
    and "sum_list (map snd (bk_outside_by b)) = int (length calls) - int (length (measured_calls calls s))"
proof -
  have c1: "transport_counts calls = Inr (kind_counts (map (transport_name \<circ> tc_api) calls))"
    by (rule transport_counts_Inr) (use assms(2) in \<open>auto simp: sound_call_def\<close>)
  have c2: "transport_counts (measured_calls calls s) = Inr (kind_counts (map (transport_name \<circ> tc_api) (measured_calls calls s)))"
    by (rule transport_counts_Inr) (use assms(2,3) in \<open>auto simp: sound_call_def\<close>)
  show "bk_samples b = sn_samples s" "bk_route b = route"
      "bk_measured_count b = int (length (sn_measured s))" "bk_raw_count b = int (length calls)"
      "bk_status b = (if (\<forall>x \<in> set (sn_samples s). ss_dataflow_status x = ''observed'')
      \<and> sn_boundary_keys s = [] \<and> failed_records (measured_calls calls s) = 0 then ''observed'' else ''not_observed'')"
    using assms(1) unfolding block_summary_of_def c1 c2 by (auto simp: rbind_Inr_iff Let_def)
  have "bk_outside_by b = outside_counts (kind_counts (map (transport_name \<circ> tc_api) calls))
      (kind_counts (map (transport_name \<circ> tc_api) (measured_calls calls s)))"
    using assms(1) unfolding block_summary_of_def c1 c2 by (auto simp: rbind_Inr_iff Let_def)
  then show "sum_list (map snd (bk_outside_by b)) = int (length calls) - int (length (measured_calls calls s))"
    using assms(3) by (simp only: outside_counts_sum image_mono set_map length_map)
qed

lemma block_scan_samples:
  "sn_samples (block_scan label route calls ws)
    = map (\<lambda>(i, w). summarize_sample route i w (filter (inside w) calls)) (enumerate 0 ws)"
  by (simp add: block_scan_def)

lemma block_scan_filtered:
  "sn_filtered (block_scan label route calls ws)
    = concat (map (\<lambda>(i, w). map (\<lambda>c. filtered_row label i (transport_name (tc_api c)) c) (filter (inside w) calls)) (enumerate 0 ws))"
  by (simp add: block_scan_def scan_all_filtered scan_start_def)

lemma length_concat_enumerate:
  "length (concat (map (\<lambda>(i, w). f i w) (enumerate n ws))) = sum_list (map (\<lambda>(i, w). length (f i w)) (enumerate n ws))"
  by (simp add: length_concat comp_def case_prod_unfold)

lemma block_filtered_length:
  "length (sn_filtered (block_scan label route calls ws)) = sum_list (map (\<lambda>w. length (filter (inside w) calls)) ws)"
proof -
  have "map (\<lambda>(i, w). length (map (\<lambda>c. filtered_row label i (transport_name (tc_api c)) c) (filter (inside w) calls))) (enumerate 0 ws)
      = map (\<lambda>w. length (filter (inside w) calls)) ws"
    using map_enumerate_snd [of "\<lambda>w. length (filter (inside w) calls)" 0 ws] by (simp only: length_map)
  then show ?thesis by (simp only: block_scan_filtered length_concat_enumerate)
qed

lemma int_sum_list: "int (sum_list (map f xs)) = sum_list (map (\<lambda>x. int (f x)) xs)"
  by (induction xs) auto

lemma block_samples_records:
  assumes "\<forall>c \<in> set calls. sound_call c"
  shows "sum_list (map (\<lambda>x. ss_feed_count x + ss_fetch_count x + ss_runtime_records x + ss_mbuf_records x)
      (sn_samples (block_scan label route calls ws)))
    = int (sum_list (map (\<lambda>w. length (filter (inside w) calls)) ws))"
proof -
  have one: "ss_feed_count (summarize_sample route i w (filter (inside w) calls))
      + ss_fetch_count (summarize_sample route i w (filter (inside w) calls))
      + ss_runtime_records (summarize_sample route i w (filter (inside w) calls))
      + ss_mbuf_records (summarize_sample route i w (filter (inside w) calls)) = int (length (filter (inside w) calls))" for i w
    by (rule summarized_records) (use assms in \<open>auto simp: sound_call_def\<close>)
  show ?thesis
    unfolding block_scan_samples map_map comp_def case_prod_unfold one
    using map_enumerate_snd [of "\<lambda>w. int (length (filter (inside w) calls))" 0 ws]
    by (simp add: case_prod_unfold int_sum_list)
qed


section \<open>The payload\<close>

lemma expected_tensor_bytes_sum:
  "sum_list (expected_tensor_bytes route direction) = int (total_bytes
    (if route = ''old'' then (if direction = ''host_to_device'' then OLD_INPUTS else OLD_OUTPUTS)
     else (if direction = ''host_to_device'' then NEW_INPUTS else NEW_OUTPUTS)))"
  by (simp add: expected_tensor_bytes_def total_bytes_def int_sum_list comp_def)

lemma observed_sample:
  assumes "ss_dataflow_status (summarize_sample route i w rows) = ''observed''"
  shows "dataflow_observed route rows"
  using assms by (simp add: summarize_sample_def Let_def split: if_splits)

text \<open>A block reported as observed carries, in each of its 15 epochs, one feed and one fetch of
  exactly the tensors the ABI of its route declares, in their order, so each epoch moves exactly
  the bytes the ABI declares; no record crosses a window and none that was measured failed.\<close>

lemma observed_block_carries_abi:
  assumes "summarize_block io label trace result filtered files = (Inr b, files')"
    and "bk_status b = ''observed''" and "map_of ROUTES label = Some route"
  shows "length (bk_samples b) = 15
    \<and> (\<forall>x \<in> set (bk_samples b).
        ss_feed_calls x = 1 \<and> ss_fetch_calls x = 1
        \<and> ss_feed_bytes x = map (int \<circ> nbytes) (if route = ''old'' then OLD_INPUTS else NEW_INPUTS)
        \<and> ss_fetch_bytes x = map (int \<circ> nbytes) (if route = ''old'' then OLD_OUTPUTS else NEW_OUTPUTS)
        \<and> ss_total_bytes x = int (if route = ''old'' then OLD_TOTAL_BYTES else NEW_TOTAL_BYTES))
    \<and> bk_boundary_calls b = 0 \<and> bk_failed_measured b = 0"
proof -
  from assms(1) obtain calls ws where calls: "read_trace io files trace = Inr calls"
      and ws: "load_windows io files result = Inr ws"
      and b: "block_summary_of io files' route trace result filtered calls (block_scan label route calls ws) = Inr b"
    by (rule summarize_blockE) (use assms(3) in simp)
  define s where "s = block_scan label route calls ws"
  have sound: "\<forall>c \<in> set calls. sound_call c" using read_trace_sound [OF calls] by blast
  obtain samples where wf: "windows_wf ws" and n: "length ws = 15"
    using load_windows_spec [OF ws] list_all2_lengthD by metis
  have "measured_calls calls s = rev (concat (map (\<lambda>w. filter (inside w) calls) ws))"
    unfolding s_def by (rule block_measured_calls [OF wf sound])
  then have part: "set (measured_calls calls s) \<subseteq> set calls" by auto
  note fields = block_of_fields [OF b [folded s_def] sound part]
  have "(\<forall>x \<in> set (sn_samples s). ss_dataflow_status x = ''observed'')
      \<and> sn_boundary_keys s = [] \<and> failed_records (measured_calls calls s) = 0"
  proof (rule ccontr)
    assume "\<not> ?thesis"
    then have "bk_status b = ''not_observed''" using fields(5) by (simp only: if_False)
    with assms(2) show False by simp
  qed
  then have ok: "\<forall>x \<in> set (sn_samples s). ss_dataflow_status x = ''observed''"
      "sn_boundary_keys s = []" "failed_records (measured_calls calls s) = 0" by simp_all
  have each: "ss_feed_calls x = 1 \<and> ss_fetch_calls x = 1
      \<and> ss_feed_bytes x = expected_tensor_bytes route ''host_to_device''
      \<and> ss_fetch_bytes x = expected_tensor_bytes route ''device_to_host''
      \<and> ss_total_bytes x = sum_list (ss_feed_bytes x) + sum_list (ss_fetch_bytes x)" if "x \<in> set (bk_samples b)" for x
  proof -
    from that obtain i w where x: "x = summarize_sample route i w (filter (inside w) calls)"
      unfolding fields(1) s_def block_scan_samples by (auto simp: case_prod_unfold)
    with ok(1) that have "dataflow_observed route (filter (inside w) calls)"
      unfolding fields(1) using observed_sample by blast
    then show ?thesis by (simp add: x summarize_sample_def Let_def dataflow_observed_def)
  qed
  moreover have "bk_boundary_calls b = 0" "bk_failed_measured b = 0" "length (bk_samples b) = 15"
    using b ok(2,3) n unfolding block_summary_of_def s_def by (auto simp: rbind_Inr_iff Let_def block_scan_samples)
  ultimately show ?thesis
    by (auto simp: expected_tensor_bytes_sum OLD_TOTAL_BYTES_def NEW_TOTAL_BYTES_def)
      (auto simp: expected_tensor_bytes_def)
qed

end
