(* ===== verification/TransferAgree.thy ===== *)
theory TransferAgree
  imports TransferProps
begin

text \<open>
  The verifier against the summarizer: it accepts a block exactly when its fields are those the
  summarizer computes from the same raw files, and what the summarizer wrote is accepted.
\<close>

section \<open>The samples\<close>

lemma expected_bytes_agree: "EXPECTED_TENSOR_BYTES route direction = expected_tensor_bytes route direction"
  by (simp add: EXPECTED_TENSOR_BYTES_def expected_tensor_bytes_def abi_defs)

lemma no_failed_records: "failed_records rows = 0 \<longleftrightarrow> (\<forall>row \<in> set rows. tc_status row = 0)"
  by (auto simp: failed_records_def filter_empty_conv)

lemma check_rows_iff: "check_rows label route index rows = Inr () \<longleftrightarrow> dataflow_observed route rows"
  by (simp add: check_rows_def Let_def require_then require_Inr expected_bytes_agree dataflow_observed_def
      no_failed_records del: One_nat_def) blast

lemma recomputed_sample_eq:
  "dataflow_observed route rows \<Longrightarrow> recomputed_sample index window rows = summarize_sample route index window rows"
  by (simp add: recomputed_sample_def summarize_sample_def Let_def dataflow_observed_def)

text \<open>The window the verifier reads of a raw sample.\<close>

definition raw_window :: "pyval \<Rightarrow> int \<times> int \<Rightarrow> bool" where
  "raw_window sample w \<longleftrightarrow> raw_int sample ''epoch_wall_clock_start_ns'' = Inr (fst w)
     \<and> raw_int sample ''epoch_wall_clock_end_ns'' = Inr (snd w) \<and> fst w < snd w"

text \<open>The reported sample agrees, field by field, with the one computed from the raw trace.\<close>

definition sample_reported :: "(string \<times> pyval) list \<Rightarrow> nat \<Rightarrow> sample_summary \<Rightarrow> bool" where
  "sample_reported block index s \<longleftrightarrow> (\<exists>samples d. map_of block ''samples'' = Some samples
     \<and> value_index samples index = Inr (PDict d)
     \<and> (\<forall>(field, expected) \<in> set (sample_doc s). py_eq (py_get d field) expected))"

lemma sample_doc_nonempty: "sample_doc s \<noteq> []"
  by (simp add: sample_doc_def)

lemma check_reported_iff:
  "check_reported label index reported s = Inr () \<longleftrightarrow>
    (\<exists>d. reported = PDict d \<and> (\<forall>(field, expected) \<in> set (sample_doc s). py_eq (py_get d field) expected))"
proof (cases reported)
  case (PDict d)
  then show ?thesis by (auto simp: check_reported_def for_each_ok require_Inr)
qed (use sample_doc_nonempty [of s] in \<open>fastforce simp: check_reported_def for_each_ok value_get_def neq_Nil_conv\<close>)+

lemma recompute_sample_iff:
  assumes "\<forall>c \<in> set calls. sound_call c"
  shows "recompute_sample label route block calls (i, raw) s = Inr t \<longleftrightarrow>
    (\<exists>w. raw_window raw w \<and> dataflow_observed route (filter (inside w) calls)
      \<and> sample_reported block i (summarize_sample route i w (filter (inside w) calls))
      \<and> t = (scan_of label calls (i, w) s)
          \<lparr>sn_samples := sn_samples s @ [summarize_sample route i w (filter (inside w) calls)]\<rparr>)"
proof -
  have scan: "fold_res (scan_call label i w) (enumerate 0 calls) (s\<lparr>sn_contained := []\<rparr>) = Inr (scan_of label calls (i, w) s)" for w
    by (rule scan_one_window) (use assms in \<open>auto simp: sound_call_def\<close>)
  have kept: "sn_contained (scan_of label calls (i, w) s) = filter (inside w) calls"
      "sn_samples (scan_of label calls (i, w) s) = sn_samples s" for w
    by (simp_all add: scan_of_def)
  show ?thesis
  proof (cases "\<exists>w. raw_window raw w")
    case False
    then show ?thesis
      by (auto simp: recompute_sample_def raw_window_def rbind_Inr_iff require_Inr)
  next
    case True
    then obtain a b where w: "raw_window raw (a, b)" by auto
    then have only: "raw_window raw v \<longleftrightarrow> v = (a, b)" for v by (auto simp: raw_window_def)
    have "recompute_sample label route block calls (i, raw) s = Inr t \<longleftrightarrow>
        dataflow_observed route (filter (inside (a, b)) calls)
        \<and> (\<exists>samples reported. map_of block ''samples'' = Some samples \<and> value_index samples i = Inr reported
          \<and> check_reported label i reported (recomputed_sample i (a, b) (filter (inside (a, b)) calls)) = Inr ())
        \<and> t = (scan_of label calls (i, a, b) s)
          \<lparr>sn_samples := sn_samples s @ [recomputed_sample i (a, b) (filter (inside (a, b)) calls)]\<rparr>"
      using w by (auto simp: recompute_sample_def raw_window_def scan kept check_rows_iff Let_def rbind_Inr_iff dict_item_Inr)
    then show ?thesis
      by (auto simp: only sample_reported_def check_reported_iff recomputed_sample_eq)
  qed
qed

lemma recompute_samples_iff:
  assumes "\<forall>c \<in> set calls. sound_call c"
  shows "fold_res (recompute_sample label route block calls) (enumerate n raws) s = Inr t \<longleftrightarrow>
    (\<exists>ws. list_all2 raw_window raws ws
      \<and> (\<forall>(i, w) \<in> set (enumerate n ws). dataflow_observed route (filter (inside w) calls)
          \<and> sample_reported block i (summarize_sample route i w (filter (inside w) calls)))
      \<and> t = (scan_all label calls (enumerate n ws) s)\<lparr>sn_samples := sn_samples s
          @ map (\<lambda>(i, w). summarize_sample route i w (filter (inside w) calls)) (enumerate n ws)\<rparr>)"
proof (induction raws arbitrary: n s)
  case Nil
  then show ?case by auto
next
  case (Cons raw raws)
  show ?case
    unfolding enumerate_simps fold_res.simps rbind_Inr_iff recompute_sample_iff [OF assms] Cons.IH
    by (auto simp: list_all2_Cons1 scan_all_samples)
      (auto intro!: exI simp: scan_all_samples)
qed

section \<open>What is accepted is what was measured\<close>

lemma check_hashed_Inr:
  "check_hashed io files d pk hk m1 m2 = Inr path \<longleftrightarrow>
    path_entry d pk = Inr path \<and> (\<exists>s. map_of files path = Some s \<and> py_get d hk = PStr (io_sha io s))"
  by (auto simp: check_hashed_def rbind_Inr_iff require_Inr evidence_file_def evidence_sha256_def read_evidence_Inr)

text \<open>
  A block the verifier accepts reports what the raw files hold: the samples it returns are those
  the summarizer computes from the trace and the windows of the benchmark result.
\<close>

lemma block_recomputed:
  assumes "recompute_transfer_block io files label route block raw = Inr samples"
  shows "\<exists>trace calls raws ws. path_entry block ''trace_path'' = Inr trace
    \<and> read_trace io files trace = Inr calls
    \<and> value_item raw ''samples'' = Inr (PList raws) \<and> list_all2 raw_window raws ws
    \<and> samples = map (\<lambda>(i, w). summarize_sample route i w (filter (inside w) calls)) (enumerate 0 ws)
    \<and> (\<forall>i < length samples. ss_dataflow_status (samples ! i) = ''observed'' \<and> sample_reported block i (samples ! i))"
proof -
  from assms obtain trace calls v raws s where trace: "path_entry block ''trace_path'' = Inr trace"
      and calls: "read_trace io files trace = Inr calls" and v: "value_item raw ''samples'' = Inr v"
      and raws: "(case v of PList xs \<Rightarrow> Inr xs | _ \<Rightarrow> Inl (TypeError ''object is not iterable'')) = Inr raws"
      and s: "fold_res (recompute_sample label route block calls) (enumerate 0 raws) scan_start = Inr s"
      and samples: "samples = sn_samples s"
    unfolding recompute_transfer_block_def rbind_Inr_iff check_hashed_Inr verify_read_trace_iff by auto
  from raws have "v = PList raws" by (auto split: pyval.splits)
  moreover have "\<forall>c \<in> set calls. sound_call c" using read_trace_sound [OF calls] by blast
  from s [unfolded recompute_samples_iff [OF this]] obtain ws where ws: "list_all2 raw_window raws ws"
      and each: "\<forall>(i, w) \<in> set (enumerate 0 ws). dataflow_observed route (filter (inside w) calls)
          \<and> sample_reported block i (summarize_sample route i w (filter (inside w) calls))"
      and t: "samples = map (\<lambda>(i, w). summarize_sample route i w (filter (inside w) calls)) (enumerate 0 ws)"
    unfolding samples by (auto simp: scan_start_def)
  have "ss_dataflow_status (samples ! i) = ''observed'' \<and> sample_reported block i (samples ! i)" if "i < length samples" for i
  proof -
    from that have i: "i < length ws" by (simp add: t)
    then have nth: "samples ! i = summarize_sample route i (ws ! i) (filter (inside (ws ! i)) calls)"
      by (simp add: t nth_enumerate_eq)
    from i have "(i, ws ! i) \<in> set (enumerate 0 ws)" by (simp add: in_set_enumerate_eq)
    with each have "dataflow_observed route (filter (inside (ws ! i)) calls)" "sample_reported block i (samples ! i)"
      unfolding nth by blast+
    then show ?thesis by (simp add: nth summarize_sample_def Let_def)
  qed
  with trace calls v ws t \<open>v = PList raws\<close> show ?thesis by blast
qed

section \<open>What was written is accepted\<close>

text \<open>Values that equal themselves; only \<open>nan\<close> and other objects need not.\<close>

lemma float_eq_Fin [simp]: "float_eq (Fin q) (Fin r) \<longleftrightarrow> q = r"
  by (simp add: float_eq_def)

lemma py_eq_ints [simp]: "py_eq_list (map PInt xs) (map PInt xs)"
  by (induction xs) auto

lemma py_eq_items_refl:
  "distinct (map fst e) \<Longrightarrow> set d \<subseteq> set e \<Longrightarrow> (\<And>k v. (k, v) \<in> set d \<Longrightarrow> py_eq v v) \<Longrightarrow> py_eq_items d e"
proof (induction d)
  case (Cons kv d)
  obtain k v where kv: "kv = (k, v)" by (cases kv)
  with Cons.prems have "map_of e k = Some v" by (intro map_of_is_SomeI) auto
  moreover have "py_eq_items d e" using Cons.prems by (intro Cons.IH) auto
  ultimately show ?case using Cons.prems(3) [of k v] kv by simp
qed simp

lemma py_eq_counts: "distinct (keys d) \<Longrightarrow> py_eq (counts_doc d) (counts_doc d)"
  unfolding counts_doc_def
  by (auto simp: comp_def case_prod_unfold intro!: py_eq_items_refl)

lemma kind_counts_keys: "keys (kind_counts kinds) = sort (remdups kinds)"
  by (simp add: kind_counts_def comp_def)

lemma outside_counts_keys: "keys (outside_counts raw measured) = keys raw"
  by (simp add: outside_counts_def comp_def)

lemma sample_doc_refl: "(k, v) \<in> set (sample_doc s) \<Longrightarrow> py_eq v v"
  by (auto simp: sample_doc_def)

lemma sample_doc_keys: "distinct (keys (sample_doc s))"
  by (simp add: sample_doc_def)

lemma sample_reported_doc:
  assumes "map_of block ''samples'' = Some (PList (map (PDict \<circ> sample_doc) samples))" and "i < length samples"
  shows "sample_reported block i (samples ! i)"
proof -
  have "py_eq (py_get (sample_doc (samples ! i)) field) v" if "(field, v) \<in> set (sample_doc (samples ! i))" for field v
    using map_of_is_SomeI [OF sample_doc_keys that] sample_doc_refl [OF that] by (simp add: py_get_def)
  moreover have "value_index (PList (map (PDict \<circ> sample_doc) samples)) i = Inr (PDict (sample_doc (samples ! i)))"
    using assms(2) by (simp add: value_index_def)
  ultimately show ?thesis using assms(1) unfolding sample_reported_def by blast
qed

text \<open>
  The contract of the \<open>csv\<close> module that the filtered trace relies on: rows of at least two
  fields without tabs, quotes or line ends are read back as they were written.
\<close>

definition plain_field :: "string \<Rightarrow> bool" where
  "plain_field f \<longleftrightarrow> (\<forall>c \<in> set f. c \<notin> {CHR 0x09, CHR 0x0A, CHR 0x0D, CHR 0x22})"

definition csv_faithful :: "evidence_io \<Rightarrow> bool" where
  "csv_faithful io \<longleftrightarrow> (\<forall>rows. (\<forall>r \<in> set rows. 2 \<le> length r \<and> (\<forall>f \<in> set r. plain_field f)) \<longrightarrow>
     io_csv_rows io (io_csv_text io rows) = Inr rows)"

lemma plain_digits: "plain_field (nat_str n)"
  by (auto simp: plain_field_def dest!: nat_str_chars) (auto simp: digit_char_def split: if_splits)

lemma plain_int_str: "plain_field (int_str i)"
  using plain_digits by (auto simp: int_str_def) (auto simp: plain_field_def)

lemma plain_apis: "api \<in> set TRACE_APIS \<Longrightarrow> plain_field api"
  by (auto simp: TRACE_APIS_def RUNTIME_MEMCPY_APIS_def MBUF_DIAGNOSTIC_APIS_def DATAFLOW_API_DIRECTIONS_def
      FEED_def FETCH_def plain_field_def)

lemma plain_transport: "plain_field (transport_name api)"
  by (auto simp: transport_name_def transport_def plain_field_def)

lemma plain_direction: "trace_direction api kind = Some d \<Longrightarrow> plain_field d"
  by (auto simp: trace_direction_def runtime_direction_def DATAFLOW_API_DIRECTIONS_def plain_field_def split: if_splits option.splits)

lemma plain_filtered_row:
  assumes "tc_api c \<in> set TRACE_APIS" and "plain_field label" and "f \<in> set (filtered_row label i (transport_name (tc_api c)) c)"
  shows "plain_field f"
  using assms(3) assms(1,2) plain_int_str plain_transport plain_direction [of "tc_api c" "tc_kind c"] plain_apis
  by (auto simp: filtered_row_def call_fields_def plain_field_def [of "[]"] split: option.splits)

lemma length_filtered_row: "length (filtered_row label i kind c) = length FILTERED_TRACE_FIELDS"
  by (simp add: filtered_row_def call_fields_def FILTERED_TRACE_FIELDS_def TRACE_FIELDS_def)

lemma filtered_fields: "distinct FILTERED_TRACE_FIELDS" "length FILTERED_TRACE_FIELDS = 13"
  by (simp_all add: FILTERED_TRACE_FIELDS_def TRACE_FIELDS_def)

lemma normalize_row:
  assumes "length row = length FILTERED_TRACE_FIELDS"
  shows "normalize_filtered_row (dict_row FILTERED_TRACE_FIELDS row) = row"
proof -
  have "map (map_of (dict_row FILTERED_TRACE_FIELDS row)) FILTERED_TRACE_FIELDS = map (Some \<circ> Some) row"
    by (rule dict_row_fields [OF assms filtered_fields(1)])
  then have "map (\<lambda>v. case v of None \<Rightarrow> '''' | Some None \<Rightarrow> ''None'' | Some (Some s) \<Rightarrow> s)
      (map (map_of (dict_row FILTERED_TRACE_FIELDS row)) FILTERED_TRACE_FIELDS) = row"
    by (simp only: list.map_comp comp_def) simp
  then show ?thesis by (simp only: normalize_filtered_row_def list.map_comp comp_def)
qed

lemma filtered_read_back:
  assumes "csv_faithful io" and "\<And>r. r \<in> set rows \<Longrightarrow> length r = 13 \<and> (\<forall>f \<in> set r. plain_field f)"
  shows "io_csv_rows io (io_csv_text io (FILTERED_TRACE_FIELDS # rows)) = Inr (FILTERED_TRACE_FIELDS # rows)"
    and "map normalize_filtered_row (table_body (FILTERED_TRACE_FIELDS # rows)) = rows"
proof -
  have "\<forall>f \<in> set FILTERED_TRACE_FIELDS. plain_field f"
    by (simp add: FILTERED_TRACE_FIELDS_def TRACE_FIELDS_def plain_field_def)
  with assms(2) have "\<forall>r \<in> set (FILTERED_TRACE_FIELDS # rows). 2 \<le> length r \<and> (\<forall>f \<in> set r. plain_field f)"
    using filtered_fields(2) by fastforce
  with assms(1) show "io_csv_rows io (io_csv_text io (FILTERED_TRACE_FIELDS # rows)) = Inr (FILTERED_TRACE_FIELDS # rows)"
    unfolding csv_faithful_def by blast
  have "filter (\<lambda>fs. fs \<noteq> []) rows = rows" using assms(2) by (force simp: filter_id_conv)
  moreover have "map (normalize_filtered_row \<circ> dict_row FILTERED_TRACE_FIELDS) rows = rows"
    using assms(2) filtered_fields(2) by (intro map_idI) (simp add: normalize_row)
  ultimately show "map normalize_filtered_row (table_body (FILTERED_TRACE_FIELDS # rows)) = rows"
    by (simp add: table_body_def table_header_def)
qed

text \<open>The sample windows the summarizer accepted are windows for the verifier.\<close>

lemma python_int_py_int: "python_int v = Some i \<Longrightarrow> py_int v = Inr i"
  by (cases v) (auto simp: python_int_def)

lemma python_int_item: "python_int (py_get d k) = Some i \<Longrightarrow> raw_int (PDict d) k = Inr i"
  by (auto simp: raw_int_def value_item_def dict_item_def py_get_def python_int_py_int split: option.splits)
    (simp add: python_int_def)

lemma sample_window_raw: "sample_window x w \<Longrightarrow> fst w < snd w \<Longrightarrow> raw_window x w"
  by (auto simp: sample_window_def raw_window_def python_int_item)

lemma sample_windows_raw:
  assumes "list_all2 sample_window xs ws" and "windows_wf ws"
  shows "list_all2 raw_window xs ws"
  using assms by (auto simp: list_all2_conv_all_nth windows_wf_def intro!: sample_window_raw)

text \<open>The counters a block reports.\<close>

lemma block_of_counts:
  assumes "block_summary_of io files route trace result filtered calls s = Inr b"
  obtains raw_by measured_by where "transport_counts calls = Inr raw_by"
    and "transport_counts (measured_calls calls s) = Inr measured_by"
    and "bk_raw_by b = raw_by" and "bk_measured_by b = measured_by"
    and "bk_outside_by b = outside_counts raw_by measured_by"
    and "bk_failed_measured b = int (failed_records (measured_calls calls s))"
  using assms unfolding block_summary_of_def by (auto simp: rbind_Inr_iff Let_def)

lemma transport_counts_distinct: "transport_counts calls = Inr d \<Longrightarrow> distinct (keys d)"
  by (auto simp: transport_counts_def rbind_Inr_iff comp_def)

lemma block_doc_get:
  "py_get (block_doc b) ''raw_record_count'' = PInt (bk_raw_count b)"
  "py_get (block_doc b) ''raw_records_by_transport'' = counts_doc (bk_raw_by b)"
  "py_get (block_doc b) ''measured_record_count'' = PInt (bk_measured_count b)"
  "py_get (block_doc b) ''measured_records_by_transport'' = counts_doc (bk_measured_by b)"
  "py_get (block_doc b) ''outside_window_records_by_transport'' = counts_doc (bk_outside_by b)"
  "py_get (block_doc b) ''failed_measured_records'' = PInt (bk_failed_measured b)"
  "py_get (block_doc b) ''boundary_crossing_records'' = PInt (bk_boundary_records b)"
  "py_get (block_doc b) ''boundary_crossing_calls'' = PInt (bk_boundary_calls b)"
  "py_get (block_doc b) ''runtime_memcpy_status'' = PStr (bk_runtime_status b)"
  "py_get (block_doc b) ''status'' = PStr (bk_status b)"
  "py_get (block_doc b) ''trace_sha256'' = PStr (bk_trace_sha256 b)"
  "py_get (block_doc b) ''benchmark_result_sha256'' = PStr (bk_result_sha256 b)"
  "py_get (block_doc b) ''filtered_trace_sha256'' = PStr (bk_filtered_sha256 b)"
  "path_entry (block_doc b) ''trace_path'' = Inr (bk_trace_path b)"
  "path_entry (block_doc b) ''benchmark_result_path'' = Inr (bk_result_path b)"
  "path_entry (block_doc b) ''filtered_trace_path'' = Inr (bk_filtered_path b)"
  "map_of (block_doc b) ''samples'' = Some (PList (map (PDict \<circ> sample_doc) (bk_samples b)))"
  by (simp_all add: block_doc_def py_get_def path_entry_def)

lemma check_counts_written:
  assumes "block_summary_of io files route trace result filtered calls s = Inr b"
    and "bk_raw_count b = int (length calls)" and "bk_measured_count b = int (length (sn_measured s))"
  shows "check_counts label (block_doc b) calls s = Inr ()"
proof -
  obtain raw_by measured_by where c: "transport_counts calls = Inr raw_by"
      "transport_counts (measured_calls calls s) = Inr measured_by"
      "bk_raw_by b = raw_by" "bk_measured_by b = measured_by" "bk_outside_by b = outside_counts raw_by measured_by"
      "bk_failed_measured b = int (failed_records (measured_calls calls s))"
    by (rule block_of_counts [OF assms(1)])
  then have "py_eq (counts_doc raw_by) (counts_doc raw_by)" "py_eq (counts_doc measured_by) (counts_doc measured_by)"
      "py_eq (counts_doc (outside_counts raw_by measured_by)) (counts_doc (outside_counts raw_by measured_by))"
    using transport_counts_distinct by (auto intro!: py_eq_counts simp: outside_counts_keys)
  then show ?thesis
    by (simp add: check_counts_def require_entry_def block_doc_get c assms(2,3))
qed

lemma block_of_rest:
  assumes "block_summary_of io files route trace result filtered calls s = Inr b"
  shows "bk_samples b = sn_samples s" and "bk_measured_count b = int (length (sn_measured s))"
    and "bk_raw_count b = int (length calls)"
    and "bk_boundary_records b = int (length (sn_boundary s))"
    and "bk_boundary_calls b = int (length (sn_boundary_keys s))"
    and "bk_runtime_status b = block_runtime_status (sn_samples s) (sn_boundary_keys s \<noteq> [])"
    and "bk_trace_path b = trace" and "bk_result_path b = result" and "bk_filtered_path b = filtered"
    and "evidence_sha256 io files trace = Inr (bk_trace_sha256 b)"
    and "evidence_sha256 io files result = Inr (bk_result_sha256 b)"
    and "evidence_sha256 io files filtered = Inr (bk_filtered_sha256 b)"
    and "bk_status b = ''observed'' \<Longrightarrow> sn_boundary_keys s = []
      \<and> (\<forall>x \<in> set (sn_samples s). ss_dataflow_status x = ''observed'')"
  using assms unfolding block_summary_of_def by (auto simp: rbind_Inr_iff Let_def split: if_splits)

lemma block_scan_rows:
  assumes "\<forall>c \<in> set calls. sound_call c" and "plain_field label"
    and "r \<in> set (sn_filtered (block_scan label route calls ws))"
  shows "length r = 13 \<and> (\<forall>f \<in> set r. plain_field f)"
proof -
  from assms(3) obtain i c where r: "r = filtered_row label i (transport_name (tc_api c)) c" and "c \<in> set calls"
    unfolding block_scan_filtered by auto
  then have "tc_api c \<in> set TRACE_APIS" using assms(1) by (auto simp: sound_call_def)
  then show ?thesis
    using plain_filtered_row [OF _ assms(2)] length_filtered_row filtered_fields(2) unfolding r by metis
qed

lemma plain_label: "map_of ROUTES label = Some route \<Longrightarrow> plain_field label"
  by (auto simp: ROUTES_def plain_field_def split: if_splits)

text \<open>The scan of the verifier over what the summarizer wrote is the scan of the summarizer.\<close>

lemma recompute_written:
  assumes "\<forall>c \<in> set calls. sound_call c" and "list_all2 raw_window raws ws"
    and "map_of block ''samples'' = Some (PList (map (PDict \<circ> sample_doc) (sn_samples (block_scan label route calls ws))))"
    and "\<forall>x \<in> set (sn_samples (block_scan label route calls ws)). ss_dataflow_status x = ''observed''"
  shows "fold_res (recompute_sample label route block calls) (enumerate 0 raws) scan_start
    = Inr (block_scan label route calls ws)"
proof -
  have "dataflow_observed route (filter (inside w) calls)
      \<and> sample_reported block i (summarize_sample route i w (filter (inside w) calls))" if "(i, w) \<in> set (enumerate 0 ws)" for i w
  proof -
    from that have i: "i < length ws" "w = ws ! i" by (simp_all add: in_set_enumerate_eq)
    then have nth: "sn_samples (block_scan label route calls ws) ! i = summarize_sample route i w (filter (inside w) calls)"
        "i < length (sn_samples (block_scan label route calls ws))"
      by (simp_all add: block_scan_samples nth_enumerate_eq)
    then have "ss_dataflow_status (summarize_sample route i w (filter (inside w) calls)) = ''observed''"
      using assms(4) nth_mem by metis
    then show ?thesis
      using observed_sample sample_reported_doc [OF assms(3) nth(2)] nth(1) by metis
  qed
  then show ?thesis
    unfolding recompute_samples_iff [OF assms(1)] block_scan_def
    using assms(2) by (intro exI [of _ ws]) (auto simp: scan_start_def)
qed

text \<open>
  The verifier accepts every observed block the summarizer wrote, on the files as they are then: it
  follows the summarizer, file by file and check by check. It needs the \<open>csv\<close> module to read back
  what it wrote and the benchmark result to equal itself, which only a \<open>nan\<close> would not.
\<close>

lemma written_block_recomputed:
  assumes "summarize_block io label trace result filtered files = (Inr b, files')"
    and "bk_status b = ''observed''" and "map_of ROUTES label = Some route" and "csv_faithful io"
    and "load_json io files result = Inr raw" and "py_eq raw raw"
  shows "recompute_transfer_block io files' label route (block_doc b) raw = Inr (bk_samples b)"
proof -
  from assms(1) obtain calls ws where calls: "read_trace io files trace = Inr calls"
      and ws: "load_windows io files result = Inr ws" and fresh: "map_of files filtered = None"
      and f: "files' = AList.update filtered
        (io_csv_text io (FILTERED_TRACE_FIELDS # sn_filtered (block_scan label route calls ws))) files"
      and b: "block_summary_of io files' route trace result filtered calls (block_scan label route calls ws) = Inr b"
    by (rule summarize_blockE) (use assms(3) in simp)
  define s where "s = block_scan label route calls ws"
  note rest = block_of_rest [OF b, folded s_def]
  have sound: "\<forall>c \<in> set calls. sound_call c" using read_trace_sound [OF calls] by blast
  obtain d raws where raw: "raw = PDict d" and raws: "py_get d ''samples'' = PList raws"
      and wins: "list_all2 sample_window raws ws" and wf: "windows_wf ws"
    using load_windows_spec [OF ws] assms(5) by (metis sum.inject(2))
  have item: "value_item raw ''samples'' = Inr (PList raws)"
    using raws by (auto simp: raw value_item_def dict_item_def py_get_def split: option.splits)
  have other: "trace \<noteq> filtered" "result \<noteq> filtered"
    using calls assms(5) fresh by (auto simp: read_trace_def read_table_def load_json_def rbind_Inr_iff read_evidence_Inr)
  have hashed: "check_hashed io files' (block_doc b) ''trace_path'' ''trace_sha256'' m1 m2 = Inr trace"
      "check_hashed io files' (block_doc b) ''benchmark_result_path'' ''benchmark_result_sha256'' m1 m2 = Inr result"
      "check_hashed io files' (block_doc b) ''filtered_trace_path'' ''filtered_trace_sha256'' m1 m2 = Inr filtered" for m1 m2
    using rest(10,11,12) by (auto simp: check_hashed_Inr block_doc_get rest(7,8,9) evidence_sha256_def rbind_Inr_iff read_evidence_Inr)
  have json: "load_json io files' result = Inr raw" and trace': "verify_read_trace io files' trace = Inr calls"
    using assms(5) calls other by (simp_all add: verify_read_trace_iff [where path = trace] f load_json_def read_trace_def
        read_table_def read_evidence_update)
  have fold: "fold_res (recompute_sample label route (block_doc b) calls) (enumerate 0 raws) scan_start = Inr s"
    unfolding s_def using rest(1,13) assms(2)
    by (intro recompute_written [OF sound sample_windows_raw [OF wins wf]]) (simp_all add: block_doc_get s_def)
  have rows: "\<And>r. r \<in> set (sn_filtered s) \<Longrightarrow> length r = 13 \<and> (\<forall>f \<in> set r. plain_field f)"
    unfolding s_def by (rule block_scan_rows [OF sound plain_label [OF assms(3)]])
  have filtered: "check_filtered io files' label (block_doc b) (sn_filtered s) = Inr ()"
    unfolding check_filtered_def hashed using filtered_read_back [OF assms(4) rows]
    by (simp add: read_table_def f read_evidence_update table_header_def flip: s_def)
  have keys: "sn_boundary_keys s = []" using rest(13) assms(2) by blast
  show ?thesis
    unfolding recompute_transfer_block_def hashed rbind_simps json trace' item
    by (simp add: assms(6) fold keys filtered check_counts_written [OF b [folded s_def] rest(3,2)]
        require_entry_def block_doc_get rest(1,4,5,6) assms(2))
qed

end
