(* ===== verification/TransferExample.thy ===== *)
theory TransferExample
  imports TransferAgree
begin

text \<open>
  A table format that keeps the contract of the \<open>csv\<close> module, and a block of 15 epochs of the
  new ABI written in it: the hypotheses of the properties of the summary hold together.
\<close>

section \<open>A table format\<close>

definition tsv_text :: "string list list \<Rightarrow> string" where
  "tsv_text rows = concat (map (\<lambda>r. join_with [CHR 0x09] r @ [CHR 0x0A]) rows)"

definition tsv_rows :: "string \<Rightarrow> exn + string list list" where
  "tsv_rows s = Inr (map (split_on (CHR 0x09)) (butlast (split_on (CHR 0x0A) s)))"

lemma split_on_join_with:
  "xs \<noteq> [] \<Longrightarrow> \<forall>x \<in> set xs. c \<notin> set x \<Longrightarrow> split_on c (join_with [c] xs) = xs"
  by (induction "[c]" xs rule: join_with.induct) (simp_all add: split_on_plain split_on_append)

lemma join_with_chars: "c \<in> set (join_with sep xs) \<Longrightarrow> c \<in> set sep \<or> (\<exists>x \<in> set xs. c \<in> set x)"
  by (induction sep xs rule: join_with.induct) auto

lemma split_on_lines:
  "\<forall>l \<in> set ls. c \<notin> set l \<Longrightarrow> split_on c (concat (map (\<lambda>l. l @ [c]) ls)) = ls @ ['''']"
  by (induction ls) (simp_all add: split_on_append)

lemma tsv_read_back:
  assumes "\<forall>r \<in> set rows. 2 \<le> length r \<and> (\<forall>f \<in> set r. plain_field f)"
  shows "tsv_rows (tsv_text rows) = Inr rows"
proof -
  have "split_on (CHR 0x0A) (tsv_text rows) = map (join_with [CHR 0x09]) rows @ ['''']"
    using split_on_lines [of "map (join_with [CHR 0x09]) rows" "CHR 0x0A"] assms
    by (force simp: tsv_text_def comp_def plain_field_def dest: join_with_chars)
  moreover have "map (split_on (CHR 0x09) \<circ> join_with [CHR 0x09]) rows = rows"
  proof (rule map_idI)
    fix r assume "r \<in> set rows"
    then have "r \<noteq> []" "\<forall>x \<in> set r. CHR 0x09 \<notin> set x" using assms by (auto simp: plain_field_def)
    then show "(split_on (CHR 0x09) \<circ> join_with [CHR 0x09]) r = r" by (simp add: split_on_join_with)
  qed
  ultimately show ?thesis by (simp add: tsv_rows_def)
qed

section \<open>A trace\<close>

text \<open>A trace that was written with plain fields is read back record by record.\<close>

lemma read_call_fields: "sound_call c \<Longrightarrow> read_call path (line, dict_row TRACE_FIELDS (call_fields c)) = Inr c"
  by (simp add: read_call_iff trace_api_def trace_int_def dict_item_def TRACE_FIELDS_def call_fields_def
      int_parse_int_str del: One_nat_def)

lemma read_trace_written:
  assumes "csv_faithful io" and "\<forall>c \<in> set calls. sound_call c"
    and "map_of files path = Some (io_csv_text io (TRACE_FIELDS # map call_fields calls))"
  shows "read_trace io files path = Inr calls"
proof -
  have plain: "\<forall>f \<in> set (call_fields c). plain_field f" if "c \<in> set calls" for c
    using that assms(2) plain_int_str plain_apis by (auto simp: call_fields_def sound_call_def)
  have "\<forall>r \<in> set (TRACE_FIELDS # map call_fields calls). 2 \<le> length r \<and> (\<forall>f \<in> set r. plain_field f)"
    using plain by (auto simp: TRACE_FIELDS_def) (simp_all add: call_fields_def plain_field_def)
  then have rows: "read_table io files path = Inr (TRACE_FIELDS # map call_fields calls)"
    using assms(1,3) by (simp add: csv_faithful_def read_table_def read_evidence_def)
  have body: "table_body (TRACE_FIELDS # map call_fields calls) = map (dict_row TRACE_FIELDS \<circ> call_fields) calls"
    by (simp add: table_body_def table_header_def filter_id_conv) (simp add: call_fields_def)
  have "map_res (read_call path) (enumerate n (map (dict_row TRACE_FIELDS \<circ> call_fields) calls)) = Inr calls" for n
    using assms(2) by (induction calls arbitrary: n) (simp_all add: read_call_fields)
  then show ?thesis
    by (simp add: read_trace_def rows body table_header_def)
qed

section \<open>The example\<close>

definition example_window :: "nat \<Rightarrow> int \<times> int" where
  "example_window i = (100 * int i + 1, 100 * int i + 99)"

definition example_record :: "string \<Rightarrow> nat \<Rightarrow> int \<Rightarrow> trace_call" where
  "example_record api i bytes = \<lparr>tc_api = api, tc_pid = 7, tc_tid = 8, tc_start = 100 * int i + 10,
     tc_end = 100 * int i + 20, tc_bytes = bytes, tc_dest_max = bytes, tc_kind = 0, tc_status = 0\<rparr>"

definition example_epoch :: "string \<Rightarrow> nat \<Rightarrow> trace_call list" where
  "example_epoch route i = map (example_record FEED i) (expected_tensor_bytes route ''host_to_device'')
     @ map (example_record FETCH i) (expected_tensor_bytes route ''device_to_host'')"

definition example_calls :: "string \<Rightarrow> trace_call list" where
  "example_calls route = concat (map (example_epoch route) [0..<15])"

definition example_result :: pyval where
  "example_result = PDict [(''samples'', PList (map (\<lambda>i. PDict
     [(''epoch_wall_clock_start_ns'', PInt (fst (example_window i))),
      (''epoch_wall_clock_end_ns'', PInt (snd (example_window i)))]) [0..<15]))]"

definition example_io :: evidence_io where
  "example_io = \<lparr>io_csv_rows = tsv_rows, io_csv_text = tsv_text, io_json = (\<lambda>_. Inr example_result),
     io_dumps = (\<lambda>_. ''{}''), io_sha = id\<rparr>"

definition example_files :: evidence where
  "example_files = [(''trace'', tsv_text (TRACE_FIELDS # map call_fields (example_calls ''new''))), (''result'', ''{}'')]"

lemma example_csv_faithful: "csv_faithful example_io"
  by (auto simp: csv_faithful_def example_io_def intro!: tsv_read_back)

lemma example_sound: "\<forall>c \<in> set (example_calls route). sound_call c"
  by (auto simp: example_calls_def example_epoch_def example_record_def sound_call_def TRACE_APIS_def
      DATAFLOW_API_DIRECTIONS_def expected_tensor_bytes_def)

lemma example_trace: "read_trace example_io example_files ''trace'' = Inr (example_calls ''new'')"
  by (rule read_trace_written [OF example_csv_faithful example_sound])
    (simp add: example_files_def example_io_def)

lemma example_windows: "load_windows example_io example_files ''result'' = Inr (map example_window [0..<15])"
  by (simp add: load_windows_def load_json_def read_evidence_def example_files_def example_io_def example_result_def
      py_get_def example_window_def upt_rec)

lemma example_inside:
  "filter (inside (example_window i)) (example_epoch route j) = (if i = j then example_epoch route j else [])"
  by (auto simp: example_epoch_def example_window_def example_record_def inside_def filter_empty_conv filter_id_conv
      zero_le_mult_iff)

lemma concat_single:
  "i \<in> set js \<Longrightarrow> distinct js \<Longrightarrow> concat (map (\<lambda>j. if i = j then f j else []) js) = f i"
proof (induction js)
  case (Cons j js)
  moreover have "concat (map (\<lambda>j. if i = j then f j else []) js) = []" if "i \<notin> set js"
    using that by (induction js) auto
  ultimately show ?case by auto
qed simp

lemma example_epoch_rows: "i < 15 \<Longrightarrow> filter (inside (example_window i)) (example_calls route) = example_epoch route i"
  by (simp add: example_calls_def filter_concat comp_def example_inside concat_single)

lemma same_epoch: "100 * x + 1 \<le> 100 * y + 20 \<Longrightarrow> 100 * y + 10 \<le> 100 * x + 99 \<Longrightarrow> x = (y :: int)"
  by linarith

lemma example_record_whole: "\<not> crossing (example_window i) (example_record api j bytes)"
proof
  assume "crossing (example_window i) (example_record api j bytes)"
  then have "100 * int i + 1 \<le> 100 * int j + 20" "100 * int j + 10 \<le> 100 * int i + 99"
      and "\<not> inside (example_window i) (example_record api j bytes)"
    by (simp_all add: crossing_def overlaps_def example_window_def example_record_def)
  moreover from this(1,2) have "int i = int j" by (rule same_epoch)
  ultimately show False by (simp add: inside_def example_window_def example_record_def)
qed

lemma example_crossing: "filter (crossing (example_window i)) (example_calls route) = []"
  by (auto simp: example_calls_def example_epoch_def filter_empty_conv example_record_whole)

lemma example_bytes:
  "expected_tensor_bytes ''old'' ''host_to_device'' = [32, 32, 16, 29360128, 16, 16, 32, 29360128, 72, 44]"
  "expected_tensor_bytes ''old'' ''device_to_host'' = [19464192, 256, 29360128, 29360128, 32, 32, 16, 16, 16, 112]"
  "expected_tensor_bytes ''new'' ''host_to_device'' = [32, 32, 16, 16, 16, 32, 72, 44]"
  "expected_tensor_bytes ''new'' ''device_to_host'' = [256, 112]"
  by (simp_all add: expected_tensor_bytes_def abi_defs)

lemma example_observed:
  assumes "map_of ROUTES label = Some route"
  shows "dataflow_observed route (example_epoch route i)"
  using assms by (auto split: if_splits simp: ROUTES_def)
    (simp_all add: dataflow_observed_def dataflow_call_count_def with_api_def sizes_def failed_records_def
      example_epoch_def example_bytes example_record_def FEED_def FETCH_def)

definition example_scan :: "string \<Rightarrow> string \<Rightarrow> scan" where
  "example_scan label route = block_scan label route (example_calls route) (map example_window [0..<15])"

lemma example_statuses:
  assumes "map_of ROUTES label = Some route"
  shows "\<forall>x \<in> set (sn_samples (example_scan label route)). ss_dataflow_status x = ''observed''"
proof
  fix x assume "x \<in> set (sn_samples (example_scan label route))"
  then obtain i w where x: "x = summarize_sample route i w (filter (inside w) (example_calls route))"
      and "(i, w) \<in> set (enumerate 0 (map example_window [0..<15]))"
    unfolding example_scan_def block_scan_samples by (auto simp: case_prod_unfold)
  then obtain j where "j < 15" "w = example_window j"
    by (auto simp: in_set_enumerate_eq)
  then show "ss_dataflow_status x = ''observed''"
    by (simp add: x example_epoch_rows summarize_sample_def Let_def example_observed [OF assms])
qed

lemma example_keys: "sn_boundary_keys (example_scan label route) = []"
proof -
  have "map (\<lambda>(i, w). map key_of_call (filter (crossing w) (example_calls route))) (enumerate 0 (map example_window [0..<15]))
      = map (\<lambda>w. map key_of_call (filter (crossing w) (example_calls route))) (map example_window [0..<15])"
    by (rule map_enumerate_snd)
  also have "\<dots> = map (\<lambda>_. []) [0..<(15 :: nat)]" by (simp add: example_crossing comp_def)
  finally show ?thesis
    by (simp add: example_scan_def block_scan_def scan_all_keys scan_start_def map_replicate_const)
qed

lemma example_windows_wf: "windows_wf (map example_window [0..<15])"
  by (rule load_windows_spec [OF example_windows])

lemma example_measured: "set (measured_calls (example_calls route) (example_scan label route)) \<subseteq> set (example_calls route)"
  using block_measured_calls [OF example_windows_wf example_sound [of route], of label route]
  unfolding example_scan_def by auto

lemma example_no_failure: "failed_records (measured_calls (example_calls route) (example_scan label route)) = 0"
proof -
  have "tc_status c = 0" if "c \<in> set (example_calls route)" for c
    using that by (auto simp: example_calls_def example_epoch_def example_record_def)
  with example_measured show ?thesis by (auto simp: no_failed_records)
qed

text \<open>The block is summarized and observed wherever its trace and its windows are read.\<close>

lemma example_block_observed:
  assumes trace: "read_trace io files trace = Inr (example_calls route)"
    and windows: "load_windows io files result = Inr (map example_window [0..<15])"
    and fresh: "map_of files filtered = None" and route: "map_of ROUTES label = Some route"
  shows "\<exists>b. summarize_block io label trace result filtered files
    = (Inr b, AList.update filtered (io_csv_text io (FILTERED_TRACE_FIELDS # sn_filtered (example_scan label route))) files)
    \<and> bk_status b = ''observed''"
proof -
  define files1 where "files1 = AList.update filtered
    (io_csv_text io (FILTERED_TRACE_FIELDS # sn_filtered (example_scan label route))) files"
  have scan: "scan_block label route (example_calls route) (map example_window [0..<15]) = Inr (example_scan label route)"
    unfolding example_scan_def by (rule scan_block_total [OF example_sound])
  have "map_of files trace \<noteq> None" "map_of files result \<noteq> None"
    using trace windows by (auto simp: read_trace_def read_table_def load_windows_def load_json_def rbind_Inr_iff read_evidence_Inr)
  then have "\<exists>h. evidence_sha256 io files1 trace = Inr h" "\<exists>h. evidence_sha256 io files1 result = Inr h"
      "\<exists>h. evidence_sha256 io files1 filtered = Inr h"
    by (auto simp: files1_def evidence_sha256_def read_evidence_def dict_simps)
  then obtain h1 h2 h3 where hashes: "evidence_sha256 io files1 trace = Inr h1"
      "evidence_sha256 io files1 result = Inr h2" "evidence_sha256 io files1 filtered = Inr h3" by blast
  have "\<forall>c \<in> set (example_calls route). tc_api c \<in> set TRACE_APIS"
      "\<forall>c \<in> set (measured_calls (example_calls route) (example_scan label route)). tc_api c \<in> set TRACE_APIS"
    using example_sound [of route] example_measured [of route label] by (auto simp: sound_call_def)
  then have "\<exists>b. block_summary_of io files1 route trace result filtered (example_calls route) (example_scan label route) = Inr b
      \<and> bk_status b = ''observed''"
    using example_statuses [OF route] example_keys example_no_failure
    by (simp add: block_summary_of_def transport_counts_Inr hashes Let_def)
  moreover have "summarize_block io label trace result filtered files
      = (block_summary_of io files1 route trace result filtered (example_calls route) (example_scan label route), files1)"
    unfolding summarize_block_def
    using route by (simp add: dict_item_def trace windows scan write_filtered_def fresh files1_def)
  ultimately show ?thesis by (auto simp: files1_def)
qed

lemma example_route: "map_of ROUTES ''new-1'' = Some ''new''"
  by (simp add: ROUTES_def)

lemma example_block:
  "\<exists>b files'. summarize_block example_io ''new-1'' ''trace'' ''result'' ''filtered'' example_files = (Inr b, files')
    \<and> bk_status b = ''observed''"
proof -
  have "map_of example_files ''filtered'' = None" by (simp add: example_files_def)
  from example_block_observed [OF example_trace example_windows this example_route] show ?thesis by blast
qed

section \<open>The properties at the example\<close>


end
