(* ===== verification/WeightStore.thy ===== *)
theory WeightStore
  imports Scratch
begin

text \<open>
  \<open>materialize_runtime_weights.py\<close>: the tensors of the frozen checkpoint are written one file
  each, with a manifest, either to a directory below \<open>/dev/shm\<close> or into a persistent store where
  the directory and the manifest are named by the digest of the manifest. The disk is that of
  \<open>Scratch\<close>, a file's bytes being the characters of its text.
\<close>

section \<open>Constants\<close>

definition MODEL_REVISION :: string where
  "MODEL_REVISION = ''a09a35458c702b33eeacc393d103063234e8bc28''"
definition MODEL_CONFIG_SHA256 :: string where
  "MODEL_CONFIG_SHA256 = ''7463bb0ea78315365e6c6b74de4e73bbcc8359dfb0c5a737584e077d42c0b03c''"
definition MODEL_INDEX_SHA256 :: string where
  "MODEL_INDEX_SHA256 = ''624bf7c47cd12468fdc16e38a47cf4f19e0415b859a223ba3c027eed2f0e1028''"
definition MODEL_LAYERS :: nat where "MODEL_LAYERS = 28"
definition HIDDEN_SIZE :: nat where "HIDDEN_SIZE = 3584"
definition INTERMEDIATE_SIZE :: nat where "INTERMEDIATE_SIZE = 18944"
definition MODEL_HEADS :: nat where "MODEL_HEADS = 28"
definition MODEL_KV_HEADS :: nat where "MODEL_KV_HEADS = 4"
definition MODEL_HEAD_SIZE :: nat where "MODEL_HEAD_SIZE = 128"
definition VOCAB_SIZE :: nat where "VOCAB_SIZE = 152064"
definition ROPE_THETA :: pyval where "ROPE_THETA = PFloat (Fin 1000000)"
definition PHYSICAL_BLOCKS :: nat where "PHYSICAL_BLOCKS = 8"
definition MODEL_BLOCK_SIZE :: nat where "MODEL_BLOCK_SIZE = 128"
definition LOGICAL_CAPACITY :: nat where "LOGICAL_CAPACITY = 8"
definition EXPECTED_CHECKPOINT_TENSORS :: nat where "EXPECTED_CHECKPOINT_TENSORS = 339"
definition EXPECTED_EXTERNAL_FILES :: nat where "EXPECTED_EXTERNAL_FILES = 342"
definition EXPECTED_EXTERNAL_BYTES :: nat where "EXPECTED_EXTERNAL_BYTES = 15231237408"
definition EXPECTED_MANIFEST_SHA256 :: string where
  "EXPECTED_MANIFEST_SHA256 = ''2ec95bf8e78cfaf091782b3c531b19b9cced35dcfab0e418c756e25abe456761''"
definition ASSET_STORE_MARKER :: string where "ASSET_STORE_MARKER = ''.cruise-asset-store-v1''"
definition ASSET_STORE_MARKER_CONTENT :: string where
  "ASSET_STORE_MARKER_CONTENT = ''Cruise content-addressed asset store v1'' @ [CHR 0x0A]"

lemmas size_constants = MODEL_LAYERS_def HIDDEN_SIZE_def INTERMEDIATE_SIZE_def MODEL_HEADS_def MODEL_KV_HEADS_def
  MODEL_HEAD_SIZE_def VOCAB_SIZE_def PHYSICAL_BLOCKS_def MODEL_BLOCK_SIZE_def LOGICAL_CAPACITY_def

section \<open>The tensors of the checkpoint\<close>

definition layer_prefix :: "nat \<Rightarrow> string" where
  "layer_prefix index = ''model.layers.'' @ nat_str index"

text \<open>\<open>layer_key_names\<close>: the keys of a layer, without its prefix, and the local names.\<close>

definition LAYER_NAMES :: "(string \<times> string) list" where
  "LAYER_NAMES =
     [(''.input_layernorm.weight'', ''input_norm''), (''.post_attention_layernorm.weight'', ''post_norm''),
      (''.self_attn.q_proj.weight'', ''q_weight''), (''.self_attn.q_proj.bias'', ''q_bias''),
      (''.self_attn.k_proj.weight'', ''k_weight''), (''.self_attn.k_proj.bias'', ''k_bias''),
      (''.self_attn.v_proj.weight'', ''v_weight''), (''.self_attn.v_proj.bias'', ''v_bias''),
      (''.self_attn.o_proj.weight'', ''o_weight''), (''.mlp.gate_proj.weight'', ''gate_weight''),
      (''.mlp.up_proj.weight'', ''up_weight''), (''.mlp.down_proj.weight'', ''down_weight'')]"

definition layer_key_names :: "nat \<Rightarrow> (string, string) dict" where
  "layer_key_names index = map (\<lambda>(key, name). (layer_prefix index @ key, name)) LAYER_NAMES"

definition base_destinations :: "(string, string) dict" where
  "base_destinations =
     [(''model.embed_tokens.weight'', ''embedding''), (''model.norm.weight'', ''final_norm''),
      (''lm_head.weight'', ''lm_head'')]"

definition layer_destinations :: "nat \<Rightarrow> (string, string) dict" where
  "layer_destinations layer =
     map (\<lambda>(key, name). (key, ''layers_'' @ nat_str layer @ ''_'' @ name)) (layer_key_names layer)"

definition checkpoint_destinations :: "(string, string) dict" where
  "checkpoint_destinations =
     fold (\<lambda>layer d. fold (\<lambda>(key, name). AList.update key name) (layer_destinations layer) d)
       [0..<MODEL_LAYERS] base_destinations"

text \<open>The shapes, with the kind of each tensor of a layer.\<close>

definition LAYER_SHAPES :: "(string \<times> nat list) list" where
  "LAYER_SHAPES =
     [(''.input_layernorm.weight'', [HIDDEN_SIZE]), (''.post_attention_layernorm.weight'', [HIDDEN_SIZE]),
      (''.self_attn.q_proj.weight'', [HIDDEN_SIZE, HIDDEN_SIZE]), (''.self_attn.q_proj.bias'', [HIDDEN_SIZE]),
      (''.self_attn.k_proj.weight'', [MODEL_KV_HEADS * MODEL_HEAD_SIZE, HIDDEN_SIZE]),
      (''.self_attn.k_proj.bias'', [MODEL_KV_HEADS * MODEL_HEAD_SIZE]),
      (''.self_attn.v_proj.weight'', [MODEL_KV_HEADS * MODEL_HEAD_SIZE, HIDDEN_SIZE]),
      (''.self_attn.v_proj.bias'', [MODEL_KV_HEADS * MODEL_HEAD_SIZE]),
      (''.self_attn.o_proj.weight'', [HIDDEN_SIZE, HIDDEN_SIZE]),
      (''.mlp.gate_proj.weight'', [INTERMEDIATE_SIZE, HIDDEN_SIZE]),
      (''.mlp.up_proj.weight'', [INTERMEDIATE_SIZE, HIDDEN_SIZE]),
      (''.mlp.down_proj.weight'', [HIDDEN_SIZE, INTERMEDIATE_SIZE])]"

definition base_shapes :: "(string, nat list) dict" where
  "base_shapes =
     [(''model.embed_tokens.weight'', [VOCAB_SIZE, HIDDEN_SIZE]), (''model.norm.weight'', [HIDDEN_SIZE]),
      (''lm_head.weight'', [VOCAB_SIZE, HIDDEN_SIZE])]"

definition expected_shapes :: "(string, nat list) dict" where
  "expected_shapes =
     fold (\<lambda>layer d. fold (\<lambda>(key, shape). AList.update (layer_prefix layer @ key) shape) LAYER_SHAPES d)
       [0..<MODEL_LAYERS] base_shapes"

section \<open>Actions on the disk\<close>

text \<open>An action may raise, and leaves a disk in either case.\<close>

type_synonym 'a action = "disk \<Rightarrow> (exn + 'a) \<times> disk"

definition act_return :: "'a \<Rightarrow> 'a action" where
  "act_return x d = (Inr x, d)"

definition act_of :: "exn + 'a \<Rightarrow> 'a action" where
  "act_of r d = (r, d)"

definition act_bind :: "'a action \<Rightarrow> ('a \<Rightarrow> 'b action) \<Rightarrow> 'b action" where
  "act_bind a k d = (case a d of (Inl e, d') \<Rightarrow> (Inl e, d') | (Inr x, d') \<Rightarrow> k x d')"

definition act_require :: "bool \<Rightarrow> exn \<Rightarrow> unit action" where
  "act_require c e d = (if c then (Inr (), d) else (Inl e, d))"

fun act_each :: "('a \<Rightarrow> 'b action) \<Rightarrow> 'a list \<Rightarrow> 'b list action" where
  "act_each f [] = act_return []"
| "act_each f (x # xs) = act_bind (f x) (\<lambda>y. act_bind (act_each f xs) (\<lambda>ys. act_return (y # ys)))"

section \<open>The host\<close>

text \<open>
  \<open>tn_data\<close> are the bytes of the contiguous tensor. \<open>wh_tensor\<close> is what \<open>safe_open\<close> gives for a
  shard and a key, \<open>wh_derived\<close> the tensors torch computes.
\<close>

record weight_tensor =
  tn_dtype :: string
  tn_shape :: "nat list"
  tn_element_size :: nat
  tn_data :: string

record weight_host =
  wh_disk :: scratch_host
  wh_sha :: "string \<Rightarrow> string"
  wh_json :: "string \<Rightarrow> exn + pyval"
  wh_dumps :: "pyval \<Rightarrow> string"
  wh_tensor :: "place \<Rightarrow> string \<Rightarrow> exn + weight_tensor"
  wh_inv_freq :: weight_tensor
  wh_arange :: "nat \<Rightarrow> weight_tensor"
  wh_pid :: string
  wh_rename :: "place \<Rightarrow> place \<Rightarrow> exn option"

definition file_content :: "place \<Rightarrow> string action" where
  "file_content p d =
     (case map_of d p of
        None \<Rightarrow> (Inl (FileNotFoundError (''No such file or directory: '' @ place_str p)), d)
      | Some Folder \<Rightarrow> (Inl (OSError (''Is a directory: '' @ place_str p)), d)
      | Some (Text s) \<Rightarrow> (Inr s, d))"

definition weight_sha256 :: "weight_host \<Rightarrow> place \<Rightarrow> string action" where
  "weight_sha256 h p = act_bind (file_content p) (\<lambda>s. act_return (wh_sha h s))"

text \<open>\<open>mkdir(parents=True, exist_ok=False)\<close>.\<close>

definition mkdir_new :: "weight_host \<Rightarrow> place \<Rightarrow> unit action" where
  "mkdir_new h p d =
     (if disk_exists d p then (Inl (OSError (''File exists: '' @ place_str p)), d) else mkdir_parents (wh_disk h) p d)"

text \<open>\<open>path.open("xb")\<close> and the bytes.\<close>

definition write_new :: "weight_host \<Rightarrow> place \<Rightarrow> string \<Rightarrow> unit action" where
  "write_new h p s d =
     (if disk_exists d p then (Inl (OSError (''File exists: '' @ place_str p)), d) else write_text (wh_disk h) p s d)"

definition write_tensor :: "weight_host \<Rightarrow> place \<Rightarrow> weight_tensor \<Rightarrow> unit action" where
  "write_tensor h p t =
     act_bind (write_new h p (tn_data t)) (\<lambda>_.
     act_bind (file_content p) (\<lambda>s.
       act_require (length s = prod_list (tn_shape t) * tn_element_size t)
         (RuntimeError (''short tensor write: '' @ place_str p))))"

text \<open>\<open>a.rename(b)\<close> of a directory, which moves all of it, and \<open>a.replace(b)\<close> of a file.\<close>

definition rename_tree :: "weight_host \<Rightarrow> place \<Rightarrow> place \<Rightarrow> unit action" where
  "rename_tree h a b d =
     (case wh_rename h a b of
        Some e \<Rightarrow> (Inl e, d)
      | None \<Rightarrow>
          if \<not> disk_exists d a then (Inl (FileNotFoundError ''No such file or directory''), d)
          else if disk_is_file d b then (Inl (OSError ''Not a directory''), d)
          else if disk_entries d b \<noteq> [] then (Inl (OSError ''Directory not empty''), d)
          else (Inr (), map (\<lambda>(q, n). if below a q then (b @ drop (length a) q, n) else (q, n)) (AList.delete b d)))"

definition replace_file :: "weight_host \<Rightarrow> place \<Rightarrow> place \<Rightarrow> unit action" where
  "replace_file h a b d =
     (case wh_rename h a b of
        Some e \<Rightarrow> (Inl e, d)
      | None \<Rightarrow>
          (case map_of d a of
             Some (Text s) \<Rightarrow>
               if disk_is_dir d b then (Inl (OSError ''Is a directory''), d)
               else (Inr (), AList.update b (Text s) (AList.delete a d))
           | _ \<Rightarrow> (Inl (FileNotFoundError ''No such file or directory''), d)))"

section \<open>Where the weights go\<close>

text \<open>\<open>resolve_output_location\<close>: the directory, and the root of the store it belongs to.\<close>

definition resolve_output_location :: "weight_host \<Rightarrow> string \<Rightarrow> string option \<Rightarrow> exn + place \<times> place option" where
  "resolve_output_location h output_dir asset_root =
     (let out = fy_resolve (sc_fs (wh_disk h)) output_dir in
      if is_relative_to out ''/dev/shm'' then
        if same_path out ''/dev/shm'' then Inl (RuntimeError ''runtime-weight output must not be /dev/shm itself'')
        else Inr (path_parts out, None)
      else
        (case asset_root of
           None \<Rightarrow> Inl (RuntimeError ''runtime weights outside /dev/shm require --persistent-asset-root'')
         | Some given \<Rightarrow>
             let store = path_parts (fy_resolve (sc_fs (wh_disk h)) given);
                 expected = store @ [''runtime-weights'', EXPECTED_MANIFEST_SHA256]
             in if store = [] then Inl (RuntimeError ''persistent asset root must be a dedicated child directory'')
                else if path_parts out \<noteq> expected then
                  Inl (RuntimeError (''persistent runtime-weight output must equal the content-addressed path ''
                    @ place_str expected))
                else Inr (path_parts out, Some store)))"

definition prepare_asset_store :: "weight_host \<Rightarrow> place \<Rightarrow> unit action" where
  "prepare_asset_store h store d =
     (let marker = store @ [ASSET_STORE_MARKER] in
      if disk_exists d store then
        if \<not> disk_is_dir d store then
          (Inl (RuntimeError (''persistent asset root is not a directory: '' @ place_str store)), d)
        else if disk_exists d marker then
          (case read_text d marker of
             Inl e \<Rightarrow> (Inl e, d)
           | Inr s \<Rightarrow>
               if s \<noteq> ASSET_STORE_MARKER_CONTENT then
                 (Inl (RuntimeError (''persistent asset marker is invalid: '' @ place_str marker)), d)
               else (Inr (), d))
        else if disk_entries d store \<noteq> [] then
          (Inl (RuntimeError (''refusing to adopt non-empty unmarked asset root: '' @ place_str store)), d)
        else write_text (wh_disk h) marker ASSET_STORE_MARKER_CONTENT d
      else
        act_bind (mkdir_parents (wh_disk h) store) (\<lambda>_. write_text (wh_disk h) marker ASSET_STORE_MARKER_CONTENT) d)"

section \<open>A bundle that is there\<close>

text \<open>The files of a directory, by name; the names are sorted.\<close>

definition files_in :: "disk \<Rightarrow> place \<Rightarrow> string list" where
  "files_in d p = sort (map last (filter (disk_is_file d) (disk_entries d p)))"

definition file_size_in :: "disk \<Rightarrow> place \<Rightarrow> nat" where
  "file_size_in d p = (case map_of d p of Some (Text s) \<Rightarrow> length s | _ \<Rightarrow> 0)"

text \<open>\<open>{record.get("name"): record}\<close>; a name that is a list or a dictionary cannot be a key.\<close>

definition hashable :: "pyval \<Rightarrow> bool" where
  "hashable v \<longleftrightarrow> \<not> is_list v \<and> \<not> is_dict v"

definition named_records :: "pyval list \<Rightarrow> exn + (pyval, (string \<times> pyval) list) dict" where
  "named_records records =
     fold_res (\<lambda>record d.
        case record of
          PDict r \<Rightarrow> if hashable (py_get r ''name'') then Inr (AList.update (py_get r ''name'') r d)
                     else Inl (TypeError ''unhashable type'')
        | _ \<Rightarrow> Inr d) records []"

definition check_bundle_file ::
  "weight_host \<Rightarrow> place \<Rightarrow> (pyval, (string \<times> pyval) list) dict \<Rightarrow> string \<Rightarrow> unit action" where
  "check_bundle_file h dir by_name name d =
     (case map_of by_name (PStr name) of
        None \<Rightarrow> (Inl (KeyError name), d)
      | Some r \<Rightarrow>
          act_bind (act_require (py_eq (py_get r ''bytes'') (PInt (int (file_size_in d (dir @ [name])))))
              (RuntimeError (''existing runtime-weight size mismatch: '' @ name))) (\<lambda>_.
          act_bind (weight_sha256 h (dir @ [name])) (\<lambda>digest.
            act_require (py_get r ''sha256'' = PStr digest)
              (RuntimeError (''existing runtime-weight hash mismatch: '' @ name)))) d)"

definition validate_existing_bundle :: "weight_host \<Rightarrow> place \<Rightarrow> place \<Rightarrow> unit action" where
  "validate_existing_bundle h dir manifest_path d =
     (if \<not> disk_is_dir d dir \<or> \<not> disk_is_file d manifest_path then
        (Inl (RuntimeError (''content-addressed runtime-weight bundle is incomplete: weights='' @ place_str dir
          @ '', manifest='' @ place_str manifest_path)), d)
      else
        act_bind (weight_sha256 h manifest_path) (\<lambda>digest.
        act_bind (act_require (digest = EXPECTED_MANIFEST_SHA256)
          (RuntimeError ''existing runtime-weight manifest hash is incompatible'')) (\<lambda>_.
        act_bind (file_content manifest_path) (\<lambda>text.
        act_bind (act_of (wh_json h text)) (\<lambda>manifest.
        act_bind (act_of (case manifest of
            PDict m \<Rightarrow>
              (case py_get m ''files'' of
                 PList rs \<Rightarrow> if length rs = EXPECTED_EXTERNAL_FILES then Inr rs
                   else Inl (RuntimeError ''existing runtime-weight manifest file list is incomplete'')
               | _ \<Rightarrow> Inl (RuntimeError ''existing runtime-weight manifest file list is incomplete''))
          | _ \<Rightarrow> Inl (AttributeError ''object has no attribute get''))) (\<lambda>records.
        let files = files_in d dir in
        act_bind (act_require (length files = EXPECTED_EXTERNAL_FILES)
          (RuntimeError ''existing runtime-weight file count is incompatible'')) (\<lambda>_.
        act_bind (act_require (sum_list (map (\<lambda>n. file_size_in d (dir @ [n])) files) = EXPECTED_EXTERNAL_BYTES)
          (RuntimeError ''existing runtime-weight byte count is incompatible'')) (\<lambda>_.
        act_bind (act_of (named_records records)) (\<lambda>by_name.
        act_bind (act_require (set (keys by_name) = PStr ` set files)
          (RuntimeError ''existing runtime-weight names are incompatible'')) (\<lambda>_.
        act_bind (act_each (check_bundle_file h dir by_name) files) (\<lambda>_. act_return ())))))))))) d)"

section \<open>Writing a bundle\<close>

record weight_file =
  wf_name :: string
  wf_source :: string
  wf_shape :: "nat list"
  wf_dtype :: string
  wf_bytes :: nat
  wf_sha256 :: string

definition weight_file_doc :: "weight_file \<Rightarrow> pyval" where
  "weight_file_doc f = PDict
     [(''name'', PStr (wf_name f)), (''source'', PStr (wf_source f)),
      (''shape'', PList (map (PInt \<circ> int) (wf_shape f))), (''dtype'', PStr (wf_dtype f)),
      (''bytes'', PInt (int (wf_bytes f))), (''sha256'', PStr (wf_sha256 f))]"

definition validate_model_identity :: "weight_host \<Rightarrow> place \<Rightarrow> unit action" where
  "validate_model_identity h model_dir =
     act_bind (weight_sha256 h (model_dir @ [''config.json''])) (\<lambda>c.
     act_bind (act_require (c = MODEL_CONFIG_SHA256)
       (RuntimeError ''model config hash does not match the frozen revision'')) (\<lambda>_.
     act_bind (weight_sha256 h (model_dir @ [''model.safetensors.index.json''])) (\<lambda>i.
       act_require (i = MODEL_INDEX_SHA256) (RuntimeError ''model index hash does not match the frozen revision''))))"

definition expected_config :: "(string \<times> pyval) list" where
  "expected_config =
     [(''hidden_size'', PInt (int HIDDEN_SIZE)), (''intermediate_size'', PInt (int INTERMEDIATE_SIZE)),
      (''num_attention_heads'', PInt (int MODEL_HEADS)), (''num_key_value_heads'', PInt (int MODEL_KV_HEADS)),
      (''num_hidden_layers'', PInt (int MODEL_LAYERS)), (''vocab_size'', PInt (int VOCAB_SIZE)),
      (''rope_theta'', ROPE_THETA)]"

definition check_config :: "pyval \<Rightarrow> exn + unit" where
  "check_config config =
     (case config of
        PDict c \<Rightarrow>
          if \<exists>(key, value) \<in> set expected_config. \<not> py_eq (py_get c key) value then
            Inl (RuntimeError ''model configuration does not match the frozen decoder'')
          else Inr ()
      | _ \<Rightarrow> Inl (AttributeError ''object has no attribute get''))"

text \<open>\<open>index["weight_map"]\<close>, whose keys are those of the decoder.\<close>

definition weight_map :: "pyval \<Rightarrow> exn + (string, pyval) dict" where
  "weight_map index =
     (case index of
        PDict i \<Rightarrow>
          rbind (dict_item i ''weight_map'') (\<lambda>m.
            case m of
              PDict w \<Rightarrow>
                if set (keys w) \<noteq> set (keys checkpoint_destinations) then
                  Inl (RuntimeError ''checkpoint keys do not match the frozen decoder'')
                else Inr w
            | _ \<Rightarrow> Inl (TypeError ''object is not a mapping''))
      | _ \<Rightarrow> Inl (TypeError ''object is not subscriptable''))"

text \<open>The shard of each key; one that is no string fails when it is joined to a path.\<close>

definition shard_names :: "(string, pyval) dict \<Rightarrow> exn + (string, string) dict" where
  "shard_names w = map_res (\<lambda>(key, shard).
     case shard of PStr s \<Rightarrow> Inr (key, s) | _ \<Rightarrow> Inl (TypeError ''unsupported operand type(s) for /'')) w"

text \<open>The shards in order, and the keys of each in order.\<close>

definition keys_by_shard :: "(string, string) dict \<Rightarrow> (string \<times> string) list" where
  "keys_by_shard m =
     concat (map (\<lambda>shard. map (\<lambda>key. (shard, key)) (sort (map fst (filter (\<lambda>(_, s). s = shard) m))))
       (sort (remdups (map snd m))))"

definition record_file :: "weight_host \<Rightarrow> place \<Rightarrow> string \<Rightarrow> string \<Rightarrow> weight_tensor \<Rightarrow> weight_file action" where
  "record_file h dir name source t =
     act_bind (write_tensor h (dir @ [name]) t) (\<lambda>_ d.
     act_bind (weight_sha256 h (dir @ [name])) (\<lambda>digest.
       act_return \<lparr>wf_name = name, wf_source = source, wf_shape = tn_shape t, wf_dtype = tn_dtype t,
         wf_bytes = file_size_in d (dir @ [name]), wf_sha256 = digest\<rparr>) d)"

definition materialize_tensor :: "weight_host \<Rightarrow> place \<Rightarrow> place \<Rightarrow> string \<times> string \<Rightarrow> weight_file action" where
  "materialize_tensor h model_dir dir numbered =
     (let (shard, key) = numbered in
      act_bind (act_of (wh_tensor h (if is_absolute shard then path_parts shard else model_dir @ path_parts shard) key)) (\<lambda>t.
      act_bind (act_require (tn_dtype t = ''bfloat16'')
        (RuntimeError (''unexpected dtype for '' @ key @ '': '' @ tn_dtype t))) (\<lambda>_.
      act_bind (act_of (dict_item expected_shapes key)) (\<lambda>shape.
      act_bind (act_require (tn_shape t = shape) (RuntimeError (''unexpected shape for '' @ key))) (\<lambda>_.
      act_bind (act_of (dict_item checkpoint_destinations key)) (\<lambda>name.
        record_file h dir name key t))))))"

definition derived_tensors :: "weight_host \<Rightarrow> (string \<times> weight_tensor) list" where
  "derived_tensors h =
     [(''inv_freq'', wh_inv_freq h), (''physical_slots'', wh_arange h (PHYSICAL_BLOCKS * MODEL_BLOCK_SIZE)),
      (''logical_offsets'', wh_arange h LOGICAL_CAPACITY)]"

definition manifest_doc :: "weight_file list \<Rightarrow> pyval" where
  "manifest_doc files = PDict
     [(''gate'', PStr ''Attempt 71 runtime external-weight materialization''), (''pass'', PBool True),
      (''model_revision'', PStr MODEL_REVISION), (''model_config_sha256'', PStr MODEL_CONFIG_SHA256),
      (''model_index_sha256'', PStr MODEL_INDEX_SHA256),
      (''checkpoint_tensors'', PInt (int EXPECTED_CHECKPOINT_TENSORS)), (''derived_tensors'', PInt 3),
      (''external_files'', PInt (int (length files))),
      (''external_bytes'', PInt (int (sum_list (map wf_bytes files)))),
      (''files'', PList (map weight_file_doc files))]"

text \<open>The checks of the collected records.\<close>

definition check_files :: "weight_file list \<Rightarrow> exn + unit" where
  "check_files files =
     (if length files \<noteq> EXPECTED_EXTERNAL_FILES then
        Inl (RuntimeError (''unexpected external file count: '' @ nat_str (length files)))
      else if sum_list (map wf_bytes files) \<noteq> EXPECTED_EXTERNAL_BYTES then
        Inl (RuntimeError (''unexpected external byte count: '' @ nat_str (sum_list (map wf_bytes files))))
      else if card (set (map wf_name files)) \<noteq> length files then
        Inl (RuntimeError ''duplicate external weight destination'')
      else Inr ())"

text \<open>From the model's identity to the sorted records.\<close>

definition write_bundle :: "weight_host \<Rightarrow> place \<Rightarrow> place \<Rightarrow> weight_file list action" where
  "write_bundle h model_dir dir =
     act_bind (validate_model_identity h model_dir) (\<lambda>_.
     act_bind (act_bind (file_content (model_dir @ [''config.json''])) (\<lambda>s. act_of (wh_json h s))) (\<lambda>config.
     act_bind (act_bind (file_content (model_dir @ [''model.safetensors.index.json''])) (\<lambda>s. act_of (wh_json h s))) (\<lambda>index.
     act_bind (act_require (length checkpoint_destinations = EXPECTED_CHECKPOINT_TENSORS)
       (RuntimeError ''internal checkpoint mapping count changed'')) (\<lambda>_.
     act_bind (act_of (weight_map index)) (\<lambda>shard_map.
     act_bind (act_of (check_config config)) (\<lambda>_.
     act_bind (act_of (shard_names shard_map)) (\<lambda>shards.
     act_bind (act_each (materialize_tensor h model_dir dir) (keys_by_shard shards)) (\<lambda>files.
     act_bind (act_each (\<lambda>(name, t). record_file h dir name ''derived'' t) (derived_tensors h)) (\<lambda>derived.
     let all_files = sort_key wf_name (files @ derived) in
     act_bind (act_of (check_files all_files)) (\<lambda>_. act_return all_files))))))))))"

section \<open>The run\<close>

definition staging_of :: "weight_host \<Rightarrow> place \<Rightarrow> place" where
  "staging_of h p = butlast p @ [''.'' @ last p @ ''.staging-'' @ wh_pid h]"

text \<open>The manifest of a bundle, written and checked against the frozen digest.\<close>

definition write_manifest :: "weight_host \<Rightarrow> place \<Rightarrow> weight_file list \<Rightarrow> unit action" where
  "write_manifest h temporary files =
     act_bind (mkdir_parents (wh_disk h) (butlast temporary)) (\<lambda>_.
     act_bind (\<lambda>d. if disk_is_dir d temporary then (Inl (OSError ''Is a directory''), d)
         else write_text (wh_disk h) temporary (wh_dumps h (manifest_doc files)) d) (\<lambda>_.
     act_bind (weight_sha256 h temporary) (\<lambda>digest.
       act_require (digest = EXPECTED_MANIFEST_SHA256)
         (RuntimeError (''runtime-weight manifest changed: observed '' @ digest)))))"

text \<open>\<open>cleanup_partial_output\<close>, which runs at exit unless the run succeeded; its own errors are only printed.\<close>

definition cleanup_partial_output :: "weight_host \<Rightarrow> place \<Rightarrow> place \<Rightarrow> place \<Rightarrow> place \<Rightarrow> disk \<Rightarrow> disk" where
  "cleanup_partial_output h dir target temporary manifest_path d =
     (case (if dir \<noteq> target \<and> disk_exists d dir then rmtree (wh_disk h) dir d else (Inr (), d)) of
        (Inl e, d') \<Rightarrow> d'
      | (Inr _, d') \<Rightarrow>
          if temporary \<noteq> manifest_path \<and> disk_exists d' temporary then
            (case sc_remove (wh_disk h) temporary of Inl e \<Rightarrow> d' | Inr _ \<Rightarrow> AList.delete temporary d')
          else d')"

text \<open>What runs under the cleanup: the staging directory, the bundle, its manifest, and the publication.\<close>

definition build_bundle ::
  "weight_host \<Rightarrow> place \<Rightarrow> bool \<Rightarrow> place \<Rightarrow> place \<Rightarrow> place \<Rightarrow> place \<Rightarrow> unit action" where
  "build_bundle h model_dir in_store dir target temporary manifest_path =
     act_bind (mkdir_new h dir) (\<lambda>_.
     act_bind (write_bundle h model_dir dir) (\<lambda>files.
     act_bind (write_manifest h temporary files) (\<lambda>_.
       if in_store then
         act_bind (rename_tree h dir target) (\<lambda>_. replace_file h temporary manifest_path)
       else act_return ())))"

definition build_and_clean ::
  "weight_host \<Rightarrow> place \<Rightarrow> bool \<Rightarrow> place \<Rightarrow> place \<Rightarrow> place \<Rightarrow> place \<Rightarrow> bool action" where
  "build_and_clean h model_dir in_store dir target temporary manifest_path d =
     (case build_bundle h model_dir in_store dir target temporary manifest_path d of
        (Inl e, d') \<Rightarrow> (Inl e, cleanup_partial_output h dir target temporary manifest_path d')
      | (Inr _, d') \<Rightarrow> (Inr False, d'))"

record weight_args =
  wa_model_dir :: string
  wa_output_dir :: string
  wa_manifest :: string
  wa_asset_root :: "string option"

definition store_run :: "weight_host \<Rightarrow> place \<Rightarrow> place \<Rightarrow> place \<Rightarrow> place \<Rightarrow> bool action" where
  "store_run h model_dir target manifest_path store =
     act_bind (prepare_asset_store h store) (\<lambda>_.
     act_bind (act_require (manifest_path = store @ [''manifests'', EXPECTED_MANIFEST_SHA256 @ ''.json''])
       (RuntimeError (''persistent runtime-weight manifest must equal the content-addressed path ''
         @ place_str (store @ [''manifests'', EXPECTED_MANIFEST_SHA256 @ ''.json''])))) (\<lambda>_ d.
       if disk_exists d target then
         act_bind (validate_existing_bundle h target manifest_path) (\<lambda>_. act_return True) d
       else
         act_bind (mkdir_parents (wh_disk h) (butlast target)) (\<lambda>_.
         act_bind (mkdir_parents (wh_disk h) (butlast manifest_path)) (\<lambda>_.
           build_and_clean h model_dir True (staging_of h target) target
             (staging_of h manifest_path) manifest_path)) d))"

text \<open>\<open>main\<close>: whether an existing bundle was reused.\<close>

definition weights_main :: "weight_host \<Rightarrow> weight_args \<Rightarrow> bool action" where
  "weights_main h a d =
     (let resolve = \<lambda>p. path_parts (fy_resolve (sc_fs (wh_disk h)) p);
          model_dir = resolve (wa_model_dir a);
          manifest_path = resolve (wa_manifest a)
      in if \<not> disk_exists d model_dir then
           (Inl (FileNotFoundError (''No such file or directory: '' @ place_str model_dir)), d)
         else
           (case resolve_output_location h (wa_output_dir a) (wa_asset_root a) of
              Inl e \<Rightarrow> (Inl e, d)
            | Inr (target, None) \<Rightarrow> build_and_clean h model_dir False target target manifest_path manifest_path d
            | Inr (target, Some store) \<Rightarrow> store_run h model_dir target manifest_path store d))"

end
