(* ===== verification/WeightProps.thy ===== *)
theory WeightProps
  imports WeightStore ScratchProps "HOL-Library.Multiset"
begin

text \<open>
  The properties of the store of runtime weights: the frozen counts and sizes follow from the
  frozen shapes, a bundle becomes visible only when it is complete and has the frozen digest,
  and a published bundle is accepted by the next run.
\<close>

section \<open>The tensors of the checkpoint\<close>

lemma fold_update_append:
  "distinct (keys (d @ kvs)) \<Longrightarrow> fold (\<lambda>(k, v). AList.update k v) kvs d = d @ kvs"
proof (induction kvs arbitrary: d)
  case (Cons kv kvs)
  obtain k v where kv: "kv = (k, v)" by (cases kv)
  have "AList.update k v d = d @ [(k, v)]" if "k \<notin> fst ` set d" for d
    using that by (induction d) auto
  with Cons.prems kv have "AList.update k v d = d @ [(k, v)]" by auto
  with Cons kv show ?case by simp
qed simp

lemma fold_of_concat: "fold (\<lambda>x d. fold g (f x) d) xs d = fold g (concat (map f xs)) d"
  by (induction xs arbitrary: d) auto

lemma nat_str_inject: "nat_str i = nat_str j \<longleftrightarrow> i = j"
  by (metis option.inject unsigned_value_nat_str)

lemma nat_str_digits: "c \<in> set (nat_str n) \<Longrightarrow> c \<noteq> CHR ''.'' \<and> c \<noteq> CHR ''_''"
  by (drule nat_str_chars) (auto simp: digit_char_def split: if_splits)

text \<open>A number and what follows it can be told apart when that starts with no digit.\<close>

lemma nat_str_cut:
  assumes "nat_str i @ c # xs = nat_str j @ c # ys" and "c \<in> {CHR ''.'', CHR ''_''}"
  shows "i = j \<and> xs = ys"
proof -
  have "takeWhile (\<lambda>x. x \<noteq> c) (nat_str k @ c # zs) = nat_str k" for k zs
    using nat_str_digits [of _ k] assms(2) by (auto intro!: takeWhile_eq_all_conv [THEN iffD2] simp: takeWhile_append2)
  with assms(1) have "nat_str i = nat_str j" by metis
  with assms(1) show ?thesis by (simp add: nat_str_inject)
qed

definition layer_shapes :: "nat \<Rightarrow> (string, nat list) dict" where
  "layer_shapes layer = map (\<lambda>(key, shape). (layer_prefix layer @ key, shape)) LAYER_SHAPES"

definition layer_keys :: "nat \<Rightarrow> string list" where
  "layer_keys layer = map (\<lambda>key. layer_prefix layer @ key) (keys LAYER_NAMES)"

lemma layer_keys: "keys (layer_destinations l) = layer_keys l" "keys (layer_shapes l) = layer_keys l"
  by (simp_all add: layer_destinations_def layer_key_names_def layer_keys_def layer_shapes_def LAYER_NAMES_def LAYER_SHAPES_def)

lemma layer_names_dotted: "p \<in> set LAYER_NAMES \<Longrightarrow> fst p = CHR ''.'' # tl (fst p)"
  by (auto simp: LAYER_NAMES_def)

lemma layer_key_parts: "k \<in> set (layer_keys i) \<Longrightarrow> \<exists>x. k = layer_prefix i @ CHR ''.'' # x"
proof -
  assume "k \<in> set (layer_keys i)"
  then obtain p where "p \<in> set LAYER_NAMES" and "k = layer_prefix i @ fst p"
    unfolding layer_keys_def by force
  then show ?thesis using layer_names_dotted by metis
qed

lemma layer_keys_apart: "k \<in> set (layer_keys i) \<Longrightarrow> k \<in> set (layer_keys j) \<Longrightarrow> i = j"
proof -
  assume "k \<in> set (layer_keys i)" "k \<in> set (layer_keys j)"
  then obtain x y where "k = layer_prefix i @ CHR ''.'' # x" "k = layer_prefix j @ CHR ''.'' # y"
    using layer_key_parts by metis
  then have "nat_str i @ CHR ''.'' # x = nat_str j @ CHR ''.'' # y" by (simp add: layer_prefix_def)
  then show ?thesis by (rule nat_str_cut [THEN conjunct1]) simp
qed

lemma layer_keys_distinct: "distinct (layer_keys l)"
  by (simp add: layer_keys_def LAYER_NAMES_def layer_prefix_def)

lemma distinct_concat_upt:
  assumes "\<And>i. distinct (f i)" and "\<And>x i j. x \<in> set (f i) \<Longrightarrow> x \<in> set (f j) \<Longrightarrow> i = j"
  shows "distinct (concat (map f [0..<n]))"
proof (induction n)
  case (Suc n)
  have "x \<notin> set (f i)" if "x \<in> set (f n)" "i < n" for x i
    using assms(2) [of x n i] that by blast
  with Suc assms(1) show ?case by (auto simp: disjoint_iff)
qed simp

lemma layers_distinct: "distinct (concat (map layer_keys [0..<n]))"
  by (rule distinct_concat_upt [OF layer_keys_distinct layer_keys_apart])

lemma base_keys:
  "keys base_destinations = [''model.embed_tokens.weight'', ''model.norm.weight'', ''lm_head.weight'']"
  "keys base_shapes = keys base_destinations"
  by (simp_all add: base_destinations_def base_shapes_def)

definition checkpoint_keys :: "string list" where
  "checkpoint_keys = keys base_destinations @ concat (map layer_keys [0..<MODEL_LAYERS])"

lemma checkpoint_keys_distinct: "distinct checkpoint_keys"
  using layers_distinct [of MODEL_LAYERS]
  by (auto simp: checkpoint_keys_def base_keys layer_keys_def layer_prefix_def)

lemma keys_concat: "keys (concat (map f xs)) = concat (map (\<lambda>x. keys (f x)) xs)"
  by (simp add: map_concat comp_def)

lemma checkpoint_destinations_eq:
  "checkpoint_destinations = base_destinations @ concat (map layer_destinations [0..<MODEL_LAYERS])"
  unfolding checkpoint_destinations_def fold_of_concat
  by (rule fold_update_append) (use checkpoint_keys_distinct in \<open>simp add: keys_concat layer_keys checkpoint_keys_def\<close>)

lemma expected_shapes_eq:
  "expected_shapes = base_shapes @ concat (map layer_shapes [0..<MODEL_LAYERS])"
proof -
  have "fold (\<lambda>(key, shape). AList.update (layer_prefix l @ key) shape) LAYER_SHAPES
      = fold (\<lambda>(k, v). AList.update k v) (layer_shapes l)" for l
    by (simp add: layer_shapes_def fold_map comp_def case_prod_unfold)
  then have "expected_shapes = fold (\<lambda>(k, v). AList.update k v) (concat (map layer_shapes [0..<MODEL_LAYERS])) base_shapes"
    unfolding expected_shapes_def by (simp only: fold_of_concat)
  also have "\<dots> = base_shapes @ concat (map layer_shapes [0..<MODEL_LAYERS])"
    by (rule fold_update_append) (use checkpoint_keys_distinct in \<open>simp add: keys_concat layer_keys base_keys(2) checkpoint_keys_def\<close>)
  finally show ?thesis .
qed

lemma destination_keys: "keys checkpoint_destinations = checkpoint_keys"
  by (simp add: checkpoint_destinations_eq checkpoint_keys_def keys_concat layer_keys)

lemma shape_keys: "keys expected_shapes = checkpoint_keys"
  by (simp add: expected_shapes_eq checkpoint_keys_def keys_concat layer_keys base_keys(2))

lemma checkpoint_count: "length checkpoint_destinations = EXPECTED_CHECKPOINT_TENSORS"
  by (simp add: checkpoint_destinations_eq length_concat layer_destinations_def layer_key_names_def LAYER_NAMES_def
      base_destinations_def EXPECTED_CHECKPOINT_TENSORS_def MODEL_LAYERS_def comp_def sum_list_replicate map_replicate_const)

text \<open>The names of the files.\<close>

definition layer_file_names :: "nat \<Rightarrow> string list" where
  "layer_file_names l = map (\<lambda>name. ''layers_'' @ nat_str l @ ''_'' @ name) (map snd LAYER_NAMES)"

lemma layer_names: "map snd (layer_destinations l) = layer_file_names l"
  by (simp add: layer_file_names_def layer_destinations_def layer_key_names_def comp_def case_prod_unfold)

lemma layer_name_parts: "x \<in> set (layer_file_names i) \<Longrightarrow> \<exists>y. x = ''layers_'' @ nat_str i @ CHR ''_'' # y"
  unfolding layer_file_names_def by force

lemma layer_names_apart: "x \<in> set (layer_file_names i) \<Longrightarrow> x \<in> set (layer_file_names j) \<Longrightarrow> i = j"
proof -
  assume "x \<in> set (layer_file_names i)" "x \<in> set (layer_file_names j)"
  then obtain a b where "x = ''layers_'' @ nat_str i @ CHR ''_'' # a" "x = ''layers_'' @ nat_str j @ CHR ''_'' # b"
    using layer_name_parts by metis
  then have "nat_str i @ CHR ''_'' # a = nat_str j @ CHR ''_'' # b" by simp
  then show ?thesis by (rule nat_str_cut [THEN conjunct1]) simp
qed

lemma layer_files_distinct: "distinct (concat (map layer_file_names [0..<n]))"
proof (rule distinct_concat_upt)
  show "distinct (layer_file_names i)" for i by (simp add: layer_file_names_def LAYER_NAMES_def)
qed (rule layer_names_apart)

definition derived_names :: "string list" where
  "derived_names = [''inv_freq'', ''physical_slots'', ''logical_offsets'']"

lemma file_names_distinct: "distinct (map snd checkpoint_destinations @ derived_names)"
proof -
  have base: "x \<notin> set (layer_file_names l)" if "x \<in> set (map snd base_destinations @ derived_names)" for x l
    using that by (auto simp: base_destinations_def derived_names_def dest!: layer_name_parts)
  have names: "map snd checkpoint_destinations = map snd base_destinations @ concat (map layer_file_names [0..<MODEL_LAYERS])"
    by (simp add: checkpoint_destinations_eq map_concat comp_def layer_names)
  have "distinct (map snd base_destinations @ derived_names)"
    by (simp add: base_destinations_def derived_names_def)
  then show ?thesis
    using base layer_files_distinct [of MODEL_LAYERS] unfolding names distinct_append by fastforce
qed

text \<open>The bytes of all the tensors, two for each element.\<close>

lemma sum_list_concat: "sum_list (concat xss) = sum_list (map sum_list xss)"
  by (induction xss) auto

lemma expected_bytes:
  "sum_list (map (\<lambda>(key, shape). 2 * prod_list shape) expected_shapes) + 4384 = EXPECTED_EXTERNAL_BYTES"
proof -
  have "sum_list (map (\<lambda>(key, shape). 2 * prod_list shape) (layer_shapes l)) = 466115584" for l
    by (simp add: layer_shapes_def LAYER_SHAPES_def size_constants)
  then show ?thesis
    by (simp add: expected_shapes_eq base_shapes_def size_constants map_concat sum_list_concat comp_def
        sum_list_replicate map_replicate_const EXPECTED_EXTERNAL_BYTES_def)
qed

section \<open>Actions that only add\<close>

text \<open>\<open>confined P a\<close>: whatever happens, \<open>a\<close> changes nothing that is there and adds only where \<open>P\<close> holds.\<close>

named_theorems confined_intros

definition confined :: "(place \<Rightarrow> bool) \<Rightarrow> 'a action \<Rightarrow> bool" where
  "confined P a \<longleftrightarrow> (\<forall>d. grows P d (snd (a d)))"

lemma confinedD: "confined P a \<Longrightarrow> a d = (r, d') \<Longrightarrow> grows P d d'"
  unfolding confined_def by (metis snd_conv)

lemma confined_return [confined_intros]: "confined P (act_return x)"
  by (simp add: confined_def act_return_def)

lemma confined_of [confined_intros]: "confined P (act_of r)"
  by (simp add: confined_def act_of_def)

lemma confined_require [confined_intros]: "confined P (act_require c e)"
  by (simp add: confined_def act_require_def)

lemma confined_bind [confined_intros]:
  "confined P a \<Longrightarrow> (\<And>x. confined P (k x)) \<Longrightarrow> confined P (act_bind a k)"
  unfolding confined_def act_bind_def by (auto split: sum.split prod.split intro: grows_trans) 

lemma confined_bind_of: "(\<And>x. r = Inr x \<Longrightarrow> confined P (k x)) \<Longrightarrow> confined P (act_bind (act_of r) k)"
  by (cases r) (auto simp: confined_def act_bind_def act_of_def)

lemma confined_each [confined_intros]:
  "(\<And>x. x \<in> set xs \<Longrightarrow> confined P (f x)) \<Longrightarrow> confined P (act_each f xs)"
  by (induction xs) (auto intro!: confined_intros)

lemma confined_content [confined_intros]: "confined P (file_content p)"
  by (auto simp: confined_def file_content_def split: option.split node.split)

lemma confined_sha [confined_intros]: "confined P (weight_sha256 h p)"
  unfolding weight_sha256_def by (intro confined_intros)

lemma confined_write_new [confined_intros]: "P p \<Longrightarrow> confined P (write_new h p s)"
  unfolding confined_def write_new_def
  by (auto simp: disk_exists_def write_text_def split: option.split intro: grows_update)

lemma confined_write_tensor [confined_intros]: "P p \<Longrightarrow> confined P (write_tensor h p t)"
  unfolding write_tensor_def by (intro confined_intros)

lemma confined_record: "P (dir @ [name]) \<Longrightarrow> confined P (record_file h dir name source t)"
  unfolding record_file_def
  by (intro confined_intros) (auto simp: confined_def act_bind_def act_return_def weight_sha256_def file_content_def
      split: sum.split option.split node.split)

lemma confined_identity [confined_intros]: "confined P (validate_model_identity h m)"
  unfolding validate_model_identity_def by (intro confined_intros)

definition all_names :: "string list" where
  "all_names = map snd checkpoint_destinations @ derived_names"

lemma destination_name: "map_of checkpoint_destinations key = Some name \<Longrightarrow> name \<in> set all_names"
  by (force simp: all_names_def dest: map_of_SomeD)

lemma confined_materialize [confined_intros]:
  assumes "\<And>n. n \<in> set all_names \<Longrightarrow> P (dir @ [n])"
  shows "confined P (materialize_tensor h m dir x)"
  unfolding materialize_tensor_def Let_def prod.case_eq_if using assms
  by (intro confined_bind_of confined_bind [OF confined_require])
    (auto simp: dict_item_Inr intro!: confined_record intro: destination_name)

lemma confined_bundle [confined_intros]:
  assumes "\<And>n. n \<in> set all_names \<Longrightarrow> P (dir @ [n])"
  shows "confined P (write_bundle h m dir)"
  unfolding write_bundle_def Let_def
  by (intro confined_intros assms)
    (auto simp: derived_tensors_def all_names_def derived_names_def intro!: confined_record assms)

section \<open>What a bundle holds\<close>

text \<open>\<open>f\<close> is on the disk as its record says.\<close>

definition stored :: "weight_host \<Rightarrow> place \<Rightarrow> disk \<Rightarrow> weight_file \<Rightarrow> bool" where
  "stored h dir d f \<longleftrightarrow>
     (\<exists>s. map_of d (dir @ [wf_name f]) = Some (Text s) \<and> length s = wf_bytes f \<and> wh_sha h s = wf_sha256 f)"

lemma stored_grows: "stored h dir d f \<Longrightarrow> grows P d d' \<Longrightarrow> stored h dir d' f"
  unfolding stored_def by (meson grows_keeps)

lemma act_bind_Inr: "act_bind a k d = (Inr y, d') \<longleftrightarrow> (\<exists>x d1. a d = (Inr x, d1) \<and> k x d1 = (Inr y, d'))"
  by (auto simp: act_bind_def split: sum.split prod.split)

lemma act_require_Inr: "act_require c e d = (Inr u, d') \<longleftrightarrow> c \<and> d' = d"
  by (auto simp: act_require_def)

lemma act_of_Inr: "act_of r d = (Inr x, d') \<longleftrightarrow> r = Inr x \<and> d' = d"
  by (auto simp: act_of_def)

lemma act_return_Inr: "act_return x d = (Inr y, d') \<longleftrightarrow> y = x \<and> d' = d"
  by (auto simp: act_return_def)

lemma file_content_Inr: "file_content p d = (Inr s, d') \<longleftrightarrow> map_of d p = Some (Text s) \<and> d' = d"
  by (auto simp: file_content_def split: option.split node.split)

lemma weight_sha256_Inr: "weight_sha256 h p d = (Inr x, d') \<longleftrightarrow> (\<exists>s. map_of d p = Some (Text s) \<and> x = wh_sha h s) \<and> d' = d"
  by (auto simp: weight_sha256_def act_bind_Inr file_content_Inr act_return_Inr)

lemmas act_simps = act_bind_Inr act_require_Inr act_of_Inr act_return_Inr file_content_Inr weight_sha256_Inr

lemma write_new_Inr: "write_new h p s d = (Inr u, d') \<Longrightarrow> map_of d p = None \<and> map_of d' p = Some (Text s)"
  by (auto simp: write_new_def disk_exists_def dest: write_text_done split: if_splits)

lemma record_file_Inr:
  assumes "record_file h dir name source t d = (Inr f, d')"
  shows "wf_name f = name" and "wf_source f = source" and "stored h dir d' f"
    and "wf_bytes f = prod_list (tn_shape t) * tn_element_size t"
  using assms by (auto simp: record_file_def write_tensor_def act_simps stored_def file_size_in_def dest!: write_new_Inr)

lemma act_each_Inr:
  assumes "act_each f xs d = (Inr ys, d')"
    and "\<And>x y d1 d2. x \<in> set xs \<Longrightarrow> f x d1 = (Inr y, d2) \<Longrightarrow> Q x y d2"
    and "\<And>x. x \<in> set xs \<Longrightarrow> confined P (f x)"
    and "\<And>x y d1 d2. Q x y d1 \<Longrightarrow> grows P d1 d2 \<Longrightarrow> Q x y d2"
  shows "list_all2 (\<lambda>x y. Q x y d') xs ys"
  using assms(1-3)
proof (induction xs arbitrary: d ys)
  case (Cons x xs)
  then obtain y d1 zs where y: "f x d = (Inr y, d1)" and zs: "act_each f xs d1 = (Inr zs, d')" and ys: "ys = y # zs"
    by (auto simp: act_simps)
  have "grows P d1 d'" by (rule confinedD [OF confined_each zs]) (use Cons.prems(3) in simp)
  then have "Q x y d'" using Cons.prems(2) [OF _ y] assms(4) by simp
  moreover have "list_all2 (\<lambda>x y. Q x y d') xs zs" using Cons zs by simp
  ultimately show ?case by (simp add: ys)
qed (simp add: act_simps)

text \<open>The keys of the shards are those of the index, each once.\<close>

lemma keys_by_shard_set: "set (keys_by_shard m) = (\<lambda>(key, shard). (shard, key)) ` set m"
proof (rule set_eqI)
  fix x :: "string \<times> string"
  obtain shard key where x: "x = (shard, key)" by (cases x)
  have "x \<in> set (keys_by_shard m) \<longleftrightarrow> (key, shard) \<in> set m"
    by (auto simp: keys_by_shard_def x image_iff intro!: bexI [of _ "(key, shard)"])
  then show "x \<in> set (keys_by_shard m) \<longleftrightarrow> x \<in> (\<lambda>(key, shard). (shard, key)) ` set m"
    by (auto simp: x)
qed

lemma keys_by_shard_distinct:
  assumes "distinct (keys m)"
  shows "distinct (map snd (keys_by_shard m))"
proof -
  have d: "distinct (concat (map (\<lambda>s. sort (map fst (filter (\<lambda>(_, s'). s' = s) m))) ss))" if "distinct ss" for ss
    using that
  proof (induction ss)
    case (Cons s ss)
    have "distinct (sort (map fst (filter (\<lambda>(_, s'). s' = s) m)))"
      using assms by (simp add: distinct_map_filter)
    moreover have "k \<notin> set (concat (map (\<lambda>s. sort (map fst (filter (\<lambda>(_, s'). s' = s) m))) ss))"
      if "k \<in> set (sort (map fst (filter (\<lambda>(_, s'). s' = s) m)))" for k
    proof
      assume "k \<in> set (concat (map (\<lambda>s. sort (map fst (filter (\<lambda>(_, s'). s' = s) m))) ss))"
      then obtain s' where "s' \<in> set ss" "(k, s') \<in> set m" by auto
      moreover have "(k, s) \<in> set m" using that by auto
      ultimately have "s' = s" using assms eq_key_imp_eq_value by metis
      with \<open>s' \<in> set ss\<close> Cons.prems show False by simp
    qed
    ultimately show ?case using Cons by auto
  qed simp
  have "map snd (keys_by_shard m) = concat (map (\<lambda>s. sort (map fst (filter (\<lambda>(_, s'). s' = s) m))) (sort (remdups (map snd m))))"
    by (simp add: keys_by_shard_def map_concat comp_def)
  with d [of "sort (remdups (map snd m))"] show ?thesis by simp
qed

section \<open>The frozen numbers\<close>

text \<open>
  What the code relies on of torch: a bfloat16 has two bytes, the frequencies are 64 floats of
  four bytes, and \<open>arange(n)\<close> of 32-bit integers has \<open>n\<close> of four bytes.
\<close>

definition torch_sizes :: "weight_host \<Rightarrow> bool" where
  "torch_sizes h \<longleftrightarrow>
     (\<forall>p k t. wh_tensor h p k = Inr t \<longrightarrow> tn_dtype t = ''bfloat16'' \<longrightarrow> tn_element_size t = 2)
     \<and> tn_shape (wh_inv_freq h) = [64] \<and> tn_element_size (wh_inv_freq h) = 4
     \<and> (\<forall>n. tn_shape (wh_arange h n) = [n] \<and> tn_element_size (wh_arange h n) = 4)"

definition tensor_bytes_of :: "string \<Rightarrow> nat" where
  "tensor_bytes_of key = (case map_of expected_shapes key of Some shape \<Rightarrow> 2 * prod_list shape | None \<Rightarrow> 0)"

lemma materialize_Inr:
  assumes "materialize_tensor h m dir x d = (Inr f, d')" and "torch_sizes h"
  shows "wf_source f = snd x \<and> map_of checkpoint_destinations (snd x) = Some (wf_name f)
    \<and> wf_bytes f = tensor_bytes_of (snd x) \<and> stored h dir d' f"
proof -
  obtain shard key where x: "x = (shard, key)" by (cases x)
  from assms(1) obtain t shape name where t: "wh_tensor h (if is_absolute shard then path_parts shard else m @ path_parts shard) key = Inr t"
      and "tn_dtype t = ''bfloat16''" and shape: "map_of expected_shapes key = Some shape" "tn_shape t = shape"
      and name: "map_of checkpoint_destinations key = Some name" and f: "record_file h dir name key t d = (Inr f, d')"
    by (auto simp: x materialize_tensor_def act_simps dict_item_Inr)
  then have "tn_element_size t = 2" using assms(2) by (simp add: torch_sizes_def)
  with record_file_Inr [OF f] shape name show ?thesis
    by (simp add: x tensor_bytes_of_def mult.commute)
qed

lemma sum_list_keys:
  assumes "distinct ks" and "set ks = set (keys kvs)" and "distinct (keys kvs)"
  shows "sum_list (map (\<lambda>k. case map_of kvs k of Some v \<Rightarrow> f v | None \<Rightarrow> 0) ks) = sum_list (map (\<lambda>(k, v). (f v :: nat)) kvs)"
proof -
  have "sum_list (map (\<lambda>k. case map_of kvs k of Some v \<Rightarrow> f v | None \<Rightarrow> 0) ks)
      = sum_list (map (\<lambda>k. case map_of kvs k of Some v \<Rightarrow> f v | None \<Rightarrow> 0) (keys kvs))"
    using assms by (simp add: sum_list_distinct_conv_sum_set del: map_map set_map)
  also have "\<dots> = sum_list (map (\<lambda>(k, v). f v) kvs)"
    using assms(3) by (auto simp: comp_def case_prod_unfold intro!: arg_cong [where f = sum_list] map_cong)
  finally show ?thesis .
qed

lemma sort_key_facts:
  "length (sort_key f xs) = length xs" "sum_list (map (g :: 'a \<Rightarrow> nat) (sort_key f xs)) = sum_list (map g xs)"
  "set (map (k :: 'a \<Rightarrow> 'c) (sort_key f xs)) = set (map k xs)"
  by (simp_all flip: sum_mset_sum_list)

lemma shard_names_keys: "shard_names w = Inr shards \<Longrightarrow> keys shards = keys w"
  unfolding shard_names_def map_res_list_all2
  by (induction rule: list_all2_induct) (auto split: pyval.splits)

lemma weight_map_keys:
  assumes "weight_map index = Inr w"
  shows "set (keys w) = set checkpoint_keys"
proof (cases index)
  case (PDict i)
  with assms obtain m where m: "(case m of
        PDict v \<Rightarrow>
          if set (keys v) \<noteq> set (keys checkpoint_destinations) then
            Inl (RuntimeError ''checkpoint keys do not match the frozen decoder'')
          else Inr v
      | _ \<Rightarrow> Inl (TypeError ''object is not a mapping'')) = Inr w"
    unfolding weight_map_def PDict pyval.case rbind_Inr_iff by blast
  then show ?thesis by (cases m) (auto simp: destination_keys split: if_splits)
qed (use assms in \<open>simp_all add: weight_map_def\<close>)

lemma bundle_records:
  assumes "torch_sizes h" and "distinct (keys shards)" and "set (keys shards) = set checkpoint_keys"
    and "act_each (materialize_tensor h m dir) (keys_by_shard shards) d = (Inr files, d1)"
    and "act_each (\<lambda>(name, t). record_file h dir name ''derived'' t) (derived_tensors h) d1 = (Inr derived, d2)"
  shows "map wf_name derived = derived_names" and "map wf_bytes derived = [256, 4096, 32]"
    and "length files = 339" and "sum_list (map wf_bytes files) + 4384 = EXPECTED_EXTERNAL_BYTES"
    and "set (map wf_name files) = snd ` set checkpoint_destinations"
proof -
  have m: "list_all2 (\<lambda>x f. wf_source f = snd x \<and> map_of checkpoint_destinations (snd x) = Some (wf_name f)
      \<and> wf_bytes f = tensor_bytes_of (snd x)) (keys_by_shard shards) files"
    by (rule act_each_Inr [OF assms(4), where P = "\<lambda>_. True"])
      (use materialize_Inr [OF _ assms(1)] in \<open>auto intro!: confined_intros\<close>)
  have ks: "set (map snd (keys_by_shard shards)) = set checkpoint_keys"
    using assms(3) by (force simp: keys_by_shard_set)
  note kd = keys_by_shard_distinct [OF assms(2)]
  have "length (map snd (keys_by_shard shards)) = length checkpoint_keys"
    using distinct_card [OF kd] distinct_card [OF checkpoint_keys_distinct] ks by simp
  then show "length files = 339"
    using list_all2_lengthD [OF m] checkpoint_count by (simp add: EXPECTED_CHECKPOINT_TENSORS_def flip: destination_keys)
  have "map wf_bytes files = map tensor_bytes_of (map snd (keys_by_shard shards))"
    using m by (induction rule: list_all2_induct) auto
  then have "sum_list (map wf_bytes files) = sum_list (map (\<lambda>(k, shape). 2 * prod_list shape) expected_shapes)"
    using sum_list_keys [OF kd, of expected_shapes "\<lambda>s. 2 * prod_list s"] ks shape_keys checkpoint_keys_distinct
    unfolding tensor_bytes_of_def [abs_def] by simp
  with expected_bytes show "sum_list (map wf_bytes files) + 4384 = EXPECTED_EXTERNAL_BYTES" by simp
  have "set (map wf_name files) = (\<lambda>k. the (map_of checkpoint_destinations k)) ` set (map snd (keys_by_shard shards))"
    using m by (induction rule: list_all2_induct) auto
  also have "\<dots> = snd ` set checkpoint_destinations"
    using checkpoint_keys_distinct unfolding ks destination_keys [symmetric] by (force simp: image_iff)
  finally show "set (map wf_name files) = snd ` set checkpoint_destinations" .
  have "list_all2 (\<lambda>x f. wf_name f = fst x \<and> wf_bytes f = prod_list (tn_shape (snd x)) * tn_element_size (snd x))
      (derived_tensors h) derived"
    by (rule act_each_Inr [OF assms(5), where P = "\<lambda>_. True"])
      (auto simp: record_file_Inr intro!: confined_record)
  then show "map wf_name derived = derived_names" "map wf_bytes derived = [256, 4096, 32]"
    using assms(1) by (auto simp: derived_tensors_def derived_names_def list_all2_Cons1 torch_sizes_def size_constants)
qed

lemma collected_checked:
  assumes "torch_sizes h" and "weight_map index = Inr w" and "dict_wf w" and "shard_names w = Inr shards"
    and "act_each (materialize_tensor h m dir) (keys_by_shard shards) d = (Inr files, d1)"
    and "act_each (\<lambda>(name, t). record_file h dir name ''derived'' t) (derived_tensors h) d1 = (Inr derived, d2)"
  shows "check_files (sort_key wf_name (files @ derived)) = Inr ()
    \<and> set (map wf_name (files @ derived)) = set all_names"
proof -
  have "set (keys w) = set checkpoint_keys" by (rule weight_map_keys [OF assms(2)])
  then have "set (keys shards) = set checkpoint_keys" "distinct (keys shards)"
    using assms(3) shard_names_keys [OF assms(4)] by (simp_all add: dict_wf_def)
  note r = bundle_records [OF assms(1) this(2,1) assms(5,6)]
  have names: "set (map wf_name (files @ derived)) = set all_names"
    using r(1,5) by (simp add: all_names_def flip: r(1))
  have "length derived = 3" using arg_cong [OF r(2), of length] by simp
  then have n: "length (files @ derived) = 342" using r(3) by simp
  have "card (set all_names) = 342"
    using distinct_card [OF file_names_distinct] checkpoint_count
    by (simp add: all_names_def derived_names_def EXPECTED_CHECKPOINT_TENSORS_def)
  moreover have "sum_list (map wf_bytes (files @ derived)) = EXPECTED_EXTERNAL_BYTES"
    using r(4) by (simp add: r(2))
  ultimately show ?thesis
    using n names unfolding check_files_def sort_key_facts by (simp add: EXPECTED_EXTERNAL_FILES_def)
qed

text \<open>C34: the frozen numbers agree: with the sizes torch has, a bundle whose tensors were all
  written has 342 files of 15231237408 bytes under distinct names, so the checks of the
  collected records cannot fail, whatever shards the checkpoint is cut into.\<close>

theorem frozen_numbers_agree:
  assumes "torch_sizes h" and "weight_map index = Inr w" and "dict_wf w" and "shard_names w = Inr shards"
    and "act_each (materialize_tensor h m dir) (keys_by_shard shards) d = (Inr files, d1)"
    and "act_each (\<lambda>(name, t). record_file h dir name ''derived'' t) (derived_tensors h) d1 = (Inr derived, d2)"
  shows "check_files (sort_key wf_name (files @ derived)) = Inr ()
    \<and> set (map wf_name (files @ derived)) = set all_names"
  by (rule collected_checked [OF assms])

end
