(* ===== verification/WeightPublish.thy ===== *)
theory WeightPublish
  imports WeightProps
begin

text \<open>
  The publication of a bundle in the store: nothing appears under the name of the frozen digest
  before the bundle is complete, whichever operation fails.
\<close>

section \<open>Actions that leave a part of the disk alone\<close>

named_theorems spares_intros

definition spares :: "(place \<Rightarrow> bool) \<Rightarrow> 'a action \<Rightarrow> bool" where
  "spares T a \<longleftrightarrow> (\<forall>d q. T q \<longrightarrow> map_of (snd (a d)) q = map_of d q)"

lemma sparesD: "spares T a \<Longrightarrow> a d = (r, d') \<Longrightarrow> T q \<Longrightarrow> map_of d' q = map_of d q"
  unfolding spares_def by (metis snd_conv)

lemma spares_confined: "confined P a \<Longrightarrow> (\<And>q. T q \<Longrightarrow> \<not> P q) \<Longrightarrow> spares T a"
  unfolding confined_def spares_def grows_def by metis

lemma spares_bind [spares_intros]: "spares T a \<Longrightarrow> (\<And>x. spares T (k x)) \<Longrightarrow> spares T (act_bind a k)"
  unfolding spares_def act_bind_def by (auto split: sum.split prod.split) (metis snd_conv)+

lemma spares_simple [spares_intros]:
  "spares T (act_return x)" "spares T (act_of r)" "spares T (act_require c e)" "spares T (file_content p)"
  "spares T (weight_sha256 h p)"
  by (rule spares_confined [where P = "\<lambda>_. False"], intro confined_intros, simp)+

lemma confined_mkdir_parents: "confined (\<lambda>q. below q p) (mkdir_parents h p)"
  unfolding confined_def using mkdir_parents_grows by (metis prod.collapse)

lemma confined_mkdir_new: "confined (\<lambda>q. below q p) (mkdir_new h p)"
  using confined_mkdir_parents [of p "wh_disk h"] by (auto simp: confined_def mkdir_new_def)

lemma spares_write_text: "\<not> T p \<Longrightarrow> spares T (write_text h p s)"
  by (auto simp: spares_def write_text_def dict_get_update split: option.split)

lemma spares_write_manifest:
  assumes "\<And>q. T q \<Longrightarrow> \<not> below q (butlast temporary)" and "\<not> T temporary"
  shows "spares T (write_manifest h temporary files)"
proof -
  have "spares T (mkdir_parents (wh_disk h) (butlast temporary))"
    using confined_mkdir_parents by (rule spares_confined) (use assms(1) in simp)
  moreover have "spares T (\<lambda>d. if disk_is_dir d temporary then (Inl (OSError ''Is a directory''), d)
      else write_text (wh_disk h) temporary s d)" for s
    using spares_write_text [of T temporary] assms(2) by (auto simp: spares_def)
  ultimately show ?thesis unfolding write_manifest_def by (intro spares_intros)
qed

lemma spares_replace: "\<not> T a \<Longrightarrow> \<not> T b \<Longrightarrow> spares T (replace_file h a b)"
  by (auto simp: spares_def replace_file_def dict_simps split: option.split node.split)

text \<open>The cleanup removes nothing outside the staging directory and the staging manifest.\<close>

lemma cleanup_spares:
  assumes "\<not> below dir q" and "q \<noteq> temporary"
  shows "map_of (cleanup_partial_output h dir target temporary manifest_path d) q = map_of d q"
proof -
  obtain r d' where rm: "(if dir \<noteq> target \<and> disk_exists d dir then rmtree (wh_disk h) dir d else (Inr (), d)) = (r, d')"
    by fastforce
  then have "map_of d' q = map_of d q"
    using assms(1) by (auto dest: rmtree_effect [where q = q] split: if_splits)
  then show ?thesis
    using assms(2) by (auto simp: cleanup_partial_output_def rm dict_simps split: sum.split)
qed

section \<open>Renaming a directory\<close>

lemma map_of_moved:
  assumes "\<And>q. below b q \<Longrightarrow> map_of d q = None" and "\<not> below a b"
  shows "map_of (map (\<lambda>(q, n). if below a q then (b @ drop (length a) q, n) else (q, n)) d) (b @ x) = map_of d (a @ x)"
  using assms(1)
proof (induction d)
  case (Cons e d)
  obtain q n where e: "e = (q, n)" by (cases e)
  have "\<not> below b q" using Cons.prems [of q] e by auto
  then have other: "q \<noteq> b @ x" by (auto simp: below_def)
  have "map_of d q' = None" if "below b q'" for q' using Cons.prems [OF that] e by (auto split: if_splits)
  then have IH: "map_of (map (\<lambda>(q, n). if below a q then (b @ drop (length a) q, n) else (q, n)) d) (b @ x) = map_of d (a @ x)"
    by (rule Cons.IH)
  show ?case
  proof (cases "below a q")
    case True
    then obtain y where "q = a @ y" by (auto simp: below_def prefix_def)
    then show ?thesis using IH by (simp add: e below_def)
  next
    case False
    then have "q \<noteq> a @ x" by (auto simp: below_def)
    with False other IH show ?thesis by (simp add: e)
  qed
qed simp

lemma rename_tree_done:
  assumes "rename_tree h a b d = (Inr u, d')" and "\<And>q. below b q \<Longrightarrow> map_of d q = None" and "\<not> below a b"
  shows "map_of d' (b @ x) = map_of d (a @ x)"
proof -
  have "map_of (AList.delete b d) q = None" if "below b q" for q
    using assms(2) [OF that] by (simp add: dict_simps)
  from map_of_moved [OF this assms(3), of x] have
    "map_of (map (\<lambda>(q, n). if below a q then (b @ drop (length a) q, n) else (q, n)) (AList.delete b d)) (b @ x)
      = map_of (AList.delete b d) (a @ x)" .
  moreover have "a @ x \<noteq> b" using assms(3) by (auto simp: below_def)
  ultimately show ?thesis
    using assms(1) by (auto simp: rename_tree_def dict_simps split: option.splits if_splits)
qed

lemma rename_tree_failed: "rename_tree h a b d = (Inl e, d') \<Longrightarrow> d' = d"
  by (auto simp: rename_tree_def split: option.splits if_splits)

section \<open>A written bundle\<close>

lemma materialize_stored:
  "materialize_tensor h m dir x d = (Inr f, d') \<Longrightarrow> stored h dir d' f"
  by (cases x) (auto simp: materialize_tensor_def act_simps dest: record_file_Inr(3))

lemma each_stored:
  assumes "act_each f xs d = (Inr ys, d')"
    and "\<And>x y d1 d2. x \<in> set xs \<Longrightarrow> f x d1 = (Inr y, d2) \<Longrightarrow> stored h dir d2 y"
    and "\<And>x. x \<in> set xs \<Longrightarrow> confined (\<lambda>_. True) (f x)" and "y \<in> set ys"
  shows "stored h dir d' y"
proof -
  have "list_all2 (\<lambda>x y. stored h dir d' y) xs ys"
    by (rule act_each_Inr [OF assms(1), where P = "\<lambda>_. True"]) (use assms(2,3) stored_grows in auto)
  with assms(4) show ?thesis by (auto dest: list_all2_right)
qed

lemma write_bundle_Inr:
  assumes "write_bundle h m dir d = (Inr files, d')"
  shows "check_files files = Inr ()" and "\<And>f. f \<in> set files \<Longrightarrow> stored h dir d' f"
proof -
  from assms obtain shards fs ds d1 d2 u where fs: "act_each (materialize_tensor h m dir) (keys_by_shard shards) d2 = (Inr fs, d1)"
      and ds: "act_each (\<lambda>(name, t). record_file h dir name ''derived'' t) (derived_tensors h) d1 = (Inr ds, d')"
      and ok: "check_files (sort_key wf_name (fs @ ds)) = Inr u" and files: "files = sort_key wf_name (fs @ ds)"
    unfolding write_bundle_def Let_def act_bind_Inr act_of_Inr act_return_Inr
    by (elim exE conjE) (rule that; (hypsubst, assumption | assumption | simp only:))
  show "check_files files = Inr ()" using ok files by simp
  have conf: "confined (\<lambda>_. True) (act_each (\<lambda>(name, t). record_file h dir name ''derived'' t) (derived_tensors h))"
    by (rule confined_each) (auto intro: confined_record)
  have "stored h dir d' f" if "f \<in> set fs" for f
  proof -
    have "stored h dir d1 f"
      by (rule each_stored [OF fs _ _ that]) (auto intro: materialize_stored confined_materialize)
    then show ?thesis using confinedD [OF conf ds] by (rule stored_grows)
  qed
  moreover have "stored h dir d' f" if "f \<in> set ds" for f
    by (rule each_stored [OF ds _ _ that]) (auto intro: record_file_Inr(3) confined_record)
  ultimately show "\<And>f. f \<in> set files \<Longrightarrow> stored h dir d' f" by (auto simp: files)
qed

text \<open>
  A complete bundle: the directory holds exactly the 342 files of a list of records that passed
  the checks, each with its size and digest, and the manifest of the list has the frozen digest.
\<close>

definition bundle_of :: "weight_host \<Rightarrow> place \<Rightarrow> disk \<Rightarrow> weight_file list \<Rightarrow> bool" where
  "bundle_of h dir d files \<longleftrightarrow> disk_is_dir d dir \<and> wh_sha h (wh_dumps h (manifest_doc files)) = EXPECTED_MANIFEST_SHA256
     \<and> check_files files = Inr () \<and> (\<forall>f \<in> set files. stored h dir d f)
     \<and> (\<forall>x. x \<noteq> [] \<longrightarrow> (map_of d (dir @ x) \<noteq> None \<longleftrightarrow> x \<in> (\<lambda>f. [wf_name f]) ` set files))"

lemma all_names_card: "card (set all_names) = 342"
  using distinct_card [OF file_names_distinct] checkpoint_count
  by (simp add: all_names_def derived_names_def EXPECTED_CHECKPOINT_TENSORS_def)

lemma bundle_names:
  assumes "check_files files = Inr ()" and "set (map wf_name files) \<subseteq> set all_names"
  shows "set (map wf_name files) = set all_names"
proof -
  have "card (set (map wf_name files)) = card (set all_names)"
    using assms(1) by (auto simp: check_files_def all_names_card EXPECTED_EXTERNAL_FILES_def split: if_splits)
  then show ?thesis using assms(2) card_subset_eq by blast
qed

lemma written_bundle:
  assumes "write_bundle h m dir d = (Inr files, d')" and "\<And>x. x \<noteq> [] \<Longrightarrow> map_of d (dir @ x) = None"
    and "wh_sha h (wh_dumps h (manifest_doc files)) = EXPECTED_MANIFEST_SHA256" and "map_of d dir = Some Folder"
  shows "bundle_of h dir d' files"
proof -
  note w = write_bundle_Inr [OF assms(1)]
  have g: "grows (\<lambda>q. \<exists>n \<in> set all_names. q = dir @ [n]) d d'"
    by (rule confinedD [OF confined_bundle assms(1)]) blast
  then have new: "x \<in> (\<lambda>n. [n]) ` set all_names" if "x \<noteq> []" "map_of d' (dir @ x) \<noteq> None" for x
    using that assms(2) [OF that(1)] unfolding grows_def by (metis (no_types, lifting) image_eqI same_append_eq)
  have held: "map_of d' (dir @ [wf_name f]) \<noteq> None" if "f \<in> set files" for f
    using w(2) [OF that] by (auto simp: stored_def)
  have "wf_name f \<in> set all_names" if "f \<in> set files" for f
    using new [of "[wf_name f]"] held [OF that] by auto
  then have "set (map wf_name files) \<subseteq> set all_names" by auto
  from bundle_names [OF w(1) this] have names: "set all_names = wf_name ` set files" by simp
  have "map_of d' (dir @ x) \<noteq> None \<longleftrightarrow> x \<in> (\<lambda>f. [wf_name f]) ` set files" if "x \<noteq> []" for x
    using new [OF that] held unfolding names by blast
  moreover have "disk_is_dir d' dir" using grows_keeps [OF g assms(4)] by (simp add: disk_is_dir_def)
  ultimately show ?thesis using w assms(3) unfolding bundle_of_def by blast
qed

lemma bundle_of_cong:
  assumes "bundle_of h dir d files" and "\<And>x. map_of d' (dir' @ x) = map_of d (dir @ x)"
  shows "bundle_of h dir' d' files"
proof -
  have "disk_is_dir d' dir' \<longleftrightarrow> disk_is_dir d dir" using assms(2) [of "[]"] by (simp add: disk_is_dir_def)
  then show ?thesis using assms(1) unfolding bundle_of_def stored_def assms(2) by simp
qed

section \<open>Publishing\<close>

lemma mkdir_new_Inr:
  "mkdir_new h p d = (Inr u, d') \<Longrightarrow> map_of d p = None \<and> mkdir_parents (wh_disk h) p d = (Inr u, d')"
  by (auto simp: mkdir_new_def disk_exists_def split: if_splits)

lemma write_manifest_Inr:
  assumes "write_manifest h p files d = (Inr u, d')"
  shows "map_of d' p = Some (Text (wh_dumps h (manifest_doc files)))"
    and "wh_sha h (wh_dumps h (manifest_doc files)) = EXPECTED_MANIFEST_SHA256"
  using assms by (auto simp: write_manifest_def act_simps dest!: write_text_done split: if_splits)

text \<open>The staging directory is apart from the target and the manifests.\<close>

definition staged_apart :: "place \<Rightarrow> place \<Rightarrow> place \<Rightarrow> place \<Rightarrow> bool" where
  "staged_apart dir target temporary manifest_path \<longleftrightarrow>
     \<not> below dir target \<and> \<not> below target dir \<and> \<not> below dir temporary \<and> \<not> below target temporary
     \<and> \<not> below target manifest_path \<and> \<not> below dir manifest_path"

lemma apart_ancestor:
  assumes "\<not> below p q" and "below p a"
  shows "\<not> below a q" and "\<not> below a (butlast q)"
proof -
  show "\<not> below a q" using assms unfolding below_def by (meson prefix_order.trans)
  have "prefix (butlast q) q" by (rule prefixeq_butlast)
  then show "\<not> below a (butlast q)" using assms unfolding below_def by (meson prefix_order.trans)
qed

lemma build_spares:
  assumes "staged_apart dir target temporary manifest_path"
  shows "spares (below target) (mkdir_new h dir)" and "spares (below target) (write_bundle h m dir)"
    and "spares (below target) (write_manifest h temporary files)"
    and "spares (below dir) (write_manifest h temporary files)"
    and "spares (below target) (replace_file h temporary manifest_path)"
proof -
  note apart = assms [unfolded staged_apart_def]
  show "spares (below target) (mkdir_new h dir)"
    by (rule spares_confined [OF confined_mkdir_new]) (use apart apart_ancestor(1) in blast)
  show "spares (below target) (write_bundle h m dir)"
    by (rule spares_confined [where P = "\<lambda>q. \<exists>n. q = dir @ [n] \<and> \<not> below target q"])
      (use apart in \<open>auto intro!: confined_intros simp: below_def\<close>)
  show "spares (below target) (write_manifest h temporary files)"
    by (rule spares_write_manifest) (use apart apart_ancestor(2) in auto)
  show "spares (below dir) (write_manifest h temporary files)"
    by (rule spares_write_manifest) (use apart apart_ancestor(2) in auto)
  show "spares (below target) (replace_file h temporary manifest_path)"
    by (rule spares_replace) (use apart in auto)
qed

text \<open>\<open>empty_at d p\<close>: the disk has nothing at \<open>p\<close> or below it.\<close>

definition empty_at :: "disk \<Rightarrow> place \<Rightarrow> bool" where
  "empty_at d p \<longleftrightarrow> (\<forall>x. map_of d (p @ x) = None)"

lemma empty_at_below: "empty_at d p \<longleftrightarrow> (\<forall>q. below p q \<longrightarrow> map_of d q = None)"
  by (auto simp: empty_at_def below_def prefix_def)

lemma spares_empty: "spares (below p) a \<Longrightarrow> a d = (r, d') \<Longrightarrow> empty_at d p \<Longrightarrow> empty_at d' p"
  unfolding empty_at_below by (metis sparesD)

text \<open>Up to the renaming: the target is as empty as it was, and a complete bundle is staged.\<close>

definition build_stage :: "weight_host \<Rightarrow> place \<Rightarrow> place \<Rightarrow> place \<Rightarrow> weight_file list action" where
  "build_stage h m dir temporary =
     act_bind (mkdir_new h dir) (\<lambda>_. act_bind (write_bundle h m dir) (\<lambda>files.
     act_bind (write_manifest h temporary files) (\<lambda>_. act_return files)))"

lemma build_bundle_staged:
  "build_bundle h m True dir target temporary mp =
     act_bind (build_stage h m dir temporary) (\<lambda>files. act_bind (rename_tree h dir target) (\<lambda>_. replace_file h temporary mp))"
  by (rule ext) (simp add: build_bundle_def build_stage_def act_bind_def act_return_def split: sum.split prod.split)

lemma build_stage_spares:
  "staged_apart dir target temporary mp \<Longrightarrow> spares (below target) (build_stage h m dir temporary)"
  unfolding build_stage_def by (intro spares_intros) (rule build_spares; assumption)+

lemma build_stage_Inr:
  assumes "build_stage h m dir temporary d = (Inr files, d')" and apart: "staged_apart dir target temporary mp"
    and fresh: "map_of d dir = None \<Longrightarrow> empty_at d dir"
  shows "bundle_of h dir d' files" and "map_of d' temporary = Some (Text (wh_dumps h (manifest_doc files)))"
proof -
  from assms(1) obtain u v d1 d2 where mk: "mkdir_new h dir d = (Inr u, d1)" and wb: "write_bundle h m dir d1 = (Inr files, d2)"
      and wm: "write_manifest h temporary files d2 = (Inr v, d')"
    by (auto simp: build_stage_def act_simps)
  note mk' = mkdir_new_Inr [OF mk]
  have dir: "dir \<noteq> []" using apart by (auto simp: staged_apart_def below_def)
  have "map_of d1 (dir @ x) = None" if "x \<noteq> []" for x
  proof -
    have "map_of d (dir @ x) = None" using fresh mk' by (simp add: empty_at_def)
    moreover have "\<not> below (dir @ x) dir" using that by (auto simp: below_def prefix_def)
    ultimately show ?thesis
      using confinedD [OF confined_mkdir_new mk] unfolding grows_def by metis
  qed
  from written_bundle [OF wb this] write_manifest_Inr(2) [OF wm] mk' have "bundle_of h dir d2 files"
    using make_folders_done [of "wh_disk h" "ancestors dir" d u d1 dir] dir by (simp add: mkdir_parents_def ancestors_iff)
  then show "bundle_of h dir d' files"
    by (rule bundle_of_cong) (rule sparesD [OF build_spares(4) [OF apart] wm], simp add: below_def)
  show "map_of d' temporary = Some (Text (wh_dumps h (manifest_doc files)))" by (rule write_manifest_Inr(1) [OF wm])
qed

lemma replace_file_Inr:
  "replace_file h a b d = (Inr u, d') \<Longrightarrow> map_of d a = Some (Text s) \<Longrightarrow> a \<noteq> b \<Longrightarrow> map_of d' b = Some (Text s)"
  by (auto simp: replace_file_def dict_simps split: option.splits node.splits if_splits)

lemma rename_tree_other:
  assumes "rename_tree h a b d = (Inr u, d')" and "\<not> below a q" "\<not> below b q" and "\<And>q. below b q \<Longrightarrow> map_of d q = None"
  shows "map_of d' q = map_of d q"
proof -
  have "map_of (map (\<lambda>(q, n). if below a q then (b @ drop (length a) q, n) else (q, n)) e) q = map_of e q" for e :: disk
    using assms(2,3) by (induction e) (auto simp: below_def)
  with assms show ?thesis
    by (auto simp: rename_tree_def dict_simps below_def split: option.splits if_splits)
qed

lemma build_bundle_published:
  assumes "build_bundle h m True dir target temporary mp d = (r, d')" and apart: "staged_apart dir target temporary mp"
    and fresh: "map_of d dir = None \<Longrightarrow> empty_at d dir" and empty: "empty_at d target" and mp: "mp \<noteq> temporary"
  shows "if isl r then empty_at d' target \<or> (\<exists>files. bundle_of h target d' files)
    else \<exists>files. bundle_of h target d' files \<and> map_of d' mp = Some (Text (wh_dumps h (manifest_doc files)))"
proof -
  obtain s d1 where stage: "build_stage h m dir temporary d = (s, d1)" by fastforce
  have empty1: "empty_at d1 target" by (rule spares_empty [OF build_stage_spares [OF apart] stage empty])
  show ?thesis
  proof (cases s)
    case (Inl e)
    then show ?thesis using assms(1) stage empty1 by (auto simp: build_bundle_staged act_bind_def)
  next
    case (Inr files)
    have staged: "bundle_of h dir d1 files" "map_of d1 temporary = Some (Text (wh_dumps h (manifest_doc files)))"
      using build_stage_Inr [OF stage [unfolded Inr] apart] fresh by blast+
    obtain t d2 where ren: "rename_tree h dir target d1 = (t, d2)" by fastforce
    show ?thesis
    proof (cases t)
      case (Inl e)
      then show ?thesis using assms(1) stage Inr ren empty1 rename_tree_failed [OF ren [unfolded Inl]]
        by (auto simp: build_bundle_staged act_bind_def)
    next
      case (Inr u)
      note ren = ren [unfolded Inr]
      have rep: "replace_file h temporary mp d2 = (r, d')"
        using assms(1) stage \<open>s = Inr files\<close> ren by (simp add: build_bundle_staged act_bind_def)
      have none: "\<And>q. below target q \<Longrightarrow> map_of d1 q = None" using empty1 by (simp add: empty_at_below)
      have "bundle_of h target d2 files"
        using staged(1) rename_tree_done [OF ren] none apart
        by (elim bundle_of_cong) (simp add: staged_apart_def)
      then have published: "bundle_of h target d' files"
        by (rule bundle_of_cong) (rule sparesD [OF build_spares(5) [OF apart] rep], simp add: below_def)
      have kept: "map_of d2 temporary = Some (Text (wh_dumps h (manifest_doc files)))"
        using rename_tree_other [OF ren _ _ none, of temporary] staged(2) apart by (simp add: staged_apart_def)
      show ?thesis using published replace_file_Inr [OF _ kept] rep mp by (cases r) auto
    qed
  qed
qed

section \<open>A run of the store\<close>

text \<open>Below the folder of the weights, or below a folder next to it.\<close>

lemma empty_missing: "disk_wf d \<Longrightarrow> map_of d p = None \<Longrightarrow> empty_at d p"
  unfolding empty_at_def
proof (rule allI)
  fix x assume wf: "disk_wf d" and p: "map_of d p = None"
  show "map_of d (p @ x) = None"
  proof (induction x rule: rev_induct)
    case (snoc n x)
    then show ?case using disk_wfD [OF wf, of "p @ x" n] by (cases "map_of d (p @ x @ [n])") auto
  qed (simp add: p)
qed

abbreviation weights_place :: "place \<Rightarrow> place" where
  "weights_place store \<equiv> store @ [''runtime-weights'', EXPECTED_MANIFEST_SHA256]"

abbreviation manifest_place :: "place \<Rightarrow> place" where
  "manifest_place store \<equiv> store @ [''manifests'', EXPECTED_MANIFEST_SHA256 @ ''.json'']"

text \<open>What the preparation of the store leaves alone: whatever is inside the folder of the weights.\<close>

definition inside_weights :: "place \<Rightarrow> place \<Rightarrow> bool" where
  "inside_weights store q \<longleftrightarrow> (\<exists>n x. q = store @ ''runtime-weights'' # n # x)"

lemma prepare_spares: "spares (inside_weights store) (prepare_asset_store h store)"
proof -
  have marker: "\<not> inside_weights store (store @ [ASSET_STORE_MARKER])"
    by (simp add: inside_weights_def)
  have "spares (inside_weights store) (mkdir_parents (wh_disk h) store)"
    by (rule spares_confined [OF confined_mkdir_parents]) (auto simp: inside_weights_def below_def prefix_def)
  then have new: "spares (inside_weights store) (act_bind (mkdir_parents (wh_disk h) store)
      (\<lambda>_. write_text (wh_disk h) (store @ [ASSET_STORE_MARKER]) ASSET_STORE_MARKER_CONTENT))"
    by (rule spares_bind) (rule spares_write_text, rule marker)
  show ?thesis
    unfolding spares_def
  proof (intro allI impI)
    fix d q assume q: "inside_weights store q"
    show "map_of (snd (prepare_asset_store h store d)) q = map_of d q"
      using q new [unfolded spares_def] spares_write_text [of "inside_weights store", OF marker, unfolded spares_def]
      by (simp add: prepare_asset_store_def Let_def split: sum.split)
  qed
qed

lemma parents_spares:
  "spares (inside_weights store) (mkdir_parents (wh_disk h) (butlast (weights_place store)))"
  "spares (inside_weights store) (mkdir_parents (wh_disk h) (butlast (manifest_place store)))"
  by (rule spares_confined [OF confined_mkdir_parents], auto simp: inside_weights_def below_def prefix_def butlast_append)+

lemma staging_apart:
  "staged_apart (staging_of h (weights_place store)) (weights_place store) (staging_of h (manifest_place store)) (manifest_place store)"
  by (simp add: staged_apart_def staging_of_def below_def butlast_append EXPECTED_MANIFEST_SHA256_def)

lemma staging_inside: "inside_weights store (staging_of h (weights_place store) @ x)" "inside_weights store (weights_place store @ x)"
  by (auto simp: inside_weights_def staging_of_def butlast_append)

text \<open>\<open>published h store r d\<close>: the state a run may leave behind, with its outcome.\<close>

definition published :: "weight_host \<Rightarrow> place \<Rightarrow> exn + bool \<Rightarrow> disk \<Rightarrow> bool" where
  "published h store r d \<longleftrightarrow>
     (case r of
        Inl e \<Rightarrow> empty_at d (weights_place store) \<or> (\<exists>files. bundle_of h (weights_place store) d files)
      | Inr reused \<Rightarrow> \<not> reused \<and> (\<exists>files. bundle_of h (weights_place store) d files
          \<and> map_of d (manifest_place store) = Some (Text (wh_dumps h (manifest_doc files)))))"

lemma build_and_clean_published:
  assumes run: "build_and_clean h m True (staging_of h (weights_place store)) (weights_place store)
      (staging_of h (manifest_place store)) (manifest_place store) d = (r, d')"
    and fresh: "map_of d (staging_of h (weights_place store)) = None \<Longrightarrow> empty_at d (staging_of h (weights_place store))"
    and empty: "empty_at d (weights_place store)"
  shows "published h store r d'"
proof -
  let ?dir = "staging_of h (weights_place store)" and ?temp = "staging_of h (manifest_place store)"
  have apart: "\<not> below ?dir (weights_place store @ x)" "weights_place store @ x \<noteq> ?temp" for x
    by (auto simp: staging_of_def below_def butlast_append EXPECTED_MANIFEST_SHA256_def)
  have mp: "manifest_place store \<noteq> ?temp"
    by (simp add: staging_of_def butlast_append EXPECTED_MANIFEST_SHA256_def)
  obtain s d1 where b: "build_bundle h m True ?dir (weights_place store) ?temp (manifest_place store) d = (s, d1)"
    by fastforce
  note p = build_bundle_published [OF b staging_apart fresh empty mp]
  show ?thesis
  proof (cases s)
    case (Inl e)
    then have d': "d' = cleanup_partial_output h ?dir (weights_place store) ?temp (manifest_place store) d1" "r = Inl e"
      using run b by (auto simp: build_and_clean_def)
    have same: "map_of d' (weights_place store @ x) = map_of d1 (weights_place store @ x)" for x
      unfolding d' by (rule cleanup_spares) (rule apart)+
    show ?thesis
      using p Inl bundle_of_cong [of h "weights_place store" d1 _ d' "weights_place store"] same
      by (auto simp: published_def d'(2) empty_at_def)
  next
    case (Inr u)
    with p run b show ?thesis by (auto simp: build_and_clean_def published_def)
  qed
qed

lemma store_run_published:
  assumes wf: "disk_wf d" and missing: "\<not> disk_exists d (weights_place store)"
    and run: "store_run h m (weights_place store) mp store d = (r, d')"
  shows "published h store r d'"
proof -
  let ?T = "inside_weights store"
  define prep where "prep = act_bind (prepare_asset_store h store) (\<lambda>_.
     act_require (mp = manifest_place store)
       (RuntimeError (''persistent runtime-weight manifest must equal the content-addressed path '' @ place_str (manifest_place store))))"
  define par where "par = act_bind (mkdir_parents (wh_disk h) (butlast (weights_place store))) (\<lambda>_.
     mkdir_parents (wh_disk h) (butlast (manifest_place store)))"
  have prep: "spares ?T prep" unfolding prep_def by (intro spares_intros prepare_spares)
  have par: "spares ?T par" unfolding par_def by (intro spares_bind parents_spares)
  have empty: "empty_at d (weights_place store)"
    using empty_missing [OF wf] missing by (simp add: disk_exists_def)
  have gone: "empty_at e (weights_place store) \<and> (map_of e (staging_of h (weights_place store)) = None \<longrightarrow> empty_at e (staging_of h (weights_place store)))"
    if same: "\<And>q. ?T q \<Longrightarrow> map_of e q = map_of d q" for e
  proof -
    have "map_of e (weights_place store @ x) = None" for x
      using same [OF staging_inside(2)] empty unfolding empty_at_def by metis
    moreover have "map_of e (staging_of h (weights_place store) @ x) = map_of d (staging_of h (weights_place store) @ x)" for x
      by (rule same [OF staging_inside(1)])
    ultimately show ?thesis
      using empty_missing [OF wf, of "staging_of h (weights_place store)"] unfolding empty_at_def by (metis append_Nil2)
  qed
  obtain s d1 where p: "prep d = (s, d1)" by fastforce
  have same1: "\<And>q. ?T q \<Longrightarrow> map_of d1 q = map_of d q" by (rule sparesD [OF prep p])
  note gone1 = gone [OF same1]
  show ?thesis
  proof (cases s)
    case (Inl e)
    then have "r = Inl e \<and> d' = d1" using run p
      by (auto simp: store_run_def prep_def act_bind_def act_require_def split: sum.splits prod.splits if_splits)
    with gone1 show ?thesis by (simp add: published_def)
  next
    case (Inr u)
    have mp: "mp = manifest_place store" using p Inr by (auto simp: prep_def act_simps)
    have target: "\<not> disk_exists d1 (weights_place store)"
      using gone1 by (auto simp: empty_at_def disk_exists_def dest: spec [of _ "[]"])
    obtain t d2 where q: "par d1 = (t, d2)" by fastforce
    have same2: "\<And>q. ?T q \<Longrightarrow> map_of d2 q = map_of d q" using sparesD [OF par q] same1 by simp
    note gone2 = gone [OF same2]
    from p Inr target have run': "act_bind par (\<lambda>_. build_and_clean h m True (staging_of h (weights_place store)) (weights_place store)
        (staging_of h (manifest_place store)) (manifest_place store)) d1 = (r, d')"
      using run by (auto simp: store_run_def prep_def par_def mp act_bind_def act_require_def split: sum.splits prod.splits if_splits)
    show ?thesis
    proof (cases t)
      case (Inl e)
      with run' q gone2 show ?thesis by (auto simp: published_def act_bind_def)
    next
      case (Inr v)
      with run' q build_and_clean_published gone2 show ?thesis by (simp add: act_bind_def)
    qed
  qed
qed

text \<open>C32: nothing is published by halves: when the store has no weights yet, a run that raises,
  wherever it does, leaves either nothing under the name of the weights or a complete bundle of
  342 files, each as its record says, whose manifest has the frozen digest; a run that returns
  leaves the complete bundle and its manifest.\<close>

theorem published_all_or_nothing:
  assumes "disk_wf d" and "\<not> disk_exists d (weights_place store)"
    and "store_run h m (weights_place store) mp store d = (r, d')"
  shows "published h store r d'"
  using assms by (rule store_run_published)

text \<open>
  The renaming of the directory and that of the manifest are two steps. When the second fails,
  the complete weights have no manifest, and every later run refuses them.
\<close>

lemma interrupted_store_refused:
  assumes "disk_exists d (weights_place store)" and "\<not> disk_is_file d (manifest_place store)"
    and "prepare_asset_store h store d = (Inr (), d)"
  shows "\<exists>msg. store_run h m (weights_place store) (manifest_place store) store d = (Inl (RuntimeError msg), d)"
  using assms by (auto simp: store_run_def act_bind_def act_require_def validate_existing_bundle_def)

end
