(* ===== verification/WeightReuse.thy ===== *)
theory WeightReuse
  imports WeightPublish
begin

text \<open>
  A published bundle passes the validation of the next run, which reuses it.
\<close>

section \<open>The files of a bundle\<close>

lemma files_in_set: "set (files_in d p) = {n. disk_is_file d (p @ [n])}"
proof -
  have "q \<in> set (keys d)" if "disk_is_file d q" for q
    using that by (force simp: disk_is_file_def dest: map_of_SomeD split: option.splits)
  then show ?thesis
    by (force simp: files_in_def disk_entries_def image_iff intro!: bexI [of _ "p @ [n]" for n] elim: rev_exhaust)
qed

lemma files_in_distinct: "dict_wf d \<Longrightarrow> distinct (files_in d p)"
proof -
  assume "dict_wf d"
  then have "distinct (filter (disk_is_file d) (disk_entries d p))" by (simp add: dict_wf_def disk_entries_def)
  moreover have "inj_on last (set (filter (disk_is_file d) (disk_entries d p)))"
    by (rule inj_onI) (auto simp: disk_entries_def, metis append_butlast_last_id)
  ultimately show ?thesis by (simp add: files_in_def distinct_map)
qed

lemma bundle_files:
  assumes "bundle_of h dir d files" and "dict_wf d"
  shows "set (files_in d dir) = wf_name ` set files" and "distinct (map wf_name files)"
    and "length (files_in d dir) = EXPECTED_EXTERNAL_FILES"
    and "sum_list (map (\<lambda>n. file_size_in d (dir @ [n])) (files_in d dir)) = EXPECTED_EXTERNAL_BYTES"
proof -
  from assms(1) have checks: "length files = EXPECTED_EXTERNAL_FILES" "sum_list (map wf_bytes files) = EXPECTED_EXTERNAL_BYTES"
      "card (set (map wf_name files)) = length files"
    by (auto simp: bundle_of_def check_files_def split: if_splits)
  then show names: "distinct (map wf_name files)" by (intro card_distinct) simp
  have held: "map_of d (dir @ [n]) \<noteq> None \<longleftrightarrow> n \<in> wf_name ` set files" for n
    using assms(1) unfolding bundle_of_def by (auto simp: image_iff)
  have stored: "stored h dir d f" if "f \<in> set files" for f using assms(1) that by (simp add: bundle_of_def)
  show set: "set (files_in d dir) = wf_name ` set files"
    unfolding files_in_set
  proof (intro set_eqI iffI)
    fix n assume "n \<in> wf_name ` set files"
    then obtain f where "f \<in> set files" "n = wf_name f" by blast
    with stored [of f] show "n \<in> {n. disk_is_file d (dir @ [n])}" by (auto simp: disk_is_file_def stored_def)
  next
    fix n assume "n \<in> {n. disk_is_file d (dir @ [n])}"
    then have "map_of d (dir @ [n]) \<noteq> None" by (auto simp: disk_is_file_def split: option.splits)
    with held show "n \<in> wf_name ` set files" by simp
  qed
  note distinct = files_in_distinct [OF assms(2), of dir]
  show "length (files_in d dir) = EXPECTED_EXTERNAL_FILES"
    using distinct_card [OF distinct] set checks by simp
  have size: "file_size_in d (dir @ [wf_name f]) = wf_bytes f" if "f \<in> set files" for f
    using stored [OF that] by (auto simp: stored_def file_size_in_def)
  have "sum_list (map (\<lambda>n. file_size_in d (dir @ [n])) (files_in d dir))
      = sum_list (map (\<lambda>n. file_size_in d (dir @ [n])) (map wf_name files))"
    using distinct names set by (simp add: sum_list_distinct_conv_sum_set del: map_map)
  also have "\<dots> = sum_list (map wf_bytes files)" using size by (simp add: comp_def cong: map_cong)
  finally show "sum_list (map (\<lambda>n. file_size_in d (dir @ [n])) (files_in d dir)) = EXPECTED_EXTERNAL_BYTES"
    using checks by simp
qed

section \<open>Reading the manifest back\<close>

text \<open>
  What the code relies on of JSON: the file list of a manifest reads back, each record with the
  fields it was written with, in any order.
\<close>

definition reads_back :: "weight_host \<Rightarrow> weight_file list \<Rightarrow> bool" where
  "reads_back h files \<longleftrightarrow>
     (\<exists>m rs. wh_json h (wh_dumps h (manifest_doc files)) = Inr (PDict m) \<and> py_get m ''files'' = PList (map PDict rs)
       \<and> list_all2 (\<lambda>r f. \<exists>kvs. weight_file_doc f = PDict kvs \<and> map_of r = map_of kvs) rs files)"

lemma named_records_dicts:
  "(\<forall>r \<in> set rs. hashable (py_get r ''name'')) \<Longrightarrow>
     named_records (map PDict rs) = Inr (fold (\<lambda>(k, r). AList.update k r) (map (\<lambda>r. (py_get r ''name'', r)) rs) [])"
proof -
  have "fold_res (\<lambda>record d.
        case record of
          PDict r \<Rightarrow> if hashable (py_get r ''name'') then Inr (AList.update (py_get r ''name'') r d)
                     else Inl (TypeError ''unhashable type'')
        | _ \<Rightarrow> Inr d) (map PDict rs) d = Inr (fold (\<lambda>(k, r). AList.update k r) (map (\<lambda>r. (py_get r ''name'', r)) rs) d)"
    if "\<forall>r \<in> set rs. hashable (py_get r ''name'')" for d
    using that by (induction rs arbitrary: d) auto
  then show "(\<forall>r \<in> set rs. hashable (py_get r ''name'')) \<Longrightarrow> ?thesis" by (simp add: named_records_def)
qed

lemma record_fields:
  assumes "weight_file_doc f = PDict kvs" and "map_of r = map_of kvs"
  shows "py_get r ''name'' = PStr (wf_name f)" and "py_get r ''bytes'' = PInt (int (wf_bytes f))"
    and "py_get r ''sha256'' = PStr (wf_sha256 f)"
  using assms by (auto simp: weight_file_doc_def py_get_def)

lemma act_each_same:
  "(\<And>x. x \<in> set xs \<Longrightarrow> f x d = (Inr (), d)) \<Longrightarrow> act_each f xs d = (Inr (map (\<lambda>_. ()) xs), d)"
  by (induction xs) (simp_all add: act_simps)

lemma named_records_back:
  assumes "list_all2 (\<lambda>r f. \<exists>kvs. weight_file_doc f = PDict kvs \<and> map_of r = map_of kvs) rs files"
    and "distinct (map wf_name files)"
  shows "named_records (map PDict rs) = Inr (map (\<lambda>r. (py_get r ''name'', r)) rs)"
    and "map (\<lambda>r. py_get r ''name'') rs = map (PStr \<circ> wf_name) files"
proof -
  show names: "map (\<lambda>r. py_get r ''name'') rs = map (PStr \<circ> wf_name) files"
    using assms(1) by (induction rule: list_all2_induct) (auto simp: record_fields(1))
  have "hashable (py_get r ''name'')" if "r \<in> set rs" for r
  proof -
    have "py_get r ''name'' \<in> set (map (PStr \<circ> wf_name) files)" unfolding names [symmetric] using that by simp
    then show ?thesis by (auto simp: hashable_def is_list_def is_dict_def)
  qed
  then have "named_records (map PDict rs) = Inr (fold (\<lambda>(k, r). AList.update k r) (map (\<lambda>r. (py_get r ''name'', r)) rs) [])"
    by (intro named_records_dicts) simp
  moreover have "distinct (map (\<lambda>r. py_get r ''name'') rs)"
    using assms(2) unfolding names by (simp add: distinct_map inj_on_def)
  then have "fold (\<lambda>(k, r). AList.update k r) (map (\<lambda>r. (py_get r ''name'', r)) rs) [] = map (\<lambda>r. (py_get r ''name'', r)) rs"
    using fold_update_append [of "[]" "map (\<lambda>r. (py_get r ''name'', r)) rs"] by (simp add: comp_def)
  ultimately show "named_records (map PDict rs) = Inr (map (\<lambda>r. (py_get r ''name'', r)) rs)" by simp
qed

lemma check_bundle_file_ok:
  assumes "map_of by_name (PStr (wf_name f)) = Some r" and "weight_file_doc f = PDict kvs" "map_of r = map_of kvs"
    and "stored h dir d f"
  shows "check_bundle_file h dir by_name (wf_name f) d = (Inr (), d)"
proof -
  note fields = record_fields [OF assms(2,3)]
  from assms(4) obtain s where s: "map_of d (dir @ [wf_name f]) = Some (Text s)" "length s = wf_bytes f" "wh_sha h s = wf_sha256 f"
    by (auto simp: stored_def)
  have "py_eq (py_get r ''bytes'') (PInt (int (file_size_in d (dir @ [wf_name f]))))"
    unfolding fields py_eq_int by (simp add: file_size_in_def s)
  then show ?thesis
    by (simp add: check_bundle_file_def assms(1) act_simps s fields)
qed

lemma bundle_checks:
  assumes "bundle_of h dir d files" and "dict_wf d"
    and reads: "list_all2 (\<lambda>r f. \<exists>kvs. weight_file_doc f = PDict kvs \<and> map_of r = map_of kvs) rs files"
    and n: "n \<in> set (files_in d dir)"
  shows "check_bundle_file h dir (map (\<lambda>r. (py_get r ''name'', r)) rs) n d = (Inr (), d)"
proof -
  from n obtain f where f: "f \<in> set files" "n = wf_name f" using bundle_files(1) [OF assms(1,2)] by auto
  obtain r kvs where r: "r \<in> set rs" "weight_file_doc f = PDict kvs" "map_of r = map_of kvs"
    using list_all2_right [OF assms(3) f(1)] by blast
  have "distinct (map (\<lambda>r. py_get r ''name'') rs)"
    using bundle_files(2) [OF assms(1,2)] unfolding named_records_back(2) [OF reads bundle_files(2) [OF assms(1,2)]]
    by (simp add: distinct_map inj_on_def)
  then have "map_of (map (\<lambda>r. (py_get r ''name'', r)) rs) (PStr (wf_name f)) = Some r"
    using r(1) record_fields(1) [OF r(2,3)] by (intro map_of_is_SomeI) (auto simp: comp_def image_iff)
  moreover have "stored h dir d f" using assms(1) f(1) by (simp add: bundle_of_def)
  ultimately show ?thesis unfolding f(2) using r(2,3) by (intro check_bundle_file_ok)
qed

lemma bundle_accepted:
  assumes complete: "bundle_of h dir d files" and wf: "dict_wf d" and reads: "reads_back h files"
    and manifest: "map_of d mp = Some (Text (wh_dumps h (manifest_doc files)))"
  shows "validate_existing_bundle h dir mp d = (Inr (), d)"
proof -
  from reads obtain m rs where json: "wh_json h (wh_dumps h (manifest_doc files)) = Inr (PDict m)"
      and m: "py_get m ''files'' = PList (map PDict rs)"
      and rs: "list_all2 (\<lambda>r f. \<exists>kvs. weight_file_doc f = PDict kvs \<and> map_of r = map_of kvs) rs files"
    unfolding reads_back_def by blast
  note files = bundle_files [OF complete wf]
  note named = named_records_back [OF rs files(2)]
  have n: "length rs = EXPECTED_EXTERNAL_FILES"
    using list_all2_lengthD [OF rs] complete by (auto simp: bundle_of_def check_files_def split: if_splits)
  have "set (keys (map (\<lambda>r. (py_get r ''name'', r)) rs)) = set (map (\<lambda>r. py_get r ''name'') rs)" by force
  then have keys: "set (keys (map (\<lambda>r. (py_get r ''name'', r)) rs)) = PStr ` set (files_in d dir)"
    unfolding named(2) files(1) by (simp add: image_image)
  then have keys: "set (map (fst \<circ> (\<lambda>r. (py_get r ''name'', r))) rs) = PStr ` set (files_in d dir)"
    by (simp only: map_map)
  have "disk_is_dir d dir" and sha: "wh_sha h (wh_dumps h (manifest_doc files)) = EXPECTED_MANIFEST_SHA256"
    using complete by (simp_all add: bundle_of_def)
  moreover have "disk_is_file d mp" using manifest by (simp add: disk_is_file_def)
  moreover have "act_each (check_bundle_file h dir (map (\<lambda>r. (py_get r ''name'', r)) rs)) (files_in d dir) d
      = (Inr (map (\<lambda>_. ()) (files_in d dir)), d)"
    by (rule act_each_same) (rule bundle_checks [OF complete wf rs])
  ultimately show ?thesis
    by (simp add: validate_existing_bundle_def Let_def act_simps manifest json m n files(3,4) named(1) keys del: set_map)
qed

text \<open>C33: a published bundle is reused: on a store that is marked and holds a complete bundle with
  its manifest, the next run returns that it reused the weights, and changes nothing.\<close>

theorem published_bundle_reused:
  assumes "bundle_of h (weights_place store) d files" and "dict_wf d" and "reads_back h files"
    and "map_of d (manifest_place store) = Some (Text (wh_dumps h (manifest_doc files)))"
    and "map_of d store = Some Folder" and "map_of d (store @ [ASSET_STORE_MARKER]) = Some (Text ASSET_STORE_MARKER_CONTENT)"
  shows "store_run h m (weights_place store) (manifest_place store) store d = (Inr True, d)"
proof -
  have "universal_newlines ASSET_STORE_MARKER_CONTENT = ASSET_STORE_MARKER_CONTENT"
      "\<not> (\<exists>c \<in> set ASSET_STORE_MARKER_CONTENT. 128 \<le> (of_char c :: nat))"
    by (simp_all add: ASSET_STORE_MARKER_CONTENT_def)
  then have "read_text d (store @ [ASSET_STORE_MARKER]) = Inr ASSET_STORE_MARKER_CONTENT"
    using assms(6) by (simp add: read_text_def)
  then have "prepare_asset_store h store d = (Inr (), d)"
    using assms(5,6) by (simp add: prepare_asset_store_def disk_exists_def disk_is_dir_def)
  moreover have "disk_exists d (weights_place store)"
    using assms(1) by (auto simp: bundle_of_def disk_is_dir_def disk_exists_def)
  ultimately show ?thesis
    using bundle_accepted [OF assms(1-4)] by (simp add: store_run_def act_bind_def act_require_def act_return_def)
qed

end
