(* ===== verification/WeightExample.thy ===== *)
theory WeightExample
  imports WeightReuse
begin

text \<open>
  Concrete stores: a host whose tensors have the frozen shapes and whose operations do not fail,
  a run that publishes a bundle there, and a disk with a published bundle.
\<close>

section \<open>A host\<close>

definition plain_disk_host :: scratch_host where
  "plain_disk_host = \<lparr>sc_fs = \<lparr>fy_posix = True, fy_expanduser = Inr, fy_resolve = id, fy_is_file = (\<lambda>_. True),
      fy_is_dir = (\<lambda>_. True), fy_mode = (\<lambda>_. 0), fy_bytes = (\<lambda>_. []), fy_json = (\<lambda>_. Inr PNone),
      fy_children = (\<lambda>_. []), fy_mkdir = (\<lambda>_. Inr ()), fy_digest = (\<lambda>_. []), fy_repr = (\<lambda>_. [])\<rparr>,
    sc_mkdir = (\<lambda>_. Inr ()), sc_write = (\<lambda>_. None), sc_rmtree = (\<lambda>_. None), sc_remove = (\<lambda>_. Inr ()),
    sc_free = (\<lambda>_. Inr 0), sc_names = []\<rparr>"

definition plain_tensor :: "string \<Rightarrow> nat list \<Rightarrow> nat \<Rightarrow> weight_tensor" where
  "plain_tensor dtype shape n =
     \<lparr>tn_dtype = dtype, tn_shape = shape, tn_element_size = n, tn_data = replicate (prod_list shape * n) CHR ''w''\<rparr>"

text \<open>The files of the model are told apart by their one letter, and so are the documents read.\<close>

definition example_weights :: weight_host where
  "example_weights = \<lparr>wh_disk = plain_disk_host,
     wh_sha = (\<lambda>s. if s = ''c'' then MODEL_CONFIG_SHA256 else if s = ''i'' then MODEL_INDEX_SHA256 else EXPECTED_MANIFEST_SHA256),
     wh_json = (\<lambda>s. Inr (if s = ''c'' then PDict expected_config
       else PDict [(''weight_map'', PDict (map (\<lambda>key. (key, PStr ''s'')) checkpoint_keys))])),
     wh_dumps = (\<lambda>_. ''m''),
     wh_tensor = (\<lambda>p key. Inr (plain_tensor ''bfloat16'' (the (map_of expected_shapes key)) 2)),
     wh_inv_freq = plain_tensor ''float32'' [64] 4, wh_arange = (\<lambda>n. plain_tensor ''int32'' [n] 4),
     wh_pid = ''1'', wh_rename = (\<lambda>_ _. None)\<rparr>"

lemma example_sizes: "torch_sizes example_weights"
  by (simp add: torch_sizes_def example_weights_def plain_tensor_def)

section \<open>Writing without faults\<close>

lemma record_done:
  assumes "sc_write (wh_disk h) = (\<lambda>_. None)" and "map_of d (dir @ [name]) = None"
    and "length (tn_data t) = prod_list (tn_shape t) * tn_element_size t"
  shows "\<exists>f d'. record_file h dir name source t d = (Inr f, d') \<and> grows (\<lambda>q. q = dir @ [name]) d d'"
proof -
  have "write_new h (dir @ [name]) (tn_data t) d = (Inr (), AList.update (dir @ [name]) (Text (tn_data t)) d)"
    using assms(1,2) by (simp add: write_new_def disk_exists_def write_text_def)
  then show ?thesis
    using assms(2,3) by (auto simp: record_file_def write_tensor_def act_simps dict_get_update intro: grows_update)
qed

text \<open>A list of tensors is written when their names are new and differ.\<close>

lemma records_done:
  assumes "\<And>x d. x \<in> set xs \<Longrightarrow> map_of d (dir @ [nm x]) = None
      \<Longrightarrow> \<exists>f d'. act x d = (Inr f, d') \<and> grows (\<lambda>q. q = dir @ [nm x]) d d'"
    and "distinct (map nm xs)" and "\<forall>x \<in> set xs. map_of d (dir @ [nm x]) = None"
  shows "\<exists>fs d'. act_each act xs d = (Inr fs, d') \<and> grows (\<lambda>q. \<exists>x \<in> set xs. q = dir @ [nm x]) d d'"
  using assms
proof (induction xs arbitrary: d)
  case (Cons x xs)
  from Cons.prems(1) [of x d] Cons.prems(3) obtain f d1 where f: "act x d = (Inr f, d1)"
      and g: "grows (\<lambda>q. q = dir @ [nm x]) d d1" by auto
  have new: "map_of d1 (dir @ [nm y]) = None" if "y \<in> set xs" for y
  proof -
    have "nm y \<in> nm ` set xs" using that by simp
    then have "dir @ [nm y] \<noteq> dir @ [nm x]" using Cons.prems(2) by auto
    moreover have "map_of d (dir @ [nm y]) = None" using Cons.prems(3) that by simp
    ultimately show ?thesis using g unfolding grows_def by metis
  qed
  have "\<exists>fs d'. act_each act xs d1 = (Inr fs, d') \<and> grows (\<lambda>q. \<exists>x \<in> set xs. q = dir @ [nm x]) d1 d'"
    by (rule Cons.IH) (use Cons.prems(1,2) new in auto)
  then obtain fs d2 where fs: "act_each act xs d1 = (Inr fs, d2)"
      and gs: "grows (\<lambda>q. \<exists>x \<in> set xs. q = dir @ [nm x]) d1 d2" by blast
  have "grows (\<lambda>q. \<exists>y \<in> set (x # xs). q = dir @ [nm y]) d d2"
    using grows_trans [OF grows_mono [OF g] grows_mono [OF gs]] by simp
  with f fs show ?case by (auto simp: act_simps)
qed (simp add: act_return_def)

abbreviation example_shards :: "(string, string) dict" where
  "example_shards \<equiv> map (\<lambda>key. (key, ''s'')) checkpoint_keys"

lemma example_shard_keys: "keys example_shards = checkpoint_keys"
  by (simp add: comp_def)

lemma example_materialize:
  assumes "key \<in> set checkpoint_keys" and "map_of d (dir @ [the (map_of checkpoint_destinations key)]) = None"
  shows "\<exists>f d'. materialize_tensor example_weights m dir (shard, key) d = (Inr f, d')
    \<and> grows (\<lambda>q. q = dir @ [the (map_of checkpoint_destinations key)]) d d'"
proof -
  obtain name where name: "map_of checkpoint_destinations key = Some name"
    using assms(1) unfolding destination_keys [symmetric] by (auto dest: weak_map_of_SomeI)
  obtain shape where shape: "map_of expected_shapes key = Some shape"
    using assms(1) unfolding shape_keys [symmetric] by (auto dest: weak_map_of_SomeI)
  let ?t = "plain_tensor ''bfloat16'' shape 2"
  have "materialize_tensor example_weights m dir (shard, key) d = record_file example_weights dir name key ?t d"
    by (simp add: materialize_tensor_def act_bind_def act_of_def act_require_def dict_item_def name shape
        example_weights_def plain_tensor_def)
  moreover have "\<exists>f d'. record_file example_weights dir name key ?t d = (Inr f, d') \<and> grows (\<lambda>q. q = dir @ [name]) d d'"
    by (rule record_done) (use assms(2) in \<open>simp_all add: example_weights_def plain_disk_host_def plain_tensor_def name\<close>)
  ultimately show ?thesis by (simp add: name)
qed

text \<open>The tensors of the checkpoint, then the derived ones, in an empty directory.\<close>

lemma destination_listed:
  assumes "key \<in> set checkpoint_keys"
  shows "the (map_of checkpoint_destinations key) \<in> set (map snd checkpoint_destinations)"
proof -
  obtain name where "map_of checkpoint_destinations key = Some name"
    using assms unfolding destination_keys [symmetric] by (auto dest: weak_map_of_SomeI)
  then show ?thesis by (force dest: map_of_SomeD)
qed

lemma destination_inject: "inj_on (\<lambda>key. the (map_of checkpoint_destinations key)) (set checkpoint_keys)"
proof (rule inj_onI)
  have names: "distinct (map snd checkpoint_destinations)" using file_names_distinct by simp
  have keys: "distinct (keys checkpoint_destinations)" using checkpoint_keys_distinct by (simp add: destination_keys)
  fix a b assume "a \<in> set checkpoint_keys" "b \<in> set checkpoint_keys"
    and same: "the (map_of checkpoint_destinations a) = the (map_of checkpoint_destinations b)"
  then obtain x y where "(a, x) \<in> set checkpoint_destinations" "(b, y) \<in> set checkpoint_destinations"
    unfolding destination_keys [symmetric] by auto
  moreover from this have "x = y" using same keys by simp
  ultimately show "a = b" using names by (metis distinct_map inj_onD snd_conv fst_conv)
qed

lemma example_collected:
  assumes "\<forall>x. x \<noteq> [] \<longrightarrow> map_of d (dir @ x) = None"
  shows "\<exists>fs d1 ds d2. act_each (materialize_tensor example_weights m dir) (keys_by_shard example_shards) d = (Inr fs, d1)
    \<and> act_each (\<lambda>(name, t). record_file example_weights dir name ''derived'' t) (derived_tensors example_weights) d1 = (Inr ds, d2)"
proof -
  let ?nm = "\<lambda>x :: string \<times> string. the (map_of checkpoint_destinations (snd x))"
  have ks: "set (map snd (keys_by_shard example_shards)) = set checkpoint_keys"
    by (force simp: keys_by_shard_set)
  have "distinct (map snd (keys_by_shard example_shards))"
    by (rule keys_by_shard_distinct) (simp add: example_shard_keys checkpoint_keys_distinct del: map_map)
  then have "distinct (map (\<lambda>key. the (map_of checkpoint_destinations key)) (map snd (keys_by_shard example_shards)))"
    using destination_inject ks by (simp add: distinct_map del: map_map set_map)
  then have distinct: "distinct (map ?nm (keys_by_shard example_shards))" by (simp add: comp_def)
  have "\<exists>fs d1. act_each (materialize_tensor example_weights m dir) (keys_by_shard example_shards) d = (Inr fs, d1)
      \<and> grows (\<lambda>q. \<exists>x \<in> set (keys_by_shard example_shards). q = dir @ [?nm x]) d d1"
  proof (rule records_done [OF _ distinct])
    fix x and d :: disk assume "x \<in> set (keys_by_shard example_shards)" "map_of d (dir @ [?nm x]) = None"
    then show "\<exists>f d'. materialize_tensor example_weights m dir x d = (Inr f, d') \<and> grows (\<lambda>q. q = dir @ [?nm x]) d d'"
      using example_materialize [of "snd x" d dir m "fst x"] ks by (metis image_eqI list.set_map prod.collapse)
  qed (use assms in simp)
  then obtain fs d1 where fs: "act_each (materialize_tensor example_weights m dir) (keys_by_shard example_shards) d = (Inr fs, d1)"
      and g: "grows (\<lambda>q. \<exists>x \<in> set (keys_by_shard example_shards). q = dir @ [?nm x]) d d1" by blast
  have new: "map_of d1 (dir @ [n]) = None" if "n \<in> set derived_names" for n
  proof -
    have "n \<noteq> ?nm x" if "x \<in> set (keys_by_shard example_shards)" for x
    proof -
      have "snd x \<in> set checkpoint_keys" using that ks by auto
      then have "?nm x \<in> set (map snd checkpoint_destinations)" by (rule destination_listed)
      moreover have "n \<notin> set (map snd checkpoint_destinations)"
        using file_names_distinct \<open>n \<in> set derived_names\<close> unfolding distinct_append by blast
      ultimately show ?thesis by metis
    qed
    then have "\<not> (\<exists>x \<in> set (keys_by_shard example_shards). dir @ [n] = dir @ [?nm x])" by auto
    moreover have "map_of d (dir @ [n]) = None" using assms by simp
    ultimately show ?thesis using g unfolding grows_def by metis
  qed
  have "\<exists>ds d2. act_each (\<lambda>(name, t). record_file example_weights dir name ''derived'' t) (derived_tensors example_weights) d1 = (Inr ds, d2)
      \<and> grows (\<lambda>q. \<exists>x \<in> set (derived_tensors example_weights). q = dir @ [fst x]) d1 d2"
  proof (rule records_done)
    fix x and d :: disk assume "x \<in> set (derived_tensors example_weights)" "map_of d (dir @ [fst x]) = None"
    then have "\<exists>f d'. record_file example_weights dir (fst x) ''derived'' (snd x) d = (Inr f, d')
        \<and> grows (\<lambda>q. q = dir @ [fst x]) d d'"
      by (intro record_done) (auto simp: derived_tensors_def example_weights_def plain_disk_host_def plain_tensor_def)
    then show "\<exists>f d'. (case x of (name, t) \<Rightarrow> record_file example_weights dir name ''derived'' t) d = (Inr f, d')
        \<and> grows (\<lambda>q. q = dir @ [fst x]) d d'"
      by (simp add: case_prod_unfold)
  qed (use new in \<open>auto simp: derived_tensors_def derived_names_def\<close>)
  with fs show ?thesis by blast
qed

text \<open>The index of the example.\<close>

abbreviation example_map :: "(string, pyval) dict" where
  "example_map \<equiv> map (\<lambda>key. (key, PStr ''s'')) checkpoint_keys"

lemma example_index:
  "weight_map (PDict [(''weight_map'', PDict example_map)]) = Inr example_map" "dict_wf example_map"
  "shard_names example_map = Inr example_shards"
  using checkpoint_keys_distinct
  by (simp_all add: weight_map_def dict_item_def destination_keys dict_wf_def comp_def image_image
      shard_names_def map_res_list_all2 list_all2_map1 list_all2_map2 list_all2_same)

text \<open>A run that collects every tensor.\<close>

lemma frozen_numbers_agree_witness:
  "\<exists>fs d1 ds d2. act_each (materialize_tensor example_weights [''m''] [''w'']) (keys_by_shard example_shards) [([''w''], Folder)] = (Inr fs, d1)
     \<and> act_each (\<lambda>(name, t). record_file example_weights [''w''] name ''derived'' t) (derived_tensors example_weights) d1 = (Inr ds, d2)
     \<and> check_files (sort_key wf_name (fs @ ds)) = Inr ()"
proof -
  obtain fs d1 ds d2 where c: "act_each (materialize_tensor example_weights [''m''] [''w'']) (keys_by_shard example_shards) [([''w''], Folder)] = (Inr fs, d1)"
      "act_each (\<lambda>(name, t). record_file example_weights [''w''] name ''derived'' t) (derived_tensors example_weights) d1 = (Inr ds, d2)"
    using example_collected [of "[([''w''], Folder)]" "[''w'']" "[''m'']"] by auto
  then show ?thesis
    using frozen_numbers_agree [OF example_sizes example_index c] by blast
qed

section \<open>A run that publishes\<close>

lemma example_config: "check_config (PDict expected_config) = Inr ()"
  by (simp add: check_config_def expected_config_def py_get_def ROPE_THETA_def float_eq_def)

text \<open>The model's files are in \<open>d\<close>.\<close>

definition model_there :: "disk \<Rightarrow> bool" where
  "model_there d \<longleftrightarrow> map_of d [''m'', ''config.json''] = Some (Text ''c'')
     \<and> map_of d [''m'', ''model.safetensors.index.json''] = Some (Text ''i'')"

lemma example_written:
  assumes "model_there d" and "\<forall>x. x \<noteq> [] \<longrightarrow> map_of d (dir @ x) = None"
  shows "\<exists>files d'. write_bundle example_weights [''m''] dir d = (Inr files, d')"
proof -
  from example_collected [OF assms(2)] obtain fs d1 ds d2 where
      c: "act_each (materialize_tensor example_weights [''m''] dir) (keys_by_shard example_shards) d = (Inr fs, d1)"
        "act_each (\<lambda>(name, t). record_file example_weights dir name ''derived'' t) (derived_tensors example_weights) d1 = (Inr ds, d2)"
    by blast
  have "validate_model_identity example_weights [''m''] d = (Inr (), d)"
    using assms(1) by (simp add: validate_model_identity_def act_simps model_there_def example_weights_def)
  moreover have "wh_json example_weights ''c'' = Inr (PDict expected_config)"
      "wh_json example_weights ''i'' = Inr (PDict [(''weight_map'', PDict example_map)])"
    by (simp_all add: example_weights_def)
  ultimately have "write_bundle example_weights [''m''] dir d = (Inr (sort_key wf_name (fs @ ds)), d2)"
    using assms(1) c collected_checked [OF example_sizes example_index c] checkpoint_count
    by (simp add: write_bundle_def act_simps model_there_def example_index example_config Let_def)
  then show ?thesis by blast
qed

definition example_disk :: disk where
  "example_disk = [([], Folder), ([''m''], Folder), ([''m'', ''config.json''], Text ''c''),
     ([''m'', ''model.safetensors.index.json''], Text ''i'')]"

text \<open>What the preparation of the store adds.\<close>

definition prepared_disk :: disk where
  "prepared_disk = example_disk @ [([''s''], Folder), ([''s'', ASSET_STORE_MARKER], Text ASSET_STORE_MARKER_CONTENT),
     ([''s'', ''runtime-weights''], Folder), ([''s'', ''manifests''], Folder)]"

abbreviation example_staging :: place where
  "example_staging \<equiv> staging_of example_weights (weights_place [''s''])"

abbreviation example_temporary :: place where
  "example_temporary \<equiv> staging_of example_weights (manifest_place [''s''])"

lemma example_prepared:
  "store_run example_weights [''m''] (weights_place [''s'']) (manifest_place [''s'']) [''s''] example_disk
     = build_and_clean example_weights [''m''] True example_staging (weights_place [''s'']) example_temporary
         (manifest_place [''s'']) prepared_disk"
  by (simp add: store_run_def prepare_asset_store_def act_bind_def act_require_def example_disk_def prepared_disk_def
      disk_exists_def mkdir_parents_def ancestors_def upt_rec example_weights_def plain_disk_host_def write_text_def
      ASSET_STORE_MARKER_def EXPECTED_MANIFEST_SHA256_def)

text \<open>The directory and the bundle in it.\<close>

lemma example_staged:
  "\<exists>files d. build_stage example_weights [''m''] example_staging example_temporary prepared_disk = (Inr files, d)
     \<and> map_of d example_staging = Some Folder \<and> empty_at d (weights_place [''s'']) \<and> map_of d (manifest_place [''s'']) = None"
proof -
  let ?d1 = "prepared_disk @ [(example_staging, Folder)]"
  have mk: "mkdir_new example_weights example_staging prepared_disk = (Inr (), ?d1)"
    by (simp add: mkdir_new_def disk_exists_def prepared_disk_def example_disk_def mkdir_parents_def ancestors_def upt_rec
        staging_of_def butlast_append example_weights_def plain_disk_host_def ASSET_STORE_MARKER_def EXPECTED_MANIFEST_SHA256_def)
  have "model_there ?d1" "\<forall>x. x \<noteq> [] \<longrightarrow> map_of ?d1 (example_staging @ x) = None"
    by (simp_all add: model_there_def prepared_disk_def example_disk_def staging_of_def butlast_append example_weights_def
        ASSET_STORE_MARKER_def EXPECTED_MANIFEST_SHA256_def)
  from example_written [OF this] obtain files d2 where
      wb: "write_bundle example_weights [''m''] example_staging ?d1 = (Inr files, d2)" by blast
  have g: "grows (\<lambda>q. \<exists>n \<in> set all_names. q = example_staging @ [n]) ?d1 d2"
    by (rule confinedD [OF confined_bundle wb]) blast
  have kept: "map_of d2 q = map_of ?d1 q" if "\<not> below example_staging q" for q
    using g that unfolding grows_def below_def by (metis prefixI)
  have parents: "map_of d2 [''s''] = Some Folder" "map_of d2 [''s'', ''manifests''] = Some Folder" "map_of d2 example_temporary = None"
    by (simp_all add: kept below_def prepared_disk_def example_disk_def staging_of_def butlast_append example_weights_def
        ASSET_STORE_MARKER_def EXPECTED_MANIFEST_SHA256_def)
  then have wm: "write_manifest example_weights example_temporary files d2 = (Inr (), AList.update example_temporary (Text ''m'') d2)"
    by (simp add: write_manifest_def act_simps mkdir_parents_def ancestors_def upt_rec staging_of_def butlast_append
        example_weights_def plain_disk_host_def write_text_def disk_is_dir_def dict_get_update
        MODEL_CONFIG_SHA256_def MODEL_INDEX_SHA256_def)
  have "map_of d2 (weights_place [''s''] @ x) = None" "map_of d2 (manifest_place [''s'']) = None" for x
    by (simp_all add: kept below_def prepared_disk_def example_disk_def staging_of_def butlast_append example_weights_def
        ASSET_STORE_MARKER_def EXPECTED_MANIFEST_SHA256_def)
  moreover have "map_of d2 example_staging = Some Folder"
    by (rule grows_keeps [OF g]) (simp add: prepared_disk_def example_disk_def staging_of_def butlast_append example_weights_def
        ASSET_STORE_MARKER_def EXPECTED_MANIFEST_SHA256_def)
  moreover have "example_temporary \<noteq> example_staging" "example_temporary \<noteq> manifest_place [''s'']"
      "weights_place [''s''] @ x \<noteq> example_temporary" for x
    by (simp_all add: staging_of_def butlast_append EXPECTED_MANIFEST_SHA256_def)
  ultimately show ?thesis
    using mk wb wm by (auto simp: build_stage_def act_simps empty_at_def dict_get_update)
qed

lemma example_published: "\<exists>d. store_run example_weights [''m''] (weights_place [''s'']) (manifest_place [''s'']) [''s''] example_disk = (Inr False, d)"
proof -
  obtain files d where st: "build_stage example_weights [''m''] example_staging example_temporary prepared_disk = (Inr files, d)"
      and dir: "map_of d example_staging = Some Folder" and empty: "empty_at d (weights_place [''s''])"
      and free: "map_of d (manifest_place [''s'']) = None"
    using example_staged by blast
  have rename: "wh_rename example_weights = (\<lambda>_ _. None)" by (simp add: example_weights_def)
  have none: "map_of d q = None" if "below (weights_place [''s'']) q" for q
    using empty that by (simp add: empty_at_below)
  have "q \<notin> set (keys d)" if "butlast q = weights_place [''s'']" "q \<noteq> []" for q
  proof -
    have "below (weights_place [''s'']) q" using that prefixeq_butlast [of q] by (simp add: below_def)
    then show ?thesis using none [of q] by (simp add: map_of_eq_None_iff)
  qed
  then have "disk_entries d (weights_place [''s'']) = []"
    by (auto simp: disk_entries_def filter_empty_conv)
  moreover have "map_of d (weights_place [''s'']) = None" by (rule none) (simp add: below_def)
  ultimately obtain d1 where ren: "rename_tree example_weights example_staging (weights_place [''s'']) d = (Inr (), d1)"
    using dir by (simp add: rename_tree_def rename disk_exists_def disk_is_file_def)
  have apart: "staged_apart example_staging (weights_place [''s'']) example_temporary (manifest_place [''s''])"
    by (rule staging_apart)
  have same: "map_of d1 q = map_of d q" if "\<not> below example_staging q" "\<not> below (weights_place [''s'']) q" for q
    using rename_tree_other [OF ren that] none by blast
  have new: "map_of prepared_disk example_staging = None \<Longrightarrow> empty_at prepared_disk example_staging"
    by (simp add: empty_at_def prepared_disk_def example_disk_def staging_of_def butlast_append ASSET_STORE_MARKER_def
        EXPECTED_MANIFEST_SHA256_def)
  have "map_of d example_temporary = Some (Text (wh_dumps example_weights (manifest_doc files)))"
    by (rule build_stage_Inr(2) [OF st apart new])
  then have "map_of d1 example_temporary = Some (Text (wh_dumps example_weights (manifest_doc files)))"
    using same [of example_temporary] apart by (simp add: staged_apart_def)
  moreover have "map_of d1 (manifest_place [''s'']) = None"
    using same [of "manifest_place [''s'']"] apart free by (simp add: staged_apart_def)
  ultimately obtain d2 where "replace_file example_weights example_temporary (manifest_place [''s'']) d1 = (Inr (), d2)"
    by (simp add: replace_file_def rename disk_is_dir_def)
  with st ren have "build_bundle example_weights [''m''] True example_staging (weights_place [''s'']) example_temporary
      (manifest_place [''s'']) prepared_disk = (Inr (), d2)"
    by (simp add: build_bundle_staged act_simps)
  then show ?thesis unfolding example_prepared by (simp add: build_and_clean_def)
qed

lemma published_all_or_nothing_witness:
  "\<exists>d. store_run example_weights [''m''] (weights_place [''s'']) (manifest_place [''s'']) [''s''] example_disk = (Inr False, d)
     \<and> published example_weights [''s''] (Inr False) d"
proof -
  have "disk_wf example_disk" by (simp add: disk_wf_def example_disk_def)
  moreover have "\<not> disk_exists example_disk (weights_place [''s''])" by (simp add: disk_exists_def example_disk_def)
  ultimately show ?thesis using example_published published_all_or_nothing by blast
qed

section \<open>A run that reuses\<close>

text \<open>One file of a bundle has all the bytes, the others none.\<close>

definition sample_files :: "weight_file list" where
  "sample_files = map (\<lambda>name. \<lparr>wf_name = name, wf_source = ''s'', wf_shape = [], wf_dtype = ''t'',
     wf_bytes = (if name = ''inv_freq'' then EXPECTED_EXTERNAL_BYTES else 0), wf_sha256 = EXPECTED_MANIFEST_SHA256\<rparr>) all_names"

definition sample_host :: weight_host where
  "sample_host = example_weights\<lparr>wh_sha := (\<lambda>_. EXPECTED_MANIFEST_SHA256),
     wh_json := (\<lambda>_. Inr (PDict [(''files'', PList (map weight_file_doc sample_files))]))\<rparr>"

definition sample_disk :: disk where
  "sample_disk = [([], Folder), ([''s''], Folder), ([''s'', ASSET_STORE_MARKER], Text ASSET_STORE_MARKER_CONTENT),
     (manifest_place [''s''], Text ''m''), (weights_place [''s''], Folder)]
     @ map (\<lambda>f. (weights_place [''s''] @ [wf_name f], Text (replicate (wf_bytes f) CHR ''w''))) sample_files"

lemma sample_names: "map wf_name sample_files = all_names"
  by (simp add: sample_files_def comp_def)

lemma all_names_distinct: "distinct all_names"
  unfolding all_names_def by (rule file_names_distinct)

lemma sample_checked: "check_files sample_files = Inr ()"
proof -
  have "length sample_files = EXPECTED_EXTERNAL_FILES"
    using distinct_card [OF all_names_distinct] all_names_card by (simp add: sample_files_def EXPECTED_EXTERNAL_FILES_def)
  moreover have "sum_list (map wf_bytes sample_files) = (\<Sum>n \<in> set all_names. if n = ''inv_freq'' then EXPECTED_EXTERNAL_BYTES else 0)"
    by (simp add: sample_files_def comp_def sum_list_distinct_conv_sum_set [OF all_names_distinct])
  moreover have "''inv_freq'' \<in> set all_names" by (simp add: all_names_def derived_names_def)
  moreover have "card (set (map wf_name sample_files)) = length sample_files"
    unfolding sample_names using distinct_card [OF all_names_distinct] by (simp add: sample_files_def)
  ultimately show ?thesis by (simp add: check_files_def)
qed

lemma sample_lookup:
  "map_of sample_disk (weights_place [''s''] @ x) =
     (if x = [] then Some Folder
      else map_option (\<lambda>f. Text (replicate (wf_bytes f) CHR ''w'')) (map_of (map (\<lambda>f. ([wf_name f], f)) sample_files) x))"
proof -
  have "map_of (map (\<lambda>f. (weights_place [''s''] @ [wf_name f], Text (replicate (wf_bytes f) CHR ''w''))) fs) (weights_place [''s''] @ x)
      = map_option (\<lambda>f. Text (replicate (wf_bytes f) CHR ''w'')) (map_of (map (\<lambda>f. ([wf_name f], f)) fs) x)" for fs
    by (induction fs) auto
  from this [of sample_files] show ?thesis by (simp add: sample_disk_def EXPECTED_MANIFEST_SHA256_def ASSET_STORE_MARKER_def)
qed

lemma sample_bundle: "bundle_of sample_host (weights_place [''s'']) sample_disk sample_files"
proof -
  have "distinct (map (\<lambda>f. [wf_name f]) sample_files)"
    using all_names_distinct unfolding sample_names [symmetric] by (simp add: distinct_map inj_on_def)
  then have listed: "map_of (map (\<lambda>f. ([wf_name f], f)) sample_files) [wf_name f] = Some f" if "f \<in> set sample_files" for f
    using that by (intro map_of_is_SomeI) (auto simp: comp_def)
  then have "stored sample_host (weights_place [''s'']) sample_disk f" if "f \<in> set sample_files" for f
    using that sample_lookup [of "[wf_name f]"] by (auto simp: stored_def sample_host_def sample_files_def)
  moreover have "map_of sample_disk (weights_place [''s''] @ x) \<noteq> None \<longleftrightarrow> x \<in> (\<lambda>f. [wf_name f]) ` set sample_files"
    if "x \<noteq> []" for x
    using that by (auto simp: sample_lookup map_of_eq_None_iff image_image simp del: append.simps append_assoc split: option.splits)
  moreover have "disk_is_dir sample_disk (weights_place [''s''])" using sample_lookup [of "[]"] by (simp add: disk_is_dir_def)
  ultimately show ?thesis using sample_checked by (simp add: bundle_of_def sample_host_def)
qed

lemma published_bundle_reused_witness:
  "store_run sample_host [''m''] (weights_place [''s'']) (manifest_place [''s'']) [''s''] sample_disk = (Inr True, sample_disk)"
proof (rule published_bundle_reused [OF sample_bundle])
  have "distinct (map (\<lambda>f. weights_place [''s''] @ [wf_name f]) sample_files)"
    using all_names_distinct unfolding sample_names [symmetric] by (simp add: distinct_map inj_on_def)
  then show "dict_wf sample_disk"
    by (auto simp: dict_wf_def sample_disk_def comp_def EXPECTED_MANIFEST_SHA256_def ASSET_STORE_MARKER_def)
  have "\<exists>rs. map weight_file_doc sample_files = map PDict rs
      \<and> list_all2 (\<lambda>r f. \<exists>kvs. weight_file_doc f = PDict kvs \<and> map_of r = map_of kvs) rs sample_files"
    by (rule exI [of _ "map (\<lambda>f. case weight_file_doc f of PDict kvs \<Rightarrow> kvs | _ \<Rightarrow> []) sample_files"])
      (simp add: weight_file_doc_def list_all2_map1 list_all2_same)
  then show "reads_back sample_host sample_files"
    by (simp add: reads_back_def sample_host_def py_get_def)
qed (simp_all add: sample_disk_def sample_host_def example_weights_def EXPECTED_MANIFEST_SHA256_def ASSET_STORE_MARKER_def)

end
