(* ===== verification/Profiler.thy ===== *)
theory Profiler
  imports Evidence Patterns
begin

text \<open>
  \<open>summarize_msprof_transfers.py\<close>: the CSV reports that the profiler exported for the two routes
  become a summary of the bytes its rows give for copies in each direction. Text is ASCII.
\<close>

section \<open>Cells\<close>

definition BYTE_HEADERS :: "string list" where
  "BYTE_HEADERS =
     [''bytes'', ''size(byte)'', ''size(bytes)'', ''data size'', ''data size(byte)'', ''data size(bytes)'', ''datasize'',
      ''data_size'', ''trans size'', ''transfer size'']"

definition COPY_TOKENS :: "string list" where
  "COPY_TOKENS = [''memcpy'', ''memory copy'', ''memorycopy'', ''h2d'', ''d2h'']"

definition lower_str :: "string \<Rightarrow> string" where
  "lower_str s = map lower_char s"

text \<open>\<open>re.sub(r"\s+", " ", s)\<close>.\<close>

fun collapse_spaces :: "bool \<Rightarrow> string \<Rightarrow> string" where
  "collapse_spaces in_space [] = []"
| "collapse_spaces in_space (c # cs) =
     (if py_space c then (if in_space then [] else [CHR '' '']) @ collapse_spaces True cs else c # collapse_spaces False cs)"

definition normalize_header :: "string \<Rightarrow> string" where
  "normalize_header s = collapse_spaces False (lower_str (strip_str s))"

text \<open>\<open>re.fullmatch(r"([0-9]+)(?:\.0+)?", s)\<close> of a number with its commas removed.\<close>

definition cell_integer :: "string \<Rightarrow> int option" where
  "cell_integer s =
     (let cleaned = filter (\<lambda>c. c \<noteq> CHR '','') (strip_str s);
          digits = takeWhile re_digit cleaned; rest = dropWhile re_digit cleaned in
      if digits \<noteq> [] \<and> (rest = [] \<or> (hd rest = CHR ''.'' \<and> tl rest \<noteq> [] \<and> (\<forall>c \<in> set (tl rest). c = CHR ''0'')))
      then map_option int (unsigned_value digits) else None)"

definition contains :: "string \<Rightarrow> string \<Rightarrow> bool" where
  "contains needle s \<longleftrightarrow> sublist needle s"

definition row_direction :: "string \<Rightarrow> string option" where
  "row_direction s =
     (let lowered = map (\<lambda>c. if c = CHR ''_'' \<or> c = CHR ''-'' then CHR '' '' else c) (lower_str s) in
      if contains ''h2d'' lowered \<or> contains ''host to device'' lowered then Some ''host_to_device''
      else if contains ''d2h'' lowered \<or> contains ''device to host'' lowered then Some ''device_to_host''
      else None)"

section \<open>Rows\<close>

text \<open>
  A row as \<open>csv.DictReader\<close> gives it: the fields by their column, a missing one \<open>None\<close>, and the
  cells beyond the header, which it keeps as a list under the key \<open>None\<close>.
\<close>

definition report_row :: "string list \<Rightarrow> string list \<Rightarrow> (string, string option) dict \<times> string list" where
  "report_row columns cells =
     (fold (\<lambda>(k, v). AList.update k v) (zip columns (map Some cells @ replicate (length columns - length cells) None)) [],
      drop (length columns) cells)"

text \<open>\<open>" ".join(str(value or "") for value in row.values())\<close>; a list prints with its elements quoted.\<close>

definition row_text :: "(string, string option) dict \<times> string list \<Rightarrow> string" where
  "row_text row =
     join_with '' '' (map (\<lambda>(k, v). case v of None \<Rightarrow> '''' | Some s \<Rightarrow> s) (fst row)
       @ (if snd row = [] then [] else [''['' @ comma_join (map str_repr (snd row)) @ '']'']))"

text \<open>The columns that hold bytes: one for each normalized name, the last that has it.\<close>

definition byte_columns :: "string list \<Rightarrow> string list" where
  "byte_columns columns =
     map snd (filter (\<lambda>(name, original). name \<in> set BYTE_HEADERS)
       (fold (\<lambda>name. AList.update (normalize_header name) name) columns []))"

definition row_bytes :: "string list \<Rightarrow> (string, string option) dict \<Rightarrow> (string \<times> int) list" where
  "row_bytes columns row =
     concat (map (\<lambda>column.
       case cell_integer (case map_of row column of None \<Rightarrow> '''' | Some None \<Rightarrow> ''None'' | Some (Some s) \<Rightarrow> s) of
         None \<Rightarrow> [] | Some n \<Rightarrow> [(column, n)]) columns)"

record copy_candidate =
  cd_path :: string
  cd_row :: nat
  cd_direction :: "string option"
  cd_bytes :: "(string \<times> int) list"
  cd_operation :: string

text \<open>The candidate of a row: a row of copies, with the numbers in its byte columns.\<close>

definition row_candidate ::
  "string \<Rightarrow> string list \<Rightarrow> nat \<times> (string, string option) dict \<times> string list \<Rightarrow> copy_candidate option" where
  "row_candidate path columns numbered =
     (let (number, row) = numbered; s = row_text row in
      if \<exists>token \<in> set COPY_TOKENS. contains token (lower_str s) then
        Some \<lparr>cd_path = path, cd_row = number, cd_direction = row_direction s, cd_bytes = row_bytes columns (fst row),
          cd_operation = take 512 s\<rparr>
      else None)"

section \<open>The scan of a route\<close>

text \<open>
  What is read of the disk: the resolved root, the CSV files below it in order, whether a file
  can be opened, and the rows the \<open>csv\<close> reader gives before it ends or raises.
\<close>

record msprof_io =
  ms_root :: "string \<Rightarrow> exn + string"
  ms_csv_files :: "string \<Rightarrow> string list"
  ms_readable :: "string \<Rightarrow> bool"
  ms_rows :: "string \<Rightarrow> string list list \<times> exn option"

record route_scan =
  rs_headers :: "(string \<times> string list) list"
  rs_candidates :: "copy_candidate list"
  rs_totals :: "(string, int) dict"
  rs_counts :: "(string, int) dict"

definition scan_empty :: route_scan where
  "scan_empty = \<lparr>rs_headers = [], rs_candidates = [],
     rs_totals = [(''host_to_device'', 0), (''device_to_host'', 0)],
     rs_counts = [(''host_to_device'', 0), (''device_to_host'', 0)]\<rparr>"

definition add_to :: "string \<Rightarrow> int \<Rightarrow> (string, int) dict \<Rightarrow> (string, int) dict" where
  "add_to k n d = AList.update k ((case map_of d k of None \<Rightarrow> 0 | Some m \<Rightarrow> m) + n) d"

definition count_candidate :: "copy_candidate \<Rightarrow> route_scan \<Rightarrow> route_scan" where
  "count_candidate c s =
     (let s1 = s\<lparr>rs_candidates := rs_candidates s @ [c]\<rparr> in
      case (cd_direction c, cd_bytes c) of
        (Some direction, [(column, n)]) \<Rightarrow>
          s1\<lparr>rs_totals := add_to direction n (rs_totals s1), rs_counts := add_to direction 1 (rs_counts s1)\<rparr>
      | _ \<Rightarrow> s1)"

definition scan_row ::
  "string \<Rightarrow> string list \<Rightarrow> nat \<times> (string, string option) dict \<times> string list \<Rightarrow> route_scan \<Rightarrow> route_scan" where
  "scan_row path columns numbered s =
     (case row_candidate path columns numbered of None \<Rightarrow> s | Some c \<Rightarrow> count_candidate c s)"

text \<open>
  One file. Its header is read first; the rows only when a column holds bytes, so that an error
  of the reader in them is not met otherwise.
\<close>

definition scan_file :: "msprof_io \<Rightarrow> string \<Rightarrow> route_scan \<Rightarrow> exn + route_scan" where
  "scan_file ms path s =
     (if \<not> ms_readable ms path then Inr s
      else
        let (rows, failure) = ms_rows ms path;
            columns = (case rows of [] \<Rightarrow> [] | header # _ \<Rightarrow> header);
            s1 = s\<lparr>rs_headers := rs_headers s @ [(path, columns)]\<rparr>;
            body = map (report_row columns) (filter (\<lambda>cells. cells \<noteq> []) (drop 1 rows)) in
        case (rows, failure) of
          ([], Some e) \<Rightarrow> Inl e
        | _ \<Rightarrow>
            if byte_columns columns = [] then Inr s1
            else (case failure of
                Some e \<Rightarrow> Inl e
              | None \<Rightarrow> Inr (fold (scan_row path (byte_columns columns)) (enumerate 2 body) s1)))"

definition scan_status :: "route_scan \<Rightarrow> string" where
  "scan_status s = (if \<forall>(direction, n) \<in> set (rs_counts s). 0 < n then ''observed'' else ''not_observed'')"

definition scan_reason :: "string list \<Rightarrow> route_scan \<Rightarrow> string option" where
  "scan_reason files s =
     (if scan_status s = ''observed'' then None
      else if files = [] then Some ''msprof export contains no CSV reports''
      else if rs_candidates s = [] then Some ''no exported CSV row exposes both a memcpy operation and byte field''
      else Some (''exported memcpy rows do not expose at least one unambiguous '' @ ''byte value for both H2D and D2H directions''))"

definition candidate_doc :: "copy_candidate \<Rightarrow> pyval" where
  "candidate_doc c = PDict
     [(''path'', PStr (cd_path c)), (''row'', PInt (int (cd_row c))),
      (''direction'', PStr (case cd_direction c of None \<Rightarrow> ''unclassified'' | Some d \<Rightarrow> d)),
      (''byte_values'', PList (map (\<lambda>(column, n). PDict [(''column'', PStr column), (''value'', PInt n)]) (cd_bytes c))),
      (''operation'', PStr (cd_operation c))]"

definition counted :: "(string, int) dict \<Rightarrow> string \<Rightarrow> int" where
  "counted d k = (case map_of d k of None \<Rightarrow> 0 | Some n \<Rightarrow> n)"

definition scan_doc :: "string \<Rightarrow> string list \<Rightarrow> route_scan \<Rightarrow> (string \<times> pyval) list" where
  "scan_doc resolved files s =
     (let bytes = (\<lambda>n. if scan_status s = ''observed'' then PInt n else PNone) in
      [(''status'', PStr (scan_status s)),
       (''reason'', (case scan_reason files s of None \<Rightarrow> PNone | Some r \<Rightarrow> PStr r)),
       (''root'', PStr resolved), (''csv_files_examined'', PInt (int (length files))),
       (''headers'', PList (map (\<lambda>(path, columns). PDict [(''path'', PStr path), (''columns'', PList (map PStr columns))]) (rs_headers s))),
       (''directional_row_counts'', PDict (map (\<lambda>(k, n). (k, PInt n)) (rs_counts s))),
       (''host_to_device_bytes'', bytes (counted (rs_totals s) ''host_to_device'')),
       (''device_to_host_bytes'', bytes (counted (rs_totals s) ''device_to_host'')),
       (''total_bytes'', bytes (sum_list (map snd (rs_totals s)))),
       (''candidate_rows'', PList (map candidate_doc (take 100 (rs_candidates s)))),
       (''candidate_rows_truncated'', PBool (100 < length (rs_candidates s)))])"

definition scan_route :: "msprof_io \<Rightarrow> string \<Rightarrow> exn + string list \<times> route_scan \<times> (string \<times> pyval) list" where
  "scan_route ms path =
     rbind (ms_root ms path) (\<lambda>resolved.
     let files = ms_csv_files ms resolved in
     rbind (fold_res (scan_file ms) files scan_empty) (\<lambda>s. Inr (files, s, scan_doc resolved files s)))"

section \<open>The summary\<close>

definition summarize_profile :: "msprof_io \<Rightarrow> string \<Rightarrow> string \<Rightarrow> string option \<Rightarrow> exn + (string \<times> pyval) list" where
  "summarize_profile ms old_root new_root unavailable =
     rbind (scan_route ms old_root) (\<lambda>(old_files, old, old_doc).
     rbind (scan_route ms new_root) (\<lambda>(new_files, new, new_doc).
       let scans = [(''old'', old_files, old), (''new'', new_files, new)];
           observed = (\<forall>(name, files, s) \<in> set scans. scan_status s = ''observed'');
           reasons = join_with ''; '' (map (\<lambda>(name, files, s). name @ '': '' @ (case scan_reason files s of None \<Rightarrow> ''None'' | Some r \<Rightarrow> r))
             (filter (\<lambda>(name, files, s). scan_status s \<noteq> ''observed'') scans));
           reason = (if observed then PNone else PStr (case unavailable of None \<Rightarrow> reasons | Some u \<Rightarrow> if u = [] then reasons else u @ ''; '' @ reasons))
       in Inr [(''schema_version'', PInt 1),
         (''metric'', PStr ''profiler-observed directional Host-Device memcpy bytes for the full profiled process''),
         (''status'', PStr (if observed then ''observed'' else ''not_observed'')), (''reason'', reason),
         (''explicit_unavailable_reason'', (case unavailable of None \<Rightarrow> PNone | Some u \<Rightarrow> PStr u)),
         (''routes'', PDict [(''old'', PDict old_doc), (''new'', PDict new_doc)]),
         (''logical_abi_bytes_used_as_transfer'', PBool False)]))"

text \<open>\<open>main\<close>: the reason is read if its file is named; 1 when an input is invalid.\<close>

definition read_reason :: "evidence \<Rightarrow> string option \<Rightarrow> exn + string option" where
  "read_reason files path =
     (case path of
        None \<Rightarrow> Inr None
      | Some p \<Rightarrow> rbind (read_evidence files p) (\<lambda>s.
          if blank s then Inl (ValueError ''msprof unavailable reason is empty'') else Inr (Some (strip_str s))))"

definition profile_main ::
  "evidence_io \<Rightarrow> msprof_io \<Rightarrow> string \<Rightarrow> string \<Rightarrow> string option \<Rightarrow> string \<Rightarrow> evidence \<Rightarrow> (exn + int) \<times> evidence" where
  "profile_main io ms old_root new_root reason_path output files =
     (case rbind (read_reason files reason_path) (summarize_profile ms old_root new_root) of
        Inl e \<Rightarrow>
          ((case e of
              OSError _ \<Rightarrow> Inr 1 | FileNotFoundError _ \<Rightarrow> Inr 1 | ValueError _ \<Rightarrow> Inr 1 | UnicodeError _ \<Rightarrow> Inr 1
            | _ \<Rightarrow> Inl e), files)
      | Inr doc \<Rightarrow> (Inr 0, AList.update output (io_dumps io (PDict doc)) files))"

end
