(* ===== verification/Comparison.thy ===== *)
theory Comparison
  imports TransferVerify
begin

text \<open>
  \<open>analyze_abi_comparison.py\<close>: the four benchmark blocks of the old and the new ABI, the checks
  of their semantics and sources, the profiler's summary and the transfer summary become one
  comparison. The documents are whatever JSON the files hold.
\<close>

section \<open>Values\<close>

text \<open>
  What the comparison needs of the outside, beside the files: \<open>json.dumps(v, sort_keys=True)\<close>
  and the rounding of a real to the nearest double.
\<close>

record analysis_io =
  an_io :: evidence_io
  an_compact :: "pyval \<Rightarrow> string"
  an_round :: "rat \<Rightarrow> rat"

text \<open>\<open>v.get(k, default)\<close> of a value that should be a dictionary.\<close>

definition value_get_or :: "pyval \<Rightarrow> string \<Rightarrow> pyval \<Rightarrow> exn + pyval" where
  "value_get_or v k default_value =
     (case v of
        PDict d \<Rightarrow> Inr (case map_of d k of None \<Rightarrow> default_value | Some w \<Rightarrow> w)
      | _ \<Rightarrow> Inl (AttributeError ''object has no attribute get''))"

text \<open>\<open>v + w\<close> of what should be lists, and the elements of the sum.\<close>

definition value_concat :: "pyval \<Rightarrow> pyval \<Rightarrow> exn + pyval list" where
  "value_concat v w =
     (case (v, w) of
        (PList xs, PList ys) \<Rightarrow> Inr (xs @ ys)
      | (PStr s, PStr t) \<Rightarrow> Inr (map (\<lambda>c. PStr [c]) (s @ t))
      | _ \<Rightarrow> Inl (TypeError ''unsupported operand type(s) for +''))"

text \<open>A value that is no number, or a negative one.\<close>

definition not_a_count :: "pyval \<Rightarrow> bool" where
  "not_a_count v \<longleftrightarrow>
     (case number v of None \<Rightarrow> True | Some (Fin q) \<Rightarrow> q < 0 | Some NegInf \<Rightarrow> True | Some _ \<Rightarrow> False)"

definition failing :: "bool \<Rightarrow> string \<Rightarrow> string list" where
  "failing condition failure = (if condition then [failure] else [])"

lemma failing_Nil [simp]: "failing c f = [] \<longleftrightarrow> \<not> c"
  by (simp add: failing_def)

section \<open>Constants\<close>

definition EXPECTED_ORDER :: "string list" where
  "EXPECTED_ORDER = [''old'', ''new'', ''new'', ''old'']"

definition MEASURED_FIELDS :: "string list" where
  "MEASURED_FIELDS = [''host_control_wall_us'', ''python_cpu_us'', ''native_wall_us'', ''native_cpu_us'']"

definition BLOCK_LABELS :: "string list" where
  "BLOCK_LABELS = [''old-1'', ''new-1'', ''new-2'', ''old-2'']"

text \<open>\<open>ABI_BYTES\<close> of \<open>abi.py\<close>.\<close>

definition ABI_BYTES :: "string \<Rightarrow> string \<Rightarrow> int" where
  "ABI_BYTES route side = int (total_bytes
     (if route = ''old'' then (if side = ''input'' then OLD_INPUTS else OLD_OUTPUTS)
      else (if side = ''input'' then NEW_INPUTS else NEW_OUTPUTS)))"

section \<open>Statistics\<close>

definition percentile :: "(rat \<Rightarrow> rat) \<Rightarrow> int list \<Rightarrow> rat \<Rightarrow> exn + pyval" where
  "percentile rnd values fraction =
     (let ordered = sort values; n = length ordered in
      if n = 0 then Inl (IndexError ''list index out of range'')
      else if n = 1 then Inr (PFloat (Fin (rnd (of_int (hd ordered)))))
      else
        let index = rnd (of_nat (n - 1) * fraction);
            lower = nat \<lfloor>index\<rfloor>;
            upper = min (lower + 1) (n - 1);
            weight = rnd (index - of_nat lower);
            part = (\<lambda>i w. rnd (rnd (of_int (ordered ! i)) * w))
        in Inr (PFloat (Fin (rnd (part lower (rnd (1 - weight)) + part upper weight)))))"

definition rounded :: "(rat \<Rightarrow> rat) \<Rightarrow> pyval \<Rightarrow> pyval" where
  "rounded rnd v = (case v of PFloat (Fin q) \<Rightarrow> PFloat (Fin (rnd q)) | _ \<Rightarrow> v)"

definition rounded_median :: "(rat \<Rightarrow> rat) \<Rightarrow> int list \<Rightarrow> exn + pyval" where
  "rounded_median rnd values = rbind (median values) (\<lambda>m. Inr (rounded rnd m))"

definition stats_doc :: "(rat \<Rightarrow> rat) \<Rightarrow> int list \<Rightarrow> exn + (string \<times> pyval) list" where
  "stats_doc rnd values =
     (if values = [] then Inl (ValueError ''min() arg is an empty sequence'')
      else
        rbind (percentile rnd values (1 / 4)) (\<lambda>q1.
        rbind (rounded_median rnd values) (\<lambda>m.
        rbind (percentile rnd values (3 / 4)) (\<lambda>q3.
          Inr [(''count'', PInt (int (length values))), (''min'', PInt (Min (set values))), (''q1'', q1),
               (''median'', m), (''q3'', q3), (''max'', PInt (Max (set values)))]))))"

text \<open>The quotient and the difference of two medians.\<close>

definition finite_number :: "pyval \<Rightarrow> rat" where
  "finite_number v = (case number v of Some (Fin q) \<Rightarrow> q | _ \<Rightarrow> 0)"

definition median_ratio :: "(rat \<Rightarrow> rat) \<Rightarrow> pyval \<Rightarrow> pyval \<Rightarrow> pyval" where
  "median_ratio rnd old new =
     (if truthy new then PFloat (Fin (rnd (finite_number old / finite_number new))) else PNone)"

definition median_difference :: "(rat \<Rightarrow> rat) \<Rightarrow> pyval \<Rightarrow> pyval \<Rightarrow> pyval" where
  "median_difference rnd new old =
     (case (new, old) of
        (PInt n, PInt m) \<Rightarrow> PInt (n - m)
      | _ \<Rightarrow> PFloat (Fin (rnd (finite_number new - finite_number old))))"

section \<open>The blocks\<close>

definition sample_expectations :: "string \<Rightarrow> (string \<times> int) list" where
  "sample_expectations route =
     [(''engine_core_step_calls'', 1), (''post_step_calls'', 1), (''socket_send_calls'', 1),
      (''socket_receive_calls'', 1), (''feed_calls'', 1), (''fetch_calls'', 1), (''model_calls'', 2),
      (''declared_input_bytes'', ABI_BYTES route ''input''), (''declared_output_bytes'', ABI_BYTES route ''output''),
      (''declared_total_bytes'', ABI_BYTES route ''input'' + ABI_BYTES route ''output'')]"

definition validate_sample :: "string \<Rightarrow> nat \<times> pyval \<Rightarrow> exn + string list" where
  "validate_sample route numbered =
     (let (index, sample) = numbered; start = ''sample-'' @ nat_str index in
      rbind (value_get sample ''pass'') (\<lambda>passed.
      rbind (map_res (\<lambda>(field, v). rbind (value_get sample field) (\<lambda>w.
        Inr (failing (\<not> py_eq w (PInt v)) (start @ ''-'' @ field)))) (sample_expectations route)) (\<lambda>counts.
      rbind (map_res (\<lambda>field. rbind (value_get sample field) (\<lambda>w.
        Inr (failing (case python_int w of None \<Rightarrow> True | Some i \<Rightarrow> i \<le> 0) (start @ ''-'' @ field)))) MEASURED_FIELDS) (\<lambda>measured.
        Inr (failing (passed \<noteq> PBool True) (start @ ''-not-passed'') @ concat counts @ concat measured)))))"

definition validate_block :: "pyval \<Rightarrow> string \<Rightarrow> exn + string list" where
  "validate_block block expected_route =
     rbind (value_get block ''pass'') (\<lambda>passed.
     rbind (value_get block ''route'') (\<lambda>route.
     rbind (value_get block ''samples'') (\<lambda>samples.
       let failures = failing (passed \<noteq> PBool True) ''block-not-passed'' @ failing (route \<noteq> PStr expected_route) ''route-mismatch'' in
       case samples of
         PList xs \<Rightarrow>
           if length xs \<noteq> 15 then Inr (failures @ [''sample-count''])
           else rbind (map_res (validate_sample expected_route) (enumerate 0 xs)) (\<lambda>fs. Inr (failures @ concat fs))
       | _ \<Rightarrow> Inr (failures @ [''sample-count'']))))"

definition blocks_failures :: "pyval list \<Rightarrow> exn + string list" where
  "blocks_failures blocks =
     rbind (map_res (\<lambda>(index, block, route). rbind (validate_block block route) (\<lambda>fs.
       Inr (map (\<lambda>f. ''block-'' @ nat_str index @ '':'' @ f) fs))) (enumerate 1 (zip blocks EXPECTED_ORDER))) (\<lambda>fs.
     if length blocks \<noteq> length EXPECTED_ORDER then Inl (ValueError ''zip() argument 2 has another length than argument 1'')
     else Inr (concat fs))"

section \<open>The summaries\<close>

definition profiler_failures :: "pyval \<Rightarrow> exn + string list" where
  "profiler_failures profiler =
     rbind (value_get profiler ''status'') (\<lambda>status.
     rbind (if status = PStr ''observed'' then
         rbind (map_res (\<lambda>route.
           rbind (value_get_or profiler ''routes'' (PDict [])) (\<lambda>routes.
           rbind (value_get_or routes route (PDict [])) (\<lambda>result.
           rbind (value_get result ''total_bytes'') (\<lambda>total.
             Inr (failing (\<not> is_int total) (''profiler-'' @ route @ ''-bytes'')))))) [''old'', ''new'']) (\<lambda>fs. Inr (concat fs))
       else
         rbind (value_get profiler ''reason'') (\<lambda>reason.
           Inr (failing (\<not> truthy reason) ''profiler-not-observed-without-reason''))) (\<lambda>rest.
       Inr (failing (status \<notin> {PStr ''observed'', PStr ''not_observed''}) ''invalid-profiler-status'' @ rest)))"

definition claim_failures :: "pyval \<Rightarrow> exn + string list" where
  "claim_failures transfer =
     rbind (value_get transfer ''schema_version'') (\<lambda>version.
     rbind (value_get transfer ''status'') (\<lambda>status.
     rbind (value_get transfer ''logical_abi_bytes_used_as_transfer'') (\<lambda>logical.
     rbind (value_get transfer ''dataflow_tensor_payload_is_physical_link_bytes'') (\<lambda>payload.
     rbind (value_get transfer ''physical_link_bytes_claimed'') (\<lambda>link.
       Inr (failing (\<not> py_eq version (PInt 2)) ''transfer-trace-schema''
         @ failing (status \<noteq> PStr ''observed'') ''dataflow-payload-not-observed''
         @ failing (logical \<noteq> PBool False) ''transfer-trace-used-logical-bytes''
         @ failing (payload \<noteq> PBool False) ''dataflow-payload-misclaimed-as-link-bytes''
         @ failing (link \<noteq> PBool False) ''physical-link-bytes-claimed''))))))"

definition expected_medians :: "string \<Rightarrow> (string \<times> int) list" where
  "expected_medians route =
     [(''dataflow_host_to_device_bytes_median'', ABI_BYTES route ''input''),
      (''dataflow_device_to_host_bytes_median'', ABI_BYTES route ''output''),
      (''dataflow_total_bytes_median'', ABI_BYTES route ''input'' + ABI_BYTES route ''output'')]"

definition RUNTIME_MEDIANS :: "string list" where
  "RUNTIME_MEDIANS =
     [''runtime_memcpy_records_median'', ''runtime_memcpy_host_to_device_bytes_median'',
      ''runtime_memcpy_device_to_host_bytes_median'', ''runtime_memcpy_total_directional_bytes_median'']"

text \<open>Whether the statuses of a route are a list of good ones; \<open>set\<close> raises on a list or a dictionary.\<close>

definition good_statuses :: "pyval \<Rightarrow> exn + bool" where
  "good_statuses statuses =
     (case statuses of
        PList xs \<Rightarrow>
          if xs = [] then Inr False
          else if \<exists>x \<in> set xs. is_list x \<or> is_dict x then Inl (TypeError ''unhashable type'')
          else Inr (set xs \<subseteq> {PStr ''observed'', PStr ''observed_zero''})
      | _ \<Rightarrow> Inr False)"

definition route_failures :: "pyval \<Rightarrow> string \<Rightarrow> exn + string list" where
  "route_failures transfer route =
     rbind (value_get_or transfer ''routes'' (PDict [])) (\<lambda>routes.
     rbind (value_get_or routes route (PDict [])) (\<lambda>result.
     rbind (value_get result ''sample_count'') (\<lambda>n.
     rbind (map_res (\<lambda>(field, expected). rbind (value_get result field) (\<lambda>v.
       Inr (failing (\<not> py_eq v (PInt expected)) (''dataflow-'' @ route @ ''-'' @ field)))) (expected_medians route)) (\<lambda>medians.
     rbind (value_get result ''runtime_memcpy_statuses'') (\<lambda>statuses.
     rbind (good_statuses statuses) (\<lambda>good.
     rbind (map_res (\<lambda>field. rbind (value_get result field) (\<lambda>v.
       Inr (failing (not_a_count v) (''runtime-memcpy-'' @ route @ ''-'' @ field)))) RUNTIME_MEDIANS) (\<lambda>runtime.
       Inr (failing (\<not> py_eq n (PInt 30)) (''transfer-trace-'' @ route @ ''-sample-count'')
         @ concat medians @ failing (\<not> good) (''runtime-memcpy-'' @ route @ ''-status'') @ concat runtime))))))))"

definition RUNTIME_STATUSES :: "pyval set" where
  "RUNTIME_STATUSES = {PStr ''observed'', PStr ''observed_zero''}"

definition transfer_block_failures :: "pyval \<Rightarrow> string \<times> string \<Rightarrow> exn + string list" where
  "transfer_block_failures blocks labelled =
     (let (label, route) = labelled in
      rbind (value_get_or blocks label (PDict [])) (\<lambda>block.
      rbind (value_get block ''route'') (\<lambda>r.
      rbind (value_get block ''status'') (\<lambda>status.
      rbind (value_get block ''dataflow_tensor_payload_status'') (\<lambda>payload.
      rbind (value_get block ''runtime_memcpy_status'') (\<lambda>runtime.
      rbind (value_get block ''samples'') (\<lambda>samples.
        let failures = failing (r \<noteq> PStr route) (''transfer-trace-'' @ label @ ''-route'')
              @ failing (status \<noteq> PStr ''observed'') (''transfer-trace-'' @ label @ ''-status'')
              @ failing (payload \<noteq> PStr ''observed'') (''dataflow-'' @ label @ ''-status'')
              @ failing (runtime \<notin> RUNTIME_STATUSES) (''runtime-memcpy-'' @ label @ ''-status'')
        in case samples of
             PList xs \<Rightarrow>
               if length xs \<noteq> 15 then Inr (failures @ [''transfer-trace-'' @ label @ ''-sample-count''])
               else
                 rbind (map_res (\<lambda>sample.
                   rbind (value_get sample ''dataflow_status'') (\<lambda>dataflow.
                   rbind (value_get sample ''runtime_memcpy_status'') (\<lambda>memcpy.
                     Inr (failing (dataflow \<noteq> PStr ''observed'') (''dataflow-'' @ label @ ''-sample'')
                       @ failing (memcpy \<notin> RUNTIME_STATUSES) (''runtime-memcpy-'' @ label @ ''-sample''))))) xs) (\<lambda>fs.
                 Inr (failures @ concat fs))
           | _ \<Rightarrow> Inr (failures @ [''transfer-trace-'' @ label @ ''-sample-count''])))))))) "

definition transfer_failures :: "pyval \<Rightarrow> exn + string list" where
  "transfer_failures transfer =
     rbind (claim_failures transfer) (\<lambda>claims.
     rbind (map_res (route_failures transfer) [''old'', ''new'']) (\<lambda>routes.
     rbind (value_get_or transfer ''blocks'' (PDict [])) (\<lambda>blocks.
     rbind (map_res (transfer_block_failures blocks) (zip BLOCK_LABELS EXPECTED_ORDER)) (\<lambda>fs.
       Inr (claims @ concat routes @ concat fs)))))"

section \<open>The comparison\<close>

text \<open>The samples of the two blocks of each route.\<close>

definition raw_route_samples :: "pyval list \<Rightarrow> nat \<Rightarrow> nat \<Rightarrow> exn + pyval list" where
  "raw_route_samples blocks i j =
     rbind (value_get_or (blocks ! i) ''samples'' (PList [])) (\<lambda>xs.
     rbind (value_get_or (blocks ! j) ''samples'' (PList [])) (\<lambda>ys. value_concat xs ys))"

definition sample_ints :: "string \<Rightarrow> pyval list \<Rightarrow> exn + int list" where
  "sample_ints field samples = map_res (\<lambda>sample. raw_int sample field) samples"

definition metric_doc :: "(rat \<Rightarrow> rat) \<Rightarrow> pyval list \<Rightarrow> pyval list \<Rightarrow> string \<Rightarrow> exn + string \<times> pyval" where
  "metric_doc rnd old new field =
     rbind (sample_ints field old) (\<lambda>old_values.
     rbind (sample_ints field new) (\<lambda>new_values.
     rbind (stats_doc rnd old_values) (\<lambda>old_stats.
     rbind (stats_doc rnd new_values) (\<lambda>new_stats.
       Inr (field, PDict
         [(''old'', PDict old_stats), (''new'', PDict new_stats),
          (''old_over_new_median'', median_ratio rnd (py_get old_stats ''median'') (py_get new_stats ''median'')),
          (''new_minus_old_median'', median_difference rnd (py_get new_stats ''median'') (py_get old_stats ''median''))])))))"

definition metrics_doc :: "(rat \<Rightarrow> rat) \<Rightarrow> pyval list \<Rightarrow> exn + (string \<times> pyval) list" where
  "metrics_doc rnd blocks =
     rbind (raw_route_samples blocks 0 3) (\<lambda>old.
     rbind (raw_route_samples blocks 1 2) (\<lambda>new.
       if length old = 30 \<and> length new = 30 then map_res (metric_doc rnd old new) MEASURED_FIELDS else Inr []))"

text \<open>
  The baselines of the blocks, as a sorted set: strings, or finite numbers; other values do not
  compare. (Infinite floats would, and \<open>nan\<close> compares with nothing.)
\<close>

definition baseline_hashes :: "pyval list \<Rightarrow> exn + pyval list" where
  "baseline_hashes blocks =
     rbind (map_res (\<lambda>block.
       rbind (value_get_or block ''artifacts'' (PDict [])) (\<lambda>artifacts. value_get artifacts ''baseline_sha256'')) blocks) (\<lambda>hashes.
     if \<exists>h \<in> set hashes. is_list h \<or> is_dict h then Inl (TypeError ''unhashable type'')
     else let distinct_hashes = fold (\<lambda>h seen. if \<exists>g \<in> set seen. py_eq g h then seen else seen @ [h]) hashes [] in
       if length distinct_hashes \<le> 1 then Inr distinct_hashes
       else if \<forall>h \<in> set distinct_hashes. is_str h then
         Inr (map PStr (sort (map (\<lambda>h. case h of PStr s \<Rightarrow> s | _ \<Rightarrow> []) distinct_hashes)))
       else if \<forall>h \<in> set distinct_hashes. \<exists>q. number h = Some (Fin q) then Inr (sort_key finite_number distinct_hashes)
       else Inl (TypeError ''< not supported between instances''))"

definition control_failures :: "analysis_io \<Rightarrow> pyval list \<Rightarrow> pyval list \<Rightarrow> pyval list \<Rightarrow> string list" where
  "control_failures an hashes classes repetitions =
     failing (length hashes \<noteq> 1) ''baseline-hash-changed''
     @ failing (card (set (map (an_compact an) classes)) \<noteq> 1) ''resolved-classes-changed''
     @ failing (\<not> py_eq_list repetitions (replicate 4 (PInt 15))) ''repetition-budget-changed''"

definition LOGICAL_ABI :: "(rat \<Rightarrow> rat) \<Rightarrow> (string \<times> pyval) list" where
  "LOGICAL_ABI rnd =
     [(''old_input_bytes'', PInt (ABI_BYTES ''old'' ''input'')), (''old_output_bytes'', PInt (ABI_BYTES ''old'' ''output'')),
      (''old_total_bytes'', PInt (int OLD_TOTAL_BYTES)),
      (''new_input_bytes'', PInt (ABI_BYTES ''new'' ''input'')), (''new_output_bytes'', PInt (ABI_BYTES ''new'' ''output'')),
      (''new_total_bytes'', PInt (int NEW_TOTAL_BYTES)),
      (''reduction_bytes'', PInt TOTAL_REDUCTION_BYTES),
      (''reduction_fraction'', PFloat (Fin (rnd (of_int TOTAL_REDUCTION_BYTES / of_nat OLD_TOTAL_BYTES))))]"

definition HOST_API_PER_EPOCH :: "(string \<times> pyval) list" where
  "HOST_API_PER_EPOCH =
     [(''engine_core_step'', PInt 1), (''post_step'', PInt 1), (''socket_send'', PInt 1), (''socket_receive'', PInt 1),
      (''dataflow_feed'', PInt 1), (''dataflow_fetch'', PInt 1), (''device_model_calls'', PInt 2)]"

definition OBSERVED_PAYLOAD :: "(string \<times> pyval) list" where
  "OBSERVED_PAYLOAD =
     [(''old_host_to_device_bytes_per_epoch'', PInt (ABI_BYTES ''old'' ''input'')),
      (''old_device_to_host_bytes_per_epoch'', PInt (ABI_BYTES ''old'' ''output'')),
      (''old_total_bytes_per_epoch'', PInt (int OLD_TOTAL_BYTES)),
      (''new_host_to_device_bytes_per_epoch'', PInt (ABI_BYTES ''new'' ''input'')),
      (''new_device_to_host_bytes_per_epoch'', PInt (ABI_BYTES ''new'' ''output'')),
      (''new_total_bytes_per_epoch'', PInt (int NEW_TOTAL_BYTES)),
      (''reduction_bytes_per_epoch'', PInt TOTAL_REDUCTION_BYTES),
      (''matches_declared_abi'', PBool True), (''is_physical_link_bytes'', PBool False)]"

definition file_doc :: "evidence_io \<Rightarrow> evidence \<Rightarrow> string \<Rightarrow> (string \<times> pyval) list \<Rightarrow> exn + pyval" where
  "file_doc io files path entries =
     rbind (evidence_sha256 io files path) (\<lambda>h. Inr (PDict ([(''path'', PStr path), (''sha256'', PStr h)] @ entries)))"

record comparison_paths =
  cp_blocks :: "string list"
  cp_semantic :: string
  cp_source :: string
  cp_profiler :: string
  cp_transfer :: string

text \<open>\<open>analyze\<close>: the failures in the order they are found, then the document.\<close>

definition comparison_doc ::
  "analysis_io \<Rightarrow> evidence \<Rightarrow> comparison_paths \<Rightarrow> string list \<Rightarrow> pyval list \<Rightarrow> pyval \<Rightarrow> pyval \<Rightarrow> pyval \<Rightarrow> pyval
   \<Rightarrow> pyval list \<Rightarrow> pyval list \<Rightarrow> pyval list \<Rightarrow> (string \<times> pyval) list \<Rightarrow> exn + (string \<times> pyval) list" where
  "comparison_doc an files paths failures blocks semantic source profiler transfer hashes classes repetitions metrics =
     (let io = an_io an in
      rbind (value_get semantic ''pass'') (\<lambda>semantic_pass.
      rbind (file_doc io files (cp_semantic paths) [(''pass'', semantic_pass)]) (\<lambda>semantic_entry.
      rbind (value_get source ''pass'') (\<lambda>source_pass.
      rbind (file_doc io files (cp_source paths) [(''pass'', source_pass)]) (\<lambda>source_entry.
      rbind (map_res (\<lambda>(path, route). file_doc io files path [(''route'', PStr route)]) (zip (cp_blocks paths) EXPECTED_ORDER)) (\<lambda>inputs.
      rbind (file_doc io files (cp_profiler paths) []) (\<lambda>profiler_entry.
      rbind (file_doc io files (cp_transfer paths) []) (\<lambda>transfer_entry.
        Inr [(''gate'', PStr ''Attempt 74 minimal Host-UDF ABI and control-overhead evidence''),
          (''schema_version'', PInt 2), (''pass'', PBool (failures = [])),
          (''failed_checks'', PList (map PStr (sort (remdups failures)))),
          (''block_order'', PList (map PStr EXPECTED_ORDER)),
          (''control_variables'', PDict [(''baseline_sha256'', PList hashes), (''resolved_classes'', PList classes),
            (''repetitions'', PList repetitions)]),
          (''logical_abi'', PDict (LOGICAL_ABI (an_round an))), (''host_api_per_epoch'', PDict HOST_API_PER_EPOCH),
          (''metrics'', PDict metrics), (''profiler_transfer'', profiler),
          (''observed_dataflow_payload'', PDict OBSERVED_PAYLOAD), (''transfer_trace'', transfer),
          (''semantic_result'', semantic_entry), (''source_verification'', source_entry),
          (''inputs'', PList inputs), (''profiler_summary'', profiler_entry),
          (''transfer_trace_summary'', transfer_entry)]))))))))"

definition analyze :: "analysis_io \<Rightarrow> evidence \<Rightarrow> comparison_paths \<Rightarrow> exn + (string \<times> pyval) list" where
  "analyze an files paths =
     (let load = load_json (an_io an) files in
      rbind (map_res load (cp_blocks paths)) (\<lambda>blocks.
      rbind (load (cp_semantic paths)) (\<lambda>semantic.
      rbind (load (cp_source paths)) (\<lambda>source.
      rbind (load (cp_profiler paths)) (\<lambda>profiler.
      rbind (load (cp_transfer paths)) (\<lambda>transfer.
      rbind (blocks_failures blocks) (\<lambda>block_fs.
      rbind (value_get semantic ''pass'') (\<lambda>semantic_pass.
      rbind (value_get source ''pass'') (\<lambda>source_pass.
      rbind (profiler_failures profiler) (\<lambda>profiler_fs.
      rbind (transfer_failures transfer) (\<lambda>transfer_fs.
      rbind (metrics_doc (an_round an) blocks) (\<lambda>metrics.
      rbind (baseline_hashes blocks) (\<lambda>hashes.
      rbind (map_res (\<lambda>block. value_get block ''resolved_classes'') blocks) (\<lambda>classes.
      rbind (map_res (\<lambda>block. value_get block ''repetitions'') blocks) (\<lambda>repetitions.
        comparison_doc an files paths
          (block_fs @ failing (semantic_pass \<noteq> PBool True) ''minimal-abi-multi-epoch-semantics''
           @ failing (source_pass \<noteq> PBool True) ''minimal-abi-source-verification''
           @ profiler_fs @ transfer_fs @ control_failures an hashes classes repetitions)
          blocks semantic source profiler transfer hashes classes repetitions metrics)))))))))))))))"

text \<open>\<open>main\<close>: the comparison is written and printed; 0 when it passes, 1 when not or when it is invalid.\<close>

definition comparison_main :: "analysis_io \<Rightarrow> comparison_paths \<Rightarrow> string \<Rightarrow> evidence \<Rightarrow> (exn + int) \<times> evidence" where
  "comparison_main an paths output files =
     (case analyze an files paths of
        Inl e \<Rightarrow>
          ((case e of
              OSError _ \<Rightarrow> Inr 1 | FileNotFoundError _ \<Rightarrow> Inr 1 | ValueError _ \<Rightarrow> Inr 1 | KeyError _ \<Rightarrow> Inr 1
            | UnicodeError _ \<Rightarrow> Inr 1 | JSONDecodeError _ \<Rightarrow> Inr 1 | _ \<Rightarrow> Inl e), files)
      | Inr doc \<Rightarrow>
          (Inr (if py_get doc ''pass'' = PBool True then 0 else 1),
           AList.update output (io_dumps (an_io an) (PDict doc)) files))"

end
