(* ===== verification/ComparisonVerify.thy ===== *)
theory ComparisonVerify
  imports Comparison
begin

text \<open>
  \<open>validate_result\<close> of \<open>verify_abi_comparison_result.py\<close> with the artifacts required: the
  recorded comparison is checked against its own constants and against the files it names, the
  medians and the transfers recomputed from them.
\<close>

section \<open>Values\<close>

definition value_greater :: "pyval \<Rightarrow> rat \<Rightarrow> exn + bool" where
  "value_greater v q =
     (case number v of
        Some (Fin r) \<Rightarrow> Inr (q < r)
      | Some PosInf \<Rightarrow> Inr True
      | Some _ \<Rightarrow> Inr False
      | None \<Rightarrow> Inl (TypeError ''> not supported between instances''))"

definition value_len :: "pyval \<Rightarrow> exn + nat" where
  "value_len v =
     (case v of
        PList xs \<Rightarrow> Inr (length xs) | PStr s \<Rightarrow> Inr (length s) | PDict d \<Rightarrow> Inr (length d)
      | _ \<Rightarrow> Inl (TypeError ''object has no len()''))"

text \<open>\<open>_require(isinstance(v, dict), message)\<close>, with the dictionary.\<close>

definition require_dict :: "pyval \<Rightarrow> string \<Rightarrow> exn + (string \<times> pyval) list" where
  "require_dict v message = (case v of PDict d \<Rightarrow> Inr d | _ \<Rightarrow> Inl (ValueError message))"

definition require_list :: "pyval \<Rightarrow> nat \<Rightarrow> string \<Rightarrow> exn + pyval list" where
  "require_list v n message =
     (case v of PList xs \<Rightarrow> rbind (require (length xs = n) message) (\<lambda>_. Inr xs) | _ \<Rightarrow> Inl (ValueError message))"

definition require_is :: "(string \<times> pyval) list \<Rightarrow> string \<Rightarrow> pyval \<Rightarrow> string \<Rightarrow> exn + unit" where
  "require_is d key v message = require (py_get d key = v) message"

section \<open>Constants\<close>

definition EXPECTED_LOGICAL :: "(string \<times> int) list" where
  "EXPECTED_LOGICAL =
     [(''old_input_bytes'', 58720516), (''old_output_bytes'', 78184928), (''old_total_bytes'', 136905444),
      (''new_input_bytes'', 260), (''new_output_bytes'', 368), (''new_total_bytes'', 628),
      (''reduction_bytes'', 136904816)]"

definition EXPECTED_APIS :: "(string \<times> pyval) list" where
  "EXPECTED_APIS =
     [(''engine_core_step'', PInt 1), (''post_step'', PInt 1), (''socket_send'', PInt 1), (''socket_receive'', PInt 1),
      (''dataflow_feed'', PInt 1), (''dataflow_fetch'', PInt 1), (''device_model_calls'', PInt 2)]"

definition FIELDS :: "string list" where
  "FIELDS = [''host_control_wall_us'', ''python_cpu_us'', ''native_wall_us'', ''native_cpu_us'']"

definition EXPECTED_OBSERVED :: "(string \<times> pyval) list" where
  "EXPECTED_OBSERVED =
     [(''old_host_to_device_bytes_per_epoch'', PInt 58720516), (''old_device_to_host_bytes_per_epoch'', PInt 78184928),
      (''old_total_bytes_per_epoch'', PInt 136905444), (''new_host_to_device_bytes_per_epoch'', PInt 260),
      (''new_device_to_host_bytes_per_epoch'', PInt 368), (''new_total_bytes_per_epoch'', PInt 628),
      (''reduction_bytes_per_epoch'', PInt 136904816), (''matches_declared_abi'', PBool True),
      (''is_physical_link_bytes'', PBool False)]"

section \<open>The recorded fields\<close>

definition check_header :: "(string \<times> pyval) list \<Rightarrow> exn + unit" where
  "check_header d =
     rbind (require_entry d ''gate'' (PStr ''Attempt 74 minimal Host-UDF ABI and control-overhead evidence'') ''unexpected gate'') (\<lambda>_.
     rbind (require_entry d ''schema_version'' (PInt 2) ''unexpected schema version'') (\<lambda>_.
     rbind (require_is d ''pass'' (PBool True) ''analysis did not pass'') (\<lambda>_.
     rbind (require_entry d ''failed_checks'' (PList []) ''analysis retained failed checks'') (\<lambda>_.
       require_entry d ''block_order'' (PList (map PStr EXPECTED_ORDER)) ''block order is not ABBA''))))"

definition check_logical :: "(rat \<Rightarrow> rat) \<Rightarrow> (string \<times> pyval) list \<Rightarrow> exn + unit" where
  "check_logical rnd d =
     rbind (require_dict (py_get d ''logical_abi'') ''missing logical ABI ledger'') (\<lambda>logical.
     rbind (for_each (\<lambda>(key, expected). require_entry logical key (PInt expected) (''logical ABI changed: '' @ key)) EXPECTED_LOGICAL) (\<lambda>_.
     rbind (value_get_or (PDict logical) ''reduction_fraction'' (PInt 0)) (\<lambda>fraction.
     rbind (value_greater fraction (rnd (999 / 1000))) (\<lambda>large.
     rbind (require large ''ABI reduction too small'') (\<lambda>_.
       require_entry d ''host_api_per_epoch'' (PDict EXPECTED_APIS) ''Host API ledger changed'')))))"

text \<open>A raw block, from the entry that names it.\<close>

definition check_input :: "evidence_io \<Rightarrow> evidence \<Rightarrow> nat \<times> pyval \<times> string \<Rightarrow> exn + pyval" where
  "check_input io files numbered =
     (let (index, entry, route) = numbered; where_at = ''block '' @ nat_str index in
      case entry of
        PDict e \<Rightarrow>
          rbind (require_entry e ''route'' (PStr route) (where_at @ '': route changed'')) (\<lambda>_.
          rbind (load_hashed io files e where_at) (\<lambda>block.
          rbind (value_get block ''pass'') (\<lambda>passed.
          rbind (require (passed = PBool True) (where_at @ '': raw run failed'')) (\<lambda>_.
          rbind (value_get block ''route'') (\<lambda>r.
          rbind (require (r = PStr route) (where_at @ '': raw route changed'')) (\<lambda>_.
          rbind (value_get_or block ''samples'' (PList [])) (\<lambda>samples.
          rbind (value_len samples) (\<lambda>n.
          rbind (require (n = 15) (where_at @ '': sample count'')) (\<lambda>_.
            Inr block)))))))))
      | _ \<Rightarrow> Inl (AttributeError ''object has no attribute get''))"

definition check_inputs :: "evidence_io \<Rightarrow> evidence \<Rightarrow> (string \<times> pyval) list \<Rightarrow> exn + pyval list" where
  "check_inputs io files d =
     rbind (require_list (py_get d ''inputs'') 4 ''expected four raw blocks'') (\<lambda>inputs.
       map_res (check_input io files) (enumerate 0 (zip inputs EXPECTED_ORDER)))"

definition check_metric :: "(string \<times> pyval) list \<Rightarrow> string \<Rightarrow> exn + unit" where
  "check_metric metrics field =
     rbind (require_dict (py_get metrics field) (''missing metric '' @ field)) (\<lambda>metric.
     rbind (for_each (\<lambda>route.
         rbind (require_dict (py_get metric route) (''missing '' @ route @ '' '' @ field @ '' stats'')) (\<lambda>stats.
         rbind (require_entry stats ''count'' (PInt 30) (route @ '' '' @ field @ '': wrong count'')) (\<lambda>_.
         rbind (value_get_or (PDict stats) ''median'' (PInt 0)) (\<lambda>m.
         rbind (value_greater m 0) (\<lambda>positive. require positive (route @ '' '' @ field @ '': invalid median'')))))) [''old'', ''new'']) (\<lambda>_.
       require (number (py_get metric ''old_over_new_median'') \<noteq> None) (''missing '' @ field @ '' ratio'')))"

text \<open>\<open>metrics[field][route]["median"]\<close>.\<close>

definition recorded_median :: "(string \<times> pyval) list \<Rightarrow> string \<Rightarrow> string \<Rightarrow> exn + pyval" where
  "recorded_median metrics field route =
     rbind (dict_item metrics field) (\<lambda>metric. rbind (value_item metric route) (\<lambda>stats. value_item stats ''median''))"

definition check_medians :: "(rat \<Rightarrow> rat) \<Rightarrow> (string \<times> pyval) list \<Rightarrow> pyval list \<Rightarrow> exn + unit" where
  "check_medians rnd metrics blocks =
     rbind (rbind (value_item (blocks ! 0) ''samples'') (\<lambda>xs. rbind (value_item (blocks ! 3) ''samples'') (value_concat xs))) (\<lambda>old.
     rbind (rbind (value_item (blocks ! 1) ''samples'') (\<lambda>xs. rbind (value_item (blocks ! 2) ''samples'') (value_concat xs))) (\<lambda>new.
       for_each (\<lambda>(field, route, samples).
         rbind (sample_ints field samples) (\<lambda>values.
         rbind (rounded_median rnd values) (\<lambda>m.
         rbind (recorded_median metrics field route) (\<lambda>v.
           require (py_eq v m) (route @ '' '' @ field @ '': median does not match raw rows'')))))
       (concat (map (\<lambda>field. [(field, ''old'', old), (field, ''new'', new)]) FIELDS))))"

definition check_artifact :: "evidence_io \<Rightarrow> evidence \<Rightarrow> (string \<times> pyval) list \<Rightarrow> string \<Rightarrow> exn + unit" where
  "check_artifact io files d key =
     rbind (require_dict (py_get d key) (key @ '' failed'')) (\<lambda>entry.
     rbind (require_is entry ''pass'' (PBool True) (key @ '' failed'')) (\<lambda>_.
     rbind (load_hashed io files entry key) (\<lambda>artifact.
     rbind (value_get artifact ''pass'') (\<lambda>passed. require (passed = PBool True) (key @ '' artifact failed'')))))"

definition check_profiler :: "(string \<times> pyval) list \<Rightarrow> exn + pyval" where
  "check_profiler d =
     rbind (require_dict (py_get d ''profiler_transfer'') ''missing profiler transfer result'') (\<lambda>profiler.
     rbind (require_is profiler ''logical_abi_bytes_used_as_transfer'' (PBool False)
       ''logical ABI bytes were substituted for profiler bytes'') (\<lambda>_.
     let status = py_get profiler ''status'' in
     rbind (require (status \<in> {PStr ''observed'', PStr ''not_observed''}) ''invalid profiler status'') (\<lambda>_.
     rbind (if status = PStr ''observed'' then
         for_each (\<lambda>route.
           rbind (value_get_or (PDict profiler) ''routes'' (PDict [])) (\<lambda>routes.
           rbind (value_get_or routes route (PDict [])) (\<lambda>result.
           rbind (value_get result ''total_bytes'') (\<lambda>v.
             require (case python_int v of None \<Rightarrow> False | Some i \<Rightarrow> 0 \<le> i) (route @ '': invalid profiler bytes'')))))
         [''old'', ''new'']
       else require (truthy (py_get profiler ''reason'')) ''not_observed has no reason'') (\<lambda>_.
     Inr status))))"

section \<open>The transfers\<close>

definition check_transfer_claims :: "evidence_io \<Rightarrow> evidence \<Rightarrow> (string \<times> pyval) list \<Rightarrow> exn + (string \<times> pyval) list" where
  "check_transfer_claims io files d =
     rbind (require_dict (py_get d ''transfer_trace'') ''missing transfer trace result'') (\<lambda>transfer.
     rbind (require_entry transfer ''schema_version'' (PInt 2) ''transfer trace schema changed'') (\<lambda>_.
     rbind (require_entry transfer ''status'' (PStr ''observed'') ''DataFlow payload not observed'') (\<lambda>_.
     rbind (require_is transfer ''logical_abi_bytes_used_as_transfer'' (PBool False)
       ''logical ABI bytes were substituted for observed payload'') (\<lambda>_.
     rbind (require_is transfer ''dataflow_tensor_payload_is_physical_link_bytes'' (PBool False)
       ''DataFlow payload was misclaimed as physical-link bytes'') (\<lambda>_.
     rbind (require_is transfer ''physical_link_bytes_claimed'' (PBool False) ''unsupported physical-link byte claim'') (\<lambda>_.
     rbind (require_dict (py_get d ''transfer_trace_summary'') ''missing transfer trace summary input'') (\<lambda>entry.
     rbind (load_hashed io files entry ''transfer_trace_summary'') (\<lambda>artifact.
     rbind (require (py_eq artifact (PDict transfer)) ''embedded transfer trace differs from input'') (\<lambda>_.
       Inr transfer)))))))))"

definition check_transfer_block ::
  "evidence_io \<Rightarrow> evidence \<Rightarrow> (string \<times> pyval) list \<Rightarrow> string \<times> string \<times> pyval \<Rightarrow> exn + string \<times> sample_summary list" where
  "check_transfer_block io files blocks labelled =
     (let (label, route, raw_block) = labelled in
      rbind (require_dict (py_get blocks label) (''missing transfer block: '' @ label)) (\<lambda>block.
      rbind (require_entry block ''route'' (PStr route) (''transfer route changed: '' @ label)) (\<lambda>_.
      rbind (require_entry block ''status'' (PStr ''observed'') (''transfer block failed: '' @ label)) (\<lambda>_.
      rbind (require_entry block ''dataflow_tensor_payload_status'' (PStr ''observed'') (''DataFlow payload failed: '' @ label)) (\<lambda>_.
      rbind (require (py_get block ''runtime_memcpy_status'' \<in> RUNTIME_STATUSES) (''runtime memcpy status invalid: '' @ label)) (\<lambda>_.
      rbind (value_get_or (PDict block) ''samples'' (PList [])) (\<lambda>samples.
      rbind (value_len samples) (\<lambda>n.
      rbind (require (n = 15) (''transfer sample count: '' @ label)) (\<lambda>_.
      rbind (recompute_transfer_block io files label route block raw_block) (\<lambda>xs. Inr (label, xs)))))))))))"

definition check_transfer ::
  "evidence_io \<Rightarrow> evidence \<Rightarrow> (string \<times> pyval) list \<Rightarrow> pyval list \<Rightarrow> exn + (string \<times> sample_summary list) list" where
  "check_transfer io files d raw_blocks =
     rbind (check_transfer_claims io files d) (\<lambda>transfer.
     rbind (require_dict (py_get transfer ''blocks'') ''missing transfer trace blocks'') (\<lambda>blocks.
     rbind (map_res (check_transfer_block io files blocks) (zip BLOCK_LABELS (zip EXPECTED_ORDER raw_blocks))) (\<lambda>recomputed.
     rbind (dict_item recomputed ''old-1'') (\<lambda>old_1. rbind (dict_item recomputed ''old-2'') (\<lambda>old_2.
     rbind (dict_item recomputed ''new-1'') (\<lambda>new_1. rbind (dict_item recomputed ''new-2'') (\<lambda>new_2.
       let samples = [(''old'', old_1 @ old_2), (''new'', new_1 @ new_2)] in
       rbind (verify_route_summaries (PDict transfer) samples) (\<lambda>_.
       rbind (require_dict (py_get d ''observed_dataflow_payload'') ''missing observed DataFlow payload summary'') (\<lambda>observed.
       rbind (require (py_eq (PDict observed) (PDict EXPECTED_OBSERVED)) ''observed DataFlow payload summary changed'') (\<lambda>_.
         Inr samples))))))))))"

section \<open>The result\<close>

definition validate_comparison :: "analysis_io \<Rightarrow> evidence \<Rightarrow> pyval \<Rightarrow> exn + (string \<times> pyval) list" where
  "validate_comparison an files data =
     (let io = an_io an; rnd = an_round an in
      case data of
        PDict d \<Rightarrow>
          rbind (check_header d) (\<lambda>_.
          rbind (check_logical rnd d) (\<lambda>_.
          rbind (check_inputs io files d) (\<lambda>raw_blocks.
          rbind (require_dict (py_get d ''metrics'') ''missing metric breakdown'') (\<lambda>metrics.
          rbind (for_each (check_metric metrics) FIELDS) (\<lambda>_.
          rbind (check_medians rnd metrics raw_blocks) (\<lambda>_.
          rbind (for_each (check_artifact io files d) [''semantic_result'', ''source_verification'']) (\<lambda>_.
          rbind (check_profiler d) (\<lambda>profiler_status.
          rbind (check_transfer io files d raw_blocks) (\<lambda>samples.
            Inr [(''pass'', PBool True), (''raw_blocks'', PInt 4), (''samples_per_route'', PInt 30),
              (''old_dataflow_bytes_per_epoch'', PInt 136905444), (''new_dataflow_bytes_per_epoch'', PInt 628),
              (''dataflow_reduction_bytes_per_epoch'', PInt 136904816),
              (''profiler_transfer_status'', profiler_status),
              (''runtime_memcpy_statuses'', status_set (concat (map snd samples))),
              (''host_control_metrics'', PList (map PStr FIELDS))])))))))))
      | _ \<Rightarrow> Inl (AttributeError ''object has no attribute get''))"

text \<open>\<open>main\<close> over the text of the result: its summary, or 1 when it is invalid.\<close>

definition validate_comparison_main :: "analysis_io \<Rightarrow> evidence \<Rightarrow> string \<Rightarrow> exn + int" where
  "validate_comparison_main an files path =
     (case rbind (load_json (an_io an) files path) (validate_comparison an files) of
        Inr _ \<Rightarrow> Inr 0
      | Inl e \<Rightarrow>
          (case e of
             OSError _ \<Rightarrow> Inr 1 | FileNotFoundError _ \<Rightarrow> Inr 1 | ValueError _ \<Rightarrow> Inr 1
           | UnicodeError _ \<Rightarrow> Inr 1 | JSONDecodeError _ \<Rightarrow> Inr 1 | _ \<Rightarrow> Inl e))"

end
