(* ===== verification/ComparisonProps.thy ===== *)
theory ComparisonProps
  imports ComparisonVerify TransferAgree
begin

text \<open>
  What the verifier of the comparison establishes: an accepted comparison rests on raw blocks
  that give its medians and on raw traces whose epochs carry the bytes the ABI declares.
\<close>

section \<open>Equivalences of the checks\<close>

lemma require_dict_Inr [res_simps]: "require_dict v m = Inr d \<longleftrightarrow> v = PDict d"
  by (auto simp: require_dict_def split: pyval.splits)

lemma require_list_Inr [res_simps]: "require_list v n m = Inr xs \<longleftrightarrow> v = PList xs \<and> length xs = n"
  by (auto simp: require_list_def require_def split: pyval.splits)

lemma require_entry_Inr [res_simps]: "require_entry d k v m = Inr u \<longleftrightarrow> py_eq (py_get d k) v"
  by (simp add: require_entry_def require_Inr)

lemma require_is_Inr [res_simps]: "require_is d k v m = Inr u \<longleftrightarrow> py_get d k = v"
  by (simp add: require_is_def require_Inr)

lemma value_get_or_Inr: "value_get_or v k w = Inr x \<longleftrightarrow> (\<exists>d. v = PDict d \<and> x = (case map_of d k of None \<Rightarrow> w | Some y \<Rightarrow> y))"
  by (cases v) (auto simp: value_get_or_def)

lemma value_item_Inr: "value_item v k = Inr x \<longleftrightarrow> (\<exists>d. v = PDict d \<and> map_of d k = Some x)"
  by (cases v) (auto simp: value_item_def dict_item_Inr)

lemma require_dict_then [res_simps]:
  "rbind (require_dict v m) k = Inr y \<longleftrightarrow> (\<exists>d. v = PDict d \<and> k d = Inr y)"
  by (auto simp: rbind_Inr_iff require_dict_Inr)

section \<open>The accepted comparison\<close>

text \<open>\<open>medians_recorded\<close>: the medians of a comparison are those of the 30 samples of each route.\<close>

definition medians_recorded :: "(rat \<Rightarrow> rat) \<Rightarrow> (string \<times> pyval) list \<Rightarrow> pyval list \<Rightarrow> bool" where
  "medians_recorded rnd metrics blocks \<longleftrightarrow>
     (\<forall>field \<in> set FIELDS. \<forall>(route, i, j) \<in> {(''old'', 0, 3), (''new'', 1, 2)}.
        \<exists>xs ys nums m v. value_item (blocks ! i) ''samples'' = Inr (PList xs) \<and> length xs = 15
          \<and> value_item (blocks ! j) ''samples'' = Inr (PList ys) \<and> length ys = 15
          \<and> sample_ints field (xs @ ys) = Inr nums \<and> rounded_median rnd nums = Inr m
          \<and> recorded_median metrics field route = Inr v \<and> py_eq v m)"

text \<open>\<open>epochs_carry\<close>: in the raw trace, each of the 15 epochs of a block moves the bytes of the route's ABI.\<close>

definition epochs_carry :: "evidence_io \<Rightarrow> evidence \<Rightarrow> string \<Rightarrow> pyval \<Rightarrow> bool" where
  "epochs_carry io files route block \<longleftrightarrow>
     (\<exists>trace calls raws ws. read_trace io files trace = Inr calls
        \<and> value_item block ''samples'' = Inr (PList raws) \<and> length raws = 15 \<and> list_all2 raw_window raws ws
        \<and> (\<forall>w \<in> set ws. dataflow_observed route (filter (inside w) calls)
            \<and> sum_list (sizes (with_api FEED (filter (inside w) calls)) @ sizes (with_api FETCH (filter (inside w) calls)))
              = int (if route = ''old'' then OLD_TOTAL_BYTES else NEW_TOTAL_BYTES)))"

lemma check_input_Inr:
  assumes "check_input io files (index, entry, route) = Inr block"
  shows "\<exists>xs. (\<exists>e. entry = PDict e \<and> load_hashed io files e (''block '' @ nat_str index) = Inr block)
    \<and> value_get block ''pass'' = Inr (PBool True) \<and> value_get block ''route'' = Inr (PStr route)
    \<and> value_item block ''samples'' = Inr xs \<and> value_len xs = Inr 15"
  using assms
  by (cases entry) (auto simp: check_input_def rbind_Inr_iff require_Inr value_get_or_Inr value_item_Inr require_entry_Inr
      value_get_Inr value_len_def split: option.splits)

lemma check_inputs_Inr:
  assumes "check_inputs io files d = Inr blocks"
  shows "length blocks = 4" and "i < 4 \<Longrightarrow> \<exists>xs. value_get (blocks ! i) ''pass'' = Inr (PBool True)
    \<and> value_get (blocks ! i) ''route'' = Inr (PStr (EXPECTED_ORDER ! i))
    \<and> value_item (blocks ! i) ''samples'' = Inr xs \<and> value_len xs = Inr 15"
proof -
  from assms obtain inputs where n: "length inputs = 4"
      and m: "map_res (check_input io files) (enumerate 0 (zip inputs EXPECTED_ORDER)) = Inr blocks"
    unfolding check_inputs_def rbind_Inr_iff require_list_Inr by blast
  note all = m [unfolded map_res_list_all2]
  show len: "length blocks = 4" using list_all2_lengthD [OF all] n by (simp add: EXPECTED_ORDER_def)
  assume i: "i < 4"
  then have "check_input io files (i, inputs ! i, EXPECTED_ORDER ! i) = Inr (blocks ! i)"
    using list_all2_nthD [OF all, of i] n by (simp add: EXPECTED_ORDER_def nth_enumerate_eq)
  from check_input_Inr [OF this] show "\<exists>xs. value_get (blocks ! i) ''pass'' = Inr (PBool True)
      \<and> value_get (blocks ! i) ''route'' = Inr (PStr (EXPECTED_ORDER ! i))
      \<and> value_item (blocks ! i) ''samples'' = Inr xs \<and> value_len xs = Inr 15"
    by blast
qed

text \<open>Text as samples has no fields, so the samples of the two blocks are lists.\<close>

lemma value_concat_samples:
  assumes "value_concat xs ys = Inr zs" and "value_len xs = Inr (Suc n)" and "sample_ints field zs = Inr nums"
  obtains us vs where "xs = PList us" "ys = PList vs" "zs = us @ vs"
proof (cases xs)
  case (PList us)
  with assms(1) that show ?thesis by (cases ys) (auto simp: value_concat_def)
next
  case (PStr a)
  then obtain b where "ys = PStr b" "zs = map (\<lambda>c. PStr [c]) (a @ b)"
    using assms(1) by (cases ys) (auto simp: value_concat_def)
  moreover obtain c a' where "a = c # a'" using assms(2) PStr by (cases a) (auto simp: value_len_def)
  ultimately show ?thesis
    using assms(3) by (simp add: sample_ints_def raw_int_def value_item_def)
qed (use assms(1) in \<open>simp_all add: value_concat_def\<close>)

lemma check_medians_Inr:
  assumes medians: "check_medians rnd metrics blocks = Inr ()" and inputs: "check_inputs io files d = Inr blocks"
  shows "medians_recorded rnd metrics blocks"
proof -
  define pairs :: "(string \<times> nat \<times> nat) set" where "pairs = {(''old'', 0, 3), (''new'', 1, 2)}"
  have one: "\<exists>xs ys nums m v. value_item (blocks ! i) ''samples'' = Inr (PList xs) \<and> length xs = 15
          \<and> value_item (blocks ! j) ''samples'' = Inr (PList ys) \<and> length ys = 15
          \<and> sample_ints field (xs @ ys) = Inr nums \<and> rounded_median rnd nums = Inr m
          \<and> recorded_median metrics field route = Inr v \<and> py_eq v m"
    if f: "field \<in> set FIELDS" and p: "(route, i, j) \<in> pairs" for field route i j
  proof -
    from p have ij: "i < 4" "j < 4" by (auto simp: pairs_def)
    obtain xs ys where x: "value_item (blocks ! i) ''samples'' = Inr xs" "value_len xs = Inr 15"
        and y: "value_item (blocks ! j) ''samples'' = Inr ys" "value_len ys = Inr 15"
      using check_inputs_Inr(2) [OF inputs ij(1)] check_inputs_Inr(2) [OF inputs ij(2)] by blast
    obtain zs nums m v where z: "value_concat xs ys = Inr zs" "sample_ints field zs = Inr nums"
        and m: "rounded_median rnd nums = Inr m" "recorded_median metrics field route = Inr v" "py_eq v m"
      using medians p f x y by (auto simp: check_medians_def rbind_Inr_iff for_each_ok require_Inr pairs_def)
    from x(2) have "value_len xs = Inr (Suc 14)" by simp
    with z obtain us vs where "xs = PList us" "ys = PList vs" "zs = us @ vs" by (elim value_concat_samples)
    with x y z m show ?thesis by (auto simp: value_len_def)
  qed
  show ?thesis
    unfolding medians_recorded_def using one by (auto simp: pairs_def)
qed

lemma inside_bytes:
  assumes "dataflow_observed route rows" and "route \<in> {''old'', ''new''}"
  shows "sum_list (sizes (with_api FEED rows) @ sizes (with_api FETCH rows))
    = int (if route = ''old'' then OLD_TOTAL_BYTES else NEW_TOTAL_BYTES)"
  using assms by (auto simp: dataflow_observed_def expected_tensor_bytes_sum OLD_TOTAL_BYTES_def NEW_TOTAL_BYTES_def)

lemma accepted_block_carries:
  assumes "check_transfer_block io files blocks (label, route, raw) = Inr y" and "route \<in> {''old'', ''new''}"
    and "value_item raw ''samples'' = Inr xs" and "value_len xs = Inr 15"
  shows "epochs_carry io files route raw"
proof -
  from assms(1) obtain block samples where r: "recompute_transfer_block io files label route block raw = Inr samples"
    unfolding check_transfer_block_def by (auto simp: rbind_Inr_iff require_dict_Inr)
  from block_recomputed [OF r] obtain trace calls raws ws where calls: "read_trace io files trace = Inr calls"
      and raws: "value_item raw ''samples'' = Inr (PList raws)" "list_all2 raw_window raws ws"
      and samples: "samples = map (\<lambda>(i, w). summarize_sample route i w (filter (inside w) calls)) (enumerate 0 ws)"
      and both: "\<forall>i < length samples. ss_dataflow_status (samples ! i) = ''observed'' \<and> sample_reported block i (samples ! i)"
    by (elim exE conjE) (rule that)
  then have each: "\<forall>i < length samples. ss_dataflow_status (samples ! i) = ''observed''" by blast
  have "dataflow_observed route (filter (inside w) calls)" if w: "w \<in> set ws" for w
  proof -
    obtain i where i: "i < length ws" "ws ! i = w" using w by (auto simp: in_set_conv_nth)
    then have "samples ! i = summarize_sample route i w (filter (inside w) calls)" "i < length samples"
      by (simp_all add: samples nth_enumerate_eq)
    with each show ?thesis using observed_sample by metis
  qed
  moreover have "length raws = 15" using raws(1) assms(3,4) by (auto simp: value_len_def)
  ultimately show ?thesis
    unfolding epochs_carry_def using calls raws inside_bytes [OF _ assms(2)] by blast
qed

lemma validate_comparisonE:
  assumes "validate_comparison an files data = Inr summary"
  obtains d blocks metrics samples where "data = PDict d" and "check_header d = Inr ()"
    and "check_logical (an_round an) d = Inr ()" and "check_inputs (an_io an) files d = Inr blocks"
    and "py_get d ''metrics'' = PDict metrics" and "check_medians (an_round an) metrics blocks = Inr ()"
    and "check_transfer (an_io an) files d blocks = Inr samples"
  using assms by (cases data) (auto simp: validate_comparison_def Let_def rbind_Inr_iff require_dict_Inr)

lemma check_transferE:
  assumes "check_transfer io files d raw_blocks = Inr samples"
  obtains blocks recomputed where
    "map_res (check_transfer_block io files blocks) (zip BLOCK_LABELS (zip EXPECTED_ORDER raw_blocks)) = Inr recomputed"
  using assms by (auto simp: check_transfer_def Let_def rbind_Inr_iff)


end
