(* ===== verification/ComparisonAgree.thy ===== *)
theory ComparisonAgree
  imports ComparisonProps
begin

text \<open>
  The analysis against its verifier: of a comparison that passed, the verifier repeats what the
  analysis checked, and what it adds is the recomputation of the transfers from the raw traces and
  two checks of the profiler's summary.
\<close>

section \<open>What a passed analysis found\<close>

text \<open>The documents an analysis read, and what it found of them when no check failed.\<close>

definition analysis_passed ::
  "analysis_io \<Rightarrow> evidence \<Rightarrow> comparison_paths \<Rightarrow> pyval list \<Rightarrow> pyval \<Rightarrow> pyval \<Rightarrow> (string \<times> pyval) list \<Rightarrow> bool" where
  "analysis_passed an files paths blocks profiler transfer metrics \<longleftrightarrow>
     map_res (load_json (an_io an) files) (cp_blocks paths) = Inr blocks
     \<and> load_json (an_io an) files (cp_profiler paths) = Inr profiler
     \<and> load_json (an_io an) files (cp_transfer paths) = Inr transfer
     \<and> blocks_failures blocks = Inr [] \<and> profiler_failures profiler = Inr [] \<and> transfer_failures transfer = Inr []
     \<and> metrics_doc (an_round an) blocks = Inr metrics"

text \<open>An artifact of the analysis that passed, and its entry in the comparison.\<close>

definition passed_artifact :: "evidence_io \<Rightarrow> evidence \<Rightarrow> string \<Rightarrow> pyval \<Rightarrow> bool" where
  "passed_artifact io files path entry \<longleftrightarrow>
     (\<exists>v. load_json io files path = Inr v \<and> value_get v ''pass'' = Inr (PBool True))
     \<and> file_doc io files path [(''pass'', PBool True)] = Inr entry"

lemma sort_remdups_Nil [simp]: "sort (remdups xs) = [] \<longleftrightarrow> xs = []"
  by (metis remdups_eq_nil_iff set_empty set_sort)

lemma analyzeE:
  assumes "analyze an files paths = Inr doc" and "py_get doc ''pass'' = PBool True"
  obtains blocks profiler transfer metrics inputs semantic_entry source_entry transfer_entry where
    "analysis_passed an files paths blocks profiler transfer metrics"
    and "passed_artifact (an_io an) files (cp_semantic paths) semantic_entry"
    and "passed_artifact (an_io an) files (cp_source paths) source_entry"
    and "map_res (\<lambda>(path, route). file_doc (an_io an) files path [(''route'', PStr route)])
      (zip (cp_blocks paths) EXPECTED_ORDER) = Inr inputs"
    and "file_doc (an_io an) files (cp_transfer paths) [] = Inr transfer_entry"
    and "py_get doc ''gate'' = PStr ''Attempt 74 minimal Host-UDF ABI and control-overhead evidence''"
    and "py_get doc ''schema_version'' = PInt 2" and "py_get doc ''failed_checks'' = PList []"
    and "py_get doc ''block_order'' = PList (map PStr EXPECTED_ORDER)"
    and "py_get doc ''logical_abi'' = PDict (LOGICAL_ABI (an_round an))"
    and "py_get doc ''host_api_per_epoch'' = PDict HOST_API_PER_EPOCH"
    and "py_get doc ''metrics'' = PDict metrics" and "py_get doc ''profiler_transfer'' = profiler"
    and "py_get doc ''observed_dataflow_payload'' = PDict OBSERVED_PAYLOAD" and "py_get doc ''transfer_trace'' = transfer"
    and "py_get doc ''semantic_result'' = semantic_entry" and "py_get doc ''source_verification'' = source_entry"
    and "py_get doc ''inputs'' = PList inputs" and "py_get doc ''transfer_trace_summary'' = transfer_entry"
proof -
  from assms(1) obtain blocks semantic source profiler transfer block_fs semantic_pass source_pass profiler_fs
      transfer_fs metrics hashes classes repetitions fs
    where found: "map_res (load_json (an_io an) files) (cp_blocks paths) = Inr blocks"
      "load_json (an_io an) files (cp_semantic paths) = Inr semantic" "load_json (an_io an) files (cp_source paths) = Inr source"
      "load_json (an_io an) files (cp_profiler paths) = Inr profiler" "load_json (an_io an) files (cp_transfer paths) = Inr transfer"
      "blocks_failures blocks = Inr block_fs" "value_get semantic ''pass'' = Inr semantic_pass"
      "value_get source ''pass'' = Inr source_pass" "profiler_failures profiler = Inr profiler_fs"
      "transfer_failures transfer = Inr transfer_fs" "metrics_doc (an_round an) blocks = Inr metrics"
      and fs: "fs = block_fs @ failing (semantic_pass \<noteq> PBool True) ''minimal-abi-multi-epoch-semantics''
           @ failing (source_pass \<noteq> PBool True) ''minimal-abi-source-verification''
           @ profiler_fs @ transfer_fs @ control_failures an hashes classes repetitions"
      and doc: "comparison_doc an files paths fs blocks semantic source profiler transfer hashes classes repetitions metrics = Inr doc"
    unfolding analyze_def Let_def rbind_Inr_iff by blast
  from doc have "py_get doc ''pass'' = PBool (fs = [])"
    by (auto simp: comparison_doc_def Let_def rbind_Inr_iff py_get_def)
  with assms(2) have "fs = []" by simp
  with fs have none: "block_fs = []" "profiler_fs = []" "transfer_fs = []" "semantic_pass = PBool True" "source_pass = PBool True"
    by auto
  show thesis
    using doc found none \<open>fs = []\<close>
    by (auto simp: comparison_doc_def Let_def rbind_Inr_iff py_get_def analysis_passed_def passed_artifact_def intro!: that)
qed

section \<open>The blocks and their samples\<close>

lemma concat_Nil: "concat xss = [] \<longleftrightarrow> (\<forall>xs \<in> set xss. xs = [])"
  by (induction xss) auto

lemma map_res_no_failure:
  "rbind (map_res f xs) (\<lambda>fs. Inr (concat fs)) = Inr [] \<longleftrightarrow> (\<forall>x \<in> set xs. f x = Inr [])"
proof (induction xs)
  case (Cons x xs)
  then show ?case
    by (cases "f x"; cases "map_res f xs") auto
qed simp

text \<open>A sample that carries the measured fields as positive integers.\<close>

definition measured_sample :: "pyval \<Rightarrow> bool" where
  "measured_sample sample \<longleftrightarrow> (\<forall>field \<in> set MEASURED_FIELDS. \<exists>n. raw_int sample field = Inr n \<and> 0 < n)"

lemma validate_sample_measured:
  assumes "validate_sample route (i, sample) = Inr []"
  shows "measured_sample sample"
  unfolding measured_sample_def
proof
  fix field assume field: "field \<in> set MEASURED_FIELDS"
  from assms obtain measured where m: "map_res (\<lambda>field. rbind (value_get sample field) (\<lambda>w.
        Inr (failing (case python_int w of None \<Rightarrow> True | Some i \<Rightarrow> i \<le> 0) (''sample-'' @ nat_str i @ ''-'' @ field)))) MEASURED_FIELDS
      = Inr measured" and none: "\<forall>xs \<in> set measured. xs = []"
    by (auto simp: validate_sample_def Let_def rbind_Inr_iff concat_Nil)
  from map_res_image [OF m field] none obtain w n where "value_get sample field = Inr w" "python_int w = Some n" "0 < n"
    by (auto simp: rbind_Inr_iff split: option.splits)
  then have "raw_int sample field = Inr n" by (auto simp: value_get_Inr python_int_item)
  with \<open>0 < n\<close> show "\<exists>n. raw_int sample field = Inr n \<and> 0 < n" by blast
qed

text \<open>A block of a passed analysis.\<close>

definition passed_block :: "string \<Rightarrow> pyval \<Rightarrow> bool" where
  "passed_block route block \<longleftrightarrow>
     (\<exists>d xs. block = PDict d \<and> py_get d ''pass'' = PBool True \<and> py_get d ''route'' = PStr route
        \<and> map_of d ''samples'' = Some (PList xs) \<and> length xs = 15 \<and> (\<forall>x \<in> set xs. measured_sample x))"

lemma validate_block_passed:
  assumes "validate_block block route = Inr []"
  shows "passed_block route block"
proof -
  from assms obtain d where d: "block = PDict d"
    by (cases block) (simp_all add: validate_block_def value_get_def)
  from assms obtain xs where xs: "py_get d ''samples'' = PList xs" "length xs = 15"
      and pass: "py_get d ''pass'' = PBool True" "py_get d ''route'' = PStr route"
      and each: "rbind (map_res (validate_sample route) (enumerate 0 xs)) (\<lambda>fs. Inr (concat fs)) = Inr []"
    unfolding d by (cases "py_get d ''samples''") (auto simp: validate_block_def Let_def rbind_Inr_iff split: if_splits)
  have "measured_sample x" if "x \<in> set xs" for x
  proof -
    from that obtain i where "i < length xs" "xs ! i = x" by (auto simp: in_set_conv_nth)
    then have "(i, x) \<in> set (enumerate 0 xs)" by (auto simp: in_set_enumerate_eq)
    with each show ?thesis unfolding map_res_no_failure by (auto intro: validate_sample_measured)
  qed
  moreover have "map_of d ''samples'' = Some (PList xs)"
    using xs(1) by (auto simp: py_get_def split: option.splits)
  ultimately show ?thesis
    unfolding passed_block_def using d xs pass by auto
qed

lemma blocks_passed:
  assumes "blocks_failures blocks = Inr []"
  shows "length blocks = 4" and "i < 4 \<Longrightarrow> passed_block (EXPECTED_ORDER ! i) (blocks ! i)"
proof -
  from assms obtain fs where fs: "map_res (\<lambda>(index, block, route). rbind (validate_block block route) (\<lambda>fs.
       Inr (map (\<lambda>f. ''block-'' @ nat_str index @ '':'' @ f) fs))) (enumerate 1 (zip blocks EXPECTED_ORDER)) = Inr fs"
      and len: "length blocks = 4" and none: "\<forall>xs \<in> set fs. xs = []"
    by (auto simp: blocks_failures_def rbind_Inr_iff concat_Nil EXPECTED_ORDER_def split: if_splits)
  show "length blocks = 4" by (rule len)
  assume i: "i < 4"
  have n: "length (enumerate 1 (zip blocks EXPECTED_ORDER)) = 4" by (simp add: len EXPECTED_ORDER_def)
  have "fs ! i \<in> set fs" using map_res_length [OF fs] i n by (intro nth_mem) simp
  with none have "fs ! i = []" by blast
  with map_res_nth [OF fs, of i] i n len have "validate_block (blocks ! i) (EXPECTED_ORDER ! i) = Inr []"
    by (auto simp: nth_enumerate_eq EXPECTED_ORDER_def rbind_Inr_iff)
  then show "passed_block (EXPECTED_ORDER ! i) (blocks ! i)" by (rule validate_block_passed)
qed

section \<open>The medians\<close>

text \<open>
  What is used of the rounding to doubles: it is monotonic, and exact on the multiples of
  \<open>1/2048\<close> from 0 to 1.
\<close>

definition rounding :: "(rat \<Rightarrow> rat) \<Rightarrow> bool" where
  "rounding rnd \<longleftrightarrow> mono rnd \<and> (\<forall>n \<in> {0..2048 :: nat}. rnd (of_nat n / 2048) = of_nat n / 2048)"

lemma rounding_one: "rounding rnd \<Longrightarrow> 1 \<le> q \<Longrightarrow> 1 \<le> rnd q"
  using monoD [of rnd 1 q] by (auto simp: rounding_def dest: bspec [where x = 2048])

lemma median_bound:
  assumes "median ns = Inr v" and "\<forall>n \<in> set ns. 0 < n"
  shows "(\<exists>n. v = PInt n \<and> 1 \<le> n) \<or> (\<exists>q. v = PFloat (Fin q) \<and> 1 \<le> q)"
proof -
  define ys where "ys = sort ns"
  have pos: "1 \<le> ys ! i" if "i < length ys" for i
    using assms(2) nth_mem [OF that] by (auto simp: ys_def)
  from assms(1) have "ys \<noteq> []" by (auto simp: median_def ys_def Let_def)
  then have "0 < length ys" by simp
  then have i: "length ys div 2 < length ys" "length ys div 2 - 1 < length ys" by linarith+
  then have "1 \<le> (of_int (ys ! (length ys div 2)) :: rat)" "1 \<le> (of_int (ys ! (length ys div 2 - 1)) :: rat)"
    using pos by simp_all
  then show ?thesis
    using assms(1) pos [OF i(1)] by (auto simp: median_def Let_def ys_def [symmetric] split: if_splits)
qed

lemma rounded_median_bound:
  assumes "rounded_median rnd ns = Inr v" and "\<forall>n \<in> set ns. 0 < n" and "rounding rnd"
  shows "\<exists>q. number v = Some (Fin q) \<and> 1 \<le> q" and "truthy v" and "py_eq v v"
proof -
  from assms(1) obtain u where u: "median ns = Inr u" and v: "v = rounded rnd u"
    by (auto simp: rounded_median_def rbind_Inr_iff)
  from median_bound [OF u assms(2)]
  consider (i) n where "v = PInt n" "1 \<le> n" | (f) q where "v = PFloat (Fin q)" "1 \<le> q"
    using rounding_one [OF assms(3)] by (auto simp: v rounded_def)
  then show "\<exists>q. number v = Some (Fin q) \<and> 1 \<le> q" and "truthy v" and "py_eq v v"
    by (cases; auto)+
qed

lemma FIELDS_measured: "FIELDS = MEASURED_FIELDS"
  by (simp add: FIELDS_def MEASURED_FIELDS_def)

lemma measured_ints:
  assumes "\<forall>x \<in> set xs. measured_sample x" and "field \<in> set MEASURED_FIELDS" and "sample_ints field xs = Inr ns"
  shows "\<forall>n \<in> set ns. 0 < n" and "length ns = length xs"
  using assms map_res_set [OF assms(3) [unfolded sample_ints_def]] map_res_length [OF assms(3) [unfolded sample_ints_def]]
  by (fastforce simp: measured_sample_def)+

lemma stats_doc_Inr:
  assumes "stats_doc rnd ns = Inr st"
  shows "\<exists>m. map_of st ''median'' = Some m \<and> rounded_median rnd ns = Inr m" and "py_get st ''count'' = PInt (int (length ns))"
  using assms by (auto simp: stats_doc_def rbind_Inr_iff py_get_def split: if_splits)

lemma keyed_map_res:
  assumes "map_res f ks = Inr d" and "\<And>k v. f k = Inr v \<Longrightarrow> fst v = k" and "k \<in> set ks"
  shows "\<exists>v. f k = Inr (k, v) \<and> map_of d k = Some v"
  using assms(1,3)
proof (induction ks arbitrary: d)
  case (Cons j ks)
  then obtain y ys where y: "f j = Inr y" "map_res f ks = Inr ys" "d = y # ys" by (auto simp: rbind_Inr_iff)
  have j: "y = (j, snd y)" using assms(2) [OF y(1)] by (metis prod.collapse)
  show ?case
  proof (cases "k = j")
    case True
    then show ?thesis using y j by (metis map_of_Cons_code(2))
  next
    case False
    then have "k \<in> set ks" using Cons.prems by simp
    from Cons.IH [OF y(2) this] show ?thesis using y j False by (metis map_of_Cons_code(2))
  qed
qed simp

section \<open>The metrics\<close>

text \<open>The samples of a route: those of its two blocks.\<close>

lemma passed_blocks_samples:
  assumes "passed_block a (blocks ! i)" and "passed_block b (blocks ! j)"
  obtains xs ys where "value_item (blocks ! i) ''samples'' = Inr (PList xs)" and "value_item (blocks ! j) ''samples'' = Inr (PList ys)"
    and "raw_route_samples blocks i j = Inr (xs @ ys)" and "length (xs @ ys) = 30"
    and "\<forall>x \<in> set (xs @ ys). measured_sample x"
  using assms
  by (auto simp: passed_block_def raw_route_samples_def value_get_or_def value_concat_def value_item_def dict_item_def intro!: that)

text \<open>The recorded statistics of a route and a field.\<close>

definition stats_recorded :: "(rat \<Rightarrow> rat) \<Rightarrow> (string \<times> pyval) list \<Rightarrow> string \<Rightarrow> string \<Rightarrow> pyval list \<Rightarrow> bool" where
  "stats_recorded rnd metrics field route samples \<longleftrightarrow>
     (\<exists>metric st ns m. map_of metrics field = Some (PDict metric) \<and> map_of metric route = Some (PDict st)
        \<and> sample_ints field samples = Inr ns \<and> rounded_median rnd ns = Inr m
        \<and> map_of st ''median'' = Some m \<and> py_get st ''count'' = PInt 30
        \<and> (\<exists>q. number m = Some (Fin q) \<and> 1 \<le> q) \<and> py_eq m m)"

lemma stats_recordedI:
  assumes "sample_ints field samples = Inr ns" and "stats_doc rnd ns = Inr st" and "rounding rnd"
    and "length samples = 30" and "\<forall>x \<in> set samples. measured_sample x" and "field \<in> set MEASURED_FIELDS"
    and "map_of metrics field = Some (PDict metric)" and "map_of metric route = Some (PDict st)"
  shows "stats_recorded rnd metrics field route samples" and "truthy (py_get st ''median'')"
proof -
  note ints = measured_ints [OF assms(5,6,1)]
  obtain m where m: "map_of st ''median'' = Some m" "rounded_median rnd ns = Inr m"
    using stats_doc_Inr(1) [OF assms(2)] by blast
  note bound = rounded_median_bound [OF m(2) ints(1) assms(3)]
  show "truthy (py_get st ''median'')" using bound(2) m(1) by (simp add: py_get_def)
  show "stats_recorded rnd metrics field route samples"
    unfolding stats_recorded_def using assms m bound(1,3) stats_doc_Inr(2) [OF assms(2)] ints(2) by auto
qed

lemma metrics_recorded:
  assumes "metrics_doc rnd blocks = Inr metrics" and "rounding rnd" and field: "field \<in> set MEASURED_FIELDS"
    and "raw_route_samples blocks 0 3 = Inr old" "length old = 30" "\<forall>x \<in> set old. measured_sample x"
    and "raw_route_samples blocks 1 2 = Inr new" "length new = 30" "\<forall>x \<in> set new. measured_sample x"
  shows "stats_recorded rnd metrics field ''old'' old" and "stats_recorded rnd metrics field ''new'' new"
    and "\<exists>metric. map_of metrics field = Some (PDict metric) \<and> number (py_get metric ''old_over_new_median'') \<noteq> None"
proof -
  from assms have "map_res (metric_doc rnd old new) MEASURED_FIELDS = Inr metrics"
    by (simp add: metrics_doc_def)
  then have "\<exists>v. metric_doc rnd old new field = Inr (field, v) \<and> map_of metrics field = Some v"
    by (rule keyed_map_res) (use field in \<open>auto simp: metric_doc_def rbind_Inr_iff\<close>)
  then obtain os ns ost nst metric where ints: "sample_ints field old = Inr os" "sample_ints field new = Inr ns"
      and stats: "stats_doc rnd os = Inr ost" "stats_doc rnd ns = Inr nst" and found: "map_of metrics field = Some (PDict metric)"
      and metric: "metric = [(''old'', PDict ost), (''new'', PDict nst),
          (''old_over_new_median'', median_ratio rnd (py_get ost ''median'') (py_get nst ''median'')),
          (''new_minus_old_median'', median_difference rnd (py_get nst ''median'') (py_get ost ''median''))]"
    by (auto simp: metric_doc_def rbind_Inr_iff)
  have routes: "map_of metric ''old'' = Some (PDict ost)" "map_of metric ''new'' = Some (PDict nst)" by (simp_all add: metric)
  show "stats_recorded rnd metrics field ''old'' old" "stats_recorded rnd metrics field ''new'' new"
    using stats_recordedI(1) [OF ints(1) stats(1) assms(2,5,6) field found routes(1)]
      stats_recordedI(1) [OF ints(2) stats(2) assms(2,8,9) field found routes(2)] by simp_all
  have "truthy (py_get nst ''median'')" by (rule stats_recordedI(2) [OF ints(2) stats(2) assms(2,8,9) field found routes(2)])
  then show "\<exists>metric. map_of metrics field = Some (PDict metric) \<and> number (py_get metric ''old_over_new_median'') \<noteq> None"
    using found by (auto simp: metric median_ratio_def py_get_def)
qed

lemma recorded_metric:
  assumes "stats_recorded rnd metrics field ''old'' old" and "stats_recorded rnd metrics field ''new'' new"
    and "\<exists>metric. map_of metrics field = Some (PDict metric) \<and> number (py_get metric ''old_over_new_median'') \<noteq> None"
  shows "check_metric metrics field = Inr ()"
proof -
  have "\<exists>d. py_get metric route = PDict d \<and> py_eq (py_get d ''count'') (PInt 30)
      \<and> (\<exists>m. value_get_or (PDict d) ''median'' (PInt 0) = Inr m \<and> value_greater m 0 = Inr True)"
    if "stats_recorded rnd metrics field route samples" and "map_of metrics field = Some (PDict metric)" for metric route samples
    using that by (auto simp: stats_recorded_def py_get_def value_get_or_def value_greater_def)
  note this [OF assms(1)] this [OF assms(2)]
  moreover from assms(3) obtain metric where "map_of metrics field = Some (PDict metric)"
      and "number (py_get metric ''old_over_new_median'') \<noteq> None" by blast
  ultimately show ?thesis
    by (fastforce simp: check_metric_def res_simps py_get_def [of metrics])
qed

lemma recorded_median_of:
  assumes "stats_recorded rnd metrics field route samples"
  shows "rbind (sample_ints field samples) (\<lambda>values. rbind (rounded_median rnd values) (\<lambda>m.
    rbind (recorded_median metrics field route) (\<lambda>v. require (py_eq v m) (message field route)))) = Inr ()"
  using assms by (auto simp: stats_recorded_def recorded_median_def value_item_def dict_item_def)

text \<open>The metrics of a passed analysis pass the checks of the verifier.\<close>

lemma passed_metrics:
  assumes "metrics_doc rnd blocks = Inr metrics" and "rounding rnd"
    and passed: "\<And>i. i < 4 \<Longrightarrow> passed_block (EXPECTED_ORDER ! i) (blocks ! i)"
  shows "for_each (check_metric metrics) FIELDS = Inr ()" and "check_medians rnd metrics blocks = Inr ()"
proof -
  have p: "passed_block ''old'' (blocks ! 0)" "passed_block ''old'' (blocks ! 3)"
      "passed_block ''new'' (blocks ! 1)" "passed_block ''new'' (blocks ! 2)"
    using passed [of 0] passed [of 1] passed [of 2] passed [of 3] by (simp_all add: EXPECTED_ORDER_def)
  obtain as ds where old: "value_item (blocks ! 0) ''samples'' = Inr (PList as)" "value_item (blocks ! 3) ''samples'' = Inr (PList ds)"
      "raw_route_samples blocks 0 3 = Inr (as @ ds)" "length (as @ ds) = 30" "\<forall>x \<in> set (as @ ds). measured_sample x"
    by (rule passed_blocks_samples [OF p(1,2)])
  obtain bs cs where new: "value_item (blocks ! 1) ''samples'' = Inr (PList bs)" "value_item (blocks ! 2) ''samples'' = Inr (PList cs)"
      "raw_route_samples blocks 1 2 = Inr (bs @ cs)" "length (bs @ cs) = 30" "\<forall>x \<in> set (bs @ cs). measured_sample x"
    by (rule passed_blocks_samples [OF p(3,4)])
  note rec = metrics_recorded [OF assms(1,2) _ old(3-5) new(3-5)]
  show "for_each (check_metric metrics) FIELDS = Inr ()"
    using recorded_metric [OF rec] by (simp add: for_each_ok FIELDS_measured)
  show "check_medians rnd metrics blocks = Inr ()"
    using recorded_median_of [OF rec(1)] recorded_median_of [OF rec(2)] old(1,2) new(1,2)
    by (auto simp: check_medians_def value_concat_def for_each_ok FIELDS_measured)
qed

section \<open>The recorded fields\<close>

lemma ABI_BYTES_values:
  "ABI_BYTES ''old'' ''input'' = 58720516" "ABI_BYTES ''old'' ''output'' = 78184928"
  "ABI_BYTES ''new'' ''input'' = 260" "ABI_BYTES ''new'' ''output'' = 368"
  "OLD_TOTAL_BYTES = 136905444" "NEW_TOTAL_BYTES = 628" "TOTAL_REDUCTION_BYTES = 136904816"
  by (simp_all add: ABI_BYTES_def OLD_TOTAL_BYTES_def NEW_TOTAL_BYTES_def TOTAL_REDUCTION_BYTES_def abi_defs)

text \<open>The reduction exceeds the bound after both are rounded: two multiples of \<open>1/2048\<close> lie between.\<close>

lemma reduction_rounded:
  assumes "rounding rnd"
  shows "rnd (999 / 1000) < rnd (of_int TOTAL_REDUCTION_BYTES / of_nat OLD_TOTAL_BYTES)"
proof -
  have exact: "rnd (of_nat n / 2048) = of_nat n / 2048" if "n \<le> 2048" for n
    using assms that by (simp add: rounding_def)
  have mono: "mono rnd" using assms by (simp add: rounding_def)
  have "rnd (999 / 1000) \<le> rnd (of_nat 2046 / 2048)" by (rule monoD [OF mono]) simp
  also have "\<dots> < rnd (of_nat 2047 / 2048)" using exact [of 2046] exact [of 2047] by simp
  also have "\<dots> \<le> rnd (of_int TOTAL_REDUCTION_BYTES / of_nat OLD_TOTAL_BYTES)"
    by (rule monoD [OF mono]) (simp add: ABI_BYTES_values)
  finally show ?thesis .
qed

lemma passed_logical:
  assumes "py_get d ''logical_abi'' = PDict (LOGICAL_ABI rnd)" and "py_get d ''host_api_per_epoch'' = PDict HOST_API_PER_EPOCH"
    and "rounding rnd"
  shows "check_logical rnd d = Inr ()"
proof -
  have "\<forall>(key, n) \<in> set EXPECTED_LOGICAL. py_get (LOGICAL_ABI rnd) key = PInt n"
    by (simp add: EXPECTED_LOGICAL_def LOGICAL_ABI_def ABI_BYTES_values py_get_def)
  moreover have "value_get_or (PDict (LOGICAL_ABI rnd)) ''reduction_fraction'' (PInt 0)
      = Inr (PFloat (Fin (rnd (of_int TOTAL_REDUCTION_BYTES / of_nat OLD_TOTAL_BYTES))))"
    by (simp add: value_get_or_def LOGICAL_ABI_def)
  moreover have "py_eq (PDict HOST_API_PER_EPOCH) (PDict EXPECTED_APIS)"
    by (simp add: HOST_API_PER_EPOCH_def EXPECTED_APIS_def)
  ultimately show ?thesis
    using assms reduction_rounded [OF assms(3)] by (simp add: check_logical_def res_simps value_greater_def split_beta) auto
qed

section \<open>The files\<close>

lemma file_doc_Inr:
  "file_doc io files path entries = Inr v \<longleftrightarrow>
    (\<exists>s. map_of files path = Some s \<and> v = PDict ([(''path'', PStr path), (''sha256'', PStr (io_sha io s))] @ entries))"
  by (auto simp: file_doc_def evidence_sha256_def rbind_Inr_iff read_evidence_Inr)

text \<open>A file that the analysis recorded is loaded again.\<close>

lemma recorded_file_loads:
  assumes "file_doc io files path entries = Inr (PDict e)" and "load_json io files path = Inr v"
  shows "load_hashed io files e label = Inr v"
proof -
  from assms(1) obtain s where "map_of files path = Some s"
      and e: "e = [(''path'', PStr path), (''sha256'', PStr (io_sha io s))] @ entries"
    by (auto simp: file_doc_Inr)
  then have "check_hashed io files e ''path'' ''sha256'' m m' = Inr path" for m m'
    by (simp add: check_hashed_Inr path_entry_def py_get_def)
  with assms(2) show ?thesis by (simp add: load_hashed_def)
qed

lemma passed_artifact_checked:
  assumes "passed_artifact io files path entry" and "py_get d key = entry"
  shows "check_artifact io files d key = Inr ()"
proof -
  from assms(1) obtain v where v: "load_json io files path = Inr v" "value_get v ''pass'' = Inr (PBool True)"
      and entry: "file_doc io files path [(''pass'', PBool True)] = Inr entry"
    by (auto simp: passed_artifact_def)
  then obtain e where e: "entry = PDict e" "py_get e ''pass'' = PBool True" by (auto simp: file_doc_Inr py_get_def)
  with recorded_file_loads [OF entry [unfolded e(1)] v(1)] v(2) assms(2) show ?thesis
    by (simp add: check_artifact_def res_simps)
qed

lemma passed_inputs:
  assumes loads: "map_res (load_json io files) paths = Inr blocks" and n: "length blocks = 4"
    and passed: "\<And>i. i < 4 \<Longrightarrow> passed_block (EXPECTED_ORDER ! i) (blocks ! i)"
    and docs: "map_res (\<lambda>(path, route). file_doc io files path [(''route'', PStr route)]) (zip paths EXPECTED_ORDER) = Inr inputs"
    and "py_get d ''inputs'' = PList inputs"
  shows "check_inputs io files d = Inr blocks"
proof -
  have paths: "length paths = 4" using map_res_length [OF loads] n by simp
  then have len: "length inputs = 4" using map_res_length [OF docs] by (simp add: EXPECTED_ORDER_def)
  have "check_input io files (i, inputs ! i, EXPECTED_ORDER ! i) = Inr (blocks ! i)" if i: "i < 4" for i
  proof -
    have load: "load_json io files (paths ! i) = Inr (blocks ! i)"
      using map_res_nth [OF loads, of i] i paths by simp
    have doc: "file_doc io files (paths ! i) [(''route'', PStr (EXPECTED_ORDER ! i))] = Inr (inputs ! i)"
      using map_res_nth [OF docs, of i] i paths by (simp add: EXPECTED_ORDER_def)
    then obtain e where e: "inputs ! i = PDict e" "py_get e ''route'' = PStr (EXPECTED_ORDER ! i)"
      by (auto simp: file_doc_Inr py_get_def)
    with recorded_file_loads [OF doc [unfolded e(1)] load] passed [OF i] show ?thesis
      by (auto simp: check_input_def res_simps passed_block_def value_get_or_def value_len_def)
  qed
  then have "map_res (check_input io files) (enumerate 0 (zip inputs EXPECTED_ORDER)) = Inr blocks"
    unfolding map_res_list_all2 list_all2_conv_all_nth using len n by (simp add: EXPECTED_ORDER_def nth_enumerate_eq)
  with assms(5) len show ?thesis by (simp add: check_inputs_def res_simps)
qed

section \<open>The profiler's summary\<close>

text \<open>What the verifier asks of the profiler's summary beyond the analysis.\<close>

definition profiler_counts :: "pyval \<Rightarrow> bool" where
  "profiler_counts profiler \<longleftrightarrow>
     value_get profiler ''logical_abi_bytes_used_as_transfer'' = Inr (PBool False)
     \<and> (value_get profiler ''status'' = Inr (PStr ''observed'') \<longrightarrow>
          (\<forall>route \<in> {''old'', ''new''}. \<exists>routes result v n.
             value_get_or profiler ''routes'' (PDict []) = Inr routes \<and> value_get_or routes route (PDict []) = Inr result
             \<and> value_get result ''total_bytes'' = Inr v \<and> python_int v = Some n \<and> 0 \<le> n))"

lemma passed_profiler:
  assumes "profiler_failures profiler = Inr []" and "py_get d ''profiler_transfer'' = profiler"
  shows "(\<exists>status. check_profiler d = Inr status) \<longleftrightarrow> profiler_counts profiler"
proof -
  obtain p where p: "profiler = PDict p"
    using assms(1) by (cases profiler) (auto simp: profiler_failures_def value_get_def)
  have status: "py_get p ''status'' \<in> {PStr ''observed'', PStr ''not_observed''}"
      and reason: "py_get p ''status'' \<noteq> PStr ''observed'' \<Longrightarrow> truthy (py_get p ''reason'')"
    using assms(1) by (auto simp: profiler_failures_def p rbind_Inr_iff)
  have nat: "(case python_int v of None \<Rightarrow> False | Some i \<Rightarrow> 0 \<le> i) \<longleftrightarrow> (\<exists>n. python_int v = Some n \<and> 0 \<le> n)" for v
    by (auto split: option.splits)
  show ?thesis
    using status reason assms(2)
    by (auto simp: check_profiler_def profiler_counts_def p Let_def res_simps nat)
qed

section \<open>The transfer summary\<close>

lemma passed_claims:
  assumes "transfer_failures transfer = Inr []"
  obtains t where "transfer = PDict t" and "py_eq (py_get t ''schema_version'') (PInt 2)"
    and "py_get t ''status'' = PStr ''observed''"
    and "py_get t ''logical_abi_bytes_used_as_transfer'' = PBool False"
    and "py_get t ''dataflow_tensor_payload_is_physical_link_bytes'' = PBool False"
    and "py_get t ''physical_link_bytes_claimed'' = PBool False"
proof -
  from assms obtain t where t: "transfer = PDict t"
    by (cases transfer) (auto simp: transfer_failures_def claim_failures_def value_get_def)
  from assms have "claim_failures transfer = Inr []"
    by (auto simp: transfer_failures_def rbind_Inr_iff)
  then show thesis using t by (intro that [OF t]) (auto simp: claim_failures_def)
qed

text \<open>A block the analysis passed.\<close>

definition passed_transfer_block :: "string \<Rightarrow> (string \<times> pyval) list \<Rightarrow> bool" where
  "passed_transfer_block route b \<longleftrightarrow> py_get b ''route'' = PStr route \<and> py_get b ''status'' = PStr ''observed''
     \<and> py_get b ''dataflow_tensor_payload_status'' = PStr ''observed'' \<and> py_get b ''runtime_memcpy_status'' \<in> RUNTIME_STATUSES
     \<and> (\<exists>xs. py_get b ''samples'' = PList xs \<and> length xs = 15)"

lemma fifteen_samples:
  assumes "(case samples of PList xs \<Rightarrow> if length xs \<noteq> 15 then Inr (fs @ [f]) else rbind (g xs) (\<lambda>ys. Inr (fs @ concat ys))
    | _ \<Rightarrow> Inr (fs @ [f])) = Inr []"
  shows "fs = [] \<and> (\<exists>xs. samples = PList xs \<and> length xs = 15)"
  using assms by (cases samples) (auto simp: rbind_Inr_iff split: if_splits)

lemma transfer_block_passed:
  assumes "transfer_block_failures blocks (label, route) = Inr []"
  shows "\<exists>bs b. blocks = PDict bs \<and> py_get bs label = PDict b \<and> passed_transfer_block route b"
proof -
  from assms obtain bs where bs: "blocks = PDict bs"
    by (cases blocks) (auto simp: transfer_block_failures_def value_get_or_def)
  from assms obtain b where b: "value_get_or blocks label (PDict []) = Inr (PDict b)"
    by (auto simp: transfer_block_failures_def rbind_Inr_iff value_get_Inr)
  from assms have fields: "py_get b ''route'' = PStr route" "py_get b ''status'' = PStr ''observed''"
      "py_get b ''dataflow_tensor_payload_status'' = PStr ''observed''" "py_get b ''runtime_memcpy_status'' \<in> RUNTIME_STATUSES"
      "\<exists>xs. py_get b ''samples'' = PList xs \<and> length xs = 15"
    unfolding transfer_block_failures_def b value_get_dict rbind_simps Let_def prod.case
    by (auto dest!: fifteen_samples)
  have "b \<noteq> []" using fields(1) by (auto simp: py_get_def)
  with b bs have "py_get bs label = PDict b"
    by (auto simp: value_get_or_def py_get_def split: option.splits)
  with bs fields show ?thesis by (auto simp: passed_transfer_block_def)
qed

lemma passed_transfer_blocks:
  assumes "transfer_failures (PDict t) = Inr []"
  obtains bs where "py_get t ''blocks'' = PDict bs"
    and "\<And>label route. (label, route) \<in> set (zip BLOCK_LABELS EXPECTED_ORDER) \<Longrightarrow>
      \<exists>b. py_get bs label = PDict b \<and> passed_transfer_block route b"
proof -
  from assms obtain v fs where v: "value_get_or (PDict t) ''blocks'' (PDict []) = Inr v"
      and fs: "map_res (transfer_block_failures v) (zip BLOCK_LABELS EXPECTED_ORDER) = Inr fs" and none: "\<forall>xs \<in> set fs. xs = []"
    by (auto simp: transfer_failures_def rbind_Inr_iff concat_Nil)
  have each: "\<exists>bs b. v = PDict bs \<and> py_get bs label = PDict b \<and> passed_transfer_block route b"
    if "(label, route) \<in> set (zip BLOCK_LABELS EXPECTED_ORDER)" for label route
    using map_res_image [OF fs that] none by (intro transfer_block_passed) auto
  have "(''old-1'', ''old'') \<in> set (zip BLOCK_LABELS EXPECTED_ORDER)"
    by (simp add: BLOCK_LABELS_def EXPECTED_ORDER_def)
  from each [OF this] obtain bs b where bs: "v = PDict bs" "py_get bs ''old-1'' = PDict b" by blast
  then have "bs \<noteq> []" by (auto simp: py_get_def)
  with v bs have "py_get t ''blocks'' = PDict bs"
    by (auto simp: value_get_or_def py_get_def split: option.splits)
  moreover have "\<exists>b. py_get bs label = PDict b \<and> passed_transfer_block route b"
    if "(label, route) \<in> set (zip BLOCK_LABELS EXPECTED_ORDER)" for label route
    using each [OF that] bs(1) by blast
  ultimately show thesis by (rule that)
qed

lemma passed_block_recomputed:
  assumes "py_get bs label = PDict b" and "passed_transfer_block route b"
  shows "check_transfer_block io files bs (label, route, raw) =
    rbind (recompute_transfer_block io files label route b raw) (\<lambda>xs. Inr (label, xs))"
proof -
  from assms(2) obtain xs where "py_get b ''samples'' = PList xs" "length xs = 15"
    by (auto simp: passed_transfer_block_def)
  then have "value_get_or (PDict b) ''samples'' (PList []) = Inr (PList xs)"
    by (auto simp: value_get_or_def py_get_def split: option.splits)
  with assms \<open>length xs = 15\<close> show ?thesis
    by (simp add: check_transfer_block_def require_dict_def require_entry_def passed_transfer_block_def value_len_def)
qed

section \<open>What the verifier adds\<close>

text \<open>
  \<open>transfers_recomputed\<close>: each of the four blocks of a transfer summary is what the raw traces
  give, and so are the medians of the routes.
\<close>

definition transfers_recomputed :: "evidence_io \<Rightarrow> evidence \<Rightarrow> pyval \<Rightarrow> pyval list \<Rightarrow> bool" where
  "transfers_recomputed io files transfer raw_blocks \<longleftrightarrow>
     (\<exists>t bs old_1 new_1 new_2 old_2. transfer = PDict t \<and> py_get t ''blocks'' = PDict bs
        \<and> list_all2 (\<lambda>(label, route, raw) samples.
            \<exists>b. py_get bs label = PDict b \<and> recompute_transfer_block io files label route b raw = Inr samples)
          (zip BLOCK_LABELS (zip EXPECTED_ORDER raw_blocks)) [old_1, new_1, new_2, old_2]
        \<and> verify_route_summaries transfer [(''old'', old_1 @ old_2), (''new'', new_1 @ new_2)] = Inr ())"

lemma observed_payload_expected: "py_eq (PDict OBSERVED_PAYLOAD) (PDict EXPECTED_OBSERVED)"
  by (simp add: OBSERVED_PAYLOAD_def EXPECTED_OBSERVED_def ABI_BYTES_values)

lemma of_length_four: "length xs = 4 \<Longrightarrow> \<exists>a b c d. xs = [a, b, c, d]"
  by (auto simp: length_Suc_conv numeral_eq_Suc)

lemma passed_transfer_claims:
  assumes "transfer_failures transfer = Inr []" and "py_get d ''transfer_trace'' = transfer"
    and "load_json io files path = Inr transfer" and "file_doc io files path [] = Inr entry"
    and "py_get d ''transfer_trace_summary'' = entry"
  shows "check_transfer_claims io files d = Inr t \<longleftrightarrow> transfer = PDict t \<and> py_eq transfer transfer"
proof -
  obtain s where s: "transfer = PDict s" "py_eq (py_get s ''schema_version'') (PInt 2)"
      "py_get s ''status'' = PStr ''observed''" "py_get s ''logical_abi_bytes_used_as_transfer'' = PBool False"
      "py_get s ''dataflow_tensor_payload_is_physical_link_bytes'' = PBool False"
      "py_get s ''physical_link_bytes_claimed'' = PBool False"
    using assms(1) by (rule passed_claims)
  obtain e where e: "entry = PDict e" using assms(4) by (auto simp: file_doc_Inr)
  have "load_hashed io files e ''transfer_trace_summary'' = Inr transfer"
    using assms(3,4) unfolding e by (rule recorded_file_loads [rotated])
  then show ?thesis
    using s assms(2,5) e
    by (auto simp: check_transfer_claims_def require_dict_def require_entry_def require_is_def rbind_Inr_iff require_Inr
        simp del: py_eq.simps)
qed

lemma passed_transfer:
  assumes failures: "transfer_failures transfer = Inr []" and "py_get d ''transfer_trace'' = transfer"
    and "load_json io files path = Inr transfer" and "file_doc io files path [] = Inr entry"
    and "py_get d ''transfer_trace_summary'' = entry" and "py_get d ''observed_dataflow_payload'' = PDict OBSERVED_PAYLOAD"
    and n: "length raw_blocks = 4"
  shows "(\<exists>samples. check_transfer io files d raw_blocks = Inr samples) \<longleftrightarrow>
    py_eq transfer transfer \<and> transfers_recomputed io files transfer raw_blocks"
proof -
  note claims = passed_transfer_claims [OF assms(1-5)]
  obtain t where t: "transfer = PDict t" using failures by (elim passed_claims)
  obtain bs where bs: "py_get t ''blocks'' = PDict bs" and each: "\<And>label route.
      (label, route) \<in> set (zip BLOCK_LABELS EXPECTED_ORDER) \<Longrightarrow> \<exists>b. py_get bs label = PDict b \<and> passed_transfer_block route b"
    using failures unfolding t by (rule passed_transfer_blocks) blast
  obtain r0 r1 r2 r3 where raws: "raw_blocks = [r0, r1, r2, r3]" using of_length_four [OF n] by blast
  have pairs: "zip BLOCK_LABELS EXPECTED_ORDER = [(''old-1'', ''old''), (''new-1'', ''new''), (''new-2'', ''new''), (''old-2'', ''old'')]"
    by (simp add: BLOCK_LABELS_def EXPECTED_ORDER_def)
  have triples: "zip BLOCK_LABELS (zip EXPECTED_ORDER raw_blocks)
      = [(''old-1'', ''old'', r0), (''new-1'', ''new'', r1), (''new-2'', ''new'', r2), (''old-2'', ''old'', r3)]"
    by (simp add: BLOCK_LABELS_def EXPECTED_ORDER_def raws)
  obtain b0 b1 b2 b3 where b: "py_get bs ''old-1'' = PDict b0" "passed_transfer_block ''old'' b0"
      "py_get bs ''new-1'' = PDict b1" "passed_transfer_block ''new'' b1"
      "py_get bs ''new-2'' = PDict b2" "passed_transfer_block ''new'' b2"
      "py_get bs ''old-2'' = PDict b3" "passed_transfer_block ''old'' b3"
    using each [of "''old-1''" "''old''"] each [of "''new-1''" "''new''"] each [of "''new-2''" "''new''"] each [of "''old-2''" "''old''"]
    unfolding pairs by auto
  note check = passed_block_recomputed [OF b(1,2)] passed_block_recomputed [OF b(3,4)]
    passed_block_recomputed [OF b(5,6)] passed_block_recomputed [OF b(7,8)]
  show ?thesis
  proof
    assume "\<exists>samples. check_transfer io files d raw_blocks = Inr samples"
    then obtain xs0 xs1 xs2 xs3 where "py_eq transfer transfer"
        and "recompute_transfer_block io files ''old-1'' ''old'' b0 r0 = Inr xs0" "recompute_transfer_block io files ''new-1'' ''new'' b1 r1 = Inr xs1"
          "recompute_transfer_block io files ''new-2'' ''new'' b2 r2 = Inr xs2" "recompute_transfer_block io files ''old-2'' ''old'' b3 r3 = Inr xs3"
        and "verify_route_summaries transfer [(''old'', xs0 @ xs3), (''new'', xs1 @ xs2)] = Inr ()"
      by (auto simp: check_transfer_def Let_def rbind_Inr_iff claims t bs require_dict_def triples check dict_item_def
          simp del: py_eq.simps)
    then show "py_eq transfer transfer \<and> transfers_recomputed io files transfer raw_blocks"
      using t bs b by (auto simp: transfers_recomputed_def triples simp del: py_eq.simps)
  next
    assume "py_eq transfer transfer \<and> transfers_recomputed io files transfer raw_blocks"
    then show "\<exists>samples. check_transfer io files d raw_blocks = Inr samples"
      using observed_payload_expected assms(6) b
      by (auto simp: check_transfer_def transfers_recomputed_def Let_def rbind_Inr_iff claims t bs require_dict_def triples
          check dict_item_def require_Inr simp del: py_eq.simps)
  qed
qed

lemma passed_header:
  assumes "py_get doc ''gate'' = PStr ''Attempt 74 minimal Host-UDF ABI and control-overhead evidence''"
    and "py_get doc ''schema_version'' = PInt 2" and "py_get doc ''pass'' = PBool True"
    and "py_get doc ''failed_checks'' = PList []" and "py_get doc ''block_order'' = PList (map PStr EXPECTED_ORDER)"
  shows "check_header doc = Inr ()"
  using assms by (simp add: check_header_def res_simps EXPECTED_ORDER_def)

lemma passed_analysis_checked:
  assumes "analyze an files paths = Inr doc" and "py_get doc ''pass'' = PBool True" and "rounding (an_round an)"
  obtains blocks profiler transfer where "map_res (load_json (an_io an) files) (cp_blocks paths) = Inr blocks"
    and "load_json (an_io an) files (cp_profiler paths) = Inr profiler"
    and "load_json (an_io an) files (cp_transfer paths) = Inr transfer"
    and "(\<exists>summary. validate_comparison an files (PDict doc) = Inr summary) \<longleftrightarrow>
      profiler_counts profiler \<and> py_eq transfer transfer \<and> transfers_recomputed (an_io an) files transfer blocks"
proof -
  from assms(1,2) obtain blocks profiler transfer metrics inputs semantic_entry source_entry transfer_entry
    where passed: "analysis_passed an files paths blocks profiler transfer metrics"
    and artifacts: "passed_artifact (an_io an) files (cp_semantic paths) semantic_entry"
      "passed_artifact (an_io an) files (cp_source paths) source_entry"
    and inputs: "map_res (\<lambda>(path, route). file_doc (an_io an) files path [(''route'', PStr route)])
      (zip (cp_blocks paths) EXPECTED_ORDER) = Inr inputs"
    and entry: "file_doc (an_io an) files (cp_transfer paths) [] = Inr transfer_entry"
    and header: "py_get doc ''gate'' = PStr ''Attempt 74 minimal Host-UDF ABI and control-overhead evidence''"
      "py_get doc ''schema_version'' = PInt 2" "py_get doc ''failed_checks'' = PList []"
      "py_get doc ''block_order'' = PList (map PStr EXPECTED_ORDER)"
    and logical: "py_get doc ''logical_abi'' = PDict (LOGICAL_ABI (an_round an))"
      "py_get doc ''host_api_per_epoch'' = PDict HOST_API_PER_EPOCH"
    and metrics: "py_get doc ''metrics'' = PDict metrics" and profiler: "py_get doc ''profiler_transfer'' = profiler"
    and payload: "py_get doc ''observed_dataflow_payload'' = PDict OBSERVED_PAYLOAD"
    and transfer: "py_get doc ''transfer_trace'' = transfer"
    and entries: "py_get doc ''semantic_result'' = semantic_entry" "py_get doc ''source_verification'' = source_entry"
      "py_get doc ''inputs'' = PList inputs" "py_get doc ''transfer_trace_summary'' = transfer_entry"
    by (rule analyzeE)
  from passed have loads: "map_res (load_json (an_io an) files) (cp_blocks paths) = Inr blocks"
      "load_json (an_io an) files (cp_profiler paths) = Inr profiler" "load_json (an_io an) files (cp_transfer paths) = Inr transfer"
    and failures: "blocks_failures blocks = Inr []" "profiler_failures profiler = Inr []" "transfer_failures transfer = Inr []"
    and doc: "metrics_doc (an_round an) blocks = Inr metrics"
    by (simp_all add: analysis_passed_def)
  note blocks = blocks_passed [OF failures(1)]
  note checks = passed_header [OF header(1,2) assms(2) header(3,4)] passed_logical [OF logical assms(3)]
    passed_inputs [OF loads(1) blocks inputs entries(3)] passed_metrics [OF doc assms(3) blocks(2)]
    passed_artifact_checked [OF artifacts(1) entries(1)] passed_artifact_checked [OF artifacts(2) entries(2)]
  have "(\<exists>summary. validate_comparison an files (PDict doc) = Inr summary) \<longleftrightarrow>
      (\<exists>status. check_profiler doc = Inr status) \<and> (\<exists>samples. check_transfer (an_io an) files doc blocks = Inr samples)"
    using metrics by (auto simp: validate_comparison_def Let_def checks rbind_Inr_iff require_dict_def)
  also have "\<dots> \<longleftrightarrow> profiler_counts profiler \<and> py_eq transfer transfer \<and> transfers_recomputed (an_io an) files transfer blocks"
    by (simp only: passed_profiler [OF failures(2) profiler]
        passed_transfer [OF failures(3) transfer loads(3) entry entries(4) payload blocks(1)])
  finally show thesis by (rule that [OF loads])
qed


end
