(* ===== verification/ProfilerProps.thy ===== *)
theory ProfilerProps
  imports Profiler ComparisonAgree
begin

text \<open>
  The summary of the profiler's reports: its totals are the sums of the candidate rows it lists,
  and the analysis and the verifier of the comparison accept it whatever the reports hold.
\<close>

section \<open>The totals\<close>

text \<open>A candidate that counts for a direction: it has one number.\<close>

definition counts_for :: "string \<Rightarrow> copy_candidate \<Rightarrow> bool" where
  "counts_for direction c \<longleftrightarrow> cd_direction c = Some direction \<and> length (cd_bytes c) = 1"

definition candidate_bytes :: "copy_candidate \<Rightarrow> int" where
  "candidate_bytes c = snd (hd (cd_bytes c))"

definition direction_sums :: "(copy_candidate \<Rightarrow> int) \<Rightarrow> copy_candidate list \<Rightarrow> (string, int) dict" where
  "direction_sums f cs =
     [(''host_to_device'', sum_list (map f (filter (counts_for ''host_to_device'') cs))),
      (''device_to_host'', sum_list (map f (filter (counts_for ''device_to_host'') cs)))]"

definition candidate_sound :: "copy_candidate \<Rightarrow> bool" where
  "candidate_sound c \<longleftrightarrow> cd_direction c \<in> {None, Some ''host_to_device'', Some ''device_to_host''}
     \<and> (\<forall>(column, n) \<in> set (cd_bytes c). 0 \<le> n)"

definition totals_sound :: "route_scan \<Rightarrow> bool" where
  "totals_sound s \<longleftrightarrow> rs_totals s = direction_sums candidate_bytes (rs_candidates s)
     \<and> rs_counts s = direction_sums (\<lambda>_. 1) (rs_candidates s) \<and> (\<forall>c \<in> set (rs_candidates s). candidate_sound c)"

lemma count_candidate_sound:
  assumes "totals_sound s" and "candidate_sound c"
  shows "totals_sound (count_candidate c s)"
proof (cases "\<exists>d column n. cd_direction c = Some d \<and> cd_bytes c = [(column, n)]")
  case True
  then obtain d column n where c: "cd_direction c = Some d" "cd_bytes c = [(column, n)]" by auto
  with assms(2) consider "d = ''host_to_device''" | "d = ''device_to_host''" by (auto simp: candidate_sound_def)
  then show ?thesis
    using assms c
    by cases (simp_all add: totals_sound_def count_candidate_def Let_def add_to_def direction_sums_def counts_for_def candidate_bytes_def)
next
  case False
  then have none: "\<not> counts_for d c" for d by (auto simp: counts_for_def length_Suc_conv)
  have "count_candidate c s = s\<lparr>rs_candidates := rs_candidates s @ [c]\<rparr>"
    using False by (auto simp: count_candidate_def Let_def split: option.split list.split)
  then show ?thesis
    using assms none by (simp add: totals_sound_def direction_sums_def)
qed

lemma row_direction_known: "row_direction s \<in> {None, Some ''host_to_device'', Some ''device_to_host''}"
  unfolding row_direction_def Let_def by (simp only: if_distrib [of "\<lambda>x. x \<in> _"]) simp

lemma cell_integer_from_zero: "cell_integer s = Some n \<Longrightarrow> 0 \<le> n"
  unfolding cell_integer_def Let_def by (cases "unsigned_value (takeWhile re_digit (filter (\<lambda>c. c \<noteq> CHR '','') (strip_str s)))") (simp_all split: if_splits)

lemma row_bytes_from_zero: "(column, n) \<in> set (row_bytes columns row) \<Longrightarrow> 0 \<le> n"
  by (auto simp: row_bytes_def split: option.splits dest: cell_integer_from_zero [OF sym])

lemma row_candidate_sound:
  assumes "row_candidate path columns numbered = Some c"
  shows "candidate_sound c"
proof -
  obtain number row where "numbered = (number, row)" by (cases numbered)
  with assms have "cd_direction c = row_direction (row_text row)" "cd_bytes c = row_bytes columns (fst row)"
    by (auto simp: row_candidate_def Let_def split: if_splits)
  then show ?thesis
    using row_direction_known row_bytes_from_zero by (fastforce simp: candidate_sound_def)
qed

lemma scan_row_sound: "totals_sound s \<Longrightarrow> totals_sound (scan_row path columns numbered s)"
  using row_candidate_sound count_candidate_sound by (simp add: scan_row_def split: option.split)

lemma scan_rows_sound: "totals_sound s \<Longrightarrow> totals_sound (fold (scan_row path columns) rows s)"
  by (induction rows arbitrary: s) (simp_all add: scan_row_sound)

lemma headers_sound: "totals_sound s \<Longrightarrow> totals_sound (s\<lparr>rs_headers := hs\<rparr>)"
  by (simp add: totals_sound_def)

lemma scan_file_sound: "scan_file ms path s = Inr t \<Longrightarrow> totals_sound s \<Longrightarrow> totals_sound t"
  unfolding scan_file_def
  by (auto simp: Let_def headers_sound intro!: scan_rows_sound split: if_splits prod.splits list.splits option.splits)

lemma scan_route_sound:
  assumes "scan_route ms path = Inr (files, s, doc)"
  shows "totals_sound s"
proof -
  have "fold_res (scan_file ms) fs t = Inr u \<Longrightarrow> totals_sound t \<Longrightarrow> totals_sound u" for fs t u
    by (induction fs arbitrary: t) (auto simp: rbind_Inr_iff dest: scan_file_sound)
  moreover have "totals_sound scan_empty" by (simp add: totals_sound_def scan_empty_def direction_sums_def)
  ultimately show ?thesis
    using assms by (auto simp: scan_route_def Let_def rbind_Inr_iff)
qed

text \<open>
  The bytes a route reports are the sums over its candidate rows with one number, of which there
  is at least one in each direction.
\<close>

lemma observed_totals:
  assumes "scan_route ms path = Inr (files, s, doc)" and "py_get doc ''status'' = PStr ''observed''"
  shows "py_get doc ''host_to_device_bytes'' = PInt (sum_list (map candidate_bytes (filter (counts_for ''host_to_device'') (rs_candidates s))))"
    and "py_get doc ''device_to_host_bytes'' = PInt (sum_list (map candidate_bytes (filter (counts_for ''device_to_host'') (rs_candidates s))))"
    and "\<exists>n. py_get doc ''total_bytes'' = PInt n \<and> 0 \<le> n"
    and "\<forall>d \<in> {''host_to_device'', ''device_to_host''}. \<exists>c \<in> set (rs_candidates s). counts_for d c"
proof -
  note sound = scan_route_sound [OF assms(1), unfolded totals_sound_def]
  from assms(1) obtain resolved where doc: "doc = scan_doc resolved files s"
    by (auto simp: scan_route_def Let_def rbind_Inr_iff)
  have status: "scan_status s = ''observed''"
    using assms(2) by (simp add: doc scan_doc_def Let_def py_get_def)
  have bytes: "0 \<le> candidate_bytes c" if "c \<in> set (rs_candidates s)" and "counts_for d c" for c d
    using sound that by (fastforce simp: candidate_sound_def counts_for_def candidate_bytes_def length_Suc_conv)
  show "py_get doc ''host_to_device_bytes'' = PInt (sum_list (map candidate_bytes (filter (counts_for ''host_to_device'') (rs_candidates s))))"
    "py_get doc ''device_to_host_bytes'' = PInt (sum_list (map candidate_bytes (filter (counts_for ''device_to_host'') (rs_candidates s))))"
    using sound status by (simp_all add: doc scan_doc_def Let_def py_get_def direction_sums_def counted_def)
  have "0 \<le> sum_list (map candidate_bytes (filter (counts_for d) (rs_candidates s)))" for d
    using bytes by (intro sum_list_nonneg) auto
  then show "\<exists>n. py_get doc ''total_bytes'' = PInt n \<and> 0 \<le> n"
    using sound status by (simp add: doc scan_doc_def Let_def py_get_def direction_sums_def add_nonneg_nonneg)
  show "\<forall>d \<in> {''host_to_device'', ''device_to_host''}. \<exists>c \<in> set (rs_candidates s). counts_for d c"
    using sound status
    by (auto simp: scan_status_def direction_sums_def sum_list_triv filter_empty_conv split: if_splits)
qed

section \<open>The summary\<close>

lemma join_with_nonempty: "x \<noteq> [] \<Longrightarrow> join_with sep (x # xs) \<noteq> []"
  by (cases xs) simp_all

lemma summarize_profileE:
  assumes "summarize_profile ms old_root new_root unavailable = Inr doc"
  obtains old_files old old_doc new_files new new_doc where "scan_route ms old_root = Inr (old_files, old, old_doc)"
    and "scan_route ms new_root = Inr (new_files, new, new_doc)"
    and "py_get doc ''routes'' = PDict [(''old'', PDict old_doc), (''new'', PDict new_doc)]"
    and "py_get doc ''logical_abi_bytes_used_as_transfer'' = PBool False"
    and "py_get doc ''status'' = PStr (if scan_status old = ''observed'' \<and> scan_status new = ''observed'' then ''observed'' else ''not_observed'')"
    and "scan_status old = ''observed'' \<and> scan_status new = ''observed'' \<or> truthy (py_get doc ''reason'')"
proof -
  from assms obtain old_files old old_doc new_files new new_doc where scans: "scan_route ms old_root = Inr (old_files, old, old_doc)"
      "scan_route ms new_root = Inr (new_files, new, new_doc)"
    by (auto simp: summarize_profile_def rbind_Inr_iff)
  show thesis
  proof (rule that [OF scans])
    show "scan_status old = ''observed'' \<and> scan_status new = ''observed'' \<or> truthy (py_get doc ''reason'')"
      using assms
      by (cases "scan_status old = ''observed''"; cases "scan_status new = ''observed''"; cases unavailable)
        (auto simp: summarize_profile_def scans Let_def py_get_def join_with_nonempty)
  qed (use assms in \<open>auto simp: summarize_profile_def scans Let_def py_get_def\<close>)
qed

text \<open>Whatever the reports hold, the analysis finds no fault with the summary, and neither does the verifier.\<close>

lemma profile_summary_sound:
  assumes "summarize_profile ms old_root new_root unavailable = Inr doc"
  shows "profiler_failures (PDict doc) = Inr []" and "profiler_counts (PDict doc)"
proof -
  from assms obtain old_files old old_doc new_files new new_doc where scans: "scan_route ms old_root = Inr (old_files, old, old_doc)"
      "scan_route ms new_root = Inr (new_files, new, new_doc)"
    and routes: "py_get doc ''routes'' = PDict [(''old'', PDict old_doc), (''new'', PDict new_doc)]"
    and flag: "py_get doc ''logical_abi_bytes_used_as_transfer'' = PBool False"
    and status: "py_get doc ''status'' = PStr (if scan_status old = ''observed'' \<and> scan_status new = ''observed'' then ''observed'' else ''not_observed'')"
    and reason: "scan_status old = ''observed'' \<and> scan_status new = ''observed'' \<or> truthy (py_get doc ''reason'')"
    by (rule summarize_profileE)
  have route: "value_get_or (PDict doc) ''routes'' w = Inr (PDict [(''old'', PDict old_doc), (''new'', PDict new_doc)])" for w
    using routes by (auto simp: value_get_or_def py_get_def split: option.splits)
  have docs: "value_get_or (PDict [(''old'', PDict old_doc), (''new'', PDict new_doc)]) ''old'' w = Inr (PDict old_doc)"
      "value_get_or (PDict [(''old'', PDict old_doc), (''new'', PDict new_doc)]) ''new'' w = Inr (PDict new_doc)" for w
    by (simp_all add: value_get_or_def)
  have total: "\<exists>n. py_get d ''total_bytes'' = PInt n \<and> 0 \<le> n" if scan: "scan_route ms p = Inr (fs, s, d)" and "scan_status s = ''observed''" for p fs s d
  proof -
    from that obtain resolved where "d = scan_doc resolved fs s" by (auto simp: scan_route_def Let_def rbind_Inr_iff)
    then have "py_get d ''status'' = PStr ''observed''" using that(2) by (simp add: scan_doc_def Let_def py_get_def)
    from observed_totals(3) [OF scan this] show ?thesis .
  qed
  have both: "\<exists>n. py_get old_doc ''total_bytes'' = PInt n \<and> 0 \<le> n" "\<exists>n. py_get new_doc ''total_bytes'' = PInt n \<and> 0 \<le> n"
    if "scan_status old = ''observed'' \<and> scan_status new = ''observed''"
    using total [OF scans(1)] total [OF scans(2)] that by auto
  show "profiler_counts (PDict doc)"
    using both by (auto simp: profiler_counts_def flag status route docs split: if_splits)
  show "profiler_failures (PDict doc) = Inr []"
  proof (cases "scan_status old = ''observed'' \<and> scan_status new = ''observed''")
    case True
    with both [OF True] show ?thesis
      by (auto simp: profiler_failures_def status route docs is_int_def failing_def)
  next
    case False
    with reason show ?thesis by (auto simp: profiler_failures_def status failing_def)
  qed
qed

end
