(* ===== verification/ComparisonPipeline.thy ===== *)
theory ComparisonPipeline
  imports ProfilerProps
begin

text \<open>
  The scripts in a row: the traces of the four blocks and the profiler's reports are summarized,
  the analysis compares the blocks with the summaries at hand, and the verifier accepts the
  comparison.
\<close>

section \<open>More files\<close>

definition files_extend :: "evidence \<Rightarrow> evidence \<Rightarrow> bool" where
  "files_extend files files' \<longleftrightarrow> (\<forall>path s. map_of files path = Some s \<longrightarrow> map_of files' path = Some s)"

lemma files_extend_refl [simp, intro]: "files_extend files files"
  by (simp add: files_extend_def)

lemma files_extend_trans: "files_extend f g \<Longrightarrow> files_extend g h \<Longrightarrow> files_extend f h"
  by (simp add: files_extend_def)

lemma files_extend_update: "map_of files path = None \<Longrightarrow> files_extend files (AList.update path s files)"
  by (auto simp: files_extend_def dict_simps)

text \<open>A result that is kept: what returned a value still returns it.\<close>

definition kept :: "exn + 'a \<Rightarrow> exn + 'a \<Rightarrow> bool" where
  "kept r r' \<longleftrightarrow> (\<forall>x. r = Inr x \<longrightarrow> r' = Inr x)"

named_theorems kept_intros

lemma keptD: "kept r r' \<Longrightarrow> r = Inr x \<Longrightarrow> r' = Inr x"
  by (simp add: kept_def)

lemma kept_refl [kept_intros]: "kept r r"
  by (simp add: kept_def)

lemma kept_rbind [kept_intros]: "kept r r' \<Longrightarrow> (\<And>x. kept (k x) (k' x)) \<Longrightarrow> kept (rbind r k) (rbind r' k')"
  by (auto simp: kept_def rbind_Inr_iff)

lemma kept_load_json [kept_intros]: "files_extend f g \<Longrightarrow> kept (load_json io f p) (load_json io g p)"
  by (auto simp: kept_def load_json_def rbind_Inr_iff read_evidence_Inr files_extend_def)

lemma kept_read_table [kept_intros]: "files_extend f g \<Longrightarrow> kept (read_table io f p) (read_table io g p)"
  by (auto simp: kept_def read_table_def rbind_Inr_iff read_evidence_Inr files_extend_def)

lemma kept_check_hashed [kept_intros]:
  "files_extend f g \<Longrightarrow> kept (check_hashed io f d pk hk m1 m2) (check_hashed io g d pk hk m1 m2)"
  by (auto simp: kept_def check_hashed_Inr files_extend_def)

lemma kept_read_trace [kept_intros]: "files_extend f g \<Longrightarrow> kept (verify_read_trace io f p) (verify_read_trace io g p)"
  unfolding verify_read_trace_def by (intro kept_intros)

lemma kept_check_filtered [kept_intros]:
  "files_extend f g \<Longrightarrow> kept (check_filtered io f label b rows) (check_filtered io g label b rows)"
  unfolding check_filtered_def by (intro kept_intros)

lemma kept_recompute [kept_intros]:
  "files_extend f g \<Longrightarrow> kept (recompute_transfer_block io f label route b raw) (recompute_transfer_block io g label route b raw)"
  unfolding recompute_transfer_block_def by (intro kept_intros)

section \<open>Values that equal themselves\<close>

fun plain_value :: "pyval \<Rightarrow> bool" where
  "plain_value (PFloat f) \<longleftrightarrow> f \<noteq> NaN"
| "plain_value (PList xs) \<longleftrightarrow> (\<forall>x \<in> set xs. plain_value x)"
| "plain_value (PDict d) \<longleftrightarrow> distinct (keys d) \<and> (\<forall>kv \<in> set d. plain_value (snd kv))"
| "plain_value PObj \<longleftrightarrow> False"
| "plain_value _ \<longleftrightarrow> True"

lemma py_eq_list_refl: "(\<And>x. x \<in> set xs \<Longrightarrow> py_eq x x) \<Longrightarrow> py_eq_list xs xs"
  by (induction xs) auto

lemma plain_value_refl: "plain_value v \<Longrightarrow> py_eq v v"
proof (induction v rule: plain_value.induct)
  case (2 xs)
  then show ?case by (auto intro: py_eq_list_refl)
next
  case (3 d)
  then have "\<And>k v. (k, v) \<in> set d \<Longrightarrow> py_eq v v" by fastforce
  then have "py_eq_items d d" using 3 by (intro py_eq_items_refl) auto
  then show ?case by simp
qed (auto simp: float_eq_def)

lemma plain_value_ints [simp]: "plain_value (PList (map PInt xs))"
  by simp

lemma plain_value_strs [simp]: "plain_value (PList (map PStr xs))"
  by simp

lemma plain_counts: "distinct (keys d) \<Longrightarrow> plain_value (counts_doc d)"
  unfolding counts_doc_def by (auto simp: comp_def case_prod_unfold)

lemma plain_sample_doc: "plain_value (PDict (sample_doc s))"
  by (simp add: sample_doc_def)

section \<open>The summary of the blocks\<close>

text \<open>A block that was summarized on some of the files, for which the rest came later.\<close>

definition summarized :: "evidence_io \<Rightarrow> string \<Rightarrow> string \<Rightarrow> string \<Rightarrow> evidence \<Rightarrow> evidence \<Rightarrow> block_summary \<Rightarrow> bool" where
  "summarized io label trace result first last_files b \<longleftrightarrow>
     (\<exists>filtered f f'. files_extend first f \<and> summarize_block io label trace result filtered f = (Inr b, f')
        \<and> files_extend f' last_files)"

lemma summarize_block_extends:
  "summarize_block io label trace result filtered files = (Inr b, files') \<Longrightarrow> files_extend files files'"
  by (erule summarize_blockE) (simp add: files_extend_update)

lemma summarize_blocks_each:
  assumes "summarize_blocks io traces results dir labels files = (Inr bs, files')"
  shows "files_extend files files' \<and> list_all2 (\<lambda>label (l, b). l = label \<and>
    (\<exists>trace result. map_of traces label = Some trace \<and> map_of results label = Some result
      \<and> summarized io label trace result files files' b)) labels bs"
  using assms
proof (induction io traces results dir labels files arbitrary: bs files' rule: summarize_blocks.induct)
  case (2 io traces results dir label labels files)
  from "2.prems" obtain trace result b f1 bs' where t: "dict_item traces label = Inr trace" "dict_item results label = Inr result"
      and b: "summarize_block io label trace result (path_join dir (label @ ''.tsv'')) files = (Inr b, f1)"
      and rest: "summarize_blocks io traces results dir labels f1 = (Inr bs', files')" and bs: "bs = (label, b) # bs'"
    by (auto split: sum.splits prod.splits)
  note IH = "2.IH" [OF refl t b [symmetric] refl rest]
  note first = summarize_block_extends [OF b]
  have later: "summarized io l trace result files files' c" if "summarized io l trace result f1 files' c" for l trace result c
    using that first unfolding summarized_def by (blast intro: files_extend_trans)
  have "summarized io label trace result files files' b"
    unfolding summarized_def using b IH by blast
  moreover have "list_all2 (\<lambda>label (l, b). l = label \<and> (\<exists>trace result. map_of traces label = Some trace
      \<and> map_of results label = Some result \<and> summarized io label trace result files files' b)) labels bs'"
    using IH by (auto elim!: list_all2_mono dest: later)
  ultimately show ?case
    using t IH first by (auto simp: bs dict_item_Inr intro: files_extend_trans)
qed simp

lemma summarized_recomputed:
  assumes "summarized io label trace result first files b" and "bk_status b = ''observed''"
    and "map_of ROUTES label = Some route" and "csv_faithful io" and "load_json io first result = Inr raw" and "plain_value raw"
  shows "recompute_transfer_block io files label route (block_doc b) raw = Inr (bk_samples b)" and "length (bk_samples b) = 15"
proof -
  from assms(1) obtain filtered f f' where f: "files_extend first f" "files_extend f' files"
      and b: "summarize_block io label trace result filtered f = (Inr b, f')" by (auto simp: summarized_def)
  have raw: "load_json io f result = Inr raw" using keptD [OF kept_load_json [OF f(1)] assms(5)] .
  show "recompute_transfer_block io files label route (block_doc b) raw = Inr (bk_samples b)"
    using written_block_recomputed [OF b assms(2-4) raw plain_value_refl [OF assms(6)]] by (rule keptD [OF kept_recompute [OF f(2)]])
  from b obtain route' calls ws where ws: "load_windows io f result = Inr ws"
      and s: "block_summary_of io f' route' trace result filtered calls (block_scan label route' calls ws) = Inr b"
    by (rule summarize_blockE)
  have "length ws = 15"
    using load_windows_spec [OF ws] by (metis list_all2_lengthD)
  then show "length (bk_samples b) = 15" by (simp add: block_of_rest(1) [OF s] block_scan_samples)
qed

lemma summarized_plain:
  assumes "summarized io label trace result first files b"
  shows "plain_value (PDict (block_doc b))"
proof -
  from assms obtain filtered f f' where "summarize_block io label trace result filtered f = (Inr b, f')"
    by (auto simp: summarized_def)
  then obtain route calls ws where "block_summary_of io f' route trace result filtered calls (block_scan label route calls ws) = Inr b"
    by (rule summarize_blockE)
  then obtain raw_by measured_by where "transport_counts calls = Inr raw_by"
      and "transport_counts (measured_calls calls (block_scan label route calls ws)) = Inr measured_by"
      and "bk_raw_by b = raw_by" "bk_measured_by b = measured_by" "bk_outside_by b = outside_counts raw_by measured_by"
    by (rule block_of_counts)
  then have "plain_value (counts_doc (bk_raw_by b))" "plain_value (counts_doc (bk_measured_by b))"
      "plain_value (counts_doc (bk_outside_by b))"
    using transport_counts_distinct by (auto intro!: plain_counts simp: outside_counts_keys)
  moreover have "plain_value (PList (map (PDict \<circ> sample_doc) (bk_samples b)))"
    using plain_sample_doc by (auto simp del: plain_value.simps(3))
  ultimately show ?thesis
    by (simp add: block_doc_def del: plain_value.simps(2) split: option.split)
qed

section \<open>The summary of the routes\<close>

lemma median_plain: "median ns = Inr v \<Longrightarrow> plain_value v"
  by (auto simp: median_def Let_def split: if_splits)

lemma MEDIAN_FIELDS_names:
  "map (\<lambda>(name, field). name @ ''_median'') MEDIAN_FIELDS =
    [''dataflow_host_to_device_bytes_median'', ''dataflow_device_to_host_bytes_median'', ''dataflow_total_bytes_median'',
     ''runtime_memcpy_records_median'', ''runtime_memcpy_host_to_device_bytes_median'',
     ''runtime_memcpy_device_to_host_bytes_median'', ''runtime_memcpy_total_directional_bytes_median'']"
  by (simp add: MEDIAN_FIELDS_def)

lemma summarize_routeE:
  assumes "summarize_route samples = Inr d"
  obtains medians where "d = (''sample_count'', PInt (int (length samples))) # medians @ [(''runtime_memcpy_statuses'', status_set samples)]"
    and "keys medians = map (\<lambda>(name, field). name @ ''_median'') MEDIAN_FIELDS"
    and "\<And>name field. (name, field) \<in> set MEDIAN_FIELDS \<Longrightarrow> \<exists>m. median (map field samples) = Inr m \<and> map_of medians (name @ ''_median'') = Some m"
    and "\<And>v. v \<in> set (map snd medians) \<Longrightarrow> plain_value v"
proof -
  from assms obtain medians where m: "map_res (\<lambda>(name, field). rbind (median (map field samples)) (\<lambda>m. Inr (name @ ''_median'', m))) MEDIAN_FIELDS
        = Inr medians"
      and d: "d = (''sample_count'', PInt (int (length samples))) # medians @ [(''runtime_memcpy_statuses'', status_set samples)]"
    by (auto simp: summarize_route_def rbind_Inr_iff)
  have "list_all2 (\<lambda>(name, field) y. fst y = name @ ''_median'') MEDIAN_FIELDS medians"
    using m unfolding map_res_list_all2 by (rule list_all2_mono) (auto simp: rbind_Inr_iff)
  then have ks: "keys medians = map (\<lambda>(name, field). name @ ''_median'') MEDIAN_FIELDS"
    by (auto simp: list_all2_conv_all_nth intro!: nth_equalityI)
  have dist: "distinct (keys medians)" unfolding ks MEDIAN_FIELDS_names by simp
  show thesis
  proof (rule that [OF d ks])
    fix name field assume "(name, field) \<in> set MEDIAN_FIELDS"
    from map_res_image [OF m this] obtain v where "median (map field samples) = Inr v" "(name @ ''_median'', v) \<in> set medians"
      by (auto simp: rbind_Inr_iff)
    with dist show "\<exists>m. median (map field samples) = Inr m \<and> map_of medians (name @ ''_median'') = Some m" by auto
  next
    fix v assume "v \<in> set (map snd medians)"
    then show "plain_value v" by (auto dest!: map_res_set [OF m] intro: median_plain simp: rbind_Inr_iff)
  qed
qed

lemma summarized_route_plain:
  assumes "summarize_route samples = Inr d"
  shows "plain_value (PDict d)"
  using assms
proof (rule summarize_routeE)
  fix medians
  assume d: "d = (''sample_count'', PInt (int (length samples))) # medians @ [(''runtime_memcpy_statuses'', status_set samples)]"
    and ks: "keys medians = map (\<lambda>(name, field). name @ ''_median'') MEDIAN_FIELDS"
    and plain: "\<And>v. v \<in> set (map snd medians) \<Longrightarrow> plain_value v"
  have "distinct (keys d)" unfolding d by (simp add: ks [unfolded MEDIAN_FIELDS_names])
  with plain show ?thesis by (auto simp: d status_set_def)
qed

lemma summarized_route_get:
  assumes "summarize_route samples = Inr d"
  shows "py_get d ''sample_count'' = PInt (int (length samples)) \<and> py_get d ''runtime_memcpy_statuses'' = status_set samples
    \<and> (\<forall>(name, field) \<in> set MEDIAN_FIELDS. median (map field samples) = Inr (py_get d (name @ ''_median'')))"
  using assms
proof (rule summarize_routeE)
  fix medians
  assume d: "d = (''sample_count'', PInt (int (length samples))) # medians @ [(''runtime_memcpy_statuses'', status_set samples)]"
    and ks: "keys medians = map (\<lambda>(name, field). name @ ''_median'') MEDIAN_FIELDS"
    and m: "\<And>name field. (name, field) \<in> set MEDIAN_FIELDS \<Longrightarrow>
      \<exists>m. median (map field samples) = Inr m \<and> map_of medians (name @ ''_median'') = Some m"
  have "map_of medians ''runtime_memcpy_statuses'' = None"
    unfolding dict_get_None_iff ks MEDIAN_FIELDS_names by simp
  moreover have "median (map field samples) = Inr (py_get d (name @ ''_median''))"
    if field: "(name, field) \<in> set MEDIAN_FIELDS" for name field
  proof -
    from field have "name @ ''_median'' \<noteq> ''sample_count''" by (auto simp: MEDIAN_FIELDS_def)
    with m [OF field] show ?thesis by (auto simp: d py_get_def map_add_def)
  qed
  ultimately show ?thesis by (auto simp: d py_get_def map_add_def)
qed

lemma summarized_route_verified:
  assumes "summarize_route samples = Inr d" and "length samples = 30"
    and "py_get t ''routes'' = PDict routes" and "py_get routes route = PDict d"
  shows "verify_route (PDict t) (route, samples) = Inr ()"
proof -
  note get = summarized_route_get [OF assms(1)]
  have "for_each (\<lambda>(name, field). rbind (median (map field samples)) (\<lambda>expected.
      rbind (value_get (PDict d) (name @ ''_median'')) (\<lambda>v. require (py_eq v expected) (message name)))) MEDIAN_FIELDS = Inr ()" for message
    using get median_plain plain_value_refl by (fastforce simp: for_each_ok)
  moreover have "py_eq (status_set samples) (status_set samples)" by (rule plain_value_refl) (simp add: status_set_def)
  moreover have "value_get_dict_default (PDict t) ''routes'' = Inr (PDict routes)" "value_get_dict_default (PDict routes) route = Inr (PDict d)"
    using assms(3,4) by (auto simp: value_get_dict_default_def py_get_def split: option.splits)
  ultimately show ?thesis
    using assms(2) by (simp add: verify_route_def get)
qed

section \<open>The summary\<close>

text \<open>The benchmark results of the four blocks, as the summarizer and the analysis read them.\<close>

definition results_read :: "evidence_io \<Rightarrow> evidence \<Rightarrow> (string, string) dict \<Rightarrow> pyval list \<Rightarrow> bool" where
  "results_read io files results raw_blocks \<longleftrightarrow>
     list_all2 (\<lambda>label raw. \<exists>path. map_of results label = Some path \<and> load_json io files path = Inr raw \<and> plain_value raw)
       BLOCKS raw_blocks"

lemma summarize_traceE:
  assumes "summarize_trace io traces results dir files = (Inr t, files')"
  obtains b0 b1 b2 b3 old new where
    "summarize_blocks io traces results dir BLOCKS files = (Inr [(''old-1'', b0), (''new-1'', b1), (''new-2'', b2), (''old-2'', b3)], files')"
    and "summarize_route (bk_samples b0 @ bk_samples b3) = Inr old" and "summarize_route (bk_samples b1 @ bk_samples b2) = Inr new"
    and "t = summary_doc [(''old-1'', b0), (''new-1'', b1), (''new-2'', b2), (''old-2'', b3)] [(''old'', PDict old), (''new'', PDict new)]"
proof -
  from assms obtain bs where bs: "summarize_blocks io traces results dir BLOCKS files = (Inr bs, files')"
      and t: "rbind (route_samples bs ''old'') (\<lambda>old. rbind (route_samples bs ''new'') (\<lambda>new.
           rbind (summarize_route old) (\<lambda>old_doc. rbind (summarize_route new) (\<lambda>new_doc.
             Inr (summary_doc bs [(''old'', PDict old_doc), (''new'', PDict new_doc)]))))) = Inr t"
    by (auto simp: summarize_trace_def split: sum.splits prod.splits)
  have "list_all2 (\<lambda>label (l, b). l = label) BLOCKS bs"
    using summarize_blocks_each [OF bs, THEN conjunct2] by (rule list_all2_mono) auto
  then obtain b0 b1 b2 b3 where b: "bs = [(''old-1'', b0), (''new-1'', b1), (''new-2'', b2), (''old-2'', b3)]"
    by (auto simp: BLOCKS_def list_all2_Cons1)
  then have "route_samples bs ''old'' = Inr (bk_samples b0 @ bk_samples b3)" "route_samples bs ''new'' = Inr (bk_samples b1 @ bk_samples b2)"
    by (simp_all add: route_samples_def block_samples_def dict_item_def)
  with t show thesis
    by (auto simp: rbind_Inr_iff b intro: that [OF bs [unfolded b]])
qed

text \<open>A block whose document the verifier accepts if it is observed.\<close>

definition verifiable :: "evidence_io \<Rightarrow> evidence \<Rightarrow> string \<Rightarrow> string \<Rightarrow> pyval \<Rightarrow> block_summary \<Rightarrow> bool" where
  "verifiable io files label route raw b \<longleftrightarrow> plain_value (PDict (block_doc b))
     \<and> (bk_status b = ''observed'' \<longrightarrow>
          recompute_transfer_block io files label route (block_doc b) raw = Inr (bk_samples b) \<and> length (bk_samples b) = 15)"

lemma summarized_verifiable:
  assumes "map_of ROUTES label = Some route" and "csv_faithful io" and "files_extend files1 files2"
    and "map_of results label = Some path" and "load_json io files path = Inr raw" and "plain_value raw"
    and "\<exists>trace result. map_of traces label = Some trace \<and> map_of results label = Some result
      \<and> summarized io label trace result files files1 b"
  shows "verifiable io files2 label route raw b"
proof -
  from assms(4,7) obtain trace where b: "summarized io label trace path files files1 b" by auto
  show ?thesis
    unfolding verifiable_def
    using summarized_plain [OF b] summarized_recomputed [OF b _ assms(1,2,5,6)] keptD [OF kept_recompute [OF assms(3)]] by blast
qed

lemma four_blocks_verifiable:
  assumes "summarize_blocks io traces results dir BLOCKS files
      = (Inr [(''old-1'', b0), (''new-1'', b1), (''new-2'', b2), (''old-2'', b3)], files1)"
    and "csv_faithful io" and "results_read io files results [r0, r1, r2, r3]" and "files_extend files1 files2"
  shows "verifiable io files2 ''old-1'' ''old'' r0 b0" and "verifiable io files2 ''new-1'' ''new'' r1 b1"
    and "verifiable io files2 ''new-2'' ''new'' r2 b2" and "verifiable io files2 ''old-2'' ''old'' r3 b3"
  using summarize_blocks_each [OF assms(1)] assms(3) unfolding results_read_def BLOCKS_def
  by (auto intro!: summarized_verifiable [OF _ assms(2,4)] simp: ROUTES_def)

lemma summary_doc_parts:
  "py_get (summary_doc bs routes) ''status'' = PStr (summary_status bs)"
  "py_get (summary_doc bs routes) ''routes'' = PDict routes"
  "py_get (summary_doc bs routes) ''blocks'' = PDict (map (\<lambda>(label, b). (label, PDict (block_doc b))) bs)"
  by (simp_all add: summary_doc_def py_get_def)

lemma summary_doc_plain:
  assumes "distinct (keys bs)" and "\<forall>(label, b) \<in> set bs. plain_value (PDict (block_doc b))" and "plain_value (PDict routes)"
  shows "plain_value (PDict (summary_doc bs routes))"
proof -
  have "plain_value (PDict (map (\<lambda>(label, b). (label, PDict (block_doc b))) bs))"
    using assms(1,2) by (auto simp: comp_def case_prod_unfold)
  with assms(3) show ?thesis
    by (simp add: summary_doc_def MEASUREMENT_BOUNDARIES_def expected_payload_def del: plain_value.simps(2,3)) simp
qed

text \<open>What the summarizer wrote of an observed run is recomputed by the verifier, also when more files came since.\<close>

lemma summarized_transfers:
  assumes "summarize_trace io traces results dir files = (Inr t, files1)" and "py_get t ''status'' = PStr ''observed''"
    and "csv_faithful io" and "results_read io files results raw_blocks" and later: "files_extend files1 files2"
  shows "transfers_recomputed io files2 (PDict t) raw_blocks" and "plain_value (PDict t)"
proof -
  obtain b0 b1 b2 b3 old new where blocks: "summarize_blocks io traces results dir BLOCKS files
        = (Inr [(''old-1'', b0), (''new-1'', b1), (''new-2'', b2), (''old-2'', b3)], files1)"
      and routes: "summarize_route (bk_samples b0 @ bk_samples b3) = Inr old" "summarize_route (bk_samples b1 @ bk_samples b2) = Inr new"
      and t: "t = summary_doc [(''old-1'', b0), (''new-1'', b1), (''new-2'', b2), (''old-2'', b3)] [(''old'', PDict old), (''new'', PDict new)]"
    using assms(1) by (rule summarize_traceE)
  obtain r0 r1 r2 r3 where raws: "raw_blocks = [r0, r1, r2, r3]"
    using assms(4) by (auto simp: results_read_def BLOCKS_def list_all2_Cons1)
  note each = four_blocks_verifiable [OF blocks assms(3) assms(4) [unfolded raws] later, unfolded verifiable_def]
  have "plain_value (PDict [(''old'', PDict old), (''new'', PDict new)])"
    using summarized_route_plain [OF routes(1)] summarized_route_plain [OF routes(2)] by simp
  then show "plain_value (PDict t)"
    unfolding t using each by (intro summary_doc_plain) (simp_all del: plain_value.simps)
  from assms(2) have observed: "bk_status b0 = ''observed''" "bk_status b1 = ''observed''" "bk_status b2 = ''observed''" "bk_status b3 = ''observed''"
    by (auto simp: t summary_doc_parts summary_status_def split: if_splits)
  have "verify_route (PDict t) (''old'', bk_samples b0 @ bk_samples b3) = Inr ()"
    unfolding t by (rule summarized_route_verified [OF routes(1) _ summary_doc_parts(2)])
      (use each observed in \<open>simp_all add: py_get_def\<close>)
  moreover have "verify_route (PDict t) (''new'', bk_samples b1 @ bk_samples b2) = Inr ()"
    unfolding t by (rule summarized_route_verified [OF routes(2) _ summary_doc_parts(2)])
      (use each observed in \<open>simp_all add: py_get_def\<close>)
  ultimately have "verify_route_summaries (PDict t) [(''old'', bk_samples b0 @ bk_samples b3), (''new'', bk_samples b1 @ bk_samples b2)] = Inr ()"
    by (simp add: verify_route_summaries_def)
  moreover have "list_all2 (\<lambda>(label, route, raw) samples.
        \<exists>b. py_get (map (\<lambda>(label, b). (label, PDict (block_doc b))) [(''old-1'', b0), (''new-1'', b1), (''new-2'', b2), (''old-2'', b3)]) label
            = PDict b \<and> recompute_transfer_block io files2 label route b raw = Inr samples)
      (zip BLOCK_LABELS (zip EXPECTED_ORDER raw_blocks)) [bk_samples b0, bk_samples b1, bk_samples b2, bk_samples b3]"
    using each observed by (simp add: BLOCK_LABELS_def EXPECTED_ORDER_def raws py_get_def)
  ultimately show "transfers_recomputed io files2 (PDict t) raw_blocks"
    unfolding transfers_recomputed_def using summary_doc_parts(3) unfolding t by blast
qed

section \<open>The pipeline\<close>

lemma pipeline_accepted:
  assumes "summarize_trace (an_io an) traces results dir files = (Inr t, files1)" and "py_get t ''status'' = PStr ''observed''"
    and "files_extend files1 files2" and "results_read (an_io an) files results blocks"
    and "map_res (load_json (an_io an) files2) (cp_blocks paths) = Inr blocks"
    and "load_json (an_io an) files2 (cp_transfer paths) = Inr (PDict t)"
    and "analyze an files2 paths = Inr doc" and "py_get doc ''pass'' = PBool True"
    and "load_json (an_io an) files2 (cp_profiler paths) = Inr profiler" and "profiler_counts profiler"
    and "csv_faithful (an_io an)" and "rounding (an_round an)"
  shows "\<exists>summary. validate_comparison an files2 (PDict doc) = Inr summary"
proof -
  note transfers = summarized_transfers [OF assms(1,2,11,4,3)]
  obtain blocks' profiler' transfer' where "map_res (load_json (an_io an) files2) (cp_blocks paths) = Inr blocks'"
      "load_json (an_io an) files2 (cp_profiler paths) = Inr profiler'" "load_json (an_io an) files2 (cp_transfer paths) = Inr transfer'"
    and accepted: "(\<exists>summary. validate_comparison an files2 (PDict doc) = Inr summary) \<longleftrightarrow>
      profiler_counts profiler' \<and> py_eq transfer' transfer' \<and> transfers_recomputed (an_io an) files2 transfer' blocks'"
    by (rule passed_analysis_checked [OF assms(7,8,12)])
  then have "blocks' = blocks" "profiler' = profiler" "transfer' = PDict t" using assms(5,6,9) by simp_all
  with accepted show ?thesis
    using transfers assms(10) plain_value_refl by blast
qed

text \<open>C36: what was measured is accepted. When the summarizer found the run observed, whatever the
  profiler's reports held, and the analysis read both summaries and the same benchmark results on
  the files as they are then, and passed, the verifier accepts the comparison: it finds every
  block, median, digest and artifact as recorded. The results must hold no \<open>nan\<close>; the \<open>csv\<close>
  module and the rounding must keep their contracts.\<close>

theorem measured_comparison_accepted:
  assumes "summarize_trace (an_io an) traces results dir files = (Inr t, files1)" and "py_get t ''status'' = PStr ''observed''"
    and "summarize_profile ms old_root new_root reason = Inr p"
    and "files_extend files1 files2" and "results_read (an_io an) files results blocks"
    and "map_res (load_json (an_io an) files2) (cp_blocks paths) = Inr blocks"
    and "load_json (an_io an) files2 (cp_transfer paths) = Inr (PDict t)"
    and "load_json (an_io an) files2 (cp_profiler paths) = Inr (PDict p)"
    and "analyze an files2 paths = Inr doc" and "py_get doc ''pass'' = PBool True"
    and "csv_faithful (an_io an)" and "rounding (an_round an)"
  shows "\<exists>summary. validate_comparison an files2 (PDict doc) = Inr summary"
  by (rule pipeline_accepted [OF assms(1,2,4,5,6,7,9,10,8) profile_summary_sound(2) [OF assms(3)] assms(11,12)])

end
