(* ===== verification/SummaryPasses.thy ===== *)
theory SummaryPasses
  imports ComparisonPipeline
begin

text \<open>
  The summarizer against the analysis: whatever summary it writes with status \<open>observed\<close>, the
  analysis finds no fault with it.
\<close>

section \<open>The samples of an observed block\<close>

text \<open>A sample that carries the bytes of its route's ABI, with copies that did not fail.\<close>

definition passing_sample :: "string \<Rightarrow> sample_summary \<Rightarrow> bool" where
  "passing_sample route x \<longleftrightarrow> ss_dataflow_status x = ''observed''
     \<and> ss_h2d_bytes x = ABI_BYTES route ''input'' \<and> ss_d2h_bytes x = ABI_BYTES route ''output''
     \<and> ss_total_bytes x = ABI_BYTES route ''input'' + ABI_BYTES route ''output''
     \<and> ss_runtime_status x \<in> {''observed'', ''observed_zero''}
     \<and> 0 \<le> ss_runtime_records x \<and> 0 \<le> ss_runtime_h2d_bytes x \<and> 0 \<le> ss_runtime_d2h_bytes x \<and> 0 \<le> ss_runtime_total_bytes x"

definition counts_from_zero :: "(string, int \<times> int) dict \<Rightarrow> bool" where
  "counts_from_zero d \<longleftrightarrow> (\<forall>(k, n, bytes) \<in> set d. 0 \<le> n \<and> 0 \<le> bytes)"

lemma update_values: "set (AList.update k v d) \<subseteq> insert (k, v) (set d)"
  by (induction d) auto

lemma add_directional_from_zero:
  assumes "counts_from_zero d" and "0 \<le> tc_bytes row"
  shows "counts_from_zero (add_directional row d)"
proof -
  have "counts_from_zero (AList.update k (n + 1, b + tc_bytes row) d)" if "map_of d k = Some (n, b)" for k n b
  proof -
    have "0 \<le> n + 1 \<and> 0 \<le> b + tc_bytes row"
      using map_of_SomeD [OF that] assms by (fastforce simp: counts_from_zero_def)
    then show ?thesis using assms(1) update_values [of k "(n + 1, b + tc_bytes row)" d] by (auto simp: counts_from_zero_def)
  qed
  with assms show ?thesis
    by (auto simp: add_directional_def split: option.split)
qed

lemma directional_totals_from_zero:
  assumes "\<forall>row \<in> set rows. 0 \<le> tc_bytes row"
  shows "counts_from_zero (directional_totals rows)"
proof -
  have "counts_from_zero d \<Longrightarrow> counts_from_zero (fold add_directional rows d)" for d
    using assms by (induction rows arbitrary: d) (auto intro: add_directional_from_zero)
  moreover have "counts_from_zero [(''host_to_device'', (0, 0)), (''device_to_host'', (0, 0))]"
    by (simp add: counts_from_zero_def)
  ultimately show ?thesis by (simp add: directional_totals_def)
qed

lemma directional_from_zero:
  assumes "\<forall>row \<in> set rows. 0 \<le> tc_bytes row"
  shows "0 \<le> snd (directional rows direction)" and "0 \<le> sum_list (map (snd \<circ> snd) (directional_totals rows))"
  using directional_totals_from_zero [OF assms]
  by (force simp: counts_from_zero_def directional_def dest: map_of_SomeD split: option.split intro!: sum_list_nonneg)+

lemma observed_sample_passes:
  assumes "dataflow_observed route rows" and "\<forall>row \<in> set rows. tc_status row = 0 \<and> 0 \<le> tc_bytes row"
    and "route \<in> {''old'', ''new''}"
  shows "passing_sample route (summarize_sample route i w rows)"
proof -
  have "\<forall>row \<in> set (with_apis RUNTIME_MEMCPY_APIS rows). 0 \<le> tc_bytes row"
      "failed_records (with_apis RUNTIME_MEMCPY_APIS rows) = 0"
    using assms(2) by (auto simp: with_apis_def no_failed_records)
  then show ?thesis
    using assms(1,3) directional_from_zero
    by (auto simp: passing_sample_def summarize_sample_def Let_def dataflow_observed_def expected_tensor_bytes_sum
        ABI_BYTES_def runtime_status_of_def)
qed

text \<open>A block of the summary that the analysis passes.\<close>

definition passing_block :: "string \<Rightarrow> block_summary \<Rightarrow> bool" where
  "passing_block route b \<longleftrightarrow> bk_route b = route \<and> bk_status b = ''observed'' \<and> bk_payload_status b = ''observed''
     \<and> bk_runtime_status b \<in> {''observed'', ''observed_zero''} \<and> length (bk_samples b) = 15
     \<and> (\<forall>x \<in> set (bk_samples b). passing_sample route x)"

lemma block_of_status:
  assumes "block_summary_of io files route trace result filtered calls s = Inr b" and "bk_status b = ''observed''"
  shows "bk_route b = route" and "bk_payload_status b = ''observed''" and "failed_records (measured_calls calls s) = 0"
    and "bk_runtime_status b = block_runtime_status (sn_samples s) False"
  using assms unfolding block_summary_of_def by (auto simp: rbind_Inr_iff Let_def split: if_splits)

lemma observed_block_passes:
  assumes "summarize_block io label trace result filtered files = (Inr b, files')"
    and "bk_status b = ''observed''" and "map_of ROUTES label = Some route"
  shows "passing_block route b"
proof -
  from assms(1) obtain calls ws where calls: "read_trace io files trace = Inr calls"
      and ws: "load_windows io files result = Inr ws"
      and b: "block_summary_of io files' route trace result filtered calls (block_scan label route calls ws) = Inr b"
    by (rule summarize_blockE) (use assms(3) in simp)
  have sound: "\<forall>c \<in> set calls. sound_call c" using read_trace_sound [OF calls] by blast
  have wf: "windows_wf ws" and n: "length ws = 15" using load_windows_spec [OF ws] list_all2_lengthD by metis+
  have route: "route \<in> {''old'', ''new''}" using assms(3) by (auto simp: ROUTES_def split: if_splits)
  note status = block_of_status [OF b assms(2)]
  have fine: "\<forall>row \<in> set (filter (inside w) calls). tc_status row = 0 \<and> 0 \<le> tc_bytes row" if "w \<in> set ws" for w
    using status(3) that sound unfolding no_failed_records block_measured_calls [OF wf sound] by (auto simp: sound_call_def)
  have each: "passing_sample route x" if x: "x \<in> set (bk_samples b)" for x
  proof -
    from x obtain i w where w: "(i, w) \<in> set (enumerate 0 ws)" and sample: "x = summarize_sample route i w (filter (inside w) calls)"
      unfolding block_of_rest(1) [OF b] block_scan_samples by auto
    from w have "i < length ws" "w = ws ! i" by (simp_all add: in_set_enumerate_eq)
    then have w: "w \<in> set ws" by simp
    have "ss_dataflow_status x = ''observed''"
      using x block_of_rest(13) [OF b assms(2)] unfolding block_of_rest(1) [OF b] by blast
    then show ?thesis
      unfolding sample by (intro observed_sample_passes [OF observed_sample fine [OF w] route])
  qed
  have "''invalid'' \<notin> set (map ss_runtime_status (bk_samples b))"
  proof
    assume "''invalid'' \<in> set (map ss_runtime_status (bk_samples b))"
    then obtain x where "x \<in> set (bk_samples b)" "ss_runtime_status x = ''invalid''" by auto
    with each [of x] show False by (simp add: passing_sample_def)
  qed
  then have "bk_runtime_status b \<in> {''observed'', ''observed_zero''}"
    unfolding status(4) block_of_rest(1) [OF b] by (simp add: block_runtime_status_def Let_def)
  then show ?thesis
    unfolding passing_block_def using status(1,2) assms(2) each n by (simp add: block_of_rest(1) [OF b] block_scan_samples)
qed

section \<open>The medians of an observed route\<close>

lemma median_all:
  assumes "median (map f xs) = Inr v" and "\<forall>x \<in> set xs. f x = n"
  shows "number v = Some (Fin (of_int n))"
proof -
  have "map f xs = replicate (length xs) n" using assms(2) by (auto intro: nth_equalityI)
  moreover have "length xs div 2 - 1 < length xs" if "xs \<noteq> []"
  proof -
    from that have "0 < length xs" by simp
    then show ?thesis by linarith
  qed
  ultimately show ?thesis
    using assms(1) by (auto simp: median_def Let_def sorted_sort_id split: if_splits)
qed

lemma median_from_zero:
  assumes "median (map f xs) = Inr v" and "\<forall>x \<in> set xs. 0 \<le> f x"
  shows "\<not> not_a_count v"
proof -
  define ys where "ys = sort (map f xs)"
  have pos: "0 \<le> ys ! i" if "i < length ys" for i
    using assms(2) nth_mem [OF that] by (auto simp: ys_def)
  from assms(1) have "ys \<noteq> []" by (auto simp: median_def ys_def Let_def)
  then have "0 < length ys" by simp
  then have i: "length ys div 2 < length ys" "length ys div 2 - 1 < length ys" by linarith+
  then have "0 \<le> (of_int (ys ! (length ys div 2)) :: rat)" "0 \<le> (of_int (ys ! (length ys div 2 - 1)) :: rat)"
    using pos by simp_all
  then show ?thesis
    using assms(1) by (auto simp: median_def Let_def ys_def [symmetric] not_a_count_def split: if_splits)
qed

lemma number_int_eq: "number v = Some (Fin (of_int n)) \<Longrightarrow> py_eq v (PInt n)"
  by (cases v) (auto simp: float_eq_def)

lemma value_get_or_found: "py_get d k = v \<Longrightarrow> v \<noteq> PNone \<Longrightarrow> value_get_or (PDict d) k w = Inr v"
  by (auto simp: value_get_or_def py_get_def split: option.splits)

lemma passing_route:
  assumes "summarize_route samples = Inr d" and "length samples = 30" and "\<forall>x \<in> set samples. passing_sample route x"
    and "py_get t ''routes'' = PDict routes" and "py_get routes route = PDict d"
  shows "route_failures (PDict t) route = Inr []"
proof -
  note get = summarized_route_get [OF assms(1)]
  have routes: "value_get_or (PDict t) ''routes'' (PDict []) = Inr (PDict routes)" "value_get_or (PDict routes) route (PDict []) = Inr (PDict d)"
    using assms(4,5) by (auto intro: value_get_or_found)
  have "set samples \<noteq> {}" using assms(2) by auto
  then have good: "good_statuses (status_set samples) = Inr True"
    using assms(3) by (auto simp: good_statuses_def status_set_def passing_sample_def is_list_def is_dict_def)
  have median: "median (map field samples) = Inr (py_get d (name @ ''_median''))" if "(name, field) \<in> set MEDIAN_FIELDS" for name field
    using get that by fastforce
  have equal: "py_eq (py_get d (name @ ''_median'')) (PInt n)"
    if "(name, field) \<in> set MEDIAN_FIELDS" and "\<And>x. passing_sample route x \<Longrightarrow> field x = n" for name field n
    using median_all [OF median [OF that(1)]] that(2) assms(3) by (auto intro: number_int_eq)
  have count: "\<not> not_a_count (py_get d (name @ ''_median''))"
    if "(name, field) \<in> set MEDIAN_FIELDS" and "\<And>x. passing_sample route x \<Longrightarrow> 0 \<le> field x" for name field
    using median_from_zero [OF median [OF that(1)]] that(2) assms(3) by auto
  have bytes: "\<forall>(field, n) \<in> set (expected_medians route). py_eq (py_get d field) (PInt n)"
    using equal [of "''dataflow_host_to_device_bytes''" ss_h2d_bytes] equal [of "''dataflow_device_to_host_bytes''" ss_d2h_bytes]
      equal [of "''dataflow_total_bytes''" ss_total_bytes]
    by (simp add: expected_medians_def MEDIAN_FIELDS_def passing_sample_def)
  have runtime: "\<forall>field \<in> set RUNTIME_MEDIANS. \<not> not_a_count (py_get d field)"
    using count [of "''runtime_memcpy_records''" ss_runtime_records] count [of "''runtime_memcpy_host_to_device_bytes''" ss_runtime_h2d_bytes]
      count [of "''runtime_memcpy_device_to_host_bytes''" ss_runtime_d2h_bytes]
      count [of "''runtime_memcpy_total_directional_bytes''" ss_runtime_total_bytes]
    by (simp add: RUNTIME_MEDIANS_def MEDIAN_FIELDS_def passing_sample_def)
  have "map_res (\<lambda>(field, expected). rbind (value_get (PDict d) field) (\<lambda>v.
       Inr (failing (\<not> py_eq v (PInt expected)) (f field)))) (expected_medians route) = Inr (map (\<lambda>_. []) (expected_medians route))" for f
    by (rule map_res_total) (use bytes in \<open>auto simp: failing_def\<close>)
  moreover have "map_res (\<lambda>field. rbind (value_get (PDict d) field) (\<lambda>v. Inr (failing (not_a_count v) (f field)))) RUNTIME_MEDIANS
      = Inr (map (\<lambda>_. []) RUNTIME_MEDIANS)" for f
    by (rule map_res_total) (use runtime in \<open>auto simp: failing_def\<close>)
  ultimately show ?thesis
    using assms(2) by (simp add: route_failures_def routes get good concat_Nil)
qed

section \<open>The blocks of an observed summary\<close>

lemma passing_sample_doc:
  assumes "passing_sample route x"
  shows "py_get (sample_doc x) ''dataflow_status'' = PStr ''observed''"
    and "py_get (sample_doc x) ''runtime_memcpy_status'' \<in> RUNTIME_STATUSES"
  using assms by (auto simp: sample_doc_def py_get_def passing_sample_def RUNTIME_STATUSES_def)

lemma passing_block_doc:
  assumes "passing_block route b" and "py_get bs label = PDict (block_doc b)"
  shows "transfer_block_failures (PDict bs) (label, route) = Inr []"
proof -
  have block: "value_get_or (PDict bs) label (PDict []) = Inr (PDict (block_doc b))"
    using assms(2) by (auto intro: value_get_or_found)
  have doc: "py_get (block_doc b) ''route'' = PStr (bk_route b)"
      "py_get (block_doc b) ''dataflow_tensor_payload_status'' = PStr (bk_payload_status b)"
      "py_get (block_doc b) ''samples'' = PList (map (PDict \<circ> sample_doc) (bk_samples b))"
    by (simp_all add: block_doc_def py_get_def)
  have "map_res (\<lambda>sample. rbind (value_get sample ''dataflow_status'') (\<lambda>dataflow.
      rbind (value_get sample ''runtime_memcpy_status'') (\<lambda>memcpy.
        Inr (failing (dataflow \<noteq> PStr ''observed'') f @ failing (memcpy \<notin> RUNTIME_STATUSES) g))))
      (map (PDict \<circ> sample_doc) (bk_samples b)) = Inr (map (\<lambda>_. []) (map (PDict \<circ> sample_doc) (bk_samples b)))" for f g
    by (rule map_res_total) (use assms(1) passing_sample_doc in \<open>auto simp: passing_block_def failing_def\<close>)
  then show ?thesis
    using assms(1)
    by (auto simp: transfer_block_failures_def block doc block_doc_get passing_block_def RUNTIME_STATUSES_def failing_def concat_Nil)
qed

lemma summarized_block_passes:
  assumes "summarized io label trace result first last_files b" and "bk_status b = ''observed''" and "map_of ROUTES label = Some route"
  shows "passing_block route b"
  using assms observed_block_passes unfolding summarized_def by blast

lemma four_blocks_pass:
  assumes "summarize_blocks io traces results dir BLOCKS files
      = (Inr [(''old-1'', b0), (''new-1'', b1), (''new-2'', b2), (''old-2'', b3)], files1)"
    and "bk_status b0 = ''observed''" "bk_status b1 = ''observed''" "bk_status b2 = ''observed''" "bk_status b3 = ''observed''"
  shows "passing_block ''old'' b0" and "passing_block ''new'' b1" and "passing_block ''new'' b2" and "passing_block ''old'' b3"
  using summarize_blocks_each [OF assms(1)] assms(2-5) unfolding BLOCKS_def
  by (auto simp: ROUTES_def intro: summarized_block_passes)

lemma passing_claims: "claim_failures (PDict (summary_doc bs routes)) = Inr (failing (summary_status bs \<noteq> ''observed'') ''dataflow-payload-not-observed'')"
  by (simp add: claim_failures_def summary_doc_def py_get_def failing_def)

text \<open>Whatever summary the summarizer writes as observed, the analysis finds no fault with: its
  medians are the bytes of the declared ABI, its copies did not fail, and its four blocks have
  15 observed epochs each.\<close>

lemma observed_transfers_pass:
  assumes "summarize_trace io traces results dir files = (Inr t, files1)" and "py_get t ''status'' = PStr ''observed''"
  shows "transfer_failures (PDict t) = Inr []"
proof -
  obtain b0 b1 b2 b3 old new where blocks: "summarize_blocks io traces results dir BLOCKS files
        = (Inr [(''old-1'', b0), (''new-1'', b1), (''new-2'', b2), (''old-2'', b3)], files1)"
      and routes: "summarize_route (bk_samples b0 @ bk_samples b3) = Inr old" "summarize_route (bk_samples b1 @ bk_samples b2) = Inr new"
      and t: "t = summary_doc [(''old-1'', b0), (''new-1'', b1), (''new-2'', b2), (''old-2'', b3)] [(''old'', PDict old), (''new'', PDict new)]"
    using assms(1) by (rule summarize_traceE)
  from assms(2) have status: "summary_status [(''old-1'', b0), (''new-1'', b1), (''new-2'', b2), (''old-2'', b3)] = ''observed''"
    by (simp add: t summary_doc_parts)
  then have "bk_status b0 = ''observed''" "bk_status b1 = ''observed''" "bk_status b2 = ''observed''" "bk_status b3 = ''observed''"
    by (auto simp: summary_status_def split: if_splits)
  note pass = four_blocks_pass [OF blocks this]
  have samples: "length (bk_samples b0 @ bk_samples b3) = 30" "length (bk_samples b1 @ bk_samples b2) = 30"
      "\<forall>x \<in> set (bk_samples b0 @ bk_samples b3). passing_sample ''old'' x"
      "\<forall>x \<in> set (bk_samples b1 @ bk_samples b2). passing_sample ''new'' x"
    using pass unfolding passing_block_def set_append by (simp_all add: ball_Un)
  have "route_failures (PDict t) ''old'' = Inr []"
    unfolding t by (rule passing_route [OF routes(1) samples(1,3) summary_doc_parts(2)]) (simp add: py_get_def)
  moreover have "route_failures (PDict t) ''new'' = Inr []"
    unfolding t by (rule passing_route [OF routes(2) samples(2,4) summary_doc_parts(2)]) (simp add: py_get_def)
  moreover define bs where "bs = map (\<lambda>(label, b). (label, PDict (block_doc b))) [(''old-1'', b0), (''new-1'', b1), (''new-2'', b2), (''old-2'', b3)]"
  have "transfer_block_failures (PDict bs) (''old-1'', ''old'') = Inr []" "transfer_block_failures (PDict bs) (''new-1'', ''new'') = Inr []"
      "transfer_block_failures (PDict bs) (''new-2'', ''new'') = Inr []" "transfer_block_failures (PDict bs) (''old-2'', ''old'') = Inr []"
    using pass [THEN passing_block_doc] by (simp_all add: bs_def py_get_def)
  moreover have "value_get_or (PDict t) ''blocks'' (PDict []) = Inr (PDict bs)"
    unfolding t bs_def by (rule value_get_or_found [OF summary_doc_parts(3)]) simp
  ultimately show ?thesis
    by (simp add: transfer_failures_def BLOCK_LABELS_def EXPECTED_ORDER_def passing_claims [folded t] t status failing_def)
qed

end
