(* ===== verification/ComparisonExample.thy ===== *)
theory ComparisonExample
  imports SummaryPasses TransferExample
begin

text \<open>
  A run of the four blocks that is summarized, compared and verified: the hypotheses of the
  properties of the comparison hold together.
\<close>

section \<open>The files\<close>

definition cx_fields :: "string \<Rightarrow> nat \<Rightarrow> (string \<times> pyval) list" where
  "cx_fields route i =
     [(''epoch_wall_clock_start_ns'', PInt (fst (example_window i))), (''epoch_wall_clock_end_ns'', PInt (snd (example_window i))),
       (''pass'', PBool True)]
     @ map (\<lambda>(field, n). (field, PInt n)) (sample_expectations route)
     @ map (\<lambda>field. (field, PInt (if route = ''old'' then 200 else 100))) MEASURED_FIELDS"

definition cx_sample :: "string \<Rightarrow> nat \<Rightarrow> pyval" where
  "cx_sample route i = PDict (cx_fields route i)"

definition cx_result :: "string \<Rightarrow> pyval" where
  "cx_result route = PDict
     [(''pass'', PBool True), (''route'', PStr route), (''samples'', PList (map (cx_sample route) [0..<15])),
      (''artifacts'', PDict [(''baseline_sha256'', PStr ''base'')]), (''resolved_classes'', PList [PStr ''ReduceScatter'']),
      (''repetitions'', PInt 15)]"

text \<open>The profiler exported no report.\<close>

definition cx_reports :: msprof_io where
  "cx_reports = \<lparr>ms_root = Inr, ms_csv_files = (\<lambda>_. []), ms_readable = (\<lambda>_. True), ms_rows = (\<lambda>_. ([], None))\<rparr>"

definition cx_profile :: "(string \<times> pyval) list" where
  "cx_profile = projr (summarize_profile cx_reports ''old'' ''new'' None)"

text \<open>The parser gives the transfer summary, whatever it is, for the text of its file.\<close>

definition cx_json :: "pyval \<Rightarrow> string \<Rightarrow> exn + pyval" where
  "cx_json transfer s = Inr
     (if s = ''old'' \<or> s = ''new'' then cx_result s
      else if s = ''profile'' then PDict cx_profile
      else if s = ''transfer'' then transfer
      else PDict [(''pass'', PBool True)])"

definition cx_io :: "pyval \<Rightarrow> evidence_io" where
  "cx_io transfer = \<lparr>io_csv_rows = tsv_rows, io_csv_text = tsv_text, io_json = cx_json transfer, io_dumps = (\<lambda>_. ''{}''), io_sha = id\<rparr>"

definition cx_files :: evidence where
  "cx_files =
     [(''trace-old'', tsv_text (TRACE_FIELDS # map call_fields (example_calls ''old''))),
      (''trace-new'', tsv_text (TRACE_FIELDS # map call_fields (example_calls ''new''))),
      (''result-old'', ''old''), (''result-new'', ''new''), (''semantic'', ''ok''), (''source'', ''ok''),
      (''profile'', ''profile''), (''transfer'', ''transfer'')]"

definition cx_traces :: "(string, string) dict" where
  "cx_traces = map (\<lambda>(label, route). (label, ''trace-'' @ route)) ROUTES"

definition cx_results :: "(string, string) dict" where
  "cx_results = map (\<lambda>(label, route). (label, ''result-'' @ route)) ROUTES"

section \<open>The summary\<close>

lemma cx_csv_faithful: "csv_faithful (cx_io v)"
  by (auto simp: csv_faithful_def cx_io_def intro!: tsv_read_back)

lemma cx_routes: "map_of ROUTES label = Some route \<Longrightarrow> route \<in> {''old'', ''new''}"
  by (auto simp: ROUTES_def split: if_splits)

lemma cx_trace:
  assumes "files_extend cx_files f" and "route \<in> {''old'', ''new''}"
  shows "read_trace (cx_io v) f (''trace-'' @ route) = Inr (example_calls route)"
proof (rule read_trace_written [OF cx_csv_faithful example_sound])
  have "map_of cx_files (''trace-'' @ route) = Some (tsv_text (TRACE_FIELDS # map call_fields (example_calls route)))"
    using assms(2) by (auto simp: cx_files_def)
  then show "map_of f (''trace-'' @ route) = Some (io_csv_text (cx_io v) (TRACE_FIELDS # map call_fields (example_calls route)))"
    using assms(1) by (simp add: files_extend_def cx_io_def)
qed

lemma cx_result_loads:
  assumes "files_extend cx_files f" and "route \<in> {''old'', ''new''}"
  shows "load_json (cx_io v) f (''result-'' @ route) = Inr (cx_result route)"
proof -
  have "map_of cx_files (''result-'' @ route) = Some route" using assms(2) by (auto simp: cx_files_def)
  then have "map_of f (''result-'' @ route) = Some route" using assms(1) by (simp add: files_extend_def)
  then show ?thesis using assms(2) by (auto simp: load_json_def read_evidence_def cx_io_def cx_json_def)
qed

lemma cx_windows:
  assumes "files_extend cx_files f" and "route \<in> {''old'', ''new''}"
  shows "load_windows (cx_io v) f (''result-'' @ route) = Inr (map example_window [0..<15])"
proof -
  have "python_int (py_get (case cx_sample route i of PDict d \<Rightarrow> d | _ \<Rightarrow> []) ''epoch_wall_clock_start_ns'') = Some (100 * int i + 1)"
      "python_int (py_get (case cx_sample route i of PDict d \<Rightarrow> d | _ \<Rightarrow> []) ''epoch_wall_clock_end_ns'') = Some (100 * int i + 99)" for i
    by (simp_all add: cx_sample_def cx_fields_def py_get_def example_window_def)
  then show ?thesis
    using cx_result_loads [OF assms]
    by (simp add: load_windows_def cx_result_def py_get_def example_window_def upt_rec cx_sample_def cx_fields_def)
qed

lemma summarize_block_cong:
  assumes "io_csv_rows io = io_csv_rows io'" and "io_csv_text io = io_csv_text io'" and "io_sha io = io_sha io'"
    and "load_windows io files result = load_windows io' files result"
  shows "summarize_block io label trace result filtered files = summarize_block io' label trace result filtered files"
proof -
  have "read_trace io = read_trace io'" "write_filtered io = write_filtered io'" "block_summary_of io = block_summary_of io'"
    using assms(1-3)
    by (intro ext, simp add: read_trace_def read_table_def write_filtered_def block_summary_of_def evidence_sha256_def)+
  then show ?thesis by (simp only: summarize_block_def assms(4))
qed

lemma cx_block:
  assumes "files_extend cx_files f" and "map_of f filtered = None" and "map_of ROUTES label = Some route"
  shows "\<exists>b f'. files_extend f f' \<and> (\<forall>p. p \<noteq> filtered \<longrightarrow> map_of f' p = map_of f p) \<and> bk_status b = ''observed''
    \<and> (\<forall>v. summarize_block (cx_io v) label (''trace-'' @ route) (''result-'' @ route) filtered f = (Inr b, f'))"
proof -
  note route = cx_routes [OF assms(3)]
  from example_block_observed [OF cx_trace [OF assms(1) route] cx_windows [OF assms(1) route] assms(2,3), of PNone]
  obtain b where b: "summarize_block (cx_io PNone) label (''trace-'' @ route) (''result-'' @ route) filtered f
      = (Inr b, AList.update filtered (io_csv_text (cx_io PNone) (FILTERED_TRACE_FIELDS # sn_filtered (example_scan label route))) f)"
      "bk_status b = ''observed''" by blast
  have "summarize_block (cx_io v) label (''trace-'' @ route) (''result-'' @ route) filtered f
      = summarize_block (cx_io PNone) label (''trace-'' @ route) (''result-'' @ route) filtered f" for v
  proof (rule summarize_block_cong)
    show "load_windows (cx_io v) f (''result-'' @ route) = load_windows (cx_io PNone) f (''result-'' @ route)"
      by (simp only: cx_windows [OF assms(1) route])
  qed (simp_all add: cx_io_def)
  with b show ?thesis
    using assms(2) by (intro exI conjI allI impI) (auto intro: files_extend_update simp: dict_simps)
qed

lemma cx_path: "path_join ''filtered'' (label @ ''.tsv'') = path_join ''filtered'' (label' @ ''.tsv'') \<longleftrightarrow> label = label'"
  if "map_of ROUTES label = Some route" and "map_of ROUTES label' = Some route'"
  using that by (auto simp: ROUTES_def path_join_def is_absolute_def split: if_splits)

lemma cx_blocks:
  assumes "files_extend cx_files f" and "distinct labels"
    and "\<forall>label \<in> set labels. \<exists>route. map_of ROUTES label = Some route"
    and "\<forall>label \<in> set labels. map_of f (path_join ''filtered'' (label @ ''.tsv'')) = None"
  shows "\<exists>bs f'. files_extend f f' \<and> (\<forall>(label, b) \<in> set bs. bk_status b = ''observed'') \<and> keys bs = labels
    \<and> (\<forall>v. summarize_blocks (cx_io v) cx_traces cx_results ''filtered'' labels f = (Inr bs, f'))"
  using assms
proof (induction labels arbitrary: f)
  case (Cons label labels)
  then obtain route where route: "map_of ROUTES label = Some route" by auto
  from cx_block [OF Cons.prems(1) _ route, of "path_join ''filtered'' (label @ ''.tsv'')"] Cons.prems(4)
  obtain b f1 where f1: "files_extend f f1" "\<forall>p. p \<noteq> path_join ''filtered'' (label @ ''.tsv'') \<longrightarrow> map_of f1 p = map_of f p"
      and b: "bk_status b = ''observed''" "\<And>v. summarize_block (cx_io v) label (''trace-'' @ route) (''result-'' @ route)
        (path_join ''filtered'' (label @ ''.tsv'')) f = (Inr b, f1)" by auto
  have fresh: "\<forall>l \<in> set labels. map_of f1 (path_join ''filtered'' (l @ ''.tsv'')) = None"
  proof
    fix l assume l: "l \<in> set labels"
    then obtain r where "map_of ROUTES l = Some r" using Cons.prems(3) by auto
    then have "path_join ''filtered'' (l @ ''.tsv'') \<noteq> path_join ''filtered'' (label @ ''.tsv'')"
      using cx_path [OF _ route] l Cons.prems(2) by auto
    with f1(2) l Cons.prems(4) show "map_of f1 (path_join ''filtered'' (l @ ''.tsv'')) = None" by simp
  qed
  have "files_extend cx_files f1" using Cons.prems(1) f1(1) by (rule files_extend_trans)
  with Cons.IH [OF this _ _ fresh] Cons.prems(2,3) obtain bs f' where rest: "files_extend f1 f'" "\<forall>(label, b) \<in> set bs. bk_status b = ''observed''"
      "keys bs = labels" "\<And>v. summarize_blocks (cx_io v) cx_traces cx_results ''filtered'' labels f1 = (Inr bs, f')" by auto
  have "dict_item cx_traces label = Inr (''trace-'' @ route)" "dict_item cx_results label = Inr (''result-'' @ route)"
    using route by (auto simp: cx_traces_def cx_results_def dict_item_def map_of_map)
  then have "summarize_blocks (cx_io v) cx_traces cx_results ''filtered'' (label # labels) f = (Inr ((label, b) # bs), f')" for v
    by (simp only: summarize_blocks.simps b(2) rest(4) sum.case prod.case)
  moreover have "files_extend f f'" using f1(1) rest(1) by (rule files_extend_trans)
  ultimately show ?case
    using rest(2,3) b(1) by (intro exI [of _ "(label, b) # bs"] exI [of _ f']) simp
qed auto

lemma summarize_route_total: "samples \<noteq> [] \<Longrightarrow> \<exists>d. summarize_route samples = Inr d"
proof -
  assume "samples \<noteq> []"
  then have "\<forall>field. \<exists>m. median (map field samples) = Inr m" by (simp add: median_total)
  then obtain m where "\<And>field. median (map field samples) = Inr (m field)" by metis
  then show ?thesis by (simp add: summarize_route_def MEDIAN_FIELDS_def)
qed

lemma cx_summary:
  "\<exists>t f. files_extend cx_files f \<and> py_get t ''status'' = PStr ''observed''
    \<and> (\<forall>v. summarize_trace (cx_io v) cx_traces cx_results ''filtered'' cx_files = (Inr t, f))"
proof -
  have "\<exists>bs f'. files_extend cx_files f' \<and> (\<forall>(label, b) \<in> set bs. bk_status b = ''observed'') \<and> keys bs = BLOCKS
    \<and> (\<forall>v. summarize_blocks (cx_io v) cx_traces cx_results ''filtered'' BLOCKS cx_files = (Inr bs, f'))"
    by (rule cx_blocks) (simp_all add: BLOCKS_def ROUTES_def cx_files_def path_join_def is_absolute_def)
  then obtain bs f where f: "files_extend cx_files f" and status: "\<forall>(label, b) \<in> set bs. bk_status b = ''observed''" and ks: "keys bs = BLOCKS"
      and bs: "\<And>v. summarize_blocks (cx_io v) cx_traces cx_results ''filtered'' BLOCKS cx_files = (Inr bs, f)" by auto
  from ks obtain b0 b1 b2 b3 where b: "bs = [(''old-1'', b0), (''new-1'', b1), (''new-2'', b2), (''old-2'', b3)]"
    by (auto simp: BLOCKS_def)
  have "length (bk_samples b0) = 15" "length (bk_samples b1) = 15"
    using four_blocks_pass [OF bs [unfolded b]] status by (auto simp: b passing_block_def)
  then have "bk_samples b0 @ bk_samples b3 \<noteq> []" "bk_samples b1 @ bk_samples b2 \<noteq> []" by auto
  then obtain old new where "summarize_route (bk_samples b0 @ bk_samples b3) = Inr old" "summarize_route (bk_samples b1 @ bk_samples b2) = Inr new"
    using summarize_route_total by blast
  then have "summarize_trace (cx_io v) cx_traces cx_results ''filtered'' cx_files
      = (Inr (summary_doc bs [(''old'', PDict old), (''new'', PDict new)]), f)" for v
    unfolding summarize_trace_def bs
    by (simp add: route_samples_def block_samples_def dict_item_def b)
  moreover have "summary_status bs = ''observed''" using status by (simp add: summary_status_def)
  then have "py_get (summary_doc bs [(''old'', PDict old), (''new'', PDict new)]) ''status'' = PStr ''observed''"
    by (simp add: summary_doc_parts)
  ultimately show ?thesis using f by blast
qed

section \<open>The analysis\<close>

definition cx_analysis :: "pyval \<Rightarrow> analysis_io" where
  "cx_analysis transfer = \<lparr>an_io = cx_io transfer, an_compact = (\<lambda>_. ''{}''), an_round = id\<rparr>"

definition cx_paths :: comparison_paths where
  "cx_paths = \<lparr>cp_blocks = [''result-old'', ''result-new'', ''result-new'', ''result-old''], cp_semantic = ''semantic'',
     cp_source = ''source'', cp_profiler = ''profile'', cp_transfer = ''transfer''\<rparr>"

definition cx_results_read :: "pyval list" where
  "cx_results_read = [cx_result ''old'', cx_result ''new'', cx_result ''new'', cx_result ''old'']"

lemma cx_loads:
  assumes "files_extend cx_files f"
  shows "map_res (load_json (cx_io v) f) (cp_blocks cx_paths) = Inr cx_results_read"
    and "load_json (cx_io v) f (cp_semantic cx_paths) = Inr (PDict [(''pass'', PBool True)])"
    and "load_json (cx_io v) f (cp_source cx_paths) = Inr (PDict [(''pass'', PBool True)])"
    and "load_json (cx_io v) f (cp_profiler cx_paths) = Inr (PDict cx_profile)"
    and "load_json (cx_io v) f (cp_transfer cx_paths) = Inr v"
proof -
  have loads: "load_json (cx_io v) f p = Inr x" if "load_json (cx_io v) cx_files p = Inr x" for p x
    using keptD [OF kept_load_json [OF assms] that] .
  have "load_json (cx_io v) cx_files ''result-old'' = Inr (cx_result ''old'')" "load_json (cx_io v) cx_files ''result-new'' = Inr (cx_result ''new'')"
    by (simp_all add: load_json_def read_evidence_def cx_files_def cx_io_def cx_json_def)
  then show "map_res (load_json (cx_io v) f) (cp_blocks cx_paths) = Inr cx_results_read"
    by (simp add: cx_paths_def cx_results_read_def loads)
  show "load_json (cx_io v) f (cp_semantic cx_paths) = Inr (PDict [(''pass'', PBool True)])"
      "load_json (cx_io v) f (cp_source cx_paths) = Inr (PDict [(''pass'', PBool True)])"
      "load_json (cx_io v) f (cp_profiler cx_paths) = Inr (PDict cx_profile)" "load_json (cx_io v) f (cp_transfer cx_paths) = Inr v"
    by (rule loads, simp add: cx_paths_def load_json_def read_evidence_def cx_files_def cx_io_def cx_json_def)+
qed

lemma cx_fields_get:
  "\<forall>field \<in> set MEASURED_FIELDS. map_of (cx_fields route i) field = Some (PInt (if route = ''old'' then 200 else 100))"
  "\<forall>(field, n) \<in> set (sample_expectations route). map_of (cx_fields route i) field = Some (PInt n)"
  "map_of (cx_fields route i) ''pass'' = Some (PBool True)"
  by (simp_all add: cx_fields_def MEASURED_FIELDS_def sample_expectations_def)

lemma cx_sample_valid: "validate_sample route (i, cx_sample route i) = Inr []"
proof -
  have "map_res (\<lambda>(field, v). rbind (value_get (cx_sample route i) field) (\<lambda>w. Inr (failing (\<not> py_eq w (PInt v)) (f field))))
      (sample_expectations route) = Inr (map (\<lambda>_. []) (sample_expectations route))" for f
    by (rule map_res_total) (use cx_fields_get(2) [of route i] in \<open>auto simp: cx_sample_def py_get_def failing_def\<close>)
  moreover have "map_res (\<lambda>field. rbind (value_get (cx_sample route i) field) (\<lambda>w.
      Inr (failing (case python_int w of None \<Rightarrow> True | Some i \<Rightarrow> i \<le> 0) (f field)))) MEASURED_FIELDS
      = Inr (map (\<lambda>_. []) MEASURED_FIELDS)" for f
    by (rule map_res_total) (use cx_fields_get(1) [of route i] in \<open>auto simp: cx_sample_def py_get_def failing_def\<close>)
  moreover have "value_get (cx_sample route i) ''pass'' = Inr (PBool True)"
    using cx_fields_get(3) [of route i] by (simp add: cx_sample_def py_get_def)
  ultimately show ?thesis by (simp add: validate_sample_def Let_def concat_Nil failing_def)
qed

lemma cx_block_valid: "validate_block (cx_result route) route = Inr []"
proof -
  have "map_res (validate_sample route) (enumerate 0 (map (cx_sample route) [0..<15]))
      = Inr (map (\<lambda>_. []) (enumerate 0 (map (cx_sample route) [0..<15])))"
    by (rule map_res_total) (auto simp: in_set_enumerate_eq cx_sample_valid)
  then show ?thesis
    by (simp add: validate_block_def cx_result_def py_get_def Let_def failing_def concat_Nil)
qed

lemma cx_blocks_valid: "blocks_failures cx_results_read = Inr []"
  by (simp add: blocks_failures_def cx_results_read_def EXPECTED_ORDER_def cx_block_valid)

lemma percentile_total: "ns \<noteq> [] \<Longrightarrow> \<exists>v. percentile rnd ns q = Inr v"
  using length_sort [of "\<lambda>x. x" ns] by (auto simp: percentile_def Let_def simp del: length_sort)

lemma stats_doc_total:
  assumes "ns \<noteq> []"
  shows "\<exists>d. stats_doc rnd ns = Inr d"
proof -
  obtain q1 m q3 where "percentile rnd ns (1 / 4) = Inr q1" "median ns = Inr m" "percentile rnd ns (3 / 4) = Inr q3"
    using percentile_total [OF assms] median_total [OF assms] by blast
  with assms show ?thesis by (simp add: stats_doc_def rounded_median_def)
qed

lemma cx_metrics: "\<exists>metrics. metrics_doc rnd cx_results_read = Inr metrics"
proof -
  define samples where "samples route = map (cx_sample route) [0..<15]" for route
  have raw: "raw_route_samples cx_results_read 0 3 = Inr (samples ''old'' @ samples ''old'')"
      "raw_route_samples cx_results_read 1 2 = Inr (samples ''new'' @ samples ''new'')"
    by (simp_all add: raw_route_samples_def cx_results_read_def value_get_or_def cx_result_def value_concat_def samples_def)
  have n: "length (samples route) = 15" for route by (simp add: samples_def)
  have int: "raw_int (cx_sample route i) field = Inr (if route = ''old'' then 200 else 100)" if "field \<in> set MEASURED_FIELDS" for field route i
    using cx_fields_get(1) [of route i] that by (simp add: cx_sample_def raw_int_def value_item_def dict_item_def)
  have ints: "sample_ints field (samples route @ samples route)
      = Inr (map (\<lambda>_. if route = ''old'' then 200 else 100) (samples route @ samples route))"
    if "field \<in> set MEASURED_FIELDS" for field route
    unfolding sample_ints_def by (rule map_res_total) (use int [OF that, of route] in \<open>auto simp: samples_def\<close>)
  have ne: "map (\<lambda>_. k) (samples route @ samples route) \<noteq> []" for k :: int and route by (simp add: samples_def)
  have each: "\<exists>y. metric_doc rnd (samples ''old'' @ samples ''old'') (samples ''new'' @ samples ''new'') field = Inr y"
    if field: "field \<in> set MEASURED_FIELDS" for field
  proof -
    obtain d e where "stats_doc rnd (map (\<lambda>_. 200) (samples ''old'' @ samples ''old'')) = Inr d"
        "stats_doc rnd (map (\<lambda>_. 100) (samples ''new'' @ samples ''new'')) = Inr e"
      using stats_doc_total [OF ne] by blast
    with ints [OF field, of "''old''"] ints [OF field, of "''new''"] show ?thesis
      by (simp add: metric_doc_def del: map_append)
  qed
  then have "\<exists>ms. map_res (metric_doc rnd (samples ''old'' @ samples ''old'') (samples ''new'' @ samples ''new'')) fields = Inr ms"
    if "set fields \<subseteq> set MEASURED_FIELDS" for fields
    using that by (induction fields) (auto simp: rbind_Inr_iff)
  then show ?thesis by (simp add: metrics_doc_def raw n del: One_nat_def)
qed

section \<open>The analysis passes\<close>

lemma cx_controls:
  "baseline_hashes cx_results_read = Inr [PStr ''base'']"
  "map_res (\<lambda>block. value_get block ''resolved_classes'') cx_results_read = Inr (replicate 4 (PList [PStr ''ReduceScatter'']))"
  "map_res (\<lambda>block. value_get block ''repetitions'') cx_results_read = Inr (replicate 4 (PInt 15))"
  "control_failures (cx_analysis v) [PStr ''base''] (replicate 4 (PList [PStr ''ReduceScatter''])) (replicate 4 (PInt 15)) = []"
  by (simp_all add: baseline_hashes_def cx_results_read_def cx_result_def value_get_or_def py_get_def is_list_def is_dict_def
      Let_def numeral_eq_Suc control_failures_def failing_def cx_analysis_def)

lemma cx_entries:
  assumes "files_extend cx_files f"
  shows "\<exists>v. file_doc (cx_io t) f (cp_semantic cx_paths) es = Inr v" and "\<exists>v. file_doc (cx_io t) f (cp_source cx_paths) es = Inr v"
    and "\<exists>v. file_doc (cx_io t) f (cp_profiler cx_paths) es = Inr v" and "\<exists>v. file_doc (cx_io t) f (cp_transfer cx_paths) es = Inr v"
    and "\<exists>vs. map_res (\<lambda>(path, route). file_doc (cx_io t) f path [(''route'', PStr route)]) (zip (cp_blocks cx_paths) EXPECTED_ORDER) = Inr vs"
proof -
  have doc: "\<exists>v. file_doc (cx_io t) f p es = Inr v" if "map_of cx_files p = Some s" for p s es
    using assms that by (auto simp: file_doc_Inr files_extend_def)
  show "\<exists>v. file_doc (cx_io t) f (cp_semantic cx_paths) es = Inr v" "\<exists>v. file_doc (cx_io t) f (cp_source cx_paths) es = Inr v"
      "\<exists>v. file_doc (cx_io t) f (cp_profiler cx_paths) es = Inr v" "\<exists>v. file_doc (cx_io t) f (cp_transfer cx_paths) es = Inr v"
    by (rule doc, simp add: cx_paths_def cx_files_def)+
  have "\<exists>v. file_doc (cx_io t) f ''result-old'' es = Inr v" "\<exists>v. file_doc (cx_io t) f ''result-new'' es = Inr v" for es
    by (rule doc, simp add: cx_files_def)+
  then obtain a b where "file_doc (cx_io t) f ''result-old'' [(''route'', PStr ''old'')] = Inr a"
      "file_doc (cx_io t) f ''result-new'' [(''route'', PStr ''new'')] = Inr b" by blast
  then show "\<exists>vs. map_res (\<lambda>(path, route). file_doc (cx_io t) f path [(''route'', PStr route)]) (zip (cp_blocks cx_paths) EXPECTED_ORDER) = Inr vs"
    by (simp add: cx_paths_def EXPECTED_ORDER_def)
qed

lemma cx_profile_summary: "summarize_profile cx_reports ''old'' ''new'' None = Inr cx_profile"
  by (simp add: cx_profile_def summarize_profile_def scan_route_def cx_reports_def)

lemmas cx_profiler = profile_summary_sound [OF cx_profile_summary]

lemma cx_analyze:
  assumes "files_extend cx_files f" and "transfer_failures t = Inr []"
  shows "\<exists>doc. analyze (cx_analysis t) f cx_paths = Inr doc \<and> py_get doc ''pass'' = PBool True"
proof -
  obtain metrics where metrics: "metrics_doc id cx_results_read = Inr metrics" using cx_metrics by blast
  obtain d1 d2 d3 d4 ds where entries: "file_doc (cx_io t) f (cp_semantic cx_paths) [(''pass'', PBool True)] = Inr d1"
      "file_doc (cx_io t) f (cp_source cx_paths) [(''pass'', PBool True)] = Inr d2"
      "file_doc (cx_io t) f (cp_profiler cx_paths) [] = Inr d3" "file_doc (cx_io t) f (cp_transfer cx_paths) [] = Inr d4"
      "map_res (\<lambda>(path, route). file_doc (cx_io t) f path [(''route'', PStr route)]) (zip (cp_blocks cx_paths) EXPECTED_ORDER) = Inr ds"
    using cx_entries [OF assms(1)] by metis
  have ok: "value_get (PDict [(''pass'', PBool True)]) ''pass'' = Inr (PBool True)" by (simp add: py_get_def)
  have fields: "an_io (cx_analysis t) = cx_io t" "an_round (cx_analysis t) = id" by (simp_all add: cx_analysis_def)
  show ?thesis
    unfolding analyze_def Let_def fields cx_loads [OF assms(1)] rbind_simps cx_blocks_valid ok cx_profiler(1) assms(2) metrics cx_controls
      comparison_doc_def entries
    by (simp add: py_get_def failing_def)
qed

text \<open>The run: the summary, the files it leaves, and a comparison that passed.\<close>

lemma cx_run:
  obtains t f doc where "summarize_trace (cx_io (PDict t)) cx_traces cx_results ''filtered'' cx_files = (Inr t, f)"
    and "py_get t ''status'' = PStr ''observed''" and "files_extend cx_files f"
    and "analyze (cx_analysis (PDict t)) f cx_paths = Inr doc" and "py_get doc ''pass'' = PBool True"
proof -
  obtain t f where t: "files_extend cx_files f" "py_get t ''status'' = PStr ''observed''"
      "\<And>v. summarize_trace (cx_io v) cx_traces cx_results ''filtered'' cx_files = (Inr t, f)"
    using cx_summary by blast
  obtain doc where "analyze (cx_analysis (PDict t)) f cx_paths = Inr doc" "py_get doc ''pass'' = PBool True"
    using cx_analyze [OF t(1) observed_transfers_pass [OF t(3,2)]] by blast
  with t show thesis by (intro that) auto
qed

section \<open>The properties at the run\<close>

lemma cx_sample_plain: "plain_value (cx_sample route i)"
  by (simp add: cx_sample_def cx_fields_def sample_expectations_def MEASURED_FIELDS_def)

lemma cx_result_plain: "plain_value (cx_result route)"
  using cx_sample_plain by (simp add: cx_result_def)

lemma cx_results_all: "results_read (cx_io v) cx_files cx_results cx_results_read"
  using cx_result_loads [of cx_files] cx_result_plain
  by (simp add: results_read_def BLOCKS_def cx_results_read_def cx_results_def ROUTES_def)

lemma cx_analysis_simps: "an_io (cx_analysis t) = cx_io t" "an_round (cx_analysis t) = id"
  by (simp_all add: cx_analysis_def)

lemma cx_rounding: "rounding id"
  by (simp add: rounding_def mono_def)

text \<open>The comparison of the run is accepted.\<close>

lemma cx_accepted:
  obtains t f doc summary where "files_extend cx_files f" and "analyze (cx_analysis (PDict t)) f cx_paths = Inr doc"
    and "py_get doc ''pass'' = PBool True" and "validate_comparison (cx_analysis (PDict t)) f (PDict doc) = Inr summary"
proof -
  obtain t f doc where t: "summarize_trace (cx_io (PDict t)) cx_traces cx_results ''filtered'' cx_files = (Inr t, f)"
      "py_get t ''status'' = PStr ''observed''" and f: "files_extend cx_files f"
      and doc: "analyze (cx_analysis (PDict t)) f cx_paths = Inr doc" "py_get doc ''pass'' = PBool True"
    by (rule cx_run)
  have "\<exists>summary. validate_comparison (cx_analysis (PDict t)) f (PDict doc) = Inr summary"
    by (rule pipeline_accepted [of "cx_analysis (PDict t)" cx_traces cx_results "''filtered''" cx_files t f f cx_results_read cx_paths doc "PDict cx_profile"])
      (simp_all only: cx_analysis_simps t doc cx_loads [OF f] cx_results_all cx_profiler(2) cx_csv_faithful cx_rounding files_extend_refl)
  with f doc show thesis by (blast intro: that)
qed

theorem measured_comparison_accepted_witness:
  "\<exists>t f doc summary. analyze (cx_analysis (PDict t)) f cx_paths = Inr doc
    \<and> validate_comparison (cx_analysis (PDict t)) f (PDict doc) = Inr summary"
proof -
  obtain t f doc where t: "summarize_trace (cx_io (PDict t)) cx_traces cx_results ''filtered'' cx_files = (Inr t, f)"
      "py_get t ''status'' = PStr ''observed''" and f: "files_extend cx_files f"
      and doc: "analyze (cx_analysis (PDict t)) f cx_paths = Inr doc" "py_get doc ''pass'' = PBool True"
    by (rule cx_run)
  have "\<exists>summary. validate_comparison (cx_analysis (PDict t)) f (PDict doc) = Inr summary"
    by (rule measured_comparison_accepted [of "cx_analysis (PDict t)" cx_traces cx_results "''filtered''" cx_files t f cx_reports "''old''" "''new''"
        None cx_profile f cx_results_read cx_paths doc])
      (simp_all only: cx_analysis_simps t doc cx_loads [OF f] cx_results_all cx_profile_summary cx_csv_faithful cx_rounding files_extend_refl)
  with doc(1) show ?thesis by blast
qed



end
