(* ===== verification/Preparation.thy ===== *)
theory Preparation
  imports Evidence
begin

text \<open>
  \<open>prepare_resource_config.py\<close> and \<open>prepare_runtime_config.py\<close>: a template is read, checked and
  written again with the device, the deploy path or the workspace of this host in it.
\<close>

section \<open>The resource configuration\<close>

text \<open>The only element of what should be a list of one.\<close>

definition single_element :: "pyval \<Rightarrow> string \<Rightarrow> exn + pyval" where
  "single_element v message = (case v of PList [x] \<Rightarrow> Inr x | _ \<Rightarrow> Inl (ValueError message))"

text \<open>
  The code changes the innermost dictionaries in place; here the documents around them are built
  again, with every key in its place.
\<close>

definition place_device :: "int \<Rightarrow> string \<Rightarrow> (string \<times> pyval) list \<Rightarrow> (string \<times> pyval) list \<Rightarrow> (string \<times> pyval) list
    \<Rightarrow> (string \<times> pyval) list \<Rightarrow> pyval" where
  "place_device npu deploy payload cluster node item =
     (let item' = AList.update ''device_id'' (PInt npu) item;
          node' = AList.update ''deploy_res_path'' (PStr deploy) (AList.update ''item_list'' (PList [PDict item']) node);
          cluster' = AList.update ''cluster_nodes'' (PList [PDict node']) cluster
      in PDict (AList.update ''cluster'' (PList [PDict cluster']) payload))"

definition as_dict :: "pyval \<Rightarrow> (string \<times> pyval) list" where
  "as_dict v = (case v of PDict d \<Rightarrow> d | _ \<Rightarrow> [])"

definition prepare_resource_config ::
  "evidence_io \<Rightarrow> evidence \<Rightarrow> (string \<Rightarrow> exn + string) \<Rightarrow> string \<Rightarrow> int \<Rightarrow> string \<Rightarrow> exn + pyval" where
  "prepare_resource_config io files resolve_path template npu deploy_root =
     (if npu < 0 then Inl (ValueError ''physical NPU ID must be non-negative'')
      else
        rbind (load_json io files template) (\<lambda>payload.
        rbind (value_get payload ''cluster'') (\<lambda>clusters.
        rbind (single_element clusters ''resource template must contain exactly one cluster'') (\<lambda>cluster.
        rbind (value_get cluster ''cluster_nodes'') (\<lambda>nodes.
        rbind (single_element nodes ''resource template must contain exactly one cluster node'') (\<lambda>node.
        rbind (value_get node ''item_list'') (\<lambda>items.
        rbind (single_element items ''resource template must contain exactly one device item'') (\<lambda>item.
          if \<not> is_dict item \<or> \<not> py_eq (py_get (as_dict item) ''item_id'') (PInt 0) then
            Inl (ValueError ''resource template device item must have logical item_id 0'')
          else
            rbind (resolve_path deploy_root) (\<lambda>deploy.
              Inr (place_device npu deploy (as_dict payload) (as_dict cluster) (as_dict node) (as_dict item)))))))))))"

definition resource_main ::
  "evidence_io \<Rightarrow> (string \<Rightarrow> exn + string) \<Rightarrow> (string \<Rightarrow> exn + string) \<Rightarrow> string \<Rightarrow> int \<Rightarrow> string \<Rightarrow> string \<Rightarrow> evidence
   \<Rightarrow> (exn + int) \<times> evidence" where
  "resource_main io resolve_strict resolve_path template npu deploy_root output files =
     (case rbind (resolve_strict template) (\<lambda>t. prepare_resource_config io files resolve_path t npu deploy_root) of
        Inl e \<Rightarrow> (Inl e, files)
      | Inr payload \<Rightarrow>
          (case resolve_path output of
             Inl e \<Rightarrow> (Inl e, files)
           | Inr out \<Rightarrow> (Inr 0, AList.update out (io_dumps io payload) files)))"

section \<open>The runtime configuration\<close>

definition CONTROLLER_SOURCES :: "string list" where
  "CONTROLLER_SOURCES = [''CMakeLists.txt'', ''g4c_b4_resident_epoch.cpp'']"

definition prepare_runtime_config ::
  "evidence_io \<Rightarrow> evidence \<Rightarrow> (string \<Rightarrow> exn + string) \<Rightarrow> string \<Rightarrow> string \<Rightarrow> exn + pyval" where
  "prepare_runtime_config io files resolve_strict template controller =
     rbind (resolve_strict controller) (\<lambda>workspace.
     if \<not> prefix ''/dev/shm/'' workspace then Inl (RuntimeError ''controller workspace must be under /dev/shm'')
     else
       rbind (for_each (\<lambda>name.
           if map_of files (path_join workspace name) = None
           then Inl (RuntimeError (''missing controller source: '' @ path_join workspace name)) else Inr ()) CONTROLLER_SOURCES) (\<lambda>_.
       rbind (load_json io files template) (\<lambda>config.
         case config of
           PDict d \<Rightarrow> Inr (PDict (AList.update ''workspace'' (PStr workspace) d))
         | _ \<Rightarrow> Inl (TypeError ''object does not support item assignment''))))"

definition runtime_config_main ::
  "evidence_io \<Rightarrow> (string \<Rightarrow> exn + string) \<Rightarrow> string \<Rightarrow> string \<Rightarrow> string \<Rightarrow> evidence \<Rightarrow> (exn + int) \<times> evidence" where
  "runtime_config_main io resolve_strict template controller output files =
     (case prepare_runtime_config io files resolve_strict template controller of
        Inl e \<Rightarrow> (Inl e, files)
      | Inr config \<Rightarrow> (Inr 0, AList.update output (io_dumps io config) files))"

section \<open>What they prepare\<close>

lemma single_element_Inr [res_simps]: "single_element v m = Inr x \<longleftrightarrow> v = PList [x]"
  by (auto simp: single_element_def split: pyval.splits list.splits)

lemma value_get_dict_Inr: "value_get v k = Inr x \<longleftrightarrow> (\<exists>d. v = PDict d \<and> py_get d k = x)"
  by (cases v) (auto simp: value_get_def)

lemma update_twice: "AList.update k v (AList.update k w d) = AList.update k v d"
  by (induction d) auto

lemma update_same: "map_of d k = Some v \<Longrightarrow> AList.update k v d = d"
  by (induction d) (auto split: if_splits)

text \<open>A prepared configuration is a template again, and preparing it for the same device changes nothing.\<close>

lemma prepared_again:
  assumes "prepare_resource_config io files resolve_path template npu deploy_root = Inr payload"
    and "load_json io files' template' = Inr payload"
  shows "prepare_resource_config io files' resolve_path template' npu deploy_root = Inr payload"
proof -
  from assms(1) obtain p c n i deploy where p: "py_get p ''cluster'' = PList [PDict c]" "py_get c ''cluster_nodes'' = PList [PDict n]"
      "py_get n ''item_list'' = PList [PDict i]" "py_eq (py_get i ''item_id'') (PInt 0)" "0 \<le> npu"
      and deploy: "resolve_path deploy_root = Inr deploy" and payload: "payload = place_device npu deploy p c n i"
    by (auto intro!: that simp: prepare_resource_config_def rbind_Inr_iff value_get_dict_Inr single_element_Inr is_dict_def as_dict_def
        split: if_splits pyval.splits)
  have same: "AList.update k v (AList.update k v d) = AList.update k v d" for k v and d :: "(string \<times> pyval) list"
    by (rule update_twice)
  have swap: "AList.update ''item_list'' w (AList.update ''deploy_res_path'' v (AList.update ''item_list'' w d))
      = AList.update ''deploy_res_path'' v (AList.update ''item_list'' w d)" for v w and d :: "(string \<times> pyval) list"
    by (rule update_same) (simp add: dict_simps)
  show ?thesis
    using p deploy assms(2)
    by (simp add: prepare_resource_config_def payload place_device_def Let_def py_get_update single_element_def is_dict_def as_dict_def
        same swap)
qed

text \<open>What is prepared names a controller whose sources are there, and differs from the template in the workspace only.\<close>

lemma prepared_runtime:
  assumes "prepare_runtime_config io files resolve_strict template controller = Inr config"
  obtains workspace d where "resolve_strict controller = Inr workspace" and "prefix ''/dev/shm/'' workspace"
    and "\<forall>name \<in> set CONTROLLER_SOURCES. map_of files (path_join workspace name) \<noteq> None"
    and "load_json io files template = Inr (PDict d)" and "config = PDict (AList.update ''workspace'' (PStr workspace) d)"
  using assms
  by (auto simp: prepare_runtime_config_def rbind_Inr_iff for_each_ok split: if_splits pyval.splits)

end
