(* ===== verification/NativeRuns.thy ===== *)
theory NativeRuns
  imports Comparison Doctor Worker
begin

text \<open>
  What the scripts share that drive vLLM on the hardware and record what it did
  (\<open>run_scheduler_native.py\<close>, \<open>run_engine_core_native.py\<close>, \<open>run_multi_epoch_cohort.py\<close>): the
  engine core they call, the clocks, the document they fill in, the frozen tokens of an earlier
  run and the records of an engine's outputs. vLLM's \<open>EngineCore\<close> is a parameter.
\<close>

section \<open>Runs\<close>

text \<open>A run may raise, and leaves a state in either case.\<close>

type_synonym ('a, 's) run = "'s \<Rightarrow> (exn + 'a) \<times> 's"

definition run_return :: "'a \<Rightarrow> ('a, 's) run" where
  "run_return x s = (Inr x, s)"

definition run_of :: "exn + 'a \<Rightarrow> ('a, 's) run" where
  "run_of r s = (r, s)"

definition run_bind :: "('a, 's) run \<Rightarrow> ('a \<Rightarrow> ('b, 's) run) \<Rightarrow> ('b, 's) run" where
  "run_bind a k s = (case a s of (Inl e, t) \<Rightarrow> (Inl e, t) | (Inr x, t) \<Rightarrow> k x t)"

definition run_if :: "bool \<Rightarrow> exn \<Rightarrow> (unit, 's) run" where
  "run_if c e = (if c then run_of (Inl e) else run_return ())"

text \<open>\<open>if not isinstance(v, ...): raise e\<close>, and the value.\<close>

definition run_some :: "'a option \<Rightarrow> exn \<Rightarrow> ('a, 's) run" where
  "run_some v e = (case v of None \<Rightarrow> run_of (Inl e) | Some x \<Rightarrow> run_return x)"

named_theorems run_simps

lemma run_bind_Inr [run_simps]:
  "run_bind a k s = (Inr y, u) \<longleftrightarrow> (\<exists>x t. a s = (Inr x, t) \<and> k x t = (Inr y, u))"
  by (simp add: run_bind_def split: prod.split sum.split)

lemma run_bindE:
  assumes "run_bind a k s = (Inr y, u)"
  obtains x t where "a s = (Inr x, t)" and "k x t = (Inr y, u)"
  using assms by (auto simp: run_bind_Inr)

lemma run_return_Inr [run_simps]: "run_return x s = (Inr y, t) \<longleftrightarrow> y = x \<and> t = s"
  by (auto simp: run_return_def)

lemma run_of_Inr [run_simps]: "run_of r s = (Inr y, t) \<longleftrightarrow> r = Inr y \<and> t = s"
  by (auto simp: run_of_def)

lemma run_if_Inr [run_simps]: "run_if c e s = (Inr y, t) \<longleftrightarrow> \<not> c \<and> t = s"
  by (auto simp: run_if_def run_of_def run_return_def)

lemma run_some_Inr [run_simps]: "run_some v e s = (Inr x, t) \<longleftrightarrow> v = Some x \<and> t = s"
  by (auto simp: run_some_def run_of_def run_return_def split: option.split)

lemma run_bind_next: "a s = (Inr x, t) \<Longrightarrow> run_bind a k s = k x t"
  by (simp add: run_bind_def)

section \<open>Requests and settings\<close>

definition DEFAULT_EOS_TOKEN_ID :: int where "DEFAULT_EOS_TOKEN_ID = 151645"
definition DEFAULT_INPUT_TOKEN_ID :: int where "DEFAULT_INPUT_TOKEN_ID = 11690"
definition NATIVE_BATCH_SIZE :: int where "NATIVE_BATCH_SIZE = 4"
definition NATIVE_BLOCK_SIZE :: int where "NATIVE_BLOCK_SIZE = 128"

definition SCHEDULER_QUALNAME :: string where
  "SCHEDULER_QUALNAME = ''vllm_ascend_resident_epoch.scheduler.ResidentEpochScheduler''"

text \<open>The arguments of vLLM's \<open>Request\<close> and \<open>SamplingParams\<close>.\<close>

record new_request =
  nr_request_id :: string
  nr_client_index :: int
  nr_prompt_token_ids :: "int list"
  nr_temperature :: pyval
  nr_max_tokens :: int
  nr_eos_token_id :: int

definition make_request :: "string \<Rightarrow> int \<Rightarrow> int \<Rightarrow> int \<Rightarrow> int \<Rightarrow> new_request" where
  "make_request request_id client_index max_tokens eos_token_id input_token_id =
     \<lparr>nr_request_id = request_id, nr_client_index = client_index, nr_prompt_token_ids = [input_token_id],
      nr_temperature = PFloat (Fin 0), nr_max_tokens = max_tokens, nr_eos_token_id = eos_token_id\<rparr>"

text \<open>The arguments of vLLM's configuration classes.\<close>

record vllm_settings =
  es_model :: string
  es_trust_remote_code :: bool
  es_dtype :: string
  es_seed :: int
  es_skip_tokenizer_init :: bool
  es_max_model_len :: int
  es_max_num_seqs :: int
  es_max_num_batched_tokens :: int
  es_enable_chunked_prefill :: bool
  es_async_scheduling :: bool
  es_block_size :: int
  es_gpu_memory_utilization :: rat
  es_cache_dtype :: string
  es_enable_prefix_caching :: bool
  es_num_gpu_blocks :: int
  es_tensor_parallel_size :: int
  es_pipeline_parallel_size :: int
  es_scheduler_cls :: "string option"
  es_worker_cls :: "string option"
  es_executor_backend :: "string option"

definition make_vllm_config :: "string \<Rightarrow> vllm_settings" where
  "make_vllm_config model =
     \<lparr>es_model = model, es_trust_remote_code = True, es_dtype = ''bfloat16'', es_seed = 42,
      es_skip_tokenizer_init = True, es_max_model_len = NATIVE_BLOCK_SIZE,
      es_max_num_seqs = NATIVE_BATCH_SIZE, es_max_num_batched_tokens = NATIVE_BLOCK_SIZE,
      es_enable_chunked_prefill = False, es_async_scheduling = False, es_block_size = NATIVE_BLOCK_SIZE,
      es_gpu_memory_utilization = 9 / 10, es_cache_dtype = ''auto'', es_enable_prefix_caching = False,
      es_num_gpu_blocks = 8, es_tensor_parallel_size = 1, es_pipeline_parallel_size = 1,
      es_scheduler_cls = None, es_worker_cls = None, es_executor_backend = None\<rparr>"

definition make_engine_vllm_config :: "string \<Rightarrow> vllm_settings" where
  "make_engine_vllm_config model =
     (make_vllm_config model)\<lparr>es_scheduler_cls := Some SCHEDULER_QUALNAME,
       es_worker_cls := Some RESIDENT_WORKER_QUALNAME, es_executor_backend := Some ''uni''\<rparr>"

section \<open>The engine core\<close>

text \<open>What a script reads of a request, and of an output of the engine.\<close>

record request_state =
  qs_status :: string
  qs_computed :: int
  qs_outputs :: int
  qs_all_token_ids :: "int list"

datatype finish_reason = HasValue pyval | Plain pyval

record core_output =
  co_request_id :: string
  co_new_token_ids :: "int list"
  co_finish_reason :: finish_reason
  co_stop_reason :: pyval

type_synonym core_outputs = "(int, core_output list) dict"

text \<open>
  \<open>EngineCore\<close>, the objects reached from it and \<open>torch.distributed\<close>, over a state of their own.
  \<open>ec_last_plan\<close> and \<open>ec_last_result\<close> are what the scheduler's attributes hold when they are a
  plan and a result.
\<close>

record 'e engine_core =
  ec_configure :: "vllm_settings \<Rightarrow> (unit, 'e) run"
  ec_create :: "(unit, 'e) run"
  ec_shutdown :: "(unit, 'e) run"
  ec_destroy :: "(unit, 'e) run"
  ec_distributed :: "'e \<Rightarrow> bool"
  ec_scheduler_class :: "'e \<Rightarrow> string"
  ec_executor_class :: "'e \<Rightarrow> string"
  ec_worker_class :: "'e \<Rightarrow> string"
  ec_resident_scheduler :: "'e \<Rightarrow> bool"
  ec_uniproc_executor :: "'e \<Rightarrow> bool"
  ec_resident_worker :: "'e \<Rightarrow> bool"
  ec_config :: "'e \<Rightarrow> epoch_config"
  ec_warmup :: "'e \<Rightarrow> warmup_output option"
  ec_add_request :: "new_request \<Rightarrow> (unit, 'e) run"
  ec_step :: "(core_outputs \<times> bool, 'e) run"
  ec_post_step :: "bool \<Rightarrow> (unit, 'e) run"
  ec_last_plan :: "'e \<Rightarrow> epoch_plan option"
  ec_last_result :: "'e \<Rightarrow> epoch_result option"
  ec_last_rejection :: "'e \<Rightarrow> string option"
  ec_request :: "'e \<Rightarrow> string \<Rightarrow> request_state"
  ec_has_requests :: "'e \<Rightarrow> bool"

text \<open>
  The engine keeps its contract with the scripts when the plan and the result its scheduler holds
  after a step are of one epoch, which the scheduler has accounted.
\<close>

definition epoch_accounted :: "epoch_plan \<Rightarrow> epoch_result \<Rightarrow> bool" where
  "epoch_accounted p r \<longleftrightarrow> (on_device r \<or> on_host r) \<and> (\<exists>sampled. validate_against r p sampled = Inr ())"

definition engine_accounts :: "'e engine_core \<Rightarrow> bool" where
  "engine_accounts core \<longleftrightarrow>
     (\<forall>e outputs executed e1 e2 p r.
        ec_step core e = (Inr (outputs, executed), e1) \<longrightarrow> ec_post_step core executed e1 = (Inr (), e2) \<longrightarrow>
        ec_last_plan core e2 = Some p \<longrightarrow> ec_last_result core e2 = Some r \<longrightarrow> epoch_accounted p r)"

section \<open>Sessions\<close>

text \<open>
  The clocks of the process: their value at the \<open>n\<close>th reading. \<open>rh_traceback\<close> is
  \<open>traceback.format_exc()\<close>.
\<close>

datatype clock = WallClock | PerfCounter | ProcessTime

record 'e script_host =
  rh_core :: "'e engine_core"
  rh_clock :: "clock \<Rightarrow> nat \<Rightarrow> int"
  rh_environ :: "(string, string) dict"
  rh_resolve :: "string \<Rightarrow> exn + string"
  rh_io :: evidence_io
  rh_files :: evidence
  rh_traceback :: "exn \<Rightarrow> string"

text \<open>The state of \<open>main\<close>: the engine, whether it was created, the readings taken, the result.\<close>

record 'e session =
  se_core :: 'e
  se_created :: bool
  se_readings :: nat
  se_result :: "(string \<times> pyval) list"

definition on_core :: "('a, 'e) run \<Rightarrow> ('a, 'e session) run" where
  "on_core f s = (case f (se_core s) of (r, e) \<Rightarrow> (r, s\<lparr>se_core := e\<rparr>))"

definition of_core :: "('e \<Rightarrow> 'a) \<Rightarrow> ('a, 'e session) run" where
  "of_core f s = (Inr (f (se_core s)), s)"

definition now :: "'e script_host \<Rightarrow> clock \<Rightarrow> (int, 'e session) run" where
  "now h c s = (Inr (rh_clock h c (se_readings s)), s\<lparr>se_readings := Suc (se_readings s)\<rparr>)"

definition record_entry :: "string \<Rightarrow> pyval \<Rightarrow> (unit, 'e session) run" where
  "record_entry key v s = (Inr (), s\<lparr>se_result := AList.update key v (se_result s)\<rparr>)"

definition create_engine :: "'e script_host \<Rightarrow> (unit, 'e session) run" where
  "create_engine h s =
     (case ec_create (rh_core h) (se_core s) of
        (Inl e, c) \<Rightarrow> (Inl e, s\<lparr>se_core := c\<rparr>)
      | (Inr _, c) \<Rightarrow> (Inr (), s\<lparr>se_core := c, se_created := True\<rparr>))"

lemma on_core_Inr [run_simps]:
  "on_core f s = (Inr x, t) \<longleftrightarrow> (\<exists>e. f (se_core s) = (Inr x, e) \<and> t = s\<lparr>se_core := e\<rparr>)"
  by (auto simp: on_core_def split: prod.splits)

lemma of_core_Inr [run_simps]: "of_core f s = (Inr x, t) \<longleftrightarrow> x = f (se_core s) \<and> t = s"
  by (auto simp: of_core_def)

lemma now_Inr [run_simps]:
  "now h c s = (Inr x, t) \<longleftrightarrow> x = rh_clock h c (se_readings s) \<and> t = s\<lparr>se_readings := Suc (se_readings s)\<rparr>"
  by (auto simp: now_def)

lemma record_entry_Inr [run_simps]:
  "record_entry k v s = (Inr x, t) \<longleftrightarrow> t = s\<lparr>se_result := AList.update k v (se_result s)\<rparr>"
  by (auto simp: record_entry_def)

lemma create_engine_Inr [run_simps]:
  "create_engine h s = (Inr x, t) \<longleftrightarrow>
     (\<exists>e. ec_create (rh_core h) (se_core s) = (Inr (), e) \<and> t = s\<lparr>se_core := e, se_created := True\<rparr>)"
  by (auto simp: create_engine_def split: prod.splits sum.splits)

section \<open>Values of documents\<close>

fun filter_res :: "('a \<Rightarrow> exn + bool) \<Rightarrow> 'a list \<Rightarrow> exn + 'a list" where
  "filter_res f [] = Inr []"
| "filter_res f (x # xs) = rbind (f x) (\<lambda>b. rbind (filter_res f xs) (\<lambda>ys. Inr (if b then x # ys else ys)))"

text \<open>\<open>all(test(x) for x in xs)\<close>, which stops at the first that fails.\<close>

fun all_res :: "('a \<Rightarrow> exn + bool) \<Rightarrow> 'a list \<Rightarrow> exn + bool" where
  "all_res f [] = Inr True"
| "all_res f (x # xs) = rbind (f x) (\<lambda>b. if b then all_res f xs else Inr False)"

lemma all_res_True: "all_res f xs = Inr True \<longleftrightarrow> (\<forall>x \<in> set xs. f x = Inr True)"
  by (induction xs) (auto simp: rbind_Inr_iff split: if_splits)

lemma all_res_total: "(\<And>x. x \<in> set xs \<Longrightarrow> f x = Inr (g x)) \<Longrightarrow> all_res f xs = Inr (\<forall>x \<in> set xs. g x)"
  by (induction xs) auto

text \<open>\<open>{k: v for k, v in xs}\<close>: the last value of a key, at the key's first place.\<close>

definition dict_comp :: "(string \<times> 'v) list \<Rightarrow> (string, 'v) dict" where
  "dict_comp xs = fold (\<lambda>(k, v). AList.update k v) xs []"

text \<open>The elements a loop over a document sees.\<close>

definition value_iter :: "pyval \<Rightarrow> exn + pyval list" where
  "value_iter v =
     (case v of
        PList xs \<Rightarrow> Inr xs
      | PDict d \<Rightarrow> Inr (map PStr (keys d))
      | PStr s \<Rightarrow> Inr (map (\<lambda>c. PStr [c]) s)
      | _ \<Rightarrow> Inl (TypeError ''object is not iterable''))"

definition ints_value :: "int list \<Rightarrow> pyval" where
  "ints_value xs = PList (map PInt xs)"

definition tokens_value :: "(string, int list) dict \<Rightarrow> pyval" where
  "tokens_value d = PDict (map (\<lambda>(k, ts). (k, ints_value ts)) d)"

definition bools_value :: "(string \<times> bool) list \<Rightarrow> pyval" where
  "bools_value checks = PDict (map (\<lambda>(k, b). (k, PBool b)) checks)"

definition all_checks :: "(string \<times> bool) list \<Rightarrow> bool" where
  "all_checks checks \<longleftrightarrow> (\<forall>(k, b) \<in> set checks. b)"

definition option_value :: "string option \<Rightarrow> pyval" where
  "option_value v = (case v of None \<Rightarrow> PNone | Some s \<Rightarrow> PStr s)"

section \<open>The frozen tokens\<close>

text \<open>
  \<open>load_expected_tokens\<close>. The steps are sorted by their recorded number, or by their text; the
  order of other values, which the evidence never has there, is not modelled.
\<close>

definition frozen_case :: "int \<Rightarrow> pyval \<Rightarrow> exn + bool" where
  "frozen_case max_steps entry =
     rbind (value_item entry ''case'') (\<lambda>name.
       case name of
         PStr s \<Rightarrow>
           if prefix (''k'' @ int_str max_steps @ ''-'') s then
             rbind (value_item entry ''max_steps'') (\<lambda>k. Inr (py_eq k (PInt max_steps)))
           else Inr False
       | _ \<Rightarrow> Inl (AttributeError ''object has no attribute startswith''))"

definition sort_steps :: "pyval list \<Rightarrow> exn + pyval list" where
  "sort_steps items =
     rbind (map_res (\<lambda>item. value_item item ''step'') items) (\<lambda>ks.
       if length items \<le> 1 then Inr items
       else if (\<forall>k \<in> set ks. case number k of Some (Fin q) \<Rightarrow> True | _ \<Rightarrow> False) then
         Inr (map snd (sort_key fst (zip (map (\<lambda>k. case number k of Some (Fin q) \<Rightarrow> q | _ \<Rightarrow> 0) ks) items)))
       else if (\<forall>k \<in> set ks. is_str k) then
         Inr (map snd (sort_key fst (zip (map (\<lambda>k. case k of PStr s \<Rightarrow> s | _ \<Rightarrow> []) ks) items)))
       else Inl (TypeError ''< not supported between instances''))"

definition frozen_tokens :: "pyval \<Rightarrow> int \<Rightarrow> exn + int list" where
  "frozen_tokens evidence max_steps =
     rbind (rbind (value_item evidence ''cases'') value_iter) (\<lambda>cases.
     rbind (filter_res (frozen_case max_steps) cases) (\<lambda>matches.
       if length matches \<noteq> 1 then
         Inl (RuntimeError (''expected one frozen baseline case for K='' @ int_str max_steps))
       else
         rbind (rbind (value_item (hd matches) ''steps'') value_iter) (\<lambda>items.
         rbind (filter_res (\<lambda>item. rbind (value_item item ''request'') (\<lambda>r. Inr (py_eq r (PInt 0)))) items) (\<lambda>first.
         rbind (sort_steps first) (\<lambda>steps.
         rbind (map_res (\<lambda>item. rbind (value_item item ''device_token'') py_int) steps) (\<lambda>tokens.
           if int (length tokens) \<noteq> max_steps then
             Inl (RuntimeError (''incomplete frozen token sequence for K='' @ int_str max_steps))
           else Inr tokens))))))"

definition load_expected_tokens :: "evidence_io \<Rightarrow> evidence \<Rightarrow> string \<Rightarrow> exn + (int \<times> int list) list" where
  "load_expected_tokens io files path =
     rbind (load_json io files path) (\<lambda>evidence.
     rbind (value_get evidence ''pass'') (\<lambda>passed.
       if passed \<noteq> PBool True then
         Inl (RuntimeError ''the frozen Attempt 69e result is not passing evidence'')
       else map_res (\<lambda>k. rbind (frozen_tokens evidence k) (\<lambda>tokens. Inr (k, tokens))) [1, 2, 4, 8]))"

section \<open>The records of outputs\<close>

record output_record =
  or_client_index :: int
  or_request_id :: string
  or_tokens :: "int list"
  or_finish_reason :: pyval
  or_stop_reason :: pyval

definition output_record_of :: "int \<Rightarrow> core_output \<Rightarrow> output_record" where
  "output_record_of client_index out =
     \<lparr>or_client_index = client_index, or_request_id = co_request_id out, or_tokens = co_new_token_ids out,
      or_finish_reason = (case co_finish_reason out of HasValue v \<Rightarrow> v | Plain v \<Rightarrow> v),
      or_stop_reason = co_stop_reason out\<rparr>"

definition output_records :: "core_outputs \<Rightarrow> output_record list" where
  "output_records outputs =
     concat (map (\<lambda>client. map (output_record_of client) (the (map_of outputs client))) (sort (keys outputs)))"

definition sampled_tokens :: "output_record list \<Rightarrow> (string, int list) dict" where
  "sampled_tokens records = dict_comp (map (\<lambda>r. (or_request_id r, or_tokens r)) records)"

definition output_record_value :: "output_record \<Rightarrow> pyval" where
  "output_record_value r =
     PDict [(''client_index'', PInt (or_client_index r)), (''request_id'', PStr (or_request_id r)),
       (''tokens'', ints_value (or_tokens r)), (''finish_reason'', or_finish_reason r),
       (''stop_reason'', or_stop_reason r)]"

section \<open>Results\<close>

text \<open>\<open>write_result\<close>, and what ends every \<open>main\<close>: an exception of the body is recorded, the engine
  is shut down, or the environment it left destroyed, and what is left is recorded.\<close>

definition write_run_result :: "evidence_io \<Rightarrow> string \<Rightarrow> (string \<times> pyval) list \<Rightarrow> evidence \<Rightarrow> evidence" where
  "write_run_result io path doc files = AList.update path (io_dumps io (PDict doc) @ [CHR 0x0A]) files"

definition exn_text :: "exn \<Rightarrow> pyval" where
  "exn_text e = PStr (exn_name e @ '': '' @ exn_str e)"

definition record_error :: "'e script_host \<Rightarrow> (unit, 'e session) run \<Rightarrow> (unit, 'e session) run" where
  "record_error h body s =
     (case body s of
        (Inr _, t) \<Rightarrow> (Inr (), t)
      | (Inl e, t) \<Rightarrow>
          run_bind (record_entry ''error'' (exn_text e)) (\<lambda>_. record_entry ''traceback'' (PStr (rh_traceback h e))) t)"

definition shut_down :: "'e script_host \<Rightarrow> (unit, 'e session) run" where
  "shut_down h s =
     (if se_created s then
        (case on_core (ec_shutdown (rh_core h)) s of
           (Inr _, t) \<Rightarrow> (Inr (), t)
         | (Inl e, t) \<Rightarrow> run_bind (record_entry ''shutdown_error'' (exn_text e)) (\<lambda>_. record_entry ''pass'' (PBool False)) t)
      else if ec_distributed (rh_core h) (se_core s) then on_core (ec_destroy (rh_core h)) s
      else (Inr (), s))"

definition record_leftovers :: "'e script_host \<Rightarrow> (unit, 'e session) run" where
  "record_leftovers h =
     run_bind (of_core (ec_distributed (rh_core h))) (\<lambda>left_over.
     run_bind (record_entry ''distributed_initialized_after_shutdown'' (PBool left_over)) (\<lambda>_.
       if left_over then record_entry ''pass'' (PBool False) else run_return ()))"

definition run_to_end :: "'e script_host \<Rightarrow> (unit, 'e session) run \<Rightarrow> (unit, 'e session) run" where
  "run_to_end h body =
     run_bind (record_error h body) (\<lambda>_. run_bind (shut_down h) (\<lambda>_. record_leftovers h))"

definition exit_status :: "(string \<times> pyval) list \<Rightarrow> int" where
  "exit_status doc = (if truthy (py_get doc ''pass'') then 0 else 1)"

end
