(* ===== verification/CohortRun.thy ===== *)
theory CohortRun
  imports NativeRuns
begin

text \<open>
  \<open>run_multi_epoch_cohort.py\<close>: three epochs of a resident cohort, the second and the third with a
  new request beside the first, a clean-up step, the checks on all of them and the recorded
  result.
\<close>

definition FIRST_SERVICE_EPOCH_LIMIT_US :: int where "FIRST_SERVICE_EPOCH_LIMIT_US = 10000000"

section \<open>One epoch\<close>

text \<open>The record of an epoch. \<open>eu_generations\<close> are the row generations of the plan.\<close>

record epoch_run =
  eu_name :: string
  eu_executed :: bool
  eu_wall_us :: int
  eu_step_wall_us :: int
  eu_step_cpu_us :: int
  eu_post_wall_us :: int
  eu_post_cpu_us :: int
  eu_cpu_us :: int
  eu_clock_start :: int
  eu_clock_end :: int
  eu_plan :: epoch_plan
  eu_generations :: "int list"
  eu_result :: epoch_result
  eu_records :: "output_record list"
  eu_states :: "(string, request_state) dict"

definition eu_sampled :: "epoch_run \<Rightarrow> (string, int list) dict" where
  "eu_sampled u = sampled_tokens (eu_records u)"

definition eu_requests :: "epoch_run \<Rightarrow> (string, epoch_request) dict" where
  "eu_requests u = dict_comp (map (\<lambda>r. (rq_id r, r)) (pl_requests (eu_plan u)))"

text \<open>The requests of the script are those it named; the engine keeps their state.\<close>

definition request_states :: "'e engine_core \<Rightarrow> string list \<Rightarrow> 'e \<Rightarrow> (string, request_state) dict" where
  "request_states core ids e = map (\<lambda>k. (k, ec_request core e k)) ids"

definition execute_epoch :: "'e script_host \<Rightarrow> string \<Rightarrow> string list \<Rightarrow> (epoch_run, 'e session) run" where
  "execute_epoch h name ids =
     (let core = rh_core h in
      run_bind (now h WallClock) (\<lambda>clock_start.
      run_bind (now h PerfCounter) (\<lambda>start.
      run_bind (now h ProcessTime) (\<lambda>cpu_start.
      run_bind (on_core (ec_step core)) (\<lambda>(outputs, executed).
      run_bind (now h PerfCounter) (\<lambda>stepped.
      run_bind (now h ProcessTime) (\<lambda>cpu_stepped.
      run_bind (now h PerfCounter) (\<lambda>post_start.
      run_bind (now h ProcessTime) (\<lambda>post_cpu_start.
      run_bind (on_core (ec_post_step core executed)) (\<lambda>_.
      run_bind (now h PerfCounter) (\<lambda>posted.
      run_bind (now h ProcessTime) (\<lambda>cpu_posted.
      run_bind (now h PerfCounter) (\<lambda>done.
      run_bind (now h ProcessTime) (\<lambda>cpu_done.
      run_bind (now h WallClock) (\<lambda>clock_end.
      run_bind (of_core (ec_last_plan core)) (\<lambda>last_plan.
      run_bind (of_core (ec_last_result core)) (\<lambda>last_result.
      run_bind (of_core (ec_last_rejection core)) (\<lambda>rejection.
      run_bind (run_some last_plan (RuntimeError (name @ '': no resident plan, rejection=''
          @ (case rejection of None \<Rightarrow> ''None'' | Some reason \<Rightarrow> reason)))) (\<lambda>plan.
      run_bind (run_some last_result (RuntimeError (name @ '': no resident execution result''))) (\<lambda>result.
      run_bind (run_of (plan_row_generations plan)) (\<lambda>generations.
      run_bind (of_core (request_states core ids)) (\<lambda>states.
        run_return
          \<lparr>eu_name = name, eu_executed = executed, eu_wall_us = (done - start) div 1000,
           eu_step_wall_us = (stepped - start) div 1000,
           eu_step_cpu_us = (cpu_stepped - cpu_start) div 1000,
           eu_post_wall_us = (posted - post_start) div 1000,
           eu_post_cpu_us = (cpu_posted - post_cpu_start) div 1000,
           eu_cpu_us = (cpu_done - cpu_start) div 1000,
           eu_clock_start = clock_start, eu_clock_end = clock_end, eu_plan = plan,
           eu_generations = generations, eu_result = result,
           eu_records = output_records outputs, eu_states = states\<rparr>))))))))))))))))))))))"

section \<open>The checks of an epoch\<close>

definition expected_plan_requests :: "int list \<Rightarrow> int \<Rightarrow> (string, int list) dict list" where
  "expected_plan_requests tokens input_token =
     [[(''A'', [0, 1, 0, input_token])],
      [(''A'', [0, 1, 2, tokens ! 1]), (''B'', [1, 2, 0, input_token])],
      [(''A'', [0, 1, 4, tokens ! 3]), (''C'', [1, 3, 0, input_token])]]"

definition expected_epoch_tokens :: "int list \<Rightarrow> (string, int list) dict list" where
  "expected_epoch_tokens tokens =
     [[(''A'', take 2 tokens)],
      [(''A'', take 2 (drop 2 tokens)), (''B'', take 2 tokens)],
      [(''A'', take 2 (drop 4 tokens)), (''C'', take 2 tokens)]]"

text \<open>Row, generation, position and token of every request of the plan.\<close>

definition actual_plan :: "epoch_run \<Rightarrow> (string, int list) dict" where
  "actual_plan u = map (\<lambda>(k, r). (k, [rq_row r, rq_generation r, rq_position r, rq_token_id r])) (eu_requests u)"

definition same_tokens :: "(string, int list) dict \<Rightarrow> (string, int list) dict \<Rightarrow> bool" where
  "same_tokens d e \<longleftrightarrow> py_eq (tokens_value d) (tokens_value e)"

definition epoch_checks :: "int list \<Rightarrow> int \<Rightarrow> nat \<Rightarrow> epoch_run \<Rightarrow> (string \<times> bool) list" where
  "epoch_checks tokens input_token index u =
     (let plan = eu_plan u; result = eu_result u;
          expected_active = (if index = 0 then [1, 0, 0, 0] else [1, 1, 0, 0]);
          expected_generations = (if index = 1 then [1, 2, 0, 0] else if index = 2 then [1, 3, 0, 0] else [1, 0, 0, 0]) in
      [(''model_executed'', eu_executed u),
       (''two_step_epoch'', pl_max_steps plan = 2),
       (''one_feed'', er_feed_calls result = 1),
       (''one_fetch'', er_fetch_calls result = 1),
       (''one_socket_round_trip'', er_socket_send_calls result = 1 \<and> er_socket_receive_calls result = 1),
       (''two_model_calls'', er_model_calls result = 2),
       (''minimal_abi'', er_declared_input_bytes result = 260 \<and> er_declared_output_bytes result = 368),
       (''native_cpu_recorded'', er_native_cpu_us result > 0),
       (''active_mask'', pl_active_mask plan = expected_active),
       (''stable_rows_and_generations'', same_tokens (actual_plan u) (expected_plan_requests tokens input_token ! index)),
       (''generation_acknowledgement'', er_row_generations result = expected_generations),
       (''epoch_tokens'', same_tokens (eu_sampled u) (expected_epoch_tokens tokens ! index))])"

section \<open>The trace\<close>

record trace_run =
  tr_epochs :: "(epoch_run \<times> (string \<times> bool) list) list"
  tr_observed :: "(string, int list) dict"
  tr_expected :: "(string, int list) dict"
  tr_states :: "(string, request_state) dict"
  tr_cleanup_executed :: bool
  tr_cleanup_records :: "output_record list"
  tr_checks :: "(string \<times> bool) list"

definition epoch_request_of :: "epoch_run \<Rightarrow> string \<Rightarrow> exn + epoch_request" where
  "epoch_request_of u k = dict_item (eu_requests u) k"

definition tokens_of :: "epoch_run \<Rightarrow> string \<Rightarrow> int list" where
  "tokens_of u k = (case map_of (eu_sampled u) k of None \<Rightarrow> [] | Some ts \<Rightarrow> ts)"

definition observed_tokens :: "epoch_run list \<Rightarrow> (string, int list) dict" where
  "observed_tokens us =
     [(''A'', tokens_of (us ! 0) ''A'' @ tokens_of (us ! 1) ''A'' @ tokens_of (us ! 2) ''A''),
      (''B'', tokens_of (us ! 1) ''B''), (''C'', tokens_of (us ! 2) ''C'')]"

definition expected_tokens_of :: "int list \<Rightarrow> (string, int list) dict" where
  "expected_tokens_of tokens = [(''A'', take 6 tokens), (''B'', take 2 tokens), (''C'', take 2 tokens)]"

text \<open>The checks over the trace index the plans by request, which raises for a missing one.\<close>

definition row_zero_stable :: "epoch_run list \<Rightarrow> exn + bool" where
  "row_zero_stable us =
     all_res (\<lambda>u. rbind (epoch_request_of u ''A'') (\<lambda>r. Inr (rq_row r = 0 \<and> rq_generation r = 1))) us"

definition row_one_replaced :: "epoch_run list \<Rightarrow> exn + bool" where
  "row_one_replaced us =
     rbind (epoch_request_of (us ! 1) ''B'') (\<lambda>b.
       if rq_generation b = 2 then rbind (epoch_request_of (us ! 2) ''C'') (\<lambda>c. Inr (rq_generation c = 3))
       else Inr False)"

definition finals :: "(string, request_state) dict \<Rightarrow> (string, int list) dict" where
  "finals states = map (\<lambda>(k, q). (k, [qs_computed q, qs_outputs q])) states"

definition FINAL_ACCOUNTING :: "(string, int list) dict" where
  "FINAL_ACCOUNTING = [(''A'', [6, 6]), (''B'', [2, 2]), (''C'', [2, 2])]"

definition trace_checks ::
  "int list \<Rightarrow> (epoch_run \<times> (string \<times> bool) list) list \<Rightarrow> (string, request_state) dict \<Rightarrow> bool \<Rightarrow> output_record list
    \<Rightarrow> bool \<Rightarrow> exn + (string \<times> bool) list" where
  "trace_checks tokens epochs states cleanup_executed cleanup_records unfinished =
     (let us = map fst epochs in
      rbind (row_zero_stable us) (\<lambda>stable.
      rbind (row_one_replaced us) (\<lambda>replaced.
        Inr [(''three_device_epochs'', length epochs = 3 \<and> (\<forall>(u, checks) \<in> set epochs. all_checks checks)),
          (''tokens_match_frozen_baseline'', same_tokens (observed_tokens us) (expected_tokens_of tokens)),
          (''a_spans_three_epochs'', \<forall>u \<in> set us. ''A'' \<in> set (keys (eu_sampled u))),
          (''row_zero_generation_one_stable'', stable),
          (''row_one_replaced'', replaced),
          (''final_accounting'', same_tokens (finals states) FINAL_ACCOUNTING),
          (''all_requests_finished'', \<forall>(k, q) \<in> set states. prefix ''FINISHED_'' (qs_status q)),
          (''cleanup_model_not_executed'', \<not> cleanup_executed),
          (''cleanup_outputs_empty'', cleanup_records = []),
          (''scheduler_drained'', \<not> unfinished)])))"

definition add_request :: "'e script_host \<Rightarrow> string \<Rightarrow> int \<Rightarrow> int \<Rightarrow> int \<Rightarrow> (unit, 'e session) run" where
  "add_request h name client max_tokens input_token =
     on_core (ec_add_request (rh_core h) (make_request name client max_tokens DEFAULT_EOS_TOKEN_ID input_token))"

definition run_dynamic_trace :: "'e script_host \<Rightarrow> int list \<Rightarrow> int \<Rightarrow> (trace_run, 'e session) run" where
  "run_dynamic_trace h tokens input_token =
     (let core = rh_core h in
      run_bind (run_if (length tokens < 6) (ValueError ''the dynamic trace requires at least six baseline tokens'')) (\<lambda>_.
      run_bind (add_request h ''A'' 0 6 input_token) (\<lambda>_.
      run_bind (execute_epoch h ''epoch-1-a'' [''A'']) (\<lambda>first.
      run_bind (add_request h ''B'' 1 2 input_token) (\<lambda>_.
      run_bind (execute_epoch h ''epoch-2-a-b'' [''A'', ''B'']) (\<lambda>second.
      run_bind (add_request h ''C'' 2 2 input_token) (\<lambda>_.
      run_bind (execute_epoch h ''epoch-3-a-c'' [''A'', ''B'', ''C'']) (\<lambda>third.
      run_bind (on_core (ec_step core)) (\<lambda>(cleanup_outputs, cleanup_executed).
      run_bind (on_core (ec_post_step core cleanup_executed)) (\<lambda>_.
      let us = [first, second, third]; cleanup_records = output_records cleanup_outputs;
          epochs = map (\<lambda>(i, u). (u, epoch_checks tokens input_token i u)) (enumerate 0 us) in
      run_bind (of_core (request_states core [''A'', ''B'', ''C''])) (\<lambda>states.
      run_bind (of_core (ec_has_requests core)) (\<lambda>unfinished.
      run_bind (run_of (trace_checks tokens epochs states cleanup_executed cleanup_records unfinished)) (\<lambda>checks.
        run_return
          \<lparr>tr_epochs = epochs, tr_observed = observed_tokens us, tr_expected = expected_tokens_of tokens,
           tr_states = states, tr_cleanup_executed = cleanup_executed, tr_cleanup_records = cleanup_records,
           tr_checks = checks\<rparr>)))))))))))))"

section \<open>The document\<close>

definition request_state_value :: "request_state \<Rightarrow> pyval" where
  "request_state_value q =
     PDict [(''status'', PStr (qs_status q)), (''num_computed_tokens'', PInt (qs_computed q)),
       (''num_output_tokens'', PInt (qs_outputs q)), (''all_token_ids'', ints_value (qs_all_token_ids q))]"

definition states_value :: "(string, request_state) dict \<Rightarrow> pyval" where
  "states_value states = PDict (map (\<lambda>(k, q). (k, request_state_value q)) states)"

definition plan_request_value :: "epoch_request \<Rightarrow> pyval" where
  "plan_request_value r =
     PDict [(''row'', PInt (rq_row r)), (''generation'', PInt (rq_generation r)), (''token_id'', PInt (rq_token_id r)),
       (''position'', PInt (rq_position r)), (''sequence_length'', PInt (rq_sequence_length r)),
       (''device_block_ids'', ints_value [fst (rq_device_block_ids r), snd (rq_device_block_ids r)])]"

definition plan_value :: "epoch_run \<Rightarrow> pyval" where
  "plan_value u =
     PDict [(''max_steps'', PInt (pl_max_steps (eu_plan u))), (''active_mask'', ints_value (pl_active_mask (eu_plan u))),
       (''row_generations'', ints_value (eu_generations u)),
       (''requests'', PDict (map (\<lambda>(k, r). (k, plan_request_value r)) (eu_requests u)))]"

definition epoch_doc :: "epoch_run \<Rightarrow> (string \<times> bool) list \<Rightarrow> (string \<times> pyval) list" where
  "epoch_doc u checks =
     (let r = eu_result u in
      [(''name'', PStr (eu_name u)), (''model_executed'', PBool (eu_executed u)),
       (''engine_core_step_wall_us'', PInt (eu_wall_us u)), (''step_wall_us'', PInt (eu_step_wall_us u)),
       (''step_python_cpu_us'', PInt (eu_step_cpu_us u)), (''post_step_wall_us'', PInt (eu_post_wall_us u)),
       (''post_step_python_cpu_us'', PInt (eu_post_cpu_us u)), (''python_cpu_us'', PInt (eu_cpu_us u)),
       (''epoch_wall_clock_start_ns'', PInt (eu_clock_start u)), (''epoch_wall_clock_end_ns'', PInt (eu_clock_end u)),
       (''native_wall_us'', PInt (er_wall_us r)), (''native_cpu_us'', PInt (er_native_cpu_us r)),
       (''declared_input_bytes'', PInt (er_declared_input_bytes r)),
       (''declared_output_bytes'', PInt (er_declared_output_bytes r)),
       (''declared_total_bytes'', PInt (er_declared_input_bytes r + er_declared_output_bytes r)),
       (''socket_send_calls'', PInt (er_socket_send_calls r)), (''socket_receive_calls'', PInt (er_socket_receive_calls r)),
       (''model_calls'', PInt (er_model_calls r)), (''feed_calls'', PInt (er_feed_calls r)),
       (''fetch_calls'', PInt (er_fetch_calls r)),
       (''computed_steps'', PDict (map (\<lambda>(k, n). (k, PInt n)) (er_computed_steps r))),
       (''result_row_generations'', ints_value (er_row_generations r)), (''sampled_tokens'', tokens_value (eu_sampled u)),
       (''engine_outputs'', PList (map output_record_value (eu_records u))), (''plan'', plan_value u),
       (''request_state'', states_value (eu_states u)), (''checks'', bools_value checks),
       (''pass'', PBool (all_checks checks))])"

definition trace_doc :: "trace_run \<Rightarrow> (string \<times> pyval) list" where
  "trace_doc t =
     [(''epochs'', PList (map (\<lambda>(u, checks). PDict (epoch_doc u checks)) (tr_epochs t))),
      (''observed_tokens'', tokens_value (tr_observed t)), (''expected_tokens'', tokens_value (tr_expected t)),
      (''final_request_state'', states_value (tr_states t)),
      (''cleanup'', PDict [(''model_executed'', PBool (tr_cleanup_executed t)),
         (''engine_outputs'', PList (map output_record_value (tr_cleanup_records t)))]),
      (''checks'', bools_value (tr_checks t)), (''pass'', PBool (all_checks (tr_checks t)))]"

section \<open>The whole run\<close>

record cohort_args =
  ca_model_config :: string
  ca_baseline :: string
  ca_output :: string
  ca_input_token :: int

definition cohort_support :: pyval where
  "cohort_support =
     PDict [(''model'', PStr ''Qwen2.5-7B-Instruct''), (''epoch_steps'', PInt 2), (''logical_capacity'', PInt 8),
       (''trace'', PList [PStr ''A'', PStr ''A+B'', PStr ''A+C'']), (''sampling'', PStr ''greedy''),
       (''prompt_tokens'', PInt 1), (''tp'', PInt 1), (''pp'', PInt 1), (''host_udf_abi'', PStr ''8-input/2-output'')]"

definition initial_result :: "(string \<times> pyval) list" where
  "initial_result =
     [(''gate'', PStr ''Attempt 74 minimal ABI multi-epoch residency''), (''schema_version'', PInt 1),
      (''pass'', PBool False), (''support_boundary'', cohort_support), (''artifacts'', PDict [])]"

definition cohort_classes :: "'e engine_core \<Rightarrow> 'e \<Rightarrow> pyval" where
  "cohort_classes core e =
     PDict [(''scheduler'', PStr (ec_scheduler_class core e)), (''executor'', PStr (ec_executor_class core e)),
       (''worker'', PStr (ec_worker_class core e))]"

text \<open>The checks between the creation of the engine and the first epoch, and the warm-up's output.\<close>

definition cohort_engine :: "'e engine_core \<Rightarrow> 'e \<Rightarrow> exn + warmup_output" where
  "cohort_engine core e =
     (if \<not> ec_resident_scheduler core e then Inl (RuntimeError ''EngineCore did not resolve ResidentEpochScheduler'')
      else if \<not> ec_uniproc_executor core e then Inl (RuntimeError ''EngineCore did not use UniProcExecutor'')
      else if \<not> ec_resident_worker core e then Inl (RuntimeError ''EngineCore did not resolve ResidentEpochWorker'')
      else if cfg_max_steps (ec_config core e) \<noteq> 2 then
        Inl (RuntimeError ''Attempt 74 requires a two-step resident epoch'')
      else if cfg_logical_capacity (ec_config core e) \<noteq> 8 then
        Inl (RuntimeError ''Attempt 74 requires logical capacity eight'')
      else
        (case ec_warmup core e of
           None \<Rightarrow> Inl (RuntimeError ''EngineCore initialization skipped resident warmup'')
         | Some warmup \<Rightarrow> Inr warmup))"

definition warmup_doc :: "warmup_output \<Rightarrow> (string \<times> pyval) list" where
  "warmup_doc w =
     [(''status'', PInt (wo_status w)), (''model_calls'', PInt (wo_model_calls w)), (''feed_calls'', PInt (wo_feed_calls w)),
      (''fetch_calls'', PInt (wo_fetch_calls w)), (''wall_us'', PInt (wo_wall_us w)),
      (''native_cpu_us'', PInt (wo_native_cpu_us w)), (''declared_input_bytes'', PInt (wo_declared_input_bytes w)),
      (''declared_output_bytes'', PInt (wo_declared_output_bytes w))]"

definition cohort_checks :: "bool \<Rightarrow> warmup_output \<Rightarrow> trace_run \<Rightarrow> (string \<times> bool) list" where
  "cohort_checks initialized w t =
     [(''distributed_initialized'', initialized),
      (''warmup_one_complete_step'', wo_status w = 0 \<and> wo_model_calls w = 1 \<and> wo_feed_calls w = 1
         \<and> wo_fetch_calls w = 1 \<and> wo_wall_us w > 0),
      (''warmup_minimal_abi'', wo_declared_input_bytes w = 260 \<and> wo_declared_output_bytes w = 368
         \<and> wo_native_cpu_us w > 0),
      (''first_service_epoch_below_limit'', eu_wall_us (fst (tr_epochs t ! 0)) < FIRST_SERVICE_EPOCH_LIMIT_US),
      (''dynamic_trace_passed'', all_checks (tr_checks t))]"

definition cohort_artifacts :: "(string, string) dict \<Rightarrow> string \<Rightarrow> string \<Rightarrow> (string \<times> pyval) list" where
  "cohort_artifacts environ baseline digest =
     [(''baseline_result'', PStr baseline), (''baseline_sha256'', PStr digest),
      (''native_server'', option_value (map_of environ ''VLLM_ASCEND_RESIDENT_EPOCH_SERVER'')),
      (''backend_factory'', option_value (map_of environ ''VLLM_ASCEND_RESIDENT_EPOCH_BACKEND_FACTORY'')),
      (''air'', option_value (map_of environ ''VLLM_ASCEND_RESIDENT_EPOCH_AIR'')),
      (''tiling'', option_value (map_of environ ''VLLM_ASCEND_RESIDENT_EPOCH_TILING'')),
      (''external_weights'', option_value (map_of environ ''VLLM_ASCEND_RESIDENT_EPOCH_EXTERNAL_WEIGHTS''))]"

text \<open>\<open>load_expected_tokens(path)[8]\<close>.\<close>

definition baseline_tokens :: "'e script_host \<Rightarrow> string \<Rightarrow> exn + int list" where
  "baseline_tokens h path =
     rbind (load_expected_tokens (rh_io h) (rh_files h) path) (\<lambda>expected.
       case map_of expected 8 of None \<Rightarrow> Inl (KeyError ''8'') | Some tokens \<Rightarrow> Inr tokens)"

definition measure_cohort :: "'e script_host \<Rightarrow> cohort_args \<Rightarrow> string \<Rightarrow> int list \<Rightarrow> warmup_output \<Rightarrow> (unit, 'e session) run" where
  "measure_cohort h a baseline tokens warmup =
     (let core = rh_core h in
      run_bind (of_core (ec_distributed core)) (\<lambda>initialized.
      run_bind (record_entry ''distributed_initialized_during_engine'' (PBool initialized)) (\<lambda>_.
      run_bind (record_entry ''warmup'' (PDict (warmup_doc warmup))) (\<lambda>_.
      run_bind (run_dynamic_trace h tokens (ca_input_token a)) (\<lambda>t.
      run_bind (record_entry ''trace'' (PDict (trace_doc t))) (\<lambda>_.
      let checks = cohort_checks initialized warmup t in
      run_bind (record_entry ''checks'' (bools_value checks)) (\<lambda>_.
      run_bind (run_of (evidence_sha256 (rh_io h) (rh_files h) baseline)) (\<lambda>digest.
      run_bind (record_entry ''artifacts'' (PDict (cohort_artifacts (rh_environ h) baseline digest))) (\<lambda>_.
        record_entry ''pass'' (PBool (all_checks checks)))))))))))"

definition cohort_body :: "'e script_host \<Rightarrow> cohort_args \<Rightarrow> (unit, 'e session) run" where
  "cohort_body h a =
     (let core = rh_core h in
      run_bind (run_of (rh_resolve h (ca_model_config a))) (\<lambda>model.
      run_bind (run_of (rh_resolve h (ca_baseline a))) (\<lambda>baseline.
      run_bind (run_of (baseline_tokens h baseline)) (\<lambda>tokens.
      run_bind (on_core (ec_configure core (make_engine_vllm_config model))) (\<lambda>_.
      run_bind (now h PerfCounter) (\<lambda>start.
      run_bind (create_engine h) (\<lambda>_.
      run_bind (now h PerfCounter) (\<lambda>created.
      run_bind (record_entry ''engine_core_init_wall_us'' (PInt ((created - start) div 1000))) (\<lambda>_.
      run_bind (of_core (cohort_classes core)) (\<lambda>classes.
      run_bind (record_entry ''resolved_classes'' classes) (\<lambda>_.
      run_bind (of_core (cohort_engine core)) (\<lambda>engine.
      run_bind (run_of engine) (measure_cohort h a baseline tokens)))))))))))))"

text \<open>The result of a run on a fresh session, and \<open>main\<close>: it writes the result and exits with its status.\<close>

definition cohort_run :: "'e script_host \<Rightarrow> cohort_args \<Rightarrow> 'e \<Rightarrow> exn + (string \<times> pyval) list" where
  "cohort_run h a e =
     (case run_to_end h (cohort_body h a) \<lparr>se_core = e, se_created = False, se_readings = 0, se_result = initial_result\<rparr> of
        (Inl failure, s) \<Rightarrow> Inl failure
      | (Inr _, s) \<Rightarrow> Inr (se_result s))"

definition cohort_main :: "'e script_host \<Rightarrow> cohort_args \<Rightarrow> 'e \<Rightarrow> exn + (evidence \<times> int)" where
  "cohort_main h a e =
     rbind (cohort_run h a e) (\<lambda>doc.
       Inr (write_run_result (rh_io h) (ca_output a) doc (rh_files h), exit_status doc))"

end
