(* ===== verification/CohortVerify.thy ===== *)
theory CohortVerify
  imports ComparisonVerify NativeRuns
begin

text \<open>
  \<open>verify_multi_epoch_cohort_result.py\<close>, with the artifacts required as its \<open>main\<close> does: the
  recorded result of a resident cohort is checked against the constants of the frozen run.
\<close>

section \<open>Values\<close>

definition require_res :: "exn + bool \<Rightarrow> string \<Rightarrow> exn + unit" where
  "require_res r message = rbind r (\<lambda>b. require b message)"

text \<open>\<open>_require_all_checks\<close>.\<close>

definition require_all_checks :: "pyval \<Rightarrow> string \<Rightarrow> exn + unit" where
  "require_all_checks v name =
     (case v of
        PDict d \<Rightarrow>
          rbind (require (d \<noteq> []) (name @ '': missing checks'')) (\<lambda>_.
            let failed = sort (map fst (filter (\<lambda>(k, passed). passed \<noteq> PBool True) d)) in
            require (failed = []) (name @ '': failed checks: '' @ list_str (map str_repr failed)))
      | _ \<Rightarrow> Inl (ValueError (name @ '': missing checks'')))"

text \<open>\<open>isinstance(v, int) and test(v)\<close>.\<close>

definition int_with :: "(int \<Rightarrow> bool) \<Rightarrow> pyval \<Rightarrow> bool" where
  "int_with test v \<longleftrightarrow> (case python_int v of None \<Rightarrow> False | Some i \<Rightarrow> test i)"

text \<open>\<open>v + w\<close> and \<open>v < w\<close> of numbers.\<close>

definition number_add :: "pyval \<Rightarrow> pyval \<Rightarrow> exn + pyval" where
  "number_add v w =
     (case (python_int v, python_int w) of
        (Some i, Some j) \<Rightarrow> Inr (PInt (i + j))
      | _ \<Rightarrow>
          (case (number v, number w) of
             (Some (Fin q), Some (Fin r)) \<Rightarrow> Inr (PFloat (Fin (q + r)))
           | (Some x, Some y) \<Rightarrow>
               Inr (PFloat (if x = NaN \<or> y = NaN \<or> {x, y} = {PosInf, NegInf} then NaN
                            else if PosInf \<in> {x, y} then PosInf else NegInf))
           | _ \<Rightarrow> Inl (TypeError ''unsupported operand type(s) for +'')))"

definition value_below :: "pyval \<Rightarrow> int \<Rightarrow> exn + bool" where
  "value_below v i =
     (case number v of
        Some (Fin q) \<Rightarrow> Inr (q < of_int i)
      | Some NegInf \<Rightarrow> Inr True
      | Some _ \<Rightarrow> Inr False
      | None \<Rightarrow> Inl (TypeError ''< not supported between instances''))"

section \<open>Constants\<close>

definition EXPECTED_CLASSES :: pyval where
  "EXPECTED_CLASSES =
     PDict [(''scheduler'', PStr ''vllm_ascend_resident_epoch.scheduler.ResidentEpochScheduler''),
       (''executor'', PStr ''vllm.v1.executor.uniproc_executor.UniProcExecutor''),
       (''worker'', PStr ''vllm_ascend_resident_epoch.worker.ResidentEpochWorker'')]"

definition EXPECTED_SUPPORT :: pyval where
  "EXPECTED_SUPPORT =
     PDict [(''model'', PStr ''Qwen2.5-7B-Instruct''), (''epoch_steps'', PInt 2), (''logical_capacity'', PInt 8),
       (''trace'', PList [PStr ''A'', PStr ''A+B'', PStr ''A+C'']), (''sampling'', PStr ''greedy''),
       (''prompt_tokens'', PInt 1), (''tp'', PInt 1), (''pp'', PInt 1), (''host_udf_abi'', PStr ''8-input/2-output'')]"

definition EXPECTED_TOKENS :: "int list" where
  "EXPECTED_TOKENS = [17728, 374, 264, 4185, 19734, 24844]"

record expected_epoch =
  ee_name :: string
  ee_active_mask :: "int list"
  ee_row_generations :: "int list"
  ee_sampled :: "(string, int list) dict"
  ee_requests :: "(string, int list) dict"

definition EXPECTED_EPOCHS :: "expected_epoch list" where
  "EXPECTED_EPOCHS =
     [\<lparr>ee_name = ''epoch-1-a'', ee_active_mask = [1, 0, 0, 0], ee_row_generations = [1, 0, 0, 0],
       ee_sampled = [(''A'', take 2 EXPECTED_TOKENS)], ee_requests = [(''A'', [0, 1, 0, 11690])]\<rparr>,
      \<lparr>ee_name = ''epoch-2-a-b'', ee_active_mask = [1, 1, 0, 0], ee_row_generations = [1, 2, 0, 0],
       ee_sampled = [(''A'', take 2 (drop 2 EXPECTED_TOKENS)), (''B'', take 2 EXPECTED_TOKENS)],
       ee_requests = [(''A'', [0, 1, 2, EXPECTED_TOKENS ! 1]), (''B'', [1, 2, 0, 11690])]\<rparr>,
      \<lparr>ee_name = ''epoch-3-a-c'', ee_active_mask = [1, 1, 0, 0], ee_row_generations = [1, 3, 0, 0],
       ee_sampled = [(''A'', take 2 (drop 4 EXPECTED_TOKENS)), (''C'', take 2 EXPECTED_TOKENS)],
       ee_requests = [(''A'', [0, 1, 4, EXPECTED_TOKENS ! 3]), (''C'', [1, 3, 0, 11690])]\<rparr>]"

section \<open>The head of the result\<close>

definition verify_run_claims :: "(string \<times> pyval) list \<Rightarrow> exn + unit" where
  "verify_run_claims d =
     rbind (require_entry d ''gate'' (PStr ''Attempt 74 minimal ABI multi-epoch residency'') ''unexpected gate name'') (\<lambda>_.
     rbind (require_entry d ''schema_version'' (PInt 1) ''unexpected schema version'') (\<lambda>_.
     rbind (require_is d ''pass'' (PBool True) ''runner did not pass'') (\<lambda>_.
     rbind (require (map_of d ''error'' = None) ''runner recorded an execution error'') (\<lambda>_.
     rbind (require (map_of d ''shutdown_error'' = None) ''runner recorded a shutdown error'') (\<lambda>_.
     rbind (require_entry d ''support_boundary'' EXPECTED_SUPPORT ''support changed'') (\<lambda>_.
     rbind (require_entry d ''resolved_classes'' EXPECTED_CLASSES ''classes changed'') (\<lambda>_.
     rbind (require_is d ''distributed_initialized_during_engine'' (PBool True)
       ''distributed environment was not initialized'') (\<lambda>_.
     rbind (require_is d ''distributed_initialized_after_shutdown'' (PBool False)
       ''distributed environment survived shutdown'') (\<lambda>_.
       require (is_int (py_get d ''engine_core_init_wall_us'')) ''missing init time'')))))))))"

definition verify_warmup :: "(string \<times> pyval) list \<Rightarrow> exn + unit" where
  "verify_warmup d =
     rbind (require_dict (py_get d ''warmup'') ''missing warmup result'') (\<lambda>w.
     rbind (require_entry w ''status'' (PInt 0) ''warmup device status is not zero'') (\<lambda>_.
     rbind (require_entry w ''model_calls'' (PInt 1) ''warmup model-call count is not one'') (\<lambda>_.
     rbind (require_entry w ''feed_calls'' (PInt 1) ''warmup Feed count is not one'') (\<lambda>_.
     rbind (require_entry w ''fetch_calls'' (PInt 1) ''warmup Fetch count is not one'') (\<lambda>_.
     rbind (require (int_with (\<lambda>i. 0 < i) (py_get w ''wall_us'')) ''warmup wall time is invalid'') (\<lambda>_.
     rbind (require (int_with (\<lambda>i. 0 < i) (py_get w ''native_cpu_us'')) ''warmup native CPU time is invalid'') (\<lambda>_.
       require (py_eq (py_get w ''declared_input_bytes'') (PInt 260) \<and> py_eq (py_get w ''declared_output_bytes'') (PInt 368))
         ''warmup did not use the minimal ABI'')))))))"

text \<open>\<open>exists\<close> is \<open>Path(value).exists()\<close>.\<close>

definition verify_artifact :: "(string \<Rightarrow> bool) \<Rightarrow> (string \<times> pyval) list \<Rightarrow> string \<Rightarrow> exn + unit" where
  "verify_artifact exists artifacts key =
     (case py_get artifacts key of
        PStr path \<Rightarrow>
          rbind (require (path \<noteq> []) (''missing artifact '' @ key)) (\<lambda>_.
            require (exists path) (''artifact does not exist: '' @ key @ ''='' @ path))
      | _ \<Rightarrow> Inl (ValueError (''missing artifact '' @ key)))"

definition verify_cohort_artifacts :: "(string \<Rightarrow> bool) \<Rightarrow> (string \<times> pyval) list \<Rightarrow> exn + unit" where
  "verify_cohort_artifacts exists d =
     rbind (require_dict (py_get d ''artifacts'') ''missing artifact manifest'') (\<lambda>artifacts.
     rbind (require_entry artifacts ''backend_factory''
       (PStr ''vllm_ascend_resident_epoch.sidecar_backend:create_sidecar_engine'')
       ''runner did not use the DataFlow sidecar'') (\<lambda>_.
     rbind (require (case py_get artifacts ''baseline_sha256'' of PStr s \<Rightarrow> length s = 64 | _ \<Rightarrow> False)
       ''invalid baseline hash'') (\<lambda>_.
       for_each (verify_artifact exists artifacts)
         [''baseline_result'', ''native_server'', ''air'', ''tiling'', ''external_weights''])))"

section \<open>The epochs\<close>

definition verify_epoch_calls :: "string \<Rightarrow> pyval \<Rightarrow> exn + unit" where
  "verify_epoch_calls name epoch =
     (case epoch of
        PDict e \<Rightarrow>
          rbind (require_entry e ''name'' (PStr name) (name @ '': epoch order changed'')) (\<lambda>_.
          rbind (require_is e ''pass'' (PBool True) (name @ '': runner marked epoch failed'')) (\<lambda>_.
          rbind (require_all_checks (py_get e ''checks'') name) (\<lambda>_.
          rbind (require_is e ''model_executed'' (PBool True) (name @ '': model not executed'')) (\<lambda>_.
          rbind (require_entry e ''feed_calls'' (PInt 1) (name @ '': Feed count is not one'')) (\<lambda>_.
          rbind (require_entry e ''fetch_calls'' (PInt 1) (name @ '': Fetch count is not one'')) (\<lambda>_.
          rbind (require_entry e ''model_calls'' (PInt 2) (name @ '': model-call count is not two'')) (\<lambda>_.
          rbind (require (py_eq (py_get e ''socket_send_calls'') (PInt 1) \<and> py_eq (py_get e ''socket_receive_calls'') (PInt 1))
            (name @ '': socket round-trip count changed'')) (\<lambda>_.
          rbind (require (py_eq (py_get e ''declared_input_bytes'') (PInt 260) \<and> py_eq (py_get e ''declared_output_bytes'') (PInt 368)
              \<and> py_eq (py_get e ''declared_total_bytes'') (PInt 628))
            (name @ '': minimal ABI byte count changed'')) (\<lambda>_.
          rbind (require (int_with (\<lambda>i. 0 \<le> i) (py_get e ''python_cpu_us'')) (name @ '': missing Python CPU time'')) (\<lambda>_.
            require (int_with (\<lambda>i. 0 < i) (py_get e ''native_cpu_us'')) (name @ '': missing native CPU time'')))))))))))
      | _ \<Rightarrow> Inl (AttributeError ''object has no attribute get''))"

text \<open>\<open>(request.get("row"), request.get("generation"), ...)\<close>.\<close>

definition request_fields :: "string list \<Rightarrow> string \<times> pyval \<Rightarrow> exn + (string \<times> pyval)" where
  "request_fields names entry =
     rbind (map_res (value_get (snd entry)) names) (\<lambda>vs. Inr (fst entry, PList vs))"

definition verify_epoch_plan :: "expected_epoch \<Rightarrow> pyval \<Rightarrow> exn + unit" where
  "verify_epoch_plan expected epoch =
     (let name = ee_name expected; generations = ints_value (ee_row_generations expected) in
      rbind (value_get epoch ''sampled_tokens'') (\<lambda>sampled.
      rbind (require (py_eq sampled (tokens_value (ee_sampled expected))) (name @ '': tokens changed'')) (\<lambda>_.
      rbind (value_get epoch ''plan'') (\<lambda>planned.
      rbind (require_dict planned (name @ '': missing plan'')) (\<lambda>plan.
      rbind (require_entry plan ''max_steps'' (PInt 2) (name @ '': epoch budget changed'')) (\<lambda>_.
      rbind (require_entry plan ''active_mask'' (ints_value (ee_active_mask expected))
        (name @ '': active mask changed'')) (\<lambda>_.
      rbind (require_entry plan ''row_generations'' generations (name @ '': plan generations changed'')) (\<lambda>_.
      rbind (value_get epoch ''result_row_generations'') (\<lambda>acknowledged.
      rbind (require (py_eq acknowledged generations) (name @ '': generation acknowledgement changed'')) (\<lambda>_.
      rbind (require_dict (py_get plan ''requests'') (name @ '': missing request plans'')) (\<lambda>requests.
      rbind (map_res (request_fields [''row'', ''generation'', ''position'', ''token_id'']) requests) (\<lambda>actual.
        require (py_eq (PDict actual) (tokens_value (ee_requests expected)))
          (name @ '': row continuity changed'')))))))))))))"

text \<open>The three totals of calls.\<close>

definition verify_epoch :: "pyval \<times> expected_epoch \<Rightarrow> pyval list \<Rightarrow> exn + pyval list" where
  "verify_epoch pair totals =
     (let (epoch, expected) = pair in
      rbind (verify_epoch_calls (ee_name expected) epoch) (\<lambda>_.
      rbind (verify_epoch_plan expected epoch) (\<lambda>_.
        map_res (\<lambda>(total, key). rbind (value_item epoch key) (number_add total))
          (zip totals [''feed_calls'', ''fetch_calls'', ''model_calls'']))))"

section \<open>The trace\<close>

definition observed_constants :: pyval where
  "observed_constants =
     tokens_value [(''A'', EXPECTED_TOKENS), (''B'', take 2 EXPECTED_TOKENS), (''C'', take 2 EXPECTED_TOKENS)]"

definition verify_trace_claims :: "(string \<times> pyval) list \<Rightarrow> exn + (string \<times> pyval) list" where
  "verify_trace_claims d =
     rbind (require_dict (py_get d ''trace'') ''trace failed'') (\<lambda>trace.
     rbind (require_is trace ''pass'' (PBool True) ''trace failed'') (\<lambda>_.
     rbind (require_all_checks (py_get trace ''checks'') ''trace'') (\<lambda>_.
     rbind (require_entry trace ''observed_tokens'' observed_constants
       ''cross-epoch tokens do not match the frozen baseline'') (\<lambda>_.
     rbind (require (py_eq (py_get trace ''observed_tokens'') (py_get trace ''expected_tokens'')) ''token self-check failed'') (\<lambda>_.
       Inr trace)))))"

definition finished_state :: "string \<times> pyval \<Rightarrow> exn + bool" where
  "finished_state entry =
     rbind (value_get_or (snd entry) ''status'' (PStr '''')) (\<lambda>status.
       case status of
         PStr s \<Rightarrow> Inr (prefix ''FINISHED_'' s)
       | _ \<Rightarrow> Inl (AttributeError ''object has no attribute startswith''))"

definition verify_trace_end :: "(string \<times> pyval) list \<Rightarrow> pyval \<Rightarrow> exn + unit" where
  "verify_trace_end trace first =
     rbind (value_get_or first ''engine_core_step_wall_us'' (PInt 10000000)) (\<lambda>wall.
     rbind (require_res (value_below wall 10000000) ''first service epoch still contains lazy-load latency'') (\<lambda>_.
     rbind (require_dict (py_get trace ''final_request_state'') ''missing final request state'') (\<lambda>states.
     rbind (map_res (request_fields [''num_computed_tokens'', ''num_output_tokens'']) states) (\<lambda>accounting.
     rbind (require (py_eq (PDict accounting) (tokens_value [(''A'', [6, 6]), (''B'', [2, 2]), (''C'', [2, 2])]))
       ''final scheduler accounting changed'') (\<lambda>_.
     rbind (require_res (all_res finished_state states) ''not all requests finished'') (\<lambda>_.
       require_entry trace ''cleanup'' (PDict [(''model_executed'', PBool False), (''engine_outputs'', PList [])])
         ''cleanup executed the model or emitted output''))))))"

definition validate_cohort :: "(string \<Rightarrow> bool) \<Rightarrow> pyval \<Rightarrow> exn + (string \<times> pyval) list" where
  "validate_cohort exists data =
     (case data of
        PDict d \<Rightarrow>
          rbind (verify_run_claims d) (\<lambda>_.
          rbind (verify_warmup d) (\<lambda>_.
          rbind (require_all_checks (py_get d ''checks'') ''top-level'') (\<lambda>_.
          rbind (verify_cohort_artifacts exists d) (\<lambda>_.
          rbind (verify_trace_claims d) (\<lambda>trace.
          rbind (require_list (py_get trace ''epochs'') 3 ''expected three epochs'') (\<lambda>epochs.
          rbind (fold_res verify_epoch (zip epochs EXPECTED_EPOCHS) [PInt 1, PInt 1, PInt 1]) (\<lambda>totals.
          rbind (verify_trace_end trace (epochs ! 0)) (\<lambda>_.
          rbind (number_add (totals ! 0) (PInt (-1))) (\<lambda>feeds.
          rbind (number_add (totals ! 1) (PInt (-1))) (\<lambda>fetches.
          rbind (value_item (epochs ! 0) ''engine_core_step_wall_us'') (\<lambda>wall.
            Inr [(''pass'', PBool True), (''warmup_feed_calls'', PInt 1), (''warmup_fetch_calls'', PInt 1),
              (''service_epochs'', PInt 3), (''service_feed_calls'', feeds), (''service_fetch_calls'', fetches),
              (''total_model_calls'', totals ! 2), (''first_service_epoch_wall_us'', wall),
              (''resolved_classes'', py_get d ''resolved_classes''), (''distributed_destroyed'', PBool True),
              (''declared_input_bytes_per_epoch'', PInt 260), (''declared_output_bytes_per_epoch'', PInt 368),
              (''declared_total_bytes_per_epoch'', PInt 628)])))))))))))
      | _ \<Rightarrow> Inl (AttributeError ''object has no attribute get''))"

text \<open>\<open>main\<close> over the text of the result: its summary, or 1 when it is invalid.\<close>

definition validate_cohort_main :: "evidence_io \<Rightarrow> evidence \<Rightarrow> (string \<Rightarrow> bool) \<Rightarrow> string \<Rightarrow> exn + int" where
  "validate_cohort_main io files exists path =
     (case rbind (load_json io files path) (validate_cohort exists) of
        Inr _ \<Rightarrow> Inr 0
      | Inl e \<Rightarrow>
          (case e of
             OSError _ \<Rightarrow> Inr 1 | FileNotFoundError _ \<Rightarrow> Inr 1 | ValueError _ \<Rightarrow> Inr 1
           | UnicodeError _ \<Rightarrow> Inr 1 | JSONDecodeError _ \<Rightarrow> Inr 1 | _ \<Rightarrow> Inl e))"

end
