(* ===== verification/CohortProps.thy ===== *)
theory CohortProps
  imports CohortRun CohortVerify
begin

text \<open>
  The run of a resident cohort and the verifier of its result agree: what a run leaves in the
  session, what a recorded pass stands for, and the verifier's checks on such a record.
\<close>

section \<open>What a run leaves in the session\<close>

definition keeps_result :: "('a, 'e session) run \<Rightarrow> bool" where
  "keeps_result f \<longleftrightarrow> (\<forall>s r t. f s = (r, t) \<longrightarrow> se_result t = se_result s)"

text \<open>A run that raises has not set \<open>pass\<close>.\<close>

definition keeps_pass :: "('a, 'e session) run \<Rightarrow> bool" where
  "keeps_pass f \<longleftrightarrow> (\<forall>s r t. f s = (r, t) \<longrightarrow> map_of (se_result t) ''pass'' = map_of (se_result s) ''pass'')"

definition raises_unpassed :: "('a, 'e session) run \<Rightarrow> bool" where
  "raises_unpassed f \<longleftrightarrow>
     (\<forall>s e t. f s = (Inl e, t) \<longrightarrow> map_of (se_result t) ''pass'' = map_of (se_result s) ''pass'')"

named_theorems keeps_intros

lemma keeps_resultD: "keeps_result f \<Longrightarrow> f s = (r, t) \<Longrightarrow> se_result t = se_result s"
  by (simp add: keeps_result_def)

lemma keeps_result_bind [keeps_intros]:
  assumes "keeps_result f" and "\<And>x. keeps_result (k x)"
  shows "keeps_result (run_bind f k)"
  unfolding keeps_result_def
proof (intro allI impI)
  fix s r t assume run: "run_bind f k s = (r, t)"
  obtain q u where f: "f s = (q, u)" by fastforce
  then have "se_result u = se_result s" using assms(1) by (simp add: keeps_result_def)
  moreover have "se_result t = se_result u"
    using run f assms(2) by (cases q) (auto simp: run_bind_def keeps_result_def)
  ultimately show "se_result t = se_result s" by simp
qed

lemma keeps_result_basic [keeps_intros]:
  "keeps_result (run_return x)" "keeps_result (run_of r)" "keeps_result (run_some v e)" "keeps_result (run_if c e)"
  "keeps_result (on_core g)" "keeps_result (of_core p)" "keeps_result (now h clk)" "keeps_result (create_engine h)"
  by (auto simp: keeps_result_def run_return_def run_of_def run_if_def run_some_def on_core_def of_core_def now_def
      create_engine_def split: prod.splits sum.splits option.splits)

lemma keeps_result_cases [keeps_intros]:
  "(\<And>x y. keeps_result (k x y)) \<Longrightarrow> keeps_result (case p of (x, y) \<Rightarrow> k x y)"
  "keeps_result f \<Longrightarrow> (\<And>x. keeps_result (g x)) \<Longrightarrow> keeps_result (case v of None \<Rightarrow> f | Some x \<Rightarrow> g x)"
  by (simp_all split: prod.split option.split)

lemma keeps_pass_result: "keeps_result f \<Longrightarrow> keeps_pass f"
  by (simp add: keeps_result_def keeps_pass_def)

lemma keeps_pass_entry: "k \<noteq> ''pass'' \<Longrightarrow> keeps_pass (record_entry k v)"
  by (auto simp: keeps_pass_def record_entry_def dict_simps)

lemma raises_unpassed_bind:
  assumes "keeps_pass f" and "\<And>x. raises_unpassed (k x)"
  shows "raises_unpassed (run_bind f k)"
  unfolding raises_unpassed_def
proof (intro allI impI)
  fix s e t assume run: "run_bind f k s = (Inl e, t)"
  obtain q u where f: "f s = (q, u)" by fastforce
  then have "map_of (se_result u) ''pass'' = map_of (se_result s) ''pass''" using assms(1) by (simp add: keeps_pass_def)
  moreover have "map_of (se_result t) ''pass'' = map_of (se_result u) ''pass''"
    using run f assms(2) by (cases q) (auto simp: run_bind_def raises_unpassed_def)
  ultimately show "map_of (se_result t) ''pass'' = map_of (se_result s) ''pass''" by simp
qed

lemma raises_unpassed_entry: "raises_unpassed (record_entry k v)"
  by (simp add: raises_unpassed_def record_entry_def)

lemma keeps_result_epoch: "keeps_result (execute_epoch h name ids)"
  unfolding execute_epoch_def Let_def
  by (intro keeps_intros)

lemma keeps_result_trace: "keeps_result (run_dynamic_trace h tokens input_token)"
  unfolding run_dynamic_trace_def Let_def add_request_def
  by (intro keeps_intros keeps_result_epoch)

lemma raises_unpassed_measure: "raises_unpassed (measure_cohort h a baseline tokens warmup)"
  unfolding measure_cohort_def Let_def
  by (intro raises_unpassed_bind raises_unpassed_entry keeps_pass_entry keeps_pass_result keeps_intros
      keeps_result_trace) simp_all

lemma raises_unpassed_body: "raises_unpassed (cohort_body h a)"
  unfolding cohort_body_def Let_def
  by (intro raises_unpassed_bind raises_unpassed_measure keeps_pass_entry keeps_pass_result keeps_intros) simp_all

section \<open>What an epoch and a trace hold\<close>

text \<open>An epoch as \<open>execute_epoch\<close> leaves it.\<close>

definition epoch_sound :: "string \<Rightarrow> epoch_run \<Rightarrow> bool" where
  "epoch_sound name u \<longleftrightarrow>
     eu_name u = name \<and> 0 \<le> eu_cpu_us u \<and> plan_row_generations (eu_plan u) = Inr (eu_generations u)
     \<and> epoch_accounted (eu_plan u) (eu_result u)"

text \<open>A device epoch acknowledges the generations of its plan.\<close>

lemma accounted_generations:
  assumes "epoch_accounted p r" and "plan_row_generations p = Inr g" and "er_feed_calls r = 1"
  shows "er_row_generations r = g"
proof -
  from assms(1) obtain sampled where ok: "validate_against r p sampled = Inr ()" and route: "on_device r \<or> on_host r"
    by (auto simp: epoch_accounted_def)
  have "on_device r" using ok route assms(3) by (auto simp: validate_against_def res_simps split: if_splits)
  with ok assms(2) show ?thesis by (auto simp: validate_against_def res_simps split: if_splits)
qed

lemma engine_accountsD:
  "engine_accounts core \<Longrightarrow> ec_step core e = (Inr (outputs, executed), e1) \<Longrightarrow>
   ec_post_step core executed e1 = (Inr v, e2) \<Longrightarrow> ec_last_plan core e2 = Some p \<Longrightarrow>
   ec_last_result core e2 = Some r \<Longrightarrow> epoch_accounted p r"
  unfolding engine_accounts_def by (cases v) blast

lemma execute_epoch_sound:
  assumes run: "execute_epoch h name ids s = (Inr u, t)"
    and engine: "engine_accounts (rh_core h)" and clock: "mono (rh_clock h ProcessTime)"
  shows "epoch_sound name u"
proof -
  have order: "rh_clock h ProcessTime m \<le> rh_clock h ProcessTime (Suc (Suc (Suc (Suc (Suc (Suc (Suc (Suc m))))))))" for m
    using clock by (simp add: monoD)
  from run show ?thesis
    unfolding execute_epoch_def Let_def
    by (elim run_bindE)
      (auto simp: run_simps epoch_sound_def pos_imp_zdiv_nonneg_iff order, rule engine_accountsD [OF engine])
qed

text \<open>A trace as \<open>run_dynamic_trace\<close> leaves it.\<close>

definition trace_sound :: "int list \<Rightarrow> int \<Rightarrow> trace_run \<Rightarrow> epoch_run \<Rightarrow> epoch_run \<Rightarrow> epoch_run \<Rightarrow> bool" where
  "trace_sound tokens input_token t u1 u2 u3 \<longleftrightarrow>
     6 \<le> length tokens
     \<and> epoch_sound ''epoch-1-a'' u1 \<and> epoch_sound ''epoch-2-a-b'' u2 \<and> epoch_sound ''epoch-3-a-c'' u3
     \<and> tr_epochs t = [(u1, epoch_checks tokens input_token 0 u1), (u2, epoch_checks tokens input_token 1 u2),
         (u3, epoch_checks tokens input_token 2 u3)]
     \<and> tr_observed t = observed_tokens [u1, u2, u3] \<and> tr_expected t = expected_tokens_of tokens
     \<and> keys (tr_states t) = [''A'', ''B'', ''C'']
     \<and> (\<exists>unfinished. trace_checks tokens (tr_epochs t) (tr_states t) (tr_cleanup_executed t)
           (tr_cleanup_records t) unfinished = Inr (tr_checks t))"

lemma run_dynamic_trace_sound:
  assumes run: "run_dynamic_trace h tokens input_token s = (Inr t, s')"
    and engine: "engine_accounts (rh_core h)" and clock: "mono (rh_clock h ProcessTime)"
  obtains u1 u2 u3 where "trace_sound tokens input_token t u1 u2 u3"
proof -
  from run show thesis
    unfolding run_dynamic_trace_def Let_def
  proof (elim run_bindE, goal_cases)
    case (1 x1 t1 x2 t2 u1 t3 x4 t4 u2 t5 x6 t6 u3 t7 out t8)
    have sound: "epoch_sound ''epoch-1-a'' u1" "epoch_sound ''epoch-2-a-b'' u2" "epoch_sound ''epoch-3-a-c'' u3"
      using 1 execute_epoch_sound [OF _ engine clock] by blast+
    have "trace_sound tokens input_token t u1 u2 u3"
      using 1 sound by (auto simp: trace_sound_def request_states_def numeral_2_eq_2 run_simps split_beta)
    then show ?case by (rule that)
  qed
qed

section \<open>A run that passed\<close>

text \<open>The document of a run that passed.\<close>

definition passed_doc :: "int \<Rightarrow> pyval \<Rightarrow> warmup_output \<Rightarrow> trace_run \<Rightarrow> (string \<times> pyval) list \<Rightarrow> (string \<times> pyval) list" where
  "passed_doc init classes w t artifacts =
     AList.update ''distributed_initialized_after_shutdown'' (PBool False)
      (AList.update ''pass'' (PBool True)
       (AList.update ''artifacts'' (PDict artifacts)
        (AList.update ''checks'' (bools_value (cohort_checks True w t))
         (AList.update ''trace'' (PDict (trace_doc t))
          (AList.update ''warmup'' (PDict (warmup_doc w))
           (AList.update ''distributed_initialized_during_engine'' (PBool True)
            (AList.update ''resolved_classes'' classes
             (AList.update ''engine_core_init_wall_us'' (PInt init) initial_result))))))))"

lemma all_checks_initialized: "all_checks (cohort_checks b w t) \<Longrightarrow> b"
  by (simp add: all_checks_def cohort_checks_def)

text \<open>The end of a run records \<open>pass\<close> only when the body ended and nothing was left.\<close>

lemma run_to_end_passed:
  assumes run: "run_to_end h body s = (Inr x, s')" and passed: "truthy (py_get (se_result s') ''pass'')"
    and raises: "raises_unpassed body" and before: "map_of (se_result s) ''pass'' = Some (PBool False)"
  obtains y t where "body s = (Inr y, t)" and "truthy (py_get (se_result t) ''pass'')"
    and "se_result s' = AList.update ''distributed_initialized_after_shutdown'' (PBool False) (se_result t)"
proof -
  from run obtain v1 t1 v2 t2 where r: "record_error h body s = (Inr v1, t1)" and d: "shut_down h t1 = (Inr v2, t2)"
    and l: "record_leftovers h t2 = (Inr x, s')"
    unfolding run_to_end_def by (elim run_bindE) blast
  from l passed have left: "se_result s' = AList.update ''distributed_initialized_after_shutdown'' (PBool False) (se_result t2)"
    and p2: "truthy (py_get (se_result t2) ''pass'')"
    by (auto simp: record_leftovers_def run_simps py_get_update split: if_splits)
  from d p2 have same: "se_result t2 = se_result t1"
    by (auto simp: shut_down_def run_simps py_get_update on_core_def split: if_splits prod.splits sum.splits)
  obtain q t where body: "body s = (q, t)" by fastforce
  show thesis
  proof (cases q)
    case (Inr y)
    with body r have "t = t1" by (simp add: record_error_def)
    with Inr body left p2 same show thesis by (intro that [of y t]) simp_all
  next
    case (Inl e)
    with body raises before have "map_of (se_result t) ''pass'' = Some (PBool False)"
      unfolding raises_unpassed_def by metis
    with Inl body r have "py_get (se_result t1) ''pass'' = PBool False"
      by (auto simp: record_error_def run_simps py_get_def dict_simps)
    with p2 same show thesis by simp
  qed
qed

lemma cohort_passed:
  assumes run: "cohort_run h a e = Inr doc" and passed: "exit_status doc = 0"
    and engine: "engine_accounts (rh_core h)" and clock: "mono (rh_clock h ProcessTime)"
  obtains baseline tokens digest init c w t u1 u2 u3 where "rh_resolve h (ca_baseline a) = Inr baseline"
    and "baseline_tokens h baseline = Inr tokens" and "evidence_sha256 (rh_io h) (rh_files h) baseline = Inr digest"
    and "doc = passed_doc init (cohort_classes (rh_core h) c) w t (cohort_artifacts (rh_environ h) baseline digest)"
    and "all_checks (cohort_checks True w t)" and "trace_sound tokens (ca_input_token a) t u1 u2 u3"
proof -
  let ?s = "\<lparr>se_core = e, se_created = False, se_readings = 0, se_result = initial_result\<rparr>"
  from run obtain v s' where end_of: "run_to_end h (cohort_body h a) ?s = (Inr v, s')" and doc: "doc = se_result s'"
    by (auto simp: cohort_run_def split: prod.splits sum.splits)
  have "truthy (py_get (se_result s') ''pass'')" using passed doc by (simp add: exit_status_def split: if_splits)
  moreover have "map_of (se_result ?s) ''pass'' = Some (PBool False)" by (simp add: initial_result_def)
  ultimately obtain y s1 where body: "cohort_body h a ?s = (Inr y, s1)" and p1: "truthy (py_get (se_result s1) ''pass'')"
    and final: "se_result s' = AList.update ''distributed_initialized_after_shutdown'' (PBool False) (se_result s1)"
    using run_to_end_passed [OF end_of _ raises_unpassed_body] by metis
  from body obtain model baseline tokens c0 n init c w s2 where
    reads: "rh_resolve h (ca_baseline a) = Inr baseline" "baseline_tokens h baseline = Inr tokens"
    and measure: "measure_cohort h a baseline tokens w s2 = (Inr y, s1)"
    and before: "se_result s2 = AList.update ''resolved_classes'' (cohort_classes (rh_core h) c)
        (AList.update ''engine_core_init_wall_us'' (PInt init) initial_result)"
    unfolding cohort_body_def Let_def by (elim run_bindE) (auto simp: run_simps)
  from measure obtain b digest t s3 s4 where digest: "evidence_sha256 (rh_io h) (rh_files h) baseline = Inr digest"
    and trace: "run_dynamic_trace h tokens (ca_input_token a) s3 = (Inr t, s4)"
    and after: "se_result s1 = AList.update ''pass'' (PBool (all_checks (cohort_checks b w t)))
       (AList.update ''artifacts'' (PDict (cohort_artifacts (rh_environ h) baseline digest))
        (AList.update ''checks'' (bools_value (cohort_checks b w t))
         (AList.update ''trace'' (PDict (trace_doc t)) (se_result s4))))"
    and s3: "se_result s3 = AList.update ''warmup'' (PDict (warmup_doc w))
       (AList.update ''distributed_initialized_during_engine'' (PBool b) (se_result s2))"
    unfolding measure_cohort_def Let_def by (elim run_bindE) (auto simp: run_simps)
  have "se_result s4 = se_result s3" by (rule keeps_resultD [OF keeps_result_trace trace])
  moreover have checks: "all_checks (cohort_checks b w t)" using p1 after by (simp add: py_get_update)
  moreover have "b" by (rule all_checks_initialized [OF checks])
  moreover obtain u1 u2 u3 where "trace_sound tokens (ca_input_token a) t u1 u2 u3"
    by (rule run_dynamic_trace_sound [OF trace engine clock])
  ultimately show thesis
    using that [OF reads digest] after s3 before final doc by (simp add: passed_doc_def)
qed

end
