(* ===== verification/CohortAgree.thy ===== *)
theory CohortAgree
  imports CohortProps ComparisonProps
begin

text \<open>
  The verifier of \<open>verify_multi_epoch_cohort_result.py\<close> on the result of a run of
  \<open>run_multi_epoch_cohort.py\<close>: each of its checks, on the document of a run that passed.
\<close>

section \<open>Values\<close>

lemma ints_value_eq [simp]: "py_eq (ints_value xs) (ints_value ys) \<longleftrightarrow> xs = ys"
proof -
  have "py_eq_list (map PInt xs) (map PInt ys) \<longleftrightarrow> xs = ys"
  proof (induction xs arbitrary: ys)
    case (Cons x xs)
    then show ?case by (cases ys) simp_all
  qed auto
  then show ?thesis by (simp add: ints_value_def)
qed

lemma require_bools [res_simps]:
  "require_all_checks (bools_value checks) name = Inr v \<longleftrightarrow> checks \<noteq> [] \<and> all_checks checks"
proof -
  have "sort ks = [] \<longleftrightarrow> ks = []" for ks :: "string list" by (metis length_0_conv length_sort)
  then show ?thesis
    by (auto simp: require_all_checks_def bools_value_def all_checks_def res_simps Let_def filter_empty_conv)
qed

lemma require_res_Inr [res_simps]: "require_res r m = Inr v \<longleftrightarrow> r = Inr True"
  by (auto simp: require_res_def res_simps)

lemma int_with_PInt [simp]: "int_with test (PInt i) \<longleftrightarrow> test i"
  by (simp add: int_with_def)

lemma number_add_ints [simp]: "number_add (PInt i) (PInt j) = Inr (PInt (i + j))"
  by (simp add: number_add_def)

text \<open>The fields of requests that were recorded as numbers.\<close>

lemma request_fields_plan:
  "map_res (request_fields [''row'', ''generation'', ''position'', ''token_id'']) (map (\<lambda>(k, r). (k, plan_request_value r)) rs)
     = Inr (map (\<lambda>(k, r). (k, ints_value [rq_row r, rq_generation r, rq_position r, rq_token_id r])) rs)"
  by (induction rs) (auto simp: request_fields_def plan_request_value_def py_get_def ints_value_def)

lemma request_fields_states:
  "map_res (request_fields [''num_computed_tokens'', ''num_output_tokens'']) (map (\<lambda>(k, q). (k, request_state_value q)) qs)
     = Inr (map (\<lambda>(k, q). (k, ints_value [qs_computed q, qs_outputs q])) qs)"
  by (induction qs) (auto simp: request_fields_def request_state_value_def py_get_def ints_value_def)

lemma finished_states:
  "all_res finished_state (map (\<lambda>(k, q). (k, request_state_value q)) qs) = Inr (\<forall>(k, q) \<in> set qs. prefix ''FINISHED_'' (qs_status q))"
proof -
  have "finished_state (k, request_state_value q) = Inr (prefix ''FINISHED_'' (qs_status q))" for k q
    by (simp add: finished_state_def request_state_value_def value_get_or_def)
  then show ?thesis by (induction qs) auto
qed

section \<open>The head of the result\<close>

lemma claims_of_passed:
  "verify_run_claims (passed_doc init classes w t artifacts) = Inr () \<longleftrightarrow> py_eq classes EXPECTED_CLASSES"
proof -
  have "py_eq cohort_support EXPECTED_SUPPORT" by code_simp
  then show ?thesis
    by (simp add: verify_run_claims_def res_simps require_entry_def require_is_def passed_doc_def py_get_update
        dict_simps is_int_def) (simp add: initial_result_def py_get_def)
qed

lemma warmup_of_passed:
  assumes "all_checks (cohort_checks b w t)"
  shows "verify_warmup (passed_doc init classes w t artifacts) = Inr ()"
proof -
  from assms have w: "wo_status w = 0" "wo_model_calls w = 1" "wo_feed_calls w = 1" "wo_fetch_calls w = 1" "wo_wall_us w > 0"
    "wo_declared_input_bytes w = 260" "wo_declared_output_bytes w = 368" "wo_native_cpu_us w > 0"
    by (simp_all add: all_checks_def cohort_checks_def)
  have "py_get (passed_doc init classes w t artifacts) ''warmup'' = PDict (warmup_doc w)"
    by (simp add: passed_doc_def py_get_update)
  with w show ?thesis
    by (simp add: verify_warmup_def res_simps require_entry_def) (simp add: warmup_doc_def py_get_def w)
qed

text \<open>The environment of the run names the sidecar's factory and files that exist, as the baseline does.\<close>

definition SETUP_VARIABLES :: "string list" where
  "SETUP_VARIABLES =
     [''VLLM_ASCEND_RESIDENT_EPOCH_SERVER'', ''VLLM_ASCEND_RESIDENT_EPOCH_AIR'', ''VLLM_ASCEND_RESIDENT_EPOCH_TILING'',
      ''VLLM_ASCEND_RESIDENT_EPOCH_EXTERNAL_WEIGHTS'']"

definition named_file :: "(string \<Rightarrow> bool) \<Rightarrow> string option \<Rightarrow> bool" where
  "named_file exists v \<longleftrightarrow> (case v of None \<Rightarrow> False | Some path \<Rightarrow> path \<noteq> [] \<and> exists path)"

definition sidecar_setup :: "(string \<Rightarrow> bool) \<Rightarrow> (string, string) dict \<Rightarrow> string \<Rightarrow> string \<Rightarrow> bool" where
  "sidecar_setup exists environ baseline digest \<longleftrightarrow>
     map_of environ ''VLLM_ASCEND_RESIDENT_EPOCH_BACKEND_FACTORY''
       = Some ''vllm_ascend_resident_epoch.sidecar_backend:create_sidecar_engine''
     \<and> length digest = 64 \<and> named_file exists (Some baseline)
     \<and> (\<forall>variable \<in> set SETUP_VARIABLES. named_file exists (map_of environ variable))"

lemma artifact_named:
  "py_get artifacts key = option_value v \<Longrightarrow> verify_artifact exists artifacts key = Inr () \<longleftrightarrow> named_file exists v"
  by (cases v) (auto simp: verify_artifact_def option_value_def named_file_def res_simps)

lemma artifacts_of_passed:
  "verify_cohort_artifacts exists (passed_doc init classes w t (cohort_artifacts environ baseline digest)) = Inr ()
     \<longleftrightarrow> sidecar_setup exists environ baseline digest"
proof -
  let ?a = "cohort_artifacts environ baseline digest"
  have get: "py_get (passed_doc init classes w t ?a) ''artifacts'' = PDict ?a"
    by (simp add: passed_doc_def py_get_update)
  have named: "py_get ?a ''baseline_result'' = option_value (Some baseline)"
    "py_get ?a ''native_server'' = option_value (map_of environ ''VLLM_ASCEND_RESIDENT_EPOCH_SERVER'')"
    "py_get ?a ''air'' = option_value (map_of environ ''VLLM_ASCEND_RESIDENT_EPOCH_AIR'')"
    "py_get ?a ''tiling'' = option_value (map_of environ ''VLLM_ASCEND_RESIDENT_EPOCH_TILING'')"
    "py_get ?a ''external_weights'' = option_value (map_of environ ''VLLM_ASCEND_RESIDENT_EPOCH_EXTERNAL_WEIGHTS'')"
    by (simp_all add: cohort_artifacts_def py_get_def option_value_def)
  have factory: "py_get ?a ''backend_factory'' = option_value (map_of environ ''VLLM_ASCEND_RESIDENT_EPOCH_BACKEND_FACTORY'')"
    and digest: "py_get ?a ''baseline_sha256'' = PStr digest"
    by (simp_all add: cohort_artifacts_def py_get_def)
  have is_factory: "option_value v = PStr s \<longleftrightarrow> v = Some s" for v s by (cases v) (simp_all add: option_value_def)
  show ?thesis
    by (simp add: verify_cohort_artifacts_def get require_entry_def res_simps factory digest is_factory
        artifact_named [OF named(1)] artifact_named [OF named(2)] artifact_named [OF named(3)]
        artifact_named [OF named(4)] artifact_named [OF named(5)] sidecar_setup_def SETUP_VARIABLES_def)
qed

section \<open>The epochs\<close>

lemma sampled_doc: "py_get (epoch_doc u checks) ''sampled_tokens'' = tokens_value (eu_sampled u)"
  and plan_doc: "py_get (epoch_doc u checks) ''plan'' = plan_value u"
  and acknowledged_doc: "py_get (epoch_doc u checks) ''result_row_generations'' = ints_value (er_row_generations (eu_result u))"
  by (simp_all add: epoch_doc_def py_get_def Let_def)

lemma epoch_calls_accepted:
  assumes sound: "epoch_sound name u" and checks: "all_checks (epoch_checks tokens input_token index u)"
  shows "verify_epoch_calls name (PDict (epoch_doc u (epoch_checks tokens input_token index u))) = Inr ()"
proof -
  from checks have c: "eu_executed u" "er_feed_calls (eu_result u) = 1" "er_fetch_calls (eu_result u) = 1"
    "er_model_calls (eu_result u) = 2" "er_socket_send_calls (eu_result u) = 1" "er_socket_receive_calls (eu_result u) = 1"
    "er_declared_input_bytes (eu_result u) = 260" "er_declared_output_bytes (eu_result u) = 368"
    "er_native_cpu_us (eu_result u) > 0"
    by (simp_all add: all_checks_def epoch_checks_def Let_def)
  have "epoch_checks tokens input_token index u \<noteq> []" by (simp add: epoch_checks_def Let_def)
  with sound checks c show ?thesis
    by (simp add: verify_epoch_calls_def res_simps require_entry_def require_is_def epoch_sound_def epoch_doc_def
        py_get_def Let_def)
qed

lemma epoch_plan_accepted:
  assumes "all_checks (epoch_checks tokens input_token index u)" and "epoch_sound name u"
  shows "verify_epoch_plan expected (PDict (epoch_doc u checks)) = Inr () \<longleftrightarrow>
     same_tokens (eu_sampled u) (ee_sampled expected) \<and> pl_active_mask (eu_plan u) = ee_active_mask expected
     \<and> er_row_generations (eu_result u) = ee_row_generations expected
     \<and> same_tokens (actual_plan u) (ee_requests expected)"
proof -
  from assms(1) have c: "er_feed_calls (eu_result u) = 1" "pl_max_steps (eu_plan u) = 2"
    by (simp_all add: all_checks_def epoch_checks_def Let_def)
  have g: "eu_generations u = er_row_generations (eu_result u)"
    using assms(2) accounted_generations [OF _ _ c(1), of "eu_plan u" "eu_generations u"] by (simp add: epoch_sound_def)
  have p: "map (\<lambda>(k, r). (k, ints_value [rq_row r, rq_generation r, rq_position r, rq_token_id r])) (eu_requests u)
      = map (\<lambda>(k, ts). (k, ints_value ts)) (actual_plan u)"
    by (auto simp: actual_plan_def)
  show ?thesis
    by (simp add: verify_epoch_plan_def Let_def sampled_doc plan_doc acknowledged_doc res_simps require_entry_def)
      (auto simp: plan_value_def py_get_def res_simps request_fields_plan c g p same_tokens_def tokens_value_def)
qed

section \<open>The trace\<close>

text \<open>What the checks of a trace say, and of its first epoch's requests.\<close>

lemma trace_checks_passed:
  assumes "trace_checks tokens epochs states executed records unfinished = Inr checks" and "all_checks checks"
  shows "\<forall>(u, cs) \<in> set epochs. all_checks cs" and "same_tokens (observed_tokens (map fst epochs)) (expected_tokens_of tokens)"
    and "same_tokens (finals states) FINAL_ACCOUNTING" and "\<forall>(k, q) \<in> set states. prefix ''FINISHED_'' (qs_status q)"
    and "\<not> executed" and "records = []" and "checks \<noteq> []"
proof -
  obtain stable replaced where "checks =
      [(''three_device_epochs'', length epochs = 3 \<and> (\<forall>(u, cs) \<in> set epochs. all_checks cs)),
       (''tokens_match_frozen_baseline'', same_tokens (observed_tokens (map fst epochs)) (expected_tokens_of tokens)),
       (''a_spans_three_epochs'', \<forall>u \<in> set (map fst epochs). ''A'' \<in> set (keys (eu_sampled u))),
       (''row_zero_generation_one_stable'', stable), (''row_one_replaced'', replaced),
       (''final_accounting'', same_tokens (finals states) FINAL_ACCOUNTING),
       (''all_requests_finished'', \<forall>(k, q) \<in> set states. prefix ''FINISHED_'' (qs_status q)),
       (''cleanup_model_not_executed'', \<not> executed), (''cleanup_outputs_empty'', records = []),
       (''scheduler_drained'', \<not> unfinished)]"
    using assms(1) unfolding trace_checks_def Let_def rbind_Inr_iff by blast
  with assms(2) show "\<forall>(u, cs) \<in> set epochs. all_checks cs"
    and "same_tokens (observed_tokens (map fst epochs)) (expected_tokens_of tokens)"
    and "same_tokens (finals states) FINAL_ACCOUNTING" and "\<forall>(k, q) \<in> set states. prefix ''FINISHED_'' (qs_status q)"
    and "\<not> executed" and "records = []" and "checks \<noteq> []"
    by (simp_all only: all_checks_def list.set ball_simps insert_iff prod.case list.distinct simp_thms) blast+
qed

lemma same_three:
  "same_tokens [(''A'', a), (''B'', b), (''C'', c)] [(''A'', a'), (''B'', b'), (''C'', c')] \<longleftrightarrow> a = a' \<and> b = b' \<and> c = c'"
  by (simp add: same_tokens_def tokens_value_def)

lemma observed_frozen:
  assumes "same_tokens (observed_tokens us) (expected_tokens_of tokens)"
  shows "py_eq (tokens_value (observed_tokens us)) observed_constants \<longleftrightarrow> take 6 tokens = EXPECTED_TOKENS"
proof -
  have "take 2 tokens = take 2 (take 6 tokens)" by simp
  moreover have "py_eq (tokens_value (observed_tokens us)) observed_constants \<longleftrightarrow>
      same_tokens (observed_tokens us)
        [(''A'', EXPECTED_TOKENS), (''B'', take 2 EXPECTED_TOKENS), (''C'', take 2 EXPECTED_TOKENS)]"
    by (simp only: same_tokens_def observed_constants_def)
  ultimately show ?thesis
    using assms unfolding observed_tokens_def expected_tokens_of_def same_three by metis
qed

lemma same_single: "same_tokens d [(k, xs)] \<longleftrightarrow> d = [(k, xs)]"
proof (cases d)
  case (Cons e d')
  then show ?thesis by (cases e; cases d') (auto simp: same_tokens_def tokens_value_def)
qed (auto simp: same_tokens_def tokens_value_def)

lemma frozen_slices:
  assumes "take 6 tokens = EXPECTED_TOKENS"
  shows "expected_epoch_tokens tokens = map ee_sampled EXPECTED_EPOCHS"
    and "expected_plan_requests tokens 11690 = map ee_requests EXPECTED_EPOCHS"
proof -
  have "take 2 tokens = take 2 (take 6 tokens)" "take 2 (drop 2 tokens) = take 2 (drop 2 (take 6 tokens))"
    "take 2 (drop 4 tokens) = take 2 (drop 4 (take 6 tokens))" "tokens ! 1 = take 6 tokens ! 1" "tokens ! 3 = take 6 tokens ! 3"
    by (simp_all add: drop_take)
  with assms show "expected_epoch_tokens tokens = map ee_sampled EXPECTED_EPOCHS"
    and "expected_plan_requests tokens 11690 = map ee_requests EXPECTED_EPOCHS"
    by (simp_all add: expected_epoch_tokens_def expected_plan_requests_def EXPECTED_EPOCHS_def)
qed

lemma verify_epoch_passed:
  assumes sound: "epoch_sound (ee_name expected) u" and checks: "all_checks (epoch_checks tokens input_token index u)"
    and totals: "totals = [PInt i, PInt j, PInt k]"
    and mask: "ee_active_mask expected = (if index = 0 then [1, 0, 0, 0] else [1, 1, 0, 0])"
    and generations: "ee_row_generations expected = (if index = 1 then [1, 2, 0, 0] else if index = 2 then [1, 3, 0, 0] else [1, 0, 0, 0])"
  shows "verify_epoch (PDict (epoch_doc u (epoch_checks tokens input_token index u)), expected) totals = Inr totals' \<longleftrightarrow>
     same_tokens (eu_sampled u) (ee_sampled expected) \<and> same_tokens (actual_plan u) (ee_requests expected)
     \<and> totals' = [PInt (i + 1), PInt (j + 1), PInt (k + 2)]"
proof -
  have c: "er_feed_calls (eu_result u) = 1" "er_fetch_calls (eu_result u) = 1" "er_model_calls (eu_result u) = 2"
    "pl_active_mask (eu_plan u) = ee_active_mask expected" "er_row_generations (eu_result u) = ee_row_generations expected"
    using checks mask generations by (simp_all add: all_checks_def epoch_checks_def Let_def)
  have counts: "map_res (\<lambda>(total, key). rbind (value_item (PDict (epoch_doc u cs)) key) (number_add total))
      (zip totals [''feed_calls'', ''fetch_calls'', ''model_calls'']) = Inr [PInt (i + 1), PInt (j + 1), PInt (k + 2)]" for cs
    using totals c by (simp add: epoch_doc_def Let_def value_item_def dict_item_def number_add_def)
  show ?thesis
    using epoch_calls_accepted [OF sound checks] epoch_plan_accepted [OF checks sound, of expected] c(4,5)
    by (auto simp: verify_epoch_def res_simps counts)
qed

lemma trace_end_of_passed:
  assumes "same_tokens (finals (tr_states t)) FINAL_ACCOUNTING"
    and "\<forall>(k, q) \<in> set (tr_states t). prefix ''FINISHED_'' (qs_status q)"
    and "\<not> tr_cleanup_executed t" and "tr_cleanup_records t = []" and "eu_wall_us u < FIRST_SERVICE_EPOCH_LIMIT_US"
  shows "verify_trace_end (trace_doc t) (PDict (epoch_doc u checks)) = Inr ()"
proof -
  have get: "value_get_or (PDict (epoch_doc u checks)) ''engine_core_step_wall_us'' (PInt 10000000) = Inr (PInt (eu_wall_us u))"
    by (simp add: value_get_or_def epoch_doc_def Let_def)
  have finals: "map (\<lambda>(k, q). (k, ints_value [qs_computed q, qs_outputs q])) (tr_states t)
      = map (\<lambda>(k, ts). (k, ints_value ts)) (finals (tr_states t))"
    by (auto simp: finals_def)
  have below: "value_below (PInt (eu_wall_us u)) 10000000 = Inr True"
    using assms(5) by (simp add: value_below_def FIRST_SERVICE_EPOCH_LIMIT_US_def)
  have "py_get (trace_doc t) ''final_request_state'' = states_value (tr_states t)"
    and "py_get (trace_doc t) ''cleanup'' = PDict [(''model_executed'', PBool False), (''engine_outputs'', PList [])]"
    using assms(3,4) by (simp_all add: trace_doc_def py_get_def)
  then show ?thesis
    using assms(1,2)
    by (simp add: verify_trace_end_def get below res_simps states_value_def request_fields_states finals finished_states
        require_entry_def same_tokens_def tokens_value_def FINAL_ACCOUNTING_def)
qed

section \<open>The result\<close>

lemma validate_cohort_ok:
  "(\<exists>summary. validate_cohort exists (PDict d) = Inr summary) \<longleftrightarrow>
     verify_run_claims d = Inr () \<and> verify_warmup d = Inr () \<and> require_all_checks (py_get d ''checks'') ''top-level'' = Inr ()
     \<and> verify_cohort_artifacts exists d = Inr ()
     \<and> (\<exists>trace epochs totals feeds fetches wall. verify_trace_claims d = Inr trace
         \<and> require_list (py_get trace ''epochs'') 3 ''expected three epochs'' = Inr epochs
         \<and> fold_res verify_epoch (zip epochs EXPECTED_EPOCHS) [PInt 1, PInt 1, PInt 1] = Inr totals
         \<and> verify_trace_end trace (epochs ! 0) = Inr () \<and> number_add (totals ! 0) (PInt (-1)) = Inr feeds
         \<and> number_add (totals ! 1) (PInt (-1)) = Inr fetches
         \<and> value_item (epochs ! 0) ''engine_core_step_wall_us'' = Inr wall)"
  by (simp add: validate_cohort_def rbind_Inr_iff) blast

lemma passed_doc_accepted:
  assumes checks: "all_checks (cohort_checks True w t)" and sound: "trace_sound tokens input_token t u1 u2 u3"
  shows "(\<exists>summary. validate_cohort exists (PDict (passed_doc init classes w t (cohort_artifacts environ baseline digest)))
            = Inr summary) \<longleftrightarrow>
     py_eq classes EXPECTED_CLASSES \<and> sidecar_setup exists environ baseline digest
     \<and> take 6 tokens = EXPECTED_TOKENS \<and> input_token = 11690" (is "?accepted \<longleftrightarrow> ?frozen")
proof -
  let ?d = "passed_doc init classes w t (cohort_artifacts environ baseline digest)"
  let ?c = "\<lambda>i. epoch_checks tokens input_token i"
  let ?e = "\<lambda>i u. PDict (epoch_doc u (?c i u))"
  have t: "tr_epochs t = [(u1, ?c 0 u1), (u2, ?c 1 u2), (u3, ?c 2 u3)]" "tr_observed t = observed_tokens [u1, u2, u3]"
    "tr_expected t = expected_tokens_of tokens"
    and s: "epoch_sound ''epoch-1-a'' u1" "epoch_sound ''epoch-2-a-b'' u2" "epoch_sound ''epoch-3-a-c'' u3"
    using sound by (simp_all add: trace_sound_def)
  obtain unfinished where tc: "trace_checks tokens (tr_epochs t) (tr_states t) (tr_cleanup_executed t)
      (tr_cleanup_records t) unfinished = Inr (tr_checks t)" using sound by (auto simp: trace_sound_def)
  have top: "all_checks (tr_checks t)" "eu_wall_us u1 < FIRST_SERVICE_EPOCH_LIMIT_US"
    using checks t(1) by (simp_all add: all_checks_def cohort_checks_def)
  note passed = trace_checks_passed [OF tc top(1)]
  have c: "all_checks (?c 0 u1)" "all_checks (?c 1 u2)" "all_checks (?c 2 u3)" using passed(1) t(1) by simp_all
  have same: "same_tokens (observed_tokens [u1, u2, u3]) (expected_tokens_of tokens)" using passed(2) t(1) by simp
  have per: "same_tokens (eu_sampled u) (expected_epoch_tokens tokens ! i)
      \<and> same_tokens (actual_plan u) (expected_plan_requests tokens input_token ! i)" if "all_checks (?c i u)" for i u
    using that by (simp add: all_checks_def epoch_checks_def Let_def)
  have v1: "verify_epoch (?e 0 u1, EXPECTED_EPOCHS ! 0) [PInt 1, PInt 1, PInt 1] = Inr totals \<longleftrightarrow>
      same_tokens (eu_sampled u1) (ee_sampled (EXPECTED_EPOCHS ! 0)) \<and> same_tokens (actual_plan u1) (ee_requests (EXPECTED_EPOCHS ! 0))
      \<and> totals = [PInt (1 + 1), PInt (1 + 1), PInt (1 + 2)]" for totals
    by (rule verify_epoch_passed [OF _ c(1) refl]) (simp_all add: EXPECTED_EPOCHS_def s)
  have v2: "verify_epoch (?e 1 u2, EXPECTED_EPOCHS ! 1) [PInt 2, PInt 2, PInt 3] = Inr totals \<longleftrightarrow>
      same_tokens (eu_sampled u2) (ee_sampled (EXPECTED_EPOCHS ! 1)) \<and> same_tokens (actual_plan u2) (ee_requests (EXPECTED_EPOCHS ! 1))
      \<and> totals = [PInt (2 + 1), PInt (2 + 1), PInt (3 + 2)]" for totals
    by (rule verify_epoch_passed [OF _ c(2) refl]) (simp_all add: EXPECTED_EPOCHS_def s)
  have v3: "verify_epoch (?e 2 u3, EXPECTED_EPOCHS ! 2) [PInt 3, PInt 3, PInt 5] = Inr totals \<longleftrightarrow>
      same_tokens (eu_sampled u3) (ee_sampled (EXPECTED_EPOCHS ! 2)) \<and> same_tokens (actual_plan u3) (ee_requests (EXPECTED_EPOCHS ! 2))
      \<and> totals = [PInt (3 + 1), PInt (3 + 1), PInt (5 + 2)]" for totals
    by (rule verify_epoch_passed [OF _ c(3) refl]) (simp_all add: EXPECTED_EPOCHS_def s)
  have trace: "verify_trace_claims ?d = Inr trace \<longleftrightarrow> trace = trace_doc t \<and> take 6 tokens = EXPECTED_TOKENS" for trace
  proof -
    have d: "py_get ?d ''trace'' = PDict (trace_doc t)" by (simp add: passed_doc_def py_get_update)
    have g: "py_get (trace_doc t) ''pass'' = PBool True" "py_get (trace_doc t) ''checks'' = bools_value (tr_checks t)"
      "py_get (trace_doc t) ''observed_tokens'' = tokens_value (observed_tokens [u1, u2, u3])"
      "py_get (trace_doc t) ''expected_tokens'' = tokens_value (expected_tokens_of tokens)"
      using top(1) t(2,3) by (simp_all add: trace_doc_def py_get_def)
    show ?thesis
      using top(1) passed(7) same observed_frozen [OF same]
      by (auto simp: verify_trace_claims_def d g res_simps require_is_def require_entry_def same_tokens_def)
  qed
  have epochs: "require_list (py_get (trace_doc t) ''epochs'') 3 m = Inr xs \<longleftrightarrow> xs = [?e 0 u1, ?e 1 u2, ?e 2 u3]" for m xs
    by (auto simp: trace_doc_def py_get_def res_simps t(1))
  have finish: "verify_trace_end (trace_doc t) (?e 0 u1) = Inr ()"
    by (rule trace_end_of_passed [OF passed(3,4,5,6) top(2)])
  have wall: "value_item (?e 0 u1) ''engine_core_step_wall_us'' = Inr (PInt (eu_wall_us u1))"
    by (simp add: epoch_doc_def Let_def value_item_def dict_item_def)
  have fold: "fold_res verify_epoch (zip [?e 0 u1, ?e 1 u2, ?e 2 u3] EXPECTED_EPOCHS) [PInt 1, PInt 1, PInt 1] = Inr totals
      \<longleftrightarrow> input_token = 11690 \<and> totals = [PInt 4, PInt 4, PInt 7]" if "take 6 tokens = EXPECTED_TOKENS" for totals
  proof -
    have three: "EXPECTED_EPOCHS = [EXPECTED_EPOCHS ! 0, EXPECTED_EPOCHS ! 1, EXPECTED_EPOCHS ! 2]"
      by (simp add: EXPECTED_EPOCHS_def)
    have len: "length EXPECTED_EPOCHS = 3" by (simp add: EXPECTED_EPOCHS_def)
    have sampled: "expected_epoch_tokens tokens ! i = ee_sampled (EXPECTED_EPOCHS ! i)" if "i < 3" for i
      using that frozen_slices(1) [OF \<open>take 6 tokens = EXPECTED_TOKENS\<close>] by (simp add: len)
    have requests: "expected_plan_requests tokens 11690 ! i = ee_requests (EXPECTED_EPOCHS ! i)" if "i < 3" for i
      using that frozen_slices(2) [OF \<open>take 6 tokens = EXPECTED_TOKENS\<close>] by (simp add: len)
    have "input_token = 11690" if "same_tokens (actual_plan u1) (ee_requests (EXPECTED_EPOCHS ! 0))"
    proof -
      have "expected_plan_requests tokens input_token ! 0 = [(''A'', [0, 1, 0, input_token])]"
        and "ee_requests (EXPECTED_EPOCHS ! 0) = [(''A'', [0, 1, 0, 11690])]"
        by (simp_all add: expected_plan_requests_def EXPECTED_EPOCHS_def)
      with that per [OF c(1)] show ?thesis by (simp add: same_single)
    qed
    then show ?thesis
      using per [OF c(1)] per [OF c(2)] per [OF c(3)] sampled requests
      by (subst three) (auto simp: rbind_Inr_iff v1 v2 v3 simp del: One_nat_def)
  qed
  show ?thesis
    unfolding validate_cohort_ok claims_of_passed warmup_of_passed [OF checks] artifacts_of_passed trace
    using checks epochs finish wall fold
    by (auto simp: require_bools passed_doc_def py_get_update cohort_checks_def)
qed

text \<open>C39: the run and the verifier agree. When the engine keeps its contract and the processor's clock does
  not run backwards, the verifier accepts the recorded result of a cohort exactly when the run
  exited with status zero, on the frozen tokens and their input token, with the expected classes,
  and with the sidecar's factory and existing files named in its environment. It finds nothing
  else to reject, although it also checks the generations of the plans, which the run does not.\<close>

theorem cohort_verified_exactly:
  assumes "cohort_run h a e = Inr doc" and "engine_accounts (rh_core h)" and "mono (rh_clock h ProcessTime)"
  shows "(\<exists>summary. validate_cohort exists (PDict doc) = Inr summary) \<longleftrightarrow>
     exit_status doc = 0 \<and> py_eq (py_get doc ''resolved_classes'') EXPECTED_CLASSES \<and> ca_input_token a = 11690
     \<and> (\<exists>baseline tokens digest. rh_resolve h (ca_baseline a) = Inr baseline
          \<and> baseline_tokens h baseline = Inr tokens \<and> take 6 tokens = EXPECTED_TOKENS
          \<and> evidence_sha256 (rh_io h) (rh_files h) baseline = Inr digest
          \<and> sidecar_setup exists (rh_environ h) baseline digest)"
    (is "?accepted \<longleftrightarrow> ?frozen")
proof (cases "exit_status doc = 0")
  case True
  then obtain baseline tokens digest init c w t u1 u2 u3 where "rh_resolve h (ca_baseline a) = Inr baseline"
    and "baseline_tokens h baseline = Inr tokens" and "evidence_sha256 (rh_io h) (rh_files h) baseline = Inr digest"
    and doc: "doc = passed_doc init (cohort_classes (rh_core h) c) w t (cohort_artifacts (rh_environ h) baseline digest)"
    and checks: "all_checks (cohort_checks True w t)" and sound: "trace_sound tokens (ca_input_token a) t u1 u2 u3"
    using cohort_passed [OF assms(1) _ assms(2,3)] by metis
  moreover have "py_get doc ''resolved_classes'' = cohort_classes (rh_core h) c"
    by (simp add: doc passed_doc_def py_get_update)
  ultimately show ?thesis
    using True passed_doc_accepted [OF checks sound, of exists] by auto
next
  case False
  then have "py_get doc ''pass'' \<noteq> PBool True" by (auto simp: exit_status_def)
  then have "verify_run_claims doc \<noteq> Inr ()" by (simp add: verify_run_claims_def res_simps require_is_def)
  with False show ?thesis unfolding validate_cohort_ok by simp
qed

end
