(* ===== verification/CohortExample.thy ===== *)
theory CohortExample
  imports CohortAgree
begin

text \<open>
  A run of the cohort: an engine that schedules the three plans of the frozen trace, answers them
  with the frozen tokens and finishes. Its state counts its steps.
\<close>

definition cohort_request :: "string \<Rightarrow> int \<Rightarrow> int \<Rightarrow> int \<Rightarrow> int \<Rightarrow> epoch_request" where
  "cohort_request name row generation token position =
     \<lparr>rq_id = name, rq_row = row, rq_generation = generation, rq_token_id = token, rq_position = position,
      rq_sequence_length = position + 1, rq_eos_token_id = 151645, rq_scheduler_block_ids = [row],
      rq_device_block_ids = (2 * row, 2 * row + 1), rq_state_owner = (if position = 0 then ''host'' else ''device''),
      rq_kv_import_required = False\<rparr>"

definition cohort_plan :: "int list \<Rightarrow> epoch_request list \<Rightarrow> epoch_plan" where
  "cohort_plan active requests =
     \<lparr>pl_version = 3, pl_graph_batch_size = 4, pl_max_steps = 2, pl_logical_capacity = 8, pl_requests = requests,
      pl_active_mask = active, pl_sampling_mode = 0, pl_graph_variant = 0\<rparr>"

definition cohort_result :: "int list \<Rightarrow> string list \<Rightarrow> epoch_result" where
  "cohort_result generations names =
     (make_result 3 ''device'' 0 2 (map (\<lambda>k. (k, 2)) names))
       \<lparr>er_row_generations := generations, er_wall_us := 900, er_native_cpu_us := 400,
        er_declared_input_bytes := 260, er_declared_output_bytes := 368\<rparr>"

text \<open>What the scheduler's attributes hold after so many steps, the warm-up counted.\<close>

definition cohort_epoch :: "nat \<Rightarrow> (epoch_plan \<times> epoch_result) option" where
  "cohort_epoch n =
     (if n < 2 then None
      else if n = 2 then
        Some (cohort_plan [1, 0, 0, 0] [cohort_request ''A'' 0 1 11690 0], cohort_result [1, 0, 0, 0] [''A''])
      else if n = 3 then
        Some (cohort_plan [1, 1, 0, 0] [cohort_request ''A'' 0 1 374 2, cohort_request ''B'' 1 2 11690 0],
          cohort_result [1, 2, 0, 0] [''A'', ''B''])
      else
        Some (cohort_plan [1, 1, 0, 0] [cohort_request ''A'' 0 1 4185 4, cohort_request ''C'' 1 3 11690 0],
          cohort_result [1, 3, 0, 0] [''A'', ''C'']))"

definition cohort_output :: "string \<Rightarrow> int list \<Rightarrow> core_output" where
  "cohort_output name tokens =
     \<lparr>co_request_id = name, co_new_token_ids = tokens, co_finish_reason = Plain PNone, co_stop_reason = PNone\<rparr>"

definition cohort_outputs :: "nat \<Rightarrow> core_outputs" where
  "cohort_outputs n =
     (if n = 1 then [(0, [cohort_output ''A'' [17728, 374]])]
      else if n = 2 then [(1, [cohort_output ''B'' [17728, 374]]), (0, [cohort_output ''A'' [264, 4185]])]
      else if n = 3 then [(0, [cohort_output ''A'' [19734, 24844]]), (2, [cohort_output ''C'' [17728, 374]])]
      else [])"

definition cohort_state :: "nat \<Rightarrow> string \<Rightarrow> request_state" where
  "cohort_state n name =
     (let count = (if name = ''A'' then 2 * (int n - 1) else 2) in
      \<lparr>qs_status = (if 3 < n then ''FINISHED_LENGTH_CAPPED'' else ''RUNNING''),
       qs_computed = (if 3 < n then (if name = ''A'' then 6 else 2) else count),
       qs_outputs = (if 3 < n then (if name = ''A'' then 6 else 2) else count), qs_all_token_ids = [11690]\<rparr>)"

definition cohort_warmup :: warmup_output where
  "cohort_warmup =
     \<lparr>wo_status = 0, wo_model_calls = 1, wo_feed_calls = 1, wo_fetch_calls = 1, wo_wall_us = 5000,
      wo_commit_state = COMMITTED, wo_native_cpu_us = 700, wo_declared_input_bytes = 260,
      wo_declared_output_bytes = 368, wo_socket_send_calls = 1, wo_socket_receive_calls = 1\<rparr>"

definition cohort_core :: "nat engine_core" where
  "cohort_core =
     \<lparr>ec_configure = (\<lambda>settings n. (Inr (), n)), ec_create = (\<lambda>n. (Inr (), 1)), ec_shutdown = (\<lambda>n. (Inr (), 0)),
      ec_destroy = (\<lambda>n. (Inr (), 0)), ec_distributed = (\<lambda>n. 0 < n),
      ec_scheduler_class = (\<lambda>n. ''vllm_ascend_resident_epoch.scheduler.ResidentEpochScheduler''),
      ec_executor_class = (\<lambda>n. ''vllm.v1.executor.uniproc_executor.UniProcExecutor''),
      ec_worker_class = (\<lambda>n. ''vllm_ascend_resident_epoch.worker.ResidentEpochWorker''),
      ec_resident_scheduler = (\<lambda>n. True), ec_uniproc_executor = (\<lambda>n. True), ec_resident_worker = (\<lambda>n. True),
      ec_config = (\<lambda>n. default_config\<lparr>cfg_max_steps := 2\<rparr>),
      ec_warmup = (\<lambda>n. Some cohort_warmup),
      ec_add_request = (\<lambda>request n. (Inr (), n)),
      ec_step = (\<lambda>n. (Inr (cohort_outputs n, n < 4), Suc n)), ec_post_step = (\<lambda>executed n. (Inr (), n)),
      ec_last_plan = (\<lambda>n. map_option fst (cohort_epoch n)), ec_last_result = (\<lambda>n. map_option snd (cohort_epoch n)),
      ec_last_rejection = (\<lambda>n. None), ec_request = cohort_state, ec_has_requests = (\<lambda>n. n < 4)\<rparr>"

definition frozen_entry :: "string \<Rightarrow> int \<Rightarrow> int list \<Rightarrow> pyval" where
  "frozen_entry name max_steps tokens =
     PDict [(''case'', PStr name), (''max_steps'', PInt max_steps),
       (''steps'', PList (map (\<lambda>(i, token). PDict [(''request'', PInt 0), (''step'', PInt (int i)), (''device_token'', PInt token)])
          (enumerate 0 tokens)))]"

definition frozen_evidence :: pyval where
  "frozen_evidence =
     PDict [(''pass'', PBool True),
       (''cases'', PList [frozen_entry ''k1-b4'' 1 [17728], frozen_entry ''k2-b4'' 2 [17728, 374],
          frozen_entry ''k4-b4'' 4 [17728, 374, 264, 4185],
          frozen_entry ''k8-b4'' 8 [17728, 374, 264, 4185, 19734, 24844, 11, 12]])]"

definition cohort_host :: "nat script_host" where
  "cohort_host =
     \<lparr>rh_core = cohort_core, rh_clock = (\<lambda>clk n. 1000 * int n),
      rh_environ = [(''VLLM_ASCEND_RESIDENT_EPOCH_BACKEND_FACTORY'',
          ''vllm_ascend_resident_epoch.sidecar_backend:create_sidecar_engine''),
        (''VLLM_ASCEND_RESIDENT_EPOCH_SERVER'', ''/opt/server''), (''VLLM_ASCEND_RESIDENT_EPOCH_AIR'', ''/opt/air''),
        (''VLLM_ASCEND_RESIDENT_EPOCH_TILING'', ''/opt/tiling''),
        (''VLLM_ASCEND_RESIDENT_EPOCH_EXTERNAL_WEIGHTS'', ''/opt/weights'')],
      rh_resolve = (\<lambda>path. Inr path),
      rh_io = \<lparr>io_csv_rows = (\<lambda>s. Inr []), io_csv_text = (\<lambda>rows. []), io_json = (\<lambda>s. Inr frozen_evidence),
        io_dumps = (\<lambda>v. []), io_sha = (\<lambda>s. replicate 64 (CHR ''a''))\<rparr>,
      rh_files = [(''/baseline.json'', ''frozen'')], rh_traceback = (\<lambda>e. [])\<rparr>"

definition cohort_arguments :: cohort_args where
  "cohort_arguments =
     \<lparr>ca_model_config = ''/model'', ca_baseline = ''/baseline.json'', ca_output = ''/result.json'', ca_input_token = 11690\<rparr>"

lemma cohort_epoch_accounted: "cohort_epoch n = Some (p, r) \<Longrightarrow> epoch_accounted p r"
proof -
  have first: "validate_against (cohort_result [1, 0, 0, 0] [''A'']) (cohort_plan [1, 0, 0, 0] [cohort_request ''A'' 0 1 11690 0])
      [(''A'', [17728, 374])] = Inr ()" by code_simp
  have second: "validate_against (cohort_result [1, 2, 0, 0] [''A'', ''B''])
      (cohort_plan [1, 1, 0, 0] [cohort_request ''A'' 0 1 374 2, cohort_request ''B'' 1 2 11690 0])
      [(''A'', [264, 4185]), (''B'', [17728, 374])] = Inr ()" by code_simp
  have third: "validate_against (cohort_result [1, 3, 0, 0] [''A'', ''C''])
      (cohort_plan [1, 1, 0, 0] [cohort_request ''A'' 0 1 4185 4, cohort_request ''C'' 1 3 11690 0])
      [(''A'', [19734, 24844]), (''C'', [17728, 374])] = Inr ()" by code_simp
  have "on_device (cohort_result g ks)" for g ks by (simp add: on_device_def cohort_result_def make_result_def)
  with first second third show "cohort_epoch n = Some (p, r) \<Longrightarrow> epoch_accounted p r"
    by (auto simp: cohort_epoch_def epoch_accounted_def split: if_splits)
qed

lemma cohort_core_accounts: "engine_accounts (rh_core cohort_host)"
  by (auto simp: engine_accounts_def cohort_host_def cohort_core_def intro: cohort_epoch_accounted)

section \<open>The run, step by step\<close>

lemmas host_simps = cohort_host_def cohort_core_def

definition cohort_epoch_run :: "nat \<Rightarrow> nat \<Rightarrow> string \<Rightarrow> string list \<Rightarrow> epoch_plan \<Rightarrow> int list \<Rightarrow> epoch_result \<Rightarrow> epoch_run" where
  "cohort_epoch_run n m name ids p g r =
     \<lparr>eu_name = name, eu_executed = (n < 4), eu_wall_us = 8, eu_step_wall_us = 2, eu_step_cpu_us = 2, eu_post_wall_us = 2,
      eu_post_cpu_us = 2, eu_cpu_us = 8, eu_clock_start = 1000 * int m, eu_clock_end = 1000 * int (m + 11),
      eu_plan = p, eu_generations = g, eu_result = r, eu_records = output_records (cohort_outputs n),
      eu_states = map (\<lambda>k. (k, cohort_state (Suc n) k)) ids\<rparr>"

lemma cohort_host_epoch:
  assumes "cohort_epoch (Suc n) = Some (p, r)" and "plan_row_generations p = Inr g"
  shows "execute_epoch cohort_host name ids \<lparr>se_core = n, se_created = c, se_readings = m, se_result = d\<rparr>
     = (Inr (cohort_epoch_run n m name ids p g r),
        \<lparr>se_core = Suc n, se_created = c, se_readings = m + 12, se_result = d\<rparr>)"
  using assms
  by (simp add: execute_epoch_def Let_def run_bind_def now_def on_core_def of_core_def run_some_def run_of_def
      run_return_def request_states_def host_simps cohort_epoch_run_def)

definition cohort_tokens :: "int list" where
  "cohort_tokens = [17728, 374, 264, 4185, 19734, 24844, 11, 12]"

definition cohort_first :: epoch_run where
  "cohort_first = cohort_epoch_run 1 2 ''epoch-1-a'' [''A'']
     (cohort_plan [1, 0, 0, 0] [cohort_request ''A'' 0 1 11690 0]) [1, 0, 0, 0] (cohort_result [1, 0, 0, 0] [''A''])"

definition cohort_second :: epoch_run where
  "cohort_second = cohort_epoch_run 2 14 ''epoch-2-a-b'' [''A'', ''B'']
     (cohort_plan [1, 1, 0, 0] [cohort_request ''A'' 0 1 374 2, cohort_request ''B'' 1 2 11690 0]) [1, 2, 0, 0]
     (cohort_result [1, 2, 0, 0] [''A'', ''B''])"

definition cohort_third :: epoch_run where
  "cohort_third = cohort_epoch_run 3 26 ''epoch-3-a-c'' [''A'', ''B'', ''C'']
     (cohort_plan [1, 1, 0, 0] [cohort_request ''A'' 0 1 4185 4, cohort_request ''C'' 1 3 11690 0]) [1, 3, 0, 0]
     (cohort_result [1, 3, 0, 0] [''A'', ''C''])"

definition cohort_epochs :: "(epoch_run \<times> (string \<times> bool) list) list" where
  "cohort_epochs =
     [(cohort_first, epoch_checks cohort_tokens 11690 0 cohort_first),
      (cohort_second, epoch_checks cohort_tokens 11690 1 cohort_second),
      (cohort_third, epoch_checks cohort_tokens 11690 2 cohort_third)]"

lemma cohort_generations:
  "plan_row_generations (cohort_plan [1, 0, 0, 0] [cohort_request ''A'' 0 1 11690 0]) = Inr [1, 0, 0, 0]"
  "plan_row_generations (cohort_plan [1, 1, 0, 0] [cohort_request ''A'' 0 1 374 2, cohort_request ''B'' 1 2 11690 0]) = Inr [1, 2, 0, 0]"
  "plan_row_generations (cohort_plan [1, 1, 0, 0] [cohort_request ''A'' 0 1 4185 4, cohort_request ''C'' 1 3 11690 0]) = Inr [1, 3, 0, 0]"
  by code_simp+

lemma cohort_epochs_checked:
  "all_checks (epoch_checks cohort_tokens 11690 0 cohort_first)" "all_checks (epoch_checks cohort_tokens 11690 1 cohort_second)"
  "all_checks (epoch_checks cohort_tokens 11690 2 cohort_third)"
  by code_simp+

definition cohort_states :: "(string, request_state) dict" where
  "cohort_states = map (\<lambda>k. (k, cohort_state 5 k)) [''A'', ''B'', ''C'']"

lemma cohort_trace_checks:
  "\<exists>checks. trace_checks cohort_tokens cohort_epochs cohort_states False [] False = Inr checks \<and> all_checks checks"
proof -
  have "row_zero_stable [cohort_first, cohort_second, cohort_third] = Inr True" by code_simp
  moreover have "row_one_replaced [cohort_first, cohort_second, cohort_third] = Inr True" by code_simp
  moreover have "same_tokens (observed_tokens [cohort_first, cohort_second, cohort_third]) (expected_tokens_of cohort_tokens)"
    by code_simp
  moreover have "\<forall>u \<in> set [cohort_first, cohort_second, cohort_third]. ''A'' \<in> set (keys (eu_sampled u))" by code_simp
  moreover have "same_tokens (finals cohort_states) FINAL_ACCOUNTING" by code_simp
  moreover have "\<forall>(k, q) \<in> set cohort_states. prefix ''FINISHED_'' (qs_status q)" by code_simp
  ultimately show ?thesis
    using cohort_epochs_checked
    by (simp add: trace_checks_def Let_def cohort_epochs_def) (simp add: all_checks_def)
qed

lemma cohort_host_trace:
  "\<exists>t s'. run_dynamic_trace cohort_host cohort_tokens 11690 \<lparr>se_core = 1, se_created = c, se_readings = 2, se_result = d\<rparr>
       = (Inr t, s') \<and> all_checks (tr_checks t) \<and> eu_wall_us (fst (tr_epochs t ! 0)) = 8
     \<and> se_core s' = 5 \<and> se_created s' = c \<and> se_result s' = d"
proof -
  obtain checks where "trace_checks cohort_tokens cohort_epochs cohort_states False [] False = Inr checks" "all_checks checks"
    using cohort_trace_checks by blast
  moreover have "execute_epoch cohort_host ''epoch-1-a'' [''A''] \<lparr>se_core = 1, se_created = c, se_readings = 2, se_result = d\<rparr>
      = (Inr cohort_first, \<lparr>se_core = 2, se_created = c, se_readings = 14, se_result = d\<rparr>)"
    using cohort_host_epoch [of 1, OF _ cohort_generations(1)] by (simp add: cohort_first_def cohort_epoch_def)
  moreover have "execute_epoch cohort_host ''epoch-2-a-b'' [''A'', ''B''] \<lparr>se_core = 2, se_created = c, se_readings = 14, se_result = d\<rparr>
      = (Inr cohort_second, \<lparr>se_core = 3, se_created = c, se_readings = 26, se_result = d\<rparr>)"
    using cohort_host_epoch [of 2, OF _ cohort_generations(2)] by (simp add: cohort_second_def cohort_epoch_def)
  moreover have "execute_epoch cohort_host ''epoch-3-a-c'' [''A'', ''B'', ''C''] \<lparr>se_core = 3, se_created = c, se_readings = 26, se_result = d\<rparr>
      = (Inr cohort_third, \<lparr>se_core = 4, se_created = c, se_readings = 38, se_result = d\<rparr>)"
    using cohort_host_epoch [of 3, OF _ cohort_generations(3)] by (simp add: cohort_third_def cohort_epoch_def)
  moreover have "add_request cohort_host name client k token s = (Inr (), s)" for name client k token s
    by (simp add: add_request_def on_core_def host_simps)
  moreover have "length cohort_tokens = 8" by (simp add: cohort_tokens_def)
  moreover have "output_records (cohort_outputs 4) = []" by (simp add: output_records_def cohort_outputs_def)
  moreover have "eu_wall_us cohort_first = 8" by (simp add: cohort_first_def cohort_epoch_run_def)
  moreover have "on_core (ec_step (rh_core cohort_host)) \<lparr>se_core = 4, se_created = c, se_readings = 38, se_result = d\<rparr>
      = (Inr (cohort_outputs 4, False), \<lparr>se_core = 5, se_created = c, se_readings = 38, se_result = d\<rparr>)"
    and "on_core (ec_post_step (rh_core cohort_host) b) s = (Inr (), s)"
    and "request_states (rh_core cohort_host) [''A'', ''B'', ''C''] 5 = cohort_states"
    and "ec_has_requests (rh_core cohort_host) 5 = False" for b s
    by (simp_all add: on_core_def host_simps request_states_def cohort_states_def)
  ultimately show ?thesis
    by (simp add: run_dynamic_trace_def Let_def run_bind_def run_if_def run_return_def of_core_def run_of_def
        cohort_epochs_def numeral_2_eq_2)
qed

lemma cohort_host_baseline: "baseline_tokens cohort_host ''/baseline.json'' = Inr cohort_tokens"
proof -
  have "case baseline_tokens cohort_host ''/baseline.json'' of Inl e \<Rightarrow> False | Inr tokens \<Rightarrow> tokens = cohort_tokens"
    by code_simp
  then show ?thesis by (auto split: sum.splits)
qed

lemma cohort_host_digest:
  "evidence_sha256 (rh_io cohort_host) (rh_files cohort_host) ''/baseline.json'' = Inr (replicate 64 (CHR ''a''))"
  by (simp add: host_simps evidence_sha256_def read_evidence_def)

lemma cohort_host_measure:
  "\<exists>s'. measure_cohort cohort_host cohort_arguments ''/baseline.json'' cohort_tokens cohort_warmup
        \<lparr>se_core = 1, se_created = True, se_readings = 2, se_result = d\<rparr> = (Inr (), s')
     \<and> se_core s' = 5 \<and> se_created s' \<and> py_get (se_result s') ''pass'' = PBool True
     \<and> py_get (se_result s') ''resolved_classes'' = py_get d ''resolved_classes''"
proof -
  obtain t s1 where trace: "run_dynamic_trace cohort_host cohort_tokens 11690
      \<lparr>se_core = 1, se_created = True, se_readings = 2,
       se_result = AList.update ''warmup'' (PDict (warmup_doc cohort_warmup))
         (AList.update ''distributed_initialized_during_engine'' (PBool True) d)\<rparr> = (Inr t, s1)"
    and passed: "all_checks (tr_checks t)" "eu_wall_us (fst (tr_epochs t ! 0)) = 8"
    and left: "se_core s1 = 5" "se_created s1"
      "se_result s1 = AList.update ''warmup'' (PDict (warmup_doc cohort_warmup))
         (AList.update ''distributed_initialized_during_engine'' (PBool True) d)"
    using cohort_host_trace by metis
  have "all_checks (cohort_checks True cohort_warmup t)"
    using passed by (simp add: all_checks_def cohort_checks_def cohort_warmup_def FIRST_SERVICE_EPOCH_LIMIT_US_def)
  moreover have "ec_distributed (rh_core cohort_host) 1" by (simp add: host_simps)
  moreover have "ca_input_token cohort_arguments = 11690" by (simp add: cohort_arguments_def)
  ultimately show ?thesis
    by (simp add: measure_cohort_def Let_def run_bind_def of_core_def record_entry_def run_of_def trace left
        cohort_host_digest py_get_update del: One_nat_def)
qed

lemma cohort_host_run:
  "\<exists>doc. cohort_run cohort_host cohort_arguments 0 = Inr doc \<and> exit_status doc = 0
     \<and> py_eq (py_get doc ''resolved_classes'') EXPECTED_CLASSES"
proof -
  let ?s = "\<lparr>se_core = 0, se_created = False, se_readings = 0, se_result = initial_result\<rparr>"
  let ?d = "AList.update ''resolved_classes'' (cohort_classes cohort_core 1)
     (AList.update ''engine_core_init_wall_us'' (PInt 1) initial_result)"
  obtain s1 where "measure_cohort cohort_host cohort_arguments ''/baseline.json'' cohort_tokens cohort_warmup
      \<lparr>se_core = 1, se_created = True, se_readings = 2, se_result = ?d\<rparr> = (Inr (), s1)"
    and s1: "se_core s1 = 5" "se_created s1" "py_get (se_result s1) ''pass'' = PBool True"
      "py_get (se_result s1) ''resolved_classes'' = cohort_classes cohort_core 1"
    using cohort_host_measure [of ?d] by (auto simp: py_get_update)
  moreover have "rh_resolve cohort_host path = Inr path" "rh_core cohort_host = cohort_core"
    "rh_clock cohort_host clk n = 1000 * int n" for path clk n
    by (simp_all add: cohort_host_def)
  moreover have "ec_configure cohort_core settings n = (Inr (), n)" "ec_create cohort_core n = (Inr (), 1)"
    "ec_shutdown cohort_core n = (Inr (), 0)" "cohort_engine cohort_core n = Inr cohort_warmup" for settings n
    by (simp_all add: cohort_core_def cohort_engine_def default_config_def)
  moreover have "ca_baseline cohort_arguments = ''/baseline.json''" by (simp add: cohort_arguments_def)
  ultimately have "cohort_body cohort_host cohort_arguments ?s = (Inr (), s1)"
    by (simp add: cohort_body_def Let_def run_bind_def run_of_def on_core_def of_core_def now_def create_engine_def
        record_entry_def cohort_host_baseline numeral_2_eq_2 del: One_nat_def)
  moreover have "py_eq (cohort_classes cohort_core 1) EXPECTED_CLASSES"
    by (simp add: cohort_classes_def cohort_core_def EXPECTED_CLASSES_def)
  moreover have "ec_shutdown (rh_core cohort_host) n = (Inr (), 0)" "\<not> ec_distributed (rh_core cohort_host) 0" for n
    by (simp_all add: host_simps)
  ultimately show ?thesis
    using s1
    by (simp add: cohort_run_def run_to_end_def record_error_def shut_down_def record_leftovers_def run_bind_def
        on_core_def of_core_def record_entry_def run_return_def exit_status_def py_get_update)
qed

theorem cohort_verified_exactly_witness:
  "\<exists>doc summary. cohort_run cohort_host cohort_arguments 0 = Inr doc
     \<and> validate_cohort (\<lambda>path. True) (PDict doc) = Inr summary"
proof -
  obtain doc where run: "cohort_run cohort_host cohort_arguments 0 = Inr doc" and passed: "exit_status doc = 0"
    "py_eq (py_get doc ''resolved_classes'') EXPECTED_CLASSES"
    using cohort_host_run by blast
  have tokens: "take 6 cohort_tokens = EXPECTED_TOKENS" by (simp add: cohort_tokens_def EXPECTED_TOKENS_def)
  have clock: "mono (rh_clock cohort_host ProcessTime)" by (simp add: cohort_host_def mono_def)
  have environ: "sidecar_setup (\<lambda>path. True) (rh_environ cohort_host) ''/baseline.json'' (replicate 64 (CHR ''a''))"
    by code_simp
  have "rh_resolve cohort_host (ca_baseline cohort_arguments) = Inr ''/baseline.json''" "ca_input_token cohort_arguments = 11690"
    by (simp_all add: cohort_host_def cohort_arguments_def)
  with cohort_verified_exactly [OF run cohort_core_accounts clock, of "\<lambda>path. True"] passed tokens environ run cohort_host_baseline cohort_host_digest
  show ?thesis by blast
qed

end
