(* ===== verification/Spec2Isabelle.thy ===== *)
theory Spec2Isabelle
  imports CoreProps SchedulerProps KvProps StreamProps TransportAgree PluginProps Worker OpsProps
    BoundedLog TransferExample WeightExample ComparisonExample Preparation CohortExample
begin

text \<open>
  Cruise, the package \<open>src/src/vllm_ascend_resident_epoch\<close>: vLLM hands a batch of plain greedy
  requests, with its model and KV state, to an Ascend device for an \<^emph>\<open>epoch\<close> of 1, 2, 4 or 8
  decoding steps. This library models the Python package and proves what makes it correct.

  \<^bold>\<open>How the parts work together.\<close> The command line (\<open>cli.py\<close>) loads a runtime configuration
  (\<open>runtime_config.py\<close>) against a profile of the compatibility manifest (\<open>compatibility.py\<close>),
  checks the host (\<open>doctor.py\<close>) and runs vLLM in a managed scratch directory with an environment
  from which the scheduler and the worker read their limits (\<open>config.py\<close>). The scheduler
  (\<open>scheduler.py\<close>) decides with \<open>eligibility.py\<close> whether a batch can be an epoch, assigns rows and
  generations, and attaches a plan (\<open>contract.py\<close>). The patched worker (\<open>plugin.py\<close>, or the
  dedicated \<open>worker.py\<close>) captures the KV state of importing requests (\<open>kv_transfer.py\<close>) and calls
  the backend (\<open>backend.py\<close>), whose engine is the sidecar process (\<open>sidecar_backend.py\<close>), the
  native library (\<open>ctypes_backend.py\<close>) or the test engine (\<open>testing.py\<close>). The scheduler accounts
  the result. \<open>benchmark_metrics.py\<close> journals it; \<open>abi.py\<close> sizes the tensors.

  Beside the package are scripts. \<open>materialize_runtime_weights.py\<close> publishes the weights the
  device reads; \<open>storage_guard/bounded_log.py\<close> keeps the logs of the runs bounded;
  \<open>summarize_runtime_memcpy.py\<close> computes from the traces of a run which bytes an epoch moved,
  \<open>summarize_msprof_transfers.py\<close> does so from the profiler's reports;
  \<open>analyze_abi_comparison.py\<close> compares the old and the new ABI over four benchmark blocks with both
  summaries at hand, and \<open>verify_abi_comparison_result.py\<close> recomputes both before the comparison
  is accepted. \<open>run_multi_epoch_cohort.py\<close> drives vLLM through three epochs of a resident cohort and
  records them; \<open>verify_multi_epoch_cohort_result.py\<close> checks the record.

  \<^bold>\<open>Conventions\<close> (\<open>Prelude\<close>, \<open>PyVal\<close>). A function that may raise returns \<open>exn + 'a\<close>; one that
  changes an object also returns the new state, together with the exception if there is one.
  Dictionaries are association lists in insertion order; integers are unbounded, and words where
  the wire format or the C ABI fixes the width; dynamic values are \<open>pyval\<close>.

  \<^bold>\<open>Theories, parts and lemmas.\<close>

  \<^item> \<open>Config\<close>, \<open>Eligibility\<close>, \<open>Contract\<close>, \<open>Abi\<close>, \<open>Metrics\<close>: one theory per file of these names.
    Each check is shown equivalent to a declarative predicate (the locale \<open>checked\<close>).
    \<open>CoreProps\<close> holds their properties.
  \<^item> \<open>Scheduler\<close>: \<open>ResidentEpochScheduler\<close> over an abstract vLLM scheduler, with the attributes
    of the object in the record \<open>sched\<close> and vLLM's requests behind references. \<open>SchedulerRows\<close>,
    \<open>SchedulerPlans\<close>, \<open>SchedulerSteps\<close>: the row table, the plans it builds, and the runs of the
    engine as a step relation with its invariant. \<open>SchedulerProps\<close> holds the properties.
  \<^item> \<open>KvTransfer\<close>, \<open>KvCapture\<close>, \<open>KvRows\<close>, \<open>KvSnapshot\<close>, \<open>KvProps\<close>: \<open>kv_transfer.py\<close>, from the
    device tensors and ACL calls to the snapshot file, whose states under any fault are a list.
  \<^item> \<open>Backend\<close>, \<open>Testing\<close>, \<open>Sidecar\<close>, \<open>SidecarStart\<close>, \<open>Ctypes\<close>: the engines as interpretations of
    the locale \<open>native_engine\<close>: a \<open>PREPARED\<close> error means the device's state was not touched.
    \<open>Wire\<close> packs the messages. \<open>TransportProps\<close>, \<open>StreamProps\<close> and \<open>TransportAgree\<close> state the
    contract of the backend, the stream of the sidecar, and the agreement of the two transports.
  \<^item> \<open>Plugin\<close>, \<open>PluginProps\<close>, \<open>Worker\<close>: the patched and the dedicated worker; when the stock model
    may run in the place of an epoch.
  \<^item> \<open>Paths\<close>, \<open>Compatibility\<close>, \<open>RuntimeConfig\<close>, \<open>RuntimePaths\<close>: pure paths, the manifest and the
    configuration. What they read of the host is the record \<open>filesystem\<close>.
  \<^item> \<open>Scratch\<close>, \<open>ScratchProps\<close>: the scratch root, the run directory and the supervised command of
    \<open>cli.py\<close>, over a disk that maps resolved paths to folders and texts; any write, folder or
    removal may fail, and leave the part the host's record says.
  \<^item> \<open>Patterns\<close>, \<open>Doctor\<close>, \<open>DoctorChecks\<close>, \<open>DoctorProps\<close>: a backtracking matcher for the regular
    expressions of \<open>doctor.py\<close>, its checks, and their exactness (the locale \<open>exact_check\<close>).
  \<^item> \<open>Cli\<close>: \<open>main\<close> over the parsed arguments. \<open>RuntimeExample\<close>, \<open>DoctorExample\<close>: a manifest, a
    configuration and a host that go together. \<open>OpsProps\<close>: the properties from the manifest to
    the engine's command line, of the scratch and of the doctor.
  \<^item> \<open>BoundedLog\<close>: the log as a function of the stream, however it is cut into reads.
  \<^item> \<open>Evidence\<close>, \<open>TransferTrace\<close>, \<open>TransferVerify\<close>: recorded files, the summary of the transfer
    traces and its verifier, which share their tables of APIs. \<open>TransferProps\<close> shows that every
    record is counted once and what an observed block carried; \<open>TransferAgree\<close>, that the verifier
    accepts what the summary computes and nothing else; \<open>TransferExample\<close> is a trace.
  \<^item> \<open>Comparison\<close>, \<open>ComparisonVerify\<close>: the analysis, and the verifier with the artifacts it requires.
    \<open>ComparisonProps\<close> shows what an accepted comparison rests on; \<open>ComparisonAgree\<close>, what the verifier
    adds to an analysis that passed. \<open>Profiler\<close>, \<open>ProfilerProps\<close>: the profiler's summary, which
    neither finds fault with, and its totals. \<open>ComparisonPipeline\<close> and \<open>SummaryPasses\<close>, that a run the summarizer
    observed goes through both; \<open>ComparisonExample\<close> is such a run.
  \<^item> \<open>NativeRuns\<close>, \<open>CohortRun\<close>, \<open>CohortVerify\<close>: what the scripts share that drive vLLM, the run of the
    cohort and the verifier of its result. A run is a function of a session: the state of vLLM's
    engine core, which is a parameter, the readings of the clocks, and the result filled in so far.
    \<open>CohortProps\<close> says what a run leaves there; \<open>CohortAgree\<close>, that the verifier accepts exactly the
    runs that passed on the frozen inputs; \<open>CohortExample\<close> is such a run.
  \<^item> \<open>Preparation\<close>: the configurations that are made from templates.
  \<^item> \<open>WeightStore\<close>, \<open>WeightProps\<close>, \<open>WeightPublish\<close>, \<open>WeightReuse\<close>: the weights over the disk of
    \<open>Scratch\<close>, as actions that may fail at every step; the frozen counts, the publication, and the
    reuse of a bundle. \<open>WeightExample\<close> is a host where a bundle is published.

  \<^bold>\<open>Bounds and fuel.\<close> Recursion is structural or has a measure, apart from three loops with fuel.
  \<open>chunks_of\<close> has the length of the file, and every chunk but an empty one takes a byte.
  \<open>find_from\<close> has one more than the length of the text, and every match of the patterns used
  is longer than zero. The loops that read a socket or wait for a process consume the list of
  what the outside does, which ends at the deadline.

  \<^bold>\<open>Not modelled.\<close> The C++ server, the UDF and the controller (\<open>native\<close>, \<open>controller\<close>) are in
  another language: the package's side of their protocols is modelled, their answers are
  parameters. So are vLLM, torch, the ACL runtime, \<open>safetensors\<close>, \<open>json\<close>, \<open>csv\<close>, SHA-256, \<open>argparse\<close>
  and the processes. Strings are ASCII where they are parsed. Floats are exact
  rationals; where the comparison rounds, the rounding is a parameter. The verifier of the ABI
  comparison is modelled as it runs by default, not with \<open>--no-require-artifacts\<close>. The verifiers of
  the engine core's result and of the minimal ABI's source, which compare recorded fields with
  constants, the other drivers at the top of the repository but for the functions the cohort's run
  uses, \<open>scripts\<close>, \<open>experiments\<close> and \<open>history\<close> are left out.
\<close>

end
